(* ===== verification/OutcomePrelude.thy ===== *)
theory OutcomePrelude
  imports Main "HOL-Library.Char_ord" "HOL-Library.List_Lexorder"
begin

text \<open>
  The prelude of the development: the error values and the result type the modelled
  functions share, Python strings restricted to ASCII, decimal and hexadecimal text,
  UUIDs, points in time, and the generic lemmas on lists that several components use.
\<close>

section \<open>Results and exceptions\<close>

text \<open>
  A Python exception is a value.  \<open>exn\<close> holds the exceptions the domain modules raise;
  the adapters that add their own kinds (SQL errors, HTTP statuses) have their own types.
\<close>

datatype exn =
    DomainError string
  | PermissionError string
  | ValueError string
  | KeyError string
  | TypeError
  | IndexError
  | DecimalError
  | OverflowError

fun ebind :: "'e + 'a \<Rightarrow> ('a \<Rightarrow> 'e + 'b) \<Rightarrow> 'e + 'b" where
  "ebind (Inl e) f = Inl e"
| "ebind (Inr x) f = f x"

fun map_error :: "('e \<Rightarrow> 'f) \<Rightarrow> 'e + 'a \<Rightarrow> 'f + 'a" where
  "map_error g (Inl e) = Inl (g e)"
| "map_error g (Inr x) = Inr x"

fun is_ok :: "'e + 'a \<Rightarrow> bool" where
  "is_ok (Inl e) = False"
| "is_ok (Inr x) = True"

definition check :: "bool \<Rightarrow> 'e \<Rightarrow> 'e + unit" where
  "check b e = (if b then Inr () else Inl e)"

lemma ebind_eq_Inr: "ebind m f = Inr y \<longleftrightarrow> (\<exists>x. m = Inr x \<and> f x = Inr y)"
  by (cases m) auto

lemma ebind_eq_Inl:
  "ebind m f = Inl e \<longleftrightarrow> m = Inl e \<or> (\<exists>x. m = Inr x \<and> f x = Inl e)"
  by (cases m) auto

lemma check_Inr [simp]: "check b e = Inr u \<longleftrightarrow> b"
  by (simp add: check_def)

lemma check_Inl [simp]: "check b e = Inl e' \<longleftrightarrow> \<not> b \<and> e = e'"
  by (simp add: check_def)

lemma check_True [simp]: "check True e = Inr ()"
  by (simp add: check_def)

lemma check_False [simp]: "check False e = Inl e"
  by (simp add: check_def)

lemma is_ok_iff: "is_ok m \<longleftrightarrow> (\<exists>x. m = Inr x)"
  by (cases m) auto

lemma map_error_eq_Inr [simp]: "map_error g m = Inr x \<longleftrightarrow> m = Inr x"
  by (cases m) auto

lemmas result_simps = ebind_eq_Inr ebind_eq_Inl

text \<open>A loop that may raise: the elements from left to right, stopping at the first error.\<close>

fun mapM :: "('a \<Rightarrow> 'e + 'b) \<Rightarrow> 'a list \<Rightarrow> 'e + 'b list" where
  "mapM f [] = Inr []"
| "mapM f (x # xs) = ebind (f x) (\<lambda>y. ebind (mapM f xs) (\<lambda>ys. Inr (y # ys)))"

fun filterM :: "('a \<Rightarrow> 'e + bool) \<Rightarrow> 'a list \<Rightarrow> 'e + 'a list" where
  "filterM f [] = Inr []"
| "filterM f (x # xs) =
     ebind (f x) (\<lambda>b. ebind (filterM f xs) (\<lambda>ys. Inr (if b then x # ys else ys)))"

lemma mapM_Inr: "mapM f xs = Inr ys \<longleftrightarrow> list_all2 (\<lambda>x y. f x = Inr y) xs ys"
  by (induction xs arbitrary: ys) (auto simp: ebind_eq_Inr list_all2_Cons1)

lemma filterM_pure: "\<forall>x \<in> set xs. f x = Inr (p x) \<Longrightarrow> filterM f xs = Inr (filter p xs)"
  by (induction xs) auto

lemma filterM_Inr:
  "filterM f xs = Inr ys \<Longrightarrow>
     (\<forall>x \<in> set xs. \<exists>b. f x = Inr b) \<and> ys = filter (\<lambda>x. f x = Inr True) xs"
  by (induction xs arbitrary: ys) (auto simp: ebind_eq_Inr split: if_splits)

section \<open>ASCII strings\<close>

definition code :: "char \<Rightarrow> nat" where
  "code c = of_char c"

definition is_lower :: "char \<Rightarrow> bool" where
  "is_lower c \<longleftrightarrow> 97 \<le> code c \<and> code c \<le> 122"

definition is_upper :: "char \<Rightarrow> bool" where
  "is_upper c \<longleftrightarrow> 65 \<le> code c \<and> code c \<le> 90"

definition is_digit :: "char \<Rightarrow> bool" where
  "is_digit c \<longleftrightarrow> 48 \<le> code c \<and> code c \<le> 57"

definition is_hex :: "char \<Rightarrow> bool" where
  "is_hex c \<longleftrightarrow> c \<in> set ''0123456789abcdef''"

definition upper_char :: "char \<Rightarrow> char" where
  "upper_char c = (if is_lower c then char_of (code c - 32) else c)"

definition lower_char :: "char \<Rightarrow> char" where
  "lower_char c = (if is_upper c then char_of (code c + 32) else c)"

definition upper :: "string \<Rightarrow> string" where
  "upper s = map upper_char s"

definition lower :: "string \<Rightarrow> string" where
  "lower s = map lower_char s"

definition isalpha :: "string \<Rightarrow> bool" where
  "isalpha s \<longleftrightarrow> s \<noteq> [] \<and> (\<forall>c \<in> set s. is_upper c \<or> is_lower c)"

definition isupper :: "string \<Rightarrow> bool" where
  "isupper s \<longleftrightarrow> (\<exists>c \<in> set s. is_upper c) \<and> (\<forall>c \<in> set s. \<not> is_lower c)"

definition is_space :: "char \<Rightarrow> bool" where
  "is_space c \<longleftrightarrow> code c = 32 \<or> (9 \<le> code c \<and> code c \<le> 13) \<or> (28 \<le> code c \<and> code c \<le> 31) \<or>
     code c = 133 \<or> code c = 160"

text \<open>\<open>not value.strip()\<close>: nothing is left once white space is removed.\<close>

definition blank :: "string \<Rightarrow> bool" where
  "blank s \<longleftrightarrow> (\<forall>c \<in> set s. is_space c)"

definition starts_with :: "string \<Rightarrow> string \<Rightarrow> bool" where
  "starts_with p s \<longleftrightarrow> take (length p) s = p"

text \<open>Characters of numerals, by their bits, so that the simplifier evaluates them.\<close>

lemma char_of_eval:
  "char_of (n :: nat) = Char (odd n) (odd (n div 2)) (odd (n div 4)) (odd (n div 8))
     (odd (n div 16)) (odd (n div 32)) (odd (n div 64)) (odd (n div 128))"
  by (simp add: char_of_def bit_iff_odd)

lemma code_lt [simp]: "code c < 256"
  by (simp add: code_def)

lemma char_of_code [simp]: "char_of (code c) = c"
  by (simp add: code_def)

lemma code_char_of: "n < 256 \<Longrightarrow> code (char_of n) = n"
  by (simp add: code_def of_char_of)

lemma code_inject [simp]: "code c = code d \<longleftrightarrow> c = d"
  by (metis char_of_code)

lemma upper_char_not_lower [simp]: "\<not> is_lower (upper_char c)"
  by (auto simp: upper_char_def is_lower_def code_char_of)

lemma upper_char_idem [simp]: "upper_char (upper_char c) = upper_char c"
  by (simp add: upper_char_def [of "upper_char c"])

lemma upper_idem [simp]: "upper (upper s) = upper s"
  by (simp add: upper_def comp_def)

lemma length_upper [simp]: "length (upper s) = length s"
  by (simp add: upper_def)

lemma starts_with_append [simp]: "starts_with p (p @ s)"
  by (simp add: starts_with_def)

lemma starts_with_iff: "starts_with p s \<longleftrightarrow> (\<exists>t. s = p @ t)"
  by (metis append_eq_conv_conj append_take_drop_id starts_with_def)

section \<open>Decimal and hexadecimal text\<close>

definition digit :: "nat \<Rightarrow> char" where
  "digit d = char_of (48 + d mod 10)"

definition digit_val :: "char \<Rightarrow> nat" where
  "digit_val c = code c - 48"

fun nat_str :: "nat \<Rightarrow> string" where
  "nat_str n = (if n < 10 then [digit n] else nat_str (n div 10) @ [digit (n mod 10)])"

declare nat_str.simps [simp del]

definition int_str :: "int \<Rightarrow> string" where
  "int_str i = (if i < 0 then ''-'' @ nat_str (nat (- i)) else nat_str (nat i))"

definition str_nat :: "string \<Rightarrow> nat" where
  "str_nat s = foldl (\<lambda>n c. 10 * n + digit_val c) 0 s"

lemma code_digit: "code (digit d) = 48 + d mod 10"
  by (simp add: digit_def code_char_of)

lemma is_digit_digit [simp]: "is_digit (digit d)"
proof -
  have "d mod 10 < 10" by simp
  then show ?thesis by (simp add: is_digit_def code_digit)
qed

lemma digit_val_digit [simp]: "digit_val (digit d) = d mod 10"
  by (simp add: digit_val_def code_digit)

lemma nat_str_not_Nil [simp]: "nat_str n \<noteq> []"
  by (subst nat_str.simps) simp

lemma nat_str_digits: "\<forall>c \<in> set (nat_str n). is_digit c"
proof (induction n rule: nat_str.induct)
  case (1 n)
  then show ?case by (subst nat_str.simps) auto
qed

lemma str_nat_snoc: "str_nat (s @ [c]) = 10 * str_nat s + digit_val c"
  by (simp add: str_nat_def)

lemma str_nat_nat_str [simp]: "str_nat (nat_str n) = n"
proof (induction n rule: nat_str.induct)
  case (1 n)
  show ?case
  proof (cases "n < 10")
    case True
    then show ?thesis by (simp add: nat_str.simps [of n] str_nat_def)
  next
    case False
    with 1 show ?thesis by (simp add: nat_str.simps [of n] str_nat_snoc)
  qed
qed

lemma nat_str_inject [simp]: "nat_str m = nat_str n \<longleftrightarrow> m = n"
  by (metis str_nat_nat_str)

definition hex_digit :: "nat \<Rightarrow> char" where
  "hex_digit d = ''0123456789abcdef'' ! (d mod 16)"

fun hex_pad :: "nat \<Rightarrow> nat \<Rightarrow> string" where
  "hex_pad 0 n = []"
| "hex_pad (Suc w) n = hex_pad w (n div 16) @ [hex_digit n]"

lemma hex_pad_numeral:
  "hex_pad (numeral k) n = hex_pad (pred_numeral k) (n div 16) @ [hex_digit n]"
  unfolding numeral_eq_Suc [of k] hex_pad.simps ..

definition hex_val :: "char \<Rightarrow> nat" where
  "hex_val c = (if is_digit c then code c - 48
     else if is_lower c then code c - 87 else code c - 55)"

definition hex_nat :: "string \<Rightarrow> nat" where
  "hex_nat s = foldl (\<lambda>n c. 16 * n + hex_val c) 0 s"

text \<open>A hexadecimal digit as \<open>int(s, 16)\<close> reads it: either case.\<close>

definition is_hex_any :: "char \<Rightarrow> bool" where
  "is_hex_any c \<longleftrightarrow> c \<in> set ''0123456789abcdefABCDEF''"

lemma hex_digit_cases:
  obtains "hex_digit d = CHR ''0''" "d mod 16 = 0" | "hex_digit d = CHR ''1''" "d mod 16 = 1"
  | "hex_digit d = CHR ''2''" "d mod 16 = 2" | "hex_digit d = CHR ''3''" "d mod 16 = 3"
  | "hex_digit d = CHR ''4''" "d mod 16 = 4" | "hex_digit d = CHR ''5''" "d mod 16 = 5"
  | "hex_digit d = CHR ''6''" "d mod 16 = 6" | "hex_digit d = CHR ''7''" "d mod 16 = 7"
  | "hex_digit d = CHR ''8''" "d mod 16 = 8" | "hex_digit d = CHR ''9''" "d mod 16 = 9"
  | "hex_digit d = CHR ''a''" "d mod 16 = 10" | "hex_digit d = CHR ''b''" "d mod 16 = 11"
  | "hex_digit d = CHR ''c''" "d mod 16 = 12" | "hex_digit d = CHR ''d''" "d mod 16 = 13"
  | "hex_digit d = CHR ''e''" "d mod 16 = 14" | "hex_digit d = CHR ''f''" "d mod 16 = 15"
proof -
  define r where "r = d mod 16"
  have "r < 16" by (simp add: r_def)
  then have "r = 0 \<or> r = 1 \<or> r = 2 \<or> r = 3 \<or> r = 4 \<or> r = 5 \<or> r = 6 \<or> r = 7 \<or> r = 8 \<or>
      r = 9 \<or> r = 10 \<or> r = 11 \<or> r = 12 \<or> r = 13 \<or> r = 14 \<or> r = 15"
    by arith
  then show thesis using that unfolding hex_digit_def r_def [symmetric]
    by (elim disjE) simp_all
qed

lemma is_hex_hex_digit [simp]: "is_hex (hex_digit d)"
  by (rule hex_digit_cases [of d]) (simp_all add: is_hex_def)

lemma hex_val_hex_digit [simp]: "hex_val (hex_digit d) = d mod 16"
  by (rule hex_digit_cases [of d]) (simp_all add: hex_val_def is_digit_def is_lower_def code_def)

lemma length_hex_pad [simp]: "length (hex_pad w n) = w"
  by (induction w arbitrary: n) auto

lemma hex_pad_is_hex: "\<forall>c \<in> set (hex_pad w n). is_hex c"
  by (induction w arbitrary: n) auto

lemma hex_nat_hex_pad: "hex_nat (hex_pad w n) = n mod 16 ^ w"
proof (induction w arbitrary: n)
  case 0
  then show ?case by (simp add: hex_nat_def)
next
  case (Suc w)
  have "hex_nat (hex_pad (Suc w) n) = 16 * hex_nat (hex_pad w (n div 16)) + n mod 16"
    by (simp add: hex_nat_def)
  also have "\<dots> = n mod 16 ^ Suc w"
    by (simp add: Suc.IH mod_mult2_eq [of n 16 "16 ^ w"])
  finally show ?case .
qed

section \<open>UUIDs\<close>

text \<open>
  A UUID is its 128-bit value; \<open>uuid_str\<close> is \<open>str(u)\<close>, \<open>uuid_hex\<close> is \<open>u.hex\<close>, and
  \<open>uuid_of_str\<close> is the constructor \<open>UUID(s)\<close>, which drops \<open>urn:\<close>, \<open>uuid:\<close>, braces around
  and hyphens, wants 32 characters and reads them with \<open>int(s, 16)\<close>.
\<close>

type_synonym uuid = nat

definition valid_uuid :: "uuid \<Rightarrow> bool" where
  "valid_uuid u \<longleftrightarrow> u < 16 ^ 32"

definition uuid_hex :: "uuid \<Rightarrow> string" where
  "uuid_hex u = hex_pad 32 u"

definition uuid_str :: "uuid \<Rightarrow> string" where
  "uuid_str u = (let h = uuid_hex u in
     take 8 h @ ''-'' @ take 4 (drop 8 h) @ ''-'' @ take 4 (drop 12 h) @ ''-'' @
     take 4 (drop 16 h) @ ''-'' @ drop 20 h)"

text \<open>\<open>s.replace(p, '')\<close>, for a nonempty \<open>p\<close>, and \<open>s.strip(chars)\<close>.\<close>

fun delete_all :: "string \<Rightarrow> string \<Rightarrow> string" where
  "delete_all p [] = []"
| "delete_all p (c # s) = (if starts_with p (c # s) then delete_all p (drop (length p - 1) s) else c # delete_all p s)"

definition strip_chars :: "(char \<Rightarrow> bool) \<Rightarrow> string \<Rightarrow> string" where
  "strip_chars p s = rev (dropWhile p (rev (dropWhile p s)))"

definition strip :: "string \<Rightarrow> string" where
  "strip s = strip_chars is_space s"

text \<open>\<open>int(text)\<close>: surrounding space, a sign, digits with single underscores between them.\<close>

fun int_digits :: "string \<Rightarrow> bool" where
  "int_digits [] = False"
| "int_digits [c] = is_digit c"
| "int_digits (c # d # s) = (is_digit c \<and> (if d = CHR ''_'' then int_digits s else int_digits (d # s)))"

definition py_int :: "string \<Rightarrow> exn + int" where
  "py_int s =
     (let t = strip s; neg = (take 1 t = ''-''); u = (if neg \<or> take 1 t = ''+'' then drop 1 t else t);
          ds = filter is_digit u
      in if int_digits u \<and> length ds \<le> 4300 then Inr ((if neg then - 1 else 1) * int (str_nat ds))
         else Inl (ValueError ''invalid literal for int()''))"

text \<open>\<open>int(s, 16)\<close>: space around, a sign, a prefix, digits with single underscores between them.\<close>

fun hex_digits :: "string \<Rightarrow> bool" where
  "hex_digits [] = False"
| "hex_digits [c] = is_hex_any c"
| "hex_digits (c # d # s) = (is_hex_any c \<and> (if d = CHR ''_'' then hex_digits s else hex_digits (d # s)))"

definition drop_prefix :: "string \<Rightarrow> string" where
  "drop_prefix u = (if take 2 u = ''0x'' \<or> take 2 u = ''0X''
     then (if take 1 (drop 2 u) = ''_'' then drop 3 u else drop 2 u) else u)"

definition py_int16 :: "string \<Rightarrow> int option" where
  "py_int16 s = (let t = strip s; neg = (take 1 t = ''-''); u = (if neg \<or> take 1 t = ''+'' then drop 1 t else t);
       v = drop_prefix u
     in if hex_digits v then Some ((if neg then - 1 else 1) * int (hex_nat (filter is_hex_any v))) else None)"

definition uuid_digits :: "string \<Rightarrow> string" where
  "uuid_digits s = filter (\<lambda>c. c \<noteq> CHR ''-'')
     (strip_chars (\<lambda>c. c \<in> set ''{}'') (delete_all ''uuid:'' (delete_all ''urn:'' s)))"

definition uuid_of_str :: "string \<Rightarrow> exn + uuid" where
  "uuid_of_str s = (let h = uuid_digits s in
     if length h \<noteq> 32 then Inl (ValueError ''badly formed hexadecimal UUID string'')
     else case py_int16 h of
         None \<Rightarrow> Inl (ValueError ''invalid literal for int() with base 16'')
       | Some i \<Rightarrow> if i < 0 then Inl (ValueError ''int is out of range (need a 128-bit value)'') else Inr (nat i))"

lemma is_hex_any: "is_hex c \<Longrightarrow> is_hex_any c"
  by (auto simp: is_hex_def is_hex_any_def)

lemma length_uuid_hex [simp]: "length (uuid_hex u) = 32"
  by (simp add: uuid_hex_def)

lemma uuid_hex_is_hex: "c \<in> set (uuid_hex u) \<Longrightarrow> is_hex c"
  using hex_pad_is_hex by (auto simp: uuid_hex_def)

lemma uuid_hex_nat: "valid_uuid u \<Longrightarrow> hex_nat (uuid_hex u) = u"
  by (simp add: uuid_hex_def hex_nat_hex_pad valid_uuid_def)

lemma delete_all_absent: "hd p \<notin> set s \<Longrightarrow> p \<noteq> [] \<Longrightarrow> delete_all p s = s"
proof (induction s)
  case (Cons c s)
  then have "\<not> starts_with p (c # s)" by (cases p) (auto simp: starts_with_def)
  with Cons show ?case by simp
qed simp

lemma strip_chars_id: "(\<And>c. c \<in> set s \<Longrightarrow> \<not> p c) \<Longrightarrow> strip_chars p s = s"
proof -
  assume a: "\<And>c. c \<in> set s \<Longrightarrow> \<not> p c"
  have "dropWhile p t = t" if "set t \<subseteq> set s" for t
    using that a by (cases t) auto
  then show ?thesis by (simp add: strip_chars_def)
qed

lemma not_hex [simp]: "\<not> is_hex CHR ''{''" "\<not> is_hex CHR ''}''" "\<not> is_hex CHR ''-''" "\<not> is_hex CHR ''+''"
  "\<not> is_hex CHR ''_''" "\<not> is_hex CHR ''u''" "\<not> is_hex CHR ''r''" "\<not> is_hex CHR ''x''" "\<not> is_hex CHR ''X''"
  by (simp_all add: is_hex_def)

lemma is_hex_not_space: "is_hex c \<Longrightarrow> \<not> is_space c"
  by (auto simp: is_hex_def is_space_def code_def)

lemma hex_digits_all: "s \<noteq> [] \<Longrightarrow> (\<And>c. c \<in> set s \<Longrightarrow> is_hex c) \<Longrightarrow> hex_digits s"
proof (induction s rule: hex_digits.induct)
  case (3 c d s)
  then have h: "is_hex c" "is_hex d" by auto
  then have "d \<noteq> CHR ''_''" by auto
  moreover have "hex_digits (d # s)" by (rule "3.IH"(2)) (use \<open>d \<noteq> _\<close> "3.prems" in auto)
  ultimately show ?case by (simp add: is_hex_any [OF h(1)])
qed (auto simp: is_hex_any)

lemma hex_hd:
  assumes "\<And>c. c \<in> set s \<Longrightarrow> is_hex c" "\<not> is_hex d"
  shows "take 1 s \<noteq> [d]" "take 2 s \<noteq> [e, d]"
proof -
  show "take 1 s \<noteq> [d]" using assms by (cases s) auto
  show "take 2 s \<noteq> [e, d]"
    using assms by (metis in_set_takeD list.set_intros(1) list.set_intros(2))
qed

lemma py_int16_hex:
  assumes "s \<noteq> []" "\<And>c. c \<in> set s \<Longrightarrow> is_hex c"
  shows "py_int16 s = Some (int (hex_nat s))"
proof -
  have "strip s = s" unfolding strip_def by (rule strip_chars_id) (use assms(2) is_hex_not_space in blast)
  moreover have "take 1 s \<noteq> ''-''" "take 1 s \<noteq> ''+''" by (rule hex_hd [OF assms(2)]; simp)+
  moreover have "take 2 s \<noteq> ''0x''" "take 2 s \<noteq> ''0X''" by (rule hex_hd [OF assms(2)]; simp)+
  moreover from this have "drop_prefix s = s" by (simp add: drop_prefix_def)
  moreover have "filter is_hex_any s = s" using assms(2) by (simp add: is_hex_any filter_id_conv)
  moreover have "hex_digits s" by (rule hex_digits_all [OF assms])
  ultimately show ?thesis by (simp add: py_int16_def Let_def)
qed

lemma uuid_of_digits:
  assumes "valid_uuid u" "\<And>c. c \<in> set s \<Longrightarrow> is_hex c \<or> c = CHR ''-''" "filter (\<lambda>c. c \<noteq> CHR ''-'') s = uuid_hex u"
  shows "uuid_of_str s = Inr u"
proof -
  have c: "c \<notin> set s" if "c \<in> set ''{}ur''" for c using that assms(2) [of c] by auto
  have "delete_all ''urn:'' s = s" "delete_all ''uuid:'' s = s" by (rule delete_all_absent; use c in simp)+
  moreover have "strip_chars (\<lambda>c. c \<in> set ''{}'') s = s" by (rule strip_chars_id) (use c in auto)
  ultimately have "uuid_digits s = uuid_hex u" by (simp add: uuid_digits_def assms(3))
  moreover have "uuid_hex u \<noteq> []" using length_uuid_hex [of u] by (metis length_0_conv numeral_eq_iff zero_neq_numeral)
  ultimately show ?thesis
    by (simp add: uuid_of_str_def Let_def py_int16_hex uuid_hex_is_hex uuid_hex_nat [OF assms(1)])
qed

lemma uuid_of_str_hex: "valid_uuid u \<Longrightarrow> uuid_of_str (uuid_hex u) = Inr u"
  by (rule uuid_of_digits) (auto simp: filter_id_conv dest: uuid_hex_is_hex)

lemma uuid_str_chars: "c \<in> set (uuid_str u) \<Longrightarrow> is_hex c \<or> c = CHR ''-''"
  by (auto simp: uuid_str_def Let_def dest!: in_set_takeD in_set_dropD dest: uuid_hex_is_hex)

lemma uuid_str_filter: "filter (\<lambda>c. c \<noteq> CHR ''-'') (uuid_str u) = uuid_hex u"
proof -
  define h where "h = uuid_hex u"
  have f: "filter (\<lambda>c. c \<noteq> CHR ''-'') t = t" if "set t \<subseteq> set h" for t
    using that by (auto simp: filter_id_conv h_def dest!: subsetD dest: uuid_hex_is_hex)
  have sub: "set (take m (drop n h)) \<subseteq> set h" "set (take m h) \<subseteq> set h" "set (drop n h) \<subseteq> set h"
    for m n by (auto dest: in_set_takeD in_set_dropD)
  have "filter (\<lambda>c. c \<noteq> CHR ''-'') (uuid_str u) =
      take 8 h @ take 4 (drop 8 h) @ take 4 (drop 12 h) @ take 4 (drop 16 h) @ drop 20 h"
    unfolding uuid_str_def h_def [symmetric] Let_def filter_append
    by (simp only: f [OF sub(1)] f [OF sub(2)] f [OF sub(3)] filter.simps simp_thms if_False append_Nil)
  moreover have "take 4 (drop 16 h) @ drop 20 h = drop 16 h" "take 4 (drop 12 h) @ drop 16 h = drop 12 h"
    "take 4 (drop 8 h) @ drop 12 h = drop 8 h"
    using append_take_drop_id [of 4 "drop 16 h"] append_take_drop_id [of 4 "drop 12 h"]
      append_take_drop_id [of 4 "drop 8 h"] by simp_all
  ultimately show ?thesis by (simp add: h_def)
qed

lemma uuid_of_str_uuid_str [simp]: "valid_uuid u \<Longrightarrow> uuid_of_str (uuid_str u) = Inr u"
  by (rule uuid_of_digits [OF _ uuid_str_chars uuid_str_filter])

lemma uuid_str_inject: "valid_uuid u \<Longrightarrow> valid_uuid v \<Longrightarrow> uuid_str u = uuid_str v \<Longrightarrow> u = v"
  by (metis uuid_of_str_uuid_str sum.inject(2))

section \<open>Points in time\<close>

text \<open>
  A \<open>datetime\<close> is the number of microseconds since 1970-01-01, in UTC for an aware value
  and on the wall clock for a naive one.  Python compares two aware values by their
  instants, whatever their offsets, and refuses to order a naive and an aware value.
\<close>

datatype datetime = Naive int | Aware int

fun dt_aware :: "datetime \<Rightarrow> bool" where
  "dt_aware (Aware t) = True"
| "dt_aware (Naive t) = False"

fun dt_instant :: "datetime \<Rightarrow> int" where
  "dt_instant (Aware t) = t"
| "dt_instant (Naive t) = t"

fun dt_le :: "datetime \<Rightarrow> datetime \<Rightarrow> exn + bool" where
  "dt_le (Aware a) (Aware b) = Inr (a \<le> b)"
| "dt_le (Naive a) (Naive b) = Inr (a \<le> b)"
| "dt_le _ _ = Inl TypeError"

definition dt_less :: "datetime \<Rightarrow> datetime \<Rightarrow> exn + bool" where
  "dt_less a b = ebind (dt_le b a) (\<lambda>ge. Inr (\<not> ge))"

definition micros :: int where
  "micros = 1000000"

definition max_instant :: int where
  "max_instant = 253402300800 * micros - 1"

text \<open>\<open>datetime + timedelta(seconds=s)\<close> raises \<open>OverflowError\<close> past the year 9999.\<close>

definition dt_plus :: "int \<Rightarrow> int \<Rightarrow> int option" where
  "dt_plus t s = (if t + s * micros \<le> max_instant then Some (t + s * micros) else None)"

fun dec_pad :: "nat \<Rightarrow> nat \<Rightarrow> string" where
  "dec_pad 0 n = []"
| "dec_pad (Suc w) n = dec_pad w (n div 10) @ [digit (n mod 10)]"

lemma dec_pad_numeral:
  "dec_pad (numeral k) n = dec_pad (pred_numeral k) (n div 10) @ [digit (n mod 10)]"
  unfolding numeral_eq_Suc [of k] dec_pad.simps ..

text \<open>The proleptic Gregorian date of a day number, as the calendar of \<open>datetime\<close> has it.\<close>

definition civil_of_days :: "int \<Rightarrow> nat \<times> nat \<times> nat" where
  "civil_of_days z =
     (let z = z + 719468; era = z div 146097; doe = z mod 146097;
          yoe = (doe - doe div 1460 + doe div 36524 - doe div 146096) div 365;
          doy = doe - (365 * yoe + yoe div 4 - yoe div 100);
          mp = (5 * doy + 2) div 153;
          d = doy - (153 * mp + 2) div 5 + 1;
          m = (if mp < 10 then mp + 3 else mp - 9);
          y = yoe + era * 400 + (if m \<le> 2 then 1 else 0)
      in (nat y, nat m, nat d))"

definition iso_utc :: "int \<Rightarrow> string" where
  "iso_utc t =
     (let us = t mod micros; s = t div micros; sec = nat (s mod 86400);
          (y, m, d) = civil_of_days (s div 86400)
      in dec_pad 4 y @ ''-'' @ dec_pad 2 m @ ''-'' @ dec_pad 2 d @ ''T'' @
         dec_pad 2 (sec div 3600) @ '':'' @ dec_pad 2 (sec div 60 mod 60) @ '':'' @
         dec_pad 2 (sec mod 60) @ (if us = 0 then [] else ''.'' @ dec_pad 6 (nat us)) @ ''+00:00'')"

lemma micros_pos [simp]: "0 < micros" "0 \<le> micros" "micros \<noteq> 0"
  by (simp_all add: micros_def)

lemma dt_le_Aware: "dt_aware a \<Longrightarrow> dt_aware b \<Longrightarrow> dt_le a b = Inr (dt_instant a \<le> dt_instant b)"
  by (cases a; cases b) auto

lemma dt_less_Aware: "dt_aware a \<Longrightarrow> dt_aware b \<Longrightarrow> dt_less a b = Inr (dt_instant a < dt_instant b)"
  by (auto simp: dt_less_def dt_le_Aware not_le)

section \<open>Dictionaries and lists\<close>

text \<open>
  A dictionary whose order is observed is an association list with distinct keys;
  \<open>dict_set\<close> keeps the position of a key that is already there, as Python does.
\<close>

fun dict_set :: "'k \<Rightarrow> 'v \<Rightarrow> ('k \<times> 'v) list \<Rightarrow> ('k \<times> 'v) list" where
  "dict_set k v [] = [(k, v)]"
| "dict_set k v ((k', v') # d) = (if k = k' then (k, v) # d else (k', v') # dict_set k v d)"

lemma map_of_dict_set [simp]: "map_of (dict_set k v d) = (map_of d)(k \<mapsto> v)"
  by (induction d) auto

lemma map_fst_dict_set:
  "map fst (dict_set k v d) = (if k \<in> set (map fst d) then map fst d else map fst d @ [k])"
  by (induction d) force+

lemma keys_dict_set [simp]: "fst ` set (dict_set k v d) = insert k (fst ` set d)"
  using map_fst_dict_set [of k v d] by (metis (mono_tags, lifting) insert_absorb list.set_map
      set_append list.simps(15) empty_set Un_insert_right sup_bot.right_neutral)

lemma distinct_dict_set [simp]: "distinct (map fst d) \<Longrightarrow> distinct (map fst (dict_set k v d))"
  by (simp add: map_fst_dict_set)

lemma distinct_map_unique: "distinct (map f xs) \<Longrightarrow> x \<in> set xs \<Longrightarrow> y \<in> set xs \<Longrightarrow> f x = f y \<Longrightarrow> x = y"
  by (auto simp: distinct_map dest: inj_onD)

lemma filter_the_one: "distinct xs \<Longrightarrow> x \<in> set xs \<Longrightarrow> filter (\<lambda>y. y = x) xs = [x]"
  by (induction xs) (auto simp: filter_empty_conv)

lemma filter_eq_single:
  assumes "distinct xs" "x \<in> set xs" "p x" "\<And>y. y \<in> set xs \<Longrightarrow> p y \<Longrightarrow> y = x"
  shows "filter p xs = [x]"
proof -
  have "filter p xs = filter (\<lambda>y. y = x) xs"
    by (rule filter_cong [OF refl]) (metis assms(3,4))
  then show ?thesis using assms(1,2) by (simp add: filter_the_one)
qed

lemma sort_key_unique:
  assumes "distinct (map f xs)" "distinct (map f ys)" "set xs = set ys"
  shows "sort_key f xs = sort_key f ys"
proof (rule map_sorted_distinct_set_unique [of f])
  show "inj_on f (set (sort_key f xs) \<union> set (sort_key f ys))"
    using assms by (auto simp: distinct_map)
qed (use assms in \<open>auto simp: distinct_map\<close>)

lemma find_append_Some: "find P xs = Some x \<Longrightarrow> find P (xs @ ys) = Some x"
  by (induction xs) (auto split: if_splits)

lemma find_append_new: "\<forall>y \<in> set xs. \<not> P y \<Longrightarrow> P x \<Longrightarrow> find P (xs @ [x]) = Some x"
  by (induction xs) auto

end
