(* ===== verification/Json.thy ===== *)
theory Json
  imports OutcomePrelude
begin

text \<open>
  JSON documents as the code builds and prints them: the Python values the document
  functions accept, \<open>json.dumps\<close> with sorted keys and compact separators, \<open>_plain\<close>,
  \<open>canonical_document\<close> and \<open>document_digest\<close> of \<open>contracts/domain.py\<close>, and the reader
  \<open>json.loads\<close>.  The round trip of printer and reader shows that a canonical text, and
  hence what a digest is taken of, determines the document up to the order of its keys.
\<close>

section \<open>Python values that reach the printer\<close>

text \<open>
  \<open>PFloat\<close> carries the text \<open>repr\<close> gives for a finite float, \<open>PNonFinite\<close> one of
  \<open>NaN\<close>, \<open>Infinity\<close>, \<open>-Infinity\<close>, and \<open>PObject\<close> stands for any value JSON has no form
  for (a \<open>Decimal\<close>, a \<open>datetime\<close>, a set).  A mapping is its items in insertion order.
\<close>

datatype pyval =
    PNone
  | PBool bool
  | PInt int
  | PFloat string
  | PNonFinite string
  | PStr string
  | PList "pyval list"
  | PTuple "pyval list"
  | PDict "(string \<times> pyval) list"
  | PObject nat

primrec plain :: "pyval \<Rightarrow> pyval" where
  "plain PNone = PNone"
| "plain (PBool b) = PBool b"
| "plain (PInt i) = PInt i"
| "plain (PFloat r) = PFloat r"
| "plain (PNonFinite r) = PNonFinite r"
| "plain (PStr s) = PStr s"
| "plain (PList xs) = PList (map plain xs)"
| "plain (PTuple xs) = PList (map plain xs)"
| "plain (PDict kvs) = PDict (map (map_prod (\<lambda>k. k) plain) kvs)"
| "plain (PObject n) = PObject n"

text \<open>\<open>_freeze\<close> makes mappings read-only and lists tuples; the content stays.\<close>

primrec freeze :: "pyval \<Rightarrow> pyval" where
  "freeze PNone = PNone"
| "freeze (PBool b) = PBool b"
| "freeze (PInt i) = PInt i"
| "freeze (PFloat r) = PFloat r"
| "freeze (PNonFinite r) = PNonFinite r"
| "freeze (PStr s) = PStr s"
| "freeze (PList xs) = PTuple (map freeze xs)"
| "freeze (PTuple xs) = PTuple (map freeze xs)"
| "freeze (PDict kvs) = PDict (map (map_prod (\<lambda>k. k) freeze) kvs)"
| "freeze (PObject n) = PObject n"

lemma plain_freeze [simp]: "plain (freeze v) = plain v"
  by (induction v) (force simp: map_prod_def)+

section \<open>Printing\<close>

definition dquote :: char where
  "dquote = CHR 0x22"

definition backslash :: char where
  "backslash = CHR 0x5C"

text \<open>One character of a string literal; \<open>ea\<close> is \<open>ensure_ascii\<close>.\<close>

definition esc :: "bool \<Rightarrow> char \<Rightarrow> string" where
  "esc ea c =
     (if c = dquote \<or> c = backslash then [backslash, c]
      else if code c = 10 then [backslash, CHR ''n'']
      else if code c = 13 then [backslash, CHR ''r'']
      else if code c = 9 then [backslash, CHR ''t'']
      else if code c = 12 then [backslash, CHR ''f'']
      else if code c = 8 then [backslash, CHR ''b'']
      else if code c < 32 \<or> (ea \<and> 127 \<le> code c) then backslash # CHR ''u'' # hex_pad 4 (code c)
      else [c])"

text \<open>A quicker equation for printable ASCII characters, to evaluate printed documents.\<close>

lemma esc_code [code]:
  "esc ea c = (case c of Char b0 b1 b2 b3 b4 b5 b6 b7 \<Rightarrow>
     if \<not> b7 \<and> (b5 \<or> b6) \<and> c \<notin> {CHR 0x22, CHR 0x5C, CHR 0x7F} then [c]
     else if c = CHR 0x22 \<or> c = CHR 0x5C then [backslash, c]
     else let n = code c in
       if n = 10 then [backslash, CHR ''n'']
       else if n = 13 then [backslash, CHR ''r'']
       else if n = 9 then [backslash, CHR ''t'']
       else if n = 12 then [backslash, CHR ''f'']
       else if n = 8 then [backslash, CHR ''b'']
       else if n < 32 \<or> (ea \<and> 127 \<le> n) then backslash # CHR ''u'' # hex_pad 4 n
       else [c])"
proof (cases c)
  case (Char b0 b1 b2 b3 b4 b5 b6 b7)
  let ?plain = "\<not> b7 \<and> (b5 \<or> b6) \<and> c \<notin> {CHR 0x22, CHR 0x5C, CHR 0x7F}"
  show ?thesis
  proof (cases ?plain)
    case True
    then have "32 \<le> code c \<and> code c < 127"
      unfolding Char code_def
      by (cases b0; cases b1; cases b2; cases b3; cases b4; cases b5; cases b6; cases b7) simp_all
    moreover have "c \<noteq> dquote" "c \<noteq> backslash" using True by (auto simp: dquote_def backslash_def)
    ultimately have "esc ea c = [c]" by (simp add: esc_def)
    then show ?thesis unfolding Char char.case if_P [OF True [unfolded Char]] .
  next
    case False
    then show ?thesis
      unfolding esc_def dquote_def backslash_def Let_def by (simp only: Char char.case if_False simp_thms)
  qed
qed

definition quote :: "bool \<Rightarrow> string \<Rightarrow> string" where
  "quote ea s = dquote # concat (map (esc ea) s) @ [dquote]"

fun join :: "string \<Rightarrow> string list \<Rightarrow> string" where
  "join sep [] = []"
| "join sep [x] = x"
| "join sep (x # y # ys) = x @ sep @ join sep (y # ys)"

text \<open>\<open>json.dumps(v, sort_keys=True, separators=(",", ":"), ensure_ascii=ea)\<close>.\<close>

primrec dumps :: "bool \<Rightarrow> pyval \<Rightarrow> string" where
  "dumps ea PNone = ''null''"
| "dumps ea (PBool b) = (if b then ''true'' else ''false'')"
| "dumps ea (PInt i) = int_str i"
| "dumps ea (PFloat r) = r"
| "dumps ea (PNonFinite r) = r"
| "dumps ea (PStr s) = quote ea s"
| "dumps ea (PList xs) = ''['' @ join '','' (map (dumps ea) xs) @ '']''"
| "dumps ea (PTuple xs) = ''['' @ join '','' (map (dumps ea) xs) @ '']''"
| "dumps ea (PDict kvs) =
     ''{'' @ join '','' (map (\<lambda>(k, t). quote ea k @ '':'' @ t)
       (sort_key fst (map (map_prod (\<lambda>k. k) (dumps ea)) kvs))) @ ''}''"
| "dumps ea (PObject n) = []"

text \<open>
  Whether the printer succeeds: it raises \<open>TypeError\<close> on a value without a JSON form and,
  under \<open>allow_nan=False\<close>, \<open>ValueError\<close> on a non-finite float.
\<close>

primrec json_ok :: "bool \<Rightarrow> pyval \<Rightarrow> bool" where
  "json_ok nan PNone = True"
| "json_ok nan (PBool b) = True"
| "json_ok nan (PInt i) = True"
| "json_ok nan (PFloat r) = True"
| "json_ok nan (PNonFinite r) = nan"
| "json_ok nan (PStr s) = True"
| "json_ok nan (PList xs) = list_all id (map (json_ok nan) xs)"
| "json_ok nan (PTuple xs) = list_all id (map (json_ok nan) xs)"
| "json_ok nan (PDict kvs) = list_all snd (map (map_prod (\<lambda>k. k) (json_ok nan)) kvs)"
| "json_ok nan (PObject n) = False"

definition canonical_document :: "pyval \<Rightarrow> exn + string" where
  "canonical_document v =
     (if json_ok False (plain v) then Inr (dumps False (plain v))
      else Inl (DomainError ''document must contain bounded JSON values''))"

text \<open>
  UTF-8 of a text whose code points are below 256, as \<open>str.encode\<close> produces it; SHA-256 of
  the bytes, in hexadecimal, is a parameter.
\<close>

definition utf8 :: "string \<Rightarrow> string" where
  "utf8 s = concat (map (\<lambda>c. if code c < 128 then [c]
     else [char_of (192 + code c div 64), char_of (128 + code c mod 64)]) s)"

type_synonym hash = "string \<Rightarrow> string"

definition document_digest :: "hash \<Rightarrow> pyval \<Rightarrow> exn + string" where
  "document_digest sha v = ebind (canonical_document v) (\<lambda>doc. Inr (sha (utf8 doc)))"

lemma canonical_document_freeze [simp]: "canonical_document (freeze v) = canonical_document v"
  by (simp add: canonical_document_def)

lemma document_digest_freeze [simp]: "document_digest sha (freeze v) = document_digest sha v"
  by (simp add: document_digest_def)

section \<open>Reading\<close>

definition is_ws :: "char \<Rightarrow> bool" where
  "is_ws c \<longleftrightarrow> code c \<in> {32, 9, 10, 13}"

definition skip_ws :: "string \<Rightarrow> string" where
  "skip_ws s = dropWhile is_ws s"

fun unescape :: "char \<Rightarrow> char option" where
  "unescape c =
     (if c = dquote \<or> c = backslash \<or> c = CHR ''/'' then Some c
      else if c = CHR ''n'' then Some (char_of (10 :: nat))
      else if c = CHR ''r'' then Some (char_of (13 :: nat))
      else if c = CHR ''t'' then Some (char_of (9 :: nat))
      else if c = CHR ''f'' then Some (char_of (12 :: nat))
      else if c = CHR ''b'' then Some (char_of (8 :: nat))
      else None)"

declare unescape.simps [simp del]

fun read_str :: "string \<Rightarrow> (string \<times> string) option" where
  "read_str [] = None"
| "read_str (c # s) =
     (if c = dquote then Some ([], s)
      else if c = backslash then
        (case s of
           [] \<Rightarrow> None
         | e # s' \<Rightarrow>
             (if e = CHR ''u'' then
                (case s' of
                   h1 # h2 # h3 # h4 # s'' \<Rightarrow>
                     (if list_all is_hex_any [h1, h2, h3, h4] \<and> hex_nat [h1, h2, h3, h4] < 256
                      then map_option (map_prod (Cons (char_of (hex_nat [h1, h2, h3, h4]))) id) (read_str s'')
                      else None)
                 | _ \<Rightarrow> None)
              else (case unescape e of None \<Rightarrow> None
                    | Some d \<Rightarrow> map_option (map_prod (Cons d) id) (read_str s'))))
      else if code c < 32 then None
      else map_option (map_prod (Cons c) id) (read_str s))"

declare read_str.simps(2) [simp del]

text \<open>A number token: \<open>-?(0|[1-9][0-9]*)(\.[0-9]+)?([eE][-+]?[0-9]+)?\<close>.\<close>

definition read_frac :: "string \<Rightarrow> string \<times> string" where
  "read_frac s = (case s of
     c # t \<Rightarrow> (if c = CHR ''.'' \<and> takeWhile is_digit t \<noteq> []
               then (c # takeWhile is_digit t, dropWhile is_digit t) else ([], s))
   | [] \<Rightarrow> ([], s))"

definition read_exp :: "string \<Rightarrow> string \<times> string" where
  "read_exp s = (case s of
     c # t \<Rightarrow>
       (let sg = takeWhile (\<lambda>c. c = CHR ''-'' \<or> c = CHR ''+'') (take 1 t);
            u = drop (length sg) t
        in if (c = CHR ''e'' \<or> c = CHR ''E'') \<and> takeWhile is_digit u \<noteq> []
           then (c # sg @ takeWhile is_digit u, dropWhile is_digit u) else ([], s))
   | [] \<Rightarrow> ([], s))"

definition read_int_part :: "string \<Rightarrow> (string \<times> string) option" where
  "read_int_part s = (case s of
     c # t \<Rightarrow> (if c = CHR ''0'' then Some ([c], t)
               else if is_digit c then Some (takeWhile is_digit s, dropWhile is_digit s) else None)
   | [] \<Rightarrow> None)"

definition read_num :: "string \<Rightarrow> (pyval \<times> string) option" where
  "read_num s =
     (let neg = (take 1 s = ''-''); t = (if neg then drop 1 s else s) in
      case read_int_part t of
        None \<Rightarrow> None
      | Some (ip, r1) \<Rightarrow>
          (let (fp, r2) = read_frac r1; (ep, r3) = read_exp r2 in
           if fp = [] \<and> ep = []
           then Some (PInt (if neg then - int (str_nat ip) else int (str_nat ip)), r3)
           else Some (PFloat ((if neg then ''-'' else []) @ ip @ fp @ ep), r3)))"

definition py_dict :: "('k \<times> 'v) list \<Rightarrow> ('k \<times> 'v) list" where
  "py_dict kvs = foldl (\<lambda>d (k, v). dict_set k v d) [] kvs"

fun parse_value :: "nat \<Rightarrow> string \<Rightarrow> (pyval \<times> string) option"
  and parse_elems :: "nat \<Rightarrow> string \<Rightarrow> (pyval list \<times> string) option"
  and parse_members :: "nat \<Rightarrow> string \<Rightarrow> ((string \<times> pyval) list \<times> string) option" where
  "parse_value 0 s = None"
| "parse_value (Suc f) s =
     (case s of
        [] \<Rightarrow> None
      | c # t \<Rightarrow>
          (if c = dquote then map_option (map_prod PStr id) (read_str t)
           else if c = CHR ''{'' then
             (case skip_ws t of
                d # u \<Rightarrow> (if d = CHR ''}'' then Some (PDict [], u)
                          else map_option (map_prod (\<lambda>kvs. PDict (py_dict kvs)) id)
                                 (parse_members f (skip_ws t)))
              | [] \<Rightarrow> None)
           else if c = CHR ''['' then
             (case skip_ws t of
                d # u \<Rightarrow> (if d = CHR '']'' then Some (PList [], u)
                          else map_option (map_prod PList id) (parse_elems f (skip_ws t)))
              | [] \<Rightarrow> None)
           else if starts_with ''null'' s then Some (PNone, drop 4 s)
           else if starts_with ''true'' s then Some (PBool True, drop 4 s)
           else if starts_with ''false'' s then Some (PBool False, drop 5 s)
           else if starts_with ''NaN'' s then Some (PNonFinite ''NaN'', drop 3 s)
           else if starts_with ''Infinity'' s then Some (PNonFinite ''Infinity'', drop 8 s)
           else if starts_with ''-Infinity'' s then Some (PNonFinite ''-Infinity'', drop 9 s)
           else read_num s))"
| "parse_elems 0 s = None"
| "parse_elems (Suc f) s =
     (case parse_value f s of
        None \<Rightarrow> None
      | Some (v, r) \<Rightarrow>
          (case skip_ws r of
             d # u \<Rightarrow> (if d = CHR '']'' then Some ([v], u)
                       else if d = CHR '','' then map_option (map_prod (Cons v) id) (parse_elems f (skip_ws u))
                       else None)
           | [] \<Rightarrow> None))"
| "parse_members 0 s = None"
| "parse_members (Suc f) s =
     (case s of
        [] \<Rightarrow> None
      | q # t \<Rightarrow>
          (if q \<noteq> dquote then None else
           case read_str t of
             None \<Rightarrow> None
           | Some (k, r) \<Rightarrow>
               (case skip_ws r of
                  c # u \<Rightarrow>
                    (if c \<noteq> CHR '':'' then None else
                     case parse_value f (skip_ws u) of
                       None \<Rightarrow> None
                     | Some (v, r') \<Rightarrow>
                         (case skip_ws r' of
                            d # w \<Rightarrow> (if d = CHR ''}'' then Some ([(k, v)], w)
                                      else if d = CHR '','' then
                                        map_option (map_prod (Cons (k, v)) id) (parse_members f (skip_ws w))
                                      else None)
                          | [] \<Rightarrow> None))
                | [] \<Rightarrow> None)))"

declare parse_value.simps(2) [simp del] parse_elems.simps(2) [simp del]
  parse_members.simps(2) [simp del]

text \<open>
  Every call consumes a character, so a fuel of one more than the length of the text is
  enough: \<open>loads_dumps\<close> below shows it for every text the printer produces.
\<close>

definition loads :: "string \<Rightarrow> exn + pyval" where
  "loads s =
     (case parse_value (Suc (length (skip_ws s))) (skip_ws s) of
        Some (v, r) \<Rightarrow> (if skip_ws r = [] then Inr v else Inl (ValueError ''Extra data''))
      | None \<Rightarrow> Inl (ValueError ''Expecting value''))"

section \<open>The reader inverts the printer\<close>

lemma dquote_simps [simp]:
  "dquote \<noteq> backslash" "backslash \<noteq> dquote" "dquote \<noteq> CHR ''u''" "backslash \<noteq> CHR ''u''"
  "dquote \<noteq> CHR ''{''" "dquote \<noteq> CHR ''[''" "\<not> is_ws dquote" "\<not> is_ws CHR ''{''"
  "\<not> is_ws CHR ''[''" "\<not> is_ws CHR '']''" "\<not> is_ws CHR ''}''" "\<not> is_ws CHR '',''" "\<not> is_ws CHR '':''"
  "CHR ''{'' \<noteq> dquote" "CHR ''[''  \<noteq> dquote"
  by (simp_all add: dquote_def backslash_def is_ws_def code_def)

lemma hex_pad_4: "hex_pad 4 n =
    [hex_digit (n div 16 div 16 div 16), hex_digit (n div 16 div 16), hex_digit (n div 16), hex_digit n]"
  by (simp add: hex_pad_numeral)

lemma read_str_esc: "read_str (esc ea c @ s) = map_option (map_prod (Cons c) id) (read_str s)"
proof -
  let ?h = "hex_pad 4 (code c)"
  have hn: "hex_nat ?h = code c" "list_all is_hex_any ?h"
    using code_lt [of c] hex_pad_is_hex [of 4 "code c"]
    by (simp_all add: hex_nat_hex_pad list_all_iff is_hex_any del: code_lt)
  have u: "read_str (backslash # CHR ''u'' # ?h @ s) = map_option (map_prod (Cons c) id) (read_str s)"
    using hn by (simp add: read_str.simps(2) hex_pad_4)
  have ctrl: "char_of (code c) = c" by simp
  show ?thesis
  proof (cases "c = dquote \<or> c = backslash")
    case True
    then show ?thesis
      by (auto simp: esc_def read_str.simps(2) unescape.simps dquote_def backslash_def)
  next
    case False
    have e: "n = code c \<Longrightarrow> char_of n = c" for n by simp
    have v: "unescape CHR ''n'' = Some (char_of (10::nat))" "unescape CHR ''r'' = Some (char_of (13::nat))"
      "unescape CHR ''t'' = Some (char_of (9::nat))" "unescape CHR ''f'' = Some (char_of (12::nat))"
      "unescape CHR ''b'' = Some (char_of (8::nat))"
      by (simp_all add: unescape.simps dquote_def backslash_def)
    let ?short = "code c \<in> {10, 13, 9, 12, 8}"
    show ?thesis
    proof (cases "\<not> ?short \<and> (code c < 32 \<or> ea \<and> 127 \<le> code c)")
      case True
      then have "esc ea c = backslash # CHR ''u'' # ?h"
        using False by (simp add: esc_def)
      with u show ?thesis by simp
    next
      case nu: False
      with False show ?thesis
        by (auto simp: esc_def v e read_str.simps(2) backslash_def [symmetric] not_less)
    qed
  qed
qed

lemma read_str_quote [simp]: "read_str (concat (map (esc ea) s) @ dquote # r) = Some (s, r)"
  by (induction s) (simp_all add: read_str.simps(2) [of dquote] read_str_esc)

text \<open>What may follow a number: nothing the number could go on with.\<close>

definition delim :: "string \<Rightarrow> bool" where
  "delim s \<longleftrightarrow> (case s of [] \<Rightarrow> True
     | c # _ \<Rightarrow> \<not> is_digit c \<and> c \<notin> set ''.eE+-'')"

lemma delim_simps [simp]: "delim []" "delim (CHR '','' # s)" "delim (CHR '']'' # s)" "delim (CHR ''}'' # s)"
  by (simp_all add: delim_def is_digit_def code_def)

lemma digits_append:
  assumes "delim r"
  shows "takeWhile is_digit (s @ r) = takeWhile is_digit s"
    "dropWhile is_digit (s @ r) = dropWhile is_digit s @ r"
  using assms by (induction s) (auto simp: delim_def split: list.splits)

lemma read_int_part_append:
  "delim r \<Longrightarrow> s \<noteq> [] \<Longrightarrow>
     read_int_part (s @ r) = map_option (map_prod id (\<lambda>t. t @ r)) (read_int_part s)"
  using digits_append [of r] by (cases s) (auto simp: read_int_part_def)

lemma read_frac_append:
  "delim r \<Longrightarrow> read_frac (s @ r) = map_prod id (\<lambda>t. t @ r) (read_frac s)"
  using digits_append [of r] by (cases s) (auto simp: read_frac_def delim_def split: list.splits)

lemma read_exp_append:
  assumes "delim r" shows "read_exp (s @ r) = map_prod id (\<lambda>t. t @ r) (read_exp s)"
proof (cases s)
  case Nil
  then show ?thesis using assms by (auto simp: read_exp_def delim_def Let_def split: list.splits)
next
  case (Cons c t)
  let ?q = "\<lambda>c. c = CHR ''-'' \<or> c = CHR ''+''"
  have "takeWhile ?q (take 1 (t @ r)) = takeWhile ?q (take 1 t)"
    using assms by (cases t) (auto simp: delim_def split: list.splits)
  moreover have "length (takeWhile ?q (take 1 t)) \<le> length t"
    by (cases t) auto
  ultimately show ?thesis
    using Cons digits_append [OF assms, of "drop (length (takeWhile ?q (take 1 t))) t"]
    by (simp add: read_exp_def Let_def)
qed

lemma read_num_append:
  assumes "delim r" "s \<noteq> []" "s \<noteq> ''-''"
  shows "read_num (s @ r) = map_option (map_prod id (\<lambda>t. t @ r)) (read_num s)"
proof -
  define neg where "neg = (take 1 s = ''-'')"
  define t where "t = (if neg then drop 1 s else s)"
  have t: "t \<noteq> []" using assms(2,3) by (cases s) (auto simp: t_def neg_def)
  have neg': "take 1 (s @ r) = take 1 s" "drop 1 (s @ r) = drop 1 s @ r"
    using assms(2) by (cases s; simp)+
  have tr: "(if neg then drop 1 s @ r else s @ r) = t @ r"
    by (simp add: t_def)
  show ?thesis
    unfolding read_num_def neg' neg_def [symmetric] t_def [symmetric] Let_def tr
      read_int_part_append [OF assms(1) t]
    by (auto simp: read_frac_append [OF assms(1)] read_exp_append [OF assms(1)]
        split: option.split prod.split)
qed

lemma takeWhile_all_digits: "\<forall>c \<in> set s. is_digit c \<Longrightarrow> takeWhile is_digit s = s \<and> dropWhile is_digit s = []"
  by (induction s) auto

lemma nat_str_hd: "0 < n \<Longrightarrow> hd (nat_str n) \<noteq> CHR ''0''"
proof (induction n rule: nat_str.induct)
  case (1 n)
  show ?case
  proof (cases "n < 10")
    case True
    with 1 show ?thesis
      by (subst nat_str.simps) (use code_digit [of n] in \<open>auto simp: code_def\<close>)
  next
    case False
    then show ?thesis using 1 by (subst nat_str.simps) simp
  qed
qed

lemma read_int_part_nat_str: "read_int_part (nat_str n) = Some (nat_str n, [])"
proof (cases "n = 0")
  case True
  then show ?thesis by (simp add: nat_str.simps read_int_part_def digit_def char_of_eval)
next
  case False
  obtain c s where cs: "nat_str n = c # s" by (metis list.exhaust nat_str_not_Nil)
  with False nat_str_hd [of n] nat_str_digits [of n] takeWhile_all_digits [of "nat_str n"]
  show ?thesis by (simp add: read_int_part_def)
qed

lemma nat_str_not_minus: "take 1 (nat_str n) \<noteq> ''-''"
  using nat_str_digits [of n] by (cases "nat_str n") (auto simp: is_digit_def code_def)

lemma read_num_int_str: "read_num (int_str i) = Some (PInt i, [])"
proof (cases "i < 0")
  case True
  then show ?thesis
    by (simp add: read_num_def int_str_def Let_def read_int_part_nat_str read_frac_def read_exp_def)
next
  case False
  then show ?thesis using nat_str_not_minus [of "nat i"]
    by (simp add: read_num_def int_str_def Let_def read_int_part_nat_str read_frac_def read_exp_def)
qed

text \<open>The float texts \<open>repr\<close> produces are number tokens with a fraction or an exponent.\<close>

definition float_text :: "string \<Rightarrow> bool" where
  "float_text r \<longleftrightarrow> read_num r = Some (PFloat r, [])"

lemma read_num_start:
  assumes "read_num s = Some x"
  obtains c t where "s = c # t" "is_digit c" | c t where "s = CHR ''-'' # c # t" "is_digit c"
proof -
  have d: "is_digit CHR ''0''" by (simp add: is_digit_def code_def)
  have ip: "\<exists>c u. t = c # u \<and> is_digit c" if "read_int_part t \<noteq> None" for t
    using that d by (cases t) (auto simp: read_int_part_def split: if_splits)
  show thesis
  proof (cases "take 1 s = ''-''")
    case True
    then obtain t where s: "s = CHR ''-'' # t" by (cases s) auto
    with assms have "read_int_part t \<noteq> None"
      by (auto simp: read_num_def Let_def split: option.splits)
    with ip s that(2) show thesis by blast
  next
    case False
    with assms have "read_int_part s \<noteq> None"
      by (auto simp: read_num_def Let_def split: option.splits)
    with ip that(1) show thesis by blast
  qed
qed

lemma parse_value_num:
  assumes "read_num s = Some (v, [])" "delim r"
  shows "parse_value (Suc f) (s @ r) = Some (v, r)"
proof -
  have "read_num [] = None" "read_num ''-'' = None"
    by (simp_all add: read_num_def read_int_part_def)
  with assms(1) have ne: "s \<noteq> []" "s \<noteq> ''-''"
    by auto
  have num: "read_num (s @ r) = Some (v, r)"
    using read_num_append [OF assms(2) ne] assms(1) by simp
  show ?thesis using assms(1)
  proof (rule read_num_start)
    fix c t assume s: "s = c # t" "is_digit c"
    then have "c \<notin> {dquote, CHR ''{'', CHR ''['', CHR ''n'', CHR ''t'', CHR ''f'', CHR ''N'', CHR ''I'', CHR ''-''}"
      by (auto simp: is_digit_def code_def dquote_def)
    with s num show ?thesis by (simp add: parse_value.simps(2) starts_with_def)
  next
    fix c t assume s: "s = CHR ''-'' # c # t" "is_digit c"
    then have "c \<noteq> CHR ''I''" by (auto simp: is_digit_def code_def)
    with s num show ?thesis by (simp add: parse_value.simps(2) starts_with_def dquote_def)
  qed
qed

text \<open>The value a reader makes of a printed document: keys in order, tuples as lists.\<close>

primrec normal :: "pyval \<Rightarrow> pyval" where
  "normal PNone = PNone"
| "normal (PBool b) = PBool b"
| "normal (PInt i) = PInt i"
| "normal (PFloat r) = PFloat r"
| "normal (PNonFinite r) = PNonFinite r"
| "normal (PStr s) = PStr s"
| "normal (PList xs) = PList (map normal xs)"
| "normal (PTuple xs) = PList (map normal xs)"
| "normal (PDict kvs) = PDict (sort_key fst (map (map_prod (\<lambda>k. k) normal) kvs))"
| "normal (PObject n) = PObject n"

text \<open>A document as Python can hold it: distinct keys, and texts \<open>repr\<close> gives for floats.\<close>

primrec wf_doc :: "pyval \<Rightarrow> bool" where
  "wf_doc PNone = True"
| "wf_doc (PBool b) = True"
| "wf_doc (PInt i) = True"
| "wf_doc (PFloat r) = float_text r"
| "wf_doc (PNonFinite r) = (r \<in> {''NaN'', ''Infinity'', ''-Infinity''})"
| "wf_doc (PStr s) = True"
| "wf_doc (PList xs) = list_all id (map wf_doc xs)"
| "wf_doc (PTuple xs) = list_all id (map wf_doc xs)"
| "wf_doc (PDict kvs) = (distinct (map fst kvs) \<and> list_all snd (map (map_prod (\<lambda>k. k) wf_doc) kvs))"
| "wf_doc (PObject n) = False"

lemma skip_ws_hd: "\<not> is_ws c \<Longrightarrow> skip_ws (c # s) = c # s"
  by (simp add: skip_ws_def)

lemma insort_map_prod:
  "insort_key fst (map_prod (\<lambda>k. k) g x) (map (map_prod (\<lambda>k. k) g) xs) = map (map_prod (\<lambda>k. k) g) (insort_key fst x xs)"
  by (induction xs) auto

lemma sort_key_map_prod: "sort_key fst (map (map_prod (\<lambda>k. k) g) xs) = map (map_prod (\<lambda>k. k) g) (sort_key fst xs)"
proof (induction xs)
  case (Cons x xs)
  then show ?case by (simp only: list.map sort_key_simps insort_map_prod)
qed simp

definition starts_value :: "string \<Rightarrow> bool" where
  "starts_value s \<longleftrightarrow> (case s of [] \<Rightarrow> False
     | c # _ \<Rightarrow> \<not> is_ws c \<and> c \<noteq> CHR '']'' \<and> c \<noteq> CHR ''}'')"

lemma starts_value_num: "read_num s = Some x \<Longrightarrow> starts_value s"
  by (erule read_num_start) (auto simp: starts_value_def is_ws_def is_digit_def code_def)

lemma starts_value_dumps: "wf_doc v \<Longrightarrow> starts_value (dumps ea v)"
proof (cases v)
  case (PInt i)
  then show ?thesis using starts_value_num [OF read_num_int_str] by simp
next
  case (PFloat r)
  then show "wf_doc v \<Longrightarrow> ?thesis" using starts_value_num by (simp add: float_text_def)
qed (auto simp: starts_value_def quote_def dquote_def is_ws_def code_def)

lemma dumps_start:
  assumes "wf_doc v"
  obtains c t where "dumps ea v = c # t" "\<not> is_ws c" "c \<noteq> CHR '']''" "c \<noteq> CHR ''}''"
  using starts_value_dumps [OF assms, of ea] by (auto simp: starts_value_def split: list.splits)

definition reads_back :: "bool \<Rightarrow> pyval \<Rightarrow> bool" where
  "reads_back ea v \<longleftrightarrow> (\<forall>f r. delim r \<longrightarrow> length (dumps ea v) < f \<longrightarrow>
     parse_value f (dumps ea v @ r) = Some (normal v, r))"

lemma reads_backD:
  "reads_back ea v \<Longrightarrow> delim r \<Longrightarrow> length (dumps ea v) < f \<Longrightarrow>
     parse_value f (dumps ea v @ r) = Some (normal v, r)"
  by (simp add: reads_back_def)

lemma delim_ws: "delim (c # r) \<Longrightarrow> \<not> is_ws c \<Longrightarrow> skip_ws (c # r) = c # r"
  by (simp add: skip_ws_hd)

lemma parse_elems_join:
  assumes "xs \<noteq> []" "\<forall>x \<in> set xs. wf_doc x \<and> reads_back ea x"
    and "length (join '','' (map (dumps ea) xs)) + 1 < f"
  shows "parse_elems f (join '','' (map (dumps ea) xs) @ CHR '']'' # r) = Some (map normal xs, r)"
  using assms
proof (induction xs arbitrary: f rule: induct_list012)
  case (2 x)
  then obtain g where f: "f = Suc g" by (cases f) auto
  with 2 show ?case
    by (simp add: parse_elems.simps(2) reads_backD skip_ws_hd)
next
  case (3 x y ys)
  then obtain g where f: "f = Suc g" by (cases f) auto
  let ?rest = "join '','' (map (dumps ea) (y # ys)) @ CHR '']'' # r"
  have len: "length (dumps ea x) < g" "length (join '','' (map (dumps ea) (y # ys))) + 1 < g"
    using 3(5) f by auto
  have IH: "parse_elems g ?rest = Some (map normal (y # ys), r)"
    by (rule 3(2)) (use 3(4) len(2) in auto)
  from 3(4) have "wf_doc y" by simp
  then obtain c t where ct: "dumps ea y = c # t" "\<not> is_ws c" by (rule dumps_start [of _ ea])
  then have ws: "skip_ws ?rest = ?rest" by (cases ys) (auto simp: skip_ws_hd)
  have "parse_value g (dumps ea x @ CHR '','' # ?rest) = Some (normal x, CHR '','' # ?rest)"
    by (rule reads_backD) (use 3(4) len(1) in auto)
  then show ?case using IH ws f
    by (simp add: parse_elems.simps(2) skip_ws_hd)
qed simp

definition member_text :: "bool \<Rightarrow> string \<times> pyval \<Rightarrow> string" where
  "member_text ea p = quote ea (fst p) @ CHR '':'' # dumps ea (snd p)"

lemma member_text_start: "member_text ea p = dquote # tl (member_text ea p)"
  by (simp add: member_text_def quote_def)

lemma join_members_start:
  "\<exists>t. join '','' (map (member_text ea) (p # ps)) = dquote # t"
  by (cases ps) (auto simp: member_text_def quote_def)

lemma parse_members_step:
  assumes "wf_doc (snd p)" "reads_back ea (snd p)" "length (dumps ea (snd p)) < g"
    and d: "d = CHR ''}'' \<or> d = CHR '',''"
  shows "parse_members (Suc g) (member_text ea p @ d # r) =
    (if d = CHR ''}'' then Some ([map_prod (\<lambda>k. k) normal p], r)
     else map_option (map_prod (Cons (map_prod (\<lambda>k. k) normal p)) id) (parse_members g (skip_ws r)))"
proof -
  have dr: "delim (d # r)" "skip_ws (d # r) = d # r" using d by (auto simp: skip_ws_hd)
  obtain c t where ct: "dumps ea (snd p) = c # t" "\<not> is_ws c"
    by (rule dumps_start [OF assms(1), of ea])
  have "parse_value g (dumps ea (snd p) @ d # r) = Some (normal (snd p), d # r)"
    by (rule reads_backD) (use assms dr in auto)
  with ct dr d show ?thesis
    by (cases p) (auto simp: parse_members.simps(2) member_text_def quote_def skip_ws_hd)
qed

lemma parse_members_join:
  assumes "ps \<noteq> []" "\<forall>p \<in> set ps. wf_doc (snd p) \<and> reads_back ea (snd p)"
    and "length (join '','' (map (member_text ea) ps)) + 1 < f"
  shows "parse_members f (join '','' (map (member_text ea) ps) @ CHR ''}'' # r) =
    Some (map (map_prod (\<lambda>k. k) normal) ps, r)"
  using assms
proof (induction ps arbitrary: f rule: induct_list012)
  case (2 p)
  then obtain g where f: "f = Suc g" by (cases f) auto
  then have "length (dumps ea (snd p)) < g" using 2(3) by (simp add: member_text_def)
  with 2 f show ?case by (simp add: parse_members_step)
next
  case (3 p q ps)
  then obtain g where f: "f = Suc g" by (cases f) auto
  define rest where "rest = join '','' (map (member_text ea) (q # ps)) @ CHR ''}'' # r"
  have len: "length (dumps ea (snd p)) < g" "length (join '','' (map (member_text ea) (q # ps))) + 1 < g"
    using 3(5) f by (simp_all add: member_text_def [of ea p])
  have IH: "parse_members g rest = Some (map (map_prod (\<lambda>k. k) normal) (q # ps), r)"
    unfolding rest_def by (rule 3(2)) (use 3(4) len(2) in auto)
  obtain u where u: "join '','' (map (member_text ea) (q # ps)) = dquote # u"
    using join_members_start by blast
  then have ws: "skip_ws rest = rest"
    by (simp only: rest_def append_Cons skip_ws_hd dquote_simps not_False_eq_True)
  have "join '','' (map (member_text ea) (p # q # ps)) @ CHR ''}'' # r =
      member_text ea p @ CHR '','' # rest"
    by (simp add: rest_def)
  with 3(4) len(1) IH ws f show ?case by (simp add: parse_members_step)
qed simp

lemma py_dict_distinct: "distinct (map fst kvs) \<Longrightarrow> py_dict kvs = kvs"
proof (induction kvs rule: rev_induct)
  case (snoc p kvs)
  have "k \<notin> set (map fst d) \<Longrightarrow> dict_set k v d = d @ [(k, v)]" for k v and d :: "('a \<times> 'b) list"
    by (induction d) auto
  with snoc show ?case by (cases p) (simp add: py_dict_def)
qed (simp add: py_dict_def)

lemma dumps_dict:
  "dumps ea (PDict kvs) =
     ''{'' @ join '','' (map (member_text ea) (sort_key fst kvs)) @ ''}''"
  by (simp add: sort_key_map_prod case_prod_beta' member_text_def [abs_def] comp_def)

lemma reads_backI:
  assumes "\<And>g r. delim r \<Longrightarrow> length (dumps ea v) < Suc g \<Longrightarrow>
    parse_value (Suc g) (dumps ea v @ r) = Some (normal v, r)"
  shows "reads_back ea v"
  unfolding reads_back_def
proof (intro allI impI)
  fix f r assume "delim r" "length (dumps ea v) < f"
  then show "parse_value f (dumps ea v @ r) = Some (normal v, r)"
    using assms by (cases f) auto
qed

lemma parse_list_text:
  assumes "\<forall>x \<in> set xs. wf_doc x \<and> reads_back ea x"
    and "length (join '','' (map (dumps ea) xs)) + 2 < Suc g"
  shows "parse_value (Suc g) (''['' @ join '','' (map (dumps ea) xs) @ CHR '']'' # r) =
    Some (PList (map normal xs), r)"
proof (cases xs)
  case Nil
  then show ?thesis by (simp add: parse_value.simps(2) dquote_def skip_ws_hd)
next
  case (Cons x ys)
  with assms have "wf_doc x" by simp
  then obtain c t where ct: "dumps ea x = c # t" "\<not> is_ws c" "c \<noteq> CHR '']''"
    by (rule dumps_start [of _ ea])
  then obtain u where u: "join '','' (map (dumps ea) xs) = c # u"
    using Cons by (cases ys) auto
  have "parse_elems g (join '','' (map (dumps ea) xs) @ CHR '']'' # r) = Some (map normal xs, r)"
    by (rule parse_elems_join) (use assms Cons in auto)
  with ct u show ?thesis by (simp add: parse_value.simps(2) dquote_def skip_ws_hd)
qed

lemma parse_dict_text:
  assumes "\<forall>p \<in> set ps. wf_doc (snd p) \<and> reads_back ea (snd p)" "distinct (map fst ps)"
    and "length (join '','' (map (member_text ea) ps)) + 2 < Suc g"
  shows "parse_value (Suc g) (''{'' @ join '','' (map (member_text ea) ps) @ CHR ''}'' # r) =
    Some (PDict (map (map_prod (\<lambda>k. k) normal) ps), r)"
proof (cases ps)
  case Nil
  then show ?thesis by (simp add: parse_value.simps(2) dquote_def skip_ws_hd)
next
  case (Cons p qs)
  obtain u where u: "join '','' (map (member_text ea) ps) = dquote # u"
    using join_members_start [of ea p qs] Cons by auto
  have "parse_members g (join '','' (map (member_text ea) ps) @ CHR ''}'' # r) =
      Some (map (map_prod (\<lambda>k. k) normal) ps, r)"
    by (rule parse_members_join) (use assms Cons in auto)
  moreover have "py_dict (map (map_prod (\<lambda>k. k) normal) ps) = map (map_prod (\<lambda>k. k) normal) ps"
    using assms(2) by (intro py_dict_distinct) (simp add: comp_def)
  moreover have "dquote \<noteq> CHR ''}''" by (simp add: dquote_def)
  ultimately show ?thesis using u by (simp add: parse_value.simps(2) skip_ws_hd)
qed

lemma reads_back_str: "reads_back ea (PStr t)"
  by (rule reads_backI) (simp add: parse_value.simps(2) quote_def)

lemma parse_value_literal:
  "parse_value (Suc g) (''null'' @ r) = Some (PNone, r)"
  "parse_value (Suc g) (''true'' @ r) = Some (PBool True, r)"
  "parse_value (Suc g) (''false'' @ r) = Some (PBool False, r)"
  "parse_value (Suc g) (''NaN'' @ r) = Some (PNonFinite ''NaN'', r)"
  "parse_value (Suc g) (''Infinity'' @ r) = Some (PNonFinite ''Infinity'', r)"
  "parse_value (Suc g) (''-Infinity'' @ r) = Some (PNonFinite ''-Infinity'', r)"
  by (simp_all add: parse_value.simps(2) starts_with_def dquote_def)

lemma reads_back_leaf: "reads_back ea PNone" "reads_back ea (PBool b)"
  "wf_doc (PNonFinite t) \<Longrightarrow> reads_back ea (PNonFinite t)"
  by (rule reads_backI, use parse_value_literal in force)+

lemma reads_back: "wf_doc v \<Longrightarrow> reads_back ea v"
proof (induction v)
  case (PInt i)
  show ?case by (rule reads_backI) (simp add: parse_value_num [OF read_num_int_str])
next
  case (PFloat t)
  then show ?case by (intro reads_backI) (simp add: parse_value_num float_text_def)
next
  case (PList xs)
  then have "\<forall>x \<in> set xs. wf_doc x \<and> reads_back ea x" by (auto simp: list_all_iff)
  then show ?case using parse_list_text [of xs ea] by (intro reads_backI) auto
next
  case (PTuple xs)
  then have "\<forall>x \<in> set xs. wf_doc x \<and> reads_back ea x" by (auto simp: list_all_iff)
  then show ?case using parse_list_text [of xs ea] by (intro reads_backI) auto
next
  case (PDict kvs)
  then have "\<forall>p \<in> set (sort_key fst kvs). wf_doc (snd p) \<and> reads_back ea (snd p)"
    by (force simp: list_all_iff)
  moreover have "distinct (map fst (sort_key fst kvs))"
    using PDict.prems by (simp add: distinct_map)
  ultimately show ?case
    using parse_dict_text [of "sort_key fst kvs" ea]
    by (intro reads_backI) (simp add: dumps_dict sort_key_map_prod del: dumps.simps)
next
  case (PObject n)
  then show ?case by simp
qed (auto intro: reads_back_leaf reads_back_str)

lemma loads_dumps_normal:
  assumes "wf_doc v"
  shows "loads (dumps ea v) = Inr (normal v)"
proof -
  have ws: "skip_ws (dumps ea v) = dumps ea v"
    using dumps_start [OF assms, of ea] by (metis skip_ws_hd)
  have "parse_value (Suc (length (dumps ea v))) (dumps ea v @ []) = Some (normal v, [])"
    by (rule reads_backD [OF reads_back [OF assms]]) simp_all
  then show ?thesis by (simp add: loads_def ws) (simp add: skip_ws_def)
qed

section \<open>A digest binds the document\<close>

lemma normal_plain [simp]: "normal (plain v) = normal v"
proof (induction v)
  case (PDict kvs)
  then have "map (map_prod (\<lambda>k. k) normal) (map (map_prod (\<lambda>k. k) plain) kvs) =
      map (map_prod (\<lambda>k. k) normal) kvs"
    by auto
  then show ?case by (simp only: plain.simps normal.simps)
qed auto

lemma wf_doc_plain [simp]: "wf_doc (plain v) = wf_doc v"
proof (induction v)
  case (PDict kvs)
  have "map (map_prod (\<lambda>k. k) wf_doc) (map (map_prod (\<lambda>k. k) plain) kvs) =
      map (map_prod (\<lambda>k. k) wf_doc) kvs"
    using PDict by auto
  moreover have "map fst (map (map_prod (\<lambda>k. k) plain) kvs) = map fst kvs" by simp
  ultimately show ?case by (simp only: plain.simps wf_doc.simps)
qed (auto simp: list_all_iff)

definition utf8_char :: "char \<Rightarrow> string" where
  "utf8_char c = (if code c < 128 then [c]
     else [char_of (192 + code c div 64), char_of (128 + code c mod 64)])"

lemma utf8_Cons [simp]: "utf8 (c # s) = utf8_char c @ utf8 s"
  by (simp add: utf8_def utf8_char_def)

lemma utf8_Nil [simp]: "utf8 [] = []"
  by (simp add: utf8_def)

lemma utf8_char_prefix: "utf8_char c @ s = utf8_char d @ t \<Longrightarrow> c = d \<and> s = t"
proof -
  have lead: "code (char_of (192 + code c div 64)) = 192 + code c div 64"
    "code (char_of (128 + code c mod 64)) = 128 + code c mod 64" if "\<not> code c < 128" for c
    using code_lt [of c] by (simp_all add: code_char_of del: code_lt)
  have eq: "c = d" if "code c div 64 = code d div 64" "code c mod 64 = code d mod 64"
    by (metis that code_inject div_mult_mod_eq)
  assume a: "utf8_char c @ s = utf8_char d @ t"
  show ?thesis
  proof (cases "code c < 128"; cases "code d < 128")
    assume c: "\<not> code c < 128" and d: "\<not> code d < 128"
    with a have "char_of (192 + code c div 64) = char_of (192 + code d div 64)"
      "char_of (128 + code c mod 64) = char_of (128 + code d mod 64)" "s = t"
      by (simp_all add: utf8_char_def)
    with lead [OF c] lead [OF d] have "code c div 64 = code d div 64" "code c mod 64 = code d mod 64" "s = t"
      by (metis add_left_cancel)+
    with eq show ?thesis by simp
  next
    assume c: "code c < 128" and d: "\<not> code d < 128"
    with a have "c = char_of (192 + code d div 64)" by (simp add: utf8_char_def)
    with lead [OF d] c show ?thesis by simp
  next
    assume c: "\<not> code c < 128" and d: "code d < 128"
    with a have "d = char_of (192 + code c div 64)" by (simp add: utf8_char_def)
    with lead [OF c] d show ?thesis by simp
  qed (use a in \<open>simp add: utf8_char_def\<close>)
qed

lemma utf8_inject: "utf8 s = utf8 t \<Longrightarrow> s = t"
proof (induction s arbitrary: t)
  case Nil
  then show ?case by (cases t) (auto simp: utf8_char_def split: if_splits)
next
  case (Cons c s)
  then obtain d u where t: "t = d # u"
    by (cases t) (auto simp: utf8_char_def split: if_splits)
  with Cons.prems have "utf8_char c @ utf8 s = utf8_char d @ utf8 u" by simp
  then have "c = d" "utf8 s = utf8 u" by (auto dest: utf8_char_prefix)
  with Cons.IH t show ?case by simp
qed

lemma canonical_document_Inr:
  "canonical_document v = Inr t \<longleftrightarrow> json_ok False (plain v) \<and> t = dumps False (plain v)"
  by (auto simp: canonical_document_def)

text \<open>
  Reading back what \<open>json.dumps\<close> with sorted keys and compact separators printed gives the
  document, its keys in order and its tuples as lists, for every document Python can hold.
\<close>

theorem json_round_trip:
  assumes "wf_doc v"
  shows "loads (dumps ea v) = Inr (normal v)"
  using assms by (rule loads_dumps_normal)

theorem json_round_trip_witness:
  "loads (dumps False (PDict [(''terms'', PTuple [PInt (-25), PStr [dquote]]), (''a'', PNone)])) =
     Inr (normal (PDict [(''terms'', PTuple [PInt (-25), PStr [dquote]]), (''a'', PNone)]))"
  by (rule json_round_trip) simp

text \<open>
  A canonical text determines its document: two documents that \<open>canonical_document\<close>
  prints alike are equal up to the order of keys and the kind of sequence.
\<close>

theorem canonical_document_injective:
  assumes "wf_doc v" "wf_doc w" "canonical_document v = Inr t" "canonical_document w = Inr t"
  shows "normal v = normal w"
proof -
  from assms have "loads t = Inr (normal v)" "loads t = Inr (normal w)"
    using loads_dumps_normal [of "plain v" False] loads_dumps_normal [of "plain w" False]
    by (simp_all add: canonical_document_Inr)
  then show ?thesis by simp
qed

theorem canonical_document_injective_witness:
  "normal (PDict [(''a'', PList [PInt 1]), (''b'', PNone)]) =
     normal (PDict [(''a'', PTuple [PInt 1]), (''b'', PNone)])"
  by (rule canonical_document_injective [where t = "dumps False (PDict [(''a'', PList [PInt 1]), (''b'', PNone)])"])
    (simp_all add: canonical_document_Inr)

text \<open>
  A digest binds its document: if two documents that differ by more than the order of
  their keys have the same \<open>document_digest\<close>, the hash function has a collision, and it is
  between their canonical texts.
\<close>

theorem digest_binds_document:
  assumes "wf_doc v" "wf_doc w" "normal v \<noteq> normal w"
    and "document_digest sha v = Inr d" "document_digest sha w = Inr d"
  shows "\<exists>x y. canonical_document v = Inr x \<and> canonical_document w = Inr y \<and>
    utf8 x \<noteq> utf8 y \<and> sha (utf8 x) = sha (utf8 y)"
proof -
  from assms(4,5) have c: "canonical_document v = Inr (dumps False (plain v))"
    "canonical_document w = Inr (dumps False (plain w))"
    "sha (utf8 (dumps False (plain v))) = sha (utf8 (dumps False (plain w)))"
    by (auto simp: document_digest_def canonical_document_Inr ebind_eq_Inr)
  have "dumps False (plain v) \<noteq> dumps False (plain w)"
  proof
    assume "dumps False (plain v) = dumps False (plain w)"
    then have "loads (dumps False (plain v)) = loads (dumps False (plain w))" by simp
    with assms(1-3) show False by (simp add: loads_dumps_normal)
  qed
  with c show ?thesis by (auto dest: utf8_inject)
qed

theorem digest_binds_document_witness:
  "\<exists>x y. canonical_document (PInt 1) = Inr x \<and> canonical_document (PInt 2) = Inr y \<and>
    utf8 x \<noteq> utf8 y \<and> (\<lambda>_. ''00'') (utf8 x) = (\<lambda>_ :: string. ''00'') (utf8 y)"
  by (rule digest_binds_document [where d = "''00''"])
    (simp_all add: document_digest_def canonical_document_def)

end
