(* ===== verification/OutcomeStates.thy ===== *)
theory OutcomeStates
  imports OutcomePrelude
begin

text \<open>
  The outcome state machine, \<open>outcomes/state_machine.py\<close>: the allowed transitions, the
  checks of \<open>transition_outcome\<close>, and the runs of an outcome aggregate, which are shown to
  be short, to end in a terminal state, and to reach money only through verification.
\<close>

datatype outcome_state =
    Captured | Qualified | Converted | Verified | Billable | Disputed
  | Rejected | Failed | Settled | Credited

primrec state_value :: "outcome_state \<Rightarrow> string" where
  "state_value Captured = ''captured''"
| "state_value Qualified = ''qualified''"
| "state_value Converted = ''converted''"
| "state_value Verified = ''verified''"
| "state_value Billable = ''billable''"
| "state_value Disputed = ''disputed''"
| "state_value Rejected = ''rejected''"
| "state_value Failed = ''failed''"
| "state_value Settled = ''settled''"
| "state_value Credited = ''credited''"

primrec allowed_transitions :: "outcome_state \<Rightarrow> outcome_state set" where
  "allowed_transitions Captured = {Qualified, Rejected}"
| "allowed_transitions Qualified = {Converted, Rejected}"
| "allowed_transitions Converted = {Verified, Rejected, Failed}"
| "allowed_transitions Verified = {Billable}"
| "allowed_transitions Billable = {Settled, Disputed}"
| "allowed_transitions Disputed = {Settled, Credited}"
| "allowed_transitions Rejected = {}"
| "allowed_transitions Failed = {}"
| "allowed_transitions Settled = {}"
| "allowed_transitions Credited = {}"

record transition_args =
  ta_current_state :: outcome_state
  ta_expected_version :: int
  ta_next_state :: outcome_state
  ta_tenant_id :: string
  ta_outcome_id :: string
  ta_reason_code :: string
  ta_explanation :: string
  ta_actor_id :: string
  ta_source_event_ids :: "string list"
  ta_evidence_ids :: "string list"
  ta_rule_version_id :: string
  ta_contract_version_id :: "string option"
  ta_idempotency_key :: string
  ta_now :: "datetime option"

record outcome_transition =
  ot_tenant_id :: string
  ot_outcome_id :: string
  ot_from_state :: outcome_state
  ot_to_state :: outcome_state
  ot_reason_code :: string
  ot_explanation :: string
  ot_actor_id :: string
  ot_source_event_ids :: "string list"
  ot_evidence_ids :: "string list"
  ot_rule_version_id :: string
  ot_contract_version_id :: "string option"
  ot_idempotency_key :: string
  ot_occurred_at :: datetime
  ot_version :: int

definition audit_fields :: "transition_args \<Rightarrow> string list" where
  "audit_fields a = [ta_tenant_id a, ta_outcome_id a, ta_reason_code a, ta_explanation a,
     ta_actor_id a, ta_rule_version_id a, ta_idempotency_key a]"

text \<open>\<open>clock\<close> is what \<open>datetime.now(UTC)\<close> would return.\<close>

definition transition_outcome :: "datetime \<Rightarrow> transition_args \<Rightarrow> exn + outcome_transition" where
  "transition_outcome clock a =
     (if ta_next_state a \<notin> allowed_transitions (ta_current_state a)
      then Inl (DomainError (''transition '' @ state_value (ta_current_state a) @ '' -> '' @
        state_value (ta_next_state a) @ '' is not allowed''))
      else if list_ex blank (audit_fields a)
      then Inl (DomainError ''transition audit fields must not be blank'')
      else if ta_expected_version a < 0
      then Inl (DomainError ''optimistic-concurrency version must not be negative'')
      else Inr \<lparr>ot_tenant_id = ta_tenant_id a, ot_outcome_id = ta_outcome_id a,
        ot_from_state = ta_current_state a, ot_to_state = ta_next_state a,
        ot_reason_code = ta_reason_code a, ot_explanation = ta_explanation a,
        ot_actor_id = ta_actor_id a, ot_source_event_ids = ta_source_event_ids a,
        ot_evidence_ids = ta_evidence_ids a, ot_rule_version_id = ta_rule_version_id a,
        ot_contract_version_id = ta_contract_version_id a,
        ot_idempotency_key = ta_idempotency_key a,
        ot_occurred_at = (case ta_now a of Some t \<Rightarrow> t | None \<Rightarrow> clock),
        ot_version = ta_expected_version a + 1\<rparr>)"

section \<open>Runs of an outcome\<close>

text \<open>
  An outcome aggregate is its state and its version; a step is a successful transition
  requested for that state and version, and moves to the target and the new version.
\<close>

type_synonym aggregate = "outcome_state \<times> int"

inductive outcome_step :: "aggregate \<Rightarrow> aggregate \<Rightarrow> bool" where
  "transition_outcome clock a = Inr t \<Longrightarrow>
     outcome_step (ta_current_state a, ta_expected_version a) (ot_to_state t, ot_version t)"

inductive_cases outcome_stepE: "outcome_step x y"

fun outcome_run :: "aggregate \<Rightarrow> aggregate list \<Rightarrow> bool" where
  "outcome_run x [] = True"
| "outcome_run x (y # ys) = (outcome_step x y \<and> outcome_run y ys)"

lemma outcome_step_iff:
  "outcome_step (s, n) (s', n') \<longleftrightarrow> s' \<in> allowed_transitions s \<and> 0 \<le> n \<and> n' = n + 1"
proof
  assume "outcome_step (s, n) (s', n')"
  then show "s' \<in> allowed_transitions s \<and> 0 \<le> n \<and> n' = n + 1"
    by (auto elim!: outcome_stepE simp: transition_outcome_def split: if_splits)
next
  assume r: "s' \<in> allowed_transitions s \<and> 0 \<le> n \<and> n' = n + 1"
  define a where "a = \<lparr>ta_current_state = s, ta_expected_version = n, ta_next_state = s',
    ta_tenant_id = ''t'', ta_outcome_id = ''o'', ta_reason_code = ''r'', ta_explanation = ''e'',
    ta_actor_id = ''a'', ta_source_event_ids = [], ta_evidence_ids = [], ta_rule_version_id = ''v'',
    ta_contract_version_id = None, ta_idempotency_key = ''k'', ta_now = None\<rparr>"
  have "\<exists>t. transition_outcome (Aware 0) a = Inr t \<and> ot_to_state t = s' \<and> ot_version t = n'"
    using r by (simp add: a_def transition_outcome_def audit_fields_def blank_def is_space_def code_def)
  then obtain t where "transition_outcome (Aware 0) a = Inr t" "ot_to_state t = s'" "ot_version t = n'"
    by blast
  then show "outcome_step (s, n) (s', n')"
    using outcome_step.intros [of "Aware 0" a t] by (simp add: a_def)
qed

text \<open>The longest way a state still has to go; every transition shortens it.\<close>

primrec rank :: "outcome_state \<Rightarrow> nat" where
  "rank Captured = 6"
| "rank Qualified = 5"
| "rank Converted = 4"
| "rank Verified = 3"
| "rank Billable = 2"
| "rank Disputed = 1"
| "rank Rejected = 0"
| "rank Failed = 0"
| "rank Settled = 0"
| "rank Credited = 0"

lemma rank_decreases: "s' \<in> allowed_transitions s \<Longrightarrow> rank s' < rank s"
  by (cases s) auto

lemma run_length: "outcome_run (s, n) ys \<Longrightarrow> length ys \<le> rank s \<and> (ys \<noteq> [] \<longrightarrow> snd (last ys) = n + int (length ys))"
proof (induction ys arbitrary: s n)
  case (Cons y ys)
  obtain s' n' where y: "y = (s', n')" by force
  with Cons.prems have "s' \<in> allowed_transitions s" "n' = n + 1" "outcome_run (s', n') ys"
    by (auto simp: outcome_step_iff)
  with Cons.IH [of s' n'] y rank_decreases [of s' s] show ?case by auto
qed simp

definition money_states :: "outcome_state set" where
  "money_states = {Billable, Disputed, Settled, Credited}"

lemma verified_first:
  "outcome_run (s, n) ys \<Longrightarrow> s \<notin> insert Verified money_states \<Longrightarrow>
     fst (last ((s, n) # ys)) \<in> money_states \<Longrightarrow> Verified \<in> fst ` set ys"
proof (induction ys arbitrary: s n)
  case (Cons y ys)
  obtain s' n' where y: "y = (s', n')" by force
  with Cons.prems have step: "s' \<in> allowed_transitions s" "outcome_run (s', n') ys"
    by (auto simp: outcome_step_iff)
  show ?case
  proof (cases "s' = Verified")
    case False
    with step(1) Cons.prems(2) have "s' \<notin> insert Verified money_states"
      by (cases s) (auto simp: money_states_def)
    with Cons.IH [OF step(2)] Cons.prems(3) y show ?thesis by auto
  qed (simp add: y)
qed simp

text \<open>
  Nothing is billed, settled, disputed or credited without verification: a run of
  successful transitions from a captured outcome to one of those states passes through
  \<open>verified\<close>.
\<close>

theorem money_only_after_verification:
  assumes "outcome_run (Captured, n) ys" "ys \<noteq> []"
    and "fst (last ys) \<in> {Billable, Disputed, Settled, Credited}"
  shows "Verified \<in> fst ` set ys"
  by (rule verified_first [OF assms(1)]) (use assms(2,3) in \<open>auto simp: money_states_def\<close>)

theorem money_only_after_verification_witness:
  "Verified \<in> fst ` set [(Qualified, 1), (Converted, 2), (Verified, 3), (Billable, 4 :: int)]"
  by (rule money_only_after_verification [of 0]) (simp_all add: outcome_step_iff)

text \<open>
  C38. Every outcome ends: a run of transitions from any state is at most six steps long,
  each raising the version by one, and an outcome is stuck exactly in the four terminal
  states \<open>rejected\<close>, \<open>failed\<close>, \<open>settled\<close> and \<open>credited\<close>.
\<close>

theorem outcome_runs_end:
  assumes "outcome_run (s, n) ys" "0 \<le> n"
  shows "length ys \<le> 6 \<and> snd (last ((s, n) # ys)) = n + int (length ys) \<and>
    ((\<nexists>y. outcome_step (last ((s, n) # ys)) y) \<longleftrightarrow>
      fst (last ((s, n) # ys)) \<in> {Rejected, Failed, Settled, Credited})"
proof -
  note len = run_length [OF assms(1)]
  have "rank s \<le> 6" by (cases s) auto
  then have 1: "length ys \<le> 6" "snd (last ((s, n) # ys)) = n + int (length ys)"
    using len by auto
  obtain s' n' where l: "last ((s, n) # ys) = (s', n')" by force
  have "0 \<le> n'" using 1(2) l assms(2) by simp
  then have "(\<exists>y. outcome_step (s', n') y) \<longleftrightarrow> allowed_transitions s' \<noteq> {}"
    by (auto simp: outcome_step_iff)
  also have "\<dots> \<longleftrightarrow> s' \<notin> {Rejected, Failed, Settled, Credited}"
    by (cases s') auto
  finally show ?thesis using 1 l by auto
qed

theorem outcome_runs_end_witness:
  "length [(Verified, 3 :: int)] \<le> 6 \<and> snd (last ((Converted, 2) # [(Verified, 3)])) = 2 + int (length [(Verified, 3 :: int)]) \<and>
    ((\<nexists>y. outcome_step (last ((Converted, 2) # [(Verified, 3)])) y) \<longleftrightarrow>
      fst (last ((Converted, 2 :: int) # [(Verified, 3)])) \<in> {Rejected, Failed, Settled, Credited})"
  by (rule outcome_runs_end) (simp_all add: outcome_step_iff)

end
