(* ===== verification/Evaluator.thy ===== *)
theory Evaluator
  imports Json OutcomeStates "HOL-Library.Product_Lexorder"
begin

text \<open>
  The deterministic outcome evaluator: the template registry of \<open>outcomes/templates.py\<close> and
  \<open>evaluate\<close> of \<open>outcomes/evaluator.py\<close>, with its validation, the merging of duplicate
  events, the ordering, the admissibility windows, the verdict, and the two digests.
\<close>

section \<open>Templates\<close>

record template_strategy =
  ts_name :: string
  ts_required :: "string set"
  ts_disqualifying :: "string set"
  ts_conflicting :: "string set list"
  ts_monetary_events :: "string set"

definition template_registry :: "template_strategy list" where
  "template_registry =
    [\<lparr>ts_name = ''delivered_paid_order'',
      ts_required = {''order.confirmed'', ''fulfillment.delivered'', ''payment.succeeded''},
      ts_disqualifying = {''order.returned'', ''payment.refunded''},
      ts_conflicting = [],
      ts_monetary_events = {''order.confirmed'', ''payment.succeeded'', ''payment.refunded''}\<rparr>,
     \<lparr>ts_name = ''attended_booking'',
      ts_required = {''booking.created'', ''booking.attended''},
      ts_disqualifying = {''booking.no_show''},
      ts_conflicting = [{''booking.attended'', ''booking.no_show''}],
      ts_monetary_events = {}\<rparr>,
     \<lparr>ts_name = ''qualified_lead_accepted'',
      ts_required = {''lead.captured'', ''lead.qualified'', ''lead.accepted''},
      ts_disqualifying = {}, ts_conflicting = [], ts_monetary_events = {}\<rparr>,
     \<lparr>ts_name = ''paid_activated_subscription'',
      ts_required = {''account.activated'', ''payment.succeeded''},
      ts_disqualifying = {''payment.refunded''},
      ts_conflicting = [],
      ts_monetary_events = {''payment.succeeded'', ''payment.refunded''}\<rparr>]"

definition lookup_template :: "string \<Rightarrow> template_strategy option" where
  "lookup_template name = find (\<lambda>s. ts_name s = name) template_registry"

section \<open>Verdicts, reasons and errors\<close>

datatype verdict = Pending | VerdictVerified | VerdictRejected

primrec verdict_value :: "verdict \<Rightarrow> string" where
  "verdict_value Pending = ''pending''"
| "verdict_value VerdictVerified = ''verified''"
| "verdict_value VerdictRejected = ''rejected''"

datatype reason_code =
    AwaitingRequiredEvidence | AwaitingFinalization | TemplateSatisfied | RequiredEventMissing
  | DisqualifyingEventPresent | ConflictingTerminalEvents | AmbiguousAnchorEvent
  | EventOutsideEvaluationWindow | NoEffectiveContract | AmbiguousEffectiveContract
  | ContractNotEffective | RuleNotPublished | ContractRuleDigestMismatch | CrossTenantEvidence
  | CanonicalEventDigestMismatch | UnsupportedEventSchema | SubjectMismatch | CurrencyMismatch
  | UnsupportedTemplate | InvalidTimestamp | InvalidConfiguration

primrec reason_value :: "reason_code \<Rightarrow> string" where
  "reason_value AwaitingRequiredEvidence = ''awaiting_required_evidence''"
| "reason_value AwaitingFinalization = ''awaiting_finalization''"
| "reason_value TemplateSatisfied = ''template_satisfied''"
| "reason_value RequiredEventMissing = ''required_event_missing''"
| "reason_value DisqualifyingEventPresent = ''disqualifying_event_present''"
| "reason_value ConflictingTerminalEvents = ''conflicting_terminal_events''"
| "reason_value AmbiguousAnchorEvent = ''ambiguous_anchor_event''"
| "reason_value EventOutsideEvaluationWindow = ''event_outside_evaluation_window''"
| "reason_value NoEffectiveContract = ''no_effective_contract''"
| "reason_value AmbiguousEffectiveContract = ''ambiguous_effective_contract''"
| "reason_value ContractNotEffective = ''contract_not_effective''"
| "reason_value RuleNotPublished = ''rule_not_published''"
| "reason_value ContractRuleDigestMismatch = ''contract_rule_digest_mismatch''"
| "reason_value CrossTenantEvidence = ''cross_tenant_evidence''"
| "reason_value CanonicalEventDigestMismatch = ''canonical_event_digest_mismatch''"
| "reason_value UnsupportedEventSchema = ''unsupported_event_schema''"
| "reason_value SubjectMismatch = ''subject_mismatch''"
| "reason_value CurrencyMismatch = ''currency_mismatch''"
| "reason_value UnsupportedTemplate = ''unsupported_template''"
| "reason_value InvalidTimestamp = ''invalid_timestamp''"
| "reason_value InvalidConfiguration = ''invalid_configuration''"

text \<open>
  \<open>EvaluationError\<close> is the bounded error of the source; \<open>DateOverflow\<close> is the
  \<open>OverflowError\<close> of adding a window past the year 9999, and \<open>Unprintable\<close> a
  \<open>DomainError\<close> of the canonical printer, which is shown never to occur.
\<close>

datatype evaluation_failure =
    EvaluationError reason_code
  | DateOverflow
  | Unprintable exn

section \<open>Events and requests\<close>

record money_metadata =
  mm_minor_units :: int
  mm_currency :: string

definition mk_money_metadata :: "pyval \<Rightarrow> string \<Rightarrow> evaluation_failure + money_metadata" where
  "mk_money_metadata units cur =
     (case units of
        PInt i \<Rightarrow>
          (if length cur \<noteq> 3 \<or> \<not> isalpha cur \<or> \<not> isupper cur
           then Inl (EvaluationError InvalidConfiguration)
           else Inr \<lparr>mm_minor_units = i, mm_currency = cur\<rparr>)
      | _ \<Rightarrow> Inl (EvaluationError InvalidConfiguration))"

record trusted_event =
  te_tenant_id :: string
  te_event_id :: string
  te_event_digest :: string
  te_event_type :: string
  te_schema_version :: int
  te_occurred_at :: datetime
  te_received_at :: datetime
  te_subject_type :: string
  te_subject_id :: string
  te_references :: "(string \<times> string) list"
  te_money :: "money_metadata option"
  te_status :: "string option"

definition is_sha256_hex :: "string \<Rightarrow> bool" where
  "is_sha256_hex d \<longleftrightarrow> length d = 64 \<and> list_all is_hex d"

definition trusted_post_init :: "trusted_event \<Rightarrow> evaluation_failure + trusted_event" where
  "trusted_post_init e =
     (if \<not> dt_aware (te_occurred_at e) \<or> \<not> dt_aware (te_received_at e)
      then Inl (EvaluationError InvalidTimestamp)
      else if \<not> is_sha256_hex (te_event_digest e)
      then Inl (EvaluationError CanonicalEventDigestMismatch)
      else if te_schema_version e \<noteq> 1 then Inl (EvaluationError UnsupportedEventSchema)
      else Inr e)"

definition opt_str :: "string option \<Rightarrow> pyval" where
  "opt_str s = (case s of None \<Rightarrow> PNone | Some t \<Rightarrow> PStr t)"

definition event_canonical :: "trusted_event \<Rightarrow> pyval" where
  "event_canonical e = PDict
     [(''tenant_id'', PStr (te_tenant_id e)),
      (''event_id'', PStr (te_event_id e)),
      (''event_digest'', PStr (te_event_digest e)),
      (''event_type'', PStr (te_event_type e)),
      (''schema_version'', PInt (te_schema_version e)),
      (''occurred_at'', PStr (iso_utc (dt_instant (te_occurred_at e)))),
      (''received_at'', PStr (iso_utc (dt_instant (te_received_at e)))),
      (''subject_type'', PStr (te_subject_type e)),
      (''subject_id'', PStr (te_subject_id e)),
      (''references'', PList (map (\<lambda>r. PList (map PStr r))
         (sort (map (\<lambda>(a, b). [a, b]) (te_references e))))),
      (''money'', case te_money e of None \<Rightarrow> PNone
         | Some m \<Rightarrow> PDict [(''minor_units'', PInt (mm_minor_units m)), (''currency'', PStr (mm_currency m))]),
      (''status'', opt_str (te_status e))]"

record evaluation_request =
  rq_tenant_id :: string
  rq_outcome_id :: string
  rq_evaluation_id :: string
  rq_evaluator_schema_version :: int
  rq_as_of :: datetime
  rq_source_type :: string
  rq_source_id :: string
  rq_contract_version_id :: string
  rq_contract_digest :: string
  rq_rule_version_id :: string
  rq_rule_digest :: string
  rq_rule_published :: bool
  rq_template :: string
  rq_anchor_event_type :: string
  rq_evaluation_window_seconds :: int
  rq_finalization_window_seconds :: int
  rq_subject_type :: string
  rq_subject_id :: string

record evidence_reference =
  er_event_id :: string
  er_event_digest :: string
  er_event_type :: string
  er_role :: string

record evaluation_result =
  rs_outcome_id :: string
  rs_evaluation_id :: string
  rs_verdict :: verdict
  rs_reason_code :: reason_code
  rs_progress_state :: outcome_state
  rs_evidence :: "evidence_reference list"
  rs_input_digest :: string
  rs_decision_digest :: string
  rs_anchor_occurred_at :: datetime
  rs_finalization_boundary :: datetime

definition max_window_seconds :: int where
  "max_window_seconds = 366 * 24 * 60 * 60"

definition validate_request :: "evaluation_request \<Rightarrow> evaluation_failure + template_strategy" where
  "validate_request rq =
     (if \<not> dt_aware (rq_as_of rq) then Inl (EvaluationError InvalidTimestamp)
      else if rq_evaluator_schema_version rq \<noteq> 1 then Inl (EvaluationError InvalidConfiguration)
      else (case lookup_template (rq_template rq) of
        None \<Rightarrow> Inl (EvaluationError UnsupportedTemplate)
      | Some strategy \<Rightarrow>
          (if rq_anchor_event_type rq \<notin> ts_required strategy
           then Inl (EvaluationError InvalidConfiguration)
           else if \<not> (0 < rq_evaluation_window_seconds rq \<and>
               rq_evaluation_window_seconds rq \<le> max_window_seconds)
           then Inl (EvaluationError InvalidConfiguration)
           else if \<not> (0 \<le> rq_finalization_window_seconds rq \<and>
               rq_finalization_window_seconds rq \<le> max_window_seconds)
           then Inl (EvaluationError InvalidConfiguration)
           else if \<not> rq_rule_published rq then Inl (EvaluationError RuleNotPublished)
           else if \<not> is_sha256_hex (rq_contract_digest rq) \<or> \<not> is_sha256_hex (rq_rule_digest rq)
           then Inl (EvaluationError ContractRuleDigestMismatch)
           else Inr strategy)))"

section \<open>The evaluation\<close>

text \<open>The loop over the events, with the dictionary \<open>unique\<close> keyed by event identity.\<close>

fun collect :: "evaluation_request \<Rightarrow> trusted_event list \<Rightarrow> (string \<times> trusted_event) list \<Rightarrow>
    evaluation_failure + (string \<times> trusted_event) list" where
  "collect rq [] unique = Inr unique"
| "collect rq (e # es) unique =
     (if te_tenant_id e \<noteq> rq_tenant_id rq then Inl (EvaluationError CrossTenantEvidence)
      else if (te_subject_type e, te_subject_id e) \<noteq> (rq_subject_type rq, rq_subject_id rq)
      then Inl (EvaluationError SubjectMismatch)
      else (case map_of unique (te_event_id e) of
          Some prior \<Rightarrow>
            (if prior \<noteq> e then Inl (EvaluationError CanonicalEventDigestMismatch)
             else collect rq es (dict_set (te_event_id e) e unique))
        | None \<Rightarrow> collect rq es (dict_set (te_event_id e) e unique)))"

definition event_key :: "trusted_event \<Rightarrow> int \<times> string \<times> string" where
  "event_key e = (dt_instant (te_occurred_at e), te_event_type e, te_event_id e)"

text \<open>
  \<open>e is anchor\<close> compares identities; the ordered events have distinct event ids, so it is
  equality here.
\<close>

definition admissible :: "evaluation_request \<Rightarrow> trusted_event \<Rightarrow> int \<Rightarrow> int \<Rightarrow> trusted_event \<Rightarrow> bool" where
  "admissible rq anchor evaluation_end finalization e \<longleftrightarrow> e = anchor \<or>
     (dt_instant (te_occurred_at anchor) \<le> dt_instant (te_occurred_at e) \<and>
      dt_instant (te_occurred_at e) < evaluation_end \<and>
      dt_instant (te_received_at e) \<le> dt_instant (rq_as_of rq) \<and>
      dt_instant (te_received_at e) \<le> finalization)"

definition present_types :: "trusted_event list \<Rightarrow> string set" where
  "present_types es = te_event_type ` set es"

definition currencies :: "template_strategy \<Rightarrow> trusted_event list \<Rightarrow> string list" where
  "currencies st es = remdups (concat (map (\<lambda>e.
     if te_event_type e \<in> ts_monetary_events st
     then (case te_money e of Some m \<Rightarrow> [mm_currency m] | None \<Rightarrow> []) else []) es))"

definition decide :: "template_strategy \<Rightarrow> string set \<Rightarrow> bool \<Rightarrow> verdict \<times> reason_code" where
  "decide st present before_finalization =
     (if present \<inter> ts_disqualifying st \<noteq> {} then (VerdictRejected, DisqualifyingEventPresent)
      else if \<not> ts_required st \<subseteq> present
      then (if before_finalization then (Pending, AwaitingRequiredEvidence)
            else (VerdictRejected, RequiredEventMissing))
      else if before_finalization then (Pending, AwaitingFinalization)
      else (VerdictVerified, TemplateSatisfied))"

definition evidence_of :: "template_strategy \<Rightarrow> trusted_event \<Rightarrow> trusted_event list \<Rightarrow> evidence_reference list" where
  "evidence_of st anchor es =
     map (\<lambda>e. \<lparr>er_event_id = te_event_id e, er_event_digest = te_event_digest e,
        er_event_type = te_event_type e,
        er_role = (if e = anchor then ''anchor''
          else if te_event_type e \<in> ts_required st then ''required'' else ''disqualifying'')\<rparr>)
       (filter (\<lambda>e. te_event_type e \<in> ts_required st \<union> ts_disqualifying st) es)"

definition progress_of :: "verdict \<Rightarrow> outcome_state" where
  "progress_of v = (case v of VerdictVerified \<Rightarrow> Verified | VerdictRejected \<Rightarrow> Rejected
     | Pending \<Rightarrow> Converted)"

definition input_document :: "evaluation_request \<Rightarrow> trusted_event list \<Rightarrow> pyval" where
  "input_document rq ordered = PDict
     [(''schema_version'', PInt (rq_evaluator_schema_version rq)),
      (''tenant_id'', PStr (rq_tenant_id rq)),
      (''as_of'', PStr (iso_utc (dt_instant (rq_as_of rq)))),
      (''source'', PList [PStr (rq_source_type rq), PStr (rq_source_id rq)]),
      (''contract'', PList [PStr (rq_contract_version_id rq), PStr (rq_contract_digest rq)]),
      (''rule'', PList [PStr (rq_rule_version_id rq), PStr (rq_rule_digest rq)]),
      (''template'', PStr (rq_template rq)),
      (''anchor_event_type'', PStr (rq_anchor_event_type rq)),
      (''evaluation_window_seconds'', PInt (rq_evaluation_window_seconds rq)),
      (''finalization_window_seconds'', PInt (rq_finalization_window_seconds rq)),
      (''subject'', PList [PStr (rq_subject_type rq), PStr (rq_subject_id rq)]),
      (''events'', PList (map event_canonical ordered))]"

definition decision_document ::
    "evaluation_request \<Rightarrow> string \<Rightarrow> verdict \<Rightarrow> reason_code \<Rightarrow> evidence_reference list \<Rightarrow> int \<Rightarrow> pyval" where
  "decision_document rq input_digest v reason evidence finalization = PDict
     [(''outcome_id'', PStr (rq_outcome_id rq)),
      (''evaluation_id'', PStr (rq_evaluation_id rq)),
      (''input_digest'', PStr input_digest),
      (''verdict'', PStr (verdict_value v)),
      (''reason_code'', PStr (reason_value reason)),
      (''progress_state'', PStr (state_value (progress_of v))),
      (''evidence'', PList (map (\<lambda>i. PList [PStr (er_event_id i), PStr (er_event_digest i),
         PStr (er_event_type i), PStr (er_role i)]) evidence)),
      (''finalization_boundary'', PStr (iso_utc finalization))]"

definition digest_of :: "hash \<Rightarrow> pyval \<Rightarrow> evaluation_failure + string" where
  "digest_of sha v = map_error Unprintable (document_digest sha v)"

text \<open>The part of \<open>evaluate\<close> after the events have been merged and ordered.\<close>

definition judge :: "hash \<Rightarrow> evaluation_request \<Rightarrow> template_strategy \<Rightarrow> trusted_event list \<Rightarrow>
    evaluation_failure + evaluation_result" where
  "judge sha rq strategy ordered =
     (case filter (\<lambda>e. te_event_type e = rq_anchor_event_type rq) ordered of
        [anchor] \<Rightarrow>
          (case dt_plus (dt_instant (te_occurred_at anchor)) (rq_evaluation_window_seconds rq) of
             None \<Rightarrow> Inl DateOverflow
           | Some evaluation_end \<Rightarrow>
          (case dt_plus evaluation_end (rq_finalization_window_seconds rq) of
             None \<Rightarrow> Inl DateOverflow
           | Some finalization \<Rightarrow>
          (let adm = filter (admissible rq anchor evaluation_end finalization) ordered;
               present = present_types adm in
           if list_ex (\<lambda>conflict. conflict \<subseteq> present) (ts_conflicting strategy)
           then Inl (EvaluationError ConflictingTerminalEvents)
           else if length (currencies strategy adm) > 1 then Inl (EvaluationError CurrencyMismatch)
           else
             (let (v, reason) = decide strategy present (dt_instant (rq_as_of rq) < finalization);
                  evidence = evidence_of strategy anchor adm in
              ebind (digest_of sha (input_document rq ordered)) (\<lambda>input_digest.
              ebind (digest_of sha (decision_document rq input_digest v reason evidence finalization))
                (\<lambda>decision_digest.
              Inr \<lparr>rs_outcome_id = rq_outcome_id rq, rs_evaluation_id = rq_evaluation_id rq,
                rs_verdict = v, rs_reason_code = reason, rs_progress_state = progress_of v,
                rs_evidence = evidence, rs_input_digest = input_digest,
                rs_decision_digest = decision_digest,
                rs_anchor_occurred_at = te_occurred_at anchor,
                rs_finalization_boundary = Aware finalization\<rparr>))))))
      | _ \<Rightarrow> Inl (EvaluationError AmbiguousAnchorEvent))"

definition evaluate :: "hash \<Rightarrow> evaluation_request \<Rightarrow> trusted_event list \<Rightarrow>
    evaluation_failure + evaluation_result" where
  "evaluate sha rq events =
     ebind (validate_request rq) (\<lambda>strategy.
     ebind (collect rq events []) (\<lambda>unique.
       judge sha rq strategy (sort_key event_key (map snd unique))))"

section \<open>Merging the events\<close>

definition belongs :: "evaluation_request \<Rightarrow> trusted_event \<Rightarrow> bool" where
  "belongs rq e \<longleftrightarrow> te_tenant_id e = rq_tenant_id rq \<and>
     te_subject_type e = rq_subject_type rq \<and> te_subject_id e = rq_subject_id rq"

definition keyed :: "(string \<times> trusted_event) list \<Rightarrow> bool" where
  "keyed u \<longleftrightarrow> distinct (map fst u) \<and> (\<forall>(k, e) \<in> set u. k = te_event_id e)"

lemma keyed_map_of: "keyed u \<Longrightarrow> map_of u k = Some e \<longleftrightarrow> e \<in> snd ` set u \<and> k = te_event_id e"
  by (force simp: keyed_def map_of_eq_Some_iff image_iff)

lemma keyed_iff: "keyed u \<longleftrightarrow> distinct (map fst u) \<and> (\<forall>k e. map_of u k = Some e \<longrightarrow> k = te_event_id e)"
  by (auto simp: keyed_def map_of_eq_Some_iff)

lemma keyed_dict_set [simp]: "keyed u \<Longrightarrow> keyed (dict_set (te_event_id e) e u)"
  by (simp add: keyed_iff)

lemma keyed_Nil [simp]: "keyed []"
  by (simp add: keyed_def)

lemma values_dict_set:
  assumes "keyed u" "\<forall>e' \<in> snd ` set u. te_event_id e' = te_event_id e \<longrightarrow> e' = e"
  shows "snd ` set (dict_set (te_event_id e) e u) = insert e (snd ` set u)"
proof -
  have "e' \<in> snd ` set (dict_set (te_event_id e) e u) \<longleftrightarrow> e' \<in> insert e (snd ` set u)" for e'
    using keyed_map_of [OF keyed_dict_set [OF assms(1)], of e "te_event_id e'" e']
      keyed_map_of [OF assms(1), of "te_event_id e'" e'] assms(2) by (auto split: if_splits)
  then show ?thesis by blast
qed

text \<open>The merge succeeds on an event set that belongs to the request and names no two events alike.\<close>

lemma collect_Inr:
  "keyed u \<Longrightarrow>
     (\<exists>w. collect rq es u = Inr w) \<longleftrightarrow>
       (\<forall>e \<in> set es. belongs rq e) \<and>
       (\<forall>e \<in> set es. \<forall>e' \<in> set es \<union> snd ` set u. te_event_id e' = te_event_id e \<longrightarrow> e' = e)"
  and collect_values:
  "keyed u \<Longrightarrow> collect rq es u = Inr w \<Longrightarrow> keyed w \<and> snd ` set w = set es \<union> snd ` set u"
proof (induction es arbitrary: u)
  case (Cons e es)
  { case 1
    have m: "(\<exists>p. map_of u (te_event_id e) = Some p \<and> p \<noteq> e) \<longleftrightarrow>
        (\<exists>e' \<in> snd ` set u. te_event_id e' = te_event_id e \<and> e' \<noteq> e)"
      unfolding keyed_map_of [OF 1] by metis
    show ?case
    proof (cases "belongs rq e \<and> (\<forall>e' \<in> snd ` set u. te_event_id e' = te_event_id e \<longrightarrow> e' = e)")
      case True
      then have "collect rq (e # es) u = collect rq es (dict_set (te_event_id e) e u)"
        using m by (auto simp: belongs_def split: option.split)
      then show ?thesis
        using Cons.IH(1) [OF keyed_dict_set [OF 1], of e] values_dict_set [OF 1, of e] True by auto
    next
      case False
      then have "\<nexists>w. collect rq (e # es) u = Inr w"
        using m by (auto simp: belongs_def split: option.split)
      then show ?thesis using False by auto
    qed }
  { case 2
    then have c: "collect rq es (dict_set (te_event_id e) e u) = Inr w"
      and p: "\<And>p. map_of u (te_event_id e) = Some p \<Longrightarrow> p = e"
      by (auto split: if_splits option.splits)
    have "\<forall>e' \<in> snd ` set u. te_event_id e' = te_event_id e \<longrightarrow> e' = e"
      using p keyed_map_of [OF 2(1)] by metis
    with Cons.IH(2) [OF keyed_dict_set [OF 2(1)] c] values_dict_set [OF 2(1)] show ?case by simp }
qed auto

definition consistent :: "evaluation_request \<Rightarrow> trusted_event set \<Rightarrow> bool" where
  "consistent rq E \<longleftrightarrow> (\<forall>e \<in> E. belongs rq e) \<and>
     (\<forall>e \<in> E. \<forall>e' \<in> E. te_event_id e' = te_event_id e \<longrightarrow> e' = e)"



lemma collect_consistent:
  "(\<exists>w. collect rq es [] = Inr w) \<longleftrightarrow> consistent rq (set es)"
  by (simp add: collect_Inr consistent_def)

lemma collect_ordered:
  assumes "collect rq es [] = Inr w"
  shows "set (sort_key event_key (map snd w)) = set es"
    "distinct (map event_key (map snd w))"
proof -
  have w: "keyed w" "snd ` set w = set es" using collect_values [OF keyed_Nil assms] by auto
  then show "set (sort_key event_key (map snd w)) = set es" by simp
  have "map fst w = map (te_event_id \<circ> snd) w"
    using w(1) by (auto simp: keyed_def)
  then have "distinct (map (te_event_id \<circ> snd) w)" using w(1) by (metis keyed_def)
  then show "distinct (map event_key (map snd w))"
    by (auto simp: distinct_map inj_on_def event_key_def)
qed

lemma json_ok_event [simp]: "json_ok False (plain (event_canonical e))"
  by (auto simp: event_canonical_def opt_str_def list_all_iff split: option.split)

lemma digest_of_input: "\<exists>d. digest_of sha (input_document rq es) = Inr d"
  by (auto simp: digest_of_def document_digest_def canonical_document_def input_document_def list_all_iff)

lemma digest_of_decision: "\<exists>d. digest_of sha (decision_document rq i v r ev f) = Inr d"
  by (auto simp: digest_of_def document_digest_def canonical_document_def decision_document_def list_all_iff)

section \<open>The judgement as a specification over the set of events\<close>

text \<open>
  \<open>timely rq a E\<close> are the events of \<open>E\<close> that count once \<open>a\<close> is the anchor: those inside the
  evaluation window, received by \<open>as_of\<close> and by the finalization boundary.
\<close>

definition window_end :: "evaluation_request \<Rightarrow> trusted_event \<Rightarrow> int" where
  "window_end rq a = dt_instant (te_occurred_at a) + rq_evaluation_window_seconds rq * micros"

definition boundary :: "evaluation_request \<Rightarrow> trusted_event \<Rightarrow> int" where
  "boundary rq a = window_end rq a + rq_finalization_window_seconds rq * micros"

definition timely :: "evaluation_request \<Rightarrow> trusted_event \<Rightarrow> trusted_event set \<Rightarrow> trusted_event set" where
  "timely rq a E = {e \<in> E. admissible rq a (window_end rq a) (boundary rq a) e}"

definition is_anchor :: "evaluation_request \<Rightarrow> trusted_event \<Rightarrow> trusted_event set \<Rightarrow> bool" where
  "is_anchor rq a E \<longleftrightarrow> {e \<in> E. te_event_type e = rq_anchor_event_type rq} = {a}"

definition types :: "trusted_event set \<Rightarrow> string set" where
  "types E = te_event_type ` E"

definition paid_in :: "template_strategy \<Rightarrow> trusted_event set \<Rightarrow> string set" where
  "paid_in st E = {mm_currency m | e m. e \<in> E \<and> te_event_type e \<in> ts_monetary_events st \<and> te_money e = Some m}"

text \<open>When the evaluation of a set of events succeeds, and with which verdict and evidence.\<close>

definition judgeable :: "evaluation_request \<Rightarrow> template_strategy \<Rightarrow> trusted_event \<Rightarrow> trusted_event set \<Rightarrow> bool" where
  "judgeable rq st a E \<longleftrightarrow> consistent rq E \<and> is_anchor rq a E \<and> boundary rq a \<le> max_instant \<and>
     (\<forall>c \<in> set (ts_conflicting st). \<not> c \<subseteq> types (timely rq a E)) \<and>
     (\<forall>x \<in> paid_in st (timely rq a E). \<forall>y \<in> paid_in st (timely rq a E). x = y)"

lemma set_currencies: "set (currencies st es) = paid_in st (set es)"
  by (auto simp: currencies_def paid_in_def split: if_splits option.splits) metis+

lemma length_le_1_iff: "distinct xs \<Longrightarrow> length xs \<le> 1 \<longleftrightarrow> (\<forall>x \<in> set xs. \<forall>y \<in> set xs. x = y)"
  by (cases xs; cases "tl xs") auto

lemma one_currency: "\<not> length (currencies st es) > 1 \<longleftrightarrow>
    (\<forall>x \<in> paid_in st (set es). \<forall>y \<in> paid_in st (set es). x = y)"
  using length_le_1_iff [of "currencies st es"] by (simp add: set_currencies not_less)
    (simp add: currencies_def)

lemma one_anchor:
  assumes "distinct xs"
  shows "filter (\<lambda>e. te_event_type e = rq_anchor_event_type rq) xs = [a] \<longleftrightarrow> is_anchor rq a (set xs)"
proof
  assume f: "filter (\<lambda>e. te_event_type e = rq_anchor_event_type rq) xs = [a]"
  have "set (filter (\<lambda>e. te_event_type e = rq_anchor_event_type rq) xs) = {a}" by (simp add: f)
  then show "is_anchor rq a (set xs)" by (auto simp: is_anchor_def)
next
  assume "is_anchor rq a (set xs)"
  then show "filter (\<lambda>e. te_event_type e = rq_anchor_event_type rq) xs = [a]"
    using assms by (intro filter_eq_single) (auto simp: is_anchor_def)
qed

lemma validate_request_windows:
  "validate_request rq = Inr st \<Longrightarrow> 0 < rq_evaluation_window_seconds rq \<and>
     0 \<le> rq_finalization_window_seconds rq \<and> rq_anchor_event_type rq \<in> ts_required st \<and>
     st \<in> set template_registry"
  by (auto simp: validate_request_def lookup_template_def find_Some_iff in_set_conv_nth
      split: if_splits option.splits)

text \<open>The judgement of one anchor, with the result spelled out over the admissible events.\<close>

definition admitted :: "evaluation_request \<Rightarrow> trusted_event \<Rightarrow> trusted_event list \<Rightarrow> trusted_event list" where
  "admitted rq a xs = filter (admissible rq a (window_end rq a) (boundary rq a)) xs"

definition result_fits :: "evaluation_request \<Rightarrow> template_strategy \<Rightarrow> trusted_event \<Rightarrow> trusted_event list \<Rightarrow>
    evaluation_result \<Rightarrow> bool" where
  "result_fits rq st a xs r \<longleftrightarrow>
     (rs_verdict r, rs_reason_code r) =
        decide st (types (timely rq a (set xs))) (dt_instant (rq_as_of rq) < boundary rq a) \<and>
     rs_evidence r = evidence_of st a (admitted rq a xs) \<and>
     rs_anchor_occurred_at r = te_occurred_at a \<and> rs_finalization_boundary r = Aware (boundary rq a) \<and>
     rs_progress_state r = progress_of (rs_verdict r)"

lemma set_admitted: "set (admitted rq a xs) = timely rq a (set xs)"
  by (auto simp: timely_def admitted_def)

lemma judge_anchor:
  assumes "filter (\<lambda>e. te_event_type e = rq_anchor_event_type rq) xs = [a]"
    and "0 \<le> rq_finalization_window_seconds rq"
  shows "judge sha rq st xs =
    (if max_instant < boundary rq a then Inl DateOverflow
     else if list_ex (\<lambda>c. c \<subseteq> types (timely rq a (set xs))) (ts_conflicting st)
     then Inl (EvaluationError ConflictingTerminalEvents)
     else if length (currencies st (admitted rq a xs)) > 1 then Inl (EvaluationError CurrencyMismatch)
     else (let (v, reason) = decide st (types (timely rq a (set xs))) (dt_instant (rq_as_of rq) < boundary rq a);
             evidence = evidence_of st a (admitted rq a xs) in
       ebind (digest_of sha (input_document rq xs)) (\<lambda>input_digest.
       ebind (digest_of sha (decision_document rq input_digest v reason evidence (boundary rq a)))
         (\<lambda>decision_digest.
       Inr \<lparr>rs_outcome_id = rq_outcome_id rq, rs_evaluation_id = rq_evaluation_id rq,
         rs_verdict = v, rs_reason_code = reason, rs_progress_state = progress_of v,
         rs_evidence = evidence, rs_input_digest = input_digest,
         rs_decision_digest = decision_digest,
         rs_anchor_occurred_at = te_occurred_at a,
         rs_finalization_boundary = Aware (boundary rq a)\<rparr>))))"
proof -
  have nn: "0 \<le> rq_finalization_window_seconds rq * micros" using assms(2) by simp
  have p: "present_types (admitted rq a xs) = types (timely rq a (set xs))"
    by (simp add: present_types_def types_def set_admitted)
  have w: "dt_plus (dt_instant (te_occurred_at a)) (rq_evaluation_window_seconds rq) =
      (if window_end rq a \<le> max_instant then Some (window_end rq a) else None)"
    "dt_plus (window_end rq a) (rq_finalization_window_seconds rq) =
      (if boundary rq a \<le> max_instant then Some (boundary rq a) else None)"
    "boundary rq a \<le> max_instant \<Longrightarrow> window_end rq a \<le> max_instant"
    using nn by (simp_all add: dt_plus_def window_end_def boundary_def)
  show ?thesis
  proof (cases "boundary rq a \<le> max_instant")
    case True
    then have nl: "\<not> max_instant < boundary rq a" by simp
    show ?thesis unfolding judge_def assms(1)
      by (simp only: w(1) w(2) w(3) [OF True] True nl if_True option.case list.case admitted_def [symmetric] p Let_def
          if_False)
  next
    case False
    then show ?thesis unfolding judge_def assms(1) by (simp add: w(1,2))
  qed
qed

lemma judge_Inr:
  assumes "distinct xs" "consistent rq (set xs)" "0 \<le> rq_finalization_window_seconds rq"
  shows "judge sha rq st xs = Inr r \<Longrightarrow> \<exists>a. judgeable rq st a (set xs) \<and> result_fits rq st a xs r"
    and "judgeable rq st a (set xs) \<Longrightarrow> \<exists>r. judge sha rq st xs = Inr r"
proof -
  { assume r: "judge sha rq st xs = Inr r"
    then obtain a where a: "filter (\<lambda>e. te_event_type e = rq_anchor_event_type rq) xs = [a]"
      by (auto simp: judge_def split: list.splits)
    then have "judgeable rq st a (set xs)"
      using r assms(2) one_anchor [OF assms(1), of rq a] one_currency [of st "admitted rq a xs"]
      by (auto simp: judgeable_def judge_anchor [OF a assms(3)] set_admitted list_ex_iff split: if_splits)
    moreover have "result_fits rq st a xs r"
      using r unfolding judge_anchor [OF a assms(3)] result_fits_def
      by (auto simp: Let_def ebind_eq_Inr split: if_splits prod.splits)
    ultimately show "\<exists>a. judgeable rq st a (set xs) \<and> result_fits rq st a xs r" by blast }
  { assume j: "judgeable rq st a (set xs)"
    then have a: "filter (\<lambda>e. te_event_type e = rq_anchor_event_type rq) xs = [a]"
      using one_anchor [OF assms(1), of rq a] by (simp add: judgeable_def)
    obtain i where i: "digest_of sha (input_document rq xs) = Inr i" using digest_of_input by blast
    obtain v c where vc: "decide st (types (timely rq a (set xs))) (dt_instant (rq_as_of rq) < boundary rq a) = (v, c)"
      by force
    obtain d where d: "digest_of sha (decision_document rq i v c (evidence_of st a (admitted rq a xs)) (boundary rq a)) = Inr d"
      using digest_of_decision by blast
    have c: "\<not> list_ex (\<lambda>c. c \<subseteq> types (timely rq a (set xs))) (ts_conflicting st)"
      "\<not> 1 < length (currencies st (admitted rq a xs))" "\<not> max_instant < boundary rq a"
      using j one_currency [of st "admitted rq a xs"]
      by (simp_all add: judgeable_def set_admitted list_ex_iff not_less)
    show "\<exists>r. judge sha rq st xs = Inr r"
      unfolding judge_anchor [OF a assms(3)] by (simp add: c i vc d del: One_nat_def) }
qed

lemma evaluate_Inr:
  "evaluate sha rq evs = Inr r \<Longrightarrow> \<exists>st a xs. validate_request rq = Inr st \<and> set xs = set evs \<and>
     sorted (map event_key xs) \<and> distinct xs \<and>
     judgeable rq st a (set evs) \<and> result_fits rq st a xs r"
  and evaluate_ok:
  "validate_request rq = Inr st \<Longrightarrow> judgeable rq st a (set evs) \<Longrightarrow> \<exists>r. evaluate sha rq evs = Inr r"
proof -
  have d: "distinct (sort_key event_key (map snd w))" if "collect rq evs [] = Inr w" for w
    using collect_ordered(2) [OF that] by (simp only: distinct_sort distinct_map)
  { assume "evaluate sha rq evs = Inr r"
    then obtain st w where w: "validate_request rq = Inr st" "collect rq evs [] = Inr w"
        "judge sha rq st (sort_key event_key (map snd w)) = Inr r"
      by (auto simp: evaluate_def ebind_eq_Inr)
    define xs where "xs = sort_key event_key (map snd w)"
    have s: "set xs = set evs" "distinct xs" using collect_ordered(1) [OF w(2)] d [OF w(2)] by (simp_all add: xs_def)
    have "consistent rq (set evs)" using w(2) collect_consistent by blast
    with judge_Inr(1) [OF s(2), of rq sha st r] s(1) w validate_request_windows [OF w(1)]
    obtain a where "judgeable rq st a (set evs)" "result_fits rq st a xs r"
      by (auto simp: xs_def)
    with s w(1) show "\<exists>st a xs. validate_request rq = Inr st \<and> set xs = set evs \<and>
        sorted (map event_key xs) \<and> distinct xs \<and> judgeable rq st a (set evs) \<and> result_fits rq st a xs r"
      by (intro exI [of _ st] exI [of _ a] exI [of _ xs]) (simp add: xs_def) }
  { assume v: "validate_request rq = Inr st" and j: "judgeable rq st a (set evs)"
    then obtain w where w: "collect rq evs [] = Inr w"
      using collect_consistent [of rq evs] by (auto simp: judgeable_def)
    with j judge_Inr(2) [OF d [OF w], of rq st a sha] collect_ordered(1) [OF w] validate_request_windows [OF v]
    show "\<exists>r. evaluate sha rq evs = Inr r" by (auto simp: evaluate_def v judgeable_def) }
qed

section \<open>Properties of the evaluator\<close>

lemma keys_distinct: "consistent rq (set xs) \<Longrightarrow> distinct xs \<Longrightarrow> distinct (map event_key xs)"
  by (auto simp: distinct_map consistent_def event_key_def inj_on_def)

lemma sorted_by_key_unique:
  assumes "sorted (map event_key xs)" "distinct (map event_key xs)"
    and "sorted (map event_key ys)" "distinct (map event_key ys)"
    and "set xs = set ys"
  shows "xs = ys"
  by (rule map_sorted_distinct_set_unique [of event_key]) (use assms in \<open>auto simp: distinct_map\<close>)

text \<open>
  C7. The evaluation depends on the set of events only: delivering the same events in another
  order, or some of them several times, gives the same result, both digests included.
\<close>

theorem evaluate_delivery_independent:
  assumes "set evs = set evs'" "evaluate sha rq evs = Inr r"
  shows "evaluate sha rq evs' = Inr r"
proof -
  from assms(2) obtain st w where w: "validate_request rq = Inr st" "collect rq evs [] = Inr w"
      "judge sha rq st (sort_key event_key (map snd w)) = Inr r"
    by (auto simp: evaluate_def ebind_eq_Inr)
  with assms(1) obtain w' where w': "collect rq evs' [] = Inr w'"
    using collect_consistent by metis
  have "sort_key event_key (map snd w) = sort_key event_key (map snd w')"
    using collect_ordered [OF w(2)] collect_ordered [OF w'] assms(1)
    by (intro sort_key_unique) auto
  with w w' show ?thesis by (simp add: evaluate_def)
qed

text \<open>
  C23. The evaluator is defined exactly where it should be: it returns a result if and only if
  the request is valid, every event belongs to the request's tenant and subject, no event
  identity carries two contents, there is exactly one anchor, the finalization boundary is a
  date, no conflicting terminal events are in time, and the monetary events share a currency.
\<close>

theorem evaluate_defined:
  "(\<exists>r. evaluate sha rq evs = Inr r) \<longleftrightarrow>
     (\<exists>st a. validate_request rq = Inr st \<and> (\<forall>e \<in> set evs. belongs rq e) \<and>
        inj_on te_event_id (set evs) \<and> is_anchor rq a (set evs) \<and> boundary rq a \<le> max_instant \<and>
        (\<forall>c \<in> set (ts_conflicting st). \<not> c \<subseteq> types (timely rq a (set evs))) \<and>
        (\<forall>x \<in> paid_in st (timely rq a (set evs)). \<forall>y \<in> paid_in st (timely rq a (set evs)). x = y))"
proof -
  have "judgeable rq st a (set evs) \<longleftrightarrow> (\<forall>e \<in> set evs. belongs rq e) \<and>
        inj_on te_event_id (set evs) \<and> is_anchor rq a (set evs) \<and> boundary rq a \<le> max_instant \<and>
        (\<forall>c \<in> set (ts_conflicting st). \<not> c \<subseteq> types (timely rq a (set evs))) \<and>
        (\<forall>x \<in> paid_in st (timely rq a (set evs)). \<forall>y \<in> paid_in st (timely rq a (set evs)). x = y)" for st a
  proof -
    have "(\<forall>e \<in> set evs. \<forall>e' \<in> set evs. te_event_id e' = te_event_id e \<longrightarrow> e' = e) \<longleftrightarrow>
        inj_on te_event_id (set evs)" by (auto simp: inj_on_def)
    then show ?thesis unfolding judgeable_def consistent_def by (simp only: conj_assoc)
  qed
  moreover have "(\<exists>r. evaluate sha rq evs = Inr r) \<longleftrightarrow>
      (\<exists>st a. validate_request rq = Inr st \<and> judgeable rq st a (set evs))"
    using evaluate_Inr [of sha rq evs] evaluate_ok [of rq _ _ evs sha] by metis
  ultimately show ?thesis by (simp only:)
qed

lemma evidence_ids:
  "(\<lambda>i. (er_event_id i, er_event_digest i)) ` set (evidence_of st a ys) =
     (\<lambda>e. (te_event_id e, te_event_digest e)) `
       {e \<in> set ys. te_event_type e \<in> ts_required st \<union> ts_disqualifying st}"
  by (simp add: evidence_of_def image_image)

text \<open>
  C3. The verdict means what it says.  \<open>verified\<close>: the finalization boundary has passed, every
  required event is in time and no disqualifying one is.  \<open>rejected\<close>: a disqualifying event is
  in time, or the boundary has passed and a required event is missing.  The evidence lists
  exactly the timely events of the template's types, with their digests.
\<close>

theorem verdict_meaning:
  assumes "evaluate sha rq evs = Inr r" "validate_request rq = Inr st"
  shows "\<exists>a T. is_anchor rq a (set evs) \<and> T = timely rq a (set evs) \<and>
    rs_finalization_boundary r = Aware (boundary rq a) \<and>
    (rs_verdict r = VerdictVerified \<longleftrightarrow> boundary rq a \<le> dt_instant (rq_as_of rq) \<and>
       ts_required st \<subseteq> types T \<and> types T \<inter> ts_disqualifying st = {}) \<and>
    (rs_verdict r = VerdictRejected \<longleftrightarrow> types T \<inter> ts_disqualifying st \<noteq> {} \<or>
       boundary rq a \<le> dt_instant (rq_as_of rq) \<and> \<not> ts_required st \<subseteq> types T) \<and>
    (\<lambda>i. (er_event_id i, er_event_digest i)) ` set (rs_evidence r) =
      (\<lambda>e. (te_event_id e, te_event_digest e)) `
        {e \<in> T. te_event_type e \<in> ts_required st \<union> ts_disqualifying st}"
proof -
  from assms obtain a xs where x: "set xs = set evs" "judgeable rq st a (set evs)" "result_fits rq st a xs r"
    using evaluate_Inr by fastforce
  have e: "(\<lambda>i. (er_event_id i, er_event_digest i)) ` set (rs_evidence r) =
      (\<lambda>e. (te_event_id e, te_event_digest e)) `
        {e \<in> timely rq a (set evs). te_event_type e \<in> ts_required st \<union> ts_disqualifying st}"
    using x(3) unfolding result_fits_def by (simp only: evidence_ids set_admitted x(1))
  have "(rs_verdict r, rs_reason_code r) =
      decide st (types (timely rq a (set evs))) (dt_instant (rq_as_of rq) < boundary rq a)"
    "rs_finalization_boundary r = Aware (boundary rq a)" "is_anchor rq a (set evs)"
    using x by (simp_all add: result_fits_def judgeable_def)
  with e show ?thesis
    by (intro exI [of _ a] exI [of _ "timely rq a (set evs)"])
      (auto simp: decide_def not_less split: if_splits)
qed

text \<open>
  C11. A final verdict stays: once the finalization boundary has passed, evaluating later, with
  further events that arrived after the boundary and are not anchors, gives the same verdict,
  reason, evidence and boundary.
\<close>

theorem final_verdict_stable:
  assumes "evaluate sha rq evs = Inr r" "rs_finalization_boundary r = Aware f"
    and "f \<le> dt_instant (rq_as_of rq)" "dt_instant (rq_as_of rq) \<le> t"
    and "\<forall>e \<in> set late. belongs rq e \<and> te_event_type e \<noteq> rq_anchor_event_type rq \<and>
      f < dt_instant (te_received_at e)"
    and "inj_on te_event_id (set evs \<union> set late)"
  shows "\<exists>r'. evaluate sha (rq\<lparr>rq_as_of := Aware t\<rparr>) (evs @ late) = Inr r' \<and>
    rs_verdict r' = rs_verdict r \<and> rs_reason_code r' = rs_reason_code r \<and>
    rs_evidence r' = rs_evidence r \<and> rs_finalization_boundary r' = rs_finalization_boundary r"
proof -
  let ?rq = "rq\<lparr>rq_as_of := Aware t\<rparr>"
  from assms(1) obtain st a xs where x: "validate_request rq = Inr st" "set xs = set evs"
      "sorted (map event_key xs)" "distinct xs" "judgeable rq st a (set evs)" "result_fits rq st a xs r"
    using evaluate_Inr by blast
  have f: "f = boundary rq a" using x(6) assms(2) by (simp add: result_fits_def)
  have wb: "window_end ?rq b = window_end rq b" "boundary ?rq b = boundary rq b"
    "belongs ?rq e = belongs rq e" "is_anchor ?rq b E = is_anchor rq b E" for b e E
    by (simp_all add: window_end_def boundary_def belongs_def is_anchor_def)
  have adm: "admissible ?rq a (window_end rq a) f e \<longleftrightarrow>
      admissible rq a (window_end rq a) f e" for e
    using assms(3,4) by (auto simp: admissible_def)
  have a: "a \<in> set evs" using x(5) by (auto simp: judgeable_def is_anchor_def)
  have ta: "te_event_type a = rq_anchor_event_type rq" using x(5) by (auto simp: judgeable_def is_anchor_def)
  have late: "\<not> admissible rq a (window_end rq a) f e" if "e \<in> set late" for e
    using bspec [OF assms(5) that] ta by (auto simp: admissible_def)
  have tm: "timely ?rq a (set (evs @ late)) = timely rq a (set evs)"
    using late by (auto simp: timely_def wb f [symmetric] adm)
  have v: "validate_request ?rq = Inr st"
    using x(1) by (auto simp: validate_request_def split: if_splits option.splits)
  have anchor: "is_anchor rq a (set (evs @ late))"
    using x(5) assms(5) by (auto simp: judgeable_def is_anchor_def)
  have c: "consistent ?rq (set (evs @ late))"
    using x(5) assms(5,6) by (auto simp: judgeable_def consistent_def wb inj_on_def)
  have j: "judgeable ?rq st a (set (evs @ late))"
    using x(5) anchor c unfolding judgeable_def wb tm by blast
  then obtain r' where r': "evaluate sha ?rq (evs @ late) = Inr r'"
    using evaluate_ok [OF v] by blast
  then obtain a' ys where y: "set ys = set (evs @ late)" "sorted (map event_key ys)" "distinct ys"
      "judgeable ?rq st a' (set (evs @ late))" "result_fits ?rq st a' ys r'"
    using evaluate_Inr [OF r'] v by auto
  have a': "a' = a" using y(4) j by (simp add: judgeable_def is_anchor_def)
  have "admitted ?rq a ys = admitted rq a xs"
  proof (rule sorted_by_key_unique)
    show "set (admitted ?rq a ys) = set (admitted rq a xs)"
      using tm by (simp add: set_admitted x(2) y(1))
    show "distinct (map event_key (admitted ?rq a ys))"
      using keys_distinct [of ?rq ys] c y by (simp add: admitted_def distinct_map inj_on_def)
    show "distinct (map event_key (admitted rq a xs))"
      using keys_distinct [of rq xs] x by (simp add: judgeable_def admitted_def distinct_map inj_on_def)
  qed (simp_all add: admitted_def sorted_filter x y)
  moreover have "(dt_instant (rq_as_of ?rq) < boundary rq a) = (dt_instant (rq_as_of rq) < boundary rq a)"
    using assms(3,4) f by simp
  ultimately show ?thesis using r' x(6) y(5) tm
    by (simp add: result_fits_def a' wb y(1) x(2)) (metis prod.inject)
qed

text \<open>A delivered booking: created, then attended within the hour, judged after the boundary.\<close>

definition sample_request :: evaluation_request where
  "sample_request = \<lparr>rq_tenant_id = ''t'', rq_outcome_id = ''o'', rq_evaluation_id = ''v'',
     rq_evaluator_schema_version = 1, rq_as_of = Aware 8000000, rq_source_type = ''booking'',
     rq_source_id = ''b'', rq_contract_version_id = ''c'',
     rq_contract_digest = replicate 64 CHR ''a'', rq_rule_version_id = ''r'',
     rq_rule_digest = replicate 64 CHR ''b'', rq_rule_published = True,
     rq_template = ''attended_booking'', rq_anchor_event_type = ''booking.created'',
     rq_evaluation_window_seconds = 4, rq_finalization_window_seconds = 2,
     rq_subject_type = ''booking'', rq_subject_id = ''b''\<rparr>"

definition sample_event :: "string \<Rightarrow> string \<Rightarrow> int \<Rightarrow> trusted_event" where
  "sample_event i t at = \<lparr>te_tenant_id = ''t'', te_event_id = i,
     te_event_digest = replicate 64 CHR ''0'', te_event_type = t, te_schema_version = 1,
     te_occurred_at = Aware at, te_received_at = Aware at, te_subject_type = ''booking'',
     te_subject_id = ''b'', te_references = [], te_money = None, te_status = None\<rparr>"

definition booking_template :: template_strategy where
  "booking_template = template_registry ! 1"

definition sample_events :: "trusted_event list" where
  "sample_events = [sample_event ''1'' ''booking.created'' 0, sample_event ''2'' ''booking.attended'' 1000000]"

lemma sample_valid: "validate_request sample_request = Inr booking_template"
  by (simp add: validate_request_def sample_request_def lookup_template_def template_registry_def
      max_window_seconds_def is_sha256_hex_def is_hex_def booking_template_def list_all_iff)

lemma sample_belongs: "belongs sample_request (sample_event i t at)"
  by (simp add: belongs_def sample_event_def sample_request_def)

lemma sample_anchor: "is_anchor sample_request (sample_event ''1'' ''booking.created'' 0) (set sample_events)"
  by (auto simp: is_anchor_def sample_events_def sample_event_def sample_request_def)

lemma sample_timely:
  "timely sample_request (sample_event ''1'' ''booking.created'' 0) (set sample_events) = set sample_events"
  by (auto simp: timely_def sample_events_def admissible_def sample_event_def sample_request_def
      window_end_def boundary_def micros_def)

lemma sample_types: "types (set sample_events) = {''booking.created'', ''booking.attended''}"
  by (simp add: types_def sample_events_def sample_event_def)

lemma sample_judgeable:
  "judgeable sample_request booking_template (sample_event ''1'' ''booking.created'' 0) (set sample_events)"
  unfolding judgeable_def sample_timely sample_types
  using sample_anchor sample_belongs
  by (simp add: consistent_def sample_events_def paid_in_def booking_template_def template_registry_def
      boundary_def window_end_def sample_request_def micros_def max_instant_def)
    (simp add: sample_event_def)

lemma sample_evaluated: "\<exists>r. evaluate sha sample_request sample_events = Inr r"
  by (rule evaluate_ok [OF sample_valid sample_judgeable])

theorem evaluate_delivery_independent_witness:
  "\<exists>r. evaluate (\<lambda>_. []) sample_request sample_events = Inr r \<and>
     evaluate (\<lambda>_. []) sample_request (rev sample_events @ sample_events) = Inr r"
  using sample_evaluated [of "\<lambda>_. []"]
    evaluate_delivery_independent [of sample_events "rev sample_events @ sample_events"] by auto

theorem verdict_meaning_witness:
  "\<exists>r a T. evaluate (\<lambda>_. []) sample_request sample_events = Inr r \<and>
     is_anchor sample_request a (set sample_events) \<and> T = timely sample_request a (set sample_events) \<and>
     (rs_verdict r = VerdictVerified \<longleftrightarrow> boundary sample_request a \<le> dt_instant (rq_as_of sample_request) \<and>
       ts_required booking_template \<subseteq> types T \<and> types T \<inter> ts_disqualifying booking_template = {})"
  using sample_evaluated [of "\<lambda>_. []"] verdict_meaning [OF _ sample_valid] by meson

lemma sample_boundary:
  assumes "evaluate sha sample_request sample_events = Inr r"
  shows "rs_finalization_boundary r = Aware 6000000"
proof -
  obtain st a xs where x: "judgeable sample_request st a (set sample_events)" "result_fits sample_request st a xs r"
    using evaluate_Inr [OF assms] by blast
  have "a = sample_event ''1'' ''booking.created'' 0"
    using x(1) sample_anchor by (simp add: judgeable_def is_anchor_def)
  then show ?thesis using x(2)
    by (simp add: result_fits_def boundary_def window_end_def sample_event_def sample_request_def micros_def)
qed

theorem final_verdict_stable_witness:
  "\<exists>r r'. evaluate (\<lambda>_. []) sample_request sample_events = Inr r \<and>
     evaluate (\<lambda>_. []) (sample_request\<lparr>rq_as_of := Aware 9000000\<rparr>)
       (sample_events @ [sample_event ''3'' ''booking.no_show'' 8500000]) = Inr r' \<and>
     rs_verdict r' = rs_verdict r"
proof -
  obtain r where r: "evaluate (\<lambda>_. []) sample_request sample_events = Inr r"
    using sample_evaluated by blast
  have "\<forall>e \<in> set [sample_event ''3'' ''booking.no_show'' 8500000]. belongs sample_request e \<and>
      te_event_type e \<noteq> rq_anchor_event_type sample_request \<and> 6000000 < dt_instant (te_received_at e)"
    using sample_belongs by (simp add: sample_event_def sample_request_def)
  moreover have "inj_on te_event_id (set sample_events \<union> set [sample_event ''3'' ''booking.no_show'' 8500000])"
    by (simp add: sample_events_def sample_event_def)
  moreover have "6000000 \<le> dt_instant (rq_as_of sample_request)" "dt_instant (rq_as_of sample_request) \<le> 9000000"
    by (simp_all add: sample_request_def)
  ultimately show ?thesis
    using r final_verdict_stable [OF r sample_boundary [OF r]] by blast
qed

theorem evaluate_defined_witness:
  "\<exists>st a. validate_request sample_request = Inr st \<and> is_anchor sample_request a (set sample_events) \<and>
     inj_on te_event_id (set sample_events) \<and> boundary sample_request a \<le> max_instant"
  using evaluate_defined [of "\<lambda>_. []" sample_request sample_events] sample_evaluated [of "\<lambda>_. []"] by blast

end
