(* ===== verification/Transactions.thy ===== *)
theory Transactions
  imports Json
begin

text \<open>
  What the PostgreSQL adapters share: commands that read and change a state and may fail,
  transactions that roll back, tables as lists of rows in insertion order with the unique
  keys, checks and triggers of the migrations as errors, and the idempotent execution of a
  keyed command, with the locale that says what its log must guarantee.
\<close>

section \<open>Commands over a state\<close>

type_synonym ('s, 'e, 'a) tx = "'s \<Rightarrow> 'e + 'a \<times> 's"

definition ret :: "'a \<Rightarrow> ('s, 'e, 'a) tx" where
  "ret x s = Inr (x, s)"

definition raise :: "'e \<Rightarrow> ('s, 'e, 'a) tx" where
  "raise e s = Inl e"

definition bind :: "('s, 'e, 'a) tx \<Rightarrow> ('a \<Rightarrow> ('s, 'e, 'b) tx) \<Rightarrow> ('s, 'e, 'b) tx" where
  "bind m f s = ebind (m s) (\<lambda>(x, s'). f x s')"

definition andthen :: "('s, 'e, 'a) tx \<Rightarrow> ('s, 'e, 'b) tx \<Rightarrow> ('s, 'e, 'b) tx" where
  "andthen m n = bind m (\<lambda>_. n)"

definition query :: "('s \<Rightarrow> 'a) \<Rightarrow> ('s, 'e, 'a) tx" where
  "query f s = Inr (f s, s)"

definition need :: "bool \<Rightarrow> 'e \<Rightarrow> ('s, 'e, unit) tx" where
  "need b e s = (if b then Inr ((), s) else Inl e)"

definition lift :: "('f \<Rightarrow> 'e) \<Rightarrow> 'f + 'a \<Rightarrow> ('s, 'e, 'a) tx" where
  "lift g r s = ebind (map_error g r) (\<lambda>x. Inr (x, s))"

definition change :: "('f \<Rightarrow> 'e) \<Rightarrow> ('s \<Rightarrow> 'f + 's) \<Rightarrow> ('s, 'e, unit) tx" where
  "change g f s = ebind (map_error g (f s)) (\<lambda>s'. Inr ((), s'))"

text \<open>\<open>with session.begin()\<close>: the changes of a command that raises are rolled back.\<close>

definition transaction :: "('s, 'e, 'a) tx \<Rightarrow> 's \<Rightarrow> ('e + 'a) \<times> 's" where
  "transaction m s = (case m s of Inl e \<Rightarrow> (Inl e, s) | Inr (x, s') \<Rightarrow> (Inr x, s'))"

lemma ret_Inr [simp]: "ret x s = Inr (y, s') \<longleftrightarrow> y = x \<and> s' = s"
  by (auto simp: ret_def)

lemma raise_Inr [simp]: "raise e s \<noteq> Inr p"
  by (simp add: raise_def)

lemma bind_Inr: "bind m f s = Inr (y, s'') \<longleftrightarrow> (\<exists>x s'. m s = Inr (x, s') \<and> f x s' = Inr (y, s''))"
  by (auto simp: bind_def ebind_eq_Inr)

lemma andthen_Inr: "andthen m n s = Inr (y, s'') \<longleftrightarrow> (\<exists>x s'. m s = Inr (x, s') \<and> n s' = Inr (y, s''))"
  by (simp add: andthen_def bind_Inr)

lemma query_Inr [simp]: "query f s = Inr (x, s') \<longleftrightarrow> x = f s \<and> s' = s"
  by (auto simp: query_def)

lemma need_Inr [simp]: "need b e s = Inr (u, s') \<longleftrightarrow> b \<and> s' = s"
  by (auto simp: need_def)

lemma lift_Inr [simp]: "lift g r s = Inr (x, s') \<longleftrightarrow> r = Inr x \<and> s' = s"
  by (auto simp: lift_def ebind_eq_Inr)

lemma change_Inr [simp]: "change g f s = Inr (u, s') \<longleftrightarrow> f s = Inr s'"
  by (auto simp: change_def ebind_eq_Inr)

lemmas tx_simps = bind_Inr andthen_Inr

lemma transaction_error: "fst (transaction m s) = Inl e \<Longrightarrow> snd (transaction m s) = s"
  by (auto simp: transaction_def split: sum.splits)

lemma transaction_ok: "transaction m s = (Inr x, s') \<longleftrightarrow> m s = Inr (x, s')"
  by (auto simp: transaction_def split: sum.splits)

text \<open>Running one command after another, to evaluate a command on a concrete state.\<close>

lemma bind_eval:
  "m s = Inr (x, s') \<Longrightarrow> bind m f s = f x s'"
  "m s = Inl e \<Longrightarrow> bind m f s = Inl e"
  "m s = Inr (x, s') \<Longrightarrow> andthen m n s = n s'"
  "m s = Inl e \<Longrightarrow> andthen m n s = Inl e"
  by (simp_all add: bind_def andthen_def)

lemmas tx_eval = bind_def andthen_def ret_def raise_def query_def need_def lift_def change_def

text \<open>
  A command preserves \<open>I\<close>, or relates the states before and after by \<open>R\<close>; both are
  inherited by compositions.
\<close>

definition preserves :: "('s \<Rightarrow> bool) \<Rightarrow> ('s, 'e, 'a) tx \<Rightarrow> bool" where
  "preserves I m \<longleftrightarrow> (\<forall>s x s'. I s \<longrightarrow> m s = Inr (x, s') \<longrightarrow> I s')"

lemma preservesI: "(\<And>s x s'. I s \<Longrightarrow> m s = Inr (x, s') \<Longrightarrow> I s') \<Longrightarrow> preserves I m"
  by (simp add: preserves_def)

lemma preservesD: "preserves I m \<Longrightarrow> I s \<Longrightarrow> m s = Inr (x, s') \<Longrightarrow> I s'"
  by (auto simp: preserves_def)

lemma preserves_simple [intro, simp]:
  "preserves I (ret x)" "preserves I (raise e)" "preserves I (query f)" "preserves I (need b e)"
  "preserves I (lift h r)"
  by (auto simp: preserves_def)

lemma preserves_bind [intro]:
  "preserves I m \<Longrightarrow> (\<And>x. preserves I (f x)) \<Longrightarrow> preserves I (bind m f)"
  unfolding preserves_def bind_Inr by blast

lemma preserves_andthen [intro]:
  "preserves I m \<Longrightarrow> preserves I n \<Longrightarrow> preserves I (andthen m n)"
  by (auto simp: andthen_def)

lemma preserves_transaction:
  "preserves I m \<Longrightarrow> I s \<Longrightarrow> I (snd (transaction m s))"
  by (auto simp: transaction_def preserves_def split: sum.splits)

text \<open>A command leaves \<open>f\<close> of the state as it was.\<close>

definition keeps :: "('s \<Rightarrow> 'b) \<Rightarrow> ('s, 'e, 'a) tx \<Rightarrow> bool" where
  "keeps f m \<longleftrightarrow> (\<forall>s x s'. m s = Inr (x, s') \<longrightarrow> f s' = f s)"

lemma keepsD: "keeps f m \<Longrightarrow> m s = Inr (x, s') \<Longrightarrow> f s' = f s"
  by (auto simp: keeps_def)

lemma keeps_simple [intro, simp]:
  "keeps f (ret x)" "keeps f (raise e)" "keeps f (query g)" "keeps f (need b e)" "keeps f (lift h r)"
  by (auto simp: keeps_def)

lemma keeps_bind [intro]:
  "keeps f m \<Longrightarrow> (\<And>x. keeps f (g x)) \<Longrightarrow> keeps f (bind m g)"
  unfolding keeps_def bind_Inr by metis

lemma keeps_andthen [intro]: "keeps f m \<Longrightarrow> keeps f n \<Longrightarrow> keeps f (andthen m n)"
  by (auto simp: andthen_def)

lemma keeps_change: "(\<And>s s'. h s = Inr s' \<Longrightarrow> f s' = f s) \<Longrightarrow> keeps f (change g h)"
  by (auto simp: keeps_def)

lemma keeps_if [intro]: "keeps f m \<Longrightarrow> keeps f n \<Longrightarrow> keeps f (if b then m else n)"
  by simp

lemma keeps_preserves: "keeps f m \<Longrightarrow> (\<And>s s'. f s = f s' \<Longrightarrow> I s = I s') \<Longrightarrow> preserves I m"
  unfolding keeps_def preserves_def by metis

section \<open>The authenticated principal\<close>

record principal =
  pr_user_id :: uuid
  pr_tenant_id :: uuid
  pr_membership_id :: uuid

section \<open>Tables\<close>

datatype db_error =
    UniqueViolation
  | ForeignKeyViolation
  | CheckViolation
  | ExclusionViolation
  | OutOfRange
  | RaisedException string
  | InvalidJson

text \<open>
  \<open>INSERT\<close> against the unique keys and exclusion constraints of a table, given as a relation
  between the new row and a stored one.
\<close>

definition insert_row :: "db_error \<Rightarrow> ('r \<Rightarrow> 'r \<Rightarrow> bool) \<Rightarrow> 'r \<Rightarrow> 'r list \<Rightarrow> db_error + 'r list" where
  "insert_row e clash r rows = (if list_ex (clash r) rows then Inl e else Inr (rows @ [r]))"

text \<open>\<open>UPDATE\<close> of the rows that satisfy \<open>p\<close>, each through the row trigger \<open>trig old new\<close>.\<close>

definition update_rows :: "('r \<Rightarrow> bool) \<Rightarrow> ('r \<Rightarrow> 'r) \<Rightarrow> ('r \<Rightarrow> 'r \<Rightarrow> db_error + unit) \<Rightarrow> 'r list \<Rightarrow>
    db_error + 'r list" where
  "update_rows p f trig rows =
     mapM (\<lambda>r. if p r then ebind (trig r (f r)) (\<lambda>_. Inr (f r)) else Inr r) rows"

definition require :: "bool \<Rightarrow> db_error \<Rightarrow> db_error + unit" where
  "require b e = (if b then Inr () else Inl e)"

lemma require_Inr [simp]: "require b e = Inr u \<longleftrightarrow> b"
  by (simp add: require_def)

lemma insert_row_Inr [simp]:
  "insert_row e clash r rows = Inr rows' \<longleftrightarrow> (\<forall>r' \<in> set rows. \<not> clash r r') \<and> rows' = rows @ [r]"
  by (auto simp: insert_row_def list_ex_iff)

lemma update_rows_Inr:
  "update_rows p f trig rows = Inr rows' \<longleftrightarrow>
     (\<forall>r \<in> set rows. p r \<longrightarrow> trig r (f r) = Inr ()) \<and> rows' = map (\<lambda>r. if p r then f r else r) rows"
proof (induction rows arbitrary: rows')
  case (Cons r rows)
  then show ?case by (auto simp: update_rows_def ebind_eq_Inr)
qed (auto simp: update_rows_def)

text \<open>\<open>INSERT ... ON CONFLICT (key) DO NOTHING\<close>: a row whose key is taken is dropped.\<close>

definition insert_or_ignore :: "('r \<Rightarrow> 'r \<Rightarrow> bool) \<Rightarrow> 'r \<Rightarrow> 'r list \<Rightarrow> ('r list \<Rightarrow> db_error + 'r list) \<Rightarrow>
    db_error + 'r list" where
  "insert_or_ignore same r rows ins = (if list_ex (same r) rows then Inr rows else ins rows)"

text \<open>
  A \<open>jsonb\<close> column holds the document a JSON text denotes, and reads back as PostgreSQL prints
  it: numbers are decimal numerals without an exponent, so that a float whose exponent leaves
  no fractional digit comes back as an integer.  A number \<open>NaN\<close> and the character U+0000 are
  refused.
\<close>

definition jsonb_number :: "string \<Rightarrow> pyval" where
  "jsonb_number r =
     (let neg = (take 1 r = ''-''); t = (if neg then drop 1 r else r);
          ip = takeWhile is_digit t; (fp, w) = read_frac (dropWhile is_digit t); (ep, rest) = read_exp w;
          frac = drop 1 fp; mag = int (str_nat (filter is_digit ep));
          e = (if CHR ''-'' \<in> set ep then - mag else mag);
          n = int (str_nat (ip @ frac)) * 10 ^ nat (e - int (length frac))
      in if ep \<noteq> [] \<and> int (length frac) \<le> e then PInt (if neg then - n else n) else PFloat r)"

primrec jsonb_value :: "pyval \<Rightarrow> pyval" where
  "jsonb_value PNone = PNone"
| "jsonb_value (PBool b) = PBool b"
| "jsonb_value (PInt i) = PInt i"
| "jsonb_value (PFloat r) = jsonb_number r"
| "jsonb_value (PNonFinite r) = PNonFinite r"
| "jsonb_value (PStr s) = PStr s"
| "jsonb_value (PList xs) = PList (map jsonb_value xs)"
| "jsonb_value (PTuple xs) = PTuple (map jsonb_value xs)"
| "jsonb_value (PDict kvs) = PDict (map (map_prod (\<lambda>k. k) jsonb_value) kvs)"
| "jsonb_value (PObject n) = PObject n"

definition no_nul :: "string \<Rightarrow> bool" where
  "no_nul s \<longleftrightarrow> CHR 0x00 \<notin> set s"

lemma no_nul_simps [simp]: "no_nul []" "no_nul (c # s) \<longleftrightarrow> c \<noteq> CHR 0x00 \<and> no_nul s"
  by (auto simp: no_nul_def)

lemma no_nul_replicate [simp]: "no_nul (replicate n c) \<longleftrightarrow> n = 0 \<or> c \<noteq> CHR 0x00"
  by (auto simp: no_nul_def)

lemma no_nul_uuid_str [simp]: "no_nul (uuid_str u)"
proof -
  have "c \<noteq> CHR 0x00" if "c \<in> set (uuid_str u)" for c
  proof
    assume "c = CHR 0x00"
    with that uuid_str_chars have "is_hex c" by blast
    with \<open>c = CHR 0x00\<close> show False by (simp add: is_hex_def is_digit_def code_def)
  qed
  then show ?thesis by (auto simp: no_nul_def)
qed

primrec jsonb_ok :: "pyval \<Rightarrow> bool" where
  "jsonb_ok PNone = True"
| "jsonb_ok (PBool b) = True"
| "jsonb_ok (PInt i) = True"
| "jsonb_ok (PFloat r) = True"
| "jsonb_ok (PNonFinite r) = False"
| "jsonb_ok (PStr s) = no_nul s"
| "jsonb_ok (PList xs) = list_all id (map jsonb_ok xs)"
| "jsonb_ok (PTuple xs) = list_all id (map jsonb_ok xs)"
| "jsonb_ok (PDict kvs) = (list_all (\<lambda>(k, v). no_nul k) kvs \<and>
     list_all snd (map (map_prod (\<lambda>k. k) jsonb_ok) kvs))"
| "jsonb_ok (PObject n) = False"

definition jsonb :: "string \<Rightarrow> db_error + pyval" where
  "jsonb t = (case loads t of Inl e \<Rightarrow> Inl InvalidJson
     | Inr v \<Rightarrow> if jsonb_ok v then Inr (jsonb_value v) else Inl InvalidJson)"

text \<open>A document without floats is stored as it is, with its keys in order.\<close>

primrec float_free :: "pyval \<Rightarrow> bool" where
  "float_free PNone = True"
| "float_free (PBool b) = True"
| "float_free (PInt i) = True"
| "float_free (PFloat r) = False"
| "float_free (PNonFinite r) = False"
| "float_free (PStr s) = True"
| "float_free (PList xs) = list_all id (map float_free xs)"
| "float_free (PTuple xs) = list_all id (map float_free xs)"
| "float_free (PDict kvs) = list_all snd (map (map_prod (\<lambda>k. k) float_free) kvs)"
| "float_free (PObject n) = False"

lemma jsonb_value_float_free: "float_free v \<Longrightarrow> jsonb_value v = v"
proof (induction v)
  case (PDict kvs)
  then have "map_prod (\<lambda>k. k) jsonb_value p = p" if "p \<in> set kvs" for p
    using that by (cases p) (force simp: list_all_iff)
  then show ?case by (simp add: map_idI)
qed (auto simp: list_all_iff intro: map_idI)

lemma float_free_normal [simp]: "float_free (normal v) = float_free v"
proof (induction v)
  case (PDict kvs)
  have "list_all snd (map (map_prod (\<lambda>k. k) float_free) (sort_key fst (map (map_prod (\<lambda>k. k) normal) kvs)))
      = list_all snd (map (map_prod (\<lambda>k. k) float_free) (map (map_prod (\<lambda>k. k) normal) kvs))"
    by (simp only: list_all_iff set_map set_sort)
  also have "\<dots> = list_all snd (map (map_prod (\<lambda>k. k) float_free) kvs)"
    using PDict by (force simp: list_all_iff)
  finally show ?case by simp
qed (auto simp: list_all_iff)

lemma jsonb_ok_normal [simp]: "jsonb_ok (normal v) = jsonb_ok v"
proof (induction v)
  case (PDict kvs)
  have "list_all snd (map (map_prod (\<lambda>k. k) jsonb_ok) (sort_key fst (map (map_prod (\<lambda>k. k) normal) kvs)))
      = list_all snd (map (map_prod (\<lambda>k. k) jsonb_ok) (map (map_prod (\<lambda>k. k) normal) kvs))"
    by (simp only: list_all_iff set_map set_sort)
  also have "\<dots> = list_all snd (map (map_prod (\<lambda>k. k) jsonb_ok) kvs)"
    using PDict by (force simp: list_all_iff)
  finally show ?case by (force simp: list_all_iff)
qed (auto simp: list_all_iff)

lemma jsonb_plain:
  "wf_doc v \<Longrightarrow> float_free v \<Longrightarrow> jsonb_ok v \<Longrightarrow> jsonb (dumps ea v) = Inr (normal v)"
  by (simp add: jsonb_def loads_dumps_normal jsonb_value_float_free)

lemma jsonb_dumps:
  "wf_doc v \<Longrightarrow> jsonb (dumps ea v) = (if jsonb_ok v then Inr (jsonb_value (normal v)) else Inl InvalidJson)"
  by (simp add: jsonb_def loads_dumps_normal)

text \<open>Statements in sequence, one per element of a list.\<close>

fun each :: "('a \<Rightarrow> 's \<Rightarrow> 'e + 's) \<Rightarrow> 'a list \<Rightarrow> 's \<Rightarrow> 'e + 's" where
  "each f [] s = Inr s"
| "each f (x # xs) s = ebind (f x s) (each f xs)"

lemma each_invariant:
  "each f xs s = Inr s' \<Longrightarrow> I s \<Longrightarrow> (\<And>x s s'. x \<in> set xs \<Longrightarrow> f x s = Inr s' \<Longrightarrow> I s \<Longrightarrow> I s') \<Longrightarrow> I s'"
  by (induction xs arbitrary: s) (auto simp: ebind_eq_Inr)

definition int4 :: "int \<Rightarrow> bool" where
  "int4 i \<longleftrightarrow> - (2 ^ 31) \<le> i \<and> i < 2 ^ 31"

definition int8 :: "int \<Rightarrow> bool" where
  "int8 i \<longleftrightarrow> - (2 ^ 63) \<le> i \<and> i < 2 ^ 63"

section \<open>Idempotent commands\<close>

text \<open>
  \<open>_run\<close> of the contract service, over any log: look the key up, refuse a key that was used
  for another request, answer a known request from the log, otherwise run and remember.
\<close>

definition once :: "('s \<Rightarrow> ('d \<times> 'r) option) \<Rightarrow> ('r \<Rightarrow> ('s, 'e, unit) tx) \<Rightarrow> 'e \<Rightarrow> 'd \<Rightarrow>
    ('s, 'e, 'r) tx \<Rightarrow> ('s, 'e, 'r) tx" where
  "once recall remember conflict digest operation =
     bind (query recall) (\<lambda>prior. case prior of
         Some (d, r) \<Rightarrow> if d \<noteq> digest then raise conflict else ret r
       | None \<Rightarrow> bind operation (\<lambda>r. andthen (remember r) (ret r)))"

lemma once_known:
  "recall s = Some (d, r) \<Longrightarrow> once recall remember conflict d operation s = Inr (r, s)"
  by (simp add: once_def tx_eval)

lemma once_conflict:
  "recall s = Some (d', r) \<Longrightarrow> d' \<noteq> d \<Longrightarrow> once recall remember conflict d operation s = Inl conflict"
  by (simp add: once_def tx_eval)

lemma once_Inr:
  "once recall remember conflict d operation s = Inr (r, s') \<longleftrightarrow>
     (recall s = Some (d, r) \<and> s' = s) \<or>
     (recall s = None \<and> (\<exists>s1 u. operation s = Inr (r, s1) \<and> remember r s1 = Inr (u, s')))"
  by (auto simp: once_def bind_Inr andthen_Inr split: option.splits)

lemma keeps_once:
  "keeps f operation \<Longrightarrow> (\<And>r. keeps f (remember r)) \<Longrightarrow> keeps f (once recall remember conflict d operation)"
  unfolding once_def by (intro keeps_bind keeps_simple) (auto split: option.split)

lemma preserves_once:
  "preserves I operation \<Longrightarrow> (\<And>r. preserves I (remember r)) \<Longrightarrow>
     preserves I (once recall remember conflict d operation)"
  unfolding once_def by (intro preserves_bind preserves_simple) (auto split: option.split)

text \<open>
  What a command log promises: a remembered answer is found under its key, up to the
  representation \<open>store\<close> of answers in the log, and other keys keep theirs.
\<close>

locale command_log =
  fixes recall :: "'k \<Rightarrow> 's \<Rightarrow> ('d \<times> 'r) option"
    and remember :: "'k \<Rightarrow> 'd \<Rightarrow> 'r \<Rightarrow> ('s, 'e, unit) tx"
    and stored :: "'r \<Rightarrow> 'r"
  assumes recall_same: "remember k d r s = Inr (u, s') \<Longrightarrow> recall k s' = Some (d, stored r)"
    and recall_other: "remember k d r s = Inr (u, s') \<Longrightarrow> k' \<noteq> k \<Longrightarrow> recall k' s' = recall k' s"
begin

definition keeps_log :: "('s, 'e, 'r) tx \<Rightarrow> bool" where
  "keeps_log operation \<longleftrightarrow> (\<forall>k s r s'. operation s = Inr (r, s') \<longrightarrow> recall k s' = recall k s)"

lemma once_recalls:
  assumes "once (recall k) (remember k d) conflict d operation s = Inr (r, s')"
  shows "\<exists>r'. recall k s' = Some (d, r') \<and> (r' = r \<or> r' = stored r)"
  using assms recall_same by (auto simp: once_Inr)

text \<open>An answered key is never forgotten or changed by later commands.\<close>

lemma once_keeps_answers:
  assumes "keeps_log operation" "recall k s = Some p"
    and "once (recall k') (remember k' d) conflict d operation s = Inr (r, s')"
  shows "recall k s' = Some p"
  using assms recall_other [where k = k' and k' = k]
  by (cases "k = k'") (auto simp: once_Inr keeps_log_def)

theorem once_replay:
  assumes "once (recall k) (remember k d) conflict d operation s = Inr (r, s1)"
    and "recall k s2 = recall k s1"
  shows "\<exists>r'. once (recall k) (remember k d) conflict d operation' s2 = Inr (r', s2) \<and>
    (r' = r \<or> r' = stored r)"
  using once_recalls [OF assms(1)] assms(2) by (metis once_known)

end



end
