(* ===== verification/Money.thy ===== *)
theory Money
  imports OutcomePrelude
begin

text \<open>
  Exact money and regional settings: \<open>common/money.py\<close> and \<open>common/regional.py\<close>.
  An amount is an integer count of minor units; its decimal text is shown to read back to
  the same amount, and addition to be exact and closed within one currency.
\<close>

section \<open>Money\<close>

definition exponents :: "(string \<times> nat) list" where
  "exponents = [(''BHD'', 3), (''JPY'', 0), (''KWD'', 3), (''OMR'', 3), (''TND'', 3)]"

definition currency_exponent :: "string \<Rightarrow> exn + nat" where
  "currency_exponent currency =
     (let normalized = upper currency in
      if length normalized \<noteq> 3 \<or> \<not> isalpha normalized
      then Inl (DomainError ''currency must be an ISO 4217 alpha-3 code'')
      else Inr (case map_of exponents normalized of Some e \<Rightarrow> e | None \<Rightarrow> 2))"

record money =
  minor_units :: int
  currency :: string

definition mk_money :: "int \<Rightarrow> string \<Rightarrow> exn + money" where
  "mk_money units cur =
     (let normalized = upper cur in
      ebind (currency_exponent normalized)
        (\<lambda>_. Inr \<lparr>minor_units = units, currency = normalized\<rparr>))"

definition money_add :: "money \<Rightarrow> money \<Rightarrow> exn + money" where
  "money_add a b =
     (if currency a \<noteq> currency b then Inl (DomainError ''cannot combine different currencies'')
      else mk_money (minor_units a + minor_units b) (currency a))"

definition zfill :: "nat \<Rightarrow> string \<Rightarrow> string" where
  "zfill w s = replicate (w - length s) CHR ''0'' @ s"

definition decimal_string :: "money \<Rightarrow> exn + string" where
  "decimal_string m =
     ebind (currency_exponent (currency m)) (\<lambda>exponent.
       if exponent = 0 then Inr (int_str (minor_units m))
       else
         (let sign = (if minor_units m < 0 then ''-'' else '''');
              digits = zfill (exponent + 1) (nat_str (nat \<bar>minor_units m\<bar>));
              k = length digits - exponent
          in Inr (sign @ take k digits @ ''.'' @ drop k digits)))"

section \<open>Workspace region\<close>

text \<open>
  The IANA time zone database is outside the program: \<open>zone\<close> says whether a key is known,
  unknown (\<open>ZoneInfoNotFoundError\<close>) or malformed (\<open>ValueError\<close>).
\<close>

datatype zone_lookup = ZoneKnown | ZoneNotFound | ZoneMalformed

record workspace_region =
  wr_country :: string
  wr_locale :: string
  wr_timezone :: string
  wr_default_currency :: string

definition mk_workspace_region ::
    "(string \<Rightarrow> zone_lookup) \<Rightarrow> string \<Rightarrow> string \<Rightarrow> string \<Rightarrow> string \<Rightarrow> exn + workspace_region" where
  "mk_workspace_region zone country locale timezone default_currency =
     (let c = upper country; cur = upper default_currency in
      if length c \<noteq> 2 \<or> \<not> isalpha c then Inl (DomainError ''country must be ISO 3166-1 alpha-2'')
      else if locale = '''' \<or> CHR ''_'' \<in> set locale
      then Inl (DomainError ''locale must be a BCP 47 language tag'')
      else if length cur \<noteq> 3 \<or> \<not> isalpha cur
      then Inl (DomainError ''default currency must be ISO 4217 alpha-3'')
      else (case zone timezone of
        ZoneNotFound \<Rightarrow> Inl (DomainError ''timezone must be an IANA timezone'')
      | ZoneMalformed \<Rightarrow> Inl (ValueError ''ZoneInfo keys must be normalized relative paths'')
      | ZoneKnown \<Rightarrow> Inr \<lparr>wr_country = c, wr_locale = locale, wr_timezone = timezone,
          wr_default_currency = cur\<rparr>))"

section \<open>Reading an amount back\<close>

definition read_amount :: "string \<Rightarrow> int" where
  "read_amount s =
     (let body = filter is_digit s in
      if starts_with ''-'' s then - int (str_nat body) else int (str_nat body))"

lemma str_nat_zeros: "str_nat (replicate n CHR ''0'' @ s) = str_nat s"
proof (induction n)
  case (Suc n)
  have "digit_val CHR ''0'' = 0" by (simp add: digit_val_def code_def)
  with Suc show ?case by (simp add: str_nat_def)
qed simp

lemma is_digit_0 [simp]: "is_digit CHR ''0''" "\<not> is_digit CHR ''.''" "\<not> is_digit CHR ''-''"
  by (simp_all add: is_digit_def code_def)

lemma filter_digits: "filter is_digit (nat_str n) = nat_str n"
  using nat_str_digits [of n] by (simp add: filter_id_conv)

lemma zfill_digits: "c \<in> set (zfill w (nat_str n)) \<Longrightarrow> is_digit c"
  using nat_str_digits [of n] by (auto simp: zfill_def)

lemma length_zfill: "length (zfill w s) = max w (length s)"
  by (simp add: zfill_def)

lemma str_nat_zfill: "str_nat (zfill w (nat_str n)) = n"
  by (simp add: zfill_def str_nat_zeros)

lemma digits_not_minus: "\<forall>c \<in> set s. is_digit c \<Longrightarrow> s \<noteq> [] \<Longrightarrow> \<not> starts_with ''-'' (s @ t)"
  by (cases s) (auto simp: starts_with_def is_digit_def code_def)

lemma read_amount_point:
  assumes "\<forall>c \<in> set a. is_digit c" "\<forall>c \<in> set b. is_digit c" "a \<noteq> []"
  shows "read_amount (a @ ''.'' @ b) = int (str_nat (a @ b))"
    "read_amount (''-'' @ a @ ''.'' @ b) = - int (str_nat (a @ b))"
proof -
  have f: "filter is_digit a = a" "filter is_digit b = b"
    using assms by (simp_all add: filter_id_conv)
  show "read_amount (a @ ''.'' @ b) = int (str_nat (a @ b))"
    using digits_not_minus [OF assms(1,3), of "''.'' @ b"] f by (simp add: read_amount_def Let_def)
  show "read_amount (''-'' @ a @ ''.'' @ b) = - int (str_nat (a @ b))"
    using f by (simp add: read_amount_def Let_def starts_with_def)
qed

lemma read_amount_int_str: "read_amount (int_str i) = i"
proof (cases "i < 0")
  case True
  then show ?thesis
    by (simp add: read_amount_def int_str_def filter_digits starts_with_def Let_def)
next
  case False
  then show ?thesis using digits_not_minus [of "nat_str (nat i)" "[]"] nat_str_digits [of "nat i"]
    by (simp add: read_amount_def int_str_def filter_digits Let_def)
qed

lemma decimal_parts:
  fixes n :: nat
  assumes "e \<noteq> 0" and ds_def: "ds = zfill (e + 1) (nat_str n)"
  shows "take (length ds - e) ds \<noteq> []" "length (drop (length ds - e) ds) = e"
    "\<forall>c \<in> set (take (length ds - e) ds). is_digit c" "\<forall>c \<in> set (drop (length ds - e) ds). is_digit c"
    "str_nat (take (length ds - e) ds @ drop (length ds - e) ds) = n"
proof -
  have "e < length ds" by (simp add: ds_def length_zfill)
  then show "take (length ds - e) ds \<noteq> []" "length (drop (length ds - e) ds) = e" by auto
  show "\<forall>c \<in> set (take (length ds - e) ds). is_digit c" "\<forall>c \<in> set (drop (length ds - e) ds). is_digit c"
    using zfill_digits [of _ "e + 1" n] by (auto simp: ds_def dest: in_set_takeD in_set_dropD)
  show "str_nat (take (length ds - e) ds @ drop (length ds - e) ds) = n"
    by (simp add: ds_def str_nat_zfill)
qed

text \<open>
  \<open>Money.decimal_string\<close> is exact: the digits of the text, read with its sign, are the
  amount in minor units, and a currency with a non-zero exponent shows exactly that many
  digits after the point.
\<close>

theorem decimal_string_exact:
  assumes "mk_money units cur = Inr m"
  shows "\<exists>s e. decimal_string m = Inr s \<and> read_amount s = units \<and>
    currency_exponent cur = Inr e \<and>
    (e \<noteq> 0 \<longrightarrow> (\<exists>a b. s = a @ ''.'' @ b \<and> length b = e \<and> (\<forall>c \<in> set b. is_digit c)))"
proof -
  from assms obtain e where e: "currency_exponent cur = Inr e" "currency_exponent (currency m) = Inr e"
      "minor_units m = units"
    by (auto simp: mk_money_def Let_def ebind_eq_Inr currency_exponent_def split: if_splits)
  show ?thesis
  proof (cases "e = 0")
    case True
    with e show ?thesis by (simp add: decimal_string_def read_amount_int_str)
  next
    case False
    define ds where "ds = zfill (e + 1) (nat_str (nat \<bar>units\<bar>))"
    define k where "k = length ds - e"
    note parts = decimal_parts [OF False ds_def, folded k_def]
    have s: "decimal_string m =
        Inr ((if units < 0 then ''-'' else '''') @ take k ds @ ''.'' @ drop k ds)"
      using e False by (simp add: decimal_string_def Let_def ds_def k_def)
    have "read_amount ((if units < 0 then ''-'' else '''') @ take k ds @ ''.'' @ drop k ds) = units"
      using read_amount_point [OF parts(3,4,1)] parts(5) by auto
    with s e(1,3) parts(2,4) show ?thesis
      by (metis append.assoc)
  qed
qed

theorem decimal_string_exact_witness:
  "\<exists>s e. decimal_string \<lparr>minor_units = - 5, currency = ''BHD''\<rparr> = Inr s \<and> read_amount s = - 5 \<and>
    currency_exponent ''bhd'' = Inr e \<and>
    (e \<noteq> 0 \<longrightarrow> (\<exists>a b. s = a @ ''.'' @ b \<and> length b = e \<and> (\<forall>c \<in> set b. is_digit c)))"
proof (rule decimal_string_exact)
  have "upper ''bhd'' = ''BHD''" "upper ''BHD'' = ''BHD''"
    by (simp_all add: upper_def upper_char_def is_lower_def code_def char_of_eval)
  then show "mk_money (- 5) ''bhd'' = Inr \<lparr>minor_units = - 5, currency = ''BHD''\<rparr>"
    by (simp add: mk_money_def currency_exponent_def isalpha_def is_upper_def code_def)
qed

text \<open>
  Adding amounts is exact and total within a currency, and refused across currencies:
  the sum of two valid amounts is the valid amount of the summed minor units exactly when
  the currencies agree.
\<close>

theorem money_add_correct:
  assumes "mk_money x c = Inr a" "mk_money y d = Inr b"
  shows "money_add a b =
    (if upper c = upper d then Inr \<lparr>minor_units = x + y, currency = upper c\<rparr>
     else Inl (DomainError ''cannot combine different currencies''))"
  using assms by (auto simp: money_add_def mk_money_def Let_def ebind_eq_Inr)

theorem money_add_correct_witness:
  "money_add \<lparr>minor_units = 150, currency = ''USD''\<rparr> \<lparr>minor_units = 75, currency = ''USD''\<rparr> =
    (if upper ''USD'' = upper ''USD'' then Inr \<lparr>minor_units = 150 + 75, currency = upper ''USD''\<rparr>
     else Inl (DomainError ''cannot combine different currencies''))"
proof -
  have u: "upper ''USD'' = ''USD''"
    by (simp add: upper_def upper_char_def is_lower_def code_def)
  have "mk_money n ''USD'' = Inr \<lparr>minor_units = n, currency = ''USD''\<rparr>" for n
    by (simp add: mk_money_def currency_exponent_def isalpha_def is_upper_def code_def u)
  then show ?thesis by (rule money_add_correct) (simp add: \<open>\<And>n. mk_money n ''USD'' = _\<close>)
qed

end
