(* ===== verification/Contracts.thy ===== *)
theory Contracts
  imports Json Money
begin

text \<open>
  The contract and outcome-rule domain, \<open>contracts/domain.py\<close>: pricing values, rule
  versions (draft, published, retired), contract versions (draft, proposed, active) with
  their acceptances, and the selection of the one contract effective for an event.
  Every \<open>replace\<close> of the source runs \<open>__post_init__\<close> again, and so do the functions here.
\<close>

section \<open>Pricing values\<close>

definition supported_currencies :: "string list" where
  "supported_currencies = [''AED'', ''AUD'', ''BDT'', ''CAD'', ''CHF'', ''EUR'', ''GBP'', ''INR'',
     ''JPY'', ''SAR'', ''SGD'', ''USD'']"

definition validate_currency :: "string \<Rightarrow> exn + string" where
  "validate_currency value =
     (let c = upper value in
      if c \<in> set supported_currencies then Inr c
      else Inl (DomainError ''unsupported ISO 4217 currency''))"

definition validate_timezone :: "(string \<Rightarrow> zone_lookup) \<Rightarrow> string \<Rightarrow> exn + string" where
  "validate_timezone zone value =
     (case zone value of
        ZoneKnown \<Rightarrow> Inr value
      | ZoneNotFound \<Rightarrow> Inl (DomainError ''timezone must be an IANA timezone'')
      | ZoneMalformed \<Rightarrow> Inl (ValueError ''ZoneInfo keys must be normalized relative paths''))"

text \<open>A \<open>bool\<close> is an \<open>int\<close> for Python; \<open>_integer\<close> refuses it.\<close>

fun integer :: "pyval \<Rightarrow> string \<Rightarrow> exn + int" where
  "integer (PInt i) message = Inr i"
| "integer v message = Inl (DomainError message)"

record fixed_fee =
  ff_amount_minor :: int
  ff_currency :: string

definition mk_fixed_fee :: "pyval \<Rightarrow> string \<Rightarrow> exn + fixed_fee" where
  "mk_fixed_fee amount_minor cur =
     ebind (integer amount_minor ''fixed fee must be an integer'') (\<lambda>amount.
       if amount \<le> 0 then Inl (DomainError ''fixed fee must be positive'')
       else ebind (validate_currency cur) (\<lambda>c.
         Inr \<lparr>ff_amount_minor = amount, ff_currency = c\<rparr>))"

record basis_points =
  bp_rate :: int
  bp_currency :: string
  bp_floor_minor :: "int option"
  bp_cap_minor :: "int option"

definition optional_minor :: "pyval \<Rightarrow> exn + int option" where
  "optional_minor v =
     (if v = PNone then Inr None
      else ebind (integer v ''floor and cap must be integers'') (\<lambda>i.
        if i < 0 then Inl (DomainError ''floor and cap must be non-negative'') else Inr (Some i)))"

definition mk_basis_points :: "pyval \<Rightarrow> string \<Rightarrow> pyval \<Rightarrow> pyval \<Rightarrow> exn + basis_points" where
  "mk_basis_points rate cur floor_minor cap_minor =
     ebind (integer rate ''basis points must be an integer'') (\<lambda>r.
       if \<not> (1 \<le> r \<and> r \<le> 10000)
       then Inl (DomainError ''basis points must be between 1 and 10000'')
       else ebind (optional_minor floor_minor) (\<lambda>lo. ebind (optional_minor cap_minor) (\<lambda>hi.
         if (case (lo, hi) of (Some l, Some h) \<Rightarrow> l > h | _ \<Rightarrow> False)
         then Inl (DomainError ''floor cannot exceed cap'')
         else ebind (validate_currency cur) (\<lambda>c.
           Inr \<lparr>bp_rate = r, bp_currency = c, bp_floor_minor = lo, bp_cap_minor = hi\<rparr>))))"

section \<open>Rule versions\<close>

datatype rule_state = RuleDraft | RulePublished | RuleRetired

definition rule_templates :: "string list" where
  "rule_templates = [''delivered_paid_order'', ''attended_booking'', ''qualified_lead_accepted'',
     ''paid_activated_subscription'']"

definition allowed_rule_keys :: "string list" where
  "allowed_rule_keys = [''required_event_types'', ''required_statuses'', ''max_age_seconds'',
     ''schema_version'']"

record rule_version =
  rv_id :: string
  rv_version :: int
  rv_template :: string
  rv_definition :: "(string \<times> pyval) list"
  rv_state :: rule_state
  rv_digest :: "string option"

text \<open>\<open>__post_init__\<close>: validates, then freezes the definition.\<close>

definition rule_post_init :: "rule_version \<Rightarrow> exn + rule_version" where
  "rule_post_init r =
     (if rv_version r < 1 \<or> rv_template r \<notin> set rule_templates
      then Inl (DomainError ''invalid rule version or template'')
      else if \<not> fst ` set (rv_definition r) \<subseteq> set allowed_rule_keys
      then Inl (DomainError ''rule definition contains unsupported fields'')
      else ebind (canonical_document (PDict (rv_definition r))) (\<lambda>encoded.
        if length (utf8 encoded) > 16384 then Inl (DomainError ''rule definition is too large'')
        else Inr (r\<lparr>rv_definition := map (map_prod (\<lambda>k. k) freeze) (rv_definition r)\<rparr>)))"

definition mk_rule_version ::
    "string \<Rightarrow> int \<Rightarrow> string \<Rightarrow> (string \<times> pyval) list \<Rightarrow> exn + rule_version" where
  "mk_rule_version ident version template defn =
     rule_post_init \<lparr>rv_id = ident, rv_version = version, rv_template = template,
       rv_definition = defn, rv_state = RuleDraft, rv_digest = None\<rparr>"

definition rule_publish :: "hash \<Rightarrow> rule_version \<Rightarrow> exn + rule_version" where
  "rule_publish sha r =
     (if rv_state r \<noteq> RuleDraft then Inl (DomainError ''only a draft rule can be published'')
      else ebind (document_digest sha (PDict (rv_definition r))) (\<lambda>d.
        rule_post_init (r\<lparr>rv_state := RulePublished, rv_digest := Some d\<rparr>)))"

definition rule_retire :: "rule_version \<Rightarrow> exn + rule_version" where
  "rule_retire r =
     (if rv_state r \<noteq> RulePublished
      then Inl (DomainError ''only a published rule can be retired'')
      else rule_post_init (r\<lparr>rv_state := RuleRetired\<rparr>))"

section \<open>Contract versions\<close>

datatype contract_state = ContractDraft | ContractActive | ContractSuspended | ContractTerminated

datatype version_state =
  VersionDraft | VersionProposed | VersionActive | VersionSuperseded | VersionWithdrawn

record acceptance =
  ac_version_id :: string
  ac_digest :: string
  ac_party_role :: string
  ac_principal_id :: string
  ac_accepted_at :: datetime

record contract_version =
  cv_id :: string
  cv_version :: int
  cv_terms :: "(string \<times> pyval) list"
  cv_required_roles :: "string set"
  cv_effective_start :: datetime
  cv_effective_end :: "datetime option"
  cv_state :: version_state
  cv_digest :: "string option"
  cv_acceptances :: "acceptance list"

text \<open>
  The end is compared with the start only once both are known to be aware, so the
  comparison cannot raise.
\<close>

definition contract_post_init :: "contract_version \<Rightarrow> exn + contract_version" where
  "contract_post_init v =
     (if cv_version v < 1 \<or> cv_required_roles v = {}
      then Inl (DomainError ''version and required party roles are required'')
      else if \<not> dt_aware (cv_effective_start v) \<or>
        (case cv_effective_end v of Some e \<Rightarrow> \<not> dt_aware e | None \<Rightarrow> False)
      then Inl (DomainError ''effective timestamps must be timezone-aware'')
      else if (case cv_effective_end v of
          Some e \<Rightarrow> dt_instant (cv_effective_start v) \<ge> dt_instant e | None \<Rightarrow> False)
      then Inl (DomainError ''effective end must follow start'')
      else Inr (v\<lparr>cv_terms := map (map_prod (\<lambda>k. k) freeze) (cv_terms v)\<rparr>))"

definition mk_contract_version ::
    "string \<Rightarrow> int \<Rightarrow> (string \<times> pyval) list \<Rightarrow> string set \<Rightarrow> datetime \<Rightarrow> datetime option \<Rightarrow>
      exn + contract_version" where
  "mk_contract_version ident version terms roles start end =
     contract_post_init \<lparr>cv_id = ident, cv_version = version, cv_terms = terms,
       cv_required_roles = roles, cv_effective_start = start, cv_effective_end = end,
       cv_state = VersionDraft, cv_digest = None, cv_acceptances = []\<rparr>"

definition propose :: "hash \<Rightarrow> contract_version \<Rightarrow> exn + contract_version" where
  "propose sha v =
     (if cv_state v \<noteq> VersionDraft then Inl (DomainError ''only a draft version can be proposed'')
      else ebind (document_digest sha (PDict (cv_terms v))) (\<lambda>d.
        contract_post_init (v\<lparr>cv_state := VersionProposed, cv_digest := Some d\<rparr>)))"

definition accept ::
    "contract_version \<Rightarrow> string \<Rightarrow> string \<Rightarrow> datetime \<Rightarrow> string \<Rightarrow> exn + contract_version" where
  "accept v role principal_id accepted_at digest =
     (if cv_state v \<noteq> VersionProposed \<or> Some digest \<noteq> cv_digest v \<or> role \<notin> cv_required_roles v
      then Inl (DomainError ''acceptance must match the proposed digest and a required role'')
      else if \<not> dt_aware accepted_at
      then Inl (DomainError ''acceptance timestamp must be timezone-aware'')
      else contract_post_init (v\<lparr>cv_acceptances :=
        filter (\<lambda>a. ac_party_role a \<noteq> role) (cv_acceptances v) @
        [\<lparr>ac_version_id = cv_id v, ac_digest = digest, ac_party_role = role,
          ac_principal_id = principal_id, ac_accepted_at = accepted_at\<rparr>]\<rparr>))"

definition accepted_roles :: "contract_version \<Rightarrow> string set" where
  "accepted_roles v =
     ac_party_role ` set (filter (\<lambda>a. Some (ac_digest a) = cv_digest v) (cv_acceptances v))"

definition activate :: "contract_version \<Rightarrow> exn + contract_version" where
  "activate v =
     (if cv_state v \<noteq> VersionProposed \<or> accepted_roles v \<noteq> cv_required_roles v
      then Inl (DomainError ''all required parties must accept the exact digest'')
      else contract_post_init (v\<lparr>cv_state := VersionActive\<rparr>))"

section \<open>Selecting the effective contract\<close>

record effective_candidate =
  ec_version :: contract_version
  ec_source_type :: string
  ec_source_id :: string
  ec_contract_state :: contract_state
  ec_binding_start :: "datetime option"
  ec_binding_end :: "datetime option"

datatype selection = Selection "contract_version option" "string option"

text \<open>The \<open>and\<close> of two tests that may raise: the second runs only if the first holds.\<close>

definition and_also :: "exn + bool \<Rightarrow> exn + bool \<Rightarrow> exn + bool" where
  "and_also a b = ebind a (\<lambda>x. if x then b else Inr False)"

definition opt_test :: "(datetime \<Rightarrow> exn + bool) \<Rightarrow> datetime option \<Rightarrow> exn + bool" where
  "opt_test p x = (case x of None \<Rightarrow> Inr True | Some t \<Rightarrow> p t)"

definition candidate_matches ::
    "string \<Rightarrow> string \<Rightarrow> datetime \<Rightarrow> effective_candidate \<Rightarrow> exn + bool" where
  "candidate_matches source_type source_id occurred_at item =
     (if ec_source_type item = source_type \<and> ec_source_id item = source_id \<and>
         ec_contract_state item = ContractActive
      then and_also (opt_test (\<lambda>s. dt_le s occurred_at) (ec_binding_start item))
          (and_also (opt_test (\<lambda>e. dt_less occurred_at e) (ec_binding_end item))
            (if cv_state (ec_version item) = VersionActive
             then and_also (dt_le (cv_effective_start (ec_version item)) occurred_at)
                 (opt_test (\<lambda>e. dt_less occurred_at e) (cv_effective_end (ec_version item)))
             else Inr False))
      else Inr False)"

definition select_effective_contract ::
    "effective_candidate list \<Rightarrow> string \<Rightarrow> string \<Rightarrow> datetime \<Rightarrow> exn + selection" where
  "select_effective_contract candidates source_type source_id occurred_at =
     (if \<not> dt_aware occurred_at then Inl (DomainError ''occurred_at must be timezone-aware'')
      else ebind (filterM (candidate_matches source_type source_id occurred_at) candidates) (\<lambda>items.
        let matches = sort_key cv_id (map ec_version items) in
        Inr (case matches of
            [] \<Rightarrow> Selection None (Some ''no_effective_contract'')
          | [v] \<Rightarrow> Selection (Some v) None
          | _ \<Rightarrow> Selection None (Some ''ambiguous_effective_contract''))))"

section \<open>Validation is stable\<close>

abbreviation freeze_items :: "(string \<times> pyval) list \<Rightarrow> (string \<times> pyval) list" where
  "freeze_items kvs \<equiv> map (map_prod (\<lambda>k. k) freeze) kvs"

lemma freeze_freeze [simp]: "freeze (freeze v) = freeze v"
  by (induction v) auto

lemma freeze_items_idem [simp]: "map (map_prod (\<lambda>k. k) freeze \<circ> map_prod (\<lambda>k. k) freeze) kvs = freeze_items kvs"
  by (rule map_cong) auto

lemma canonical_freeze_items [simp]:
  "canonical_document (PDict (freeze_items kvs)) = canonical_document (PDict kvs)"
  using canonical_document_freeze [of "PDict kvs"] by simp

lemma digest_freeze_items [simp]:
  "document_digest sha (PDict (freeze_items kvs)) = document_digest sha (PDict kvs)"
  using document_digest_freeze [of sha "PDict kvs"] by simp

text \<open>What \<open>__post_init__\<close> of a contract version establishes, and what keeps it.\<close>

definition contract_valid :: "contract_version \<Rightarrow> bool" where
  "contract_valid v \<longleftrightarrow> 1 \<le> cv_version v \<and> cv_required_roles v \<noteq> {} \<and>
     dt_aware (cv_effective_start v) \<and>
     (\<forall>e. cv_effective_end v = Some e \<longrightarrow>
       dt_aware e \<and> dt_instant (cv_effective_start v) < dt_instant e)"

lemma contract_post_init_Inr:
  "contract_post_init v = Inr w \<longleftrightarrow>
     contract_valid v \<and> w = v\<lparr>cv_terms := freeze_items (cv_terms v)\<rparr>"
  by (auto simp: contract_post_init_def contract_valid_def not_less not_le split: option.splits)

lemma contract_valid_more [simp]:
  "contract_valid (v\<lparr>cv_terms := t\<rparr>) = contract_valid v"
  "contract_valid (v\<lparr>cv_state := st, cv_digest := d\<rparr>) = contract_valid v"
  "contract_valid (v\<lparr>cv_state := st\<rparr>) = contract_valid v"
  "contract_valid (v\<lparr>cv_acceptances := acs\<rparr>) = contract_valid v"
  by (simp_all add: contract_valid_def)

lemmas contract_ops =
  propose_def accept_def activate_def mk_contract_version_def contract_post_init_Inr ebind_eq_Inr

definition rule_valid :: "rule_version \<Rightarrow> bool" where
  "rule_valid r \<longleftrightarrow> 1 \<le> rv_version r \<and> rv_template r \<in> set rule_templates \<and>
     fst ` set (rv_definition r) \<subseteq> set allowed_rule_keys \<and>
     (\<exists>doc. canonical_document (PDict (rv_definition r)) = Inr doc \<and> length (utf8 doc) \<le> 16384)"

lemma rule_post_init_Inr:
  "rule_post_init r = Inr w \<longleftrightarrow>
     rule_valid r \<and> w = r\<lparr>rv_definition := freeze_items (rv_definition r)\<rparr>"
  by (auto simp: rule_post_init_def rule_valid_def ebind_eq_Inr not_less not_le)

lemma rule_valid_more [simp]:
  "rule_valid (r\<lparr>rv_definition := freeze_items d\<rparr>) = rule_valid (r\<lparr>rv_definition := d\<rparr>)"
  "rule_valid (r\<lparr>rv_state := st, rv_digest := dg\<rparr>) = rule_valid r"
  "rule_valid (r\<lparr>rv_state := st\<rparr>) = rule_valid r"
  by (simp_all add: rule_valid_def image_image)

section \<open>Life of a contract version\<close>

inductive version_reach :: "hash \<Rightarrow> contract_version \<Rightarrow> bool" for sha where
  draft: "mk_contract_version ident n terms roles start end = Inr v \<Longrightarrow> version_reach sha v"
| propose: "version_reach sha v \<Longrightarrow> propose sha v = Inr w \<Longrightarrow> version_reach sha w"
| accept: "version_reach sha v \<Longrightarrow> accept v role pr at dg = Inr w \<Longrightarrow> version_reach sha w"
| activate: "version_reach sha v \<Longrightarrow> activate v = Inr w \<Longrightarrow> version_reach sha w"

definition consents :: "contract_version \<Rightarrow> string \<Rightarrow> bool" where
  "consents v d \<longleftrightarrow> (\<forall>a \<in> set (cv_acceptances v). ac_digest a = d \<and> ac_version_id a = cv_id v \<and>
       ac_party_role a \<in> cv_required_roles v \<and> dt_aware (ac_accepted_at a)) \<and>
     distinct (map ac_party_role (cv_acceptances v))"

definition version_inv :: "hash \<Rightarrow> contract_version \<Rightarrow> bool" where
  "version_inv sha v \<longleftrightarrow> contract_valid v \<and>
     (case cv_state v of
        VersionDraft \<Rightarrow> cv_digest v = None \<and> cv_acceptances v = []
      | VersionProposed \<Rightarrow> (\<exists>d. cv_digest v = Some d \<and>
          document_digest sha (PDict (cv_terms v)) = Inr d \<and> consents v d)
      | VersionActive \<Rightarrow> (\<exists>d. cv_digest v = Some d \<and>
          document_digest sha (PDict (cv_terms v)) = Inr d \<and> consents v d) \<and>
          accepted_roles v = cv_required_roles v
      | _ \<Rightarrow> False)"

lemma mk_contract_version_inv: "mk_contract_version i n t r s e = Inr v \<Longrightarrow> version_inv sha v"
  by (auto simp: contract_ops version_inv_def contract_valid_def)

lemma propose_inv: "version_inv sha v \<Longrightarrow> propose sha v = Inr w \<Longrightarrow> version_inv sha w"
  by (auto simp: contract_ops version_inv_def consents_def split: if_splits version_state.splits)

lemma accept_inv: "version_inv sha v \<Longrightarrow> accept v role pr at dg = Inr w \<Longrightarrow> version_inv sha w"
proof -
  assume inv: "version_inv sha v" and w: "accept v role pr at dg = Inr w"
  from w have g: "cv_state v = VersionProposed" "cv_digest v = Some dg" "role \<in> cv_required_roles v"
      "dt_aware at" "contract_valid v"
    and w': "w = v\<lparr>cv_acceptances := filter (\<lambda>a. ac_party_role a \<noteq> role) (cv_acceptances v) @
        [\<lparr>ac_version_id = cv_id v, ac_digest = dg, ac_party_role = role, ac_principal_id = pr,
          ac_accepted_at = at\<rparr>], cv_terms := freeze_items (cv_terms v)\<rparr>"
    by (auto simp: contract_ops split: if_splits)
  from inv g have c: "consents v dg" "document_digest sha (PDict (cv_terms v)) = Inr dg"
    by (auto simp: version_inv_def)
  have "consents w dg"
    using c(1) g by (auto simp: consents_def w' distinct_map inj_on_def)
  with c g show ?thesis by (simp add: version_inv_def w')
qed

lemma activate_inv: "version_inv sha v \<Longrightarrow> activate v = Inr w \<Longrightarrow> version_inv sha w"
  by (auto simp: contract_ops version_inv_def consents_def accepted_roles_def
      split: if_splits version_state.splits)

lemma version_reach_inv: "version_reach sha v \<Longrightarrow> version_inv sha v"
  by (induction rule: version_reach.induct)
    (auto intro: mk_contract_version_inv propose_inv accept_inv activate_inv)

text \<open>
  Activation needs everybody's consent to the exact terms: in every contract version the
  operations can produce, an active version carries the digest of its present terms, and
  each required role has exactly one acceptance, bound to that version and that digest;
  nobody else has accepted.
\<close>

theorem active_version_has_consent:
  assumes "version_reach sha v" "cv_state v = VersionActive"
  shows "\<exists>d. cv_digest v = Some d \<and> document_digest sha (PDict (cv_terms v)) = Inr d \<and>
    ac_party_role ` set (cv_acceptances v) = cv_required_roles v \<and>
    distinct (map ac_party_role (cv_acceptances v)) \<and>
    (\<forall>a \<in> set (cv_acceptances v). ac_digest a = d \<and> ac_version_id a = cv_id v)"
proof -
  from assms have "version_inv sha v" by (blast dest: version_reach_inv)
  with assms(2) obtain d where d: "cv_digest v = Some d" "consents v d"
      "document_digest sha (PDict (cv_terms v)) = Inr d" "accepted_roles v = cv_required_roles v"
    by (auto simp: version_inv_def)
  then have "filter (\<lambda>a. Some (ac_digest a) = cv_digest v) (cv_acceptances v) = cv_acceptances v"
    by (auto simp: consents_def filter_id_conv)
  with d have "ac_party_role ` set (cv_acceptances v) = cv_required_roles v"
    by (simp add: accepted_roles_def del: set_filter)
  with d show ?thesis by (auto simp: consents_def)
qed

definition sample_version :: "contract_version" where
  "sample_version = \<lparr>cv_id = ''v1'', cv_version = 1, cv_terms = [(''fee'', PInt 15)],
     cv_required_roles = {''merchant''}, cv_effective_start = Aware 0, cv_effective_end = None,
     cv_state = VersionActive, cv_digest = Some ''d'', cv_acceptances =
       [\<lparr>ac_version_id = ''v1'', ac_digest = ''d'', ac_party_role = ''merchant'',
         ac_principal_id = ''p'', ac_accepted_at = Aware 5\<rparr>]\<rparr>"

lemma sample_version_reach: "version_reach (\<lambda>_. ''d'') sample_version"
proof -
  let ?v = "sample_version\<lparr>cv_state := VersionDraft, cv_digest := None, cv_acceptances := []\<rparr>"
  have 1: "version_reach (\<lambda>_. ''d'') ?v"
    by (rule version_reach.draft [of "''v1''" 1 "[(''fee'', PInt 15)]" "{''merchant''}" "Aware 0" None])
      (simp add: mk_contract_version_def contract_post_init_def sample_version_def)
  have 2: "version_reach (\<lambda>_. ''d'') (?v\<lparr>cv_state := VersionProposed, cv_digest := Some ''d''\<rparr>)"
    by (rule version_reach.propose [OF 1])
      (simp add: propose_def document_digest_def canonical_document_def contract_post_init_def sample_version_def)
  have 3: "version_reach (\<lambda>_. ''d'') (sample_version\<lparr>cv_state := VersionProposed\<rparr>)"
    by (rule version_reach.accept [OF 2, of "''merchant''" "''p''" "Aware 5" "''d''"])
      (simp add: accept_def contract_post_init_def sample_version_def)
  show ?thesis
    by (rule version_reach.activate [OF 3])
      (simp add: activate_def accepted_roles_def contract_post_init_def sample_version_def)
qed

theorem active_version_has_consent_witness:
  "\<exists>d. cv_digest sample_version = Some d \<and>
    document_digest (\<lambda>_. ''d'') (PDict (cv_terms sample_version)) = Inr d \<and>
    ac_party_role ` set (cv_acceptances sample_version) = cv_required_roles sample_version \<and>
    distinct (map ac_party_role (cv_acceptances sample_version)) \<and>
    (\<forall>a \<in> set (cv_acceptances sample_version). ac_digest a = d \<and> ac_version_id a = cv_id sample_version)"
  by (rule active_version_has_consent [OF sample_version_reach]) (simp add: sample_version_def)

text \<open>The operations change nothing but the lifecycle fields; the terms stay the same document.\<close>

definition same_contract :: "contract_version \<Rightarrow> contract_version \<Rightarrow> bool" where
  "same_contract v w \<longleftrightarrow> cv_id w = cv_id v \<and> cv_version w = cv_version v \<and>
     cv_required_roles w = cv_required_roles v \<and> cv_effective_start w = cv_effective_start v \<and>
     cv_effective_end w = cv_effective_end v \<and>
     canonical_document (PDict (cv_terms w)) = canonical_document (PDict (cv_terms v))"

lemma propose_same: "propose sha v = Inr w \<Longrightarrow> same_contract v w \<and> cv_state v = VersionDraft"
  by (auto simp: contract_ops same_contract_def split: if_splits)

lemma accept_same: "accept v role pr t dg = Inr w \<Longrightarrow> same_contract v w \<and> cv_digest w = cv_digest v"
  by (auto simp: contract_ops same_contract_def split: if_splits)

lemma activate_same: "activate v = Inr w \<Longrightarrow> same_contract v w \<and> cv_digest w = cv_digest v"
  by (auto simp: contract_ops same_contract_def split: if_splits)

text \<open>
  Terms are immutable: an operation on a contract version that succeeds leaves its
  identity, number, roles, window and canonical terms as they were, and once a version has
  been proposed no operation changes its digest.
\<close>

theorem operations_keep_terms:
  assumes "propose sha v = Inr w \<or> accept v role pr t dg = Inr w \<or> activate v = Inr w"
  shows "same_contract v w \<and> (cv_state v \<noteq> VersionDraft \<longrightarrow> cv_digest w = cv_digest v)"
  using assms by (elim disjE) (simp_all add: propose_same accept_same activate_same)

theorem operations_keep_terms_witness:
  "same_contract (sample_version\<lparr>cv_state := VersionProposed\<rparr>) sample_version \<and>
   cv_digest sample_version = cv_digest (sample_version\<lparr>cv_state := VersionProposed\<rparr>)"
proof -
  have "activate (sample_version\<lparr>cv_state := VersionProposed\<rparr>) = Inr sample_version"
    by (simp add: activate_def accepted_roles_def contract_post_init_def sample_version_def)
  then show ?thesis
    using operations_keep_terms [of id "sample_version\<lparr>cv_state := VersionProposed\<rparr>" sample_version
        "''''" "''''" "Aware 0" "''''"] by simp
qed

section \<open>Life of a rule version\<close>

inductive rule_reach :: "hash \<Rightarrow> rule_version \<Rightarrow> bool" for sha where
  draft: "mk_rule_version ident n template defn = Inr r \<Longrightarrow> rule_reach sha r"
| publish: "rule_reach sha r \<Longrightarrow> rule_publish sha r = Inr r' \<Longrightarrow> rule_reach sha r'"
| retire: "rule_reach sha r \<Longrightarrow> rule_retire r = Inr r' \<Longrightarrow> rule_reach sha r'"

lemma rule_valid_frozen:
  "rv_version w = rv_version r \<Longrightarrow> rv_template w = rv_template r \<Longrightarrow>
     rv_definition w = freeze_items (rv_definition r) \<Longrightarrow> rule_valid w = rule_valid r"
  by (simp add: rule_valid_def image_image)

lemma rule_reach_inv:
  "rule_reach sha r \<Longrightarrow> rule_valid r \<and> (if rv_state r = RuleDraft then rv_digest r = None
     else \<exists>d. rv_digest r = Some d \<and> document_digest sha (PDict (rv_definition r)) = Inr d)"
proof (induction rule: rule_reach.induct)
  case (draft ident n template defn r)
  then show ?case
    by (auto simp: mk_rule_version_def rule_post_init_Inr rule_valid_def image_image)
next
  case (publish r r')
  then show ?case
    by (auto simp: rule_publish_def rule_post_init_Inr ebind_eq_Inr
        rule_valid_frozen [of r' r] split: if_splits)
next
  case (retire r r')
  then show ?case
    by (auto simp: rule_retire_def rule_post_init_Inr rule_valid_frozen [of r' r] split: if_splits)
qed

lemma rule_valid_digest: "rule_valid r \<Longrightarrow> \<exists>d. document_digest sha (PDict (rv_definition r)) = Inr d"
  by (auto simp: rule_valid_def document_digest_def)

text \<open>
  The rule lifecycle is draft, published, retired and never backwards: for a rule the
  operations can produce, publishing succeeds exactly on a draft and retiring exactly on a
  published rule, and from publication on the rule carries the digest of its definition.
\<close>

theorem rule_lifecycle:
  assumes "rule_reach sha r"
  shows "(is_ok (rule_publish sha r) \<longleftrightarrow> rv_state r = RuleDraft) \<and>
    (is_ok (rule_retire r) \<longleftrightarrow> rv_state r = RulePublished) \<and>
    (rv_state r \<noteq> RuleDraft \<longrightarrow>
      (\<exists>d. rv_digest r = Some d \<and> document_digest sha (PDict (rv_definition r)) = Inr d))"
proof -
  from assms have inv: "rule_valid r" "rv_state r \<noteq> RuleDraft \<Longrightarrow>
      \<exists>d. rv_digest r = Some d \<and> document_digest sha (PDict (rv_definition r)) = Inr d"
    by (auto dest: rule_reach_inv split: if_splits)
  with rule_valid_digest [of r sha] show ?thesis
    by (auto simp: is_ok_iff rule_publish_def rule_retire_def rule_post_init_Inr ebind_eq_Inr)
qed

definition sample_rule :: "rule_version" where
  "sample_rule = \<lparr>rv_id = ''r1'', rv_version = 1, rv_template = ''attended_booking'',
     rv_definition = [(''max_age_seconds'', PInt 60)], rv_state = RuleDraft, rv_digest = None\<rparr>"

lemma sample_rule_reach: "rule_reach sha sample_rule"
proof (rule rule_reach.draft)
  show "mk_rule_version ''r1'' 1 ''attended_booking'' [(''max_age_seconds'', PInt 60)] = Inr sample_rule"
    by (simp add: mk_rule_version_def rule_post_init_def rule_templates_def allowed_rule_keys_def
        canonical_document_def sample_rule_def quote_def esc_def dquote_def backslash_def code_def
        int_str_def nat_str.simps digit_def char_of_eval utf8_char_def)
qed

theorem rule_lifecycle_witness:
  "\<exists>r d. rule_publish id sample_rule = Inr r \<and> is_ok (rule_retire r) \<and> \<not> is_ok (rule_publish id r) \<and>
    rv_digest r = Some d \<and> document_digest id (PDict (rv_definition r)) = Inr d"
proof -
  have "is_ok (rule_publish id sample_rule)"
    using rule_lifecycle [OF sample_rule_reach [of id]] by (simp add: sample_rule_def)
  then obtain r where r: "rule_publish id sample_rule = Inr r" by (auto simp: is_ok_iff)
  then have "rv_state r = RulePublished"
    by (auto simp: rule_publish_def rule_post_init_Inr ebind_eq_Inr split: if_splits)
  with r rule_lifecycle [OF rule_reach.publish [OF sample_rule_reach r]] show ?thesis by auto
qed

section \<open>Selection\<close>

text \<open>The windows are half open: a start counts, an end does not.\<close>

definition in_window :: "datetime option \<Rightarrow> datetime option \<Rightarrow> int \<Rightarrow> bool" where
  "in_window start end t \<longleftrightarrow>
     (case start of None \<Rightarrow> True | Some s \<Rightarrow> dt_instant s \<le> t) \<and>
     (case end of None \<Rightarrow> True | Some e \<Rightarrow> t < dt_instant e)"

definition effective_at :: "string \<Rightarrow> string \<Rightarrow> int \<Rightarrow> effective_candidate \<Rightarrow> bool" where
  "effective_at st si t c \<longleftrightarrow> ec_source_type c = st \<and> ec_source_id c = si \<and>
     ec_contract_state c = ContractActive \<and> cv_state (ec_version c) = VersionActive \<and>
     in_window (ec_binding_start c) (ec_binding_end c) t \<and>
     in_window (Some (cv_effective_start (ec_version c))) (cv_effective_end (ec_version c)) t"

definition candidate_aware :: "effective_candidate \<Rightarrow> bool" where
  "candidate_aware c \<longleftrightarrow> (\<forall>s. ec_binding_start c = Some s \<longrightarrow> dt_aware s) \<and>
     (\<forall>e. ec_binding_end c = Some e \<longrightarrow> dt_aware e) \<and> contract_valid (ec_version c)"

lemma candidate_matches_aware:
  "candidate_aware c \<Longrightarrow> dt_aware t \<Longrightarrow>
     candidate_matches st si t c = Inr (effective_at st si (dt_instant t) c)"
  by (auto simp: candidate_matches_def effective_at_def in_window_def candidate_aware_def
      contract_valid_def and_also_def opt_test_def dt_le_Aware dt_less_Aware split: option.splits)

text \<open>
  C39. Selection is exact and independent of the order of the candidates: it answers with a
  version if and only if exactly one candidate is effective at the event's instant (source,
  contract and version active, both half-open windows), and otherwise says whether there
  was none or more than one.
\<close>

theorem select_effective_contract_spec:
  assumes "\<forall>c \<in> set cs. candidate_aware c" "dt_aware t"
  shows "select_effective_contract cs st si t = Inr
    (let eff = map ec_version (filter (effective_at st si (dt_instant t)) cs) in
     if length eff = 0 then Selection None (Some ''no_effective_contract'')
     else if length eff = 1 then Selection (Some (hd eff)) None
     else Selection None (Some ''ambiguous_effective_contract''))"
proof -
  define eff where "eff = map ec_version (filter (effective_at st si (dt_instant t)) cs)"
  have "filterM (candidate_matches st si t) cs = Inr (filter (effective_at st si (dt_instant t)) cs)"
    using assms(1,2) by (intro filterM_pure) (simp add: candidate_matches_aware)
  then have sel: "select_effective_contract cs st si t = Inr (case sort_key cv_id eff of
      [] \<Rightarrow> Selection None (Some ''no_effective_contract'')
    | [v] \<Rightarrow> Selection (Some v) None
    | _ \<Rightarrow> Selection None (Some ''ambiguous_effective_contract''))"
    using assms(2) by (simp add: select_effective_contract_def eff_def Let_def)
  have len: "length (sort_key cv_id eff) = length eff" by simp
  show ?thesis unfolding eff_def [symmetric] Let_def
  proof (cases eff rule: remdups_adj.cases)
    case (3 x y xs)
    with len have "length (sort_key cv_id eff) = Suc (Suc (length xs))" by simp
    then obtain a b ds where "sort_key cv_id eff = a # b # ds"
      unfolding length_Suc_conv by blast
    with sel 3 show "select_effective_contract cs st si t = Inr
      (if length eff = 0 then Selection None (Some ''no_effective_contract'')
       else if length eff = 1 then Selection (Some (hd eff)) None
       else Selection None (Some ''ambiguous_effective_contract''))" by simp
  qed (use sel in auto)
qed

definition sample_candidate :: effective_candidate where
  "sample_candidate = \<lparr>ec_version = sample_version, ec_source_type = ''shop'', ec_source_id = ''s1'',
     ec_contract_state = ContractActive, ec_binding_start = None, ec_binding_end = Some (Aware 10)\<rparr>"

theorem select_effective_contract_spec_witness:
  "select_effective_contract [sample_candidate] ''shop'' ''s1'' (Aware 9) =
     Inr (Selection (Some sample_version) None) \<and>
   select_effective_contract [sample_candidate] ''shop'' ''s1'' (Aware 10) =
     Inr (Selection None (Some ''no_effective_contract''))"
proof -
  have a: "\<forall>c \<in> set [sample_candidate]. candidate_aware c"
    by (simp add: sample_candidate_def candidate_aware_def contract_valid_def sample_version_def)
  have e: "effective_at ''shop'' ''s1'' 9 sample_candidate"
    "\<not> effective_at ''shop'' ''s1'' 10 sample_candidate"
    by (simp_all add: effective_at_def in_window_def sample_candidate_def sample_version_def)
  have v: "ec_version sample_candidate = sample_version" by (simp add: sample_candidate_def)
  show ?thesis
    using select_effective_contract_spec [OF a, of "Aware 9" "''shop''" "''s1''"]
      select_effective_contract_spec [OF a, of "Aware 10" "''shop''" "''s1''"] e v
    by simp
qed

end
