(* ===== verification/ContractDb.thy ===== *)
theory ContractDb
  imports Transactions Contracts
begin

text \<open>
  The persistence of contract management: the tables of migrations 0008 and 0009 with their
  unique keys, foreign keys, checks, exclusion constraint and lifecycle triggers, and the
  tenant-scoped queries of \<open>contracts/repositories.py\<close>.  Rows are kept in insertion order;
  ids that no query returns (audit, outbox, command and acceptance rows) are left out, and so
  are the column widths that the request models already enforce.
\<close>

section \<open>Tables\<close>

record contract_row =
  pc_id :: uuid
  pc_tenant_id :: uuid
  pc_state :: contract_state
  pc_lock_version :: int
  pc_created_by :: uuid

record rule_row =
  or_id :: uuid
  or_tenant_id :: uuid
  or_name :: string
  or_created_by :: uuid

record rule_version_row =
  rr_id :: uuid
  rr_tenant_id :: uuid
  rr_rule_id :: uuid
  rr_version :: int
  rr_template_id :: string
  rr_definition :: pyval
  rr_document :: "string option"
  rr_digest :: "string option"
  rr_state :: rule_state
  rr_created_by :: uuid
  rr_published_by :: "uuid option"
  rr_published_at :: "datetime option"

text \<open>The columns a caller supplies, as the request body has them.\<close>

record contract_body =
  cb_display_name :: string
  cb_description :: "string option"
  cb_required_party_roles :: "string list"
  cb_rule_version_id :: uuid
  cb_contract_timezone :: string
  cb_currency :: string
  cb_pricing_model :: string
  cb_fixed_fee_minor :: "int option"
  cb_rate_basis_points :: "int option"
  cb_floor_minor :: "int option"
  cb_cap_minor :: "int option"
  cb_anchor_event_type :: string
  cb_attribution_window_seconds :: int
  cb_evaluation_window_seconds :: int
  cb_finalization_window_seconds :: int
  cb_effective_start :: datetime
  cb_effective_end :: "datetime option"
  cb_terms :: "(string \<times> pyval) list"

record version_row =
  vr_id :: uuid
  vr_tenant_id :: uuid
  vr_contract_id :: uuid
  vr_version :: int
  vr_body :: contract_body
  vr_terms :: pyval
  vr_document :: "string option"
  vr_digest :: "string option"
  vr_state :: version_state
  vr_created_by :: uuid

record acceptance_row =
  pa_tenant_id :: uuid
  pa_version_id :: uuid
  pa_digest :: string
  pa_party_role :: string
  pa_principal_id :: uuid
  pa_accepted_at :: datetime

record authority_row =
  au_id :: uuid
  au_tenant_id :: uuid
  au_contract_id :: uuid
  au_party_role :: string
  au_principal_id :: uuid

record binding_row =
  sb_id :: uuid
  sb_tenant_id :: uuid
  sb_contract_id :: uuid
  sb_source_type :: string
  sb_source_id :: string
  sb_effective_start :: datetime
  sb_effective_end :: "datetime option"
  sb_created_by :: uuid

record command_row =
  cr_tenant_id :: uuid
  cr_key :: string
  cr_digest :: string
  cr_response :: pyval

record trail_row =
  tr_tenant_id :: uuid
  tr_event_type :: string
  tr_aggregate_type :: string
  tr_aggregate_id :: "uuid option"
  tr_actor_id :: uuid
  tr_actor_type :: string
  tr_correlation :: string
  tr_metadata :: "(string \<times> pyval) list"

record cdb =
  contracts :: "contract_row list"
  rules :: "rule_row list"
  rule_versions :: "rule_version_row list"
  versions :: "version_row list"
  acceptances :: "acceptance_row list"
  authorities :: "authority_row list"
  bindings :: "binding_row list"
  commands :: "command_row list"
  audit_events :: "trail_row list"
  outbox :: "trail_row list"

datatype service_error =
    CommandError string
  | DbError db_error
  | PyError exn

type_synonym 'a cmd = "(cdb, service_error, 'a) tx"

section \<open>Lifecycle triggers\<close>

text \<open>\<open>protect_contract_history\<close>, one function per table it is attached to.\<close>

definition contract_moves :: "(contract_state \<times> contract_state) list" where
  "contract_moves = [(ContractDraft, ContractActive), (ContractDraft, ContractTerminated),
     (ContractActive, ContractSuspended), (ContractActive, ContractTerminated),
     (ContractSuspended, ContractActive), (ContractSuspended, ContractTerminated)]"

definition contract_trigger :: "contract_row \<Rightarrow> contract_row \<Rightarrow> db_error + unit" where
  "contract_trigger old new =
     require ((pc_state old, pc_state new) \<in> set contract_moves \<or> pc_state old = pc_state new)
       (RaisedException ''invalid contract lifecycle transition'')"

definition rule_version_trigger :: "rule_version_row \<Rightarrow> rule_version_row \<Rightarrow> db_error + unit" where
  "rule_version_trigger old new =
     ebind (require ((rr_state old = RuleDraft \<and> rr_state new \<in> {RuleDraft, RulePublished}) \<or>
         (rr_state old = RulePublished \<and> rr_state new = RuleRetired) \<or> rr_state old = rr_state new)
       (RaisedException ''invalid rule lifecycle transition''))
     (\<lambda>_. require (rr_state old \<notin> {RulePublished, RuleRetired} \<or>
         new\<lparr>rr_state := rr_state old, rr_published_by := rr_published_by old,
           rr_published_at := rr_published_at old\<rparr> = old)
       (RaisedException ''immutable published rule''))"

definition version_moves :: "(version_state \<times> version_state) list" where
  "version_moves = [(VersionDraft, VersionProposed), (VersionDraft, VersionWithdrawn),
     (VersionProposed, VersionActive), (VersionProposed, VersionWithdrawn),
     (VersionActive, VersionSuperseded)]"

definition version_trigger :: "version_row \<Rightarrow> version_row \<Rightarrow> db_error + unit" where
  "version_trigger old new =
     ebind (require ((vr_state old, vr_state new) \<in> set version_moves \<or> vr_state old = vr_state new)
       (RaisedException ''invalid contract version lifecycle transition''))
     (\<lambda>_. require (vr_state old = VersionDraft \<or> new\<lparr>vr_state := vr_state old\<rparr> = old)
       (RaisedException ''immutable proposed contract''))"

section \<open>Checks and unique keys\<close>

text \<open>\<open>one_active_contract_version\<close>: a unique index over the active versions.\<close>

definition one_active :: "version_row list \<Rightarrow> bool" where
  "one_active rows = distinct (map (\<lambda>r. (vr_tenant_id r, vr_contract_id r))
     (filter (\<lambda>r. vr_state r = VersionActive) rows))"

definition some_or :: "'a \<Rightarrow> 'a option \<Rightarrow> 'a" where
  "some_or d x = (case x of None \<Rightarrow> d | Some v \<Rightarrow> v)"

definition int4_opt :: "int option \<Rightarrow> bool" where
  "int4_opt x = int4 (some_or 0 x)"

definition int8_opt :: "int option \<Rightarrow> bool" where
  "int8_opt x = int8 (some_or 0 x)"

text \<open>The integer columns hold 32 and 64 bits; a larger value is an error of the driver or the server.\<close>

definition body_in_range :: "contract_body \<Rightarrow> bool" where
  "body_in_range b \<longleftrightarrow> int8_opt (cb_fixed_fee_minor b) \<and> int4_opt (cb_rate_basis_points b) \<and>
     int8_opt (cb_floor_minor b) \<and> int8_opt (cb_cap_minor b) \<and>
     int4 (cb_attribution_window_seconds b) \<and> int4 (cb_evaluation_window_seconds b) \<and>
     int4 (cb_finalization_window_seconds b)"

definition pricing_check :: "contract_body \<Rightarrow> bool" where
  "pricing_check b \<longleftrightarrow>
     (cb_pricing_model b = ''fixed_fee'' \<and> 0 < some_or 1 (cb_fixed_fee_minor b) \<and>
        cb_rate_basis_points b = None \<and> cb_floor_minor b = None \<and> cb_cap_minor b = None) \<or>
     (cb_pricing_model b = ''basis_points'' \<and> cb_fixed_fee_minor b = None \<and>
        1 \<le> some_or 1 (cb_rate_basis_points b) \<and> some_or 1 (cb_rate_basis_points b) \<le> 10000 \<and>
        0 \<le> some_or 0 (cb_floor_minor b) \<and> 0 \<le> some_or 0 (cb_cap_minor b) \<and>
        (cb_floor_minor b = None \<or> cb_cap_minor b = None \<or>
           some_or 0 (cb_floor_minor b) \<le> some_or 0 (cb_cap_minor b)))"

definition window_check :: "datetime \<Rightarrow> datetime option \<Rightarrow> bool" where
  "window_check start end = (case end of None \<Rightarrow> True | Some e \<Rightarrow> dt_instant start < dt_instant e)"

definition version_check :: "version_row \<Rightarrow> bool" where
  "version_check r \<longleftrightarrow> 0 < vr_version r \<and> pricing_check (vr_body r) \<and>
     0 \<le> cb_attribution_window_seconds (vr_body r) \<and> 0 \<le> cb_evaluation_window_seconds (vr_body r) \<and>
     0 \<le> cb_finalization_window_seconds (vr_body r) \<and>
     window_check (cb_effective_start (vr_body r)) (cb_effective_end (vr_body r))"

text \<open>Two half-open ranges of time share an instant; an open end is unbounded.\<close>

definition ranges_meet :: "datetime \<Rightarrow> datetime option \<Rightarrow> datetime \<Rightarrow> datetime option \<Rightarrow> bool" where
  "ranges_meet s e s' e' \<longleftrightarrow>
     (case e' of None \<Rightarrow> True | Some x \<Rightarrow> dt_instant s < dt_instant x) \<and>
     (case e of None \<Rightarrow> True | Some x \<Rightarrow> dt_instant s' < dt_instant x)"

definition binding_clash :: "binding_row \<Rightarrow> binding_row \<Rightarrow> bool" where
  "binding_clash r r' \<longleftrightarrow> sb_tenant_id r = sb_tenant_id r' \<and> sb_source_type r = sb_source_type r' \<and>
     sb_source_id r = sb_source_id r' \<and>
     ranges_meet (sb_effective_start r) (sb_effective_end r) (sb_effective_start r') (sb_effective_end r')"

section \<open>Statements\<close>

definition has_contract :: "cdb \<Rightarrow> uuid \<Rightarrow> uuid \<Rightarrow> bool" where
  "has_contract db t i \<longleftrightarrow> list_ex (\<lambda>r. pc_tenant_id r = t \<and> pc_id r = i) (contracts db)"

definition insert_contract :: "contract_row \<Rightarrow> cdb \<Rightarrow> db_error + cdb" where
  "insert_contract r db =
     ebind (insert_row UniqueViolation (\<lambda>r r'. pc_id r = pc_id r') r (contracts db))
       (\<lambda>rows. Inr (db\<lparr>contracts := rows\<rparr>))"

definition insert_rule :: "rule_row \<Rightarrow> cdb \<Rightarrow> db_error + cdb" where
  "insert_rule r db =
     ebind (insert_row UniqueViolation (\<lambda>r r'. or_id r = or_id r' \<or>
         (or_tenant_id r = or_tenant_id r' \<and> or_name r = or_name r')) r (rules db))
       (\<lambda>rows. Inr (db\<lparr>rules := rows\<rparr>))"

definition insert_rule_version :: "rule_version_row \<Rightarrow> cdb \<Rightarrow> db_error + cdb" where
  "insert_rule_version r db =
     ebind (require (int4 (rr_version r)) OutOfRange) (\<lambda>_.
     ebind (require (0 < rr_version r \<and> rr_template_id r \<in> set rule_templates) CheckViolation) (\<lambda>_.
     ebind (insert_row UniqueViolation (\<lambda>r r'. rr_id r = rr_id r' \<or>
         (rr_tenant_id r = rr_tenant_id r' \<and> rr_rule_id r = rr_rule_id r' \<and> rr_version r = rr_version r'))
         r (rule_versions db)) (\<lambda>rows.
     ebind (require (list_ex (\<lambda>p. or_tenant_id p = rr_tenant_id r \<and> or_id p = rr_rule_id r) (rules db))
         ForeignKeyViolation)
       (\<lambda>_. Inr (db\<lparr>rule_versions := rows\<rparr>)))))"

definition insert_version :: "version_row \<Rightarrow> cdb \<Rightarrow> db_error + cdb" where
  "insert_version r db =
     ebind (require (int4 (vr_version r) \<and> body_in_range (vr_body r)) OutOfRange) (\<lambda>_.
     ebind (require (version_check r) CheckViolation) (\<lambda>_.
     ebind (insert_row UniqueViolation (\<lambda>r r'. vr_id r = vr_id r' \<or>
         (vr_tenant_id r = vr_tenant_id r' \<and> vr_contract_id r = vr_contract_id r' \<and>
          vr_version r = vr_version r')) r (versions db)) (\<lambda>rows.
     ebind (require (one_active rows) UniqueViolation) (\<lambda>_.
     ebind (require (has_contract db (vr_tenant_id r) (vr_contract_id r) \<and>
         list_ex (\<lambda>p. rr_tenant_id p = vr_tenant_id r \<and> rr_id p = cb_rule_version_id (vr_body r))
           (rule_versions db)) ForeignKeyViolation)
       (\<lambda>_. Inr (db\<lparr>versions := rows\<rparr>))))))"

definition insert_acceptance :: "acceptance_row \<Rightarrow> cdb \<Rightarrow> db_error + cdb" where
  "insert_acceptance r db =
     ebind (insert_row UniqueViolation (\<lambda>r r'. pa_tenant_id r = pa_tenant_id r' \<and>
         pa_version_id r = pa_version_id r' \<and> pa_digest r = pa_digest r' \<and>
         pa_party_role r = pa_party_role r') r (acceptances db)) (\<lambda>rows.
     ebind (require (list_ex (\<lambda>v. vr_tenant_id v = pa_tenant_id r \<and> vr_id v = pa_version_id r)
         (versions db)) ForeignKeyViolation)
       (\<lambda>_. Inr (db\<lparr>acceptances := rows\<rparr>)))"

definition insert_authority :: "authority_row \<Rightarrow> cdb \<Rightarrow> db_error + cdb" where
  "insert_authority r db =
     ebind (insert_row UniqueViolation (\<lambda>r r'. au_id r = au_id r' \<or>
         (au_tenant_id r = au_tenant_id r' \<and> au_contract_id r = au_contract_id r' \<and>
          au_party_role r = au_party_role r' \<and> au_principal_id r = au_principal_id r'))
         r (authorities db)) (\<lambda>rows.
     ebind (require (has_contract db (au_tenant_id r) (au_contract_id r)) ForeignKeyViolation)
       (\<lambda>_. Inr (db\<lparr>authorities := rows\<rparr>)))"

definition insert_binding :: "binding_row \<Rightarrow> cdb \<Rightarrow> db_error + cdb" where
  "insert_binding r db =
     ebind (require (window_check (sb_effective_start r) (sb_effective_end r)) CheckViolation) (\<lambda>_.
     ebind (insert_row UniqueViolation (\<lambda>r r'. sb_id r = sb_id r') r (bindings db)) (\<lambda>_.
     ebind (insert_row ExclusionViolation binding_clash r (bindings db)) (\<lambda>rows.
     ebind (require (has_contract db (sb_tenant_id r) (sb_contract_id r)) ForeignKeyViolation)
       (\<lambda>_. Inr (db\<lparr>bindings := rows\<rparr>)))))"

definition update_contracts :: "(contract_row \<Rightarrow> bool) \<Rightarrow> (contract_row \<Rightarrow> contract_row) \<Rightarrow> cdb \<Rightarrow> db_error + cdb" where
  "update_contracts p f db =
     ebind (update_rows p f (\<lambda>old new. ebind (contract_trigger old new)
         (\<lambda>_. require (int4 (pc_lock_version new)) OutOfRange)) (contracts db))
       (\<lambda>rows. Inr (db\<lparr>contracts := rows\<rparr>))"

definition update_rule_versions ::
    "(rule_version_row \<Rightarrow> bool) \<Rightarrow> (rule_version_row \<Rightarrow> rule_version_row) \<Rightarrow> cdb \<Rightarrow> db_error + cdb" where
  "update_rule_versions p f db =
     ebind (update_rows p f rule_version_trigger (rule_versions db))
       (\<lambda>rows. Inr (db\<lparr>rule_versions := rows\<rparr>))"

definition update_versions :: "(version_row \<Rightarrow> bool) \<Rightarrow> (version_row \<Rightarrow> version_row) \<Rightarrow> cdb \<Rightarrow> db_error + cdb" where
  "update_versions p f db =
     ebind (update_rows p f version_trigger (versions db)) (\<lambda>rows.
     ebind (require (one_active rows) UniqueViolation) (\<lambda>_. Inr (db\<lparr>versions := rows\<rparr>)))"

section \<open>The repository\<close>

definition repo_contract :: "uuid \<Rightarrow> uuid \<Rightarrow> cdb \<Rightarrow> contract_row option" where
  "repo_contract t i db = find (\<lambda>r. pc_tenant_id r = t \<and> pc_id r = i) (contracts db)"

definition repo_rule :: "uuid \<Rightarrow> uuid \<Rightarrow> cdb \<Rightarrow> rule_row option" where
  "repo_rule t i db = find (\<lambda>r. or_tenant_id r = t \<and> or_id r = i) (rules db)"

definition repo_list :: "('r \<Rightarrow> uuid) \<Rightarrow> ('r \<Rightarrow> uuid) \<Rightarrow> uuid \<Rightarrow> uuid option \<Rightarrow> nat \<Rightarrow> 'r list \<Rightarrow> 'r list" where
  "repo_list tenant ident t after limit rows =
     take limit (sort_key ident (filter (\<lambda>r. tenant r = t \<and>
       (case after of None \<Rightarrow> True | Some a \<Rightarrow> ident r > a)) rows))"

definition repo_version :: "uuid \<Rightarrow> uuid \<Rightarrow> uuid \<Rightarrow> cdb \<Rightarrow> version_row option" where
  "repo_version t parent i db =
     find (\<lambda>r. vr_tenant_id r = t \<and> vr_contract_id r = parent \<and> vr_id r = i) (versions db)"

definition repo_rule_version :: "uuid \<Rightarrow> uuid \<Rightarrow> uuid \<Rightarrow> cdb \<Rightarrow> rule_version_row option" where
  "repo_rule_version t parent i db =
     find (\<lambda>r. rr_tenant_id r = t \<and> rr_rule_id r = parent \<and> rr_id r = i) (rule_versions db)"

definition repo_bindings :: "uuid \<Rightarrow> uuid \<Rightarrow> cdb \<Rightarrow> binding_row list" where
  "repo_bindings t c db =
     sort_key (\<lambda>r. dt_instant (sb_effective_start r)) (sort_key sb_id
       (filter (\<lambda>r. sb_tenant_id r = t \<and> sb_contract_id r = c) (bindings db)))"

definition lock_contract :: "uuid \<Rightarrow> uuid \<Rightarrow> int option \<Rightarrow> cdb \<Rightarrow> contract_row option" where
  "lock_contract t i lock db =
     find (\<lambda>r. pc_tenant_id r = t \<and> pc_id r = i \<and>
       (case lock of None \<Rightarrow> True | Some l \<Rightarrow> pc_lock_version r = l)) (contracts db)"

definition command_result :: "uuid \<Rightarrow> string \<Rightarrow> cdb \<Rightarrow> (string \<times> pyval) option" where
  "command_result t key db =
     map_option (\<lambda>r. (cr_digest r, cr_response r))
       (find (\<lambda>r. cr_tenant_id r = t \<and> cr_key r = key) (commands db))"

definition stored_json :: "pyval \<Rightarrow> service_error + pyval" where
  "stored_json v = (if json_ok True v then map_error DbError (jsonb (dumps True v)) else Inl (PyError TypeError))"

definition remember :: "uuid \<Rightarrow> string \<Rightarrow> string \<Rightarrow> pyval \<Rightarrow> unit cmd" where
  "remember t key digest response =
     bind (lift id (stored_json response)) (\<lambda>v.
     change DbError (\<lambda>db.
       ebind (insert_row UniqueViolation (\<lambda>r r'. cr_tenant_id r = cr_tenant_id r' \<and> cr_key r = cr_key r')
         \<lparr>cr_tenant_id = t, cr_key = key, cr_digest = digest, cr_response = v\<rparr> (commands db))
       (\<lambda>rows. Inr (db\<lparr>commands := rows\<rparr>))))"

definition safe_keys :: "string list" where
  "safe_keys = [''previous_state'', ''new_state'', ''version'', ''digest'', ''reason'',
     ''idempotency_key'', ''result'']"

definition str_of :: "pyval \<Rightarrow> string" where
  "str_of v = (case v of PStr s \<Rightarrow> s | _ \<Rightarrow> dumps True v)"

text \<open>
  \<open>record\<close>: one audit row and one outbox row, with only the safe metadata.  Every caller passes
  strings, integers or \<open>None\<close>, and an \<open>idempotency_key\<close> that is a string.
\<close>

definition record_event :: "principal \<Rightarrow> string \<Rightarrow> string \<Rightarrow> string \<Rightarrow> uuid option \<Rightarrow> (string \<times> pyval) list \<Rightarrow>
    unit cmd" where
  "record_event actor actor_type event_type aggregate_type aggregate_id metadata =
     (let safe = filter (\<lambda>(k, v). k \<in> set safe_keys) metadata;
          row = \<lparr>tr_tenant_id = pr_tenant_id actor, tr_event_type = event_type,
            tr_aggregate_type = aggregate_type, tr_aggregate_id = aggregate_id,
            tr_actor_id = pr_user_id actor, tr_actor_type = actor_type,
            tr_correlation = take 100 (case map_of metadata ''idempotency_key'' of
              Some v \<Rightarrow> str_of v | None \<Rightarrow> ''selection''),
            tr_metadata = safe\<rparr>
      in change id (\<lambda>db. Inr (db\<lparr>audit_events := audit_events db @ [row], outbox := outbox db @ [row]\<rparr>)))"

end
