(* ===== verification/ContractService.thy ===== *)
theory ContractService
  imports ContractDb
begin

text \<open>
  The application service of \<open>contracts/service.py\<close>: every command with its validation, its
  statements, its audit record and its answer, run once per idempotency key.  The identifiers
  \<open>uuid4()\<close> draws and the clock are arguments; SHA-256 and the time zone database are
  parameters.
\<close>

record service =
  sv_actor :: principal
  sv_actor_type :: string

abbreviation tenant_of :: "service \<Rightarrow> uuid" where
  "tenant_of sv \<equiv> pr_tenant_id (sv_actor sv)"

abbreviation user_of :: "service \<Rightarrow> uuid" where
  "user_of sv \<equiv> pr_user_id (sv_actor sv)"

definition catch_domain :: "string \<Rightarrow> exn \<Rightarrow> service_error" where
  "catch_domain errcode e = (case e of
     DomainError m \<Rightarrow> CommandError errcode | _ \<Rightarrow> PyError e)"

definition request_digest :: "hash \<Rightarrow> pyval \<Rightarrow> string" where
  "request_digest sha request = sha (utf8 (dumps True request))"

definition run :: "hash \<Rightarrow> service \<Rightarrow> string \<Rightarrow> pyval \<Rightarrow> pyval cmd \<Rightarrow> pyval cmd" where
  "run sha sv key request operation =
     once (command_result (tenant_of sv) key)
       (remember (tenant_of sv) key (request_digest sha request))
       (CommandError ''idempotency_conflict'') (request_digest sha request) operation"

definition sql :: "(cdb \<Rightarrow> db_error + cdb) \<Rightarrow> unit cmd" where
  "sql f = change DbError f"

definition audit :: "service \<Rightarrow> string \<Rightarrow> string \<Rightarrow> uuid \<Rightarrow> (string \<times> pyval) list \<Rightarrow> unit cmd" where
  "audit sv event_type aggregate_type aggregate_id metadata =
     record_event (sv_actor sv) (sv_actor_type sv) event_type aggregate_type (Some aggregate_id) metadata"

text \<open>A row that must be there.\<close>

definition fetch :: "string \<Rightarrow> (cdb \<Rightarrow> 'a option) \<Rightarrow> 'a cmd" where
  "fetch errcode f = bind (query f) (\<lambda>x. case x of None \<Rightarrow> raise (CommandError errcode) | Some r \<Rightarrow> ret r)"

definition py :: "exn + 'a \<Rightarrow> 'a cmd" where
  "py r = lift PyError r"

fun contract_state_value :: "contract_state \<Rightarrow> string" where
  "contract_state_value ContractDraft = ''draft''"
| "contract_state_value ContractActive = ''active''"
| "contract_state_value ContractSuspended = ''suspended''"
| "contract_state_value ContractTerminated = ''terminated''"

fun version_state_value :: "version_state \<Rightarrow> string" where
  "version_state_value VersionDraft = ''draft''"
| "version_state_value VersionProposed = ''proposed''"
| "version_state_value VersionActive = ''active''"
| "version_state_value VersionSuperseded = ''superseded''"
| "version_state_value VersionWithdrawn = ''withdrawn''"

fun rule_state_value :: "rule_state \<Rightarrow> string" where
  "rule_state_value RuleDraft = ''draft''"
| "rule_state_value RulePublished = ''published''"
| "rule_state_value RuleRetired = ''retired''"

definition opt_int :: "int option \<Rightarrow> pyval" where
  "opt_int x = (case x of None \<Rightarrow> PNone | Some i \<Rightarrow> PInt i)"

definition opt_text :: "string option \<Rightarrow> pyval" where
  "opt_text x = (case x of None \<Rightarrow> PNone | Some s \<Rightarrow> PStr s)"

section \<open>Contracts and rules\<close>

definition create_contract :: "hash \<Rightarrow> service \<Rightarrow> uuid \<Rightarrow> string \<Rightarrow> pyval cmd" where
  "create_contract sha sv identifier key =
     run sha sv key (PDict [(''command'', PStr ''create_contract'')])
       (andthen (sql (insert_contract \<lparr>pc_id = identifier, pc_tenant_id = tenant_of sv,
           pc_state = ContractDraft, pc_lock_version = 0, pc_created_by = user_of sv\<rparr>))
       (andthen (audit sv ''contract_created'' ''performance_contract'' identifier
           [(''new_state'', PStr ''draft''), (''idempotency_key'', PStr key)])
       (ret (PDict [(''id'', PStr (uuid_str identifier)), (''state'', PStr ''draft''), (''lock_version'', PInt 0)]))))"

definition create_rule :: "hash \<Rightarrow> service \<Rightarrow> uuid \<Rightarrow> string \<Rightarrow> string \<Rightarrow> pyval cmd" where
  "create_rule sha sv identifier key name =
     run sha sv key (PDict [(''command'', PStr ''create_rule''), (''name'', PStr name)])
       (andthen (sql (insert_rule \<lparr>or_id = identifier, or_tenant_id = tenant_of sv, or_name = name,
           or_created_by = user_of sv\<rparr>))
       (andthen (audit sv ''outcome_rule_created'' ''outcome_rule'' identifier [(''idempotency_key'', PStr key)])
       (ret (PDict [(''id'', PStr (uuid_str identifier)), (''name'', PStr name)]))))"

definition next_version :: "int list \<Rightarrow> int" where
  "next_version vs = foldr max vs 0 + 1"

definition create_rule_version ::
    "hash \<Rightarrow> service \<Rightarrow> uuid \<Rightarrow> string \<Rightarrow> uuid \<Rightarrow> string \<Rightarrow> (string \<times> pyval) list \<Rightarrow> pyval cmd" where
  "create_rule_version sha sv identifier key rule_id template_id defn =
     bind (lift (catch_domain ''invalid_rule_definition'') (mk_rule_version ''validation'' 1 template_id defn))
     (\<lambda>_. run sha sv key (PDict [(''command'', PStr ''create_rule_version''), (''rule'', PStr (uuid_str rule_id)),
         (''template_id'', PStr template_id), (''definition'', PDict defn)])
       (bind (fetch ''resource_not_found'' (repo_rule (tenant_of sv) rule_id)) (\<lambda>_.
        bind (query (\<lambda>db. next_version (map rr_version
          (filter (\<lambda>r. rr_tenant_id r = tenant_of sv \<and> rr_rule_id r = rule_id) (rule_versions db))))) (\<lambda>version.
        bind (py (canonical_document (PDict defn))) (\<lambda>document.
        bind (lift DbError (jsonb document)) (\<lambda>stored.
        andthen (sql (insert_rule_version \<lparr>rr_id = identifier, rr_tenant_id = tenant_of sv,
            rr_rule_id = rule_id, rr_version = version, rr_template_id = template_id,
            rr_definition = stored, rr_document = None, rr_digest = None, rr_state = RuleDraft,
            rr_created_by = user_of sv, rr_published_by = None, rr_published_at = None\<rparr>))
        (andthen (audit sv ''rule_version_created'' ''outcome_rule'' rule_id
            [(''version'', PInt version), (''idempotency_key'', PStr key)])
        (ret (PDict [(''id'', PStr (uuid_str identifier)), (''rule_id'', PStr (uuid_str rule_id)),
           (''version'', PInt version), (''state'', PStr ''draft''), (''digest'', PNone)])))))))))"

fun items :: "pyval \<Rightarrow> (string \<times> pyval) list" where
  "items (PDict kvs) = kvs"
| "items v = []"

definition transition_rule ::
    "hash \<Rightarrow> service \<Rightarrow> datetime \<Rightarrow> string \<Rightarrow> uuid \<Rightarrow> uuid \<Rightarrow> string \<Rightarrow> pyval cmd" where
  "transition_rule sha sv now key rule_id version_id action =
     run sha sv key (PDict [(''command'', PStr action), (''rule'', PStr (uuid_str rule_id)),
         (''version'', PStr (uuid_str version_id))])
       (bind (fetch ''resource_not_found'' (repo_rule_version (tenant_of sv) rule_id version_id)) (\<lambda>row.
        let (expected, target) = (if action = ''publish'' then (RuleDraft, RulePublished)
              else (RulePublished, RuleRetired)) in
        andthen (need (rr_state row = expected) (CommandError ''invalid_lifecycle''))
        (andthen (if action = ''publish''
           then bind (lift (catch_domain ''invalid_rule_definition'')
               (mk_rule_version (uuid_str version_id) (rr_version row) (rr_template_id row) (items (rr_definition row))))
               (\<lambda>_. ret ())
           else ret ())
        (bind (py (document_digest sha (rr_definition row))) (\<lambda>digest.
         bind (py (canonical_document (rr_definition row))) (\<lambda>document.
         andthen (sql (update_rule_versions (\<lambda>r. rr_tenant_id r = tenant_of sv \<and> rr_id r = version_id)
           (\<lambda>r. r\<lparr>rr_state := target,
              rr_document := Some (some_or document (rr_document r)),
              rr_digest := Some (some_or digest (rr_digest r)),
              rr_published_by := (if target = RulePublished then Some (user_of sv) else rr_published_by r),
              rr_published_at := (if target = RulePublished then Some now else rr_published_at r)\<rparr>)))
         (andthen (audit sv (''rule_version_'' @ action @ ''ed'') ''outcome_rule'' rule_id
            [(''previous_state'', PStr (rule_state_value expected)), (''new_state'', PStr (rule_state_value target)),
             (''version'', PInt (rr_version row)), (''digest'', PStr digest), (''idempotency_key'', PStr key)])
         (ret (PDict [(''id'', PStr (uuid_str version_id)), (''rule_id'', PStr (uuid_str rule_id)),
            (''version'', PInt (rr_version row)), (''state'', PStr (rule_state_value target)),
            (''digest'', PStr digest)])))))))))"

section \<open>Contract versions\<close>

text \<open>\<open>str\<close> of a datetime in UTC, as \<open>default=str\<close> prints it into the request digest.\<close>

definition dt_str :: "datetime \<Rightarrow> string" where
  "dt_str d = (let s = map (\<lambda>c. if c = CHR ''T'' then CHR '' '' else c) (iso_utc (dt_instant d)) in
     if dt_aware d then s else take (length s - 6) s)"

definition body_fields :: "contract_body \<Rightarrow> (string \<times> pyval) list" where
  "body_fields b =
     [(''display_name'', PStr (cb_display_name b)), (''description'', opt_text (cb_description b)),
      (''required_party_roles'', PList (map PStr (cb_required_party_roles b))),
      (''rule_version_id'', PStr (uuid_str (cb_rule_version_id b))),
      (''contract_timezone'', PStr (cb_contract_timezone b)), (''currency'', PStr (cb_currency b)),
      (''pricing_model'', PStr (cb_pricing_model b)), (''fixed_fee_minor'', opt_int (cb_fixed_fee_minor b)),
      (''rate_basis_points'', opt_int (cb_rate_basis_points b)), (''floor_minor'', opt_int (cb_floor_minor b)),
      (''cap_minor'', opt_int (cb_cap_minor b)), (''anchor_event_type'', PStr (cb_anchor_event_type b)),
      (''attribution_window_seconds'', PInt (cb_attribution_window_seconds b)),
      (''evaluation_window_seconds'', PInt (cb_evaluation_window_seconds b)),
      (''finalization_window_seconds'', PInt (cb_finalization_window_seconds b)),
      (''effective_start'', PStr (dt_str (cb_effective_start b))),
      (''effective_end'', opt_text (map_option dt_str (cb_effective_end b))),
      (''terms'', PDict (cb_terms b))]"

definition validate_body :: "(string \<Rightarrow> zone_lookup) \<Rightarrow> contract_body \<Rightarrow> exn + contract_body" where
  "validate_body zone body =
     ebind (validate_currency (cb_currency body)) (\<lambda>cur.
     ebind (validate_timezone zone (cb_contract_timezone body)) (\<lambda>tz.
     ebind (if cb_pricing_model body = ''fixed_fee''
        then ebind (mk_fixed_fee (opt_int (cb_fixed_fee_minor body)) cur) (\<lambda>_. Inr ())
        else ebind (mk_basis_points (opt_int (cb_rate_basis_points body)) cur
            (opt_int (cb_floor_minor body)) (opt_int (cb_cap_minor body))) (\<lambda>_. Inr ()))
     (\<lambda>_. Inr (body\<lparr>cb_currency := cur, cb_contract_timezone := tz\<rparr>))))"

definition create_contract_version ::
    "hash \<Rightarrow> (string \<Rightarrow> zone_lookup) \<Rightarrow> service \<Rightarrow> uuid \<Rightarrow> string \<Rightarrow> uuid \<Rightarrow> contract_body \<Rightarrow> pyval cmd" where
  "create_contract_version sha zone sv identifier key contract_id body0 =
     bind (lift (catch_domain ''invalid_contract_terms'') (validate_body zone body0)) (\<lambda>body.
     run sha sv key (PDict ([(''command'', PStr ''create_contract_version''),
         (''contract'', PStr (uuid_str contract_id))] @ body_fields body))
       (bind (fetch ''resource_not_found'' (lock_contract (tenant_of sv) contract_id None)) (\<lambda>_.
        bind (query (\<lambda>db. map_option rr_state (find (\<lambda>r. rr_tenant_id r = tenant_of sv \<and>
            rr_id r = cb_rule_version_id body) (rule_versions db)))) (\<lambda>rule.
        andthen (need (rule = Some RulePublished) (CommandError ''published_rule_required''))
        (bind (query (\<lambda>db. next_version (map vr_version
          (filter (\<lambda>r. vr_tenant_id r = tenant_of sv \<and> vr_contract_id r = contract_id) (versions db))))) (\<lambda>version.
        bind (py (canonical_document (PDict (cb_terms body)))) (\<lambda>document.
        bind (lift DbError (jsonb document)) (\<lambda>stored.
        andthen (sql (insert_version \<lparr>vr_id = identifier, vr_tenant_id = tenant_of sv,
            vr_contract_id = contract_id, vr_version = version, vr_body = body, vr_terms = stored,
            vr_document = None, vr_digest = None, vr_state = VersionDraft, vr_created_by = user_of sv\<rparr>))
        (andthen (audit sv ''contract_version_created'' ''performance_contract'' contract_id
            [(''version'', PInt version), (''idempotency_key'', PStr key)])
        (ret (PDict [(''id'', PStr (uuid_str identifier)), (''contract_id'', PStr (uuid_str contract_id)),
           (''version'', PInt version), (''state'', PStr ''draft''), (''digest'', PNone)])))))))))))"

text \<open>The three branches of \<open>transition_contract_version\<close>: the new state and the digest.\<close>

definition do_propose :: "hash \<Rightarrow> service \<Rightarrow> version_row \<Rightarrow> (version_state \<times> string option) cmd" where
  "do_propose sha sv row =
     andthen (need (vr_state row = VersionDraft) (CommandError ''invalid_lifecycle''))
     (bind (py (document_digest sha (vr_terms row))) (\<lambda>digest.
      bind (py (canonical_document (vr_terms row))) (\<lambda>document.
      andthen (sql (update_versions (\<lambda>r. vr_tenant_id r = tenant_of sv \<and> vr_id r = vr_id row)
        (\<lambda>r. r\<lparr>vr_state := VersionProposed, vr_document := Some document, vr_digest := Some digest\<rparr>)))
      (ret (VersionProposed, Some digest)))))"

definition do_accept :: "service \<Rightarrow> datetime \<Rightarrow> uuid \<Rightarrow> version_row \<Rightarrow> string option \<Rightarrow> string \<Rightarrow> bool \<Rightarrow>
    (version_state \<times> string option) cmd" where
  "do_accept sv now contract_id row digest party_role human =
     andthen (need human (CommandError ''human_principal_required''))
     (bind (query (\<lambda>db. list_ex (\<lambda>a. au_tenant_id a = tenant_of sv \<and> au_contract_id a = contract_id \<and>
          au_party_role a = party_role \<and> au_principal_id a = user_of sv) (authorities db))) (\<lambda>authority.
      andthen (need (vr_state row = VersionProposed \<and> digest = vr_digest row \<and> authority)
        (CommandError ''acceptance_not_authorized''))
      (andthen (sql (\<lambda>db. case digest of
           None \<Rightarrow> Inl CheckViolation
         | Some d \<Rightarrow> insert_acceptance \<lparr>pa_tenant_id = tenant_of sv, pa_version_id = vr_id row,
             pa_digest = d, pa_party_role = party_role, pa_principal_id = user_of sv,
             pa_accepted_at = now\<rparr> db))
      (ret (vr_state row, vr_digest row)))))"

definition accepted_by :: "uuid \<Rightarrow> uuid \<Rightarrow> string option \<Rightarrow> cdb \<Rightarrow> string set" where
  "accepted_by t version_id digest db =
     pa_party_role ` set (filter (\<lambda>a. pa_tenant_id a = t \<and> pa_version_id a = version_id \<and>
       Some (pa_digest a) = digest) (acceptances db))"

definition do_activate :: "service \<Rightarrow> uuid \<Rightarrow> version_row \<Rightarrow> (version_state \<times> string option) cmd" where
  "do_activate sv contract_id row =
     bind (query (accepted_by (tenant_of sv) (vr_id row) (vr_digest row))) (\<lambda>accepted.
     andthen (need (vr_state row = VersionProposed \<and>
         set (cb_required_party_roles (vr_body row)) = accepted) (CommandError ''acceptances_required''))
     (andthen (sql (update_versions (\<lambda>r. vr_tenant_id r = tenant_of sv \<and> vr_contract_id r = contract_id \<and>
         vr_state r = VersionActive) (\<lambda>r. r\<lparr>vr_state := VersionSuperseded\<rparr>)))
     (andthen (sql (update_versions (\<lambda>r. vr_tenant_id r = tenant_of sv \<and> vr_id r = vr_id row)
         (\<lambda>r. r\<lparr>vr_state := VersionActive\<rparr>)))
     (andthen (sql (update_contracts (\<lambda>r. pc_tenant_id r = tenant_of sv \<and> pc_id r = contract_id)
         (\<lambda>r. r\<lparr>pc_state := ContractActive, pc_lock_version := pc_lock_version r + 1\<rparr>)))
     (ret (VersionActive, vr_digest row))))))"

text \<open>The value of \<open>action\<close>; the router passes no other.\<close>

datatype version_action =
    Propose
  | Accept string string bool
  | Activate

fun action_name :: "version_action \<Rightarrow> string" where
  "action_name Propose = ''propose''"
| "action_name (Accept digest role human) = ''accept''"
| "action_name Activate = ''activate''"

fun action_args :: "version_action \<Rightarrow> pyval \<times> pyval" where
  "action_args (Accept digest role human) = (PStr digest, PStr role)"
| "action_args a = (PNone, PNone)"

definition transition_contract_version ::
    "hash \<Rightarrow> service \<Rightarrow> datetime \<Rightarrow> string \<Rightarrow> uuid \<Rightarrow> uuid \<Rightarrow> version_action \<Rightarrow> pyval cmd" where
  "transition_contract_version sha sv now key contract_id version_id action =
     run sha sv key (PDict [(''command'', PStr (action_name action)),
         (''contract'', PStr (uuid_str contract_id)), (''version'', PStr (uuid_str version_id)),
         (''digest'', fst (action_args action)), (''party_role'', snd (action_args action))])
       (bind (fetch ''resource_not_found'' (lock_contract (tenant_of sv) contract_id None)) (\<lambda>_.
        bind (fetch ''resource_not_found'' (repo_version (tenant_of sv) contract_id version_id)) (\<lambda>row.
        bind (case action of
            Propose \<Rightarrow> do_propose sha sv row
          | Accept digest role human \<Rightarrow> do_accept sv now contract_id row (Some digest) role human
          | Activate \<Rightarrow> do_activate sv contract_id row) (\<lambda>(target, digest).
        andthen (audit sv (''contract_version_'' @ action_name action @ ''ed'') ''performance_contract'' contract_id
            [(''new_state'', PStr (version_state_value target)), (''version'', PInt (vr_version row)),
             (''digest'', opt_text digest), (''idempotency_key'', PStr key)])
        (ret (PDict [(''id'', PStr (uuid_str version_id)), (''contract_id'', PStr (uuid_str contract_id)),
           (''version'', PInt (vr_version row)), (''state'', PStr (version_state_value target)),
           (''digest'', opt_text digest)]))))))"

section \<open>Contract lifecycle, authorities and bindings\<close>

definition action_target :: "string \<Rightarrow> exn + contract_state" where
  "action_target action =
     (if action = ''suspend'' then Inr ContractSuspended
      else if action = ''resume'' then Inr ContractActive
      else if action = ''terminate'' then Inr ContractTerminated
      else Inl (KeyError action))"

definition allowed_contract_moves :: "(contract_state \<times> contract_state) list" where
  "allowed_contract_moves = [(ContractActive, ContractSuspended), (ContractSuspended, ContractActive),
     (ContractDraft, ContractTerminated), (ContractActive, ContractTerminated),
     (ContractSuspended, ContractTerminated)]"

definition transition_contract ::
    "hash \<Rightarrow> service \<Rightarrow> string \<Rightarrow> uuid \<Rightarrow> string \<Rightarrow> int option \<Rightarrow> pyval cmd" where
  "transition_contract sha sv key contract_id action lock_version =
     run sha sv key (PDict [(''command'', PStr action), (''contract'', PStr (uuid_str contract_id)),
         (''lock_version'', opt_int lock_version)])
       (bind (fetch ''concurrency_conflict'' (lock_contract (tenant_of sv) contract_id lock_version)) (\<lambda>row.
        bind (py (action_target action)) (\<lambda>target.
        andthen (need ((pc_state row, target) \<in> set allowed_contract_moves) (CommandError ''invalid_lifecycle''))
        (andthen (sql (update_contracts (\<lambda>r. pc_tenant_id r = tenant_of sv \<and> pc_id r = contract_id)
            (\<lambda>r. r\<lparr>pc_state := target, pc_lock_version := pc_lock_version r + 1\<rparr>)))
        (andthen (audit sv (''contract_'' @ action @ ''ed'') ''performance_contract'' contract_id
            [(''previous_state'', PStr (contract_state_value (pc_state row))),
             (''new_state'', PStr (contract_state_value target)), (''idempotency_key'', PStr key)])
        (ret (PDict [(''id'', PStr (uuid_str contract_id)), (''state'', PStr (contract_state_value target)),
           (''lock_version'', PInt (pc_lock_version row + 1))])))))))"

definition provision_authority ::
    "hash \<Rightarrow> service \<Rightarrow> uuid \<Rightarrow> string \<Rightarrow> uuid \<Rightarrow> string \<Rightarrow> uuid \<Rightarrow> pyval cmd" where
  "provision_authority sha sv identifier key contract_id party_role principal_id =
     run sha sv key (PDict [(''command'', PStr ''provision_authority''),
         (''contract'', PStr (uuid_str contract_id)), (''role'', PStr party_role),
         (''principal'', PStr (uuid_str principal_id))])
       (bind (fetch ''resource_not_found'' (lock_contract (tenant_of sv) contract_id None)) (\<lambda>_.
        andthen (sql (insert_authority \<lparr>au_id = identifier, au_tenant_id = tenant_of sv,
            au_contract_id = contract_id, au_party_role = party_role, au_principal_id = principal_id\<rparr>))
        (andthen (audit sv ''contract_party_authority_granted'' ''performance_contract'' contract_id
            [(''result'', PStr ''granted''), (''idempotency_key'', PStr key)])
        (ret (PDict [(''id'', PStr (uuid_str identifier)), (''contract_id'', PStr (uuid_str contract_id)),
           (''party_role'', PStr party_role), (''principal_id'', PStr (uuid_str principal_id))])))))"

record binding_body =
  bb_source_type :: string
  bb_source_id :: string
  bb_effective_start :: datetime
  bb_effective_end :: "datetime option"

text \<open>
  \<open>**body\<close> twice: printed into the request digest with \<open>default=str\<close>, and put into the answer
  as it is, where a \<open>datetime\<close> has no JSON form.
\<close>

definition binding_fields :: "(datetime \<Rightarrow> pyval) \<Rightarrow> binding_body \<Rightarrow> (string \<times> pyval) list" where
  "binding_fields dt b =
     [(''source_type'', PStr (bb_source_type b)), (''source_id'', PStr (bb_source_id b)),
      (''effective_start'', dt (bb_effective_start b)),
      (''effective_end'', case bb_effective_end b of None \<Rightarrow> PNone | Some e \<Rightarrow> dt e)]"

definition create_binding :: "hash \<Rightarrow> service \<Rightarrow> uuid \<Rightarrow> string \<Rightarrow> uuid \<Rightarrow> binding_body \<Rightarrow> pyval cmd" where
  "create_binding sha sv identifier key contract_id body =
     run sha sv key (PDict ([(''command'', PStr ''create_binding''),
         (''contract'', PStr (uuid_str contract_id))] @ binding_fields (\<lambda>d. PStr (dt_str d)) body))
       (bind (fetch ''resource_not_found'' (lock_contract (tenant_of sv) contract_id None)) (\<lambda>_.
        andthen (sql (insert_binding \<lparr>sb_id = identifier, sb_tenant_id = tenant_of sv,
            sb_contract_id = contract_id, sb_source_type = bb_source_type body,
            sb_source_id = bb_source_id body, sb_effective_start = bb_effective_start body,
            sb_effective_end = bb_effective_end body, sb_created_by = user_of sv\<rparr>))
        (andthen (audit sv ''contract_source_binding_created'' ''performance_contract'' contract_id
            [(''idempotency_key'', PStr key)])
        (ret (PDict ([(''id'', PStr (uuid_str identifier)), (''contract_id'', PStr (uuid_str contract_id))] @
           binding_fields (\<lambda>d. PObject 0) body))))))"

end
