(* ===== verification/ContractApi.thy ===== *)
theory ContractApi
  imports ContractService
begin

text \<open>
  The HTTP interface of contract management, \<open>contracts/api.py\<close>: the request models with the
  checks pydantic makes, the commands and queries the routes run for an authenticated caller,
  one tenant transaction per request, and the translation of errors into statuses.  The
  caller's authentication is modelled in \<open>Auth\<close>; routing and serialisation are FastAPI's.
\<close>

section \<open>Requests\<close>

text \<open>The authenticated caller: the principal and whether it is a human (OIDC) or an API key.\<close>

record caller =
  ca_principal :: principal
  ca_human :: bool

text \<open>One constructor per route that changes state.\<close>

datatype contract_command =
    CreateContract
  | CreateVersion uuid contract_body
  | ProposeVersion uuid uuid
  | AcceptVersion uuid uuid string string
  | ActivateVersion uuid uuid
  | ContractAction uuid string "int option"
  | CreateRule string
  | CreateRuleVersion uuid string "(string \<times> pyval) list"
  | RuleAction uuid uuid string
  | CreateBinding uuid binding_body
  | GrantAuthority uuid string uuid

definition len_in :: "nat \<Rightarrow> nat \<Rightarrow> 'a list \<Rightarrow> bool" where
  "len_in lo hi s \<longleftrightarrow> lo \<le> length s \<and> length s \<le> hi"

definition valid_version_body :: "contract_body \<Rightarrow> bool" where
  "valid_version_body b \<longleftrightarrow> len_in 1 160 (cb_display_name b) \<and>
     (case cb_description b of None \<Rightarrow> True | Some s \<Rightarrow> length s \<le> 2000) \<and>
     len_in 1 20 (cb_required_party_roles b) \<and>
     length (cb_currency b) = 3 \<and> list_all is_upper (cb_currency b) \<and>
     cb_pricing_model b \<in> {''fixed_fee'', ''basis_points''} \<and>
     len_in 1 160 (cb_anchor_event_type b) \<and> 0 \<le> cb_attribution_window_seconds b \<and>
     0 \<le> cb_evaluation_window_seconds b \<and> 0 \<le> cb_finalization_window_seconds b"

definition valid_acceptance :: "string \<Rightarrow> string \<Rightarrow> bool" where
  "valid_acceptance digest party_role \<longleftrightarrow> length digest = 64 \<and> list_all is_hex digest \<and> len_in 1 64 party_role"

definition valid_binding :: "binding_body \<Rightarrow> bool" where
  "valid_binding b \<longleftrightarrow> len_in 1 64 (bb_source_type b) \<and> len_in 1 255 (bb_source_id b)"

fun valid_command :: "contract_command \<Rightarrow> bool" where
  "valid_command CreateContract = True"
| "valid_command (CreateVersion c b) = valid_version_body b"
| "valid_command (ProposeVersion c v) = True"
| "valid_command (AcceptVersion c v digest role) = valid_acceptance digest role"
| "valid_command (ActivateVersion c v) = True"
| "valid_command (ContractAction c action lock) = (action \<in> {''suspend'', ''resume'', ''terminate''})"
| "valid_command (CreateRule name) = len_in 1 160 name"
| "valid_command (CreateRuleVersion r template defn) = (template \<in> set rule_templates)"
| "valid_command (RuleAction r v action) = (action \<in> {''publish'', ''retire''})"
| "valid_command (CreateBinding c b) = valid_binding b"
| "valid_command (GrantAuthority c role p) = len_in 1 64 role"

section \<open>Executing a command\<close>

text \<open>The service a transaction runs on behalf of the caller.\<close>

definition service_for :: "caller \<Rightarrow> service" where
  "service_for ca = \<lparr>sv_actor = ca_principal ca,
     sv_actor_type = (if ca_human ca then ''human'' else ''api_key'')\<rparr>"

fun perform :: "hash \<Rightarrow> (string \<Rightarrow> zone_lookup) \<Rightarrow> caller \<Rightarrow> datetime \<Rightarrow> uuid \<Rightarrow> string \<Rightarrow> contract_command \<Rightarrow>
    pyval cmd" where
  "perform sha zone ca now i key CreateContract = create_contract sha (service_for ca) i key"
| "perform sha zone ca now i key (CreateVersion c b) =
     create_contract_version sha zone (service_for ca) i key c b"
| "perform sha zone ca now i key (ProposeVersion c v) =
     transition_contract_version sha (service_for ca) now key c v Propose"
| "perform sha zone ca now i key (AcceptVersion c v digest role) =
     transition_contract_version sha (service_for ca) now key c v (Accept digest role (ca_human ca))"
| "perform sha zone ca now i key (ActivateVersion c v) =
     transition_contract_version sha (service_for ca) now key c v Activate"
| "perform sha zone ca now i key (ContractAction c action lock) =
     transition_contract sha (service_for ca) key c action lock"
| "perform sha zone ca now i key (CreateRule name) = create_rule sha (service_for ca) i key name"
| "perform sha zone ca now i key (CreateRuleVersion r template defn) =
     create_rule_version sha (service_for ca) i key r template defn"
| "perform sha zone ca now i key (RuleAction r v action) =
     transition_rule sha (service_for ca) now key r v action"
| "perform sha zone ca now i key (CreateBinding c b) = create_binding sha (service_for ca) i key c b"
| "perform sha zone ca now i key (GrantAuthority c role p) =
     provision_authority sha (service_for ca) i key c role p"

datatype 'a response =
    Reply nat 'a
  | Refused nat string
  | ServerError service_error

definition error_status :: "string \<Rightarrow> nat" where
  "error_status errcode =
     (if errcode \<in> {''human_principal_required'', ''acceptance_not_authorized''} then 403
      else if errcode = ''resource_not_found'' then 404 else 409)"

fun success_status :: "contract_command \<Rightarrow> nat" where
  "success_status (ProposeVersion c v) = 200"
| "success_status (AcceptVersion c v digest role) = 200"
| "success_status (ActivateVersion c v) = 200"
| "success_status (ContractAction c action lock) = 200"
| "success_status (RuleAction r v action) = 200"
| "success_status _ = 201"

definition execute :: "nat \<Rightarrow> 'a cmd \<Rightarrow> cdb \<Rightarrow> 'a response \<times> cdb" where
  "execute status m db =
     (case transaction m db of
        (Inr r, db') \<Rightarrow> (Reply status r, db')
      | (Inl (CommandError c), db') \<Rightarrow> (Refused (error_status c) c, db')
      | (Inl e, db') \<Rightarrow> (ServerError e, db'))"

fun needs_human :: "contract_command \<Rightarrow> bool" where
  "needs_human (GrantAuthority c role p) = True"
| "needs_human _ = False"

definition post :: "hash \<Rightarrow> (string \<Rightarrow> zone_lookup) \<Rightarrow> caller \<Rightarrow> datetime \<Rightarrow> uuid \<Rightarrow> string \<Rightarrow>
    contract_command \<Rightarrow> cdb \<Rightarrow> pyval response \<times> cdb" where
  "post sha zone ca now i key c db =
     (if \<not> len_in 1 200 key \<or> \<not> valid_command c then (Refused 422 ''validation'', db)
      else if needs_human c \<and> \<not> ca_human ca then (Refused 403 ''human_principal_required'', db)
      else execute (success_status c) (perform sha zone ca now i key c) db)"

section \<open>Queries\<close>

datatype contract_query =
    ListContracts "uuid option" nat
  | GetContract uuid
  | GetVersion uuid uuid
  | ListRules "uuid option" nat
  | GetRule uuid
  | GetRuleVersion uuid uuid
  | ListBindings uuid

datatype query_rows =
    ContractRows "contract_row list"
  | VersionRows "version_row list"
  | RuleRows "rule_row list"
  | RuleVersionRows "rule_version_row list"
  | BindingRows "binding_row list"

definition found :: "('a list \<Rightarrow> query_rows) \<Rightarrow> 'a option \<Rightarrow> query_rows response" where
  "found f x = (case x of None \<Rightarrow> Refused 404 ''resource_not_found'' | Some r \<Rightarrow> Reply 200 (f [r]))"

fun get :: "uuid \<Rightarrow> cdb \<Rightarrow> contract_query \<Rightarrow> query_rows response" where
  "get t db (ListContracts after limit) =
     (if 1 \<le> limit \<and> limit \<le> 100
      then Reply 200 (ContractRows (repo_list pc_tenant_id pc_id t after limit (contracts db)))
      else Refused 422 ''validation'')"
| "get t db (GetContract i) = found ContractRows (repo_contract t i db)"
| "get t db (GetVersion c v) = found VersionRows (repo_version t c v db)"
| "get t db (ListRules after limit) =
     (if 1 \<le> limit \<and> limit \<le> 100
      then Reply 200 (RuleRows (repo_list or_tenant_id or_id t after limit (rules db)))
      else Refused 422 ''validation'')"
| "get t db (GetRule i) = found RuleRows (repo_rule t i db)"
| "get t db (GetRuleVersion r v) = found RuleVersionRows (repo_rule_version t r v db)"
| "get t db (ListBindings c) = Reply 200 (BindingRows (repo_bindings t c db))"

section \<open>Reachable databases\<close>

definition empty_cdb :: cdb where
  "empty_cdb = \<lparr>contracts = [], rules = [], rule_versions = [], versions = [], acceptances = [],
     authorities = [], bindings = [], commands = [], audit_events = [], outbox = []\<rparr>"

text \<open>Any sequence of requests by any callers, at any times, with any identifiers drawn.\<close>

inductive served :: "hash \<Rightarrow> (string \<Rightarrow> zone_lookup) \<Rightarrow> cdb \<Rightarrow> bool" for sha zone where
  start: "served sha zone empty_cdb"
| request: "served sha zone db \<Longrightarrow> served sha zone (snd (post sha zone ca now i key c db))"

inductive_cases servedE: "served sha zone db"

end
