(* ===== verification/ContractFacts.thy ===== *)
theory ContractFacts
  imports ContractApi
begin

text \<open>
  The correctness of contract management: idempotent replay through the command log's
  interface, tenant isolation, consent behind every active version, immutability of what was
  proposed, optimistic locking, the agreement of the service with the domain objects of
  \<open>contracts/domain.py\<close>, and the defects the model shows.
\<close>

section \<open>The command log\<close>

definition stored_form :: "pyval \<Rightarrow> pyval" where
  "stored_form r = (case jsonb (dumps True r) of Inl e \<Rightarrow> r | Inr v \<Rightarrow> v)"

lemma stored_form_plain: "wf_doc r \<Longrightarrow> float_free r \<Longrightarrow> jsonb_ok r \<Longrightarrow> stored_form r = normal r"
  by (simp add: stored_form_def jsonb_plain)

lemma remember_Inr:
  "remember t key d r db = Inr (u, db') \<longleftrightarrow>
     (json_ok True r \<and> (\<exists>v. jsonb (dumps True r) = Inr v) \<and> command_result t key db = None \<and>
      db' = db\<lparr>commands := commands db @
        [\<lparr>cr_tenant_id = t, cr_key = key, cr_digest = d, cr_response = stored_form r\<rparr>]\<rparr>)"
  by (auto simp: remember_def bind_Inr stored_json_def ebind_eq_Inr stored_form_def
      command_result_def find_None_iff split: if_splits sum.splits)

lemma command_result_append:
  "command_result t key (db\<lparr>commands := commands db @ [row]\<rparr>) =
     (case command_result t key db of Some p \<Rightarrow> Some p
      | None \<Rightarrow> if cr_tenant_id row = t \<and> cr_key row = key then Some (cr_digest row, cr_response row) else None)"
proof -
  have "find p (xs @ [x]) = (case find p xs of Some y \<Rightarrow> Some y | None \<Rightarrow> if p x then Some x else None)"
    for p and xs :: "command_row list" and x
    by (induction xs) auto
  then show ?thesis by (simp add: command_result_def split: option.split)
qed

interpretation log: command_log "command_result t" "remember t" stored_form for t
proof
  show "command_result t k db' = Some (d, stored_form r)" if "remember t k d r db = Inr (u, db')"
    for k d r db u db'
    using that by (auto simp: remember_Inr command_result_append)
  show "command_result t k' db' = command_result t k' db"
    if "remember t k d r db = Inr (u, db')" "k' \<noteq> k" for k k' d r db u db'
    using that by (auto simp: remember_Inr command_result_append split: option.split)
qed

section \<open>What the statements leave alone\<close>

lemma keeps_fetch [intro, simp]: "keeps f (fetch c g)"
  by (auto simp: fetch_def intro!: keeps_bind split: option.split)

lemma keeps_py [intro, simp]: "keeps f (py r)"
  unfolding py_def by (rule keeps_simple(5))

lemma keeps_sql: "(\<And>s s'. h s = Inr s' \<Longrightarrow> f s' = f s) \<Longrightarrow> keeps f (sql h)"
  by (simp add: sql_def keeps_change)

lemma keeps_audit:
  "(\<And>db a b. f (db\<lparr>audit_events := a, outbox := b\<rparr>) = f db) \<Longrightarrow> keeps f (audit sv e k i m)"
  by (auto simp: audit_def record_event_def Let_def intro!: keeps_change)

lemma keeps_run:
  "keeps f operation \<Longrightarrow> (\<And>t k d r. keeps f (remember t k d r)) \<Longrightarrow> keeps f (run sha sv key q operation)"
  by (auto simp: run_def intro: keeps_once)

lemmas insert_defs = insert_contract_def insert_rule_def insert_rule_version_def insert_version_def
  insert_acceptance_def insert_authority_def insert_binding_def update_contracts_def
  update_rule_versions_def update_versions_def

lemmas command_defs = create_contract_def create_rule_def create_rule_version_def transition_rule_def
  create_contract_version_def transition_contract_version_def transition_contract_def
  provision_authority_def create_binding_def

lemmas branch_defs = do_propose_def do_accept_def do_activate_def

text \<open>The operations \<open>run\<close> receives, one per command, and the rest of the command around them.\<close>

section \<open>Tenant isolation\<close>

definition others :: "uuid \<Rightarrow> cdb \<Rightarrow> cdb" where
  "others t db = \<lparr>contracts = filter (\<lambda>r. pc_tenant_id r \<noteq> t) (contracts db),
     rules = filter (\<lambda>r. or_tenant_id r \<noteq> t) (rules db),
     rule_versions = filter (\<lambda>r. rr_tenant_id r \<noteq> t) (rule_versions db),
     versions = filter (\<lambda>r. vr_tenant_id r \<noteq> t) (versions db),
     acceptances = filter (\<lambda>r. pa_tenant_id r \<noteq> t) (acceptances db),
     authorities = filter (\<lambda>r. au_tenant_id r \<noteq> t) (authorities db),
     bindings = filter (\<lambda>r. sb_tenant_id r \<noteq> t) (bindings db),
     commands = filter (\<lambda>r. cr_tenant_id r \<noteq> t) (commands db),
     audit_events = filter (\<lambda>r. tr_tenant_id r \<noteq> t) (audit_events db),
     outbox = filter (\<lambda>r. tr_tenant_id r \<noteq> t) (outbox db)\<rparr>"

lemma filter_update:
  "(\<And>r. p r \<Longrightarrow> \<not> q r) \<Longrightarrow> (\<And>r. q (f r) = q r) \<Longrightarrow>
     filter q (map (\<lambda>r. if p r then f r else r) rows) = filter q rows"
  by (induction rows) auto

lemma others_insert:
  "insert_contract r1 db = Inr db' \<Longrightarrow> pc_tenant_id r1 = t \<Longrightarrow> others t db' = others t db"
  "insert_rule r2 db = Inr db' \<Longrightarrow> or_tenant_id r2 = t \<Longrightarrow> others t db' = others t db"
  "insert_rule_version r3 db = Inr db' \<Longrightarrow> rr_tenant_id r3 = t \<Longrightarrow> others t db' = others t db"
  "insert_version r4 db = Inr db' \<Longrightarrow> vr_tenant_id r4 = t \<Longrightarrow> others t db' = others t db"
  "insert_acceptance r5 db = Inr db' \<Longrightarrow> pa_tenant_id r5 = t \<Longrightarrow> others t db' = others t db"
  "insert_authority r6 db = Inr db' \<Longrightarrow> au_tenant_id r6 = t \<Longrightarrow> others t db' = others t db"
  "insert_binding r7 db = Inr db' \<Longrightarrow> sb_tenant_id r7 = t \<Longrightarrow> others t db' = others t db"
  by (auto simp: insert_defs ebind_eq_Inr others_def)

lemma others_update:
  "update_contracts p1 f1 db = Inr db' \<Longrightarrow> (\<And>r. p1 r \<Longrightarrow> pc_tenant_id r = t) \<Longrightarrow>
     (\<And>r. pc_tenant_id (f1 r) = pc_tenant_id r) \<Longrightarrow> others t db' = others t db"
  "update_rule_versions p2 f2 db = Inr db' \<Longrightarrow> (\<And>r. p2 r \<Longrightarrow> rr_tenant_id r = t) \<Longrightarrow>
     (\<And>r. rr_tenant_id (f2 r) = rr_tenant_id r) \<Longrightarrow> others t db' = others t db"
  "update_versions p3 f3 db = Inr db' \<Longrightarrow> (\<And>r. p3 r \<Longrightarrow> vr_tenant_id r = t) \<Longrightarrow>
     (\<And>r. vr_tenant_id (f3 r) = vr_tenant_id r) \<Longrightarrow> others t db' = others t db"
  by (auto simp: update_contracts_def update_rule_versions_def update_versions_def ebind_eq_Inr
      update_rows_Inr others_def filter_update)

lemma others_record: "pr_tenant_id a = t \<Longrightarrow> keeps (others t) (record_event a y e k i m)"
  by (auto simp: record_event_def Let_def others_def intro!: keeps_change)

lemma others_remember: "keeps (others t) (remember t k d r)"
  by (auto simp: keeps_def remember_Inr others_def)

lemma others_run:
  "keeps (others (tenant_of sv)) operation \<Longrightarrow> keeps (others (tenant_of sv)) (run sha sv key q operation)"
  by (auto simp: run_def intro: keeps_once others_remember)

lemma keeps_case_unit [intro]: "keeps f (g (fst x) (snd x)) \<Longrightarrow> keeps f (case x of (a, b) \<Rightarrow> g a b)"
  by (cases x) simp

lemma others_perform: "keeps (others (pr_tenant_id (ca_principal ca))) (perform sha zone ca now i key c)"
proof -
  have t: "pr_tenant_id (ca_principal ca) = tenant_of (service_for ca)" by (simp add: service_for_def)
  note k = keeps_bind keeps_andthen keeps_if keeps_sql keeps_simple others_run keeps_fetch keeps_py
  show ?thesis unfolding t
    by (cases c) (auto simp: command_defs branch_defs audit_def Let_def
        intro!: k others_record intro: others_insert others_update split: version_action.split option.split prod.split)
qed

section \<open>Consent\<close>

definition version_ok :: "hash \<Rightarrow> acceptance_row list \<Rightarrow> version_row \<Rightarrow> bool" where
  "version_ok sha accs v \<longleftrightarrow>
     (vr_state v = VersionDraft \<longleftrightarrow> vr_digest v = None) \<and>
     (\<forall>d. vr_digest v = Some d \<longrightarrow> document_digest sha (vr_terms v) = Inr d) \<and>
     (vr_state v \<in> {VersionActive, VersionSuperseded} \<longrightarrow>
        set (cb_required_party_roles (vr_body v)) =
          {pa_party_role a | a. a \<in> set accs \<and> pa_tenant_id a = vr_tenant_id v \<and>
             pa_version_id a = vr_id v \<and> Some (pa_digest a) = vr_digest v})"

definition acceptance_ok :: "version_row list \<Rightarrow> authority_row list \<Rightarrow> acceptance_row \<Rightarrow> bool" where
  "acceptance_ok vs aus a \<longleftrightarrow> (\<exists>v \<in> set vs. vr_id v = pa_version_id a \<and> vr_tenant_id v = pa_tenant_id a \<and>
     vr_state v \<noteq> VersionDraft \<and> vr_digest v = Some (pa_digest a) \<and>
     (\<exists>u \<in> set aus. au_tenant_id u = pa_tenant_id a \<and> au_contract_id u = vr_contract_id v \<and>
        au_party_role u = pa_party_role a \<and> au_principal_id u = pa_principal_id a))"

definition consent_inv :: "hash \<Rightarrow> cdb \<Rightarrow> bool" where
  "consent_inv sha db \<longleftrightarrow> distinct (map vr_id (versions db)) \<and> one_active (versions db) \<and>
     (\<forall>v \<in> set (versions db). version_ok sha (acceptances db) v) \<and>
     (\<forall>a \<in> set (acceptances db). acceptance_ok (versions db) (authorities db) a)"

lemma consent_inv_cong:
  "versions db' = versions db \<Longrightarrow> acceptances db' = acceptances db \<Longrightarrow> authorities db' = authorities db \<Longrightarrow>
     consent_inv sha db' = consent_inv sha db"
  by (simp add: consent_inv_def)

lemma distinct_id_eq:
  "distinct (map vr_id vs) \<Longrightarrow> v \<in> set vs \<Longrightarrow> w \<in> set vs \<Longrightarrow> vr_id v = vr_id w \<Longrightarrow> v = w"
  by (auto simp: distinct_map inj_on_def)

lemma repo_version_Some:
  "repo_version t c i db = Some v \<Longrightarrow> v \<in> set (versions db) \<and> vr_tenant_id v = t \<and> vr_contract_id v = c \<and> vr_id v = i"
  by (auto simp: repo_version_def find_Some_iff)

lemma consent_insert_version:
  assumes "insert_version r db = Inr db'" "vr_state r = VersionDraft" "vr_digest r = None" "consent_inv sha db"
  shows "consent_inv sha db'"
proof -
  have db': "db' = db\<lparr>versions := versions db @ [r]\<rparr>" "\<forall>v \<in> set (versions db). vr_id r \<noteq> vr_id v"
      "one_active (versions db @ [r])"
    using assms(1) by (auto simp: insert_version_def ebind_eq_Inr)
  have "acceptance_ok (versions db @ [r]) aus a" if "acceptance_ok (versions db) aus a" for aus a
    using that by (auto simp: acceptance_ok_def)
  moreover have "version_ok sha accs r" for accs
    using assms(2,3) by (simp add: version_ok_def)
  moreover have "vr_id r \<notin> vr_id ` set (versions db)" using db'(2) by auto
  ultimately show ?thesis using db' assms(4) by (auto simp: consent_inv_def)
qed

lemma consent_insert_authority:
  assumes "insert_authority r db = Inr db'" "consent_inv sha db"
  shows "consent_inv sha db'"
proof -
  have db': "db' = db\<lparr>authorities := authorities db @ [r]\<rparr>"
    using assms(1) by (auto simp: insert_authority_def ebind_eq_Inr)
  have "acceptance_ok vs (authorities db @ [r]) a" if "acceptance_ok vs (authorities db) a" for vs a
    using that by (fastforce simp: acceptance_ok_def)
  then show ?thesis using db' assms(2) by (auto simp: consent_inv_def)
qed

text \<open>Changing one version in place: what each row must still satisfy.\<close>

lemma consent_update:
  assumes inv: "consent_inv sha db"
    and upd: "update_versions p f db = Inr db'"
    and keep: "\<And>v. vr_id (f v) = vr_id v \<and> vr_tenant_id (f v) = vr_tenant_id v \<and>
      vr_contract_id (f v) = vr_contract_id v"
    and ok: "\<And>v. v \<in> set (versions db) \<Longrightarrow> p v \<Longrightarrow> version_ok sha (acceptances db) v \<Longrightarrow>
      version_ok sha (acceptances db) (f v)"
    and dig: "\<And>v. v \<in> set (versions db) \<Longrightarrow> p v \<Longrightarrow> vr_state v \<noteq> VersionDraft \<Longrightarrow>
      vr_state (f v) \<noteq> VersionDraft \<and> vr_digest (f v) = vr_digest v"
  shows "consent_inv sha db'"
proof -
  define g where "g = (\<lambda>v. if p v then f v else v)"
  have db': "db' = db\<lparr>versions := map g (versions db)\<rparr>" "one_active (map g (versions db))"
    using upd by (auto simp: update_versions_def update_rows_Inr ebind_eq_Inr g_def)
  have "map vr_id (map g (versions db)) = map vr_id (versions db)"
    using keep by (simp add: g_def)
  then have "distinct (map vr_id (map g (versions db)))"
    using inv unfolding consent_inv_def by (simp only:)
  moreover have "acceptance_ok (map g (versions db)) aus a" if a: "acceptance_ok (versions db) aus a" for aus a
  proof -
    obtain v where v: "v \<in> set (versions db)" "vr_id v = pa_version_id a" "vr_tenant_id v = pa_tenant_id a"
        "vr_state v \<noteq> VersionDraft" "vr_digest v = Some (pa_digest a)"
        "\<exists>u \<in> set aus. au_tenant_id u = pa_tenant_id a \<and> au_contract_id u = vr_contract_id v \<and>
          au_party_role u = pa_party_role a \<and> au_principal_id u = pa_principal_id a"
      using a by (auto simp: acceptance_ok_def)
    then show ?thesis unfolding acceptance_ok_def
      by (intro bexI [of _ "g v"]) (use keep dig [of v] in \<open>auto simp: g_def\<close>)
  qed
  moreover have "version_ok sha (acceptances db) (g v)" if "v \<in> set (versions db)" for v
    using that ok inv by (auto simp: g_def consent_inv_def)
  ultimately show ?thesis using inv db' by (auto simp: consent_inv_def simp del: map_map)
qed

lemma consent_insert_acceptance:
  assumes inv: "consent_inv sha db" and ins: "insert_acceptance a db = Inr db'"
    and v: "v \<in> set (versions db)" "vr_id v = pa_version_id a" "vr_tenant_id v = pa_tenant_id a"
      "vr_state v = VersionProposed" "vr_digest v = Some (pa_digest a)"
    and u: "u \<in> set (authorities db)" "au_tenant_id u = pa_tenant_id a" "au_contract_id u = vr_contract_id v"
      "au_party_role u = pa_party_role a" "au_principal_id u = pa_principal_id a"
  shows "consent_inv sha db'"
proof -
  have db': "db' = db\<lparr>acceptances := acceptances db @ [a]\<rparr>"
    using ins by (auto simp: insert_acceptance_def ebind_eq_Inr)
  have "version_ok sha (acceptances db @ [a]) w" if w: "w \<in> set (versions db)" for w
  proof (cases "vr_id w = pa_version_id a")
    case True
    then have "w = v" using distinct_id_eq [of "versions db" w v] inv v(1,2) w by (simp add: consent_inv_def)
    moreover have "version_ok sha (acceptances db) v" using inv v(1) by (simp add: consent_inv_def)
    ultimately show ?thesis using v(4) by (auto simp: version_ok_def)
  next
    case False
    then have "{pa_party_role b |b. b \<in> set (acceptances db @ [a]) \<and> pa_tenant_id b = vr_tenant_id w \<and>
          pa_version_id b = vr_id w \<and> Some (pa_digest b) = vr_digest w} =
        {pa_party_role b |b. b \<in> set (acceptances db) \<and> pa_tenant_id b = vr_tenant_id w \<and>
          pa_version_id b = vr_id w \<and> Some (pa_digest b) = vr_digest w}" by auto
    then show ?thesis using inv w unfolding consent_inv_def version_ok_def by auto
  qed
  moreover have "acceptance_ok (versions db) (authorities db) a"
    using v u by (auto simp: acceptance_ok_def)
  ultimately show ?thesis using inv db' by (auto simp: consent_inv_def)
qed

lemma audit_consent [simp]: "preserves (consent_inv sha) (audit sv e k i m)"
  by (rule preservesI) (auto simp: audit_def record_event_def Let_def consent_inv_def)

lemma remember_consent: "preserves (consent_inv sha) (remember t k d r)"
  by (rule preservesI) (auto simp: remember_Inr consent_inv_def)

lemma preserves_run:
  assumes "preserves (consent_inv sha') operation"
  shows "preserves (consent_inv sha') (run sha sv key q operation)"
  unfolding run_def by (rule preserves_once [OF assms remember_consent])

lemma preserves_fetch [intro, simp]: "preserves I (fetch c g)"
  by (auto simp: fetch_def intro!: preserves_bind split: option.split)

lemma preserves_py [intro, simp]: "preserves I (py r)"
  unfolding py_def by (rule preserves_simple(5))

lemma consent_propose:
  assumes "do_propose sha sv row db = Inr (x, db')" "consent_inv sha db"
    and "row \<in> set (versions db)" "vr_tenant_id row = tenant_of sv"
  shows "consent_inv sha db'"
proof -
  from assms(1) obtain digest document where
      d: "vr_state row = VersionDraft" "document_digest sha (vr_terms row) = Inr digest"
    and u: "update_versions (\<lambda>r. vr_tenant_id r = tenant_of sv \<and> vr_id r = vr_id row)
      (\<lambda>r. r\<lparr>vr_state := VersionProposed, vr_document := Some document, vr_digest := Some digest\<rparr>) db = Inr db'"
    by (auto simp: do_propose_def tx_simps py_def sql_def)
  have row: "v = row" if "v \<in> set (versions db)" "vr_id v = vr_id row" for v
    using distinct_id_eq [of "versions db" v row] assms(2,3) that by (simp add: consent_inv_def)
  from assms(2) u show ?thesis
    by (rule consent_update) (auto dest!: row simp: d version_ok_def)
qed

lemma consent_accept:
  assumes "do_accept sv now c row (Some d) role human db = Inr (x, db')" "consent_inv sha db"
    and "row \<in> set (versions db)" "vr_tenant_id row = tenant_of sv" "vr_contract_id row = c"
  shows "consent_inv sha db'"
proof -
  from assms(1) obtain u where
      "vr_state row = VersionProposed" "Some d = vr_digest row"
    and u: "u \<in> set (authorities db)" "au_tenant_id u = tenant_of sv" "au_contract_id u = c"
      "au_party_role u = role" "au_principal_id u = user_of sv"
    and "insert_acceptance \<lparr>pa_tenant_id = tenant_of sv, pa_version_id = vr_id row, pa_digest = d,
      pa_party_role = role, pa_principal_id = user_of sv, pa_accepted_at = now\<rparr> db = Inr db'"
    by (auto simp: do_accept_def tx_simps sql_def list_ex_iff)
  with assms(2-5) show ?thesis
    by (elim consent_insert_acceptance [where v = row and u = u]) auto
qed

lemma update_versions_others:
  "update_versions p f db = Inr db' \<Longrightarrow> acceptances db' = acceptances db \<and> authorities db' = authorities db \<and>
     versions db' = map (\<lambda>v. if p v then f v else v) (versions db)"
  by (auto simp: update_versions_def update_rows_Inr ebind_eq_Inr)

lemma update_contracts_others:
  "update_contracts p f db = Inr db' \<Longrightarrow> consent_inv sha db' = consent_inv sha db"
  by (auto simp: update_contracts_def ebind_eq_Inr consent_inv_def)

lemma consent_activate:
  assumes "do_activate sv c row db = Inr (x, db')" "consent_inv sha db"
    and "row \<in> set (versions db)" "vr_tenant_id row = tenant_of sv"
  shows "consent_inv sha db'"
proof -
  from assms(1) obtain db1 db2 where
      r: "vr_state row = VersionProposed"
      "set (cb_required_party_roles (vr_body row)) = accepted_by (tenant_of sv) (vr_id row) (vr_digest row) db"
    and u1: "update_versions (\<lambda>r. vr_tenant_id r = tenant_of sv \<and> vr_contract_id r = c \<and>
         vr_state r = VersionActive) (\<lambda>r. r\<lparr>vr_state := VersionSuperseded\<rparr>) db = Inr db1"
    and u2: "update_versions (\<lambda>r. vr_tenant_id r = tenant_of sv \<and> vr_id r = vr_id row)
         (\<lambda>r. r\<lparr>vr_state := VersionActive\<rparr>) db1 = Inr db2"
    and u3: "update_contracts (\<lambda>r. pc_tenant_id r = tenant_of sv \<and> pc_id r = c)
         (\<lambda>r. r\<lparr>pc_state := ContractActive, pc_lock_version := pc_lock_version r + 1\<rparr>) db2 = Inr db'"
    by (auto simp: do_activate_def tx_simps sql_def)
  have i1: "consent_inv sha db1" using assms(2) u1
    by (rule consent_update) (auto simp: version_ok_def)
  have a1: "acceptances db1 = acceptances db" and row1: "row \<in> set (versions db1)"
    using update_versions_others [OF u1] assms(3) r(1) by (auto simp: image_iff intro!: bexI [of _ row])
  have row: "v = row" if "v \<in> set (versions db1)" "vr_id v = vr_id row" for v
    using distinct_id_eq [of "versions db1" v row] i1 row1 that by (simp add: consent_inv_def)
  have ok: "version_ok sha (acceptances db1) (row\<lparr>vr_state := VersionActive\<rparr>)"
    if "version_ok sha (acceptances db1) row"
    using that r assms(4) unfolding version_ok_def a1 accepted_by_def by auto
  from i1 u2 have "consent_inv sha db2"
    by (rule consent_update) (auto dest!: row intro: ok simp: r(1))
  then show ?thesis using update_contracts_others [OF u3] by simp
qed

lemma fetch_Inr [simp]: "fetch c f db = Inr (x, db') \<longleftrightarrow> f db = Some x \<and> db' = db"
  by (auto simp: fetch_def bind_Inr query_def ret_def raise_def split: option.splits)

lemma preserves_fetch_bind:
  assumes "\<And>row s x s'. f s = Some row \<Longrightarrow> I s \<Longrightarrow> g row s = Inr (x, s') \<Longrightarrow> I s'"
  shows "preserves I (bind (fetch c f) g)"
  using assms unfolding preserves_def bind_Inr fetch_Inr by blast

lemma preserves_sql: "(\<And>s s'. h s = Inr s' \<Longrightarrow> I s \<Longrightarrow> I s') \<Longrightarrow> preserves I (sql h)"
  unfolding sql_def preserves_def change_Inr by blast

lemma consent_other_statements:
  "insert_contract r1 db = Inr db' \<Longrightarrow> consent_inv sha db' = consent_inv sha db"
  "insert_rule r2 db = Inr db' \<Longrightarrow> consent_inv sha db' = consent_inv sha db"
  "insert_rule_version r3 db = Inr db' \<Longrightarrow> consent_inv sha db' = consent_inv sha db"
  "insert_binding r4 db = Inr db' \<Longrightarrow> consent_inv sha db' = consent_inv sha db"
  "update_rule_versions p f db = Inr db' \<Longrightarrow> consent_inv sha db' = consent_inv sha db"
  by (auto simp: insert_defs ebind_eq_Inr consent_inv_def)

lemma consent_branch:
  assumes "consent_inv sha db" "repo_version (tenant_of sv) c v db = Some row"
    and "(case action of
            Propose \<Rightarrow> do_propose sha sv row
          | Accept digest role human \<Rightarrow> do_accept sv now c row (Some digest) role human
          | Activate \<Rightarrow> do_activate sv c row) db = Inr (x, db')"
  shows "consent_inv sha db'"
  using assms repo_version_Some [OF assms(2)]
  by (cases action) (auto intro: consent_propose consent_accept consent_activate)

lemma preserves_bind_step:
  assumes "bind m g s = Inr (x, s')" "I s"
    and "\<And>p s1. m s = Inr (p, s1) \<Longrightarrow> I s1" "\<And>p. preserves I (g p)"
  shows "I s'"
  using assms unfolding bind_Inr preserves_def by blast

lemma consent_transition:
  "preserves (consent_inv sha) (transition_contract_version sha sv now key c v action)"
  unfolding transition_contract_version_def
  by (rule preserves_run, rule preserves_bind, rule preserves_fetch, rule preserves_fetch_bind,
      erule preserves_bind_step, assumption)
    (auto intro: consent_branch intro!: preserves_andthen split: prod.split)

lemma consent_perform: "preserves (consent_inv sha) (perform sha zone ca now i key c)"
proof -
  note k = preserves_run preserves_bind preserves_andthen preserves_sql preserves_simple
    preserves_fetch preserves_py
  show ?thesis
    by (cases c) (auto simp: create_contract_def create_rule_def create_rule_version_def transition_rule_def
        create_contract_version_def transition_contract_def provision_authority_def create_binding_def Let_def
        consent_transition consent_other_statements update_contracts_others
        intro!: k intro: consent_insert_version consent_insert_authority split: prod.split)
qed

lemma post_cases:
  "snd (post sha zone ca now i key c db) = db \<or>
   (\<exists>r. perform sha zone ca now i key c db = Inr (r, snd (post sha zone ca now i key c db)) \<and>
     fst (post sha zone ca now i key c db) = Reply (success_status c) r)"
  by (auto simp: post_def execute_def transaction_def split: sum.splits service_error.splits)

lemma served_consent: "served sha zone db \<Longrightarrow> consent_inv sha db"
proof (induction rule: served.induct)
  case start
  show ?case by (simp add: consent_inv_def empty_cdb_def one_active_def)
next
  case (request db ca now i key c)
  then show ?case
    using post_cases [of sha zone ca now i key c db] preservesD [OF consent_perform] by metis
qed

definition acceptances_of :: "cdb \<Rightarrow> version_row \<Rightarrow> string \<Rightarrow> acceptance_row set" where
  "acceptances_of db v d = {a \<in> set (acceptances db). pa_tenant_id a = vr_tenant_id v \<and>
     pa_version_id a = vr_id v \<and> pa_digest a = d}"

definition authorised :: "cdb \<Rightarrow> version_row \<Rightarrow> acceptance_row \<Rightarrow> bool" where
  "authorised db v a \<longleftrightarrow> (\<exists>u \<in> set (authorities db). au_tenant_id u = vr_tenant_id v \<and>
     au_contract_id u = vr_contract_id v \<and> au_party_role u = pa_party_role a \<and>
     au_principal_id u = pa_principal_id a)"

lemma acceptances_authorised:
  assumes "consent_inv sha db" "v \<in> set (versions db)" "a \<in> acceptances_of db v d"
  shows "authorised db v a"
proof -
  have "acceptance_ok (versions db) (authorities db) a" "pa_version_id a = vr_id v"
    using assms(1,3) by (simp_all add: consent_inv_def acceptances_of_def)
  then obtain w u where w: "w \<in> set (versions db)" "vr_id w = vr_id v" "vr_tenant_id w = pa_tenant_id a"
      "u \<in> set (authorities db)" "au_tenant_id u = pa_tenant_id a" "au_contract_id u = vr_contract_id w"
      "au_party_role u = pa_party_role a" "au_principal_id u = pa_principal_id a"
    by (auto simp: acceptance_ok_def)
  have "w = v" using distinct_id_eq [of "versions db" w v] assms(1,2) w by (simp add: consent_inv_def)
  with w show ?thesis unfolding authorised_def by (intro bexI [of _ u]) simp_all
qed

lemma accepted_roles_eq:
  "vr_digest v = Some d \<Longrightarrow> {pa_party_role a | a. a \<in> set (acceptances db) \<and> pa_tenant_id a = vr_tenant_id v \<and>
     pa_version_id a = vr_id v \<and> Some (pa_digest a) = vr_digest v} = pa_party_role ` acceptances_of db v d"
  by (auto simp: acceptances_of_def)

text \<open>
  C2. Nothing is in force without consent.  In every database the service can produce, a
  contract has at most one active version; its digest is the digest of its terms; the roles
  that accepted that digest are exactly the required party roles; and each acceptance came
  from a principal holding that role's authority for the contract.
\<close>

theorem active_version_consented:
  assumes "served sha zone db" "v \<in> set (versions db)" "vr_state v = VersionActive"
  shows "(\<forall>w \<in> set (versions db). vr_state w = VersionActive \<and> vr_tenant_id w = vr_tenant_id v \<and>
      vr_contract_id w = vr_contract_id v \<longrightarrow> w = v) \<and>
    (\<exists>d. vr_digest v = Some d \<and> document_digest sha (vr_terms v) = Inr d \<and>
      set (cb_required_party_roles (vr_body v)) = pa_party_role ` acceptances_of db v d \<and>
      (\<forall>a \<in> acceptances_of db v d. authorised db v a))"
proof -
  have inv: "consent_inv sha db" by (rule served_consent [OF assms(1)])
  have "w = v" if "w \<in> set (versions db)" "vr_state w = VersionActive"
      "vr_tenant_id w = vr_tenant_id v" "vr_contract_id w = vr_contract_id v" for w
    using inv that assms(2,3) by (auto simp: consent_inv_def one_active_def distinct_map inj_on_def)
  moreover have ok: "version_ok sha (acceptances db) v" using inv assms(2) by (simp add: consent_inv_def)
  then obtain d where d: "vr_digest v = Some d" "document_digest sha (vr_terms v) = Inr d"
    using assms(3) by (auto simp: version_ok_def)
  moreover have "set (cb_required_party_roles (vr_body v)) = pa_party_role ` acceptances_of db v d"
    using ok assms(3) unfolding version_ok_def accepted_roles_eq [OF d(1)] by simp
  ultimately show ?thesis using acceptances_authorised [OF inv assms(2)] by metis
qed

section \<open>Immutable history\<close>

text \<open>The state a row may later be in, everything else being as it was.\<close>

definition same_version :: "version_row \<Rightarrow> cdb \<Rightarrow> bool" where
  "same_version v db \<longleftrightarrow> (\<exists>w \<in> set (versions db). w\<lparr>vr_state := vr_state v\<rparr> = v \<and> vr_state w \<noteq> VersionDraft)"

definition same_rule_version :: "rule_version_row \<Rightarrow> cdb \<Rightarrow> bool" where
  "same_rule_version r db \<longleftrightarrow> (\<exists>w \<in> set (rule_versions db).
     w\<lparr>rr_state := rr_state r, rr_published_by := rr_published_by r, rr_published_at := rr_published_at r\<rparr> = r \<and>
     rr_state w \<in> {RulePublished, RuleRetired})"

definition history :: "version_row list \<Rightarrow> rule_version_row list \<Rightarrow> acceptance_row list \<Rightarrow> cdb \<Rightarrow> bool" where
  "history vs rs as db \<longleftrightarrow> (\<forall>v \<in> set vs. same_version v db) \<and> (\<forall>r \<in> set rs. same_rule_version r db) \<and>
     set as \<subseteq> set (acceptances db)"

lemma same_version_update:
  assumes "update_versions p f db = Inr db'" "same_version v db"
  shows "same_version v db'"
proof -
  obtain w where w: "w \<in> set (versions db)" "w\<lparr>vr_state := vr_state v\<rparr> = v" "vr_state w \<noteq> VersionDraft"
    using assms(2) by (auto simp: same_version_def)
  have db': "versions db' = map (\<lambda>v. if p v then f v else v) (versions db)"
      "p w \<Longrightarrow> version_trigger w (f w) = Inr ()"
    using assms(1) w(1) by (auto simp: update_versions_def update_rows_Inr ebind_eq_Inr)
  show ?thesis
  proof (cases "p w")
    case True
    then have t: "(f w)\<lparr>vr_state := vr_state w\<rparr> = w" "vr_state (f w) \<noteq> VersionDraft"
      using db'(2) w(3) by (auto simp: version_trigger_def version_moves_def ebind_eq_Inr)
    have "(f w)\<lparr>vr_state := vr_state v\<rparr> = ((f w)\<lparr>vr_state := vr_state w\<rparr>)\<lparr>vr_state := vr_state v\<rparr>" by simp
    also have "\<dots> = v" using t(1) w(2) by simp
    finally have "(f w)\<lparr>vr_state := vr_state v\<rparr> = v" .
    then show ?thesis using True w(1) t(2) db'(1) unfolding same_version_def
      by (intro bexI [of _ "f w"]) (auto simp: image_iff)
  next
    case False
    then show ?thesis using w db'(1) unfolding same_version_def
      by (intro bexI [of _ w]) (auto simp: image_iff)
  qed
qed

lemma same_rule_update:
  assumes "update_rule_versions p f db = Inr db'" "same_rule_version r db"
  shows "same_rule_version r db'"
proof -
  obtain w where w: "w \<in> set (rule_versions db)" "rr_state w \<in> {RulePublished, RuleRetired}"
      "w\<lparr>rr_state := rr_state r, rr_published_by := rr_published_by r, rr_published_at := rr_published_at r\<rparr> = r"
    using assms(2) by (auto simp: same_rule_version_def)
  have db': "rule_versions db' = map (\<lambda>v. if p v then f v else v) (rule_versions db)"
      "p w \<Longrightarrow> rule_version_trigger w (f w) = Inr ()"
    using assms(1) w(1) by (auto simp: update_rule_versions_def update_rows_Inr ebind_eq_Inr)
  show ?thesis
  proof (cases "p w")
    case True
    then have t: "(f w)\<lparr>rr_state := rr_state w, rr_published_by := rr_published_by w,
          rr_published_at := rr_published_at w\<rparr> = w" "rr_state (f w) \<in> {RulePublished, RuleRetired}"
      using db'(2) w(2) by (auto simp: rule_version_trigger_def ebind_eq_Inr)
    have "(f w)\<lparr>rr_state := rr_state r, rr_published_by := rr_published_by r, rr_published_at := rr_published_at r\<rparr> =
        ((f w)\<lparr>rr_state := rr_state w, rr_published_by := rr_published_by w, rr_published_at := rr_published_at w\<rparr>)
          \<lparr>rr_state := rr_state r, rr_published_by := rr_published_by r, rr_published_at := rr_published_at r\<rparr>"
      by simp
    also have "\<dots> = r" using t(1) w(3) by simp
    finally show ?thesis using True w(1) t(2) db'(1) unfolding same_rule_version_def
      by (intro bexI [of _ "f w"]) (auto simp: image_iff)
  next
    case False
    then show ?thesis using w db'(1) unfolding same_rule_version_def
      by (intro bexI [of _ w]) (auto simp: image_iff)
  qed
qed

lemma history_cong:
  "versions db' = versions db \<Longrightarrow> rule_versions db' = rule_versions db \<Longrightarrow> acceptances db' = acceptances db \<Longrightarrow>
     history vs rs as db' = history vs rs as db"
  by (simp add: history_def same_version_def same_rule_version_def)

lemma history_statements:
  "insert_contract r1 db = Inr db' \<Longrightarrow> history vs rs as db \<Longrightarrow> history vs rs as db'"
  "insert_rule r2 db = Inr db' \<Longrightarrow> history vs rs as db \<Longrightarrow> history vs rs as db'"
  "insert_rule_version r3 db = Inr db' \<Longrightarrow> history vs rs as db \<Longrightarrow> history vs rs as db'"
  "insert_version r4 db = Inr db' \<Longrightarrow> history vs rs as db \<Longrightarrow> history vs rs as db'"
  "insert_acceptance r5 db = Inr db' \<Longrightarrow> history vs rs as db \<Longrightarrow> history vs rs as db'"
  "insert_authority r6 db = Inr db' \<Longrightarrow> history vs rs as db \<Longrightarrow> history vs rs as db'"
  "insert_binding r7 db = Inr db' \<Longrightarrow> history vs rs as db \<Longrightarrow> history vs rs as db'"
  "update_contracts p1 f1 db = Inr db' \<Longrightarrow> history vs rs as db \<Longrightarrow> history vs rs as db'"
  by (auto simp: insert_defs ebind_eq_Inr history_def same_version_def same_rule_version_def)

lemma update_versions_frame:
  "update_versions p f db = Inr db' \<Longrightarrow> rule_versions db' = rule_versions db"
  by (auto simp: update_versions_def ebind_eq_Inr)

lemma update_rule_versions_frame:
  "update_rule_versions p f db = Inr db' \<Longrightarrow> versions db' = versions db \<and> acceptances db' = acceptances db"
  by (auto simp: update_rule_versions_def ebind_eq_Inr)

lemma history_updates:
  "update_versions p2 f2 db = Inr db' \<Longrightarrow> history vs rs as db \<Longrightarrow> history vs rs as db'"
  "update_rule_versions p3 f3 db = Inr db' \<Longrightarrow> history vs rs as db \<Longrightarrow> history vs rs as db'"
  unfolding history_def
  using same_version_update [of p2 f2 db db'] same_rule_update [of p3 f3 db db']
    update_versions_others [of p2 f2 db db'] update_rule_versions_frame [of p3 f3 db db']
    update_versions_frame [of p2 f2 db db']
  by (simp_all add: same_rule_version_def same_version_def)

lemma history_audit: "preserves (history vs rs as) (audit sv e k i m)"
  by (rule preservesI) (auto simp: audit_def record_event_def Let_def history_def same_version_def same_rule_version_def)

lemma history_remember: "preserves (history vs rs as) (remember t k d r)"
  by (rule preservesI) (auto simp: remember_Inr history_def same_version_def same_rule_version_def)

lemma history_run:
  "preserves (history vs rs as) operation \<Longrightarrow> preserves (history vs rs as) (run sha sv key q operation)"
  unfolding run_def by (rule preserves_once [OF _ history_remember])

lemma preserves_if [intro]: "preserves I m \<Longrightarrow> preserves I n \<Longrightarrow> preserves I (if b then m else n)"
  by simp

lemma history_accept: "preserves (history vs rs as) (do_accept sv now c row (Some d) role human)"
  by (auto simp: do_accept_def intro!: preserves_bind preserves_andthen preserves_sql intro: history_statements)

lemma history_perform: "preserves (history vs rs as) (perform sha zone ca now i key c)"
proof -
  note k = history_run preserves_bind preserves_andthen preserves_if preserves_sql preserves_simple
    preserves_fetch preserves_py history_audit history_accept
  show ?thesis
    by (cases c) (auto simp: command_defs do_propose_def do_activate_def Let_def intro!: k
        intro: history_statements history_updates split: version_action.split prod.split)
qed

lemma history_refl:
  assumes "set vs \<subseteq> {v \<in> set (versions db). vr_state v \<noteq> VersionDraft}"
    and "set rs \<subseteq> {r \<in> set (rule_versions db). rr_state r \<noteq> RuleDraft}" "set as \<subseteq> set (acceptances db)"
  shows "history vs rs as db"
proof -
  have "same_version v db" if "v \<in> set (versions db)" "vr_state v \<noteq> VersionDraft" for v
    unfolding same_version_def by (intro bexI [of _ v]) (use that in auto)
  moreover have "same_rule_version r db" if "r \<in> set (rule_versions db)" "rr_state r \<noteq> RuleDraft" for r
  proof -
    have "rr_state r \<in> {RulePublished, RuleRetired}" using that(2) by (cases "rr_state r") auto
    then show ?thesis unfolding same_rule_version_def by (intro bexI [of _ r]) (use that in auto)
  qed
  ultimately show ?thesis using assms by (auto simp: history_def)
qed

section \<open>Sequences of requests\<close>

text \<open>The databases that requests lead to from a given one.\<close>

inductive later :: "hash \<Rightarrow> (string \<Rightarrow> zone_lookup) \<Rightarrow> cdb \<Rightarrow> cdb \<Rightarrow> bool" for sha zone db where
  now: "later sha zone db db"
| next_request: "later sha zone db db' \<Longrightarrow> later sha zone db (snd (post sha zone ca now i key c db'))"

lemma served_later: "later sha zone db db' \<Longrightarrow> served sha zone db \<Longrightarrow> served sha zone db'"
  by (induction rule: later.induct) (auto intro: served.request)

lemma preserves_post:
  "preserves I (perform sha zone ca now i key c) \<Longrightarrow> I db \<Longrightarrow> I (snd (post sha zone ca now i key c db))"
  using post_cases [of sha zone ca now i key c db] by (metis preservesD)

lemma preserves_later:
  assumes "\<And>ca now i key c. preserves I (perform sha zone ca now i key c)"
  shows "later sha zone db db' \<Longrightarrow> I db \<Longrightarrow> I db'"
  by (induction rule: later.induct) (auto intro: preserves_post assms)

lemma history_later: "later sha zone db db' \<Longrightarrow> history vs rs as db \<Longrightarrow> history vs rs as db'"
  by (rule preserves_later) (rule history_perform)

text \<open>
  C8. Commercial history is immutable.  Whatever requests follow, a contract version that has
  left the draft state keeps every column but its state, a published or retired rule version
  keeps its definition, document and digest, and no acceptance disappears.
\<close>

theorem history_immutable:
  assumes "later sha zone db db'"
  shows "(\<forall>v \<in> set (versions db). vr_state v \<noteq> VersionDraft \<longrightarrow>
      (\<exists>w \<in> set (versions db'). w\<lparr>vr_state := vr_state v\<rparr> = v \<and> vr_state w \<noteq> VersionDraft)) \<and>
    (\<forall>r \<in> set (rule_versions db). rr_state r \<noteq> RuleDraft \<longrightarrow>
      (\<exists>w \<in> set (rule_versions db'). w\<lparr>rr_state := rr_state r, rr_published_by := rr_published_by r,
        rr_published_at := rr_published_at r\<rparr> = r \<and> rr_state w \<noteq> RuleDraft)) \<and>
    set (acceptances db) \<subseteq> set (acceptances db')"
proof -
  have "history (filter (\<lambda>v. vr_state v \<noteq> VersionDraft) (versions db))
      (filter (\<lambda>r. rr_state r \<noteq> RuleDraft) (rule_versions db)) (acceptances db) db"
    by (rule history_refl) auto
  from history_later [OF assms this] show ?thesis
    by (force simp: history_def same_version_def same_rule_version_def)
qed

section \<open>Idempotent replay\<close>

text \<open>
  Every command is a validation that reads nothing, then one \<open>run\<close> whose request and key do
  not depend on the clock or the identifier drawn, over an operation that leaves the log alone.
\<close>

definition runs_as :: "hash \<Rightarrow> service \<Rightarrow> string \<Rightarrow> service_error + unit \<Rightarrow> pyval \<Rightarrow> pyval cmd \<Rightarrow> pyval cmd \<Rightarrow> bool" where
  "runs_as sha sv key pre req operation m \<longleftrightarrow>
     m = (case pre of Inl e \<Rightarrow> raise e | Inr u \<Rightarrow> run sha sv key req operation) \<and> keeps commands operation"

lemma bind_lift: "bind (lift g r) f = (case r of Inl e \<Rightarrow> raise (g e) | Inr x \<Rightarrow> f x)"
  by (auto simp: fun_eq_iff bind_def lift_def raise_def split: sum.split)

lemma keeps_commands_statements:
  "insert_contract r1 db = Inr db' \<Longrightarrow> commands db' = commands db"
  "insert_rule r2 db = Inr db' \<Longrightarrow> commands db' = commands db"
  "insert_rule_version r3 db = Inr db' \<Longrightarrow> commands db' = commands db"
  "insert_version r4 db = Inr db' \<Longrightarrow> commands db' = commands db"
  "insert_acceptance r5 db = Inr db' \<Longrightarrow> commands db' = commands db"
  "insert_authority r6 db = Inr db' \<Longrightarrow> commands db' = commands db"
  "insert_binding r7 db = Inr db' \<Longrightarrow> commands db' = commands db"
  "update_contracts p1 f1 db = Inr db' \<Longrightarrow> commands db' = commands db"
  "update_versions p2 f2 db = Inr db' \<Longrightarrow> commands db' = commands db"
  "update_rule_versions p3 f3 db = Inr db' \<Longrightarrow> commands db' = commands db"
  by (auto simp: insert_defs ebind_eq_Inr)

lemma keeps_commands_audit: "keeps commands (audit sv e k i m)"
  by (rule keeps_audit) simp

lemmas keeps_commands = keeps_bind keeps_andthen keeps_if keeps_simple keeps_fetch keeps_py
  keeps_sql [of _ commands] keeps_commands_audit

lemma runs_as_intro:
  "keeps commands operation \<Longrightarrow> runs_as sha sv key (Inr ()) req operation (run sha sv key req operation)"
  by (simp add: runs_as_def)

lemma runs_as_raise: "runs_as sha sv key (Inl e) req (ret PNone) (raise e)"
  by (simp add: runs_as_def)

lemma keeps_commands_branches:
  "keeps commands (do_propose sha sv row)" "keeps commands (do_activate sv c row)"
  "keeps commands (do_accept sv now c row (Some d) role human)"
  by (auto simp: branch_defs intro!: keeps_commands intro: keeps_commands_statements)

lemma perform_runs:
  "\<exists>pre req. \<forall>now i. \<exists>operation. runs_as sha (service_for ca) key pre req operation (perform sha zone ca now i key c)"
proof (cases c)
  case (CreateVersion cid b)
  show ?thesis
  proof (cases "validate_body zone b")
    case (Inl e)
    then show ?thesis unfolding CreateVersion perform.simps create_contract_version_def bind_lift
      by (auto intro!: runs_as_raise exI)
  next
    case (Inr b')
    show ?thesis unfolding CreateVersion perform.simps create_contract_version_def bind_lift Inr sum.case
      by (intro exI allI, rule runs_as_intro)
        (auto intro!: keeps_commands intro: keeps_commands_statements split: sum.split)
  qed
next
  case (CreateRuleVersion r t d)
  show ?thesis
  proof (cases "mk_rule_version ''validation'' 1 t d")
    case (Inl e)
    then show ?thesis unfolding CreateRuleVersion perform.simps create_rule_version_def bind_lift
      by (auto intro!: runs_as_raise exI)
  next
    case (Inr v)
    show ?thesis unfolding CreateRuleVersion perform.simps create_rule_version_def bind_lift Inr sum.case
      by (intro exI allI, rule runs_as_intro)
        (auto intro!: keeps_commands intro: keeps_commands_statements split: sum.split)
  qed
qed (simp only: perform.simps command_defs, intro exI allI, rule runs_as_intro,
    auto simp: Let_def intro!: keeps_commands keeps_commands_branches intro: keeps_commands_statements
      split: version_action.split prod.split)+

lemma command_result_cong: "commands db' = commands db \<Longrightarrow> command_result t k db' = command_result t k db"
  by (simp add: command_result_def)

lemma run_replay:
  assumes "runs_as sha sv key pre req operation m" "m db = Inr (r, db1)"
    and "runs_as sha sv key pre req operation' m'"
    and "command_result (tenant_of sv) key db2 = command_result (tenant_of sv) key db1"
  shows "\<exists>r'. m' db2 = Inr (r', db2) \<and> (r' = r \<or> r' = stored_form r)"
proof -
  obtain u where p: "pre = Inr u" using assms(1,2) by (cases pre) (auto simp: runs_as_def)
  with assms(1-3) have "run sha sv key req operation db = Inr (r, db1)" "m' = run sha sv key req operation'"
    by (simp_all add: runs_as_def)
  then show ?thesis unfolding run_def
    using log.once_replay [OF _ assms(4)] by simp
qed

lemma run_keeps_answer:
  assumes "runs_as sha sv key pre req operation m" "m db = Inr (r, db1)"
    and "command_result (tenant_of sv) k db = Some p"
  shows "command_result (tenant_of sv) k db1 = Some p"
proof -
  obtain u where p: "pre = Inr u" using assms(1,2) by (cases pre) (auto simp: runs_as_def)
  with assms(1,2) have "run sha sv key req operation db = Inr (r, db1)" by (simp add: runs_as_def)
  moreover have "log.keeps_log (tenant_of sv) operation"
    using assms(1) command_result_cong unfolding log.keeps_log_def runs_as_def keeps_def by blast
  ultimately show ?thesis unfolding run_def by (rule log.once_keeps_answers [OF _ assms(3), rotated])
qed

lemma find_filter: "(\<And>x. q x \<Longrightarrow> p x) \<Longrightarrow> find q xs = find q (filter p xs)"
  by (induction xs) auto

lemma command_result_others:
  assumes "others t' db' = others t' db" "t \<noteq> t'"
  shows "command_result t k db' = command_result t k db"
proof -
  have "filter (\<lambda>r. cr_tenant_id r \<noteq> t') (commands db') = filter (\<lambda>r. cr_tenant_id r \<noteq> t') (commands db)"
    using assms(1) by (simp add: others_def)
  moreover have e: "find (\<lambda>r. cr_tenant_id r = t \<and> cr_key r = k) xs =
      find (\<lambda>r. cr_tenant_id r = t \<and> cr_key r = k) (filter (\<lambda>r. cr_tenant_id r \<noteq> t') xs)" for xs
    by (rule find_filter) (use assms(2) in auto)
  ultimately show ?thesis unfolding command_result_def
    by (simp only: e [of "commands db'"] e [of "commands db"])
qed

lemma perform_keeps_answer:
  assumes "perform sha zone ca now i key c db = Inr (r, db1)" "command_result t k db = Some p"
  shows "command_result t k db1 = Some p"
proof (cases "t = tenant_of (service_for ca)")
  case True
  obtain pre req operation where
      "runs_as sha (service_for ca) key pre req operation (perform sha zone ca now i key c)"
    using perform_runs [of sha ca key zone c] by blast
  from run_keeps_answer [OF this assms(1)] assms(2) True show ?thesis by blast
next
  case False
  then have "t \<noteq> pr_tenant_id (ca_principal ca)" by (simp add: service_for_def)
  from command_result_others [OF keepsD [OF others_perform assms(1)] this] show ?thesis
    using assms(2) by simp
qed

lemma later_keeps_answer:
  "later sha zone db db' \<Longrightarrow> command_result t k db = Some p \<Longrightarrow> command_result t k db' = Some p"
  by (rule preserves_later) (auto simp: preserves_def intro: perform_keeps_answer)

text \<open>
  C17. Commands are idempotent.  Once a request has been answered, sending it again with the
  same idempotency key, after any other requests of any tenants, at any time and whatever
  identifiers would be drawn, changes nothing and gives the first answer back, in the form
  the \<open>jsonb\<close> column stores.
\<close>

theorem command_replay:
  assumes "post sha zone ca now i key c db = (Reply st r, db1)" "later sha zone db1 db2"
  shows "\<exists>r'. post sha zone ca now' i' key c db2 = (Reply st r', db2) \<and> (r' = r \<or> r' = stored_form r)"
proof -
  have ok: "len_in 1 200 key" "valid_command c" "\<not> (needs_human c \<and> \<not> ca_human ca)"
    and st: "st = success_status c" and m: "perform sha zone ca now i key c db = Inr (r, db1)"
    using assms(1) by (auto simp: post_def execute_def transaction_def
        split: if_splits sum.splits service_error.splits)
  obtain pre req o1 o2 where r: "runs_as sha (service_for ca) key pre req o1 (perform sha zone ca now i key c)"
      "runs_as sha (service_for ca) key pre req o2 (perform sha zone ca now' i' key c)"
    using perform_runs [of sha ca key zone c] by blast
  obtain u where "pre = Inr u" using r(1) m by (cases pre) (auto simp: runs_as_def)
  then have "run sha (service_for ca) key req o1 db = Inr (r, db1)" using r(1) m by (simp add: runs_as_def)
  then obtain p where "command_result (tenant_of (service_for ca)) key db1 = Some p"
    using log.once_recalls unfolding run_def by blast
  then have "command_result (tenant_of (service_for ca)) key db2 =
      command_result (tenant_of (service_for ca)) key db1"
    using later_keeps_answer [OF assms(2)] by simp
  from run_replay [OF r(1) m r(2) this] show ?thesis
    using ok st by (auto simp: post_def execute_def transaction_def)
qed

text \<open>
  C18. Tenants are isolated.  Whatever a caller posts, with whatever answer, every row of every
  other tenant in every table is as it was.
\<close>

theorem tenant_isolation:
  "others (pr_tenant_id (ca_principal ca)) (snd (post sha zone ca now i key c db)) =
     others (pr_tenant_id (ca_principal ca)) db"
  using post_cases [of sha zone ca now i key c db] keepsD [OF others_perform] by metis

section \<open>Optimistic locking\<close>

definition contract_ids :: "cdb \<Rightarrow> bool" where
  "contract_ids db \<longleftrightarrow> distinct (map pc_id (contracts db))"

lemma contract_ids_statements:
  "insert_contract r1 db = Inr db' \<Longrightarrow> contract_ids db \<Longrightarrow> contract_ids db'"
  "insert_rule r2 db = Inr db' \<Longrightarrow> contract_ids db \<Longrightarrow> contract_ids db'"
  "insert_rule_version r3 db = Inr db' \<Longrightarrow> contract_ids db \<Longrightarrow> contract_ids db'"
  "insert_version r4 db = Inr db' \<Longrightarrow> contract_ids db \<Longrightarrow> contract_ids db'"
  "insert_acceptance r5 db = Inr db' \<Longrightarrow> contract_ids db \<Longrightarrow> contract_ids db'"
  "insert_authority r6 db = Inr db' \<Longrightarrow> contract_ids db \<Longrightarrow> contract_ids db'"
  "insert_binding r7 db = Inr db' \<Longrightarrow> contract_ids db \<Longrightarrow> contract_ids db'"
  "update_versions p2 f2 db = Inr db' \<Longrightarrow> contract_ids db \<Longrightarrow> contract_ids db'"
  "update_rule_versions p3 f3 db = Inr db' \<Longrightarrow> contract_ids db \<Longrightarrow> contract_ids db'"
  by (auto simp: insert_defs ebind_eq_Inr contract_ids_def)

lemma contract_ids_update:
  assumes "update_contracts p f db = Inr db'" "contract_ids db" "\<And>r. pc_id (f r) = pc_id r"
  shows "contract_ids db'"
proof -
  have "contracts db' = map (\<lambda>r. if p r then f r else r) (contracts db)"
    using assms(1) by (auto simp: update_contracts_def update_rows_Inr ebind_eq_Inr)
  moreover have "map pc_id (map (\<lambda>r. if p r then f r else r) rows) = map pc_id rows" for rows
    using assms(3) by (induction rows) auto
  ultimately show ?thesis using assms(2) unfolding contract_ids_def by (simp only:)
qed

lemma contract_ids_audit: "preserves contract_ids (audit sv e k i m)"
  by (rule preservesI) (auto simp: audit_def record_event_def Let_def contract_ids_def)

lemma contract_ids_run:
  "preserves contract_ids operation \<Longrightarrow> preserves contract_ids (run sha sv key q operation)"
  unfolding run_def
  by (rule preserves_once, assumption, rule preservesI) (auto simp: remember_Inr contract_ids_def)

lemma contract_ids_perform: "preserves contract_ids (perform sha zone ca now i key c)"
proof -
  note k = contract_ids_run preserves_bind preserves_andthen preserves_if preserves_sql preserves_simple
    preserves_fetch preserves_py contract_ids_audit
  show ?thesis
    by (cases c) (auto simp: command_defs branch_defs Let_def intro!: k
        intro: contract_ids_statements contract_ids_update split: version_action.split prod.split)
qed

lemma served_contract_ids: "served sha zone db \<Longrightarrow> contract_ids db"
proof (induction rule: served.induct)
  case start
  show ?case by (simp add: contract_ids_def empty_cdb_def)
qed (auto intro: preserves_post contract_ids_perform)

lemma lock_contract_unique:
  assumes "contract_ids db" "r \<in> set (contracts db)"
  shows "lock_contract (pc_tenant_id r) (pc_id r) lock db =
    (if lock = None \<or> lock = Some (pc_lock_version r) then Some r else None)"
proof -
  have u: "x = r" if "x \<in> set (contracts db)" "pc_id x = pc_id r" for x
    using assms that by (auto simp: contract_ids_def distinct_map inj_on_def)
  show ?thesis
  proof (cases "lock_contract (pc_tenant_id r) (pc_id r) lock db")
    case None
    then show ?thesis using assms(2) by (auto simp: lock_contract_def find_None_iff split: option.splits)
  next
    case (Some x)
    then have "x \<in> set (contracts db)" "pc_id x = pc_id r" "lock = None \<or> lock = Some (pc_lock_version x)"
      by (cases lock; auto simp: lock_contract_def find_Some_iff)+
    then show ?thesis using u Some by auto
  qed
qed

lemma update_one_contract:
  assumes "contract_ids db" "r \<in> set (contracts db)" "contract_trigger r (f r) = Inr ()"
    and "int4 (pc_lock_version (f r))"
  shows "update_contracts (\<lambda>x. pc_tenant_id x = pc_tenant_id r \<and> pc_id x = pc_id r) f db =
    Inr (db\<lparr>contracts := map (\<lambda>x. if x = r then f x else x) (contracts db)\<rparr>)"
proof -
  have u: "(pc_tenant_id x = pc_tenant_id r \<and> pc_id x = pc_id r) = (x = r)" if "x \<in> set (contracts db)" for x
    using assms(1,2) that by (auto simp: contract_ids_def distinct_map inj_on_def)
  have "update_rows (\<lambda>x. pc_tenant_id x = pc_tenant_id r \<and> pc_id x = pc_id r) f
      (\<lambda>old new. ebind (contract_trigger old new) (\<lambda>_. require (int4 (pc_lock_version new)) OutOfRange))
      (contracts db) = Inr (map (\<lambda>x. if x = r then f x else x) (contracts db))"
    unfolding update_rows_Inr using u assms(3,4) by (auto simp: ebind_eq_Inr)
  then show ?thesis by (simp add: update_contracts_def)
qed

lemma allowed_moves_trigger:
  "(s, s') \<in> set allowed_contract_moves \<Longrightarrow> (s, s') \<in> set contract_moves"
  by (auto simp: allowed_contract_moves_def contract_moves_def)

lemma audit_runs: "\<exists>a b. audit sv e k i m db = Inr ((), db\<lparr>audit_events := a, outbox := b\<rparr>)"
  by (auto simp: audit_def record_event_def Let_def change_def)

lemma remember_runs:
  assumes "wf_doc r" "float_free r" "jsonb_ok r" "json_ok True r" "command_result t key db = None"
  shows "remember t key d r db = Inr ((), db\<lparr>commands := commands db @
    [\<lparr>cr_tenant_id = t, cr_key = key, cr_digest = d, cr_response = normal r\<rparr>]\<rparr>)"
  using assms by (simp add: remember_Inr stored_form_plain jsonb_plain)

lemma no_nul_contract_state: "no_nul (contract_state_value st)"
  by (cases st) simp_all

lemma run_fresh:
  assumes "command_result (tenant_of sv) key db = None"
  shows "run sha sv key q operation db =
    bind operation (\<lambda>r. andthen (remember (tenant_of sv) key (request_digest sha q) r) (ret r)) db"
  using assms by (simp add: run_def once_def tx_eval)

text \<open>
  C37. Suspending, resuming and terminating are guarded by the lock version and the lifecycle.
  A fresh command naming a lock version is refused as a conflict unless it is the current one,
  refused as an invalid move unless the lifecycle allows it, and otherwise moves exactly this
  contract and raises its lock version by one.
\<close>

theorem contract_action_locked:
  assumes "served sha zone db" "r \<in> set (contracts db)" "pc_tenant_id r = pr_tenant_id (ca_principal ca)"
    and "len_in 1 200 key" "command_result (pc_tenant_id r) key db = None"
    and "action_target action = Inr target" "int4 (pc_lock_version r + 1)"
  shows "\<exists>db'. post sha zone ca now i key (ContractAction (pc_id r) action (Some l)) db =
    (if l \<noteq> pc_lock_version r then (Refused 409 ''concurrency_conflict'', db)
     else if (pc_state r, target) \<notin> set allowed_contract_moves then (Refused 409 ''invalid_lifecycle'', db)
     else (Reply 200 (PDict [(''id'', PStr (uuid_str (pc_id r))), (''state'', PStr (contract_state_value target)),
           (''lock_version'', PInt (pc_lock_version r + 1))]), db')) \<and>
    contracts db' = map (\<lambda>x. if x = r then x\<lparr>pc_state := target, pc_lock_version := l + 1\<rparr> else x) (contracts db)"
proof -
  have v: "valid_command (ContractAction (pc_id r) action (Some l))"
    using assms(6) by (auto simp: action_target_def split: if_splits)
  have t: "tenant_of (service_for ca) = pc_tenant_id r" using assms(3) by (simp add: service_for_def)
  note ids = served_contract_ids [OF assms(1)]
  note lock = lock_contract_unique [OF ids assms(2), of "Some l"]
  let ?f = "\<lambda>x. x\<lparr>pc_state := target, pc_lock_version := pc_lock_version x + 1\<rparr>"
  let ?db = "db\<lparr>contracts := map (\<lambda>x. if x = r then ?f x else x) (contracts db)\<rparr>"
  note post_eq = post_def execute_def transaction_def transition_contract_def error_status_def
    run_fresh [OF assms(5) [folded t]]
  show ?thesis
  proof (cases "l = pc_lock_version r \<and> (pc_state r, target) \<in> set allowed_contract_moves")
    case False
    then show ?thesis using v assms(4,6)
      by (intro exI [of _ "db\<lparr>contracts := map (\<lambda>x. if x = r
            then x\<lparr>pc_state := target, pc_lock_version := l + 1\<rparr> else x) (contracts db)\<rparr>"])
        (auto simp: post_eq t fetch_def py_def tx_eval lock)
  next
    case True
    then obtain db1 where u: "update_contracts (\<lambda>x. pc_tenant_id x = pc_tenant_id r \<and> pc_id x = pc_id r) ?f db = Inr db1"
        "contracts db1 = contracts ?db" "commands db1 = commands db"
      using update_one_contract [OF ids assms(2), of ?f] allowed_moves_trigger assms(7)
      by (simp add: contract_trigger_def)
    obtain a b where au: "audit (service_for ca) (''contract_'' @ action @ ''ed'') ''performance_contract'' (pc_id r)
        [(''previous_state'', PStr (contract_state_value (pc_state r))),
         (''new_state'', PStr (contract_state_value target)), (''idempotency_key'', PStr key)] db1 =
        Inr ((), db1\<lparr>audit_events := a, outbox := b\<rparr>)"
      using audit_runs by metis
    have c: "command_result (pc_tenant_id r) key (db1\<lparr>audit_events := a, outbox := b\<rparr>) = None"
      using assms(5) u(3) by (simp add: command_result_def)
    obtain db2 where "perform sha zone ca now i key (ContractAction (pc_id r) action (Some l)) db =
        Inr (PDict [(''id'', PStr (uuid_str (pc_id r))), (''state'', PStr (contract_state_value target)),
           (''lock_version'', PInt (pc_lock_version r + 1))], db2)" "contracts db2 = contracts db1"
      using True lock u(1) au remember_runs [OF _ _ _ _ c] no_nul_contract_state assms(6)
      by (simp add: transition_contract_def run_fresh [OF assms(5) [folded t]] t fetch_def py_def sql_def tx_eval)
    then show ?thesis using True v assms(4) u(2)
      by (intro exI [of _ db2]) (simp add: post_def execute_def transaction_def)
  qed
qed

section \<open>Source bindings\<close>

definition no_bindings :: "cdb \<Rightarrow> bool" where
  "no_bindings db \<longleftrightarrow> bindings db = []"

lemma no_bindings_statements:
  "insert_contract r1 db = Inr db' \<Longrightarrow> no_bindings db \<Longrightarrow> no_bindings db'"
  "insert_rule r2 db = Inr db' \<Longrightarrow> no_bindings db \<Longrightarrow> no_bindings db'"
  "insert_rule_version r3 db = Inr db' \<Longrightarrow> no_bindings db \<Longrightarrow> no_bindings db'"
  "insert_version r4 db = Inr db' \<Longrightarrow> no_bindings db \<Longrightarrow> no_bindings db'"
  "insert_acceptance r5 db = Inr db' \<Longrightarrow> no_bindings db \<Longrightarrow> no_bindings db'"
  "insert_authority r6 db = Inr db' \<Longrightarrow> no_bindings db \<Longrightarrow> no_bindings db'"
  "update_contracts p1 f1 db = Inr db' \<Longrightarrow> no_bindings db \<Longrightarrow> no_bindings db'"
  "update_versions p2 f2 db = Inr db' \<Longrightarrow> no_bindings db \<Longrightarrow> no_bindings db'"
  "update_rule_versions p3 f3 db = Inr db' \<Longrightarrow> no_bindings db \<Longrightarrow> no_bindings db'"
  by (auto simp: insert_defs ebind_eq_Inr no_bindings_def)

lemma no_bindings_audit: "preserves no_bindings (audit sv e k i m)"
  by (rule preservesI) (auto simp: audit_def record_event_def Let_def no_bindings_def)

lemma no_bindings_run:
  "preserves no_bindings operation \<Longrightarrow> preserves no_bindings (run sha sv key q operation)"
  unfolding run_def
  by (rule preserves_once, assumption, rule preservesI) (auto simp: remember_Inr no_bindings_def)

text \<open>The answer carries a \<open>datetime\<close>, which \<open>json.dumps\<close> cannot print.\<close>

lemma binding_unprintable:
  "\<not> list_all snd (map (map_prod (\<lambda>k. k) (json_ok True)) (binding_fields (\<lambda>d. PObject 0) b))"
  by (simp add: binding_fields_def)

lemma create_binding_fails:
  assumes "create_binding sha sv i key c b db = Inr (r, db')"
  shows "db' = db"
proof (rule ccontr)
  assume "db' \<noteq> db"
  then obtain u db1 where "json_ok True r" and
      r: "r = PDict ([(''id'', PStr (uuid_str i)), (''contract_id'', PStr (uuid_str c))] @
           binding_fields (\<lambda>d. PObject 0) b)"
    using assms unfolding create_binding_def run_def once_Inr remember_Inr bind_Inr andthen_Inr ret_Inr by blast
  then show False using binding_unprintable by simp
qed

lemma no_bindings_perform: "preserves no_bindings (perform sha zone ca now i key c)"
proof -
  note k = no_bindings_run preserves_bind preserves_andthen preserves_if preserves_sql preserves_simple
    preserves_fetch preserves_py no_bindings_audit
  have "preserves no_bindings (create_binding sha (service_for ca) i key x y)" for x y
    by (rule preservesI) (auto dest: create_binding_fails)
  then show ?thesis
    by (cases c) (auto simp: create_contract_def create_rule_def create_rule_version_def transition_rule_def
        create_contract_version_def transition_contract_version_def transition_contract_def
        provision_authority_def branch_defs Let_def intro!: k
        intro: no_bindings_statements split: version_action.split prod.split)
qed

text \<open>
  C40. Source bindings cannot be created.  The answer to a successful \<open>create_binding\<close> carries
  the body's \<open>datetime\<close>, which the command log cannot store as JSON; the \<open>TypeError\<close> rolls the
  transaction back, so no database the service produces ever holds a binding, and a fresh
  request that passes every other check ends in a server error.
\<close>

theorem bindings_never_stored:
  assumes "served sha zone db"
  shows "bindings db = [] \<and>
    (command_result (pr_tenant_id (ca_principal ca)) key db = None \<longrightarrow> len_in 1 200 key \<longrightarrow> valid_binding b \<longrightarrow>
     window_check (bb_effective_start b) (bb_effective_end b) \<longrightarrow>
     has_contract db (pr_tenant_id (ca_principal ca)) c \<longrightarrow>
       post sha zone ca now i key (CreateBinding c b) db = (ServerError (PyError TypeError), db))"
proof -
  have "no_bindings db" using assms
  proof (induction rule: served.induct)
    case start
    show ?case by (simp add: no_bindings_def empty_cdb_def)
  qed (auto intro: preserves_post no_bindings_perform)
  then have e: "bindings db = []" by (simp add: no_bindings_def)
  have "post sha zone ca now i key (CreateBinding c b) db = (ServerError (PyError TypeError), db)"
    if fresh: "command_result (pr_tenant_id (ca_principal ca)) key db = None" and ok: "len_in 1 200 key" "valid_binding b"
      "window_check (bb_effective_start b) (bb_effective_end b)" "has_contract db (pr_tenant_id (ca_principal ca)) c"
  proof -
    have t: "tenant_of (service_for ca) = pr_tenant_id (ca_principal ca)" by (simp add: service_for_def)
    obtain r where r: "lock_contract (pr_tenant_id (ca_principal ca)) c None db = Some r"
      using ok(4) by (cases "lock_contract (pr_tenant_id (ca_principal ca)) c None db")
        (auto simp: lock_contract_def has_contract_def find_None_iff list_ex_iff)
    have "perform sha zone ca now i key (CreateBinding c b) db = Inl (PyError TypeError)"
      using ok(3,4) r by (simp add: create_binding_def run_fresh [OF fresh [folded t]] t fetch_def sql_def tx_eval
          insert_binding_def insert_row_def require_def e audit_def record_event_def remember_def stored_json_def
          binding_fields_def Let_def)
    then show ?thesis using ok by (simp add: post_def execute_def transaction_def)
  qed
  then show ?thesis using e by blast
qed

section \<open>An acceptance outside the required roles\<close>

definition stray_acceptance :: "version_row \<Rightarrow> acceptance_row \<Rightarrow> bool" where
  "stray_acceptance v a \<longleftrightarrow> pa_tenant_id a = vr_tenant_id v \<and> pa_version_id a = vr_id v \<and>
     Some (pa_digest a) = vr_digest v \<and> pa_party_role a \<notin> set (cb_required_party_roles (vr_body v))"

text \<open>
  The service accepts what the domain refuses.  \<open>transition_contract_version\<close> lets any
  principal holding a party authority accept, whether or not the role is one of the version's
  required roles; once such an acceptance is stored, the version can never be activated,
  whatever requests follow, because acceptances are immutable and activation wants equality.
\<close>

theorem stray_acceptance_blocks:
  assumes "served sha zone db" "v \<in> set (versions db)" "vr_state v = VersionProposed"
    and "a \<in> set (acceptances db)" "stray_acceptance v a"
    and "later sha zone db db'" "w \<in> set (versions db')" "vr_id w = vr_id v"
  shows "vr_state w \<notin> {VersionActive, VersionSuperseded}"
proof
  assume act: "vr_state w \<in> {VersionActive, VersionSuperseded}"
  have inv: "consent_inv sha db'" by (rule served_consent [OF served_later [OF assms(6,1)]])
  obtain w' where "w' \<in> set (versions db')" "w'\<lparr>vr_state := vr_state v\<rparr> = v" "a \<in> set (acceptances db')"
    using history_immutable [OF assms(6)] assms(2-4) by (metis subsetD version_state.distinct(1))
  moreover from this have "vr_id w' = vr_id v" "vr_tenant_id w' = vr_tenant_id v" "vr_digest w' = vr_digest v"
    "vr_body w' = vr_body v"
    by (metis version_row.select_convs version_row.surjective version_row.update_convs(9))+
  moreover from this have "w' = w"
    using distinct_id_eq [of "versions db'" w' w] inv assms(7,8) calculation(1) by (simp add: consent_inv_def)
  ultimately have w: "a \<in> set (acceptances db')" "vr_id w = vr_id v" "vr_tenant_id w = vr_tenant_id v"
    "vr_digest w = vr_digest v" "vr_body w = vr_body v" by simp_all
  have "version_ok sha (acceptances db') w" using inv assms(7) by (simp add: consent_inv_def)
  then have "set (cb_required_party_roles (vr_body w)) =
      {pa_party_role a | a. a \<in> set (acceptances db') \<and> pa_tenant_id a = vr_tenant_id w \<and>
        pa_version_id a = vr_id w \<and> Some (pa_digest a) = vr_digest w}"
    using act unfolding version_ok_def by blast
  with w assms(5) show False by (auto simp: stray_acceptance_def)
qed

section \<open>A concrete history\<close>

text \<open>
  A rule is created and published, a contract and a version are created, the version is
  proposed, a stray and a required party accept, and a second version is activated.
\<close>

definition sample_sha :: hash where
  "sample_sha = (\<lambda>_. replicate 64 CHR ''a'')"

definition sample_zone :: "string \<Rightarrow> zone_lookup" where
  "sample_zone = (\<lambda>_. ZoneKnown)"

definition sample_caller :: caller where
  "sample_caller = \<lparr>ca_principal = \<lparr>pr_user_id = 1, pr_tenant_id = 2, pr_membership_id = 3\<rparr>, ca_human = True\<rparr>"

definition sample_body :: contract_body where
  "sample_body = \<lparr>cb_display_name = ''n'', cb_description = None, cb_required_party_roles = [''buyer''],
     cb_rule_version_id = 11, cb_contract_timezone = ''UTC'', cb_currency = ''USD'',
     cb_pricing_model = ''fixed_fee'', cb_fixed_fee_minor = Some 100, cb_rate_basis_points = None,
     cb_floor_minor = None, cb_cap_minor = None, cb_anchor_event_type = ''e'',
     cb_attribution_window_seconds = 0, cb_evaluation_window_seconds = 1,
     cb_finalization_window_seconds = 0, cb_effective_start = Aware 0, cb_effective_end = None,
     cb_terms = []\<rparr>"

definition tables :: "cdb \<Rightarrow> contract_row list \<times> rule_row list \<times> rule_version_row list \<times> version_row list \<times>
    acceptance_row list \<times> authority_row list" where
  "tables db = (contracts db, rules db, rule_versions db, versions db, acceptances db, authorities db)"

definition sample_reach :: "cdb \<Rightarrow> string list \<Rightarrow> bool" where
  "sample_reach db keys \<longleftrightarrow> served sample_sha sample_zone db \<and> map cr_key (commands db) = keys"

lemma sample_fresh: "sample_reach db keys \<Longrightarrow> key \<notin> set keys \<Longrightarrow> command_result t key db = None"
  by (auto simp: sample_reach_def command_result_def find_None_iff)

lemma sample_post:
  assumes "sample_reach db keys" "len_in 1 200 key" "valid_command c"
    and "perform sample_sha sample_zone sample_caller (Aware 0) i key c db = Inr (r, db2)"
    and "map cr_key (commands db2) = keys @ [key]"
  shows "sample_reach db2 (keys @ [key])"
  using served.request [of sample_sha sample_zone db sample_caller "Aware 0" i key c] assms
  by (simp add: sample_reach_def post_def execute_def transaction_def sample_caller_def)

lemma command_result_frame [simp]:
  "command_result t k (db\<lparr>contracts := a\<rparr>) = command_result t k db"
  "command_result t k (db\<lparr>rules := b\<rparr>) = command_result t k db"
  "command_result t k (db\<lparr>rule_versions := c\<rparr>) = command_result t k db"
  "command_result t k (db\<lparr>versions := d\<rparr>) = command_result t k db"
  "command_result t k (db\<lparr>acceptances := e\<rparr>) = command_result t k db"
  "command_result t k (db\<lparr>authorities := f\<rparr>) = command_result t k db"
  "command_result t k (db\<lparr>audit_events := g\<rparr>) = command_result t k db"
  "command_result t k (db\<lparr>outbox := h\<rparr>) = command_result t k db"
  by (simp_all add: command_result_def)

lemma empty_document [simp]:
  "canonical_document (PDict []) = Inr ''{}''" "jsonb ''{}'' = Inr (PDict [])"
  using jsonb_plain [of "PDict []" False] by (simp_all add: canonical_document_def)

lemmas sample_eval = run_fresh tx_eval fetch_def py_def sql_def insert_row_def require_def
  audit_def record_event_def Let_def service_for_def sample_caller_def remember_runs tables_def

definition sample_rules :: "rule_row list" where
  "sample_rules = [\<lparr>or_id = 10, or_tenant_id = 2, or_name = ''r'', or_created_by = 1\<rparr>]"

lemma sample_1: "\<exists>db. sample_reach db [''k1''] \<and>
    tables db = ([], sample_rules, [], [], [], [])"
proof -
  have r: "sample_reach empty_cdb []"
    unfolding sample_reach_def by (simp add: served.start) (simp add: empty_cdb_def)
  have "\<exists>x db. perform sample_sha sample_zone sample_caller (Aware 0) 10 ''k1'' (CreateRule ''r'') empty_cdb =
      Inr (x, db) \<and> map cr_key (commands db) = [''k1''] \<and>
      tables db = ([], sample_rules, [], [], [], [])"
    by (simp add: create_rule_def run_fresh sample_fresh [OF r] tx_eval sql_def insert_rule_def insert_row_def
        audit_def record_event_def Let_def service_for_def sample_caller_def remember_runs tables_def sample_rules_def)
      (simp add: empty_cdb_def)
  then show ?thesis using sample_post [OF r, of "''k1''" "CreateRule ''r''"] by (fastforce simp: len_in_def)
qed

definition sample_rule_version :: "rule_state \<Rightarrow> rule_version_row" where
  "sample_rule_version s = \<lparr>rr_id = 11, rr_tenant_id = 2, rr_rule_id = 10, rr_version = 1,
     rr_template_id = ''attended_booking'', rr_definition = PDict [],
     rr_document = (if s = RuleDraft then None else Some ''{}''),
     rr_digest = (if s = RuleDraft then None else Some (replicate 64 CHR ''a'')), rr_state = s,
     rr_created_by = 1, rr_published_by = (if s = RuleDraft then None else Some 1),
     rr_published_at = (if s = RuleDraft then None else Some (Aware 0))\<rparr>"

lemma sample_rule_valid: "\<exists>v. mk_rule_version i 1 ''attended_booking'' [] = Inr v"
  by (simp add: mk_rule_version_def rule_post_init_def rule_templates_def utf8_def)

lemma sample_2: "\<exists>db. sample_reach db [''k1'', ''k2''] \<and>
    tables db = ([], sample_rules, [sample_rule_version RuleDraft], [], [], [])"
proof -
  obtain db where r: "sample_reach db [''k1'']" "tables db = ([], sample_rules, [], [], [], [])"
    using sample_1 by blast
  obtain v where v: "mk_rule_version ''validation'' 1 ''attended_booking'' [] = Inr v"
    using sample_rule_valid by blast
  have "\<exists>x db'. perform sample_sha sample_zone sample_caller (Aware 0) 11 ''k2''
      (CreateRuleVersion 10 ''attended_booking'' []) db = Inr (x, db') \<and>
      map cr_key (commands db') = [''k1'', ''k2''] \<and>
      tables db' = ([], sample_rules, [sample_rule_version RuleDraft], [], [], [])"
    using r by (simp add: create_rule_version_def sample_eval sample_fresh [OF r(1)] v repo_rule_def sample_rules_def
        next_version_def insert_rule_version_def int4_def rule_templates_def sample_rule_version_def)
      (simp add: sample_reach_def)
  then show ?thesis using sample_post [OF r(1), of "''k2''" "CreateRuleVersion 10 ''attended_booking'' []"]
    by (fastforce simp: len_in_def rule_templates_def)
qed

lemma sample_digest: "document_digest sample_sha (PDict []) = Inr (replicate 64 CHR ''a'')"
  by (simp add: document_digest_def sample_sha_def)

lemma sample_3: "\<exists>db. sample_reach db [''k1'', ''k2'', ''k3''] \<and>
    tables db = ([], sample_rules, [sample_rule_version RulePublished], [], [], [])"
proof -
  obtain db where r: "sample_reach db [''k1'', ''k2'']"
      "tables db = ([], sample_rules, [sample_rule_version RuleDraft], [], [], [])"
    using sample_2 by blast
  obtain v where v: "mk_rule_version (uuid_str 11) 1 ''attended_booking'' [] = Inr v"
    using sample_rule_valid by blast
  have "\<exists>x db'. perform sample_sha sample_zone sample_caller (Aware 0) 0 ''k3''
      (RuleAction 10 11 ''publish'') db = Inr (x, db') \<and>
      map cr_key (commands db') = [''k1'', ''k2'', ''k3''] \<and>
      tables db' = ([], sample_rules, [sample_rule_version RulePublished], [], [], [])"
    using r by (simp add: transition_rule_def sample_eval sample_fresh [OF r(1)] v repo_rule_version_def
        sample_rule_version_def sample_digest update_rule_versions_def update_rows_def rule_version_trigger_def
        some_or_def)
      (simp add: sample_reach_def)
  then show ?thesis using sample_post [OF r(1), of "''k3''" "RuleAction 10 11 ''publish''"]
    by (fastforce simp: len_in_def)
qed

definition sample_contract :: "contract_state \<Rightarrow> int \<Rightarrow> contract_row" where
  "sample_contract s l = \<lparr>pc_id = 12, pc_tenant_id = 2, pc_state = s, pc_lock_version = l, pc_created_by = 1\<rparr>"

lemma sample_4: "\<exists>db. sample_reach db [''k1'', ''k2'', ''k3'', ''k4''] \<and>
    tables db = ([sample_contract ContractDraft 0], sample_rules, [sample_rule_version RulePublished], [], [], [])"
proof -
  obtain db where r: "sample_reach db [''k1'', ''k2'', ''k3'']"
      "tables db = ([], sample_rules, [sample_rule_version RulePublished], [], [], [])"
    using sample_3 by blast
  have "\<exists>x db'. perform sample_sha sample_zone sample_caller (Aware 0) 12 ''k4'' CreateContract db = Inr (x, db') \<and>
      map cr_key (commands db') = [''k1'', ''k2'', ''k3'', ''k4''] \<and>
      tables db' = ([sample_contract ContractDraft 0], sample_rules, [sample_rule_version RulePublished], [], [], [])"
    using r by (simp add: create_contract_def sample_eval sample_fresh [OF r(1)] insert_contract_def sample_contract_def)
      (simp add: sample_reach_def)
  then show ?thesis using sample_post [OF r(1), of "''k4''" CreateContract]
    by (fastforce simp: len_in_def)
qed

definition sample_version_row :: "version_state \<Rightarrow> version_row" where
  "sample_version_row s = \<lparr>vr_id = 13, vr_tenant_id = 2, vr_contract_id = 12, vr_version = 1,
     vr_body = sample_body, vr_terms = PDict [],
     vr_document = (if s = VersionDraft then None else Some ''{}''),
     vr_digest = (if s = VersionDraft then None else Some (replicate 64 CHR ''a'')),
     vr_state = s, vr_created_by = 1\<rparr>"

lemma sample_body_valid: "validate_body sample_zone sample_body = Inr sample_body"
  "valid_version_body sample_body"
proof -
  have "upper ''USD'' = ''USD''" by (simp add: upper_def upper_char_def is_lower_def code_def)
  then show "validate_body sample_zone sample_body = Inr sample_body"
    by (simp add: validate_body_def sample_body_def validate_currency_def supported_currencies_def
        validate_timezone_def sample_zone_def mk_fixed_fee_def opt_int_def)
  show "valid_version_body sample_body"
    by (simp add: valid_version_body_def sample_body_def len_in_def is_upper_def code_def)
qed

lemma sample_body_sel [simp]:
  "cb_rule_version_id sample_body = 11" "cb_terms sample_body = []"
  "cb_required_party_roles sample_body = [''buyer'']"
  by (simp_all add: sample_body_def)

lemma sample_5: "\<exists>db. sample_reach db [''k1'', ''k2'', ''k3'', ''k4'', ''k5''] \<and>
    tables db = ([sample_contract ContractDraft 0], sample_rules, [sample_rule_version RulePublished],
      [sample_version_row VersionDraft], [], [])"
proof -
  obtain db where r: "sample_reach db [''k1'', ''k2'', ''k3'', ''k4'']"
      "tables db = ([sample_contract ContractDraft 0], sample_rules, [sample_rule_version RulePublished], [], [], [])"
    using sample_4 by blast
  have c: "version_check (sample_version_row VersionDraft)" "body_in_range sample_body"
    by (simp_all add: version_check_def pricing_check_def sample_body_def window_check_def some_or_def
        sample_version_row_def body_in_range_def int4_opt_def int8_opt_def int4_def int8_def)
  have "\<exists>x db'. perform sample_sha sample_zone sample_caller (Aware 0) 13 ''k5'' (CreateVersion 12 sample_body) db =
      Inr (x, db') \<and> map cr_key (commands db') = [''k1'', ''k2'', ''k3'', ''k4'', ''k5''] \<and>
      tables db' = ([sample_contract ContractDraft 0], sample_rules, [sample_rule_version RulePublished],
        [sample_version_row VersionDraft], [], [])"
    using r c by (simp add: create_contract_version_def sample_eval sample_fresh [OF r(1)] sample_body_valid
        lock_contract_def sample_contract_def sample_rule_version_def next_version_def insert_version_def
        sample_version_row_def int4_def one_active_def has_contract_def)
      (simp add: sample_reach_def)
  then show ?thesis using sample_post [OF r(1), of "''k5''" "CreateVersion 12 sample_body"]
    by (fastforce simp: len_in_def sample_body_valid)
qed

lemma sample_6: "\<exists>db. sample_reach db [''k1'', ''k2'', ''k3'', ''k4'', ''k5'', ''k6''] \<and>
    tables db = ([sample_contract ContractDraft 0], sample_rules, [sample_rule_version RulePublished],
      [sample_version_row VersionProposed], [], [])"
proof -
  obtain db where r: "sample_reach db [''k1'', ''k2'', ''k3'', ''k4'', ''k5'']"
      "tables db = ([sample_contract ContractDraft 0], sample_rules, [sample_rule_version RulePublished],
        [sample_version_row VersionDraft], [], [])"
    using sample_5 by blast
  have "\<exists>x db'. perform sample_sha sample_zone sample_caller (Aware 0) 0 ''k6'' (ProposeVersion 12 13) db =
      Inr (x, db') \<and> map cr_key (commands db') = [''k1'', ''k2'', ''k3'', ''k4'', ''k5'', ''k6''] \<and>
      tables db' = ([sample_contract ContractDraft 0], sample_rules, [sample_rule_version RulePublished],
        [sample_version_row VersionProposed], [], [])"
    using r by (simp add: transition_contract_version_def do_propose_def sample_eval sample_fresh [OF r(1)]
        lock_contract_def sample_contract_def repo_version_def sample_version_row_def sample_digest
        update_versions_def update_rows_def version_trigger_def version_moves_def one_active_def opt_text_def)
      (simp add: sample_reach_def)
  then show ?thesis using sample_post [OF r(1), of "''k6''" "ProposeVersion 12 13"]
    by (fastforce simp: len_in_def)
qed

definition sample_grant :: "string \<Rightarrow> uuid \<Rightarrow> authority_row" where
  "sample_grant role i = \<lparr>au_id = i, au_tenant_id = 2, au_contract_id = 12, au_party_role = role, au_principal_id = 1\<rparr>"

definition sample_accept :: "string \<Rightarrow> acceptance_row" where
  "sample_accept role = \<lparr>pa_tenant_id = 2, pa_version_id = 13, pa_digest = replicate 64 CHR ''a'',
     pa_party_role = role, pa_principal_id = 1, pa_accepted_at = Aware 0\<rparr>"

definition sample_tables where
  "sample_tables s l v as us = ([sample_contract s l], sample_rules, [sample_rule_version RulePublished],
     [sample_version_row v], as, us)"

abbreviation six_keys :: "string list" where
  "six_keys \<equiv> [''k1'', ''k2'', ''k3'', ''k4'', ''k5'', ''k6'']"

lemma sample_7:
  assumes "role \<in> {''buyer'', ''other''}"
  shows "\<exists>db. sample_reach db (six_keys @ [''k7'']) \<and>
    tables db = sample_tables ContractDraft 0 VersionProposed [] [sample_grant role 14]"
proof -
  obtain db where r: "sample_reach db six_keys" "tables db = sample_tables ContractDraft 0 VersionProposed [] []"
    using sample_6 unfolding sample_tables_def by blast
  have nul: "no_nul role" using assms by auto
  have "\<exists>x db'. perform sample_sha sample_zone sample_caller (Aware 0) 14 ''k7'' (GrantAuthority 12 role 1) db =
      Inr (x, db') \<and> map cr_key (commands db') = six_keys @ [''k7''] \<and>
      tables db' = sample_tables ContractDraft 0 VersionProposed [] [sample_grant role 14]"
    using r nul by (simp add: provision_authority_def sample_eval sample_fresh [OF r(1)] lock_contract_def
        sample_tables_def sample_contract_def insert_authority_def has_contract_def sample_grant_def)
      (simp add: sample_reach_def)
  then show ?thesis using sample_post [OF r(1), of "''k7''" "GrantAuthority 12 role 1" 14] assms
    by (auto simp: len_in_def)
qed

lemma sample_8:
  assumes "role \<in> {''buyer'', ''other''}"
  shows "\<exists>db. sample_reach db (six_keys @ [''k7'', ''k8'']) \<and>
    tables db = sample_tables ContractDraft 0 VersionProposed [sample_accept role] [sample_grant role 14]"
proof -
  let ?d = "replicate 64 CHR ''a''"
  obtain db where r: "sample_reach db (six_keys @ [''k7''])"
      "tables db = sample_tables ContractDraft 0 VersionProposed [] [sample_grant role 14]"
    using sample_7 [OF assms] by blast
  have "\<exists>x db'. perform sample_sha sample_zone sample_caller (Aware 0) 0 ''k8'' (AcceptVersion 12 13 ?d role) db =
      Inr (x, db') \<and> map cr_key (commands db') = six_keys @ [''k7'', ''k8''] \<and>
      tables db' = sample_tables ContractDraft 0 VersionProposed [sample_accept role] [sample_grant role 14]"
    using r by (simp add: transition_contract_version_def do_accept_def sample_eval sample_fresh [OF r(1)]
        lock_contract_def sample_tables_def sample_contract_def repo_version_def sample_version_row_def
        sample_grant_def insert_acceptance_def opt_text_def sample_accept_def)
      (simp add: sample_reach_def)
  then show ?thesis using sample_post [OF r(1), of "''k8''" "AcceptVersion 12 13 ?d role" 0] assms
    by (auto simp: len_in_def valid_acceptance_def is_hex_def list_all_iff)
qed

lemma sample_9: "\<exists>db. sample_reach db (six_keys @ [''k7'', ''k8'', ''k9'']) \<and>
    tables db = sample_tables ContractActive 1 VersionActive [sample_accept ''buyer''] [sample_grant ''buyer'' 14]"
proof -
  obtain db where r: "sample_reach db (six_keys @ [''k7'', ''k8''])"
      "tables db = sample_tables ContractDraft 0 VersionProposed [sample_accept ''buyer''] [sample_grant ''buyer'' 14]"
    using sample_8 [of "''buyer''"] by blast
  have acc: "accepted_by 2 13 (Some (replicate 64 CHR ''a'')) db = {''buyer''}"
    using r(2) by (auto simp: accepted_by_def tables_def sample_tables_def sample_accept_def)
  have "\<exists>x db'. perform sample_sha sample_zone sample_caller (Aware 0) 0 ''k9'' (ActivateVersion 12 13) db =
      Inr (x, db') \<and> map cr_key (commands db') = six_keys @ [''k7'', ''k8'', ''k9''] \<and>
      tables db' = sample_tables ContractActive 1 VersionActive [sample_accept ''buyer''] [sample_grant ''buyer'' 14]"
    using r by (simp add: transition_contract_version_def do_activate_def sample_eval sample_fresh [OF r(1)]
        lock_contract_def sample_tables_def sample_contract_def repo_version_def sample_version_row_def
        acc sample_accept_def update_versions_def update_rows_def version_trigger_def version_moves_def
        one_active_def update_contracts_def contract_trigger_def contract_moves_def int4_def opt_text_def)
      (simp add: sample_reach_def)
  then show ?thesis using sample_post [OF r(1), of "''k9''" "ActivateVersion 12 13" 0]
    by (fastforce simp: len_in_def)
qed

theorem active_version_consented_witness:
  "\<exists>db v d. served sample_sha sample_zone db \<and> v \<in> set (versions db) \<and> vr_state v = VersionActive \<and>
     vr_digest v = Some d \<and> document_digest sample_sha (vr_terms v) = Inr d \<and>
     set (cb_required_party_roles (vr_body v)) = pa_party_role ` acceptances_of db v d"
proof -
  obtain db where r: "sample_reach db (six_keys @ [''k7'', ''k8'', ''k9''])"
      "tables db = sample_tables ContractActive 1 VersionActive [sample_accept ''buyer''] [sample_grant ''buyer'' 14]"
    using sample_9 by blast
  then have "served sample_sha sample_zone db" "sample_version_row VersionActive \<in> set (versions db)"
      "vr_state (sample_version_row VersionActive) = VersionActive"
    by (simp_all add: sample_reach_def tables_def sample_tables_def sample_version_row_def)
  with active_version_consented [OF this] show ?thesis by blast
qed

theorem history_immutable_witness:
  "\<exists>db db' v w. later sample_sha sample_zone db db' \<and> db \<noteq> db' \<and> v \<in> set (versions db) \<and> vr_state v \<noteq> VersionDraft \<and>
     w \<in> set (versions db') \<and> w\<lparr>vr_state := vr_state v\<rparr> = v"
proof -
  obtain db where r: "sample_reach db six_keys" "tables db = sample_tables ContractDraft 0 VersionProposed [] []"
    using sample_6 unfolding sample_tables_def by blast
  have v: "sample_version_row VersionProposed \<in> set (versions db)"
      "vr_state (sample_version_row VersionProposed) \<noteq> VersionDraft"
    using r(2) by (simp_all add: tables_def sample_tables_def sample_version_row_def)
  obtain x db' where p: "perform sample_sha sample_zone sample_caller (Aware 0) 20 ''k7'' CreateContract db = Inr (x, db')"
      "length (contracts db') = 2"
    using r by (simp add: create_contract_def sample_eval sample_fresh [OF r(1)] insert_contract_def
        sample_tables_def sample_contract_def)
  have "snd (post sample_sha sample_zone sample_caller (Aware 0) 20 ''k7'' CreateContract db) = db'"
    using p by (simp add: post_def execute_def transaction_def len_in_def)
  then have l: "later sample_sha sample_zone db db'"
    using later.next_request [OF later.now, of sample_sha sample_zone db sample_caller] by metis
  have "db \<noteq> db'" using p(2) r(2) by (auto simp: tables_def sample_tables_def)
  with history_immutable [OF l] l v show ?thesis by blast
qed

theorem stray_acceptance_blocks_witness:
  "\<exists>db v w. served sample_sha sample_zone db \<and> v \<in> set (versions db) \<and> vr_state v = VersionProposed \<and>
     w \<in> set (versions (snd (post sample_sha sample_zone sample_caller (Aware 0) 0 ''k9'' (ActivateVersion 12 13) db))) \<and>
     vr_id w = vr_id v \<and> vr_state w \<notin> {VersionActive, VersionSuperseded}"
proof -
  obtain db where r: "sample_reach db (six_keys @ [''k7'', ''k8''])"
      "tables db = sample_tables ContractDraft 0 VersionProposed [sample_accept ''other''] [sample_grant ''other'' 14]"
    using sample_8 [of "''other''"] by blast
  let ?v = "sample_version_row VersionProposed"
  let ?db = "snd (post sample_sha sample_zone sample_caller (Aware 0) 0 ''k9'' (ActivateVersion 12 13) db)"
  have v: "served sample_sha sample_zone db" "?v \<in> set (versions db)" "vr_state ?v = VersionProposed"
      "sample_accept ''other'' \<in> set (acceptances db)" "stray_acceptance ?v (sample_accept ''other'')"
    using r by (simp_all add: sample_reach_def tables_def sample_tables_def sample_version_row_def
        stray_acceptance_def sample_accept_def)
  have l: "later sample_sha sample_zone db ?db" by (intro later.intros)
  obtain w where w: "w \<in> set (versions ?db)" "w\<lparr>vr_state := vr_state ?v\<rparr> = ?v"
    using history_later [OF l history_refl [of "[?v]" db "[]" "[]"]] v by (auto simp: history_def same_version_def)
  then have "vr_id w = vr_id ?v"
    by (metis version_row.select_convs(1) version_row.surjective version_row.update_convs(9))
  with stray_acceptance_blocks [OF v l w(1)] v w(1) show ?thesis by blast
qed

theorem bindings_never_stored_witness:
  "\<exists>db. served sample_sha sample_zone db \<and> bindings db = [] \<and>
     post sample_sha sample_zone sample_caller (Aware 0) 30 ''k5'' (CreateBinding 12 \<lparr>bb_source_type = ''shop'',
       bb_source_id = ''s'', bb_effective_start = Aware 0, bb_effective_end = None\<rparr>) db =
     (ServerError (PyError TypeError), db)"
proof -
  obtain db where r: "sample_reach db [''k1'', ''k2'', ''k3'', ''k4'']"
      "tables db = ([sample_contract ContractDraft 0], sample_rules, [sample_rule_version RulePublished], [], [], [])"
    using sample_4 by blast
  then have s: "served sample_sha sample_zone db" "has_contract db 2 12"
    by (simp_all add: sample_reach_def tables_def has_contract_def sample_contract_def)
  show ?thesis
    using bindings_never_stored [OF s(1), of sample_caller "''k5''"] sample_fresh [OF r(1), of "''k5''"] s
    by (intro exI [of _ db]) (simp add: sample_caller_def len_in_def valid_binding_def window_check_def)
qed

theorem contract_action_locked_witness:
  "\<exists>db db'. post sample_sha sample_zone sample_caller (Aware 0) 30 ''k5'' (ContractAction 12 ''terminate'' (Some 0)) db =
     (Reply 200 (PDict [(''id'', PStr (uuid_str 12)), (''state'', PStr ''terminated''), (''lock_version'', PInt 1)]), db') \<and>
     post sample_sha sample_zone sample_caller (Aware 0) 30 ''k5'' (ContractAction 12 ''terminate'' (Some 7)) db =
     (Refused 409 ''concurrency_conflict'', db)"
proof -
  obtain db where r: "sample_reach db [''k1'', ''k2'', ''k3'', ''k4'']"
      "tables db = ([sample_contract ContractDraft 0], sample_rules, [sample_rule_version RulePublished], [], [], [])"
    using sample_4 by blast
  let ?c = "sample_contract ContractDraft 0"
  have s: "served sample_sha sample_zone db" "?c \<in> set (contracts db)" "pc_tenant_id ?c = pr_tenant_id (ca_principal sample_caller)"
    "len_in 1 200 ''k5''" "command_result (pc_tenant_id ?c) ''k5'' db = None"
    "action_target ''terminate'' = Inr ContractTerminated" "int4 (pc_lock_version ?c + 1)"
    using r sample_fresh [OF r(1), of "''k5''"] by (simp_all add: sample_reach_def tables_def sample_contract_def
        sample_caller_def len_in_def action_target_def int4_def)
  have f: "pc_id ?c = 12" "pc_state ?c = ContractDraft" "pc_lock_version ?c = 0"
    by (simp_all add: sample_contract_def)
  show ?thesis
    using contract_action_locked [OF s, of "Aware 0" 30 0] contract_action_locked [OF s, of "Aware 0" 30 7]
    by (auto simp: f allowed_contract_moves_def)
qed

theorem command_replay_witness:
  "\<exists>db db1 r r'. post sample_sha sample_zone sample_caller (Aware 0) 12 ''k4'' CreateContract db = (Reply 201 r, db1) \<and>
     post sample_sha sample_zone sample_caller (Aware 99) 77 ''k4'' CreateContract db1 = (Reply 201 r', db1) \<and>
     (r' = r \<or> r' = stored_form r)"
proof -
  obtain db where r: "sample_reach db [''k1'', ''k2'', ''k3'']"
      "tables db = ([], sample_rules, [sample_rule_version RulePublished], [], [], [])"
    using sample_3 by blast
  obtain x db' where "perform sample_sha sample_zone sample_caller (Aware 0) 12 ''k4'' CreateContract db = Inr (x, db')"
    using r by (simp add: create_contract_def sample_eval sample_fresh [OF r(1)] insert_contract_def)
  then have "post sample_sha sample_zone sample_caller (Aware 0) 12 ''k4'' CreateContract db = (Reply 201 x, db')"
    by (simp add: post_def execute_def transaction_def len_in_def)
  with command_replay [OF this later.now, of "Aware 99" 77] show ?thesis by blast
qed

end
