(* ===== verification/ContractRefinement.thy ===== *)
theory ContractRefinement
  imports ContractFacts
begin

text \<open>
  The service against the domain: a stored contract version with its acceptances stands for a
  \<open>ContractVersion\<close> object of \<open>contracts/domain.py\<close>, and proposing, accepting and activating in
  the database are the object's \<open>propose\<close>, \<open>accept\<close> and \<open>activate\<close>, with the one difference
  the domain makes for a role outside the required ones.
\<close>

definition belongs_to :: "version_row \<Rightarrow> acceptance_row \<Rightarrow> bool" where
  "belongs_to v a \<longleftrightarrow> pa_tenant_id a = vr_tenant_id v \<and> pa_version_id a = vr_id v"

definition abs_acceptance :: "acceptance_row \<Rightarrow> acceptance" where
  "abs_acceptance a = \<lparr>ac_version_id = uuid_str (pa_version_id a), ac_digest = pa_digest a,
     ac_party_role = pa_party_role a, ac_principal_id = uuid_str (pa_principal_id a),
     ac_accepted_at = pa_accepted_at a\<rparr>"

definition abs_version :: "acceptance_row list \<Rightarrow> version_row \<Rightarrow> contract_version" where
  "abs_version accs v = \<lparr>cv_id = uuid_str (vr_id v), cv_version = vr_version v,
     cv_terms = freeze_items (items (vr_terms v)),
     cv_required_roles = set (cb_required_party_roles (vr_body v)),
     cv_effective_start = cb_effective_start (vr_body v), cv_effective_end = cb_effective_end (vr_body v),
     cv_state = vr_state v, cv_digest = vr_digest v,
     cv_acceptances = map abs_acceptance (filter (belongs_to v) accs)\<rparr>"

lemma contract_post_init_valid:
  "contract_valid v \<Longrightarrow> freeze_items (cv_terms v) = cv_terms v \<Longrightarrow> contract_post_init v = Inr v"
  by (auto simp: contract_post_init_Inr)

definition service_step ::
    "hash \<Rightarrow> service \<Rightarrow> datetime \<Rightarrow> uuid \<Rightarrow> version_row \<Rightarrow> version_action \<Rightarrow> (version_state \<times> string option) cmd" where
  "service_step sha sv now c row action = (case action of
       Propose \<Rightarrow> do_propose sha sv row
     | Accept digest role human \<Rightarrow> do_accept sv now c row (Some digest) role human
     | Activate \<Rightarrow> do_activate sv c row)"

fun domain_step :: "hash \<Rightarrow> uuid \<Rightarrow> datetime \<Rightarrow> version_action \<Rightarrow> contract_version \<Rightarrow> exn + contract_version" where
  "domain_step sha user now Propose v = propose sha v"
| "domain_step sha user now (Accept digest role human) v = accept v role (uuid_str user) now digest"
| "domain_step sha user now Activate v = activate v"

text \<open>The domain's extra condition on an acceptance.\<close>

fun in_required :: "version_row \<Rightarrow> version_action \<Rightarrow> bool" where
  "in_required row (Accept digest role human) = (role \<in> set (cb_required_party_roles (vr_body row)))"
| "in_required row a = True"

lemma freeze_items_twice [simp]: "freeze_items (freeze_items kvs) = freeze_items kvs"
  by simp

lemma abs_version_sel [simp]:
  "cv_state (abs_version as v) = vr_state v" "cv_digest (abs_version as v) = vr_digest v"
  "cv_terms (abs_version as v) = freeze_items (items (vr_terms v))"
  "cv_required_roles (abs_version as v) = set (cb_required_party_roles (vr_body v))"
  "cv_id (abs_version as v) = uuid_str (vr_id v)"
  "cv_acceptances (abs_version as v) = map abs_acceptance (filter (belongs_to v) as)"
  by (simp_all add: abs_version_def)

lemma abs_version_state:
  "abs_version as (v\<lparr>vr_state := s\<rparr>) = (abs_version as v)\<lparr>cv_state := s\<rparr>"
  "abs_version as (v\<lparr>vr_state := s, vr_document := doc, vr_digest := d\<rparr>) =
     (abs_version as v)\<lparr>cv_state := s, cv_digest := d\<rparr>"
proof -
  have "belongs_to (v\<lparr>vr_state := s\<rparr>) = belongs_to v"
    "belongs_to (v\<lparr>vr_state := s, vr_document := doc, vr_digest := d\<rparr>) = belongs_to v"
    by (simp_all add: belongs_to_def fun_eq_iff)
  then show "abs_version as (v\<lparr>vr_state := s\<rparr>) = (abs_version as v)\<lparr>cv_state := s\<rparr>"
    "abs_version as (v\<lparr>vr_state := s, vr_document := doc, vr_digest := d\<rparr>) =
       (abs_version as v)\<lparr>cv_state := s, cv_digest := d\<rparr>"
    by (simp_all add: abs_version_def)
qed

lemma updated_row:
  assumes "update_versions p f db = Inr db'" "v \<in> set (versions db)" "p v"
  shows "f v \<in> set (versions db')"
  using assms by (auto simp: update_versions_def update_rows_Inr ebind_eq_Inr image_iff intro!: bexI [of _ v])

lemma propose_refines:
  assumes "do_propose sha sv row db = Inr (x, db')" "row \<in> set (versions db)"
    and "vr_tenant_id row = tenant_of sv" "vr_terms row = PDict ts"
    and "contract_valid (abs_version (acceptances db) row)"
  shows "\<exists>row'. row' \<in> set (versions db') \<and> vr_id row' = vr_id row \<and>
    propose sha (abs_version (acceptances db) row) = Inr (abs_version (acceptances db') row')"
proof -
  from assms(1) obtain digest document where
      d: "vr_state row = VersionDraft" "document_digest sha (vr_terms row) = Inr digest"
    and u: "update_versions (\<lambda>r. vr_tenant_id r = tenant_of sv \<and> vr_id r = vr_id row)
      (\<lambda>r. r\<lparr>vr_state := VersionProposed, vr_document := Some document, vr_digest := Some digest\<rparr>) db = Inr db'"
    by (auto simp: do_propose_def tx_simps py_def sql_def)
  let ?row = "row\<lparr>vr_state := VersionProposed, vr_document := Some document, vr_digest := Some digest\<rparr>"
  have "?row \<in> set (versions db')" using updated_row [OF u assms(2)] assms(3) by simp
  moreover have "acceptances db' = acceptances db" using update_versions_others [OF u] by simp
  ultimately show ?thesis using d assms(4,5)
    by (intro exI [of _ ?row])
      (auto simp: propose_def abs_version_state contract_post_init_Inr)
qed

lemma accept_refines:
  assumes "do_accept sv now c row (Some d) role human db = Inr (x, db')" "consent_inv sha db"
    and "row \<in> set (versions db)" "vr_tenant_id row = tenant_of sv"
    and "contract_valid (abs_version (acceptances db) row)"
    and "role \<in> set (cb_required_party_roles (vr_body row))" "dt_aware now"
  shows "row \<in> set (versions db') \<and>
    accept (abs_version (acceptances db) row) role (uuid_str (user_of sv)) now d =
      Inr (abs_version (acceptances db') row)"
proof -
  let ?a = "\<lparr>pa_tenant_id = tenant_of sv, pa_version_id = vr_id row, pa_digest = d,
      pa_party_role = role, pa_principal_id = user_of sv, pa_accepted_at = now\<rparr>"
  from assms(1) have s: "vr_state row = VersionProposed" "vr_digest row = Some d"
    and i: "insert_acceptance ?a db = Inr db'"
    by (auto simp: do_accept_def tx_simps sql_def)
  have db': "db' = db\<lparr>acceptances := acceptances db @ [?a]\<rparr>"
    and fresh: "\<forall>b \<in> set (acceptances db). \<not> (tenant_of sv = pa_tenant_id b \<and> vr_id row = pa_version_id b \<and>
      d = pa_digest b \<and> role = pa_party_role b)"
    using i by (auto simp: insert_acceptance_def ebind_eq_Inr)
  have same: "pa_digest b = d" if "b \<in> set (acceptances db)" "belongs_to row b" for b
  proof -
    have "acceptance_ok (versions db) (authorities db) b" using assms(2) that(1) by (simp add: consent_inv_def)
    then obtain w where "w \<in> set (versions db)" "vr_id w = pa_version_id b" "vr_digest w = Some (pa_digest b)"
      by (auto simp: acceptance_ok_def)
    moreover from this have "w = row"
      using distinct_id_eq [of "versions db" w row] assms(2,3) that(2) by (simp add: consent_inv_def belongs_to_def)
    ultimately show ?thesis using s(2) by simp
  qed
  have "filter (\<lambda>a. ac_party_role a \<noteq> role) (map abs_acceptance (filter (belongs_to row) (acceptances db))) =
      map abs_acceptance (filter (belongs_to row) (acceptances db))"
    using fresh same assms(4) by (intro filter_True) (auto simp: abs_acceptance_def belongs_to_def)
  then show ?thesis using s assms(3-7)
    by (simp add: accept_def contract_post_init_Inr db')
      (simp add: abs_version_def abs_acceptance_def belongs_to_def)
qed

lemma activate_refines:
  assumes "do_activate sv c row db = Inr (x, db')"
    and "row \<in> set (versions db)" "vr_tenant_id row = tenant_of sv"
    and "contract_valid (abs_version (acceptances db) row)"
  shows "\<exists>row'. row' \<in> set (versions db') \<and> vr_id row' = vr_id row \<and>
    activate (abs_version (acceptances db) row) = Inr (abs_version (acceptances db') row')"
proof -
  from assms(1) obtain db1 db2 where
      r: "vr_state row = VersionProposed"
      "set (cb_required_party_roles (vr_body row)) = accepted_by (tenant_of sv) (vr_id row) (vr_digest row) db"
    and u1: "update_versions (\<lambda>r. vr_tenant_id r = tenant_of sv \<and> vr_contract_id r = c \<and>
         vr_state r = VersionActive) (\<lambda>r. r\<lparr>vr_state := VersionSuperseded\<rparr>) db = Inr db1"
    and u2: "update_versions (\<lambda>r. vr_tenant_id r = tenant_of sv \<and> vr_id r = vr_id row)
         (\<lambda>r. r\<lparr>vr_state := VersionActive\<rparr>) db1 = Inr db2"
    and u3: "update_contracts (\<lambda>r. pc_tenant_id r = tenant_of sv \<and> pc_id r = c)
         (\<lambda>r. r\<lparr>pc_state := ContractActive, pc_lock_version := pc_lock_version r + 1\<rparr>) db2 = Inr db'"
    by (auto simp: do_activate_def tx_simps sql_def)
  have row1: "row \<in> set (versions db1)"
    using update_versions_others [OF u1] assms(2) r(1) by (auto simp: image_iff intro!: bexI [of _ row])
  have "versions db' = versions db2" "acceptances db' = acceptances db"
    using u3 update_versions_others [OF u1] update_versions_others [OF u2]
    by (auto simp: update_contracts_def ebind_eq_Inr)
  moreover have "row\<lparr>vr_state := VersionActive\<rparr> \<in> set (versions db2)"
    using updated_row [OF u2 row1] assms(3) by simp
  moreover have "accepted_roles (abs_version (acceptances db) row) =
      accepted_by (tenant_of sv) (vr_id row) (vr_digest row) db"
    using assms(3) by (simp add: accepted_roles_def accepted_by_def filter_map image_image)
      (auto simp: abs_acceptance_def belongs_to_def)
  ultimately show ?thesis using r assms(4)
    by (intro exI [of _ "row\<lparr>vr_state := VersionActive\<rparr>"])
      (auto simp: activate_def abs_version_state contract_post_init_Inr)
qed



end
