(* ===== verification/PipelineDb.thy ===== *)
theory PipelineDb
  imports Transactions
begin

text \<open>
  The persistence of the event pipeline: the tables of migration 0003 with the columns that
  0006 and 0007 add, their unique keys, foreign keys, checks and column widths, and the
  trigger that lets a job attempt be finalised once, and the audit table of migration 0002.  Rows are kept in insertion order.  An
  instant is in microseconds; a 32-byte digest is kept as the hexadecimal text the code
  compares it by.  The columns \<open>created_at\<close> are left out, except for the endpoints, which are
  listed by it; so is the key on \<open>tenants\<close>, whose rows every caller has been checked against.
\<close>

section \<open>Rows\<close>

record endpoint_row =
  ep_id :: uuid
  ep_created_at :: int
  ep_tenant_id :: uuid
  ep_provider :: string
  ep_name :: string
  ep_public_token_digest :: string
  ep_status :: string
  ep_revoked_at :: "int option"

record secret_row =
  sc_id :: uuid
  sc_tenant_id :: uuid
  sc_endpoint_id :: uuid
  sc_version :: int
  sc_key_id :: string
  sc_nonce :: string
  sc_ciphertext :: string
  sc_not_before :: int
  sc_expires_at :: int
  sc_retired_at :: "int option"

record receipt_row =
  rc_id :: uuid
  rc_tenant_id :: uuid
  rc_endpoint_id :: uuid
  rc_provider_event_id :: string
  rc_payload_digest :: string
  rc_object_key :: string
  rc_received_at :: int

record event_row =
  ev_id :: uuid
  ev_tenant_id :: uuid
  ev_receipt_id :: "uuid option"
  ev_event_type :: string
  ev_event_version :: int
  ev_occurred_at :: int
  ev_payload :: pyval
  ev_payload_digest :: string

datatype job_state = JobPending | JobLeased | JobRetry | JobCompleted | JobDead

record job_row =
  jb_id :: uuid
  jb_tenant_id :: uuid
  jb_event_id :: uuid
  jb_kind :: string
  jb_state :: job_state
  jb_available_at :: int
  jb_attempt_count :: int
  jb_lease_token :: "uuid option"
  jb_lease_expires_at :: "int option"
  jb_completed_at :: "int option"
  jb_last_error_code :: "string option"

record attempt_row =
  at_id :: uuid
  at_tenant_id :: uuid
  at_job_id :: uuid
  at_attempt_number :: int
  at_lease_token :: uuid
  at_started_at :: int
  at_finished_at :: "int option"
  at_outcome :: "string option"
  at_error_code :: "string option"

record import_row =
  im_id :: uuid
  im_tenant_id :: uuid
  im_idempotency_key :: string
  im_object_key :: string
  im_object_digest :: string
  im_request_digest :: string
  im_state :: string
  im_total_rows :: int
  im_accepted_rows :: int
  im_rejected_rows :: int

record import_error_row =
  ie_id :: uuid
  ie_tenant_id :: uuid
  ie_import_id :: uuid
  ie_row_number :: int
  ie_code :: string
  ie_safe_message :: string

record replay_row =
  rp_id :: uuid
  rp_tenant_id :: uuid
  rp_source_event_id :: uuid
  rp_replay_event_id :: uuid
  rp_requested_by :: uuid
  rp_reason :: string
  rp_idempotency_key :: string
  rp_request_digest :: string

record run_row =
  rn_id :: uuid
  rn_tenant_id :: uuid
  rn_kind :: string
  rn_state :: string
  rn_started_at :: int
  rn_finished_at :: "int option"
  rn_summary :: pyval
  rn_idempotency_key :: string
  rn_request_digest :: string

record anomaly_row =
  an_id :: uuid
  an_tenant_id :: uuid
  an_run_id :: uuid
  an_code :: string
  an_resource_type :: string
  an_resource_id :: "uuid option"
  an_safe_details :: pyval

record heartbeat_row =
  hb_tenant_id :: uuid
  hb_worker_id :: uuid
  hb_observed_at :: int
  hb_status :: string

record audit_row =
  ad_tenant_id :: uuid
  ad_actor_user_id :: uuid
  ad_action :: string
  ad_resource_type :: string
  ad_resource_id :: uuid
  ad_correlation_id :: string

record pipeline =
  tenants :: "uuid list"
  endpoints :: "endpoint_row list"
  secrets :: "secret_row list"
  receipts :: "receipt_row list"
  events :: "event_row list"
  jobs :: "job_row list"
  attempts :: "attempt_row list"
  imports_table :: "import_row list"
  import_errors :: "import_error_row list"
  replays :: "replay_row list"
  runs :: "run_row list"
  anomalies :: "anomaly_row list"
  heartbeats :: "heartbeat_row list"
  audits :: "audit_row list"

definition empty_pipeline :: pipeline where
  "empty_pipeline = \<lparr>tenants = [], endpoints = [], secrets = [], receipts = [], events = [],
     jobs = [], attempts = [], imports_table = [], import_errors = [], replays = [], runs = [],
     anomalies = [], heartbeats = [], audits = []\<rparr>"

section \<open>Statements\<close>

definition has_row :: "('r \<Rightarrow> uuid) \<Rightarrow> ('r \<Rightarrow> uuid) \<Rightarrow> uuid \<Rightarrow> uuid \<Rightarrow> 'r list \<Rightarrow> bool" where
  "has_row tenant ident t i rows = list_ex (\<lambda>r. tenant r = t \<and> ident r = i) rows"

definition find_row :: "('r \<Rightarrow> uuid) \<Rightarrow> ('r \<Rightarrow> uuid) \<Rightarrow> uuid \<Rightarrow> uuid \<Rightarrow> 'r list \<Rightarrow> 'r option" where
  "find_row tenant ident t i rows = find (\<lambda>r. tenant r = t \<and> ident r = i) rows"

definition fits :: "nat \<Rightarrow> string \<Rightarrow> db_error + unit" where
  "fits n s = require (length s \<le> n) OutOfRange"

definition insert_endpoint :: "endpoint_row \<Rightarrow> pipeline \<Rightarrow> db_error + pipeline" where
  "insert_endpoint r db =
     ebind (fits 64 (ep_provider r)) (\<lambda>_. ebind (fits 120 (ep_name r)) (\<lambda>_.
     ebind (require (ep_status r \<in> {''active'', ''disabled'', ''revoked''}) CheckViolation) (\<lambda>_.
     ebind (insert_row UniqueViolation (\<lambda>a b. ep_id a = ep_id b \<or>
         ep_public_token_digest a = ep_public_token_digest b \<or>
         (ep_tenant_id a = ep_tenant_id b \<and> ep_provider a = ep_provider b \<and> ep_name a = ep_name b))
       r (endpoints db)) (\<lambda>rows. Inr (db\<lparr>endpoints := rows\<rparr>)))))"

text \<open>The checks \<open>ck_secret_version_positive\<close> and \<open>ck_secret_version_window\<close>.\<close>

definition secret_check :: "secret_row \<Rightarrow> bool" where
  "secret_check r \<longleftrightarrow> 0 < sc_version r \<and> sc_not_before r < sc_expires_at r"

definition insert_secret_version :: "secret_row \<Rightarrow> pipeline \<Rightarrow> db_error + pipeline" where
  "insert_secret_version r db =
     ebind (fits 128 (sc_key_id r)) (\<lambda>_. ebind (require (int4 (sc_version r)) OutOfRange) (\<lambda>_.
     ebind (require (secret_check r) CheckViolation) (\<lambda>_.
     ebind (insert_row UniqueViolation (\<lambda>a b. sc_id a = sc_id b \<or>
         (sc_tenant_id a = sc_tenant_id b \<and> sc_endpoint_id a = sc_endpoint_id b \<and>
          sc_version a = sc_version b)) r (secrets db)) (\<lambda>rows.
     ebind (require (has_row ep_tenant_id ep_id (sc_tenant_id r) (sc_endpoint_id r) (endpoints db))
        ForeignKeyViolation) (\<lambda>_. Inr (db\<lparr>secrets := rows\<rparr>))))))"

definition insert_receipt :: "receipt_row \<Rightarrow> pipeline \<Rightarrow> db_error + pipeline" where
  "insert_receipt r db =
     ebind (fits 255 (rc_provider_event_id r)) (\<lambda>_. ebind (fits 1024 (rc_object_key r)) (\<lambda>_.
     ebind (insert_row UniqueViolation (\<lambda>a b. rc_id a = rc_id b \<or>
         (rc_tenant_id a = rc_tenant_id b \<and> rc_endpoint_id a = rc_endpoint_id b \<and>
          rc_provider_event_id a = rc_provider_event_id b)) r (receipts db)) (\<lambda>rows.
     ebind (require (has_row ep_tenant_id ep_id (rc_tenant_id r) (rc_endpoint_id r) (endpoints db))
        ForeignKeyViolation) (\<lambda>_. Inr (db\<lparr>receipts := rows\<rparr>)))))"

definition event_clash :: "event_row \<Rightarrow> event_row \<Rightarrow> bool" where
  "event_clash a b \<longleftrightarrow> ev_id a = ev_id b \<or>
     (ev_tenant_id a = ev_tenant_id b \<and> ev_receipt_id a \<noteq> None \<and> ev_receipt_id a = ev_receipt_id b)"

definition event_key_known :: "event_row \<Rightarrow> pipeline \<Rightarrow> bool" where
  "event_key_known r db \<longleftrightarrow> (case ev_receipt_id r of None \<Rightarrow> True
     | Some i \<Rightarrow> has_row rc_tenant_id rc_id (ev_tenant_id r) i (receipts db))"

definition event_fits :: "event_row \<Rightarrow> db_error + unit" where
  "event_fits r = ebind (fits 120 (ev_event_type r)) (\<lambda>_.
     ebind (require (int4 (ev_event_version r)) OutOfRange) (\<lambda>_.
     require (0 < ev_event_version r) CheckViolation))"

definition insert_event :: "event_row \<Rightarrow> pipeline \<Rightarrow> db_error + pipeline" where
  "insert_event r db = ebind (event_fits r) (\<lambda>_.
     ebind (insert_row UniqueViolation event_clash r (events db)) (\<lambda>rows.
     ebind (require (event_key_known r db) ForeignKeyViolation) (\<lambda>_. Inr (db\<lparr>events := rows\<rparr>))))"

text \<open>\<open>ON CONFLICT (tenant_id,id) DO NOTHING\<close>.\<close>

definition insert_event_once :: "event_row \<Rightarrow> pipeline \<Rightarrow> db_error + pipeline" where
  "insert_event_once r db = (if has_row ev_tenant_id ev_id (ev_tenant_id r) (ev_id r) (events db)
     then ebind (event_fits r) (\<lambda>_. Inr db) else insert_event r db)"

definition job_clash :: "job_row \<Rightarrow> job_row \<Rightarrow> bool" where
  "job_clash a b \<longleftrightarrow> jb_id a = jb_id b \<or>
     (jb_tenant_id a = jb_tenant_id b \<and> jb_event_id a = jb_event_id b \<and> jb_kind a = jb_kind b)"

definition job_fits :: "job_row \<Rightarrow> db_error + unit" where
  "job_fits r = ebind (fits 80 (jb_kind r)) (\<lambda>_. ebind (require (int4 (jb_attempt_count r)) OutOfRange) (\<lambda>_.
     require (0 \<le> jb_attempt_count r) CheckViolation))"

definition insert_job :: "job_row \<Rightarrow> pipeline \<Rightarrow> db_error + pipeline" where
  "insert_job r db = ebind (job_fits r) (\<lambda>_.
     ebind (insert_row UniqueViolation job_clash r (jobs db)) (\<lambda>rows.
     ebind (require (has_row ev_tenant_id ev_id (jb_tenant_id r) (jb_event_id r) (events db))
        ForeignKeyViolation) (\<lambda>_. Inr (db\<lparr>jobs := rows\<rparr>))))"

text \<open>\<open>ON CONFLICT (tenant_id,event_id,kind) DO NOTHING\<close>.\<close>

definition same_job :: "job_row \<Rightarrow> job_row \<Rightarrow> bool" where
  "same_job a b \<longleftrightarrow> jb_tenant_id a = jb_tenant_id b \<and> jb_event_id a = jb_event_id b \<and> jb_kind a = jb_kind b"

definition insert_job_once :: "job_row \<Rightarrow> pipeline \<Rightarrow> db_error + pipeline" where
  "insert_job_once r db = (if list_ex (same_job r) (jobs db) then ebind (job_fits r) (\<lambda>_. Inr db)
     else insert_job r db)"

text \<open>A job as every producer inserts it: pending, due now, never attempted.\<close>

definition new_job :: "uuid \<Rightarrow> uuid \<Rightarrow> uuid \<Rightarrow> string \<Rightarrow> int \<Rightarrow> job_row" where
  "new_job i t e kind now = \<lparr>jb_id = i, jb_tenant_id = t, jb_event_id = e, jb_kind = kind,
     jb_state = JobPending, jb_available_at = now, jb_attempt_count = 0, jb_lease_token = None,
     jb_lease_expires_at = None, jb_completed_at = None, jb_last_error_code = None\<rparr>"

text \<open>
  \<open>outcomeos_finalize_attempt_only\<close> of migration 0006: an attempt is closed once and is
  immutable otherwise.
\<close>

definition attempt_trigger :: "attempt_row \<Rightarrow> attempt_row \<Rightarrow> db_error + unit" where
  "attempt_trigger old new = require
     (at_id old = at_id new \<and> at_tenant_id old = at_tenant_id new \<and> at_job_id old = at_job_id new \<and>
      at_attempt_number old = at_attempt_number new \<and> at_lease_token old = at_lease_token new \<and>
      at_started_at old = at_started_at new \<and> at_finished_at old = None \<and> at_outcome old = None \<and>
      at_error_code old = None \<and> at_finished_at new \<noteq> None \<and> at_outcome new \<noteq> None)
     (RaisedException ''job attempts are immutable except for one-way finalization'')"

definition insert_attempt :: "attempt_row \<Rightarrow> pipeline \<Rightarrow> db_error + pipeline" where
  "insert_attempt r db =
     ebind (require (0 < at_attempt_number r) CheckViolation) (\<lambda>_.
     ebind (insert_row UniqueViolation (\<lambda>a b. at_id a = at_id b \<or>
         (at_tenant_id a = at_tenant_id b \<and> at_job_id a = at_job_id b \<and>
          at_attempt_number a = at_attempt_number b)) r (attempts db)) (\<lambda>rows.
     ebind (require (has_row jb_tenant_id jb_id (at_tenant_id r) (at_job_id r) (jobs db))
        ForeignKeyViolation) (\<lambda>_. Inr (db\<lparr>attempts := rows\<rparr>))))"

definition insert_import :: "import_row \<Rightarrow> pipeline \<Rightarrow> db_error + pipeline" where
  "insert_import r db =
     ebind (fits 255 (im_idempotency_key r)) (\<lambda>_. ebind (fits 1024 (im_object_key r)) (\<lambda>_.
     ebind (insert_row UniqueViolation (\<lambda>a b. im_id a = im_id b \<or>
         (im_tenant_id a = im_tenant_id b \<and> im_idempotency_key a = im_idempotency_key b))
       r (imports_table db)) (\<lambda>rows. Inr (db\<lparr>imports_table := rows\<rparr>))))"

text \<open>\<open>ck_csv_import_state\<close> and \<open>ck_csv_import_counts\<close>.\<close>

definition import_check :: "import_row \<Rightarrow> bool" where
  "import_check r \<longleftrightarrow> im_state r \<in> {''uploaded'', ''processing'', ''completed'', ''failed''} \<and>
     0 \<le> im_total_rows r \<and> 0 \<le> im_accepted_rows r \<and> 0 \<le> im_rejected_rows r"

definition update_imports :: "(import_row \<Rightarrow> bool) \<Rightarrow> (import_row \<Rightarrow> import_row) \<Rightarrow> pipeline \<Rightarrow>
    db_error + pipeline" where
  "update_imports p f db =
     ebind (update_rows p f (\<lambda>_ new. ebind (require (int4 (im_total_rows new)) OutOfRange)
         (\<lambda>_. require (import_check new) CheckViolation)) (imports_table db))
       (\<lambda>rows. Inr (db\<lparr>imports_table := rows\<rparr>))"

definition same_import_error :: "import_error_row \<Rightarrow> import_error_row \<Rightarrow> bool" where
  "same_import_error a b \<longleftrightarrow> ie_tenant_id a = ie_tenant_id b \<and> ie_import_id a = ie_import_id b \<and>
     ie_row_number a = ie_row_number b \<and> ie_code a = ie_code b"

definition insert_import_error :: "import_error_row \<Rightarrow> pipeline \<Rightarrow> db_error + pipeline" where
  "insert_import_error r db =
     ebind (require (int4 (ie_row_number r)) OutOfRange) (\<lambda>_.
     ebind (require (0 < ie_row_number r) CheckViolation) (\<lambda>_.
     ebind (insert_or_ignore same_import_error r (import_errors db)
       (insert_row UniqueViolation (\<lambda>a b. ie_id a = ie_id b) r)) (\<lambda>rows.
     ebind (require (has_row im_tenant_id im_id (ie_tenant_id r) (ie_import_id r) (imports_table db))
        ForeignKeyViolation) (\<lambda>_. Inr (db\<lparr>import_errors := rows\<rparr>)))))"

definition insert_replay :: "replay_row \<Rightarrow> pipeline \<Rightarrow> db_error + pipeline" where
  "insert_replay r db =
     ebind (fits 500 (rp_reason r)) (\<lambda>_. ebind (fits 255 (rp_idempotency_key r)) (\<lambda>_.
     ebind (insert_row UniqueViolation (\<lambda>a b. rp_id a = rp_id b \<or>
         (rp_tenant_id a = rp_tenant_id b \<and> rp_idempotency_key a = rp_idempotency_key b))
       r (replays db)) (\<lambda>rows.
     ebind (require (has_row ev_tenant_id ev_id (rp_tenant_id r) (rp_source_event_id r) (events db) \<and>
         has_row ev_tenant_id ev_id (rp_tenant_id r) (rp_replay_event_id r) (events db))
        ForeignKeyViolation) (\<lambda>_. Inr (db\<lparr>replays := rows\<rparr>)))))"

definition insert_run :: "run_row \<Rightarrow> pipeline \<Rightarrow> db_error + pipeline" where
  "insert_run r db =
     ebind (fits 80 (rn_kind r)) (\<lambda>_. ebind (fits 255 (rn_idempotency_key r)) (\<lambda>_.
     ebind (insert_row UniqueViolation (\<lambda>a b. rn_id a = rn_id b \<or>
         (rn_tenant_id a = rn_tenant_id b \<and> rn_idempotency_key a = rn_idempotency_key b))
       r (runs db)) (\<lambda>rows. Inr (db\<lparr>runs := rows\<rparr>))))"

definition insert_anomaly :: "anomaly_row \<Rightarrow> pipeline \<Rightarrow> db_error + pipeline" where
  "insert_anomaly r db =
     ebind (fits 80 (an_code r)) (\<lambda>_. ebind (fits 80 (an_resource_type r)) (\<lambda>_.
     ebind (insert_row UniqueViolation (\<lambda>a b. an_id a = an_id b) r (anomalies db)) (\<lambda>rows.
     ebind (require (has_row rn_tenant_id rn_id (an_tenant_id r) (an_run_id r) (runs db))
        ForeignKeyViolation) (\<lambda>_. Inr (db\<lparr>anomalies := rows\<rparr>)))))"

definition insert_audit :: "audit_row \<Rightarrow> pipeline \<Rightarrow> db_error + pipeline" where
  "insert_audit r db =
     ebind (fits 100 (ad_action r)) (\<lambda>_. ebind (fits 64 (ad_resource_type r)) (\<lambda>_.
     ebind (fits 100 (ad_correlation_id r)) (\<lambda>_. Inr (db\<lparr>audits := audits db @ [r]\<rparr>))))"

section \<open>What the statements leave alone\<close>

lemma fits_Inr [simp]: "fits n s = Inr u \<longleftrightarrow> length s \<le> n"
  by (simp add: fits_def)

lemma insert_or_ignore_Inr:
  "insert_or_ignore same r rows ins = Inr rows' \<longleftrightarrow>
     (if \<exists>r' \<in> set rows. same r r' then rows' = rows else ins rows = Inr rows')"
  by (auto simp: insert_or_ignore_def list_ex_iff)

lemmas pipeline_inserts = insert_endpoint_def insert_secret_version_def insert_receipt_def
  event_fits_def job_fits_def insert_event_def insert_job_def insert_attempt_def insert_import_def update_imports_def
  insert_import_error_def insert_replay_def insert_run_def insert_anomaly_def insert_audit_def

section \<open>Requests\<close>

text \<open>
  What a request handler can raise, and what its caller sees: an answer, the status of an
  \<open>HTTPException\<close>, or a server error.  A handler's statements run in one transaction.
\<close>

datatype failure =
    HttpException nat string
  | SqlFailure db_error
  | PythonFailure exn
  | CipherFailure
  | StorageFailure string

type_synonym 'a op = "(pipeline, failure, 'a) tx"

datatype 'a reply =
    Answered nat 'a
  | Denied nat string
  | Crashed failure

fun reply_of :: "nat \<Rightarrow> failure + 'a \<Rightarrow> 'a reply" where
  "reply_of status (Inr x) = Answered status x"
| "reply_of status (Inl (HttpException n m)) = Denied n m"
| "reply_of status (Inl (SqlFailure e)) = Crashed (SqlFailure e)"
| "reply_of status (Inl (PythonFailure e)) = Crashed (PythonFailure e)"
| "reply_of status (Inl CipherFailure) = Crashed CipherFailure"
| "reply_of status (Inl (StorageFailure e)) = Crashed (StorageFailure e)"

definition respond :: "nat \<Rightarrow> 'a op \<Rightarrow> pipeline \<Rightarrow> 'a reply \<times> pipeline" where
  "respond status m db = (case transaction m db of (r, db') \<Rightarrow> (reply_of status r, db'))"

definition sqls :: "(pipeline \<Rightarrow> db_error + pipeline) \<Rightarrow> unit op" where
  "sqls f = change SqlFailure f"

definition expect :: "nat \<Rightarrow> string \<Rightarrow> (pipeline \<Rightarrow> 'a option) \<Rightarrow> 'a op" where
  "expect status detail f = bind (query f) (\<lambda>x. case x of None \<Rightarrow> raise (HttpException status detail) | Some r \<Rightarrow> ret r)"

lemma sqls_Inr [simp]: "sqls f db = Inr (u, db') \<longleftrightarrow> f db = Inr db'"
  by (simp add: sqls_def)

lemma expect_Inr [simp]: "expect status detail f db = Inr (x, db') \<longleftrightarrow> f db = Some x \<and> db' = db"
  by (auto simp: expect_def bind_Inr split: option.splits)

lemma reply_Answered: "reply_of status r = Answered n x \<longleftrightarrow> r = Inr x \<and> n = status"
  by (cases "(status, r)" rule: reply_of.cases) auto

lemma respond_Answered:
  "respond status m db = (Answered n x, db') \<longleftrightarrow> m db = Inr (x, db') \<and> n = status"
  by (auto simp: respond_def transaction_def reply_Answered split: sum.splits)

lemma respond_refused: "fst (respond status m db) \<noteq> Answered status x \<Longrightarrow> m db \<noteq> Inr (x, db')"
  by (auto simp: respond_def transaction_def split: sum.splits)

text \<open>A request that is not answered leaves the database as it was.\<close>

lemma respond_rolls_back: "respond status m db = (r, db') \<Longrightarrow> (\<nexists>n x. r = Answered n x) \<Longrightarrow> db' = db"
  by (auto simp: respond_def transaction_def split: sum.splits prod.splits)

end
