(* ===== verification/JobQueueFacts.thy ===== *)
theory JobQueueFacts
  imports JobQueue
begin

text \<open>
  What the job queue guarantees: its invariant under every interleaving of claims, finishes,
  lost leases and new jobs; that a lease belongs to one job and a stale one is powerless; and
  what a claim takes.
\<close>

section \<open>The invariant\<close>

definition job_ok :: "job_row \<Rightarrow> bool" where
  "job_ok r \<longleftrightarrow> (jb_state r = JobLeased \<longleftrightarrow> jb_lease_token r \<noteq> None) \<and>
     (jb_lease_token r = None \<longleftrightarrow> jb_lease_expires_at r = None) \<and>
     (jb_completed_at r \<noteq> None \<longleftrightarrow> jb_state r \<in> {JobCompleted, JobDead}) \<and> 0 \<le> jb_attempt_count r"

text \<open>An attempt belongs to a job; while it is open, the job is leased with its token.\<close>

definition attempt_fits :: "attempt_row \<Rightarrow> job_row \<Rightarrow> bool" where
  "attempt_fits a r \<longleftrightarrow> jb_id r = at_job_id a \<and> jb_tenant_id r = at_tenant_id a \<and>
     at_attempt_number a \<le> jb_attempt_count r \<and>
     (at_finished_at a = None \<longrightarrow> jb_state r = JobLeased \<and> jb_lease_token r = Some (at_lease_token a) \<and>
        at_attempt_number a = jb_attempt_count r)"

definition attempt_ok :: "job_row list \<Rightarrow> attempt_row \<Rightarrow> bool" where
  "attempt_ok rows a \<longleftrightarrow> 0 < at_attempt_number a \<and>
     (at_finished_at a = None \<longleftrightarrow> at_outcome a = None) \<and>
     (at_finished_at a = None \<longrightarrow> at_error_code a = None) \<and> (\<exists>r \<in> set rows. attempt_fits a r)"

definition numbers :: "attempt_row list \<Rightarrow> uuid \<Rightarrow> int set" where
  "numbers as j = at_attempt_number ` {a \<in> set as. at_job_id a = j}"

definition current :: "attempt_row list \<Rightarrow> job_row \<Rightarrow> bool" where
  "current as r \<longleftrightarrow> (\<forall>k. jb_lease_token r = Some k \<longrightarrow>
     (\<exists>a \<in> set as. at_job_id a = jb_id r \<and> at_lease_token a = k \<and> at_attempt_number a = jb_attempt_count r))"

definition queue_ok :: "job_row list \<Rightarrow> attempt_row list \<Rightarrow> bool" where
  "queue_ok js as \<longleftrightarrow> distinct (map jb_id js) \<and> (\<forall>r \<in> set js. job_ok r) \<and>
     (\<forall>a \<in> set as. attempt_ok js a) \<and>
     distinct (map (\<lambda>a. (at_job_id a, at_attempt_number a)) as) \<and> distinct (map at_lease_token as) \<and>
     (\<forall>r \<in> set js. numbers as (jb_id r) = {1 .. jb_attempt_count r}) \<and> (\<forall>r \<in> set js. current as r)"

abbreviation queue_inv :: "pipeline \<Rightarrow> bool" where
  "queue_inv db \<equiv> queue_ok (jobs db) (attempts db)"

lemma queue_ok_empty: "queue_ok [] []"
  by (simp add: queue_ok_def)

section \<open>Claims\<close>

text \<open>
  What the random source promises: the tokens of one claim are distinct and have never been
  used.
\<close>

definition fresh_tokens :: "(uuid \<Rightarrow> uuid) \<Rightarrow> pipeline \<Rightarrow> bool" where
  "fresh_tokens token db \<longleftrightarrow> inj_on token (jb_id ` set (jobs db)) \<and>
     token ` jb_id ` set (jobs db) \<inter> at_lease_token ` set (attempts db) = {}"

lemma set_candidates:
  "c \<in> set (candidates batch now locked rows) \<Longrightarrow> c \<in> set rows \<and> claimable now c \<and> \<not> locked (jb_id c)"
  by (auto simp: candidates_def dest: in_set_takeD)

lemma distinct_candidates:
  assumes "distinct (map jb_id rows)" shows "distinct (map jb_id (candidates batch now locked rows))"
proof -
  let ?xs = "sort_key jb_available_at (sort_key jb_id (filter (\<lambda>r. claimable now r \<and> \<not> locked (jb_id r)) rows))"
  have "distinct (map jb_id ?xs)"
    using assms by (auto simp: distinct_map inj_on_def)
  then show ?thesis unfolding candidates_def take_map [symmetric] by (rule distinct_take)
qed

lemma length_candidates: "int (length (candidates batch now locked rows)) \<le> max 0 (min batch 100)"
  by (simp add: candidates_def claim_limit_def)

lemma leased_simps [simp]:
  "jb_id (leased token now lease r) = jb_id r" "jb_tenant_id (leased token now lease r) = jb_tenant_id r"
  "jb_event_id (leased token now lease r) = jb_event_id r" "jb_kind (leased token now lease r) = jb_kind r"
  "jb_state (leased token now lease r) = JobLeased"
  "jb_lease_token (leased token now lease r) = Some (token (jb_id r))"
  "jb_attempt_count (leased token now lease r) = jb_attempt_count r + 1"
  "jb_completed_at (leased token now lease r) = jb_completed_at r"
  "jb_lease_expires_at (leased token now lease r) = Some (now + max 1 (min lease 3600) * micros)"
  by (simp_all add: leased_def)

lemma each_insert_attempt:
  "each insert_attempt as db = Inr db' \<Longrightarrow> db' = db\<lparr>attempts := attempts db @ as\<rparr>"
proof (induction as arbitrary: db)
  case (Cons a as)
  then obtain d where d: "insert_attempt a db = Inr d" "each insert_attempt as d = Inr db'"
    by (auto simp: ebind_eq_Inr)
  then have "d = db\<lparr>attempts := attempts db @ [a]\<rparr>"
    by (auto simp: insert_attempt_def ebind_eq_Inr)
  with Cons.IH [OF d(2)] show ?case by simp
qed simp

definition take_over :: "job_row list \<Rightarrow> int \<Rightarrow> attempt_row \<Rightarrow> attempt_row" where
  "take_over cs now a = (if lost_by cs a
     then a\<lparr>at_finished_at := Some now, at_outcome := Some ''lease_lost''\<rparr> else a)"

lemma claim_jobs_Inr:
  assumes "claim_jobs batch lease now locked token attempt_id db = Inr (js, db')"
  defines "cs \<equiv> candidates batch now locked (jobs db)"
  shows "js = map (leased token now lease) cs"
    and "db' = db\<lparr>jobs := map (\<lambda>r. if jb_id r \<in> jb_id ` set cs then leased token now lease r else r) (jobs db),
      attempts := map (take_over cs now) (attempts db) @ map (attempt_of token attempt_id now) js\<rparr>"
  using assms(1) unfolding claim_jobs_def Let_def cs_def [symmetric]
  by (auto simp: ebind_eq_Inr update_rows_Inr take_over_def dest!: each_insert_attempt)

lemma take_over_simps [simp]:
  "at_job_id (take_over cs now a) = at_job_id a" "at_tenant_id (take_over cs now a) = at_tenant_id a"
  "at_attempt_number (take_over cs now a) = at_attempt_number a"
  "at_lease_token (take_over cs now a) = at_lease_token a" "at_id (take_over cs now a) = at_id a"
  by (simp_all add: take_over_def)

lemma attempt_of_simps [simp]:
  "at_job_id (attempt_of token aid now r) = jb_id r" "at_tenant_id (attempt_of token aid now r) = jb_tenant_id r"
  "at_attempt_number (attempt_of token aid now r) = jb_attempt_count r"
  "at_lease_token (attempt_of token aid now r) = token (jb_id r)"
  "at_finished_at (attempt_of token aid now r) = None" "at_outcome (attempt_of token aid now r) = None"
  "at_error_code (attempt_of token aid now r) = None"
  by (simp_all add: attempt_of_def)

lemma numbers_append: "numbers (as @ bs) j = numbers as j \<union> numbers bs j"
  by (auto simp: numbers_def)

lemma numbers_map: "(\<And>a. at_job_id (f a) = at_job_id a \<and> at_attempt_number (f a) = at_attempt_number a) \<Longrightarrow>
    numbers (map f as) j = numbers as j"
  unfolding numbers_def by (auto simp: image_iff) metis+

lemma open_take_over:
  "at_finished_at (take_over cs now a) = None \<longleftrightarrow> at_finished_at a = None \<and> \<not> lost_by cs a"
  by (auto simp: take_over_def)

lemma take_over_ok:
  "at_finished_at a = None \<longleftrightarrow> at_outcome a = None \<Longrightarrow>
     at_finished_at (take_over cs now a) = None \<longleftrightarrow> at_outcome (take_over cs now a) = None"
  "at_finished_at a = None \<longrightarrow> at_error_code a = None \<Longrightarrow>
     at_finished_at (take_over cs now a) = None \<longrightarrow> at_error_code (take_over cs now a) = None"
  by (auto simp: take_over_def lost_by_def list_ex_iff)

lemma attempt_ok_taken:
  assumes "attempt_ok rows a"
    and "\<And>r. r \<in> set rows \<Longrightarrow> f r = (if r \<in> set cs then leased token now lease r else r)"
  shows "attempt_ok (map f rows) (take_over cs now a)"
proof -
  from assms(1) obtain r where r: "r \<in> set rows" "attempt_fits a r"
    by (auto simp: attempt_ok_def)
  have "attempt_fits (take_over cs now a) (f r)"
  proof (cases "r \<in> set cs")
    case True
    with r have "at_finished_at a = None \<Longrightarrow> lost_by cs a"
      by (auto simp: attempt_fits_def lost_by_def list_ex_iff)
    with r True show ?thesis
      by (auto simp: attempt_fits_def assms(2) open_take_over)
  next
    case False
    with r show ?thesis by (auto simp: attempt_fits_def assms(2) open_take_over)
  qed
  with assms(1) r(1) show ?thesis
    by (auto simp: attempt_ok_def intro!: take_over_ok)
qed

lemma claimed_job_ok: "job_ok r \<Longrightarrow> claimable now' r \<Longrightarrow> job_ok (leased token now lease r)"
  by (auto simp: job_ok_def claimable_def)

lemma numbers_attempt_of:
  "numbers (map (attempt_of token aid now) js) j = jb_attempt_count ` {r \<in> set js. jb_id r = j}"
  by (force simp: numbers_def image_def)

lemma claim_numbers:
  assumes "distinct (map jb_id rows)" "set cs \<subseteq> set rows" "r \<in> set rows"
    and "numbers as (jb_id r) = {1 .. jb_attempt_count r}" "0 \<le> jb_attempt_count r"
  shows "numbers (map (take_over cs now) as @ map (attempt_of token aid now) (map (leased token now lease) cs)) (jb_id r) =
     {1 .. jb_attempt_count (if r \<in> set cs then leased token now lease r else r)}"
proof -
  have "{c \<in> set cs. jb_id c = jb_id r} = (if r \<in> set cs then {r} else {})"
    using assms(1-3) by (auto dest: distinct_map_unique)
  then have "{c \<in> set (map (leased token now lease) cs). jb_id c = jb_id r} =
      leased token now lease ` (if r \<in> set cs then {r} else {})"
    by (simp only: set_map) (force split: if_splits)
  then have "numbers (map (take_over cs now) as @ map (attempt_of token aid now) (map (leased token now lease) cs)) (jb_id r) =
      {1 .. jb_attempt_count r} \<union> (if r \<in> set cs then {jb_attempt_count r + 1} else {})"
    by (simp only: numbers_append numbers_attempt_of numbers_map take_over_simps assms(4)) simp
  also have "\<dots> = {1 .. jb_attempt_count (if r \<in> set cs then leased token now lease r else r)}"
    using assms(5) by auto
  finally show ?thesis .
qed

lemma claim_keeps_queue:
  assumes ok: "queue_inv db" and fresh: "fresh_tokens token db"
    and claim: "claim_jobs batch lease now locked token attempt_id db = Inr (js, db')"
  shows "queue_inv db'"
proof -
  define cs where "cs = candidates batch now locked (jobs db)"
  define f where "f r = (if r \<in> set cs then leased token now lease r else r)" for r
  note db' = claim_jobs_Inr [OF claim, folded cs_def]
  have ids: "distinct (map jb_id (jobs db))" and as: "\<And>a. a \<in> set (attempts db) \<Longrightarrow> attempt_ok (jobs db) a"
    and jok: "\<And>r. r \<in> set (jobs db) \<Longrightarrow> job_ok r"
    and nums: "\<And>r. r \<in> set (jobs db) \<Longrightarrow> numbers (attempts db) (jb_id r) = {1 .. jb_attempt_count r}"
    and cur: "\<And>r. r \<in> set (jobs db) \<Longrightarrow> current (attempts db) r"
    using ok by (auto simp: queue_ok_def)
  have cs: "set cs \<subseteq> set (jobs db)" "distinct (map jb_id cs)" "\<And>c. c \<in> set cs \<Longrightarrow> claimable now c"
    using distinct_candidates [OF ids] by (auto simp: cs_def dest: set_candidates)
  have in_cs: "jb_id r \<in> jb_id ` set cs \<longleftrightarrow> r \<in> set cs" if "r \<in> set (jobs db)" for r
    using that cs(1) distinct_map_unique [OF ids] by blast
  have jobs': "jobs db' = map f (jobs db)"
    by (simp add: db' f_def in_cs cong: map_cong)
  have atts': "attempts db' = map (take_over cs now) (attempts db) @ map (attempt_of token attempt_id now) js"
    by (simp add: db')
  have js: "js = map f cs" by (simp add: db' f_def cong: map_cong)
  have fid: "jb_id (f r) = jb_id r" for r by (simp add: f_def)
  have new: "attempt_ok (jobs db') (attempt_of token attempt_id now (f c))" if "c \<in> set cs" for c
  proof -
    have "f c \<in> set (jobs db')" "0 \<le> jb_attempt_count c"
      using that cs(1) jok by (auto simp: jobs' job_ok_def)
    then show ?thesis using that
      by (auto simp: attempt_ok_def attempt_fits_def f_def intro!: bexI [of _ "leased token now lease c"])
  qed
  have bound: "at_attempt_number a \<le> jb_attempt_count r"
    if "a \<in> set (attempts db)" "r \<in> set (jobs db)" "at_job_id a = jb_id r" for a r
    using as [OF that(1)] that distinct_map_unique [OF ids] by (force simp: attempt_ok_def attempt_fits_def)
  have "distinct (map jb_id (jobs db'))"
    using ids by (simp add: jobs' fid comp_def)
  moreover have "\<forall>r \<in> set (jobs db'). job_ok r"
    using jok cs by (auto simp: jobs' f_def intro: claimed_job_ok)
  moreover have "\<forall>a \<in> set (attempts db'). attempt_ok (jobs db') a"
    using attempt_ok_taken [of "jobs db" _ f cs token now lease] as new
    by (auto simp: atts' js jobs' f_def)
  moreover have "distinct (map (\<lambda>a. (at_job_id a, at_attempt_number a)) (attempts db'))"
  proof -
    have "(at_job_id a, at_attempt_number a) \<noteq> (jb_id c, jb_attempt_count (f c))"
      if "a \<in> set (attempts db)" "c \<in> set cs" for a c
      using bound [OF that(1), of c] that(2) cs(1) by (auto simp: f_def)
    moreover have "distinct (map (\<lambda>r. (jb_id r, jb_attempt_count (f r))) cs)"
      using cs(2) by (auto simp: distinct_map inj_on_def)
    ultimately show ?thesis
      using ok by (auto simp: atts' js fid comp_def queue_ok_def)
  qed
  moreover have "distinct (map at_lease_token (attempts db'))"
  proof -
    have inj: "inj_on token (jb_id ` set (jobs db))"
      and apart: "\<And>c a. c \<in> set (jobs db) \<Longrightarrow> a \<in> set (attempts db) \<Longrightarrow> token (jb_id c) \<noteq> at_lease_token a"
      using fresh by (auto simp: fresh_tokens_def)
    have "distinct (map (\<lambda>c. token (jb_id c)) cs)"
      using cs(2) inj_on_subset [OF inj, of "jb_id ` set cs"] cs(1)
      by (simp add: distinct_map comp_inj_on [of jb_id, unfolded comp_def] image_mono)
    then show ?thesis
      using ok apart cs(1) by (fastforce simp: atts' js fid comp_def queue_ok_def)
  qed
  moreover have "\<forall>r \<in> set (jobs db'). numbers (attempts db') (jb_id r) = {1 .. jb_attempt_count r}"
    using claim_numbers [OF ids cs(1) _ nums] jok
    by (auto simp: jobs' atts' fid js job_ok_def) (simp_all add: f_def cong: map_cong)
  moreover have "\<forall>r \<in> set (jobs db'). current (attempts db') r"
  proof
    fix r' assume "r' \<in> set (jobs db')"
    then obtain r where r: "r \<in> set (jobs db)" "r' = f r" by (auto simp: jobs')
    show "current (attempts db') r'"
    proof (cases "r \<in> set cs")
      case True
      then show ?thesis using r
        by (auto simp: current_def f_def atts' js
            intro!: bexI [of _ "attempt_of token attempt_id now (leased token now lease r)"])
    next
      case False
      then show ?thesis using cur [OF r(1)] r
        by (auto simp: current_def f_def atts' bex_Un)
    qed
  qed
  ultimately show ?thesis by (simp add: queue_ok_def)
qed

section \<open>Finishes\<close>

definition close_attempt :: "uuid \<Rightarrow> uuid \<Rightarrow> string \<Rightarrow> string option \<Rightarrow> int \<Rightarrow> attempt_row \<Rightarrow> attempt_row" where
  "close_attempt job lease outcome error now a = (if open_attempt job lease a
     then a\<lparr>at_finished_at := Some now, at_outcome := Some outcome, at_error_code := error\<rparr> else a)"

definition finish_row :: "uuid \<Rightarrow> uuid \<Rightarrow> string \<Rightarrow> string option \<Rightarrow> int \<Rightarrow> int \<Rightarrow> job_row \<Rightarrow> job_row" where
  "finish_row job lease outcome error delay now r =
     (if holds job lease r then finished outcome error delay now r else r)"

lemma finished_simps [simp]:
  "jb_id (finished outcome error delay now r) = jb_id r"
  "jb_tenant_id (finished outcome error delay now r) = jb_tenant_id r"
  "jb_event_id (finished outcome error delay now r) = jb_event_id r"
  "jb_kind (finished outcome error delay now r) = jb_kind r"
  "jb_attempt_count (finished outcome error delay now r) = jb_attempt_count r"
  "jb_lease_token (finished outcome error delay now r) = None"
  "jb_state (finished outcome error delay now r) \<noteq> JobLeased"
  by (simp_all add: finished_def)

lemma close_attempt_simps [simp]:
  "at_job_id (close_attempt job lease outcome error now a) = at_job_id a"
  "at_tenant_id (close_attempt job lease outcome error now a) = at_tenant_id a"
  "at_attempt_number (close_attempt job lease outcome error now a) = at_attempt_number a"
  "at_lease_token (close_attempt job lease outcome error now a) = at_lease_token a"
  "at_finished_at (close_attempt job lease outcome error now a) = None \<longleftrightarrow>
     at_finished_at a = None \<and> \<not> open_attempt job lease a"
  by (simp_all add: close_attempt_def)

lemma one_holder: "distinct (map jb_id rows) \<Longrightarrow>
    length (filter (holds job lease) rows) = (if \<exists>r \<in> set rows. holds job lease r then 1 else 0)"
proof (induction rows)
  case (Cons r rows)
  have "\<not> holds job lease r'" if "r' \<in> set rows" "holds job lease r" for r'
    using Cons.prems that unfolding holds_def by (metis distinct.simps(2) imageI list.set_map list.simps(9))
  with Cons show ?case by auto
qed simp

text \<open>A finish either hits the one row that holds the lease, and closes its attempt, or nothing.\<close>

lemma finish_job_Inr:
  assumes "distinct (map jb_id (jobs db))"
    and "finish_job job lease outcome error delay now db = Inr (done, db')"
  shows "done \<longleftrightarrow> (\<exists>r \<in> set (jobs db). holds job lease r)"
    and "\<not> done \<Longrightarrow> db' = db"
    and "done \<Longrightarrow> db' = db\<lparr>jobs := map (finish_row job lease outcome error delay now) (jobs db),
      attempts := map (close_attempt job lease outcome error now) (attempts db)\<rparr>"
proof -
  have same: "map (\<lambda>r. if holds job lease r then g r else r) rows = rows"
    if "\<not> (\<exists>r \<in> set rows. holds job lease r)" for g rows
    using that by (induction rows) auto
  show "done \<longleftrightarrow> (\<exists>r \<in> set (jobs db). holds job lease r)"
    using assms by (auto simp: finish_job_def Let_def ebind_eq_Inr one_holder split: if_splits)
  show "\<not> done \<Longrightarrow> db' = db"
    using assms by (auto simp: finish_job_def Let_def ebind_eq_Inr one_holder same split: if_splits)
  show "done \<Longrightarrow> db' = db\<lparr>jobs := map (finish_row job lease outcome error delay now) (jobs db),
      attempts := map (close_attempt job lease outcome error now) (attempts db)\<rparr>"
    using assms by (auto simp: finish_job_def Let_def ebind_eq_Inr one_holder update_rows_Inr
        finish_row_def close_attempt_def fun_eq_iff split: if_splits)
qed

lemma finished_job_ok: "job_ok r \<Longrightarrow> outcome \<in> {''succeeded'', ''retry'', ''dead''} \<Longrightarrow>
    job_ok (finished outcome error delay now r)"
  by (auto simp: job_ok_def finished_def)

lemma attempt_ok_finished:
  assumes "attempt_ok rows a" "\<And>r. r \<in> set rows \<Longrightarrow> job_ok r"
  shows "attempt_ok (map (finish_row job lease outcome error delay now) rows)
    (close_attempt job lease outcome error now a)"
proof -
  from assms(1) obtain r where r: "r \<in> set rows" "attempt_fits a r" by (auto simp: attempt_ok_def)
  have "attempt_fits (close_attempt job lease outcome error now a) (finish_row job lease outcome error delay now r)"
    using r by (auto simp: attempt_fits_def finish_row_def holds_def open_attempt_def)
  then show ?thesis
    using assms(1) r(1) by (auto simp: attempt_ok_def) (auto simp: close_attempt_def open_attempt_def)
qed

lemma finish_keeps_queue:
  assumes ok: "queue_inv db"
    and fin: "finish_job job lease outcome error delay now db = Inr (done, db')"
  shows "queue_inv db'"
proof (cases "done")
  case False
  then show ?thesis using finish_job_Inr(2) [OF _ fin] ok by (auto simp: queue_ok_def)
next
  case True
  have ids: "distinct (map jb_id (jobs db))" using ok by (simp add: queue_ok_def)
  have out: "outcome \<in> {''succeeded'', ''retry'', ''dead''}"
    using fin by (auto simp: finish_job_def ebind_eq_Inr safe_outcome_def)
  have row: "jb_id (finish_row job lease outcome error delay now r) = jb_id r"
    "jb_attempt_count (finish_row job lease outcome error delay now r) = jb_attempt_count r" for r
    by (auto simp: finish_row_def)
  have db': "jobs db' = map (finish_row job lease outcome error delay now) (jobs db)"
    "attempts db' = map (close_attempt job lease outcome error now) (attempts db)"
    by (simp_all add: finish_job_Inr(3) [OF ids fin True])
  have "current (attempts db') (finish_row job lease outcome error delay now r)" if "current (attempts db) r" for r
    using that by (auto simp: db' current_def finish_row_def)
  moreover have "attempt_ok (jobs db') (close_attempt job lease outcome error now a)" if "a \<in> set (attempts db)" for a
    using ok that unfolding db' by (intro attempt_ok_finished) (auto simp: queue_ok_def)
  moreover have "job_ok (finish_row job lease outcome error delay now r)" if "job_ok r" for r
    using that out by (auto simp: finish_row_def intro: finished_job_ok)
  ultimately show ?thesis
    using ok unfolding queue_ok_def db'
    by (simp add: comp_def row numbers_map)
qed

lemma lease_lost_eq:
  "lease_lost job lease now db = Inr (b, db') \<Longrightarrow>
     db' = db\<lparr>attempts := map (\<lambda>a. if open_attempt job lease a
       then a\<lparr>at_finished_at := Some now, at_outcome := Some ''lease_lost''\<rparr> else a) (attempts db)\<rparr>"
  by (auto simp: lease_lost_def ebind_eq_Inr update_rows_Inr)

lemma lost_keeps_queue:
  assumes ok: "queue_inv db" and lost: "lease_lost job lease now db = Inr (b, db')"
  shows "queue_inv db'"
proof -
  define g where "g a = (if open_attempt job lease a
       then a\<lparr>at_finished_at := Some now, at_outcome := Some ''lease_lost''\<rparr> else a)" for a
  have g: "at_job_id (g a) = at_job_id a" "at_tenant_id (g a) = at_tenant_id a"
    "at_attempt_number (g a) = at_attempt_number a" "at_lease_token (g a) = at_lease_token a" for a
    by (simp_all add: g_def)
  have "attempt_ok (jobs db) (g a)" if "attempt_ok (jobs db) a" for a
    using that by (auto simp: attempt_ok_def attempt_fits_def g_def open_attempt_def)
  moreover have "current (map g (attempts db)) r" if "current (attempts db) r" for r
    using that by (auto simp: current_def g)
  ultimately show ?thesis
    using ok unfolding queue_ok_def lease_lost_eq [OF lost, folded g_def]
    by (simp add: comp_def g numbers_map)
qed

lemma insert_job_Inr:
  "insert_job r db = Inr db' \<Longrightarrow> db' = db\<lparr>jobs := jobs db @ [r]\<rparr> \<and> jb_id r \<notin> jb_id ` set (jobs db)"
  by (auto simp: insert_job_def job_fits_def ebind_eq_Inr job_clash_def)

lemma insert_keeps_queue:
  assumes ok: "queue_inv db" and "insert_job (new_job i t e kind now) db = Inr db'"
  shows "queue_inv db'"
proof -
  let ?r = "new_job i t e kind now"
  have db': "db' = db\<lparr>jobs := jobs db @ [?r]\<rparr>" and i: "i \<notin> jb_id ` set (jobs db)"
    using insert_job_Inr [OF assms(2)] by (simp_all add: new_job_def)
  have "at_job_id a \<noteq> i" if "a \<in> set (attempts db)" for a
  proof -
    from ok that have "attempt_ok (jobs db) a" by (simp add: queue_ok_def)
    then obtain r where "r \<in> set (jobs db)" "jb_id r = at_job_id a"
      by (auto simp: attempt_ok_def attempt_fits_def)
    with i show ?thesis by (metis imageI)
  qed
  then have "numbers (attempts db) i = {}" by (auto simp: numbers_def)
  moreover have "job_ok ?r" "current (attempts db) ?r" "jb_id ?r = i" "jb_attempt_count ?r = 0"
    by (simp_all add: job_ok_def current_def new_job_def)
  moreover have "attempt_ok (jobs db @ [?r]) a" if "attempt_ok (jobs db) a" for a
    using that by (auto simp: attempt_ok_def)
  ultimately show ?thesis
    using ok i unfolding queue_ok_def db' by simp
qed

section \<open>Every interleaving\<close>

text \<open>
  One transaction of any process of the system, as the queue sees it: a claim, a finish, a
  lost lease, a new job, or statements on the other tables.
\<close>

inductive queue_step :: "pipeline \<Rightarrow> pipeline \<Rightarrow> bool" where
  step_claim: "fresh_tokens token db \<Longrightarrow>
    claim_jobs batch lease now locked token attempt_id db = Inr (js, db') \<Longrightarrow> queue_step db db'"
| step_finish: "finish_job job lease_token outcome error delay now db = Inr (done, db') \<Longrightarrow> queue_step db db'"
| step_lost: "lease_lost job lease_token now db = Inr (done, db') \<Longrightarrow> queue_step db db'"
| step_enqueue: "insert_job (new_job i t e kind now) db = Inr db' \<Longrightarrow> queue_step db db'"
| step_other: "jobs db' = jobs db \<Longrightarrow> attempts db' = attempts db \<Longrightarrow> queue_step db db'"

definition queue_reachable :: "pipeline \<Rightarrow> bool" where
  "queue_reachable db \<longleftrightarrow> queue_step\<^sup>*\<^sup>* empty_pipeline db"

lemma step_keeps_queue: "queue_step db db' \<Longrightarrow> queue_inv db \<Longrightarrow> queue_inv db'"
proof (induction rule: queue_step.induct)
  case (step_claim token db batch lease now locked attempt_id js db')
  then show ?case using claim_keeps_queue by blast
next
  case (step_finish job lease_token outcome error delay now db "done" db')
  then show ?case using finish_keeps_queue by blast
next
  case (step_lost job lease_token now db "done" db')
  then show ?case using lost_keeps_queue by blast
next
  case (step_enqueue i t e kind now db db')
  then show ?case using insert_keeps_queue by blast
qed simp

lemma steps_keep_queue: "queue_step\<^sup>*\<^sup>* db db' \<Longrightarrow> queue_inv db \<Longrightarrow> queue_inv db'"
  by (induction rule: rtranclp_induct) (auto intro: step_keeps_queue)

lemma reachable_queue: "queue_reachable db \<Longrightarrow> queue_inv db"
  unfolding queue_reachable_def
  by (erule steps_keep_queue) (simp add: empty_pipeline_def queue_ok_empty)

lemma reachable_step: "queue_reachable db \<Longrightarrow> queue_step db db' \<Longrightarrow> queue_reachable db'"
  by (simp add: queue_reachable_def)

text \<open>How one step moves a single job, and what it does to the attempts.\<close>

lemma token_owner:
  assumes "queue_ok js as" "r \<in> set js" "s \<in> set js" "jb_lease_token r = Some k" "jb_lease_token s = Some k"
  shows "r = s"
proof -
  have "current as r" "current as s" using assms by (simp_all add: queue_ok_def)
  then obtain a b where a: "a \<in> set as" "at_job_id a = jb_id r" "at_lease_token a = k"
    and b: "b \<in> set as" "at_job_id b = jb_id s" "at_lease_token b = k"
    using assms(4,5) by (auto simp: current_def)
  then have "a = b" using assms(1) by (auto simp: queue_ok_def dest: distinct_map_unique)
  with a b have "jb_id r = jb_id s" by simp
  then show ?thesis using assms(1-3) by (auto simp: queue_ok_def dest: distinct_map_unique)
qed

definition settled :: "job_row \<Rightarrow> bool" where
  "settled r \<longleftrightarrow> jb_state r \<in> {JobCompleted, JobDead}"

lemma claimed_not_settled: "claimable now r \<Longrightarrow> \<not> settled r"
  by (auto simp: claimable_def settled_def)

lemma step_settled:
  assumes "queue_step db db'" "queue_inv db" "r \<in> set (jobs db)" "settled r" shows "r \<in> set (jobs db')"
  using assms
proof cases
  case (step_claim token batch lease now locked attempt_id js)
  let ?cs = "candidates batch now locked (jobs db)"
  have "jb_id r \<notin> jb_id ` set ?cs"
    using assms distinct_map_unique [of jb_id "jobs db"]
    by (auto simp: queue_ok_def dest!: set_candidates dest: claimed_not_settled)
  then show ?thesis using assms(3) by (auto simp: claim_jobs_Inr(2) [OF step_claim(2)])
next
  case (step_finish job lease_token outcome error delay now "done")
  have row: "finish_row job lease_token outcome error delay now r = r"
    using assms(4) by (auto simp: finish_row_def holds_def settled_def)
  have "distinct (map jb_id (jobs db))" using assms(2) by (simp add: queue_ok_def)
  note fin = finish_job_Inr [OF this step_finish]
  show ?thesis
  proof (cases "done")
    case True
    with fin(3) have "jobs db' = map (finish_row job lease_token outcome error delay now) (jobs db)" by simp
    then show ?thesis using assms(3) row by (metis image_eqI list.set_map)
  qed (use fin(2) assms(3) in simp)
next
  case (step_enqueue i t e kind now)
  then show ?thesis using assms(3) insert_job_Inr by fastforce
qed (auto simp: assms dest: lease_lost_eq)

text \<open>A token that was used by an attempt and that no job holds is spent.\<close>

definition spent :: "uuid \<Rightarrow> pipeline \<Rightarrow> bool" where
  "spent k db \<longleftrightarrow> k \<in> at_lease_token ` set (attempts db) \<and> (\<forall>r \<in> set (jobs db). jb_lease_token r \<noteq> Some k)"

lemma step_spent:
  assumes "queue_step db db'" "queue_inv db" "spent k db" shows "spent k db'"
  using assms
proof cases
  case (step_claim token batch lease now locked attempt_id js)
  have "token (jb_id r) \<noteq> k" if "r \<in> set (jobs db)" for r
    using assms(3) step_claim(1) that by (auto simp: spent_def fresh_tokens_def)
  then show ?thesis
    using assms(3) by (auto simp: claim_jobs_Inr(2) [OF step_claim(2)] spent_def image_Un image_image
        dest: set_candidates)
next
  case (step_finish job lease_token outcome error delay now "done")
  have ids: "distinct (map jb_id (jobs db))" using assms(2) by (simp add: queue_ok_def)
  show ?thesis
  proof (cases "done")
    case True
    then show ?thesis
      using assms(3) finish_job_Inr(3) [OF ids step_finish]
      by (auto simp: spent_def finish_row_def image_image)
  qed (use finish_job_Inr(2) [OF ids step_finish] assms(3) in simp)
next
  case (step_lost job lease_token now "done")
  define g where "g a = (if open_attempt job lease_token a
       then a\<lparr>at_finished_at := Some now, at_outcome := Some ''lease_lost''\<rparr> else a)" for a
  have "at_lease_token (g a) = at_lease_token a" for a by (simp add: g_def)
  then have "at_lease_token ` set (attempts db') = at_lease_token ` set (attempts db)"
    by (simp add: lease_lost_eq [OF step_lost, folded g_def] image_image)
  moreover have "jobs db' = jobs db" by (simp add: lease_lost_eq [OF step_lost])
  ultimately show ?thesis using assms(3) by (simp add: spent_def)
next
  case (step_enqueue i t e kind now)
  then show ?thesis using assms(3) insert_job_Inr by (fastforce simp: spent_def new_job_def)
qed (auto simp: spent_def)

text \<open>An attempt that is closed stays as it is.\<close>

lemma step_closed_attempt:
  assumes "queue_step db db'" "queue_inv db" "a \<in> set (attempts db)" "at_finished_at a \<noteq> None"
  shows "a \<in> set (attempts db')"
  using assms
proof cases
  case (step_claim token batch lease now locked attempt_id js)
  have "take_over (candidates batch now locked (jobs db)) now a = a"
    using assms(4) by (auto simp: take_over_def lost_by_def list_ex_iff)
  then show ?thesis using assms(3) by (simp add: claim_jobs_Inr(2) [OF step_claim(2)]) (metis imageI)
next
  case (step_finish job lease_token outcome error delay now "done")
  have ids: "distinct (map jb_id (jobs db))" using assms(2) by (simp add: queue_ok_def)
  have "close_attempt job lease_token outcome error now a = a"
    using assms(4) by (auto simp: close_attempt_def open_attempt_def)
  then show ?thesis
    using assms(3) finish_job_Inr [OF ids step_finish] by (cases "done") (auto, metis imageI)
next
  case (step_lost job lease_token now "done")
  then show ?thesis
    using assms(3,4) lease_lost_eq [OF step_lost] by (force simp: open_attempt_def image_iff)
next
  case (step_enqueue i t e kind now)
  then show ?thesis using assms(3) insert_job_Inr by fastforce
qed (auto simp: assms)



lemma steps_settled:
  assumes "queue_step\<^sup>*\<^sup>* db db'" "queue_inv db" "r \<in> set (jobs db)" "settled r" shows "r \<in> set (jobs db')"
  using assms
  by (induction rule: rtranclp_induct) (auto intro: step_settled dest: steps_keep_queue)

lemma steps_spent:
  assumes "queue_step\<^sup>*\<^sup>* db db'" "queue_inv db" "spent k db" shows "spent k db'"
  using assms by (induction rule: rtranclp_induct) (auto intro: step_spent dest: steps_keep_queue)

lemma steps_closed_attempt:
  assumes "queue_step\<^sup>*\<^sup>* db db'" "queue_inv db" "a \<in> set (attempts db)" "at_finished_at a \<noteq> None"
  shows "a \<in> set (attempts db')"
  using assms by (induction rule: rtranclp_induct) (auto intro: step_closed_attempt dest: steps_keep_queue)

section \<open>A claim takes the oldest due jobs\<close>

definition older :: "job_row \<Rightarrow> job_row \<Rightarrow> bool" where
  "older r s \<longleftrightarrow> jb_available_at r < jb_available_at s \<or>
     (jb_available_at r = jb_available_at s \<and> jb_id r \<le> jb_id s)"

lemma sorted_stable: "sorted (map f xs) \<Longrightarrow> sorted_wrt (\<lambda>a b. f a \<le> f b) xs"
  by (simp add: sorted_map)

lemma insort_key_older:
  assumes "sorted_wrt older xs" "\<forall>y \<in> set xs. jb_id x \<le> jb_id y"
  shows "sorted_wrt older (insort_key jb_available_at x xs)"
  using assms by (induction xs) (auto simp: older_def set_insort_key)

lemma sort_by_age: "sorted (map jb_id xs) \<Longrightarrow> sorted_wrt older (sort_key jb_available_at xs)"
  by (induction xs) (auto intro: insort_key_older)

lemma candidates_sorted:
  "sorted_wrt older (sort_key jb_available_at (sort_key jb_id rows))"
  by (rule sort_by_age) simp

lemma sorted_wrt_take_drop: "sorted_wrt P xs \<Longrightarrow> x \<in> set (take n xs) \<Longrightarrow> y \<in> set (drop n xs) \<Longrightarrow> P x y"
  by (metis append_take_drop_id sorted_wrt_append)

lemma candidates_oldest:
  fixes rows :: "job_row list"
  assumes "s \<in> set rows" "claimable now s" "\<not> locked (jb_id s)" "s \<notin> set (candidates batch now locked rows)"
  shows "length (candidates batch now locked rows) = claim_limit batch"
    and "r \<in> set (candidates batch now locked rows) \<Longrightarrow> older r s"
proof -
  define all where "all = sort_key jb_available_at (sort_key jb_id (filter (\<lambda>r. claimable now r \<and> \<not> locked (jb_id r)) rows))"
  have cs: "candidates batch now locked rows = take (claim_limit batch) all"
    by (simp add: candidates_def all_def)
  have "s \<in> set all" using assms(1-3) by (simp add: all_def)
  then have s: "s \<in> set (drop (claim_limit batch) all)"
    using assms(4) unfolding cs by (metis Un_iff append_take_drop_id set_append)
  then have "claim_limit batch < length all" by (metis drop_all empty_iff empty_set leI)
  then show "length (candidates batch now locked rows) = claim_limit batch" by (simp add: cs)
  show "older r s" if "r \<in> set (candidates batch now locked rows)"
    using sorted_wrt_take_drop [OF _ that [unfolded cs] s] candidates_sorted unfolding all_def by blast
qed

section \<open>Properties\<close>

text \<open>
  C6. The attempts of a job are numbered from one without gaps, and an open attempt belongs to
  the job that is leased with its token and is the job's latest: the queue never shows the
  anomaly that reconciliation looks for, whatever the order of claims, finishes, lost leases
  and new jobs.
\<close>

theorem attempts_consistent:
  assumes "queue_reachable db"
  shows "\<forall>r \<in> set (jobs db). numbers (attempts db) (jb_id r) = {1 .. jb_attempt_count r} \<and>
      (\<forall>a \<in> set (attempts db). at_job_id a = jb_id r \<and> at_finished_at a = None \<longrightarrow>
        jb_state r = JobLeased \<and> jb_lease_token r = Some (at_lease_token a) \<and>
        at_attempt_number a = jb_attempt_count r)"
proof (intro ballI conjI impI)
  fix r a assume r: "r \<in> set (jobs db)"
  note ok = reachable_queue [OF assms]
  show "numbers (attempts db) (jb_id r) = {1 .. jb_attempt_count r}"
    using ok r by (simp add: queue_ok_def)
  assume a: "a \<in> set (attempts db)" "at_job_id a = jb_id r \<and> at_finished_at a = None"
  then obtain s where "s \<in> set (jobs db)" "attempt_fits a s"
    using ok by (auto simp: queue_ok_def attempt_ok_def)
  moreover from this have "s = r"
    using ok r a by (auto simp: queue_ok_def attempt_fits_def dest: distinct_map_unique)
  ultimately show "jb_state r = JobLeased" "jb_lease_token r = Some (at_lease_token a)"
    "at_attempt_number a = jb_attempt_count r"
    using a by (auto simp: attempt_fits_def)
qed

text \<open>
  C26. A lease belongs to one job, and a worker whose lease was taken over or given back can no
  longer change anything: once no job holds the token of an attempt, every later finish with
  that token answers false and leaves the database as it is.
\<close>

theorem stale_lease_powerless:
  assumes "queue_reachable db0" "a \<in> set (attempts db0)"
    and "\<forall>r \<in> set (jobs db0). jb_lease_token r \<noteq> Some (at_lease_token a)"
    and "queue_step\<^sup>*\<^sup>* db0 db"
    and "finish_job job (at_lease_token a) outcome error delay now db = Inr (done, db')"
  shows "\<not> done \<and> db' = db"
proof -
  have inv: "queue_inv db0" "queue_inv db"
    using assms(1,4) reachable_queue steps_keep_queue by blast+
  have "spent (at_lease_token a) db0" using assms(2,3) by (auto simp: spent_def)
  then have "spent (at_lease_token a) db" using steps_spent assms(4) inv(1) by blast
  then have "\<not> (\<exists>r \<in> set (jobs db). holds job (at_lease_token a) r)"
    by (auto simp: spent_def holds_def)
  moreover have "distinct (map jb_id (jobs db))" using inv(2) by (simp add: queue_ok_def)
  ultimately show ?thesis using finish_job_Inr(1,2) [OF _ assms(5)] by blast
qed

text \<open>
  No two jobs are ever leased with the same token.
\<close>

theorem leases_exclusive:
  assumes "queue_reachable db" "r \<in> set (jobs db)" "s \<in> set (jobs db)"
    and "jb_lease_token r = Some k" "jb_lease_token s = Some k"
  shows "r = s"
  using token_owner [OF reachable_queue [OF assms(1)]] assms(2-5) by blast

text \<open>
  A completed or dead job, and an attempt that is closed, never change again.
\<close>

theorem finished_jobs_final:
  assumes "queue_reachable db" "queue_step\<^sup>*\<^sup>* db db'"
  shows "{r \<in> set (jobs db). jb_state r \<in> {JobCompleted, JobDead}} \<subseteq> set (jobs db') \<and>
    {a \<in> set (attempts db). at_finished_at a \<noteq> None} \<subseteq> set (attempts db')"
  using steps_settled [OF assms(2)] steps_closed_attempt [OF assms(2)] reachable_queue [OF assms(1)]
  by (auto simp: settled_def)

text \<open>
  C36. A claim takes jobs that are due (or whose lease has run out) and that nobody has locked,
  at most a hundred and at most the batch, the oldest first: a due job it leaves behind is
  younger than every job it takes, and is left only when the batch is full.  Each claimed job
  is leased into the future with one attempt more.
\<close>

theorem claim_takes_oldest:
  assumes "claim_jobs batch lease now locked token attempt_id db = Inr (js, db')"
  shows "\<exists>taken. js = map (leased token now lease) taken \<and> length taken \<le> claim_limit batch \<and>
    set taken \<subseteq> {r \<in> set (jobs db). claimable now r \<and> \<not> locked (jb_id r)} \<and>
    (\<forall>s \<in> {s \<in> set (jobs db). claimable now s \<and> \<not> locked (jb_id s)} - set taken.
       length taken = claim_limit batch \<and> (\<forall>r \<in> set taken. older r s)) \<and>
    (\<forall>j \<in> set js. jb_state j = JobLeased \<and> (\<exists>t > now. jb_lease_expires_at j = Some t))"
proof (intro exI conjI)
  let ?cs = "candidates batch now locked (jobs db)"
  show js: "js = map (leased token now lease) ?cs" by (rule claim_jobs_Inr(1) [OF assms])
  show "length ?cs \<le> claim_limit batch" by (simp add: candidates_def)
  show "set ?cs \<subseteq> {r \<in> set (jobs db). claimable now r \<and> \<not> locked (jb_id r)}"
    by (auto dest: set_candidates)
  show "\<forall>s \<in> {s \<in> set (jobs db). claimable now s \<and> \<not> locked (jb_id s)} - set ?cs.
       length ?cs = claim_limit batch \<and> (\<forall>r \<in> set ?cs. older r s)"
    using candidates_oldest [where rows = "jobs db"] by auto
  have "0 < max 1 (min lease 3600) * micros" by (simp add: micros_def)
  then show "\<forall>j \<in> set js. jb_state j = JobLeased \<and> (\<exists>t > now. jb_lease_expires_at j = Some t)"
    unfolding js by auto
qed

section \<open>A sample history\<close>

text \<open>
  One job is queued, claimed, handed back for retry, claimed again under a new lease and
  completed.
\<close>

definition sample_event_row :: event_row where
  "sample_event_row = \<lparr>ev_id = 7, ev_tenant_id = 1, ev_receipt_id = None, ev_event_type = ''booking.confirmed'',
     ev_event_version = 1, ev_occurred_at = 0, ev_payload = PDict [], ev_payload_digest = []\<rparr>"

definition sample_q0 :: pipeline where
  "sample_q0 = empty_pipeline\<lparr>tenants := [1], events := [sample_event_row]\<rparr>"

definition sample_q1 :: pipeline where
  "sample_q1 = sample_q0\<lparr>jobs := [new_job 10 1 7 ''ingest.canonical_event.v1'' 0]\<rparr>"

definition sample_claim :: "int \<Rightarrow> (uuid \<Rightarrow> uuid) \<Rightarrow> pipeline \<Rightarrow> db_error + job_row list \<times> pipeline" where
  "sample_claim now token = claim_jobs 10 60 now (\<lambda>_. False) token (\<lambda>j. 1000 + token j)"

definition sample_token :: "uuid \<Rightarrow> uuid \<Rightarrow> uuid" where
  "sample_token n j = n + j"

definition sample_q2 :: pipeline where
  "sample_q2 = snd (projr (sample_claim 0 (sample_token 100) sample_q1))"

definition sample_q3 :: pipeline where
  "sample_q3 = snd (projr (finish_job 10 110 ''retry'' (Some ''transient_failure'') 5 1000000 sample_q2))"

definition sample_q4 :: pipeline where
  "sample_q4 = snd (projr (sample_claim 10000000 (sample_token 300) sample_q3))"

definition sample_q5 :: pipeline where
  "sample_q5 = snd (projr (finish_job 10 310 ''succeeded'' None 0 11000000 sample_q4))"

lemmas sample_defs = sample_event_row_def sample_q0_def sample_q1_def sample_claim_def sample_token_def
  empty_pipeline_def new_job_def

lemma sample_insert: "insert_job (new_job 10 1 7 ''ingest.canonical_event.v1'' 0) sample_q0 = Inr sample_q1"
  by code_simp

lemma sample_claim_1: "sample_claim 0 (sample_token 100) sample_q1 = Inr ([leased (sample_token 100) 0 60 (hd (jobs sample_q1))], sample_q2)"
  by code_simp

lemma sample_finish_1:
  "finish_job 10 110 ''retry'' (Some ''transient_failure'') 5 1000000 sample_q2 = Inr (True, sample_q3)"
  by code_simp

lemma sample_claim_2: "is_ok (sample_claim 10000000 (sample_token 300) sample_q3)"
  by code_simp

lemma sample_finish_2: "finish_job 10 310 ''succeeded'' None 0 11000000 sample_q4 = Inr (True, sample_q5)"
  by code_simp

lemma sample_stale: "finish_job 10 110 ''succeeded'' None 0 11000000 sample_q4 = Inr (False, sample_q4)"
  by code_simp

lemma sample_tokens_used:
  "jb_id ` set (jobs sample_q1) = {10}" "attempts sample_q1 = []"
  "jb_id ` set (jobs sample_q3) = {10}" "at_lease_token ` set (attempts sample_q3) = {110}"
  by code_simp+

lemma sample_ids_fresh: "fresh_tokens (sample_token 100) sample_q1" "fresh_tokens (sample_token 300) sample_q3"
  by (simp_all add: fresh_tokens_def sample_tokens_used sample_token_def)

lemma sample_steps:
  "queue_step sample_q1 sample_q2" "queue_step sample_q2 sample_q3"
  "queue_step sample_q3 sample_q4" "queue_step sample_q4 sample_q5"
proof -
  show "queue_step sample_q1 sample_q2"
    using step_claim [OF sample_ids_fresh(1) sample_claim_1 [unfolded sample_claim_def]] .
  show "queue_step sample_q2 sample_q3" by (rule step_finish [OF sample_finish_1])
  obtain js where "sample_claim 10000000 (sample_token 300) sample_q3 = Inr (js, sample_q4)"
    using sample_claim_2 unfolding sample_q4_def is_ok_iff by (metis prod.collapse sum.sel(2))
  then show "queue_step sample_q3 sample_q4"
    unfolding sample_claim_def by (rule step_claim [OF sample_ids_fresh(2)])
  show "queue_step sample_q4 sample_q5" by (rule step_finish [OF sample_finish_2])
qed

lemma sample_reachable: "queue_reachable sample_q2" "queue_reachable sample_q3" "queue_reachable sample_q5"
  "queue_reachable sample_q1"
proof -
  have "queue_step empty_pipeline sample_q0"
    by (rule step_other) (simp_all add: sample_q0_def)
  moreover have "queue_step sample_q0 sample_q1" by (rule step_enqueue [OF sample_insert])
  moreover have "queue_reachable empty_pipeline" by (simp add: queue_reachable_def)
  ultimately show q1: "queue_reachable sample_q1" by (blast intro: reachable_step)
  then show "queue_reachable sample_q2" "queue_reachable sample_q3" "queue_reachable sample_q5"
    using sample_steps by (blast intro: reachable_step)+
qed

theorem attempts_consistent_witness:
  "\<exists>db r a. queue_reachable db \<and> r \<in> set (jobs db) \<and> numbers (attempts db) (jb_id r) = {1 .. 1} \<and>
     a \<in> set (attempts db) \<and> jb_state r = JobLeased \<and> jb_lease_token r = Some (at_lease_token a)"
proof -
  have ex: "\<exists>r \<in> set (jobs sample_q2). jb_attempt_count r = 1 \<and>
      (\<exists>a \<in> set (attempts sample_q2). at_job_id a = jb_id r \<and> at_finished_at a = None)"
    by code_simp
  then obtain r a where "r \<in> set (jobs sample_q2)" "jb_attempt_count r = 1"
    "a \<in> set (attempts sample_q2)" "at_job_id a = jb_id r" "at_finished_at a = None" by blast
  then show ?thesis using attempts_consistent [OF sample_reachable(1)] sample_reachable(1) by metis
qed

theorem stale_lease_powerless_witness:
  "\<exists>a db'. a \<in> set (attempts sample_q3) \<and>
     finish_job 10 (at_lease_token a) ''succeeded'' None 0 11000000 sample_q4 = Inr (False, db') \<and> db' = sample_q4"
proof -
  have "\<exists>a \<in> set (attempts sample_q3). at_lease_token a = 110" by code_simp
  then obtain a where a: "a \<in> set (attempts sample_q3)" "at_lease_token a = 110" by blast
  have free: "\<forall>r \<in> set (jobs sample_q3). jb_lease_token r \<noteq> Some 110" by code_simp
  have fin: "finish_job 10 (at_lease_token a) ''succeeded'' None 0 11000000 sample_q4 = Inr (False, sample_q4)"
    using sample_stale a(2) by simp
  have "\<not> False \<and> sample_q4 = sample_q4"
    using stale_lease_powerless [OF sample_reachable(2) a(1) _ _ fin] free a(2) sample_steps(3) by auto
  with a(1) fin show ?thesis by blast
qed

theorem leases_exclusive_witness:
  "\<exists>r k. r \<in> set (jobs sample_q2) \<and> jb_lease_token r = Some k \<and> (THE s. s \<in> set (jobs sample_q2) \<and> jb_lease_token s = Some k) = r"
proof -
  have "\<exists>r \<in> set (jobs sample_q2). jb_lease_token r = Some 110" by code_simp
  then obtain r where r: "r \<in> set (jobs sample_q2)" "jb_lease_token r = Some 110" by blast
  have "(THE s. s \<in> set (jobs sample_q2) \<and> jb_lease_token s = Some 110) = r"
    using leases_exclusive [OF sample_reachable(1)] r by (intro the_equality) blast+
  with r show ?thesis by blast
qed

theorem finished_jobs_final_witness:
  "\<exists>r. queue_reachable sample_q5 \<and> r \<in> set (jobs sample_q5) \<and> jb_state r = JobCompleted \<and>
     {r \<in> set (jobs sample_q5). jb_state r \<in> {JobCompleted, JobDead}} \<subseteq> set (jobs (sample_q5\<lparr>events := []\<rparr>))"
proof -
  have "queue_step sample_q5 (sample_q5\<lparr>events := []\<rparr>)" by (rule step_other) simp_all
  then have "queue_step\<^sup>*\<^sup>* sample_q5 (sample_q5\<lparr>events := []\<rparr>)" by blast
  note finished_jobs_final [OF sample_reachable(3) this]
  moreover have "\<exists>r \<in> set (jobs sample_q5). jb_state r = JobCompleted" by code_simp
  ultimately show ?thesis using sample_reachable(3) by blast
qed

theorem claim_takes_oldest_witness:
  "\<exists>js. sample_claim 0 (sample_token 100) sample_q1 = Inr (js, sample_q2) \<and>
    (\<exists>taken. js = map (leased (sample_token 100) 0 60) taken \<and> length taken \<le> claim_limit 10 \<and> taken \<noteq> [])"
proof -
  note c = sample_claim_1 [unfolded sample_claim_def]
  from claim_takes_oldest [OF c] obtain taken where
    t: "[leased (sample_token 100) 0 60 (hd (jobs sample_q1))] = map (leased (sample_token 100) 0 60) taken"
    "length taken \<le> claim_limit 10" by (elim exE conjE) (rule that)
  then have "taken \<noteq> []" by auto
  with t sample_claim_1 show ?thesis by (intro exI conjI)
qed

end
