(* ===== verification/JobRunnerFacts.thy ===== *)
theory JobRunnerFacts
  imports JobRunner "HOL-Library.Countable"
begin

text \<open>
  The contract between the worker and its queue as a locale, the worker's guarantees proved
  from it, the SQL functions as its model, and the bounds on retries and delays.
\<close>

section \<open>The queue interface\<close>

text \<open>
  A claim hands out jobs the caller then owns; a finish of an owned job succeeds, records its
  outcome and touches no other job; \<open>quiet\<close> changes (what handlers do meanwhile) keep
  ownership and records.
\<close>

locale job_source =
  fixes claim :: "'s \<Rightarrow> ('e + job list) \<times> 's"
    and finish :: "job \<Rightarrow> string \<Rightarrow> string option \<Rightarrow> int \<Rightarrow> 's \<Rightarrow> ('e + bool) \<times> 's"
    and inv :: "'s \<Rightarrow> bool"
    and ready :: "'s \<Rightarrow> bool"
    and owned :: "'s \<Rightarrow> job \<Rightarrow> bool"
    and ended :: "'s \<Rightarrow> job \<Rightarrow> string \<times> string option \<times> int \<Rightarrow> bool"
    and quiet :: "'s \<Rightarrow> 's \<Rightarrow> bool"
  assumes claim_inv: "inv s \<Longrightarrow> ready s \<Longrightarrow> claim s = (Inr js, s') \<Longrightarrow> inv s'"
    and claim_owned: "inv s \<Longrightarrow> ready s \<Longrightarrow> claim s = (Inr js, s') \<Longrightarrow> j \<in> set js \<Longrightarrow> owned s' j"
    and claim_distinct: "inv s \<Longrightarrow> ready s \<Longrightarrow> claim s = (Inr js, s') \<Longrightarrow> distinct (map jo_id js)"
    and finish_inv: "inv s \<Longrightarrow> finish j out err d s = (Inr b, s') \<Longrightarrow> inv s'"
    and finish_ended: "inv s \<Longrightarrow> owned s j \<Longrightarrow> finish j out err d s = (Inr b, s') \<Longrightarrow> ended s' j (out, err, d)"
    and finish_other: "inv s \<Longrightarrow> finish j out err d s = (Inr b, s') \<Longrightarrow> jo_id i \<noteq> jo_id j \<Longrightarrow>
       (owned s i \<longrightarrow> owned s' i) \<and> (ended s i x \<longrightarrow> ended s' i x)"
    and quiet_inv: "quiet s s' \<Longrightarrow> inv s \<Longrightarrow> inv s'"
    and quiet_keeps: "quiet s s' \<Longrightarrow> inv s \<Longrightarrow> (owned s i \<longrightarrow> owned s' i) \<and> (ended s i x \<longrightarrow> ended s' i x)"
    and quiet_refl: "quiet s s"
begin

definition tame :: "'s runner \<Rightarrow> bool" where
  "tame R \<longleftrightarrow> (\<forall>(kind, h) \<in> set (handlers R). \<forall>j s. inv s \<longrightarrow> quiet s (snd (h j s)))"

lemma handle_quiet: "tame R \<Longrightarrow> inv s \<Longrightarrow> handle_job R j s = (res, s') \<Longrightarrow> quiet s s'"
proof (cases "map_of (handlers R) (jo_kind j)")
  case (Some h)
  assume t: "tame R" "inv s" and h: "handle_job R j s = (res, s')"
  have "(jo_kind j, h) \<in> set (handlers R)" using Some by (rule map_of_SomeD)
  with t have "quiet s (snd (h j s))" by (auto simp: tame_def)
  with h Some show "quiet s s'" by (simp add: handle_job_def)
qed (auto simp: handle_job_def quiet_refl)

lemma run_jobs_step:
  assumes "run_jobs R finish (j # js) s = (Inr u, s')"
  obtains res s1 out err d b s2 where "handle_job R j s = (res, s1)" "disposition R j res = (out, err, d)"
    "finish j out err d s1 = (Inr b, s2)" "run_jobs R finish js s2 = (Inr u, s')"
  using assms by (auto simp: Let_def split: prod.splits sum.splits)

lemma run_jobs_settles:
  assumes "tame R" "inv s" "distinct (map jo_id js)" "\<And>j. j \<in> set js \<Longrightarrow> owned s j"
    and "run_jobs R finish js s = (Inr u, s')"
  shows "inv s' \<and> (\<forall>j \<in> set js. \<exists>res. ended s' j (disposition R j res)) \<and>
    (\<forall>i x. jo_id i \<notin> jo_id ` set js \<longrightarrow> ended s i x \<longrightarrow> ended s' i x)"
  using assms(2-)
proof (induction js arbitrary: s)
  case (Cons j js)
  from Cons.prems(4) obtain res s1 out err d b s2 where
    h: "handle_job R j s = (res, s1)" and dp: "disposition R j res = (out, err, d)"
    and f: "finish j out err d s1 = (Inr b, s2)" and r: "run_jobs R finish js s2 = (Inr u, s')"
    by (rule run_jobs_step)
  note q = handle_quiet [OF assms(1) Cons.prems(1) h]
  have inv1: "inv s1" using quiet_inv [OF q Cons.prems(1)] .
  have own1: "owned s1 i" if "i \<in> set (j # js)" for i
    using quiet_keeps [OF q Cons.prems(1)] Cons.prems(3) [OF that] by blast
  have other: "jo_id i \<noteq> jo_id j" if "i \<in> set js" for i
    using Cons.prems(2) that by (metis distinct.simps(2) imageI list.set_map list.simps(9))
  have own2: "owned s2 i" if "i \<in> set js" for i
    using finish_other [OF inv1 f other [OF that]] own1 that by auto
  have "distinct (map jo_id js)" using Cons.prems(2) by simp
  note IH = Cons.IH [OF finish_inv [OF inv1 f] this own2 r]
  have "ended s2 j (disposition R j res)"
    using finish_ended [OF inv1 _ f] own1 dp by simp
  moreover have "jo_id j \<notin> jo_id ` set js" using Cons.prems(2) by simp
  ultimately have "ended s' j (disposition R j res)" using IH by blast
  moreover have "ended s2 i x" if "jo_id i \<noteq> jo_id j" "ended s i x" for i x
    using finish_other [OF inv1 f that(1)] quiet_keeps [OF q Cons.prems(1)] that(2) by blast
  ultimately show ?case using IH by (auto simp: image_iff)
qed simp

theorem run_once_settles:
  assumes "tame R" "inv s" "ready s" "run_once claim finish R s = (Inr n, s')"
  shows "\<exists>js s1. claim s = (Inr js, s1) \<and> n = length js \<and> inv s' \<and>
    (\<forall>j \<in> set js. \<exists>res. ended s' j (disposition R j res)) \<and>
    (\<forall>i x. jo_id i \<notin> jo_id ` set js \<longrightarrow> ended s1 i x \<longrightarrow> ended s' i x)"
proof -
  from assms(4) obtain js s1 u where c: "claim s = (Inr js, s1)"
    and r: "run_jobs R finish js s1 = (Inr u, s')" and n: "n = length js"
    by (auto simp: run_once_def split: prod.splits sum.splits)
  from run_jobs_settles [OF assms(1) claim_inv [OF assms(2,3) c] claim_distinct [OF assms(2,3) c]
      claim_owned [OF assms(2,3) c] r] c n
  show ?thesis by blast
qed

end

section \<open>The SQL functions satisfy it\<close>

definition end_state :: "string \<Rightarrow> job_state" where
  "end_state out = (if out = ''succeeded'' then JobCompleted else if out = ''retry'' then JobRetry else JobDead)"

definition owns :: "'o world \<Rightarrow> job \<Rightarrow> bool" where
  "owns w j \<longleftrightarrow> (\<exists>r \<in> set (jobs (fst w)). holds (jo_id j) (jo_lease_token j) r \<and> jb_attempt_count r = jo_attempt_count j)"

definition recorded :: "round_env \<Rightarrow> 'o world \<Rightarrow> job \<Rightarrow> string \<times> string option \<times> int \<Rightarrow> bool" where
  "recorded E w j x \<longleftrightarrow> (case x of (out, err, d) \<Rightarrow> \<exists>r \<in> set (jobs (fst w)). jb_id r = jo_id j \<and>
     jb_attempt_count r = jo_attempt_count j \<and> jb_state r = end_state out \<and> jb_last_error_code r = err \<and>
     (out = ''retry'' \<longrightarrow> jb_available_at r = re_finished_at E j + max 0 d * micros))"

text \<open>What a handler may do to the queue: add jobs that were never attempted.\<close>

definition enqueues :: "'o world \<Rightarrow> 'o world \<Rightarrow> bool" where
  "enqueues w w' \<longleftrightarrow> attempts (fst w') = attempts (fst w) \<and> (queue_inv (fst w) \<longrightarrow> queue_inv (fst w')) \<and>
     (\<exists>new. jobs (fst w') = jobs (fst w) @ new \<and> (\<forall>r \<in> set new. jb_state r = JobPending \<and> jb_attempt_count r = 0))"

lemma mapM_job_of:
  assumes "mapM job_of rows = Inr js"
  shows "map jo_id js = map jb_id rows"
    and "\<forall>j \<in> set js. \<exists>r \<in> set rows. jb_id r = jo_id j \<and> jb_lease_token r = Some (jo_lease_token j) \<and>
      jb_attempt_count r = jo_attempt_count j \<and> jb_kind r = jo_kind j"
proof -
  from assms have "list_all2 (\<lambda>r j. job_of r = Inr j) rows js" by (simp add: mapM_Inr)
  then show "map jo_id js = map jb_id rows"
    "\<forall>j \<in> set js. \<exists>r \<in> set rows. jb_id r = jo_id j \<and> jb_lease_token r = Some (jo_lease_token j) \<and>
      jb_attempt_count r = jo_attempt_count j \<and> jb_kind r = jo_kind j"
    by (induction rule: list_all2_induct) (auto simp: job_of_def split: option.splits)
qed

lemma sql_claim_Inr:
  assumes "sql_claim E R w = (Inr js, w')"
  obtains rows where
    "claim_jobs (batch_size R) (lease_seconds R) (re_now E) (re_locked E) (re_token E) (re_attempt_id E) (fst w) =
       Inr (rows, fst w')" "mapM job_of rows = Inr js" "snd w' = snd w"
  using assms by (auto simp: sql_claim_def split: sum.splits prod.splits)

lemma sql_finish_Inr:
  "sql_finish E j out err d w = (Inr b, w') \<Longrightarrow>
     finish_job (jo_id j) (jo_lease_token j) out err d (re_finished_at E j) (fst w) = Inr (b, fst w')"
  by (auto simp: sql_finish_def split: sum.splits)

lemma claimed_rows:
  assumes "queue_inv db"
    and "claim_jobs batch lease now locked token aid db = Inr (rows, db')"
  shows "distinct (map jb_id rows)" "set rows \<subseteq> set (jobs db')" "r \<in> set rows \<Longrightarrow> jb_state r = JobLeased"
proof -
  let ?cs = "candidates batch now locked (jobs db)"
  note c = claim_jobs_Inr [OF assms(2)]
  show "distinct (map jb_id rows)"
    using distinct_candidates assms(1) by (simp add: c(1) comp_def queue_ok_def)
  show "set rows \<subseteq> set (jobs db')"
    by (auto simp: c dest: set_candidates)
  show "r \<in> set rows \<Longrightarrow> jb_state r = JobLeased" by (auto simp: c(1))
qed

lemma finish_rows:
  assumes "queue_inv db" "finish_job i k out err d now db = Inr (b, db')" "r \<in> set (jobs db)"
  shows "finish_row i k out err d now r \<in> set (jobs db')"
proof -
  have ids: "distinct (map jb_id (jobs db))" using assms(1) by (simp add: queue_ok_def)
  show ?thesis
  proof (cases b)
    case True
    then show ?thesis using finish_job_Inr(3) [OF ids assms(2)] assms(3) by simp
  next
    case False
    then have "\<not> holds i k r" "db' = db" using finish_job_Inr(1,2) [OF ids assms(2)] assms(3) by auto
    then show ?thesis using assms(3) by (simp add: finish_row_def)
  qed
qed

lemma sql_claim_laws:
  assumes ok: "queue_inv (fst w)" "fresh_tokens (re_token E) (fst w)" and c: "sql_claim E R w = (Inr js, w')"
  shows "queue_inv (fst w')" "distinct (map jo_id js)" "j \<in> set js \<Longrightarrow> owns w' j"
proof -
  from c obtain rows where
    r: "claim_jobs (batch_size R) (lease_seconds R) (re_now E) (re_locked E) (re_token E) (re_attempt_id E) (fst w) =
       Inr (rows, fst w')" "mapM job_of rows = Inr js" by (rule sql_claim_Inr)
  show "queue_inv (fst w')" using claim_keeps_queue ok r(1) by blast
  show "distinct (map jo_id js)" using claimed_rows(1) [OF ok(1) r(1)] mapM_job_of(1) [OF r(2)] by simp
  assume "j \<in> set js"
  then obtain row where "row \<in> set rows" "jb_id row = jo_id j" "jb_lease_token row = Some (jo_lease_token j)"
    "jb_attempt_count row = jo_attempt_count j" using mapM_job_of(2) [OF r(2)] by blast
  then show "owns w' j" using claimed_rows(2,3) [OF ok(1) r(1)] by (auto simp: owns_def holds_def)
qed

lemma sql_finish_laws:
  assumes ok: "queue_inv (fst w)" and f: "sql_finish E j out err d w = (Inr b, w')"
  shows "queue_inv (fst w')" "owns w j \<Longrightarrow> recorded E w' j (out, err, d)"
    "jo_id i \<noteq> jo_id j \<Longrightarrow> (owns w i \<longrightarrow> owns w' i) \<and> (recorded E w i x \<longrightarrow> recorded E w' i x)"
proof -
  note f' = sql_finish_Inr [OF f]
  show "queue_inv (fst w')" using finish_keeps_queue ok f' by blast
  have row: "finish_row (jo_id j) (jo_lease_token j) out err d (re_finished_at E j) r \<in> set (jobs (fst w'))"
    if "r \<in> set (jobs (fst w))" for r using finish_rows [OF ok f' that] .
  show "recorded E w' j (out, err, d)" if own: "owns w j"
  proof -
    from own obtain r where r: "r \<in> set (jobs (fst w))" "holds (jo_id j) (jo_lease_token j) r"
      "jb_attempt_count r = jo_attempt_count j" by (auto simp: owns_def)
    then have "finish_row (jo_id j) (jo_lease_token j) out err d (re_finished_at E j) r =
        finished out err d (re_finished_at E j) r" by (simp add: finish_row_def)
    with row [OF r(1)] r(2,3) show ?thesis
      by (auto simp: recorded_def holds_def end_state_def intro!: bexI [of _ "finished out err d (re_finished_at E j) r"])
        (auto simp: finished_def)
  qed
  assume ne: "jo_id i \<noteq> jo_id j"
  have same: "r \<in> set (jobs (fst w'))" if "r \<in> set (jobs (fst w))" "jb_id r = jo_id i" for r
    using row [OF that(1)] ne that(2) by (simp add: finish_row_def holds_def)
  then show "(owns w i \<longrightarrow> owns w' i) \<and> (recorded E w i x \<longrightarrow> recorded E w' i x)"
    by (auto simp: owns_def recorded_def holds_def split: prod.splits)
qed

lemma enqueues_laws:
  assumes "enqueues w w'" "queue_inv (fst w)"
  shows "queue_inv (fst w')" "(owns w i \<longrightarrow> owns w' i) \<and> (recorded E w i x \<longrightarrow> recorded E w' i x)"
  using assms by (auto simp: enqueues_def owns_def recorded_def split: prod.splits)

interpretation sql: job_source "sql_claim E R" "sql_finish E" "\<lambda>w. queue_inv (fst w)"
  "\<lambda>w. fresh_tokens (re_token E) (fst w)" owns "recorded E" enqueues for E R
proof (unfold_locales, goal_cases)
  case (1 s js s') then show ?case by (rule sql_claim_laws(1))
next
  case (2 s js s' j) then show ?case by (rule sql_claim_laws(3))
next
  case (3 s js s') then show ?case by (rule sql_claim_laws(2))
next
  case (4 s j out err d b s') then show ?case by (rule sql_finish_laws(1))
next
  case (5 s j out err d b s') then show ?case by (blast intro: sql_finish_laws(2))
next
  case (6 s j out err d b s' i x) then show ?case by (rule sql_finish_laws(3))
next
  case (7 s s') then show ?case by (rule enqueues_laws(1))
next
  case (8 s s' i x) then show ?case by (rule enqueues_laws(2))
next
  case (9 s) then show ?case by (simp add: enqueues_def)
qed

section \<open>Claims and finishes succeed\<close>

text \<open>What the random source promises for the attempt ids of a claim.\<close>

definition fresh_attempts :: "(uuid \<Rightarrow> uuid) \<Rightarrow> pipeline \<Rightarrow> bool" where
  "fresh_attempts aid db \<longleftrightarrow> inj_on aid (jb_id ` set (jobs db)) \<and>
     aid ` jb_id ` set (jobs db) \<inter> at_id ` set (attempts db) = {}"

definition attempt_apart :: "attempt_row \<Rightarrow> attempt_row \<Rightarrow> bool" where
  "attempt_apart a b \<longleftrightarrow> at_id a \<noteq> at_id b \<and>
     (at_tenant_id a, at_job_id a, at_attempt_number a) \<noteq> (at_tenant_id b, at_job_id b, at_attempt_number b)"

lemma insert_attempts_succeed:
  assumes "\<forall>a \<in> set as. 0 < at_attempt_number a \<and>
      has_row jb_tenant_id jb_id (at_tenant_id a) (at_job_id a) (jobs db)"
    and "\<forall>a \<in> set as. \<forall>b \<in> set (attempts db). attempt_apart a b" "sorted_wrt (\<lambda>a b. attempt_apart b a) as"
  shows "\<exists>db'. each insert_attempt as db = Inr db'"
  using assms
proof (induction as arbitrary: db)
  case (Cons a as)
  let ?db = "db\<lparr>attempts := attempts db @ [a]\<rparr>"
  have "insert_attempt a db = Inr ?db"
    using Cons.prems(1,2) by (auto simp: insert_attempt_def ebind_eq_Inr attempt_apart_def)
  moreover have "\<exists>db'. each insert_attempt as ?db = Inr db'"
    using Cons.prems by (intro Cons.IH) auto
  ultimately show ?case by simp
qed simp

lemma claim_succeeds:
  assumes ok: "queue_inv db" and aid: "fresh_attempts aid db"
    and counts: "\<forall>r \<in> set (jobs db). claimable now r \<longrightarrow> jb_attempt_count r < 2 ^ 31 - 1"
  shows "\<exists>js db'. claim_jobs batch lease now locked token aid db = Inr (js, db')"
proof -
  define cs where "cs = candidates batch now locked (jobs db)"
  let ?new = "map (attempt_of token aid now) (map (leased token now lease) cs)"
  have cs: "set cs \<subseteq> set (jobs db)" "distinct (map jb_id cs)"
    using ok distinct_candidates by (auto simp: cs_def queue_ok_def dest: set_candidates)
  have att: "\<And>a. a \<in> set (attempts db) \<Longrightarrow> attempt_ok (jobs db) a" using ok by (simp add: queue_ok_def)
  have jok: "\<And>r. r \<in> set (jobs db) \<Longrightarrow> 0 \<le> jb_attempt_count r" using ok by (simp add: queue_ok_def job_ok_def)
  have inj: "inj_on aid (jb_id ` set (jobs db))"
    and apart: "\<And>c a. c \<in> set (jobs db) \<Longrightarrow> a \<in> set (attempts db) \<Longrightarrow> aid (jb_id c) \<noteq> at_id a"
    using aid by (auto simp: fresh_attempts_def)
  define closed where "closed = map (take_over cs now) (attempts db)"
  have 1: "update_rows (lost_by cs) (\<lambda>a. a\<lparr>at_finished_at := Some now, at_outcome := Some ''lease_lost''\<rparr>)
      attempt_trigger (attempts db) = Inr closed"
    using att by (auto simp: update_rows_Inr attempt_trigger_def closed_def take_over_def attempt_ok_def
        lost_by_def list_ex_iff)
  define rows where "rows = map (\<lambda>r. if jb_id r \<in> jb_id ` set cs then leased token now lease r else r) (jobs db)"
  have "jb_attempt_count r + 1 < 2 ^ 31 \<and> - (2 ^ 31) \<le> jb_attempt_count r + 1"
    if "r \<in> set (jobs db)" "jb_id r \<in> jb_id ` set cs" for r
  proof -
    have "r \<in> set cs" using that cs(1) ok by (auto simp: queue_ok_def dest: distinct_map_unique)
    then have "claimable now r" by (auto simp: cs_def dest: set_candidates)
    then show ?thesis using counts jok that(1) by fastforce
  qed
  then have 2: "update_rows (\<lambda>r. jb_id r \<in> jb_id ` set cs) (leased token now lease)
      (\<lambda>_ new. require (int4 (jb_attempt_count new)) OutOfRange) (jobs db) = Inr rows"
    by (auto simp: update_rows_Inr rows_def int4_def)
  have sub: "leased token now lease c \<in> set rows" if "c \<in> set cs" for c
    using that cs(1) by (auto simp: rows_def)
  have number: "at_attempt_number a \<le> jb_attempt_count c"
    if a: "a \<in> set (attempts db)" and c: "c \<in> set cs" "at_job_id a = jb_id c" for a c
  proof -
    obtain r where "r \<in> set (jobs db)" "attempt_fits a r" using att [OF a] by (auto simp: attempt_ok_def)
    moreover from this have "r = c" using ok cs(1) c distinct_map_unique [of jb_id "jobs db" r c]
      by (auto simp: queue_ok_def attempt_fits_def)
    ultimately show ?thesis by (simp add: attempt_fits_def)
  qed
  have "\<exists>db'. each insert_attempt ?new (db\<lparr>jobs := rows, attempts := closed\<rparr>) = Inr db'"
  proof (rule insert_attempts_succeed)
    show "\<forall>a \<in> set ?new. 0 < at_attempt_number a \<and>
      has_row jb_tenant_id jb_id (at_tenant_id a) (at_job_id a) (jobs (db\<lparr>jobs := rows, attempts := closed\<rparr>))"
    proof -
      have "has_row jb_tenant_id jb_id (jb_tenant_id c) (jb_id c) rows \<and> 0 < jb_attempt_count c + 1"
        if "c \<in> set cs" for c
      proof
        show "has_row jb_tenant_id jb_id (jb_tenant_id c) (jb_id c) rows"
          unfolding has_row_def list_ex_iff by (rule bexI [OF _ sub [OF that]]) simp
        show "0 < jb_attempt_count c + 1" using jok [of c] that cs(1) by auto
      qed
      then show ?thesis by auto
    qed
    show "\<forall>a \<in> set ?new. \<forall>b \<in> set (attempts (db\<lparr>jobs := rows, attempts := closed\<rparr>)). attempt_apart a b"
    proof -
      have "attempt_apart (attempt_of token aid now (leased token now lease c)) (take_over cs now a)"
        if "c \<in> set cs" "a \<in> set (attempts db)" for a c
        using apart [OF subsetD [OF cs(1) that(1)] that(2)] number [OF that(2,1)]
        by (cases "at_job_id a = jb_id c") (auto simp: attempt_apart_def, simp_all add: attempt_of_def)
      then show ?thesis by (auto simp: closed_def)
    qed
    have "sorted_wrt (\<lambda>a b. jb_id b \<noteq> jb_id a) cs"
      using cs(2) by (induction cs) (auto, metis imageI)
    then show "sorted_wrt (\<lambda>a b. attempt_apart b a) ?new"
      unfolding sorted_wrt_map
    proof (rule sorted_wrt_mono_rel [rotated])
      fix x y assume "x \<in> set cs" "y \<in> set cs" "jb_id y \<noteq> jb_id x"
      then show "attempt_apart (attempt_of token aid now (leased token now lease y))
          (attempt_of token aid now (leased token now lease x))"
        using inj cs(1) by (auto simp: attempt_apart_def attempt_of_def dest: inj_onD)
    qed
  qed
  with 1 2 show ?thesis by (auto simp: claim_jobs_def Let_def cs_def [symmetric])
qed

lemma finish_succeeds:
  assumes ok: "queue_inv db" and "safe_outcome out err" "int4 d"
  shows "\<exists>b db'. finish_job job k out err d now db = Inr (b, db')"
proof -
  have "\<And>a. a \<in> set (attempts db) \<Longrightarrow> attempt_ok (jobs db) a" using ok by (simp add: queue_ok_def)
  then have "update_rows (open_attempt job k)
      (\<lambda>a. a\<lparr>at_finished_at := Some now, at_outcome := Some out, at_error_code := err\<rparr>)
      attempt_trigger (attempts db) = Inr (map (close_attempt job k out err now) (attempts db))"
    by (auto simp: update_rows_Inr attempt_trigger_def close_attempt_def open_attempt_def attempt_ok_def)
  with assms(2,3) show ?thesis by (auto simp: finish_job_def Let_def require_def)
qed

section \<open>Bounds on delays and attempts\<close>

definition valid_runner :: "'s runner \<Rightarrow> bool" where
  "valid_runner R \<longleftrightarrow> 1 \<le> lease_seconds R \<and> 1 \<le> batch_size R \<and> 1 \<le> max_attempts R \<and>
     1 \<le> backoff_base R \<and> backoff_base R \<le> backoff_max R"

text \<open>
  With the limits the configuration enforces, a retry waits at least the base delay and at
  most the maximal one, and the delay doubles from attempt to attempt until the maximum cuts
  it off.
\<close>

theorem backoff_bounds:
  assumes "valid_runner R"
  shows "backoff_base R \<le> backoff R n \<and> backoff R n \<le> backoff_max R \<and> backoff R 1 = backoff_base R \<and>
    backoff R (max 1 n + 1) = min (backoff_max R) (2 * backoff R (max 1 n))"
proof -
  define b where "b k = backoff_base R * 2 ^ k" for k
  have 1: "1 \<le> backoff_base R" "backoff_base R \<le> backoff_max R" using assms by (simp_all add: valid_runner_def)
  have low: "backoff_base R \<le> b k" for k using 1 by (simp add: b_def)
  have double: "b (Suc k) = 2 * b k" for k by (simp add: b_def)
  have off: "backoff R m = min (backoff_max R) (b (nat (max 0 (m - 1))))" for m
    by (simp add: backoff_def b_def)
  have cut: "min m (2 * x) = min m (2 * min m x)" if "0 \<le> m" "0 \<le> x" for m x :: int
    using that by (auto simp: min_def)
  have "nat (max 0 (max 1 n + 1 - 1)) = Suc (nat (max 0 (max 1 n - 1)))" by simp
  then have "backoff R (max 1 n + 1) = min (backoff_max R) (2 * backoff R (max 1 n))"
    unfolding off double by (metis 1 cut double low off order_trans zero_le_one)
  moreover have "backoff R 1 = backoff_base R" using 1 by (simp add: backoff_def)
  moreover have "backoff_base R \<le> backoff R n \<and> backoff R n \<le> backoff_max R"
    using 1 low by (simp add: off)
  ultimately show ?thesis by blast
qed

definition tame_runner :: "'o world runner \<Rightarrow> bool" where
  "tame_runner R \<longleftrightarrow> (\<forall>(kind, h) \<in> set (handlers R). \<forall>j w. queue_inv (fst w) \<longrightarrow> enqueues w (snd (h j w)))"

lemma tame_runner_sql: "tame_runner R \<Longrightarrow> sql.tame R"
  by (simp add: tame_runner_def sql.tame_def)

text \<open>Rows of jobs the round did not claim are old rows, or jobs the handlers added.\<close>

lemma finish_untouched:
  assumes "queue_inv db" "finish_job i k out err d now db = Inr (b, db')" "r \<in> set (jobs db')" "jb_id r \<noteq> i"
  shows "r \<in> set (jobs db)"
proof -
  have ids: "distinct (map jb_id (jobs db))" using assms(1) by (simp add: queue_ok_def)
  show ?thesis
  proof (cases b)
    case True
    then obtain r0 where "r0 \<in> set (jobs db)" "r = finish_row i k out err d now r0"
      using finish_job_Inr(3) [OF ids assms(2)] assms(3) by auto
    with assms(4) show ?thesis by (auto simp: finish_row_def holds_def split: if_splits)
  qed (use finish_job_Inr(2) [OF ids assms(2)] assms(3) in simp)
qed

lemma run_jobs_rows:
  assumes "tame_runner R" "queue_inv (fst w)" "run_jobs R (sql_finish E) js w = (Inr u, w')"
    and "r \<in> set (jobs (fst w'))" "jb_id r \<notin> jo_id ` set js"
  shows "r \<in> set (jobs (fst w)) \<or> (jb_state r = JobPending \<and> jb_attempt_count r = 0)"
  using assms(2,3,5)
proof (induction js arbitrary: w)
  case Nil
  then show ?case using assms(4) by simp
next
  case (Cons j js)
  from Cons.prems(2) obtain res w1 out err d b w2 where
    h: "handle_job R j w = (res, w1)" and f: "sql_finish E j out err d w1 = (Inr b, w2)"
    and rest: "run_jobs R (sql_finish E) js w2 = (Inr u, w')"
    by (rule sql.run_jobs_step)
  have q: "enqueues w w1" using sql.handle_quiet [OF tame_runner_sql [OF assms(1)] Cons.prems(1) h] .
  have inv1: "queue_inv (fst w1)" using enqueues_laws(1) [OF q Cons.prems(1)] .
  have "r \<in> set (jobs (fst w2)) \<or> (jb_state r = JobPending \<and> jb_attempt_count r = 0)"
    using Cons.IH [OF sql_finish_laws(1) [OF inv1 f] rest] Cons.prems(3) by auto
  then show ?case
    using finish_untouched [OF inv1 sql_finish_Inr [OF f], of r] Cons.prems(3) q
    by (auto simp: enqueues_def)
qed

lemma claim_source:
  assumes "sql_claim E R w = (Inr js, w')" "j \<in> set js"
  shows "\<exists>c \<in> set (jobs (fst w)). jb_id c = jo_id j \<and> jo_attempt_count j = jb_attempt_count c + 1 \<and>
    claimable (re_now E) c"
proof -
  from assms(1) obtain rows where
    r: "claim_jobs (batch_size R) (lease_seconds R) (re_now E) (re_locked E) (re_token E) (re_attempt_id E) (fst w) =
       Inr (rows, fst w')" "mapM job_of rows = Inr js" by (rule sql_claim_Inr)
  obtain row where "row \<in> set rows" "jb_id row = jo_id j" "jb_attempt_count row = jo_attempt_count j"
    using mapM_job_of(2) [OF r(2)] assms(2) by blast
  then show ?thesis unfolding claim_jobs_Inr(1) [OF r(1)] by (auto dest!: set_candidates)
qed

lemma claim_untouched:
  assumes "sql_claim E R w = (Inr js, w')" "r \<in> set (jobs (fst w'))" "jb_id r \<notin> jo_id ` set js"
  shows "r \<in> set (jobs (fst w))"
proof -
  from assms(1) obtain rows where
    r: "claim_jobs (batch_size R) (lease_seconds R) (re_now E) (re_locked E) (re_token E) (re_attempt_id E) (fst w) =
       Inr (rows, fst w')" "mapM job_of rows = Inr js" by (rule sql_claim_Inr)
  have "jo_id ` set js = jb_id ` set rows" using mapM_job_of(1) [OF r(2)] by (metis list.set_map)
  with assms(2,3) show ?thesis unfolding claim_jobs_Inr [OF r(1)] by (auto simp: image_image split: if_splits)
qed

text \<open>
  Between the rounds of workers that do not crash: nothing is leased, and what is not finished
  has attempts left.
\<close>

definition calm :: "'s runner \<Rightarrow> pipeline \<Rightarrow> bool" where
  "calm R db \<longleftrightarrow> queue_inv db \<and> (\<forall>r \<in> set (jobs db). jb_state r \<noteq> JobLeased \<and>
     jb_attempt_count r \<le> max_attempts R \<and>
     (jb_state r \<in> {JobPending, JobRetry} \<longrightarrow> jb_attempt_count r < max_attempts R))"

lemma disposition_bounded:
  assumes "disposition R j res = (out, err, d)"
  shows "out \<in> {''succeeded'', ''retry'', ''dead''}" "out = ''retry'' \<Longrightarrow> jo_attempt_count j < max_attempts R"
proof -
  from assms have "out \<in> {''succeeded'', ''retry'', ''dead''} \<and> (out = ''retry'' \<longrightarrow> jo_attempt_count j < max_attempts R)"
  proof (cases res)
    case (Inl e)
    with assms show ?thesis by (cases e) (auto simp: or_dead_def split: if_splits)
  qed auto
  then show "out \<in> {''succeeded'', ''retry'', ''dead''}" "out = ''retry'' \<Longrightarrow> jo_attempt_count j < max_attempts R"
    by blast+
qed

lemma round_keeps_calm:
  assumes "calm R (fst w)" "0 < max_attempts R" "tame_runner R" "fresh_tokens (re_token E) (fst w)"
    and round: "worker_round E R w = (Inr n, w')"
  shows "calm R (fst w')"
proof -
  have inv: "queue_inv (fst w)" using assms(1) by (simp add: calm_def)
  from sql.run_once_settles [OF tame_runner_sql [OF assms(3)] inv assms(4) round [unfolded worker_round_def]]
  obtain js w1 where c: "sql_claim E R w = (Inr js, w1)" and inv': "queue_inv (fst w')"
    and settled: "\<And>j. j \<in> set js \<Longrightarrow> \<exists>res. recorded E w' j (disposition R j res)" by blast
  from round c obtain u where run: "run_jobs R (sql_finish E) js w1 = (Inr u, w')"
    by (auto simp: worker_round_def run_once_def split: prod.splits sum.splits)
  have inv1: "queue_inv (fst w1)" using sql_claim_laws(1) [OF inv assms(4) c] .
  have "jb_state r \<noteq> JobLeased \<and> jb_attempt_count r \<le> max_attempts R \<and>
     (jb_state r \<in> {JobPending, JobRetry} \<longrightarrow> jb_attempt_count r < max_attempts R)"
    if r: "r \<in> set (jobs (fst w'))" for r
  proof (cases "jb_id r \<in> jo_id ` set js")
    case True
    then obtain j where j: "j \<in> set js" "jb_id r = jo_id j" by blast
    then obtain res where "recorded E w' j (disposition R j res)" using settled by blast
    moreover obtain out err d where dp: "disposition R j res = (out, err, d)" by (cases "disposition R j res")
    ultimately obtain r' where r': "r' \<in> set (jobs (fst w'))" "jb_id r' = jo_id j"
      "jb_attempt_count r' = jo_attempt_count j" "jb_state r' = end_state out"
      by (auto simp: recorded_def)
    have "r' = r" using inv' r r' j by (auto simp: queue_ok_def dest: distinct_map_unique)
    moreover obtain c0 where "c0 \<in> set (jobs (fst w))" "jo_attempt_count j = jb_attempt_count c0 + 1"
      "claimable (re_now E) c0" using claim_source [OF c j(1)] by blast
    then have "jo_attempt_count j \<le> max_attempts R"
      using assms(1) by (fastforce simp: calm_def claimable_def)
    ultimately show ?thesis
      using r' disposition_bounded [OF dp] by (auto simp: end_state_def split: if_splits)
  next
    case False
    then show ?thesis
      using run_jobs_rows [OF assms(3) inv1 run r False] claim_untouched [OF c _ False] assms(1,2)
      by (auto simp: calm_def)
  qed
  with inv' show ?thesis by (simp add: calm_def)
qed

text \<open>Rounds that run to their end, and producers that add jobs meanwhile.\<close>

inductive healthy_step :: "'o world runner \<Rightarrow> 'o world \<Rightarrow> 'o world \<Rightarrow> bool" for R where
  healthy_round: "fresh_tokens (re_token E) (fst w) \<Longrightarrow> worker_round E R w = (Inr n, w') \<Longrightarrow> healthy_step R w w'"
| healthy_enqueue: "enqueues w w' \<Longrightarrow> healthy_step R w w'"

lemma healthy_calm:
  assumes "tame_runner R" "0 < max_attempts R" "(healthy_step R)\<^sup>*\<^sup>* (empty_pipeline, store) w"
  shows "calm R (fst w)"
  using assms(3)
proof (induction rule: rtranclp_induct)
  case base
  show ?case by (simp add: calm_def empty_pipeline_def queue_ok_empty)
next
  case (step w w')
  from step.hyps(2) show ?case
  proof cases
    case (healthy_round E n)
    then show ?thesis using round_keeps_calm [OF step.IH assms(2,1)] by blast
  next
    case healthy_enqueue
    then show ?thesis using step.IH assms(2) by (auto simp: calm_def enqueues_def)
  qed
qed

text \<open>
  As long as no worker dies in the middle of a round, no job is attempted more often than
  the configured maximum, whatever its handler does: a job that keeps failing ends up dead.
\<close>

theorem retries_bounded:
  assumes "tame_runner R" "0 < max_attempts R" "(healthy_step R)\<^sup>*\<^sup>* (empty_pipeline, store) w"
    and "r \<in> set (jobs (fst w))"
  shows "jb_attempt_count r \<le> max_attempts R \<and>
    (jb_attempt_count r = max_attempts R \<longrightarrow> jb_state r \<in> {JobCompleted, JobDead})"
proof -
  have "calm R (fst w)" by (rule healthy_calm [OF assms(1-3)])
  then show ?thesis using assms(4) by (cases "jb_state r") (auto simp: calm_def)
qed

section \<open>Crashes are not counted\<close>

lemma single_claim:
  assumes "jobs db = [r]" "claimable now r"
  shows "candidates 1 now (\<lambda>_. False) (jobs db) = [r]"
  using assms by (simp add: candidates_def claim_limit_def)

lemma fresh_exist:
  "\<exists>token aid. fresh_tokens token db \<and> fresh_attempts aid db"
proof -
  define m where "m = Suc (Max (insert 0 (at_lease_token ` set (attempts db) \<union> at_id ` set (attempts db))))"
  have m: "x < m" if "x \<in> at_lease_token ` set (attempts db) \<union> at_id ` set (attempts db)" for x
    unfolding m_def using that by (intro le_imp_less_Suc Max_ge) auto
  have "fresh_tokens (\<lambda>j. m + j) db" "fresh_attempts (\<lambda>j. m + j) db"
    using m by (fastforce simp: fresh_tokens_def fresh_attempts_def)+
  then show ?thesis by blast
qed

text \<open>
  The limit is the worker's, not the queue's: a job whose worker dies each time is claimed
  again and again when its lease runs out, up to the range of the attempt counter, and is
  never declared dead.
\<close>

theorem crashes_not_bounded:
  "\<forall>n < 2 ^ 31 - 1. \<exists>db r. queue_reachable db \<and> jobs db = [r] \<and> jb_attempt_count r = int n + 1 \<and> jb_state r = JobLeased"
proof (intro allI impI)
  fix n :: nat assume "n < 2 ^ 31 - 1"
  then show "\<exists>db r. queue_reachable db \<and> jobs db = [r] \<and> jb_attempt_count r = int n + 1 \<and> jb_state r = JobLeased"
  proof (induction n)
    case 0
    have "jobs sample_q2 = [hd (jobs sample_q2)] \<and> jb_attempt_count (hd (jobs sample_q2)) = 1 \<and>
        jb_state (hd (jobs sample_q2)) = JobLeased" by code_simp
    then show ?case using sample_reachable(1) by auto
  next
    case (Suc n)
    then obtain db r where db: "queue_reachable db" "jobs db = [r]" "jb_attempt_count r = int n + 1" "jb_state r = JobLeased"
      by auto
    have ok: "queue_inv db" by (rule reachable_queue [OF db(1)])
    obtain t where t: "jb_lease_expires_at r = Some t" using ok db(2,4) by (auto simp: queue_ok_def job_ok_def)
    then have due: "claimable t r" using db(4) by (simp add: claimable_def)
    obtain token aid where fr: "fresh_tokens token db" "fresh_attempts aid db" using fresh_exist by blast
    have "\<forall>s \<in> set (jobs db). claimable t s \<longrightarrow> jb_attempt_count s < 2 ^ 31 - 1"
      using db(2,3) Suc.prems by simp
    from claim_succeeds [OF ok fr(2) this] obtain js db' where
      c: "claim_jobs 1 60 t (\<lambda>_. False) token aid db = Inr (js, db')" by blast
    have "queue_reachable db'" by (rule reachable_step [OF db(1) step_claim [OF fr(1) c]])
    moreover have "jobs db' = [leased token t 60 r]"
      using claim_jobs_Inr(2) [OF c, unfolded single_claim [OF db(2) due]] db(2) by simp
    ultimately show ?case using db(3) by auto
  qed
qed

section \<open>A backlog drains\<close>

text \<open>A runner whose handlers return, and leave the queue alone.\<close>

definition steady :: "'o world runner \<Rightarrow> string set \<Rightarrow> bool" where
  "steady R kinds \<longleftrightarrow> kinds \<subseteq> fst ` set (handlers R) \<and>
     (\<forall>(kind, h) \<in> set (handlers R). \<forall>j w. fst (h j w) = Inr () \<and>
        jobs (fst (snd (h j w))) = jobs (fst w) \<and> attempts (fst (snd (h j w))) = attempts (fst w))"

lemma steady_handle:
  assumes "steady R kinds" "jo_kind j \<in> kinds"
  obtains w1 where "handle_job R j w = (Inr (), w1)" "jobs (fst w1) = jobs (fst w)" "attempts (fst w1) = attempts (fst w)"
proof -
  have "jo_kind j \<in> fst ` set (handlers R)" using assms by (auto simp: steady_def)
  then obtain h where h: "map_of (handlers R) (jo_kind j) = Some h"
    by (metis map_of_eq_None_iff option.exhaust)
  then have "(jo_kind j, h) \<in> set (handlers R)" by (rule map_of_SomeD)
  then have "fst (h j w) = Inr ()" "jobs (fst (snd (h j w))) = jobs (fst w)" "attempts (fst (snd (h j w))) = attempts (fst w)"
    using assms(1) by (cases w, fastforce simp: steady_def)+
  with h that show ?thesis by (simp add: handle_job_def prod_eq_iff)
qed

text \<open>What a round does to the jobs \<open>ids\<close>: they are settled; nothing else changes.\<close>

definition completes :: "uuid set \<Rightarrow> pipeline \<Rightarrow> pipeline \<Rightarrow> bool" where
  "completes ids db db' \<longleftrightarrow> queue_inv db' \<and> map jb_id (jobs db') = map jb_id (jobs db) \<and>
     map at_id (attempts db') = map at_id (attempts db) \<and>
     map at_lease_token (attempts db') = map at_lease_token (attempts db) \<and>
     (\<forall>r \<in> set (jobs db'). if jb_id r \<in> ids then jb_state r = JobCompleted else r \<in> set (jobs db))"

lemma finish_completes:
  assumes ok: "queue_inv db" and own: "r \<in> set (jobs db)" "holds i k r"
  obtains db' where "finish_job i k ''succeeded'' None 0 now db = Inr (True, db')" "completes {i} db db'"
    "\<And>r. r \<in> set (jobs db) \<Longrightarrow> jb_id r \<noteq> i \<Longrightarrow> r \<in> set (jobs db')"
proof -
  have ids: "distinct (map jb_id (jobs db))" using ok by (simp add: queue_ok_def)
  have "safe_outcome ''succeeded'' None" "int4 0" by (simp_all add: safe_outcome_def int4_def)
  from finish_succeeds [OF ok this] obtain b db' where
    f: "finish_job i k ''succeeded'' None 0 now db = Inr (b, db')" by blast
  have b: b using finish_job_Inr(1) [OF ids f] own by blast
  have db': "db' = db\<lparr>jobs := map (finish_row i k ''succeeded'' None 0 now) (jobs db),
      attempts := map (close_attempt i k ''succeeded'' None now) (attempts db)\<rparr>"
    by (rule finish_job_Inr(3) [OF ids f b])
  have same: "finish_row i k ''succeeded'' None 0 now s = s" if "jb_id s \<noteq> i" for s
    using that by (simp add: finish_row_def holds_def)
  have hit: "jb_state (finish_row i k ''succeeded'' None 0 now s) = JobCompleted"
    if "s \<in> set (jobs db)" "jb_id s = i" for s
  proof -
    have "s = r" using that own ids by (auto simp: holds_def dest: distinct_map_unique)
    then show ?thesis using own by (simp add: finish_row_def finished_def)
  qed
  have rid: "jb_id (finish_row i k ''succeeded'' None 0 now s) = jb_id s" for s
    by (simp add: finish_row_def)
  have aid: "at_id (close_attempt i k ''succeeded'' None now a) = at_id a" for a
    by (simp add: close_attempt_def)
  have "completes {i} db db'"
    using finish_keeps_queue [OF ok f] same hit
    by (auto simp: completes_def db' rid aid comp_def)
  moreover have "s \<in> set (jobs db')" if "s \<in> set (jobs db)" "jb_id s \<noteq> i" for s
    using same [OF that(2)] that(1) by (force simp: db')
  ultimately show thesis using that f b by simp
qed

lemma steady_run:
  assumes "steady R kinds" "queue_inv (fst w)" "distinct (map jo_id js)"
    and "\<forall>j \<in> set js. jo_kind j \<in> kinds \<and> owns w j"
  shows "\<exists>w'. run_jobs R (sql_finish E) js w = (Inr (), w') \<and> completes (jo_id ` set js) (fst w) (fst w')"
  using assms(2-)
proof (induction js arbitrary: w)
  case Nil
  then show ?case by (simp add: completes_def)
next
  case (Cons j js)
  obtain w1 where h: "handle_job R j w = (Inr (), w1)" and q: "jobs (fst w1) = jobs (fst w)" "attempts (fst w1) = attempts (fst w)"
    using steady_handle [OF assms(1), of j w] Cons.prems(3) by auto
  have ok1: "queue_inv (fst w1)" using Cons.prems(1) q by simp
  obtain r where r: "r \<in> set (jobs (fst w1))" "holds (jo_id j) (jo_lease_token j) r"
    using Cons.prems(3) q by (auto simp: owns_def)
  obtain db2 where f: "finish_job (jo_id j) (jo_lease_token j) ''succeeded'' None 0 (re_finished_at E j) (fst w1) = Inr (True, db2)"
    and c: "completes {jo_id j} (fst w1) db2" and keep: "\<And>r. r \<in> set (jobs (fst w1)) \<Longrightarrow> jb_id r \<noteq> jo_id j \<Longrightarrow> r \<in> set (jobs db2)"
    using finish_completes [OF ok1 r] by blast
  let ?w2 = "(db2, snd w1)"
  have fin: "sql_finish E j ''succeeded'' None 0 w1 = (Inr True, ?w2)" by (simp add: sql_finish_def f)
  have notin: "jo_id j \<notin> jo_id ` set js" using Cons.prems(2) by simp
  have "\<forall>i \<in> set js. jo_kind i \<in> kinds \<and> owns ?w2 i"
  proof
    fix i assume i: "i \<in> set js"
    then have ne: "jo_id i \<noteq> jo_id j" using notin by (metis imageI)
    obtain s where s: "s \<in> set (jobs (fst w))" "holds (jo_id i) (jo_lease_token i) s" "jb_attempt_count s = jo_attempt_count i"
      using Cons.prems(3) i by (auto simp: owns_def)
    then have "s \<in> set (jobs db2)" using keep [of s] q ne by (simp add: holds_def)
    with s show "jo_kind i \<in> kinds \<and> owns ?w2 i" using Cons.prems(3) i by (auto simp: owns_def)
  qed
  moreover have "queue_inv (fst ?w2)" using c by (simp add: completes_def)
  ultimately obtain w' where w': "run_jobs R (sql_finish E) js ?w2 = (Inr (), w')" "completes (jo_id ` set js) db2 (fst w')"
    using Cons.IH [of ?w2] Cons.prems(2) by auto
  have "run_jobs R (sql_finish E) (j # js) w = (Inr (), w')" by (simp add: h fin w'(1))
  moreover have "completes (jo_id ` set (j # js)) (fst w) (fst w')"
    using w'(2) c q by (auto simp: completes_def split: if_splits)
  ultimately show ?case by blast
qed

lemma job_of_claimed:
  assumes "\<forall>r \<in> set rows. jb_lease_token r \<noteq> None" shows "\<exists>js. mapM job_of rows = Inr js"
  using assms by (induction rows) (auto simp: job_of_def)

text \<open>A round of a steady runner completes the candidates and touches nothing else.\<close>

definition round_effect :: "round_env \<Rightarrow> 's runner \<Rightarrow> pipeline \<Rightarrow> pipeline \<Rightarrow> bool" where
  "round_effect E R db db' \<longleftrightarrow>
     (let taken = map jb_id (candidates (batch_size R) (re_now E) (re_locked E) (jobs db)) in
      queue_inv db' \<and> map jb_id (jobs db') = map jb_id (jobs db) \<and>
      map at_id (attempts db') = map at_id (attempts db) @ map (re_attempt_id E) taken \<and>
      map at_lease_token (attempts db') = map at_lease_token (attempts db) @ map (re_token E) taken \<and>
      (\<forall>r \<in> set (jobs db'). if jb_id r \<in> set taken then jb_state r = JobCompleted else r \<in> set (jobs db)))"

lemma steady_round:
  assumes st: "steady R kinds" and ok: "queue_inv (fst w)"
    and fr: "fresh_tokens (re_token E) (fst w)" "fresh_attempts (re_attempt_id E) (fst w)"
    and due: "\<forall>r \<in> set (jobs (fst w)). claimable (re_now E) r \<longrightarrow> jb_kind r \<in> kinds \<and> jb_attempt_count r < 2 ^ 31 - 1"
  shows "\<exists>n w'. worker_round E R w = (Inr n, w') \<and> round_effect E R (fst w) (fst w')"
proof -
  define cs where "cs = candidates (batch_size R) (re_now E) (re_locked E) (jobs (fst w))"
  have "\<forall>r \<in> set (jobs (fst w)). claimable (re_now E) r \<longrightarrow> jb_attempt_count r < 2 ^ 31 - 1" using due by blast
  from claim_succeeds [OF ok fr(2) this] obtain rows db1 where
    c: "claim_jobs (batch_size R) (lease_seconds R) (re_now E) (re_locked E) (re_token E) (re_attempt_id E) (fst w) = Inr (rows, db1)"
    by blast
  note eff = claim_jobs_Inr [OF c, folded cs_def]
  obtain js where js: "mapM job_of rows = Inr js"
    using job_of_claimed [of rows] by (auto simp: eff(1))
  let ?w1 = "(db1, snd w)"
  have cl: "sql_claim E R w = (Inr js, ?w1)" by (simp add: sql_claim_def c js)
  have ids: "jo_id ` set js = jb_id ` set cs"
    using mapM_job_of(1) [OF js] by (metis (no_types, lifting) eff(1) image_image leased_simps(1) list.set_map image_cong)
  have "\<forall>j \<in> set js. jo_kind j \<in> kinds \<and> owns ?w1 j"
  proof
    fix j assume j: "j \<in> set js"
    obtain r where "r \<in> set rows" "jb_kind r = jo_kind j" using mapM_job_of(2) [OF js] j by blast
    then obtain c0 where "c0 \<in> set cs" "jb_kind c0 = jo_kind j" by (auto simp: eff(1))
    then have "jo_kind j \<in> kinds" using due by (force simp: cs_def dest: set_candidates)
    with sql_claim_laws(3) [OF ok fr(1) cl j] show "jo_kind j \<in> kinds \<and> owns ?w1 j" by simp
  qed
  from steady_run [OF st sql_claim_laws(1) [OF ok fr(1) cl] sql_claim_laws(2) [OF ok fr(1) cl] this]
  obtain w' where r: "run_jobs R (sql_finish E) js ?w1 = (Inr (), w')"
    and "completes (jo_id ` set js) (fst ?w1) (fst w')"
    by blast
  then have comp: "completes (jb_id ` set cs) db1 (fst w')" by (simp add: ids)
  have "worker_round E R w = (Inr (length js), w')"
    by (simp add: worker_round_def run_once_def cl r)
  moreover have "round_effect E R (fst w) (fst w')"
  proof -
    have "map jb_id (jobs db1) = map jb_id (jobs (fst w))" by (simp add: eff(2) comp_def)
    moreover have "map at_id (attempts db1) = map at_id (attempts (fst w)) @ map (re_attempt_id E) (map jb_id cs)"
      "map at_lease_token (attempts db1) = map at_lease_token (attempts (fst w)) @ map (re_token E) (map jb_id cs)"
      by (simp_all add: eff comp_def attempt_of_def)
    moreover have "r \<in> set (jobs (fst w))" if "r \<in> set (jobs db1)" "jb_id r \<notin> jb_id ` set cs" for r
      using that by (auto simp: eff(2) split: if_splits)
    ultimately show ?thesis
      using comp by (auto simp: round_effect_def Let_def cs_def [symmetric] completes_def)
  qed
  ultimately show ?thesis by blast
qed

text \<open>
  A backlog the worker can clear: every job that is not finished is due in every round to
  come, of a known kind, and the random source repeats nothing.
\<close>

definition fresh_supply :: "(nat \<Rightarrow> round_env) \<Rightarrow> pipeline \<Rightarrow> bool" where
  "fresh_supply Es db \<longleftrightarrow> (\<forall>i. fresh_tokens (re_token (Es i)) db \<and> fresh_attempts (re_attempt_id (Es i)) db) \<and>
     (\<forall>i k j j'. i \<noteq> k \<longrightarrow> re_token (Es i) j \<noteq> re_token (Es k) j' \<and> re_attempt_id (Es i) j \<noteq> re_attempt_id (Es k) j')"

definition backlog :: "(nat \<Rightarrow> round_env) \<Rightarrow> string set \<Rightarrow> pipeline \<Rightarrow> bool" where
  "backlog Es kinds db \<longleftrightarrow> queue_inv db \<and> fresh_supply Es db \<and> (\<forall>r \<in> set (jobs db). settled r \<or>
     (jb_kind r \<in> kinds \<and> jb_attempt_count r < 2 ^ 31 - 1 \<and>
      (\<forall>i. claimable (re_now (Es i)) r \<and> \<not> re_locked (Es i) (jb_id r))))"

definition open_ids :: "pipeline \<Rightarrow> uuid set" where
  "open_ids db = jb_id ` {r \<in> set (jobs db). \<not> settled r}"

lemma fresh_supply_next:
  assumes "fresh_supply Es db" "round_effect (Es 0) R db db'" "queue_inv db"
  shows "fresh_supply (\<lambda>i. Es (Suc i)) db'"
proof -
  have ids: "jb_id ` set (jobs db') = jb_id ` set (jobs db)"
    using assms(2) unfolding round_effect_def Let_def by (metis list.set_map)
  define taken where "taken = jb_id ` set (candidates (batch_size R) (re_now (Es 0)) (re_locked (Es 0)) (jobs db))"
  have toks: "at_lease_token ` set (attempts db') = at_lease_token ` set (attempts db) \<union> re_token (Es 0) ` taken"
    and aids: "at_id ` set (attempts db') = at_id ` set (attempts db) \<union> re_attempt_id (Es 0) ` taken"
    using assms(2) unfolding round_effect_def Let_def taken_def by (metis list.set_map set_append)+
  have "re_token (Es (Suc i)) j \<noteq> re_token (Es 0) k" "re_attempt_id (Es (Suc i)) j \<noteq> re_attempt_id (Es 0) k" for i j k
    using assms(1) by (auto simp: fresh_supply_def)
  then have "re_token (Es (Suc i)) ` X \<inter> re_token (Es 0) ` Y = {}"
    "re_attempt_id (Es (Suc i)) ` X \<inter> re_attempt_id (Es 0) ` Y = {}" for i X Y
    by auto
  with assms(1) show ?thesis
    by (simp add: fresh_supply_def fresh_tokens_def fresh_attempts_def ids toks aids Int_Un_distrib)
qed

lemma backlog_next:
  assumes b: "backlog Es kinds db" and e: "round_effect (Es 0) R db db'"
  shows "backlog (\<lambda>i. Es (Suc i)) kinds db'"
proof -
  have "settled r \<or> r \<in> set (jobs db)" if "r \<in> set (jobs db')" for r
    using e that by (auto simp: round_effect_def Let_def settled_def split: if_splits)
  then show ?thesis
    using b e fresh_supply_next [of Es db R db'] by (auto simp: backlog_def round_effect_def Let_def)
qed

lemma open_ids_next:
  assumes b: "backlog Es kinds db" and e: "round_effect (Es 0) R db db'" and "1 \<le> batch_size R" "open_ids db \<noteq> {}"
  shows "open_ids db' \<subset> open_ids db"
proof -
  let ?cs = "candidates (batch_size R) (re_now (Es 0)) (re_locked (Es 0)) (jobs db)"
  have ids: "distinct (map jb_id (jobs db))" using b by (simp add: backlog_def queue_ok_def)
  obtain r where r: "r \<in> set (jobs db)" "\<not> settled r" using assms(4) by (auto simp: open_ids_def)
  then have due: "claimable (re_now (Es 0)) r" "\<not> re_locked (Es 0) (jb_id r)" using b by (auto simp: backlog_def)
  have "?cs \<noteq> []"
  proof
    assume none: "?cs = []"
    then have "length ?cs = claim_limit (batch_size R)"
      using candidates_oldest(1) [of r "jobs db" "re_now (Es 0)" "re_locked (Es 0)" "batch_size R"] r(1) due by simp
    with none assms(3) show False by (simp add: claim_limit_def)
  qed
  then obtain c where c: "c \<in> set ?cs" by (metis list.set_intros(1) neq_Nil_conv)
  then have c': "c \<in> set (jobs db)" "\<not> settled c" using set_candidates claimed_not_settled by blast+
  have "jb_state r' = JobCompleted" if "r' \<in> set (jobs db')" "jb_id r' = jb_id c" for r'
  proof -
    have "jb_id r' \<in> jb_id ` set ?cs" using c that(2) by simp
    with that(1) e show ?thesis by (auto simp: round_effect_def Let_def)
  qed
  then have "jb_id c \<notin> open_ids db'" by (auto simp: open_ids_def settled_def)
  moreover have "jb_id c \<in> open_ids db" using c' by (auto simp: open_ids_def)
  moreover have "open_ids db' \<subseteq> open_ids db"
    using e by (auto simp: open_ids_def round_effect_def Let_def settled_def split: if_splits)
  ultimately show ?thesis by blast
qed

lemma beat_ok:
  assumes "status \<in> {''starting'', ''healthy'', ''draining''}"
  shows "\<exists>w1. beat worker status now w = (Inr (), w1) \<and> jobs (fst w1) = jobs (fst w) \<and> attempts (fst w1) = attempts (fst w)"
  using assms by (simp add: beat_def worker_heartbeat_def)

lemma backlog_cong: "jobs db = jobs db' \<Longrightarrow> attempts db = attempts db' \<Longrightarrow> backlog Es kinds db = backlog Es kinds db'"
  by (simp add: backlog_def fresh_supply_def fresh_tokens_def fresh_attempts_def)


section \<open>Sample runners\<close>

definition sample_runner :: "int \<Rightarrow> unit world handler \<Rightarrow> unit world runner" where
  "sample_runner tries h = \<lparr>lease_seconds = 60, batch_size = 10, max_attempts = tries, backoff_base = 5,
     backoff_max = 300, handlers = [(''ingest.canonical_event.v1'', h)]\<rparr>"

definition returning :: "unit world handler" where
  "returning j w = (Inr (), w)"

definition failing :: "unit world handler" where
  "failing j w = (Inl OtherException, w)"

definition sample_env :: "nat \<Rightarrow> round_env" where
  "sample_env i = \<lparr>re_now = 0, re_locked = (\<lambda>_. False), re_token = (\<lambda>j. to_nat (i, j)),
     re_attempt_id = (\<lambda>j. to_nat (i, j)), re_finished_at = (\<lambda>_. 1)\<rparr>"

definition sample_round :: round_env where
  "sample_round = \<lparr>re_now = 0, re_locked = (\<lambda>_. False), re_token = sample_token 100,
     re_attempt_id = sample_token 200, re_finished_at = (\<lambda>_. 1)\<rparr>"

theorem backoff_bounds_witness:
  "backoff (sample_runner 5 failing) 1 = 5 \<and> backoff (sample_runner 5 failing) 7 \<le> 300 \<and>
   backoff (sample_runner 5 failing) 4 = 40"
proof -
  have v: "valid_runner (sample_runner 5 failing)" by (simp add: valid_runner_def sample_runner_def)
  have "backoff_base (sample_runner 5 failing) = 5" "backoff_max (sample_runner 5 failing) = 300"
    by (simp_all add: sample_runner_def)
  moreover have "backoff (sample_runner 5 failing) 3 = 20" by code_simp
  ultimately show ?thesis
    using backoff_bounds [OF v, of 7] backoff_bounds [OF v, of 3] by simp
qed

lemma sample_world_step: "enqueues (empty_pipeline, ()) (sample_q1, ())"
  using reachable_queue [OF sample_reachable(4)] by (simp add: enqueues_def sample_defs)

lemma sample_round_runs:
  "fst (worker_round sample_round (sample_runner 1 failing) (sample_q1, ())) = Inr 1"
  "jb_state (hd (jobs (fst (snd (worker_round sample_round (sample_runner 1 failing) (sample_q1, ())))))) = JobDead"
  "length (jobs (fst (snd (worker_round sample_round (sample_runner 1 failing) (sample_q1, ()))))) = 1"
  by code_simp+

theorem retries_bounded_witness:
  "\<exists>w r. (healthy_step (sample_runner 1 failing))\<^sup>*\<^sup>* (empty_pipeline, ()) w \<and> r \<in> set (jobs (fst w)) \<and>
     jb_state r = JobDead \<and> jb_attempt_count r \<le> 1"
proof -
  let ?R = "sample_runner 1 failing"
  obtain w where w: "worker_round sample_round ?R (sample_q1, ()) = (Inr 1, w)"
    using sample_round_runs(1) by (metis prod.collapse)
  have "tame_runner ?R" by (simp add: tame_runner_def sample_runner_def failing_def enqueues_def)
  moreover have "max_attempts ?R = 1" by (simp add: sample_runner_def)
  moreover have "fresh_tokens (re_token sample_round) (fst (sample_q1, ()))"
    using sample_ids_fresh(1) by (simp add: sample_round_def)
  then have steps: "(healthy_step ?R)\<^sup>*\<^sup>* (empty_pipeline, ()) w"
    using healthy_enqueue [OF sample_world_step] healthy_round [OF _ w]
    by (meson converse_rtranclp_into_rtranclp r_into_rtranclp)
  moreover obtain r where "r \<in> set (jobs (fst w))" "jb_state r = JobDead"
    using sample_round_runs(2,3) w by (metis length_greater_0_conv list.set_sel(1) snd_conv zero_less_one)
  ultimately show ?thesis using retries_bounded [OF _ _ steps, of r] steps by (intro exI [of _ w] exI [of _ r]) simp
qed

theorem crashes_not_bounded_witness:
  "\<exists>db r. queue_reachable db \<and> jobs db = [r] \<and> jb_attempt_count r = 7 \<and> jb_state r = JobLeased"
proof -
  have "(6::nat) < 2 ^ 31 - 1" by simp
  with crashes_not_bounded show ?thesis by fastforce
qed

lemma sample_backlog: "backlog sample_env {''ingest.canonical_event.v1''} sample_q1"
proof -
  have inv: "queue_inv sample_q1" by (rule reachable_queue [OF sample_reachable(4)])
  have "fresh_tokens (re_token (sample_env i)) sample_q1" "fresh_attempts (re_attempt_id (sample_env i)) sample_q1" for i
    by (auto simp: fresh_tokens_def fresh_attempts_def sample_tokens_used sample_env_def)
  moreover have "i \<noteq> k \<Longrightarrow> re_token (sample_env i) j \<noteq> re_token (sample_env k) j' \<and>
      re_attempt_id (sample_env i) j \<noteq> re_attempt_id (sample_env k) j'" for i k j j'
    by (auto simp: sample_env_def)
  moreover have "claimable (re_now (sample_env i)) r \<and> \<not> re_locked (sample_env i) (jb_id r)"
    if "r \<in> set (jobs sample_q1)" for i r
    using that by (auto simp: sample_env_def sample_q1_def new_job_def claimable_def)
  ultimately show ?thesis
    using inv by (auto simp: backlog_def fresh_supply_def) (auto simp: sample_q1_def new_job_def)
qed


end
