(* ===== verification/Events.thy ===== *)
theory Events
  imports PipelineDb
begin

text \<open>
  The event schemas of \<open>events/schemas.py\<close>: the strict provider payload, the canonical
  envelope and its serialisation, and the digest over the part of the envelope that does not
  depend on the delivery.  The conversions pydantic applies to a field's value, the parser of
  its timestamps among them, are a parameter; the constraints the code declares are definitions.
\<close>

section \<open>Pydantic's conversions\<close>

text \<open>A parsed \<open>datetime\<close> and the text it is serialised to.\<close>

record stamp =
  st_time :: datetime
  st_text :: string

record pydantic =
  pd_str :: "pyval \<Rightarrow> string option"
  pd_int :: "pyval \<Rightarrow> int option"
  pd_bool :: "pyval \<Rightarrow> bool option"
  pd_datetime :: "pyval \<Rightarrow> stamp option"
  pd_any :: "pyval \<Rightarrow> pyval"
  pd_float :: "string \<Rightarrow> pyval"

section \<open>Patterns\<close>

definition snake_name :: "string \<Rightarrow> bool" where
  "snake_name s \<longleftrightarrow> (case s of [] \<Rightarrow> False
     | c # t \<Rightarrow> is_lower c \<and> list_all (\<lambda>c. is_lower c \<or> is_digit c \<or> c = CHR ''_'') t)"

definition dotted_name :: "string \<Rightarrow> bool" where
  "dotted_name s \<longleftrightarrow> (let a = takeWhile (\<lambda>c. c \<noteq> CHR ''.'') s; b = dropWhile (\<lambda>c. c \<noteq> CHR ''.'') s
     in snake_name a \<and> b \<noteq> [] \<and> snake_name (tl b))"

definition opaque_id :: "string \<Rightarrow> bool" where
  "opaque_id s \<longleftrightarrow> s \<noteq> [] \<and> list_all (\<lambda>c. is_lower c \<or> is_upper c \<or> is_digit c \<or> c \<in> set ''._:-'') s"

definition currency_code :: "string \<Rightarrow> bool" where
  "currency_code s \<longleftrightarrow> length s = 3 \<and> list_all is_upper s"

definition sha256_text :: "string \<Rightarrow> bool" where
  "sha256_text s \<longleftrightarrow> length s = 64 \<and> list_all is_hex s"

definition sized :: "nat \<Rightarrow> nat \<Rightarrow> string \<Rightarrow> bool" where
  "sized lo hi s \<longleftrightarrow> lo \<le> length s \<and> length s \<le> hi"

section \<open>The provider payload\<close>

record event_money =
  em_minor_units :: int
  em_currency :: string

record consent_flags =
  cf_processing_permitted :: bool
  cf_advertising_permitted :: bool
  cf_purpose :: string

record public_event =
  pe_provider_event_id :: string
  pe_event_type :: string
  pe_occurred_at :: stamp
  pe_subject_type :: string
  pe_subject_id :: string
  pe_consent :: consent_flags
  pe_references :: "(string \<times> string) list"
  pe_attribution :: "(string \<times> string) list"
  pe_money :: "event_money option"
  pe_payload :: "(string \<times> pyval) list"

definition invalid :: exn where
  "invalid = ValueError ''validation error''"

definition field :: "(pyval \<Rightarrow> 'a option) \<Rightarrow> (string \<times> pyval) list \<Rightarrow> string \<Rightarrow> exn + 'a" where
  "field conv d k = (case map_of d k of None \<Rightarrow> Inl invalid
     | Some v \<Rightarrow> (case conv v of None \<Rightarrow> Inl invalid | Some x \<Rightarrow> Inr x))"

definition field_or :: "(pyval \<Rightarrow> 'a option) \<Rightarrow> (string \<times> pyval) list \<Rightarrow> string \<Rightarrow> 'a \<Rightarrow> exn + 'a" where
  "field_or conv d k dflt = (if map_of d k = None then Inr dflt else field conv d k)"

fun as_dict :: "pyval \<Rightarrow> (string \<times> pyval) list option" where
  "as_dict (PDict kvs) = Some kvs"
| "as_dict v = None"

fun text_items :: "pydantic \<Rightarrow> (string \<times> pyval) list \<Rightarrow> (string \<times> string) list option" where
  "text_items pd [] = Some []"
| "text_items pd ((k, v) # kvs) = (case pd_str pd v of None \<Rightarrow> None
     | Some s \<Rightarrow> map_option (Cons (k, s)) (text_items pd kvs))"

definition as_text_dict :: "pydantic \<Rightarrow> pyval \<Rightarrow> (string \<times> string) list option" where
  "as_text_dict pd v = (case as_dict v of None \<Rightarrow> None | Some kvs \<Rightarrow> text_items pd kvs)"

text \<open>\<open>EventMoney\<close>: further keys are ignored.\<close>

definition event_money_of :: "pydantic \<Rightarrow> pyval \<Rightarrow> event_money option option" where
  "event_money_of pd v = (if v = PNone then Some None else
     case as_dict v of None \<Rightarrow> None
     | Some d \<Rightarrow>
         (case (field (pd_int pd) d ''minor_units'', field (pd_str pd) d ''currency'') of
            (Inr m, Inr c) \<Rightarrow> (if currency_code c then Some (Some \<lparr>em_minor_units = m, em_currency = c\<rparr>) else None)
          | _ \<Rightarrow> None))"

text \<open>\<open>ConsentFlags\<close>: further keys are refused.\<close>

definition consent_of :: "pydantic \<Rightarrow> pyval \<Rightarrow> consent_flags option" where
  "consent_of pd v = (case as_dict v of None \<Rightarrow> None
     | Some d \<Rightarrow>
         if fst ` set d \<subseteq> {''processing_permitted'', ''advertising_permitted'', ''purpose''} then
           (case (field (pd_bool pd) d ''processing_permitted'', field_or (pd_bool pd) d ''advertising_permitted'' False,
                  field (pd_str pd) d ''purpose'') of
              (Inr p, Inr a, Inr u) \<Rightarrow> (if sized 1 200 u then Some \<lparr>cf_processing_permitted = p,
                 cf_advertising_permitted = a, cf_purpose = u\<rparr> else None)
            | _ \<Rightarrow> None)
         else None)"

definition public_event_fields :: "string list" where
  "public_event_fields = [''provider_event_id'', ''event_type'', ''occurred_at'', ''subject_type'', ''subject_id'',
     ''consent'', ''references'', ''attribution'', ''money'', ''payload'']"

text \<open>The declared constraints and validators of \<open>PublicEventInput\<close>.\<close>

definition public_event_ok :: "public_event \<Rightarrow> bool" where
  "public_event_ok e \<longleftrightarrow>
     sized 1 255 (pe_provider_event_id e) \<and> opaque_id (pe_provider_event_id e) \<and>
     dotted_name (pe_event_type e) \<and> dt_aware (st_time (pe_occurred_at e)) \<and>
     sized 1 80 (pe_subject_type e) \<and> snake_name (pe_subject_type e) \<and>
     sized 1 255 (pe_subject_id e) \<and> opaque_id (pe_subject_id e) \<and>
     cf_processing_permitted (pe_consent e)"

definition public_event_input :: "pydantic \<Rightarrow> pyval \<Rightarrow> exn + public_event" where
  "public_event_input pd v = (case as_dict v of None \<Rightarrow> Inl invalid | Some d \<Rightarrow>
     ebind (check (fst ` set d \<subseteq> set public_event_fields) invalid) (\<lambda>_.
     ebind (field (pd_str pd) d ''provider_event_id'') (\<lambda>pid.
     ebind (field (pd_str pd) d ''event_type'') (\<lambda>typ.
     ebind (field (pd_datetime pd) d ''occurred_at'') (\<lambda>occ.
     ebind (field (pd_str pd) d ''subject_type'') (\<lambda>st.
     ebind (field (pd_str pd) d ''subject_id'') (\<lambda>sid.
     ebind (field (consent_of pd) d ''consent'') (\<lambda>consent.
     ebind (field_or (as_text_dict pd) d ''references'' []) (\<lambda>refs.
     ebind (field_or (as_text_dict pd) d ''attribution'' []) (\<lambda>attr.
     ebind (field_or (event_money_of pd) d ''money'' None) (\<lambda>money.
     ebind (field as_dict d ''payload'') (\<lambda>payload.
     (let e = \<lparr>pe_provider_event_id = pid, pe_event_type = typ, pe_occurred_at = occ, pe_subject_type = st,
            pe_subject_id = sid, pe_consent = consent, pe_references = refs, pe_attribution = attr,
            pe_money = money, pe_payload = payload\<rparr>
      in ebind (check (public_event_ok e) invalid) (\<lambda>_. Inr e))))))))))))))"

section \<open>The canonical envelope\<close>

datatype processing_status = Received | Processing | Processed | Failed

fun status_value :: "processing_status \<Rightarrow> string" where
  "status_value Received = ''received''"
| "status_value Processing = ''processing''"
| "status_value Processed = ''processed''"
| "status_value Failed = ''failed''"

record canonical_event =
  ce_event_id :: uuid
  ce_tenant_id :: uuid
  ce_provider :: string
  ce_source_type :: string
  ce_provider_event_id :: "string option"
  ce_payload_digest :: string
  ce_event_type :: string
  ce_schema_version :: int
  ce_occurred_at :: stamp
  ce_received_at :: stamp
  ce_subject_type :: string
  ce_subject_id :: string
  ce_references :: "(string \<times> string) list"
  ce_attribution :: "(string \<times> string) list"
  ce_money :: "event_money option"
  ce_consent :: consent_flags
  ce_payload :: "(string \<times> pyval) list"
  ce_raw_object_key :: "string option"
  ce_raw_payload_digest :: "string option"
  ce_processing_status :: processing_status
  ce_error_code :: "string option"

definition canonical_event_ok :: "canonical_event \<Rightarrow> bool" where
  "canonical_event_ok e \<longleftrightarrow> sized 1 80 (ce_provider e) \<and> sized 1 80 (ce_source_type e) \<and>
     (case ce_provider_event_id e of None \<Rightarrow> True | Some s \<Rightarrow> length s \<le> 255) \<and>
     sha256_text (ce_payload_digest e) \<and> dotted_name (ce_event_type e) \<and> 1 \<le> ce_schema_version e \<and>
     dt_aware (st_time (ce_occurred_at e)) \<and> dt_aware (st_time (ce_received_at e)) \<and>
     sized 1 80 (ce_subject_type e) \<and> sized 1 255 (ce_subject_id e) \<and>
     (case ce_raw_payload_digest e of None \<Rightarrow> True | Some s \<Rightarrow> sha256_text s)"

text \<open>The envelope both producers build around a provider event.\<close>

definition canonical_of :: "uuid \<Rightarrow> uuid \<Rightarrow> string \<Rightarrow> string \<Rightarrow> stamp \<Rightarrow> string option \<Rightarrow> public_event \<Rightarrow> exn + canonical_event" where
  "canonical_of event_id tenant_id provider source_type now raw_digest e =
     (let c = \<lparr>ce_event_id = event_id, ce_tenant_id = tenant_id, ce_provider = provider,
            ce_source_type = source_type, ce_provider_event_id = Some (pe_provider_event_id e),
            ce_payload_digest = replicate 64 (CHR ''0''), ce_event_type = pe_event_type e, ce_schema_version = 1,
            ce_occurred_at = pe_occurred_at e, ce_received_at = now, ce_subject_type = pe_subject_type e,
            ce_subject_id = pe_subject_id e, ce_references = pe_references e, ce_attribution = pe_attribution e,
            ce_money = pe_money e, ce_consent = pe_consent e, ce_payload = pe_payload e,
            ce_raw_object_key = None, ce_raw_payload_digest = raw_digest, ce_processing_status = Received,
            ce_error_code = None\<rparr>
      in ebind (check (canonical_event_ok c) invalid) (\<lambda>_. Inr c))"

definition text_dict :: "(string \<times> string) list \<Rightarrow> pyval" where
  "text_dict kvs = PDict (map (map_prod (\<lambda>k. k) PStr) kvs)"

definition opt_text_value :: "string option \<Rightarrow> pyval" where
  "opt_text_value x = (case x of None \<Rightarrow> PNone | Some s \<Rightarrow> PStr s)"

definition money_dump :: "event_money option \<Rightarrow> pyval" where
  "money_dump m = (case m of None \<Rightarrow> PNone
     | Some m \<Rightarrow> PDict [(''minor_units'', PInt (em_minor_units m)), (''currency'', PStr (em_currency m))])"

definition consent_dump :: "consent_flags \<Rightarrow> pyval" where
  "consent_dump c = PDict [(''processing_permitted'', PBool (cf_processing_permitted c)),
     (''advertising_permitted'', PBool (cf_advertising_permitted c)), (''purpose'', PStr (cf_purpose c))]"

text \<open>\<open>model_dump(mode="json")\<close>.\<close>

definition model_dump :: "pydantic \<Rightarrow> canonical_event \<Rightarrow> (string \<times> pyval) list" where
  "model_dump pd e = [
     (''event_id'', PStr (uuid_str (ce_event_id e))),
     (''tenant_id'', PStr (uuid_str (ce_tenant_id e))),
     (''provider'', PStr (ce_provider e)),
     (''source_type'', PStr (ce_source_type e)),
     (''provider_event_id'', opt_text_value (ce_provider_event_id e)),
     (''payload_digest'', PStr (ce_payload_digest e)),
     (''event_type'', PStr (ce_event_type e)),
     (''schema_version'', PInt (ce_schema_version e)),
     (''occurred_at'', PStr (st_text (ce_occurred_at e))),
     (''received_at'', PStr (st_text (ce_received_at e))),
     (''subject_type'', PStr (ce_subject_type e)),
     (''subject_id'', PStr (ce_subject_id e)),
     (''references'', text_dict (ce_references e)),
     (''attribution'', text_dict (ce_attribution e)),
     (''money'', money_dump (ce_money e)),
     (''consent'', consent_dump (ce_consent e)),
     (''payload'', pd_any pd (PDict (ce_payload e))),
     (''raw_object_key'', opt_text_value (ce_raw_object_key e)),
     (''raw_payload_digest'', opt_text_value (ce_raw_payload_digest e)),
     (''processing_status'', PStr (status_value (ce_processing_status e))),
     (''error_code'', opt_text_value (ce_error_code e))]"

text \<open>The part of an envelope that its digest covers, and the digest.\<close>

definition delivery_keys :: "string list" where
  "delivery_keys = [''event_id'', ''received_at'', ''payload_digest'', ''raw_object_key'']"

definition envelope_of :: "(string \<times> pyval) list \<Rightarrow> pyval" where
  "envelope_of d = PDict (filter (\<lambda>(k, v). k \<notin> set delivery_keys) d)"

definition envelope_digest :: "hash \<Rightarrow> (string \<times> pyval) list \<Rightarrow> string" where
  "envelope_digest sha d = sha (utf8 (dumps False (envelope_of d)))"

section \<open>Decoding bytes\<close>

text \<open>
  \<open>bytes.decode("utf-8")\<close> of a text whose code points are below 256; any other sequence is
  refused.  (Texts with larger code points are outside the model.)
\<close>

fun utf8_decode :: "string \<Rightarrow> string option" where
  "utf8_decode [] = Some []"
| "utf8_decode (c # s) =
     (if code c < 128 then map_option (Cons c) (utf8_decode s)
      else case s of
        d # t \<Rightarrow>
          (if 194 \<le> code c \<and> code c \<le> 195 \<and> 128 \<le> code d \<and> code d < 192
           then map_option (Cons (char_of ((code c - 192) * 64 + (code d - 128)))) (utf8_decode t)
           else None)
      | [] \<Rightarrow> None)"

section \<open>Sealed envelopes\<close>

text \<open>The digest of an envelope is taken before it is part of it; printing may raise \<open>TypeError\<close>.\<close>

definition sealed :: "hash \<Rightarrow> (string \<times> pyval) list \<Rightarrow> exn + (string \<times> pyval) list" where
  "sealed sha d = ebind (check (json_ok True (envelope_of d)) TypeError) (\<lambda>_.
     Inr (dict_set ''payload_digest'' (PStr (envelope_digest sha d)) d))"

definition sealed_digest :: "(string \<times> pyval) list \<Rightarrow> string" where
  "sealed_digest d = (case map_of d ''payload_digest'' of Some (PStr s) \<Rightarrow> s | _ \<Rightarrow> [])"

section \<open>Reading JSON from outside\<close>

text \<open>
  \<open>json.loads\<close> makes a float of every number with a fraction or an exponent; \<open>pd_float\<close> gives
  the float of a token.
\<close>

primrec with_floats :: "(string \<Rightarrow> pyval) \<Rightarrow> pyval \<Rightarrow> pyval" where
  "with_floats fl PNone = PNone"
| "with_floats fl (PBool b) = PBool b"
| "with_floats fl (PInt i) = PInt i"
| "with_floats fl (PFloat r) = fl r"
| "with_floats fl (PNonFinite r) = PNonFinite r"
| "with_floats fl (PStr s) = PStr s"
| "with_floats fl (PList xs) = PList (map (with_floats fl) xs)"
| "with_floats fl (PTuple xs) = PTuple (map (with_floats fl) xs)"
| "with_floats fl (PDict kvs) = PDict (map (map_prod (\<lambda>k. k) (with_floats fl)) kvs)"
| "with_floats fl (PObject n) = PObject n"

definition json_loads :: "pydantic \<Rightarrow> string \<Rightarrow> exn + pyval" where
  "json_loads pd s = ebind (loads s) (\<lambda>v. Inr (with_floats (pd_float pd) v))"

text \<open>\<open>json.loads\<close> of bytes, which are taken to be UTF-8.\<close>

definition json_loads_bytes :: "pydantic \<Rightarrow> string \<Rightarrow> exn + pyval" where
  "json_loads_bytes pd b = (case utf8_decode b of
     None \<Rightarrow> Inl (ValueError ''invalid start byte'') | Some s \<Rightarrow> json_loads pd s)"

end
