(* ===== verification/Csv.thy ===== *)
theory Csv
  imports Events
begin

text \<open>
  CSV imports, \<open>imports/csv.py\<close>: Python's strict \<open>csv.reader\<close> over the lines of a text, and
  \<open>parse_csv_v1\<close>, which checks sizes, the header and every row, and validates each row as a
  provider event.
\<close>

section \<open>Lines\<close>

text \<open>
  The lines of a text with their terminators \<open>\n\<close>, \<open>\r\<close> or \<open>\r\n\<close>: the iteration of a
  \<open>StringIO\<close> with \<open>newline=""\<close> and \<open>bytes.splitlines(keepends=True)\<close> alike.
\<close>

definition lf :: char where "lf = CHR 0x0A"
definition cr :: char where "cr = CHR 0x0D"

fun split_lines :: "string \<Rightarrow> string list" where
  "split_lines [] = []"
| "split_lines (c # s) =
     (if c = lf then [c] # split_lines s
      else if c = cr \<and> (s = [] \<or> hd s \<noteq> lf) then [c] # split_lines s
      else case split_lines s of [] \<Rightarrow> [[c]] | l # ls \<Rightarrow> (c # l) # ls)"

section \<open>The reader\<close>

text \<open>
  The states of the reader under the \<open>excel\<close> dialect with \<open>strict=True\<close>, and its limit on the
  length of a field.
\<close>

datatype csv_state = StartRecord | StartField | InField | InQuotedField | QuoteInQuotedField | EatCrnl

record csv_parse =
  cp_state :: csv_state
  cp_field :: string
  cp_fields :: "string list"

datatype csv_failure = CsvValueError string | CsvReaderError

definition csv_reset :: csv_parse where
  "csv_reset = \<lparr>cp_state = StartRecord, cp_field = [], cp_fields = []\<rparr>"

definition save_field :: "csv_state \<Rightarrow> csv_parse \<Rightarrow> csv_parse" where
  "save_field st p = p\<lparr>cp_state := st, cp_field := [], cp_fields := cp_fields p @ [cp_field p]\<rparr>"

definition add_char :: "csv_state \<Rightarrow> char \<Rightarrow> csv_parse \<Rightarrow> csv_failure + csv_parse" where
  "add_char st c p = (if 131072 < length (cp_field p) then Inl CsvReaderError
     else Inr (p\<lparr>cp_state := st, cp_field := cp_field p @ [c]\<rparr>))"

definition is_eol :: "char option \<Rightarrow> bool" where
  "is_eol c \<longleftrightarrow> c = None \<or> c = Some lf \<or> c = Some cr"

definition after_row :: "char option \<Rightarrow> csv_state" where
  "after_row c = (if c = None then StartRecord else EatCrnl)"

definition start_field :: "char option \<Rightarrow> csv_parse \<Rightarrow> csv_failure + csv_parse" where
  "start_field c p =
     (if is_eol c then Inr (save_field (after_row c) p)
      else if c = Some dquote then Inr (p\<lparr>cp_state := InQuotedField\<rparr>)
      else if c = Some (CHR '','') then Inr (save_field StartField p)
      else add_char InField (the c) p)"

text \<open>One character, or \<open>None\<close> after the last one of a line.\<close>

definition csv_char :: "char option \<Rightarrow> csv_parse \<Rightarrow> csv_failure + csv_parse" where
  "csv_char c p = (case cp_state p of
     StartRecord \<Rightarrow> (if c = None then Inr p else if is_eol c then Inr (p\<lparr>cp_state := EatCrnl\<rparr>) else start_field c p)
   | StartField \<Rightarrow> start_field c p
   | InField \<Rightarrow> (if is_eol c then Inr (save_field (after_row c) p)
       else if c = Some (CHR '','') then Inr (save_field StartField p)
       else add_char InField (the c) p)
   | InQuotedField \<Rightarrow> (if c = None then Inr p
       else if c = Some dquote then Inr (p\<lparr>cp_state := QuoteInQuotedField\<rparr>)
       else add_char InQuotedField (the c) p)
   | QuoteInQuotedField \<Rightarrow> (if c = Some dquote then add_char InQuotedField dquote p
       else if c = Some (CHR '','') then Inr (save_field StartField p)
       else if is_eol c then Inr (save_field (after_row c) p)
       else Inl CsvReaderError)
   | EatCrnl \<Rightarrow> (if c = None then Inr (p\<lparr>cp_state := StartRecord\<rparr>) else if is_eol c then Inr p
       else Inl CsvReaderError))"

fun csv_line :: "string \<Rightarrow> csv_parse \<Rightarrow> csv_failure + csv_parse" where
  "csv_line [] p = csv_char None p"
| "csv_line (c # s) p = ebind (csv_char (Some c) p) (csv_line s)"

text \<open>\<open>next(reader)\<close>: the fields of a record and the lines left, or nothing at the end.\<close>

fun csv_next :: "csv_parse \<Rightarrow> string list \<Rightarrow> csv_failure + (string list \<times> string list) option" where
  "csv_next p [] = (if cp_field p \<noteq> [] \<or> cp_state p = InQuotedField then Inl CsvReaderError else Inr None)"
| "csv_next p (l # ls) = ebind (csv_line l p) (\<lambda>p'.
     if cp_state p' = StartRecord then Inr (Some (cp_fields p', ls)) else csv_next p' ls)"

lemma csv_next_shorter: "csv_next p ls = Inr (Some (v, rest)) \<Longrightarrow> length rest < length ls"
proof (induction p ls rule: csv_next.induct)
  case (2 p l ls)
  then show ?case by (auto simp: ebind_eq_Inr split: if_splits intro: less_SucI)
qed (simp split: if_splits)

section \<open>Rows\<close>

record csv_limits =
  cl_bytes :: int
  cl_rows :: int
  cl_columns :: int
  cl_field_length :: int

definition csv_v1_headers :: "string list" where
  "csv_v1_headers = [''provider_event_id'', ''event_type'', ''occurred_at'', ''subject_type'', ''subject_id'',
     ''processing_permitted'', ''advertising_permitted'', ''consent_purpose'', ''references_json'',
     ''attribution_json'', ''money_minor_units'', ''money_currency'', ''payload_json'']"

definition or_braces :: "string \<Rightarrow> string" where
  "or_braces s = (if s = [] then ''{}'' else s)"

definition csv_value :: "exn + 'a \<Rightarrow> csv_failure + 'a" where
  "csv_value r = map_error (\<lambda>e. case e of ValueError m \<Rightarrow> CsvValueError m | _ \<Rightarrow> CsvValueError ''error'') r"

definition csv_row :: "pydantic \<Rightarrow> (string \<times> string) list \<Rightarrow> csv_failure + public_event" where
  "csv_row pd row = csv_value
     (let col = (\<lambda>k. the (map_of row k)) in
      ebind (if col ''money_minor_units'' \<noteq> [] \<or> col ''money_currency'' \<noteq> []
             then ebind (py_int (col ''money_minor_units'')) (\<lambda>n.
               Inr (PDict [(''minor_units'', PInt n), (''currency'', PStr (col ''money_currency''))]))
             else Inr PNone) (\<lambda>money.
      ebind (json_loads pd (or_braces (col ''references_json''))) (\<lambda>refs.
      ebind (json_loads pd (or_braces (col ''attribution_json''))) (\<lambda>attr.
      ebind (json_loads pd (col ''payload_json'')) (\<lambda>payload.
      public_event_input pd (PDict [
        (''provider_event_id'', PStr (col ''provider_event_id'')),
        (''event_type'', PStr (col ''event_type'')),
        (''occurred_at'', PStr (col ''occurred_at'')),
        (''subject_type'', PStr (col ''subject_type'')),
        (''subject_id'', PStr (col ''subject_id'')),
        (''consent'', PDict [
           (''processing_permitted'', PBool (lower (col ''processing_permitted'') = ''true'')),
           (''advertising_permitted'', PBool (lower (col ''advertising_permitted'') = ''true'')),
           (''purpose'', PStr (col ''consent_purpose''))]),
        (''references'', refs), (''attribution'', attr), (''money'', money), (''payload'', payload)]))))))"

function csv_events :: "pydantic \<Rightarrow> csv_limits \<Rightarrow> string list \<Rightarrow> nat \<Rightarrow> string list \<Rightarrow> csv_failure + public_event list" where
  "csv_events pd limits headers number ls =
     (case csv_next csv_reset ls of
        Inl e \<Rightarrow> Inl e
      | Inr None \<Rightarrow> Inr []
      | Inr (Some (values, rest)) \<Rightarrow>
          ebind (check (\<not> cl_rows limits < int number - 1) (CsvValueError ''csv_rows_exceeded'')) (\<lambda>_.
          ebind (check (length values = length headers \<and>
              \<not> list_ex (\<lambda>v. cl_field_length limits < int (length v)) values)
            (CsvValueError (''csv_row_invalid:'' @ nat_str number))) (\<lambda>_.
          ebind (csv_row pd (zip headers values)) (\<lambda>e.
          ebind (csv_events pd limits headers (Suc number) rest) (\<lambda>es. Inr (e # es))))))"
  by pat_completeness auto
termination by (relation "measure (\<lambda>(pd, limits, headers, number, ls). length ls)") (auto dest: csv_next_shorter)

declare csv_events.simps [simp del]

definition csv_header :: "string list \<Rightarrow> csv_failure + (string list \<times> string list)" where
  "csv_header ls = (case csv_next csv_reset ls of
     Inr (Some (headers, rest)) \<Rightarrow> Inr (headers, rest)
   | _ \<Rightarrow> Inl (CsvValueError ''csv_header_invalid''))"

definition parse_csv_v1 :: "pydantic \<Rightarrow> csv_limits \<Rightarrow> string \<Rightarrow> csv_failure + public_event list" where
  "parse_csv_v1 pd limits body =
     ebind (check (\<not> cl_bytes limits < int (length body)) (CsvValueError ''csv_bytes_exceeded'')) (\<lambda>_.
     case utf8_decode body of
       None \<Rightarrow> Inl (CsvValueError ''csv_utf8_required'')
     | Some source \<Rightarrow>
         ebind (csv_header (split_lines source)) (\<lambda>(headers, rest).
         ebind (check (distinct headers \<and> headers = csv_v1_headers) (CsvValueError ''csv_header_invalid'')) (\<lambda>_.
         ebind (check (\<not> cl_columns limits < int (length headers)) (CsvValueError ''csv_columns_exceeded'')) (\<lambda>_.
         csv_events pd limits headers 2 rest))))"

end
