(* ===== verification/Signatures.thy ===== *)
theory Signatures
  imports Json
begin

text \<open>
  Webhook authentication, \<open>ingestion/signatures.py\<close>.  HMAC-SHA256 is a parameter that gives
  the hexadecimal text of the code; byte strings are texts of characters below 256.  A decoded
  signature is kept as its hexadecimal text, from which \<open>bytes.fromhex\<close> is injective.
\<close>

type_synonym hmac = "string \<Rightarrow> string \<Rightarrow> string"

definition signature_error :: exn where
  "signature_error = ValueError ''invalid webhook authentication''"

text \<open>\<open>_TIMESTAMP.fullmatch\<close>: zero, or up to thirteen digits without a leading zero.\<close>

definition timestamp_text :: "string \<Rightarrow> bool" where
  "timestamp_text v \<longleftrightarrow> v = ''0'' \<or>
     (v \<noteq> [] \<and> length v \<le> 13 \<and> list_all is_digit v \<and> hd v \<noteq> CHR ''0'')"

definition parse_timestamp :: "string \<Rightarrow> exn + int" where
  "parse_timestamp v = ebind (check (timestamp_text v) signature_error) (\<lambda>_. Inr (int (str_nat v)))"

definition signature_text :: "string \<Rightarrow> bool" where
  "signature_text v \<longleftrightarrow> starts_with ''v1='' v \<and> length v = 67 \<and> list_all is_hex (drop 3 v)"

definition parse_signature :: "string list \<Rightarrow> exn + string" where
  "parse_signature values = (case values of
     [v] \<Rightarrow> ebind (check (signature_text v) signature_error) (\<lambda>_. Inr (drop 3 v))
   | _ \<Rightarrow> Inl signature_error)"

definition signed_text :: "string \<Rightarrow> string \<Rightarrow> string" where
  "signed_text timestamp_header body = timestamp_header @ ''.'' @ body"

definition sign :: "hmac \<Rightarrow> string \<Rightarrow> string \<Rightarrow> string \<Rightarrow> string" where
  "sign hmac secret timestamp_header body = hmac secret (signed_text timestamp_header body)"

text \<open>The loop over the secrets compares them all, whichever matches.\<close>

definition any_match :: "hmac \<Rightarrow> string list \<Rightarrow> string \<Rightarrow> string \<Rightarrow> string \<Rightarrow> bool" where
  "any_match hmac keys timestamp_header body supplied =
     foldl (\<lambda>matched secret. sign hmac secret timestamp_header body = supplied \<or> matched) False keys"

definition authenticate :: "hmac \<Rightarrow> string list \<Rightarrow> string \<Rightarrow> string list \<Rightarrow> string \<Rightarrow> int \<Rightarrow> int \<Rightarrow> exn + unit" where
  "authenticate hmac keys timestamp_header signature_headers body window now =
     ebind (parse_timestamp timestamp_header) (\<lambda>timestamp.
     ebind (check (\<not> \<bar>now div micros - timestamp\<bar> > window) signature_error) (\<lambda>_.
     ebind (parse_signature signature_headers) (\<lambda>supplied.
     check (any_match hmac keys timestamp_header body supplied) signature_error)))"

section \<open>What a signature proves\<close>

lemma any_match_iff:
  "any_match hmac keys ts body supplied \<longleftrightarrow> (\<exists>s \<in> set keys. sign hmac s ts body = supplied)"
proof -
  have "foldl (\<lambda>m s. P s \<or> m) b xs \<longleftrightarrow> b \<or> (\<exists>s \<in> set xs. P s)" for P b and xs :: "string list"
    by (induction xs arbitrary: b) auto
  then show ?thesis by (simp add: any_match_def)
qed

lemma timestamp_no_dot: "timestamp_text v \<Longrightarrow> CHR ''.'' \<notin> set v"
  by (auto simp: timestamp_text_def list_all_iff is_digit_def code_def)

lemma signed_text_inject:
  assumes "timestamp_text s" "timestamp_text t" "signed_text s a = signed_text t b"
  shows "s = t \<and> a = b"
proof -
  let ?head = "takeWhile (\<lambda>c. c \<noteq> CHR ''.'')"
  have "?head (v @ CHR ''.'' # c) = v" if "CHR ''.'' \<notin> set v" for v c
    using that by (induction v) auto
  with assms have "s = t" unfolding signed_text_def by (metis append_Cons append_Nil timestamp_no_dot)
  with assms(3) show ?thesis by (simp add: signed_text_def)
qed

lemma signature_text_iff:
  "signature_text x \<and> v = drop 3 x \<longleftrightarrow> x = ''v1='' @ v \<and> length v = 64 \<and> list_all is_hex v"
proof
  assume a: "signature_text x \<and> v = drop 3 x"
  then have "take 3 x = ''v1=''" by (simp add: signature_text_def starts_with_def eval_nat_numeral)
  with a have x: "x = ''v1='' @ v" by (metis append_take_drop_id)
  moreover have "length x = 67" "list_all is_hex v" using a by (auto simp: signature_text_def)
  ultimately show "x = ''v1='' @ v \<and> length v = 64 \<and> list_all is_hex v" by simp
qed (auto simp: signature_text_def starts_with_def)

lemma parse_signature_Inr:
  "parse_signature values = Inr v \<longleftrightarrow> values = [''v1='' @ v] \<and> length v = 64 \<and> list_all is_hex v"
proof (cases "\<exists>x. values = [x]")
  case True
  then obtain x where "values = [x]" by blast
  then show ?thesis using signature_text_iff [of x v] by (auto simp: parse_signature_def ebind_eq_Inr)
next
  case False
  then show ?thesis by (auto simp: parse_signature_def split: list.splits)
qed

text \<open>
  C21. A webhook is authentic exactly if its timestamp is a canonical number of seconds within
  the replay window of the clock, it carries one signature of the one form, and that signature
  is the HMAC of timestamp and body under one of the endpoint's usable secrets; and what is
  signed determines both the timestamp and the body, so a signature cannot be moved to another
  time or another payload.
\<close>

theorem webhook_authentic:
  "(authenticate hmac keys ts sigs body window now = Inr () \<longleftrightarrow>
     (timestamp_text ts \<and> \<bar>now div micros - int (str_nat ts)\<bar> \<le> window \<and>
      (\<exists>v key. sigs = [''v1='' @ v] \<and> length v = 64 \<and> list_all is_hex v \<and> key \<in> set keys \<and>
        v = hmac key (signed_text ts body)))) \<and>
   (timestamp_text ts \<and> timestamp_text ts' \<and> signed_text ts body = signed_text ts' body' \<longrightarrow> ts = ts' \<and> body = body')"
proof -
  have "authenticate hmac keys ts sigs body window now = Inr () \<longleftrightarrow>
     (timestamp_text ts \<and> \<bar>now div micros - int (str_nat ts)\<bar> \<le> window \<and>
      (\<exists>v key. sigs = [''v1='' @ v] \<and> length v = 64 \<and> list_all is_hex v \<and> key \<in> set keys \<and>
        v = hmac key (signed_text ts body)))"
    by (auto simp: authenticate_def parse_timestamp_def ebind_eq_Inr any_match_iff sign_def not_less
        parse_signature_Inr)
  then show ?thesis using signed_text_inject by blast
qed

definition toy_hmac :: hmac where
  "toy_hmac key text = hex_pad 64 (length key + length text)"

theorem webhook_authentic_witness:
  "authenticate toy_hmac [''old'', ''new''] ''1000'' [''v1='' @ hex_pad 64 10] ''{}'' 300 1200000000 = Inr () \<and>
   timestamp_text ''1000''"
proof -
  have "timestamp_text ''1000'' \<and> \<bar>1200000000 div micros - int (str_nat ''1000'')\<bar> \<le> 300"
    by (simp add: timestamp_text_def is_digit_def code_def micros_def str_nat_def digit_val_def)
  moreover have "hex_pad 64 10 = toy_hmac ''old'' (signed_text ''1000'' ''{}'')"
    by (simp add: toy_hmac_def signed_text_def eval_nat_numeral del: hex_pad.simps)
  moreover have "list_all is_hex (hex_pad 64 10)" using hex_pad_is_hex by (simp add: list_all_iff)
  ultimately show ?thesis
    using webhook_authentic [of toy_hmac "[''old'', ''new'']" "''1000''" "[''v1='' @ hex_pad 64 10]" "''{}''" 300 1200000000]
    by (auto simp: toy_hmac_def)
qed

end
