(* ===== verification/Integrations.thy ===== *)
theory Integrations
  imports PipelineDb Signatures
begin

text \<open>
  Provider endpoints and their signing secrets: the authenticated encryption of
  \<open>integrations/secrets.py\<close>, the material and rotation windows of \<open>integrations/endpoints.py\<close>,
  the tenant-scoped statements of \<open>integrations/repositories.py\<close>, the management requests of
  \<open>integrations/api.py\<close>, and the resolver that public ingress uses (migration 0005).  AES-GCM
  and the random source are parameters.
\<close>

section \<open>Encrypted secrets\<close>

record gcm =
  gcm_encrypt :: "string \<Rightarrow> string \<Rightarrow> string \<Rightarrow> string \<Rightarrow> string"
  gcm_decrypt :: "string \<Rightarrow> string \<Rightarrow> string \<Rightarrow> string \<Rightarrow> string option"

record encrypted_secret =
  es_key_id :: string
  es_nonce :: string
  es_ciphertext :: string

record secret_cipher =
  ci_keys :: "(string \<times> string) list"
  ci_active_key_id :: string

definition authenticated_context :: "uuid \<Rightarrow> uuid \<Rightarrow> int \<Rightarrow> exn + string" where
  "authenticated_context tenant endpoint version =
     ebind (check (1 \<le> version) (ValueError ''secret version must be positive'')) (\<lambda>_.
     Inr (''outcomeos:integration-secret:v1:'' @ uuid_str tenant @ '':'' @ uuid_str endpoint @ '':'' @ int_str version))"

definition mk_secret_cipher :: "(string \<times> string) list \<Rightarrow> string \<Rightarrow> exn + secret_cipher" where
  "mk_secret_cipher keys active =
     ebind (check (map_of keys active \<noteq> None) (ValueError ''active key id is not present in keyring'')) (\<lambda>_.
     ebind (check (list_all (\<lambda>(i, key). length key = 32) keys)
        (ValueError ''integration encryption keys must be exactly 32 bytes'')) (\<lambda>_.
     Inr \<lparr>ci_keys = keys, ci_active_key_id = active\<rparr>))"

definition encrypt_secret :: "gcm \<Rightarrow> secret_cipher \<Rightarrow> string \<Rightarrow> string \<Rightarrow> uuid \<Rightarrow> uuid \<Rightarrow> int \<Rightarrow> exn + encrypted_secret" where
  "encrypt_secret G c nonce plaintext tenant endpoint version =
     ebind (check (plaintext \<noteq> []) (ValueError ''integration secret must not be empty'')) (\<lambda>_.
     ebind (authenticated_context tenant endpoint version) (\<lambda>context.
     (case map_of (ci_keys c) (ci_active_key_id c) of
        None \<Rightarrow> Inl (KeyError (ci_active_key_id c))
      | Some key \<Rightarrow> Inr \<lparr>es_key_id = ci_active_key_id c, es_nonce = nonce,
          es_ciphertext = gcm_encrypt G key nonce plaintext context\<rparr>)))"

text \<open>\<open>InvalidTag\<close>, which AES-GCM raises, is not a \<open>ValueError\<close>.\<close>

definition decrypt_secret :: "gcm \<Rightarrow> secret_cipher \<Rightarrow> encrypted_secret \<Rightarrow> uuid \<Rightarrow> uuid \<Rightarrow> int \<Rightarrow> failure + string" where
  "decrypt_secret G c s tenant endpoint version =
     (case map_of (ci_keys c) (es_key_id s) of
        None \<Rightarrow> Inl (PythonFailure (ValueError ''secret encryption key is unavailable''))
      | Some key \<Rightarrow>
          ebind (map_error PythonFailure (authenticated_context tenant endpoint version)) (\<lambda>context.
          (case gcm_decrypt G key (es_nonce s) (es_ciphertext s) context of
             None \<Rightarrow> Inl CipherFailure
           | Some plaintext \<Rightarrow> Inr plaintext)))"

section \<open>Endpoint material\<close>

definition ascii :: "string \<Rightarrow> bool" where
  "ascii s \<longleftrightarrow> list_all (\<lambda>c. code c < 128) s"

definition token_digest :: "hash \<Rightarrow> string \<Rightarrow> exn + string" where
  "token_digest sha token = ebind (check (ascii token) (ValueError ''ascii codec can not encode character''))
     (\<lambda>_. Inr (sha token))"

record new_endpoint =
  ne_id :: uuid
  ne_public_token :: string
  ne_public_token_digest :: string
  ne_signing_secret :: string
  ne_encrypted_secret :: encrypted_secret
  ne_not_before :: int
  ne_expires_at :: int

text \<open>\<open>datetime + timedelta\<close>, which overflows past the year 9999.\<close>

definition later_by :: "int \<Rightarrow> int \<Rightarrow> exn + int" where
  "later_by t s = (case dt_plus t s of None \<Rightarrow> Inl (OverflowError) | Some u \<Rightarrow> Inr u)"

text \<open>What one call draws from the random source.\<close>

record material_random =
  mr_endpoint_id :: uuid
  mr_public_token :: string
  mr_signing_secret :: string
  mr_nonce :: string
  mr_secret_row_id :: uuid

definition create_endpoint_material :: "hash \<Rightarrow> gcm \<Rightarrow> material_random \<Rightarrow> uuid \<Rightarrow> secret_cipher \<Rightarrow> int \<Rightarrow> int \<Rightarrow> int \<Rightarrow>
    exn + new_endpoint" where
  "create_endpoint_material sha G rnd tenant cipher token_bytes lifetime now =
     ebind (check (\<not> (token_bytes < 32 \<or> lifetime < 1))
        (ValueError ''endpoint cryptographic configuration is invalid'')) (\<lambda>_.
     ebind (encrypt_secret G cipher (mr_nonce rnd) (mr_signing_secret rnd) tenant (mr_endpoint_id rnd) 1) (\<lambda>encrypted.
     ebind (token_digest sha (mr_public_token rnd)) (\<lambda>digest.
     ebind (later_by now lifetime) (\<lambda>expires.
     Inr \<lparr>ne_id = mr_endpoint_id rnd, ne_public_token = mr_public_token rnd, ne_public_token_digest = digest,
       ne_signing_secret = mr_signing_secret rnd, ne_encrypted_secret = encrypted, ne_not_before = now,
       ne_expires_at = expires\<rparr>))))"

definition rotation_windows :: "int \<Rightarrow> int \<Rightarrow> int \<Rightarrow> exn + int \<times> int \<times> int" where
  "rotation_windows now lifetime overlap =
     ebind (check (\<not> (lifetime < 1 \<or> \<not> (0 \<le> overlap \<and> overlap < lifetime))) (ValueError ''invalid rotation window'')) (\<lambda>_.
     ebind (later_by now lifetime) (\<lambda>expires. ebind (later_by now overlap) (\<lambda>overlap_end.
     Inr (now, expires, overlap_end))))"

definition rotation_is_usable :: "datetime \<Rightarrow> datetime \<Rightarrow> datetime \<Rightarrow> exn + bool" where
  "rotation_is_usable not_before expires_at checked_at =
     ebind (check (dt_aware not_before \<and> dt_aware expires_at \<and> dt_aware checked_at)
        (ValueError ''secret rotation timestamps must be timezone-aware'')) (\<lambda>_.
     ebind (dt_le not_before checked_at) (\<lambda>a. if a then dt_less checked_at expires_at else Inr False))"

section \<open>Repository\<close>

definition list_endpoints :: "uuid \<Rightarrow> pipeline \<Rightarrow> endpoint_row list" where
  "list_endpoints tenant db = sort_key ep_created_at (filter (\<lambda>r. ep_tenant_id r = tenant) (endpoints db))"

definition get_endpoint :: "uuid \<Rightarrow> uuid \<Rightarrow> pipeline \<Rightarrow> endpoint_row option" where
  "get_endpoint tenant endpoint db = find_row ep_tenant_id ep_id tenant endpoint (endpoints db)"

definition disable_endpoint :: "uuid \<Rightarrow> uuid \<Rightarrow> bool \<Rightarrow> int \<Rightarrow> pipeline \<Rightarrow> bool \<times> pipeline" where
  "disable_endpoint tenant endpoint revoked now db =
     (let hit = (\<lambda>r. ep_tenant_id r = tenant \<and> ep_id r = endpoint \<and> ep_status r = ''active'') in
      (length (filter hit (endpoints db)) = 1,
       db\<lparr>endpoints := map (\<lambda>r. if hit r then r\<lparr>ep_status := (if revoked then ''revoked'' else ''disabled''),
          ep_revoked_at := (if revoked then Some now else ep_revoked_at r)\<rparr> else r) (endpoints db)\<rparr>))"

definition secret_of :: "uuid \<Rightarrow> uuid \<Rightarrow> secret_row \<Rightarrow> bool" where
  "secret_of tenant endpoint s \<longleftrightarrow> sc_tenant_id s = tenant \<and> sc_endpoint_id s = endpoint"

definition latest_version :: "uuid \<Rightarrow> uuid \<Rightarrow> pipeline \<Rightarrow> int option" where
  "latest_version tenant endpoint db =
     (case rev (sort (map sc_version (filter (secret_of tenant endpoint) (secrets db)))) of
        [] \<Rightarrow> None | v # vs \<Rightarrow> Some v)"

definition shorten_previous_version :: "uuid \<Rightarrow> uuid \<Rightarrow> int \<Rightarrow> int \<Rightarrow> pipeline \<Rightarrow> db_error + pipeline" where
  "shorten_previous_version tenant endpoint version expires db =
     ebind (update_rows (\<lambda>s. secret_of tenant endpoint s \<and> sc_version s = version)
         (\<lambda>s. s\<lparr>sc_expires_at := min (sc_expires_at s) expires\<rparr>)
         (\<lambda>_ new. require (secret_check new) CheckViolation) (secrets db))
       (\<lambda>rows. Inr (db\<lparr>secrets := rows\<rparr>))"

section \<open>Management requests\<close>

record integration_settings =
  is_token_bytes :: int
  is_lifetime_seconds :: int
  is_overlap_seconds :: int

definition provider_name :: "string \<Rightarrow> bool" where
  "provider_name s \<longleftrightarrow> 1 \<le> length s \<and> length s \<le> 64 \<and> is_lower (hd s) \<and>
     list_all (\<lambda>c. is_lower c \<or> is_digit c \<or> c \<in> set ''_-'') s"

definition valid_endpoint_create :: "string \<Rightarrow> string \<Rightarrow> bool" where
  "valid_endpoint_create provider name \<longleftrightarrow> provider_name provider \<and> 1 \<le> length name \<and> length name \<le> 120"

definition insert_material :: "uuid \<Rightarrow> string \<Rightarrow> string \<Rightarrow> int \<Rightarrow> uuid \<Rightarrow> new_endpoint \<Rightarrow> pipeline \<Rightarrow> db_error + pipeline" where
  "insert_material tenant provider name now row_id m db =
     ebind (insert_endpoint \<lparr>ep_id = ne_id m, ep_created_at = now, ep_tenant_id = tenant, ep_provider = provider,
         ep_name = name, ep_public_token_digest = ne_public_token_digest m, ep_status = ''active'',
         ep_revoked_at = None\<rparr> db)
       (insert_secret_version \<lparr>sc_id = row_id, sc_tenant_id = tenant, sc_endpoint_id = ne_id m, sc_version = 1,
         sc_key_id = es_key_id (ne_encrypted_secret m), sc_nonce = es_nonce (ne_encrypted_secret m),
         sc_ciphertext = es_ciphertext (ne_encrypted_secret m), sc_not_before = ne_not_before m,
         sc_expires_at = ne_expires_at m, sc_retired_at = None\<rparr>)"

definition create_endpoint :: "hash \<Rightarrow> gcm \<Rightarrow> integration_settings \<Rightarrow> secret_cipher \<Rightarrow> principal \<Rightarrow> int \<Rightarrow> material_random \<Rightarrow>
    string \<Rightarrow> string \<Rightarrow> pipeline \<Rightarrow> new_endpoint reply \<times> pipeline" where
  "create_endpoint sha G cfg cipher actor now rnd provider name db =
     (if \<not> valid_endpoint_create provider name then (Denied 422 ''validation'', db)
      else case create_endpoint_material sha G rnd (pr_tenant_id actor) cipher (is_token_bytes cfg)
             (is_lifetime_seconds cfg) now of
        Inl e \<Rightarrow> (Crashed (PythonFailure e), db)
      | Inr m \<Rightarrow> respond 201 (andthen (sqls (insert_material (pr_tenant_id actor) provider name now
            (mr_secret_row_id rnd) m)) (ret m)) db)"

definition endpoint_detail :: "principal \<Rightarrow> uuid \<Rightarrow> pipeline \<Rightarrow> endpoint_row reply \<times> pipeline" where
  "endpoint_detail actor endpoint =
     respond 200 (expect 404 ''integration endpoint not found'' (get_endpoint (pr_tenant_id actor) endpoint))"

definition all_endpoints :: "principal \<Rightarrow> pipeline \<Rightarrow> endpoint_row list reply \<times> pipeline" where
  "all_endpoints actor = respond 200 (query (list_endpoints (pr_tenant_id actor)))"

text \<open>\<open>plaintext\<close> is the digest the code takes of two random identifiers.\<close>

definition rotate_secret :: "gcm \<Rightarrow> integration_settings \<Rightarrow> secret_cipher \<Rightarrow> principal \<Rightarrow> int \<Rightarrow> string \<Rightarrow> string \<Rightarrow> uuid \<Rightarrow>
    uuid \<Rightarrow> pipeline \<Rightarrow> (string \<times> int \<times> int \<times> int) reply \<times> pipeline" where
  "rotate_secret G cfg cipher actor now plaintext nonce row_id endpoint = respond 200
     (let tenant = pr_tenant_id actor in
      bind (expect 404 ''integration endpoint not found'' (get_endpoint tenant endpoint)) (\<lambda>_.
      bind (expect 409 ''endpoint has no signing secret'' (latest_version tenant endpoint)) (\<lambda>previous.
      bind (lift PythonFailure (rotation_windows now (is_lifetime_seconds cfg) (is_overlap_seconds cfg)))
        (\<lambda>(not_before, expires, overlap_end).
      bind (lift PythonFailure (encrypt_secret G cipher nonce plaintext tenant endpoint (previous + 1))) (\<lambda>encrypted.
      andthen (sqls (shorten_previous_version tenant endpoint previous overlap_end))
      (andthen (sqls (insert_secret_version \<lparr>sc_id = row_id, sc_tenant_id = tenant, sc_endpoint_id = endpoint,
         sc_version = previous + 1, sc_key_id = es_key_id encrypted, sc_nonce = es_nonce encrypted,
         sc_ciphertext = es_ciphertext encrypted, sc_not_before = not_before, sc_expires_at = expires,
         sc_retired_at = None\<rparr>))
      (ret (plaintext, previous + 1, not_before, expires))))))))"

definition set_endpoint_status :: "principal \<Rightarrow> int \<Rightarrow> bool \<Rightarrow> uuid \<Rightarrow> pipeline \<Rightarrow> endpoint_row reply \<times> pipeline" where
  "set_endpoint_status actor now revoke endpoint = respond 200
     (let tenant = pr_tenant_id actor in
      bind (\<lambda>db. Inr (disable_endpoint tenant endpoint revoke now db)) (\<lambda>changed.
      andthen (need changed (HttpException 404 ''integration endpoint not found''))
      (expect 500 ''assertion'' (get_endpoint tenant endpoint))))"

section \<open>The resolver of public ingress\<close>

record resolved_secret =
  rs_tenant_id :: uuid
  rs_endpoint_id :: uuid
  rs_provider :: string
  rs_version :: int
  rs_secret :: encrypted_secret

definition usable_secret :: "int \<Rightarrow> secret_row \<Rightarrow> bool" where
  "usable_secret now s \<longleftrightarrow> sc_retired_at s = None \<and> sc_not_before s \<le> now \<and> now < sc_expires_at s"

definition resolve_endpoint :: "int \<Rightarrow> string \<Rightarrow> pipeline \<Rightarrow> resolved_secret list" where
  "resolve_endpoint now digest db = take 2 (rev (sort_key rs_version (concat (map (\<lambda>e.
     map (\<lambda>s. \<lparr>rs_tenant_id = ep_tenant_id e, rs_endpoint_id = ep_id e, rs_provider = ep_provider e,
         rs_version = sc_version s, rs_secret = \<lparr>es_key_id = sc_key_id s, es_nonce = sc_nonce s,
           es_ciphertext = sc_ciphertext s\<rparr>\<rparr>)
       (filter (\<lambda>s. secret_of (ep_tenant_id e) (ep_id e) s \<and> usable_secret now s) (secrets db)))
     (filter (\<lambda>e. ep_public_token_digest e = digest \<and> ep_status e = ''active'' \<and> ep_revoked_at e = None)
       (endpoints db))))))"

end
