(* ===== verification/Storage.thy ===== *)
theory Storage
  imports PipelineDb
begin

text \<open>
  Evidence storage, \<open>storage/objects.py\<close>: the port the pipeline uses and its S3 adapter, with
  tenant-prefixed keys, conditional creation, byte limits and digest checks.  The S3 client and
  the bucket's state \<open>'o\<close> are parameters; what the adapter relies on is stated as a hypothesis
  where it is used.  Object bodies are byte strings, digests their hexadecimal text.
\<close>

section \<open>The port\<close>

record object_head =
  oh_length :: nat
  oh_sha256 :: string

record object_page =
  op_keys :: "string list"
  op_cursor :: "string option"

text \<open>\<open>ClientError\<close> carries the HTTP status of the response, if it has one.\<close>

datatype storage_error =
    ClientError "nat option"
  | StorageValueError string
  | OtherStorageError

record 'o object_storage =
  os_put_if_absent :: "uuid \<Rightarrow> string \<Rightarrow> string \<Rightarrow> string \<Rightarrow> 'o \<Rightarrow> (storage_error + object_head) \<times> 'o"
  os_read :: "uuid \<Rightarrow> string \<Rightarrow> 'o \<Rightarrow> storage_error + string"
  os_head :: "uuid \<Rightarrow> string \<Rightarrow> 'o \<Rightarrow> storage_error + object_head"
  os_delete :: "uuid \<Rightarrow> string \<Rightarrow> 'o \<Rightarrow> (storage_error + unit) \<times> 'o"
  os_list_page :: "uuid \<Rightarrow> string option \<Rightarrow> int \<Rightarrow> 'o \<Rightarrow> storage_error + object_page"

section \<open>The S3 adapter\<close>

record s3_object =
  so_length :: nat
  so_body :: string
  so_sha256 :: "string option"

record s3_listing =
  sl_keys :: "string list"
  sl_next :: "string option"

record 'o s3_client =
  s3_put :: "string \<Rightarrow> string \<Rightarrow> string \<Rightarrow> string \<Rightarrow> 'o \<Rightarrow> (storage_error + unit) \<times> 'o"
  s3_get :: "string \<Rightarrow> string \<Rightarrow> 'o \<Rightarrow> storage_error + s3_object"
  s3_head :: "string \<Rightarrow> string \<Rightarrow> 'o \<Rightarrow> storage_error + s3_object"
  s3_delete :: "string \<Rightarrow> string \<Rightarrow> 'o \<Rightarrow> (storage_error + unit) \<times> 'o"
  s3_list :: "string \<Rightarrow> string \<Rightarrow> int \<Rightarrow> string option \<Rightarrow> 'o \<Rightarrow> storage_error + s3_listing"

record s3_config =
  s3_bucket :: string
  s3_max_bytes :: nat

definition mk_s3_config :: "string \<Rightarrow> int \<Rightarrow> exn + s3_config" where
  "mk_s3_config bucket max_bytes =
     ebind (check (\<not> max_bytes < 1) (ValueError ''max_bytes must be positive'')) (\<lambda>_.
     Inr \<lparr>s3_bucket = bucket, s3_max_bytes = nat max_bytes\<rparr>)"

text \<open>\<open>str.split(sep)\<close> for a separator of one character.\<close>

fun split_on :: "char \<Rightarrow> string \<Rightarrow> string list" where
  "split_on sep [] = [[]]"
| "split_on sep (c # s) = (case split_on sep s of
     [] \<Rightarrow> [[c]]
   | w # ws \<Rightarrow> if c = sep then [] # w # ws else (c # w) # ws)"

definition tenant_prefix :: "uuid \<Rightarrow> string" where
  "tenant_prefix t = ''tenants/'' @ uuid_str t @ ''/''"

definition stored_key :: "uuid \<Rightarrow> string \<Rightarrow> storage_error + string" where
  "stored_key t key =
     ebind (check (\<not> (key = [] \<or> starts_with ''/'' key \<or> ''..'' \<in> set (split_on (CHR ''/'') key)))
        (StorageValueError ''object key must be a safe relative key'')) (\<lambda>_.
     Inr (tenant_prefix t @ key))"

definition s3_head_object :: "'o s3_client \<Rightarrow> s3_config \<Rightarrow> uuid \<Rightarrow> string \<Rightarrow> 'o \<Rightarrow> storage_error + object_head" where
  "s3_head_object C cfg t key s =
     ebind (stored_key t key) (\<lambda>k. ebind (s3_head C (s3_bucket cfg) k s) (\<lambda>response.
     (case so_sha256 response of
        Some d \<Rightarrow> if d \<noteq> [] then Inr \<lparr>oh_length = so_length response, oh_sha256 = d\<rparr>
                  else Inl (StorageValueError ''stored object has no digest metadata'')
      | None \<Rightarrow> Inl (StorageValueError ''stored object has no digest metadata''))))"

definition s3_put_if_absent :: "hash \<Rightarrow> 'o s3_client \<Rightarrow> s3_config \<Rightarrow> uuid \<Rightarrow> string \<Rightarrow> string \<Rightarrow> string \<Rightarrow> 'o \<Rightarrow>
    (storage_error + object_head) \<times> 'o" where
  "s3_put_if_absent sha C cfg t key body digest s =
     (if s3_max_bytes cfg < length body then (Inl (StorageValueError ''object exceeds configured byte limit''), s)
      else if sha body \<noteq> digest then (Inl (StorageValueError ''object digest mismatch''), s)
      else case stored_key t key of
        Inl e \<Rightarrow> (Inl e, s)
      | Inr k \<Rightarrow>
          (let wanted = \<lparr>oh_length = length body, oh_sha256 = digest\<rparr> in
           case s3_put C (s3_bucket cfg) k body digest s of
             (Inr u, s') \<Rightarrow> (Inr wanted, s')
           | (Inl (ClientError status), s') \<Rightarrow>
               (if status = Some 409 \<or> status = Some 412 then
                  (case s3_head_object C cfg t key s' of
                     Inl e \<Rightarrow> (Inl e, s')
                   | Inr existing \<Rightarrow>
                       (if existing \<noteq> wanted
                        then (Inl (StorageValueError ''object key already exists with different content''), s')
                        else (Inr existing, s')))
                else (Inl (ClientError status), s'))
           | (Inl e, s') \<Rightarrow> (Inl e, s')))"

text \<open>At most \<open>max_bytes + 1\<close> bytes of the body are read.\<close>

definition s3_read :: "hash \<Rightarrow> 'o s3_client \<Rightarrow> s3_config \<Rightarrow> uuid \<Rightarrow> string \<Rightarrow> 'o \<Rightarrow> storage_error + string" where
  "s3_read sha C cfg t key s =
     ebind (stored_key t key) (\<lambda>k. ebind (s3_get C (s3_bucket cfg) k s) (\<lambda>response.
     ebind (check (\<not> s3_max_bytes cfg < so_length response)
        (StorageValueError ''stored object exceeds configured byte limit'')) (\<lambda>_.
     (let body = take (s3_max_bytes cfg + 1) (so_body response) in
      ebind (check (\<not> (length body \<noteq> so_length response \<or> s3_max_bytes cfg < length body))
        (StorageValueError ''stored object length mismatch'')) (\<lambda>_.
      ebind (check (case so_sha256 response of None \<Rightarrow> False | Some d \<Rightarrow> d \<noteq> [] \<and> sha body = d)
        (StorageValueError ''stored object digest mismatch'')) (\<lambda>_.
      Inr body))))))"

definition s3_delete_object :: "'o s3_client \<Rightarrow> s3_config \<Rightarrow> uuid \<Rightarrow> string \<Rightarrow> 'o \<Rightarrow> (storage_error + unit) \<times> 'o" where
  "s3_delete_object C cfg t key s = (case stored_key t key of
     Inl e \<Rightarrow> (Inl e, s) | Inr k \<Rightarrow> s3_delete C (s3_bucket cfg) k s)"

definition s3_list_page :: "'o s3_client \<Rightarrow> s3_config \<Rightarrow> uuid \<Rightarrow> string option \<Rightarrow> int \<Rightarrow> 'o \<Rightarrow> storage_error + object_page" where
  "s3_list_page C cfg t cursor limit s =
     ebind (check (\<not> (limit < 1 \<or> 1000 < limit))
        (StorageValueError ''object listing limit must be between 1 and 1000'')) (\<lambda>_.
     (let prefix = tenant_prefix t; token = (case cursor of None \<Rightarrow> None | Some c \<Rightarrow> if c = [] then None else Some c) in
      ebind (s3_list C (s3_bucket cfg) prefix limit token s) (\<lambda>response.
      Inr \<lparr>op_keys = map (drop (length prefix)) (filter (starts_with prefix) (sl_keys response)),
        op_cursor = (case sl_next response of None \<Rightarrow> None | Some c \<Rightarrow> if c = [] then None else Some c)\<rparr>)))"

definition s3_storage :: "hash \<Rightarrow> 'o s3_client \<Rightarrow> s3_config \<Rightarrow> 'o object_storage" where
  "s3_storage sha C cfg = \<lparr>os_put_if_absent = s3_put_if_absent sha C cfg, os_read = s3_read sha C cfg,
     os_head = s3_head_object C cfg, os_delete = s3_delete_object C cfg, os_list_page = s3_list_page C cfg\<rparr>"

section \<open>Stored evidence reads back, per tenant\<close>

text \<open>
  What the service is documented to do: a conditional put fails with 412 if the key exists and
  otherwise stores the object, which \<open>get\<close> and \<open>head\<close> then return; other keys keep theirs.
\<close>

definition s3_laws :: "'o s3_client \<Rightarrow> bool" where
  "s3_laws C \<longleftrightarrow>
     (\<forall>b k body d s s' u. s3_put C b k body d s = (Inr u, s') \<longrightarrow>
        s3_get C b k s' = Inr \<lparr>so_length = length body, so_body = body, so_sha256 = Some d\<rparr> \<and>
        (\<forall>k'. k' \<noteq> k \<longrightarrow> s3_get C b k' s' = s3_get C b k' s)) \<and>
     (\<forall>b k body d s s' e. s3_put C b k body d s = (Inl e, s') \<longrightarrow> s' = s) \<and>
     (\<forall>b k s. s3_head C b k s = s3_get C b k s)"

lemma tenant_prefix_inject:
  assumes "valid_uuid t" "valid_uuid u" "tenant_prefix t @ a = tenant_prefix u @ b"
  shows "t = u \<and> a = b"
proof -
  have len: "length (uuid_str x) = 36" for x by (simp add: uuid_str_def Let_def)
  from assms(3) have "uuid_str t @ ''/'' @ a = uuid_str u @ ''/'' @ b" by (simp add: tenant_prefix_def)
  then have "uuid_str t = uuid_str u \<and> ''/'' @ a = ''/'' @ b" using len by (metis append_eq_append_conv)
  then show ?thesis using assms(1,2) uuid_str_inject by auto
qed

lemma stored_key_Inr: "stored_key t key = Inr k \<Longrightarrow> k = tenant_prefix t @ key"
  by (auto simp: stored_key_def ebind_eq_Inr)

text \<open>
  Evidence that was stored reads back unchanged, under the storage service's documented
  contract and as long as digests are not empty; storing it never changes what another tenant
  (or the same tenant under another key) reads; and a key can be written once: a second upload
  succeeds only for an object of the same length and digest.
\<close>

theorem evidence_round_trip:
  assumes "s3_laws C" "s3_put_if_absent sha C cfg t key body digest s = (Inr h, s')" "digest \<noteq> []"
    and "valid_uuid t" "valid_uuid u"
  shows "(\<exists>stored. s3_get C (s3_bucket cfg) (tenant_prefix t @ key) s' = Inr stored \<and>
       so_length stored = length body \<and> so_sha256 stored = Some digest) \<and>
    ((t, key) \<noteq> (u, key') \<longrightarrow> s3_read sha C cfg u key' s' = s3_read sha C cfg u key' s) \<and>
    (s' \<noteq> s \<longrightarrow> s3_read sha C cfg t key s' = Inr body)"
proof -
  have guard: "\<not> s3_max_bytes cfg < length body" "sha body = digest"
    using assms(2) by (auto simp: s3_put_if_absent_def split: if_splits)
  then obtain k where k: "stored_key t key = Inr k"
    using assms(2) by (auto simp: s3_put_if_absent_def split: sum.splits)
  have kt: "k = tenant_prefix t @ key" by (rule stored_key_Inr [OF k])
  have fail: "s3_put C b k body d s = (Inl e, s'') \<Longrightarrow> s'' = s" for b k body d s e s''
    using assms(1) unfolding s3_laws_def by blast
  obtain r s'' where r: "s3_put C (s3_bucket cfg) k body digest s = (r, s'')" by fastforce
  have put: "s3_put C (s3_bucket cfg) k body digest s = (Inr (), s') \<or>
      (s' = s \<and> s3_head_object C cfg t key s = Inr \<lparr>oh_length = length body, oh_sha256 = digest\<rparr>)"
  proof (cases r)
    case (Inl e)
    with fail r have "s'' = s" by simp
    with assms(2) guard k r Inl show ?thesis
      by (cases e) (simp_all add: s3_put_if_absent_def Let_def split: sum.splits if_splits)
  next
    case (Inr u)
    with assms(2) guard k r show ?thesis by (simp add: s3_put_if_absent_def Let_def)
  qed
  then show ?thesis
  proof
    assume p: "s3_put C (s3_bucket cfg) k body digest s = (Inr (), s')"
    have got: "s3_get C (s3_bucket cfg) k s' = Inr \<lparr>so_length = length body, so_body = body, so_sha256 = Some digest\<rparr>"
      and other: "k' \<noteq> k \<Longrightarrow> s3_get C (s3_bucket cfg) k' s' = s3_get C (s3_bucket cfg) k' s" for k'
      using assms(1) p unfolding s3_laws_def by blast+
    have "s3_read sha C cfg t key s' = Inr body"
      using k got guard assms(3) by (simp add: s3_read_def)
    moreover have "s3_read sha C cfg u key' s' = s3_read sha C cfg u key' s" if ne: "(t, key) \<noteq> (u, key')"
    proof (cases "stored_key u key'")
      case (Inr k')
      then have "k' \<noteq> k" using stored_key_Inr [OF Inr] kt ne tenant_prefix_inject [OF assms(4,5), of key key'] by auto
      with other Inr show ?thesis by (simp add: s3_read_def)
    qed (simp add: s3_read_def)
    ultimately show ?thesis using got kt by simp
  next
    assume h: "s' = s \<and> s3_head_object C cfg t key s = Inr \<lparr>oh_length = length body, oh_sha256 = digest\<rparr>"
    then have "\<exists>stored. s3_get C (s3_bucket cfg) k s = Inr stored \<and> so_length stored = length body \<and> so_sha256 stored = Some digest"
      using assms(1) k by (auto simp: s3_head_object_def s3_laws_def ebind_eq_Inr split: option.splits if_splits)
    with h kt show ?thesis by simp
  qed
qed

definition toy_s3 :: "(string \<times> s3_object) list s3_client" where
  "toy_s3 = \<lparr>s3_put = (\<lambda>b k body d s. case map_of s k of
       Some x \<Rightarrow> (Inl (ClientError (Some 412)), s)
     | None \<Rightarrow> (Inr (), (k, \<lparr>so_length = length body, so_body = body, so_sha256 = Some d\<rparr>) # s)),
     s3_get = (\<lambda>b k s. case map_of s k of None \<Rightarrow> Inl (ClientError (Some 404)) | Some x \<Rightarrow> Inr x),
     s3_head = (\<lambda>b k s. case map_of s k of None \<Rightarrow> Inl (ClientError (Some 404)) | Some x \<Rightarrow> Inr x),
     s3_delete = (\<lambda>b k s. (Inr (), filter (\<lambda>(k', x). k' \<noteq> k) s)),
     s3_list = (\<lambda>b p limit token s. Inr \<lparr>sl_keys = take (nat limit) (filter (starts_with p) (map fst s)), sl_next = None\<rparr>)\<rparr>"

lemma toy_s3_laws: "s3_laws toy_s3"
  by (auto simp: s3_laws_def toy_s3_def split: option.splits)

definition toy_sha :: hash where
  "toy_sha s = hex_pad 64 (length s)"

definition toy_config :: s3_config where
  "toy_config = \<lparr>s3_bucket = ''evidence'', s3_max_bytes = 100\<rparr>"

theorem evidence_round_trip_witness:
  "\<exists>h s'. s3_put_if_absent toy_sha toy_s3 toy_config 1 ''a/b.json'' ''{}'' (toy_sha ''{}'') [] = (Inr h, s') \<and>
     s3_read toy_sha toy_s3 toy_config 1 ''a/b.json'' s' = Inr ''{}'' \<and>
     s3_read toy_sha toy_s3 toy_config 2 ''a/b.json'' s' = Inl (ClientError (Some 404))"
proof -
  obtain h s' where p: "s3_put_if_absent toy_sha toy_s3 toy_config 1 ''a/b.json'' ''{}'' (toy_sha ''{}'') [] = (Inr h, s')"
    and ne: "s' \<noteq> []"
    by (simp add: s3_put_if_absent_def toy_config_def toy_s3_def stored_key_def starts_with_def Let_def)
  have "toy_sha ''{}'' \<noteq> []" by (simp add: toy_sha_def flip: length_0_conv)
  moreover have "valid_uuid 1" "valid_uuid 2" by (simp_all add: valid_uuid_def)
  moreover have "s3_read toy_sha toy_s3 toy_config 2 ''a/b.json'' [] = Inl (ClientError (Some 404))"
    by (simp add: s3_read_def stored_key_def starts_with_def toy_s3_def)
  ultimately show ?thesis
    using evidence_round_trip [OF toy_s3_laws p, of 2 "''a/b.json''"] p ne by simp
qed

end
