(* ===== verification/Ingestion.thy ===== *)
theory Ingestion
  imports Events Integrations Storage
begin

text \<open>
  Public webhooks, \<open>ingestion/api.py\<close>: the bounded body, the resolution and decryption of the
  signing secrets, authentication, validation, and the transaction that serialises a provider
  identity, stores the evidence and writes receipt, canonical event and job.  The transaction
  that resolves the endpoint is separate from the one that writes, so the two may see different
  databases.  A JSON body is taken to be UTF-8.
\<close>

section \<open>Requests\<close>

record 'o ingress =
  ig_sha :: hash
  ig_hmac :: hmac
  ig_gcm :: gcm
  ig_pydantic :: pydantic
  ig_cipher :: secret_cipher
  ig_storage :: "'o object_storage"
  ig_max_body :: nat
  ig_window :: int
  ig_job_kind :: string

record webhook_request =
  wq_token :: string
  wq_chunks :: "string list"
  wq_timestamps :: "string list"
  wq_signatures :: "string list"

text \<open>The clock readings and random identifiers of one request.\<close>

record webhook_draw =
  wd_resolved_at :: int
  wd_checked_at :: int
  wd_now :: stamp
  wd_event_id :: uuid
  wd_receipt_id :: uuid
  wd_job_id :: uuid

record webhook_answer =
  wa_receipt_id :: uuid
  wa_event_id :: uuid
  wa_job_id :: uuid
  wa_duplicate :: bool

fun bounded_raw_body :: "nat \<Rightarrow> nat \<Rightarrow> string list \<Rightarrow> failure + string" where
  "bounded_raw_body maximum n [] = Inr []"
| "bounded_raw_body maximum n (chunk # chunks) =
     (if maximum < n + length chunk then Inl (HttpException 413 ''webhook body is too large'')
      else ebind (bounded_raw_body maximum (n + length chunk) chunks) (\<lambda>rest. Inr (chunk @ rest)))"

section \<open>Authentication\<close>

text \<open>Signature, encoding, SQL and value errors become a 401; a failed decryption does not.\<close>

fun unauthenticated :: "failure \<Rightarrow> failure" where
  "unauthenticated CipherFailure = CipherFailure"
| "unauthenticated e = HttpException 401 ''invalid webhook authentication''"

definition decrypt_all :: "'o ingress \<Rightarrow> resolved_secret \<Rightarrow> resolved_secret list \<Rightarrow> failure + string list" where
  "decrypt_all I first = mapM (\<lambda>row. decrypt_secret (ig_gcm I) (ig_cipher I) (rs_secret row)
     (rs_tenant_id first) (rs_endpoint_id first) (rs_version row))"

definition sender_of :: "'o ingress \<Rightarrow> webhook_request \<Rightarrow> webhook_draw \<Rightarrow> string \<Rightarrow> string \<Rightarrow> pipeline \<Rightarrow>
    failure + resolved_secret" where
  "sender_of I rq d ts body db = map_error unauthenticated
     (ebind (map_error PythonFailure (token_digest (ig_sha I) (wq_token rq))) (\<lambda>digest.
      case resolve_endpoint (wd_resolved_at d) digest db of
        [] \<Rightarrow> Inl (PythonFailure signature_error)
      | first # others \<Rightarrow>
          ebind (decrypt_all I first (first # others)) (\<lambda>keys.
          ebind (map_error PythonFailure (check (ascii ts) (ValueError ''ascii codec can not encode character''))) (\<lambda>_.
          ebind (map_error PythonFailure (authenticate (ig_hmac I) keys ts (wq_signatures rq) body
            (ig_window I) (wd_checked_at d))) (\<lambda>_. Inr first)))))"

definition parse_event :: "pydantic \<Rightarrow> string \<Rightarrow> failure + public_event" where
  "parse_event pd body = map_error (\<lambda>_. HttpException 422 ''invalid webhook event'')
     (ebind (json_loads_bytes pd body) (public_event_input pd))"

definition admit :: "'o ingress \<Rightarrow> webhook_request \<Rightarrow> webhook_draw \<Rightarrow> pipeline \<Rightarrow>
    failure + string \<times> resolved_secret \<times> public_event" where
  "admit I rq d db =
     ebind (bounded_raw_body (ig_max_body I) 0 (wq_chunks rq)) (\<lambda>body.
     case wq_timestamps rq of
       [ts] \<Rightarrow> ebind (sender_of I rq d ts body db) (\<lambda>sender.
               ebind (parse_event (ig_pydantic I) body) (\<lambda>incoming. Inr (body, sender, incoming)))
     | _ \<Rightarrow> Inl (HttpException 401 ''invalid webhook authentication''))"

section \<open>The durable delivery\<close>

definition evidence_key :: "hash \<Rightarrow> uuid \<Rightarrow> string \<Rightarrow> string" where
  "evidence_key sha endpoint provider_event_id =
     ''webhooks/'' @ uuid_str endpoint @ ''/'' @ sha (utf8 provider_event_id) @ ''.json''"

definition canonical_data :: "'o ingress \<Rightarrow> webhook_draw \<Rightarrow> string \<Rightarrow> resolved_secret \<Rightarrow> public_event \<Rightarrow>
    exn + (string \<times> pyval) list" where
  "canonical_data I d body sender incoming =
     ebind (canonical_of (wd_event_id d) (rs_tenant_id sender) (rs_provider sender) ''public_webhook'' (wd_now d)
        (Some (ig_sha I body)) incoming) (\<lambda>canonical.
     ebind (sealed (ig_sha I) (model_dump (ig_pydantic I) canonical)) (\<lambda>data.
     Inr (dict_set ''raw_object_key''
       (PStr (evidence_key (ig_sha I) (rs_endpoint_id sender) (pe_provider_event_id incoming))) data)))"

text \<open>The join over receipts, events and jobs of one provider identity.\<close>

definition existing_delivery :: "uuid \<Rightarrow> uuid \<Rightarrow> string \<Rightarrow> pipeline \<Rightarrow> (receipt_row \<times> event_row \<times> job_row) list" where
  "existing_delivery tenant endpoint pid db =
     [(r, e, j). r \<leftarrow> filter (\<lambda>r. rc_tenant_id r = tenant \<and> rc_endpoint_id r = endpoint \<and>
                    rc_provider_event_id r = pid) (receipts db),
        e \<leftarrow> filter (\<lambda>e. ev_tenant_id e = rc_tenant_id r \<and> ev_receipt_id e = Some (rc_id r)) (events db),
        j \<leftarrow> filter (\<lambda>j. jb_tenant_id j = ev_tenant_id e \<and> jb_event_id j = ev_id e) (jobs db)]"

definition event_of :: "uuid \<Rightarrow> uuid \<Rightarrow> uuid option \<Rightarrow> string \<Rightarrow> int \<Rightarrow> pyval \<Rightarrow> string \<Rightarrow> event_row" where
  "event_of i tenant receipt typ occurred payload digest = \<lparr>ev_id = i, ev_tenant_id = tenant, ev_receipt_id = receipt,
     ev_event_type = typ, ev_event_version = 1, ev_occurred_at = occurred, ev_payload = payload,
     ev_payload_digest = digest\<rparr>"

definition write_delivery :: "'o ingress \<Rightarrow> webhook_draw \<Rightarrow> string \<Rightarrow> resolved_secret \<Rightarrow> public_event \<Rightarrow>
    (string \<times> pyval) list \<Rightarrow> webhook_answer op" where
  "write_delivery I d body sender incoming data =
     (let tenant = rs_tenant_id sender; now = dt_instant (st_time (wd_now d)) in
      andthen (sqls (insert_receipt \<lparr>rc_id = wd_receipt_id d, rc_tenant_id = tenant,
         rc_endpoint_id = rs_endpoint_id sender, rc_provider_event_id = pe_provider_event_id incoming,
         rc_payload_digest = ig_sha I body,
         rc_object_key = evidence_key (ig_sha I) (rs_endpoint_id sender) (pe_provider_event_id incoming),
         rc_received_at = now\<rparr>))
      (bind (lift SqlFailure (jsonb (dumps True (PDict data)))) (\<lambda>payload.
      andthen (sqls (insert_event (event_of (wd_event_id d) tenant (Some (wd_receipt_id d)) (pe_event_type incoming)
         (dt_instant (st_time (pe_occurred_at incoming))) payload
         (sealed_digest data))))
      (andthen (sqls (insert_job (new_job (wd_job_id d) tenant (wd_event_id d) (ig_job_kind I) now)))
      (ret \<lparr>wa_receipt_id = wd_receipt_id d, wa_event_id = wd_event_id d, wa_job_id = wd_job_id d,
         wa_duplicate = False\<rparr>)))))"

fun storage_failure :: "storage_error \<Rightarrow> failure" where
  "storage_failure (ClientError status) = StorageFailure ''ClientError''"
| "storage_failure (StorageValueError m) = StorageFailure m"
| "storage_failure OtherStorageError = StorageFailure ''storage error''"

text \<open>The object is deleted again if the rows can not be written.\<close>

definition store_new :: "'o object_storage \<Rightarrow> uuid \<Rightarrow> string \<Rightarrow> string \<Rightarrow> string \<Rightarrow> nat \<Rightarrow> 'a op \<Rightarrow> pipeline \<times> 'o \<Rightarrow>
    'a reply \<times> (pipeline \<times> 'o)" where
  "store_new S tenant key body digest status write w =
     (case os_put_if_absent S tenant key body digest (snd w) of
        (Inl e, o1) \<Rightarrow> (Crashed (storage_failure e), (fst w, o1))
      | (Inr h, o1) \<Rightarrow>
          (case transaction write (fst w) of
             (Inr x, db1) \<Rightarrow> (Answered status x, (db1, o1))
           | (Inl e, db1) \<Rightarrow>
               (case os_delete S tenant key o1 of
                  (Inl e', o2) \<Rightarrow> (Crashed (storage_failure e'), (db1, o2))
                | (Inr u, o2) \<Rightarrow> (reply_of status (Inl e), (db1, o2)))))"

definition deliver :: "'o ingress \<Rightarrow> webhook_draw \<Rightarrow> string \<Rightarrow> resolved_secret \<Rightarrow> public_event \<Rightarrow> pipeline \<times> 'o \<Rightarrow>
    webhook_answer reply \<times> (pipeline \<times> 'o)" where
  "deliver I d body sender incoming w =
     (case canonical_data I d body sender incoming of
        Inl e \<Rightarrow> (Crashed (PythonFailure e), w)
      | Inr data \<Rightarrow>
          (case existing_delivery (rs_tenant_id sender) (rs_endpoint_id sender) (pe_provider_event_id incoming) (fst w) of
             [] \<Rightarrow> store_new (ig_storage I) (rs_tenant_id sender)
                 (evidence_key (ig_sha I) (rs_endpoint_id sender) (pe_provider_event_id incoming))
                 body (ig_sha I body) 202 (write_delivery I d body sender incoming data) w
           | [(r, e, j)] \<Rightarrow>
               (if rc_payload_digest r \<noteq> ig_sha I body
                then (Denied 409 ''provider event identity conflicts with prior payload'', w)
                else (Answered 202 \<lparr>wa_receipt_id = rc_id r, wa_event_id = ev_id e, wa_job_id = jb_id j,
                   wa_duplicate = True\<rparr>, w))
           | _ \<Rightarrow> (Crashed (PythonFailure (ValueError ''multiple rows were found'')), w)))"

text \<open>\<open>seen\<close> is the database the resolving transaction reads.\<close>

definition receive :: "'o ingress \<Rightarrow> webhook_request \<Rightarrow> webhook_draw \<Rightarrow> pipeline \<Rightarrow> pipeline \<times> 'o \<Rightarrow>
    webhook_answer reply \<times> (pipeline \<times> 'o)" where
  "receive I rq d seen w =
     (case admit I rq d seen of
        Inl e \<Rightarrow> (reply_of 202 (Inl e), w)
      | Inr (body, sender, incoming) \<Rightarrow> deliver I d body sender incoming w)"

end
