(* ===== verification/Handlers.thy ===== *)
theory Handlers
  imports JobRunner Csv Ingestion
begin

text \<open>
  The three job handlers of \<open>jobs/service.py\<close>: the digest check of a canonical event, the
  import of an uploaded CSV, and the reconciliation of a tenant's pipeline.  A handler runs in
  one transaction of its own; what it raises decides what becomes of its job.
\<close>

section \<open>Handlers as transactions\<close>

type_synonym 'a job_op = "(pipeline, job_error, 'a) tx"

definition stmt :: "(pipeline \<Rightarrow> db_error + pipeline) \<Rightarrow> unit job_op" where
  "stmt f = change (\<lambda>_. OtherException) f"

definition need_row :: "job_error \<Rightarrow> (pipeline \<Rightarrow> 'a option) \<Rightarrow> 'a job_op" where
  "need_row e f = bind (query f) (\<lambda>x. case x of None \<Rightarrow> raise e | Some r \<Rightarrow> ret r)"

definition in_session :: "'a job_op \<Rightarrow> 'o world \<Rightarrow> (job_error + 'a) \<times> 'o world" where
  "in_session m w = (case transaction m (fst w) of (r, db) \<Rightarrow> (r, (db, snd w)))"

text \<open>\<open>he_now\<close> and \<open>he_fresh\<close> are the clock and the random identifiers a job's run reads.\<close>

record 'o handler_env =
  he_sha :: hash
  he_uuid5 :: "string \<Rightarrow> uuid"
  he_pydantic :: pydantic
  he_storage :: "'o object_storage"
  he_limits :: csv_limits
  he_now :: "job \<Rightarrow> stamp"
  he_fresh :: "job \<Rightarrow> nat \<Rightarrow> uuid"

definition instant_of :: "'o handler_env \<Rightarrow> job \<Rightarrow> int" where
  "instant_of H j = dt_instant (st_time (he_now H j))"

definition event_by_id :: "uuid \<Rightarrow> uuid \<Rightarrow> pipeline \<Rightarrow> event_row option" where
  "event_by_id tenant i db = find_row ev_tenant_id ev_id tenant i (events db)"

text \<open>\<open>UUID(str(payload[key]))\<close> of a stored document.\<close>

fun py_str :: "pyval \<Rightarrow> string" where
  "py_str (PStr s) = s"
| "py_str (PInt i) = int_str i"
| "py_str v = ''None''"

definition uuid_field :: "string \<Rightarrow> pyval \<Rightarrow> uuid option" where
  "uuid_field k v = (case as_dict v of None \<Rightarrow> None | Some d \<Rightarrow>
     (case map_of d k of None \<Rightarrow> None | Some x \<Rightarrow>
       (case uuid_of_str (py_str x) of Inl e \<Rightarrow> None | Inr u \<Rightarrow> Some u)))"

section \<open>Canonical events\<close>

definition envelope_valid :: "hash \<Rightarrow> event_row \<Rightarrow> (string \<times> pyval) list \<Rightarrow> bool" where
  "envelope_valid sha row d \<longleftrightarrow> map_of d ''payload_digest'' = Some (PStr (envelope_digest sha d)) \<and>
     ev_payload_digest row = envelope_digest sha d"

definition canonical_event_handler :: "hash \<Rightarrow> 'o world handler" where
  "canonical_event_handler sha j = in_session
     (bind (need_row (PermanentJobError ''canonical_event_missing'') (event_by_id (jo_tenant_id j) (jo_event_id j)))
       (\<lambda>row. case as_dict (ev_payload row) of
          None \<Rightarrow> raise (PermanentJobError ''canonical_envelope_invalid'')
        | Some d \<Rightarrow> need (envelope_valid sha row d) (PermanentJobError ''canonical_digest_invalid'')))"

section \<open>CSV imports\<close>

definition row_name :: "string \<Rightarrow> uuid \<Rightarrow> nat \<Rightarrow> string" where
  "row_name prefix import_id number = prefix @ uuid_str import_id @ '':'' @ nat_str number"

text \<open>The event of one data line, or the exception its processing raises.\<close>

definition csv_event :: "'o handler_env \<Rightarrow> job \<Rightarrow> uuid \<Rightarrow> string \<Rightarrow> nat \<Rightarrow> string \<Rightarrow>
    csv_failure + uuid \<times> public_event \<times> (string \<times> pyval) list" where
  "csv_event H j import_id head number line =
     ebind (parse_csv_v1 (he_pydantic H) (he_limits H) (head @ line)) (\<lambda>es. case es of
       [] \<Rightarrow> Inl (CsvValueError ''list index out of range'')
     | incoming # others \<Rightarrow>
         (let event_id = he_uuid5 H (row_name ''outcomeos:'' import_id number) in
          csv_value (ebind (canonical_of event_id (jo_tenant_id j) ''csv'' ''csv_import'' (he_now H j) None incoming)
            (\<lambda>canonical. ebind (sealed (he_sha H) (model_dump (he_pydantic H) canonical)) (\<lambda>data.
            Inr (event_id, incoming, data))))))"

definition import_line :: "'o handler_env \<Rightarrow> job \<Rightarrow> uuid \<Rightarrow> string \<Rightarrow> nat \<Rightarrow> string \<Rightarrow> bool job_op" where
  "import_line H j import_id head number line =
     (let t = jo_tenant_id j; now = instant_of H j in
      case csv_event H j import_id head number line of
        Inl CsvReaderError \<Rightarrow> raise OtherException
      | Inl (CsvValueError m) \<Rightarrow>
          andthen (stmt (insert_import_error \<lparr>ie_id = he_uuid5 H (row_name ''outcomeos:csv-error:'' import_id number),
            ie_tenant_id = t, ie_import_id = import_id, ie_row_number = int number, ie_code = ''csv_row_invalid'',
            ie_safe_message = ''row failed canonical validation''\<rparr>)) (ret False)
      | Inr (event_id, incoming, data) \<Rightarrow>
          bind (lift (\<lambda>_. OtherException) (jsonb (dumps True (PDict data)))) (\<lambda>payload.
          andthen (stmt (insert_event_once (event_of event_id t None (pe_event_type incoming)
            (dt_instant (st_time (pe_occurred_at incoming))) payload (sealed_digest data))))
          (andthen (stmt (insert_job_once (new_job (he_uuid5 H (row_name ''outcomeos:csv-job:'' import_id number)) t
            event_id ''ingest.canonical_event.v1'' now))) (ret True))))"

text \<open>The accepted and the rejected lines.\<close>

fun import_lines :: "'o handler_env \<Rightarrow> job \<Rightarrow> uuid \<Rightarrow> string \<Rightarrow> nat \<Rightarrow> string list \<Rightarrow> (nat \<times> nat) job_op" where
  "import_lines H j import_id head number [] = ret (0, 0)"
| "import_lines H j import_id head number (line # ls) =
     bind (import_line H j import_id head number line) (\<lambda>accepted.
     bind (import_lines H j import_id head (Suc number) ls) (\<lambda>(a, r).
     ret (if accepted then (Suc a, r) else (a, Suc r))))"

definition this_import :: "uuid \<Rightarrow> uuid \<Rightarrow> import_row \<Rightarrow> bool" where
  "this_import t i r \<longleftrightarrow> im_tenant_id r = t \<and> im_id r = i"

definition import_body :: "'o handler_env \<Rightarrow> job \<Rightarrow> uuid \<Rightarrow> import_row \<Rightarrow> 'o \<Rightarrow> job_error + string" where
  "import_body H j import_id record o1 =
     (case os_read (he_storage H) (jo_tenant_id j) (im_object_key record) o1 of
        Inl e \<Rightarrow> Inl OtherException
      | Inr body \<Rightarrow> (if he_sha H body \<noteq> im_object_digest record then Inl (PermanentJobError ''csv_digest_mismatch'')
                     else Inr body))"

definition run_import :: "'o handler_env \<Rightarrow> job \<Rightarrow> uuid \<Rightarrow> import_row \<Rightarrow> 'o \<Rightarrow> unit job_op" where
  "run_import H j import_id record o1 =
     (let hit = this_import (jo_tenant_id j) import_id in
      andthen (stmt (update_imports hit (\<lambda>r. r\<lparr>im_state := ''processing''\<rparr>)))
      (bind (lift (\<lambda>e. e) (import_body H j import_id record o1)) (\<lambda>body.
      case split_lines body of
        [] \<Rightarrow> raise (PermanentJobError ''csv_header_invalid'')
      | head # ls \<Rightarrow>
          bind (import_lines H j import_id head 2 ls) (\<lambda>(accepted, rejected).
          stmt (update_imports hit (\<lambda>r. r\<lparr>im_state := ''completed'', im_total_rows := int (accepted + rejected),
            im_accepted_rows := int accepted, im_rejected_rows := int rejected\<rparr>))))))"

definition csv_import_handler :: "'o handler_env \<Rightarrow> 'o world handler" where
  "csv_import_handler H j w = in_session
     (let t = jo_tenant_id j in
      bind (need_row (PermanentJobError ''csv_control_event_missing'')
        (\<lambda>db. case event_by_id t (jo_event_id j) db of None \<Rightarrow> None
           | Some e \<Rightarrow> (if as_dict (ev_payload e) = None then None else Some (ev_payload e)))) (\<lambda>control.
      bind (need_row (PermanentJobError ''csv_control_event_invalid'') (\<lambda>db. uuid_field ''import_id'' control)) (\<lambda>import_id.
      bind (need_row (PermanentJobError ''csv_import_missing'')
        (\<lambda>db. find_row im_tenant_id im_id t import_id (imports_table db))) (\<lambda>record.
      if im_state record = ''completed'' then ret () else run_import H j import_id record (snd w))))) w"

section \<open>Reconciliation\<close>

definition receipt_missing_event :: "uuid \<Rightarrow> pipeline \<Rightarrow> uuid list" where
  "receipt_missing_event t db = map rc_id (filter (\<lambda>r. rc_tenant_id r = t \<and>
     \<not> list_ex (\<lambda>e. ev_tenant_id e = rc_tenant_id r \<and> ev_receipt_id e = Some (rc_id r)) (events db)) (receipts db))"

definition event_missing_job :: "uuid \<Rightarrow> pipeline \<Rightarrow> uuid list" where
  "event_missing_job t db = map ev_id (filter (\<lambda>e. ev_tenant_id e = t \<and>
     \<not> list_ex (\<lambda>j. jb_tenant_id j = ev_tenant_id e \<and> jb_event_id j = ev_id e) (jobs db)) (events db))"

definition stale_lease :: "int \<Rightarrow> uuid \<Rightarrow> pipeline \<Rightarrow> uuid list" where
  "stale_lease now t db = map jb_id (filter (\<lambda>j. jb_tenant_id j = t \<and> jb_state j = JobLeased \<and>
     (case jb_lease_expires_at j of None \<Rightarrow> False | Some x \<Rightarrow> x < now)) (jobs db))"

definition inconsistent_attempt :: "uuid \<Rightarrow> pipeline \<Rightarrow> uuid list" where
  "inconsistent_attempt t db = [at_id a. a \<leftarrow> filter (\<lambda>a. at_tenant_id a = t \<and> at_finished_at a = None) (attempts db),
     j \<leftarrow> filter (\<lambda>j. jb_tenant_id j = at_tenant_id a \<and> jb_id j = at_job_id a \<and> jb_state j \<noteq> JobLeased) (jobs db)]"

definition checks :: "int \<Rightarrow> uuid \<Rightarrow> (string \<times> (pipeline \<Rightarrow> uuid list)) list" where
  "checks now t = [(''receipt_missing_event'', receipt_missing_event t), (''event_missing_job'', event_missing_job t),
     (''stale_lease'', stale_lease now t), (''inconsistent_attempt'', inconsistent_attempt t)]"

text \<open>An anomaly as it is found; \<open>k\<close> counts the identifiers drawn.\<close>

definition note_anomaly :: "'o handler_env \<Rightarrow> job \<Rightarrow> uuid \<Rightarrow> string \<Rightarrow> string \<Rightarrow> uuid option \<Rightarrow> pyval \<Rightarrow> nat \<Rightarrow> unit job_op" where
  "note_anomaly H j run_id finding rtype resource details k = stmt (insert_anomaly \<lparr>an_id = he_fresh H j k,
     an_tenant_id = jo_tenant_id j, an_run_id = run_id, an_code = finding, an_resource_type = rtype,
     an_resource_id = resource, an_safe_details = details\<rparr>)"

fun note_all :: "(nat \<Rightarrow> 'a \<Rightarrow> unit job_op) \<Rightarrow> 'a list \<Rightarrow> nat \<Rightarrow> nat job_op" where
  "note_all f [] k = ret k"
| "note_all f (x # xs) k = andthen (f k x) (note_all f xs (Suc k))"

fun run_checks :: "'o handler_env \<Rightarrow> job \<Rightarrow> uuid \<Rightarrow> (string \<times> (pipeline \<Rightarrow> uuid list)) list \<Rightarrow> nat \<Rightarrow>
    (string \<times> nat) list \<Rightarrow> ((string \<times> nat) list \<times> nat) job_op" where
  "run_checks H j run_id [] k counts = ret (counts, k)"
| "run_checks H j run_id ((finding, q) # cs) k counts =
     bind (query q) (\<lambda>rows.
     bind (note_all (\<lambda>k i. note_anomaly H j run_id finding ''pipeline_record'' (Some i) (PDict []) k) rows k) (\<lambda>k'.
     run_checks H j run_id cs k' (dict_set finding (length rows) counts)))"

definition evidence_code :: "'o handler_env \<Rightarrow> job \<Rightarrow> 'o \<Rightarrow> receipt_row \<Rightarrow> string option" where
  "evidence_code H j o1 r = (case os_head (he_storage H) (jo_tenant_id j) (rc_object_key r) o1 of
     Inl e \<Rightarrow> Some ''evidence_missing''
   | Inr head \<Rightarrow> (if oh_sha256 head \<noteq> rc_payload_digest r then Some ''evidence_digest_mismatch'' else None))"

fun check_evidence :: "'o handler_env \<Rightarrow> job \<Rightarrow> uuid \<Rightarrow> 'o \<Rightarrow> receipt_row list \<Rightarrow> nat \<Rightarrow>
    (string \<times> nat) list \<Rightarrow> ((string \<times> nat) list \<times> nat) job_op" where
  "check_evidence H j run_id o1 [] k counts = ret (counts, k)"
| "check_evidence H j run_id o1 (r # rs) k counts =
     (case evidence_code H j o1 r of
        None \<Rightarrow> check_evidence H j run_id o1 rs k counts
      | Some finding \<Rightarrow>
          andthen (note_anomaly H j run_id finding ''webhook_receipt'' (Some (rc_id r)) (PDict []) k)
            (check_evidence H j run_id o1 rs (Suc k)
              (dict_set finding (Suc (case map_of counts finding of None \<Rightarrow> 0 | Some n \<Rightarrow> n)) counts)))"

definition known_keys :: "uuid \<Rightarrow> pipeline \<Rightarrow> string list" where
  "known_keys t db = map rc_object_key (filter (\<lambda>r. rc_tenant_id r = t) (receipts db)) @
     map im_object_key (filter (\<lambda>r. im_tenant_id r = t) (imports_table db))"

definition orphans_of :: "'o handler_env \<Rightarrow> job \<Rightarrow> 'o \<Rightarrow> string list \<Rightarrow> job_error + string list" where
  "orphans_of H j o1 known = (case os_list_page (he_storage H) (jo_tenant_id j) None 100 o1 of
     Inl e \<Rightarrow> Inl OtherException
   | Inr page \<Rightarrow> Inr (filter (\<lambda>key. key \<notin> set known) (op_keys page)))"

definition complete_run :: "uuid \<Rightarrow> uuid \<Rightarrow> int \<Rightarrow> pyval \<Rightarrow> pipeline \<Rightarrow> db_error + pipeline" where
  "complete_run t run_id now summary db = Inr (db\<lparr>runs := map (\<lambda>r. if rn_tenant_id r = t \<and> rn_id r = run_id
     then r\<lparr>rn_state := ''completed'', rn_finished_at := Some now, rn_summary := summary\<rparr> else r) (runs db)\<rparr>)"

definition count_dict :: "(string \<times> nat) list \<Rightarrow> pyval" where
  "count_dict counts = PDict (map (map_prod (\<lambda>k. k) (\<lambda>n. PInt (int n))) counts)"

definition reconcile :: "'o handler_env \<Rightarrow> job \<Rightarrow> uuid \<Rightarrow> 'o \<Rightarrow> unit job_op" where
  "reconcile H j run_id o1 =
     (let t = jo_tenant_id j; now = instant_of H j in
      bind (run_checks H j run_id (checks now t) 0 []) (\<lambda>(counts, k).
      bind (query (\<lambda>db. filter (\<lambda>r. rc_tenant_id r = t) (receipts db))) (\<lambda>evidence.
      bind (check_evidence H j run_id o1 evidence k counts) (\<lambda>(counts', k').
      bind (query (known_keys t)) (\<lambda>known.
      bind (lift (\<lambda>e. e) (orphans_of H j o1 known)) (\<lambda>orphans.
      andthen (note_all (\<lambda>k key. note_anomaly H j run_id ''orphan_evidence'' ''object'' None
          (PDict [(''key_digest'', PStr (he_sha H (utf8 key)))]) k) orphans k')
      (bind (lift (\<lambda>_. OtherException) (jsonb (dumps True (count_dict
          (dict_set ''orphan_evidence'' (length orphans) counts'))))) (\<lambda>summary.
      stmt (complete_run t run_id now summary)))))))))"

definition reconciliation_handler :: "'o handler_env \<Rightarrow> 'o world handler" where
  "reconciliation_handler H j w = in_session
     (bind (need_row (PermanentJobError ''reconciliation_control_invalid'')
        (\<lambda>db. case event_by_id (jo_tenant_id j) (jo_event_id j) db of None \<Rightarrow> None
           | Some e \<Rightarrow> uuid_field ''run_id'' (ev_payload e))) (\<lambda>run_id.
      reconcile H j run_id (snd w))) w"

section \<open>The worker's registry\<close>

definition build_runner :: "'o handler_env \<Rightarrow> string \<Rightarrow> 'o world runner \<Rightarrow> exn + 'o world runner" where
  "build_runner H ingestion_job_kind R =
     ebind (register R ingestion_job_kind (canonical_event_handler (he_sha H))) (\<lambda>R1.
     ebind (register R1 ''ingest.csv.v1'' (csv_import_handler H)) (\<lambda>R2.
     register R2 ''reconcile.tenant.v1'' (reconciliation_handler H)))"

end
