(* ===== verification/CsvApi.thy ===== *)
theory CsvApi
  imports Csv Ingestion
begin

text \<open>
  The CSV upload of \<open>imports/api.py\<close>: the whole file is validated, stored once per idempotency
  key, and handed to the worker by a control event and its job.  The caller's authentication is
  an argument.
\<close>

record upload_request =
  up_content_type :: "string option"
  up_body :: string
  up_key :: string

record upload_draw =
  ud_import_id :: uuid
  ud_event_id :: uuid
  ud_job_id :: uuid
  ud_now :: int

record upload_answer =
  ua_import_id :: uuid
  ua_duplicate :: bool

text \<open>The declared length of the \<open>Idempotency-Key\<close> header.\<close>

definition valid_key :: "string \<Rightarrow> bool" where
  "valid_key key \<longleftrightarrow> 1 \<le> length key \<and> length key \<le> 255"

definition is_csv :: "string option \<Rightarrow> bool" where
  "is_csv header \<longleftrightarrow> lower (takeWhile (\<lambda>c. c \<noteq> CHR '';'') (case header of None \<Rightarrow> [] | Some h \<Rightarrow> h)) = ''text/csv''"

definition import_key :: "uuid \<Rightarrow> string" where
  "import_key i = ''imports/csv/'' @ uuid_str i @ ''.csv''"

definition import_by_key :: "uuid \<Rightarrow> string \<Rightarrow> pipeline \<Rightarrow> import_row option" where
  "import_by_key t key db = find (\<lambda>r. im_tenant_id r = t \<and> im_idempotency_key r = key) (imports_table db)"

definition import_control :: "uuid \<Rightarrow> string" where
  "import_control i = dumps True (PDict [(''import_id'', PStr (uuid_str i))])"

definition write_import :: "hash \<Rightarrow> uuid \<Rightarrow> upload_request \<Rightarrow> upload_draw \<Rightarrow> upload_answer op" where
  "write_import sha t rq d =
     (let digest = sha (up_body rq); payload = import_control (ud_import_id d) in
      andthen (sqls (insert_import \<lparr>im_id = ud_import_id d, im_tenant_id = t, im_idempotency_key = up_key rq,
        im_object_key = import_key (ud_import_id d), im_object_digest = digest, im_request_digest = digest,
        im_state = ''uploaded'', im_total_rows = 0, im_accepted_rows = 0, im_rejected_rows = 0\<rparr>))
      (bind (lift SqlFailure (jsonb payload)) (\<lambda>document.
       andthen (sqls (insert_event (event_of (ud_event_id d) t None ''outcomeos.csv.uploaded'' (ud_now d) document
         (sha payload))))
       (andthen (sqls (insert_job (new_job (ud_job_id d) t (ud_event_id d) ''ingest.csv.v1'' (ud_now d))))
       (ret \<lparr>ua_import_id = ud_import_id d, ua_duplicate = False\<rparr>)))))"

definition upload :: "hash \<Rightarrow> pydantic \<Rightarrow> 'o object_storage \<Rightarrow> csv_limits \<Rightarrow> principal \<Rightarrow> upload_request \<Rightarrow> upload_draw \<Rightarrow>
    pipeline \<times> 'o \<Rightarrow> upload_answer reply \<times> (pipeline \<times> 'o)" where
  "upload sha pd S limits actor rq d w =
     (let t = pr_tenant_id actor; digest = sha (up_body rq) in
      if \<not> valid_key (up_key rq) then (Denied 422 ''validation'', w)
      else if \<not> is_csv (up_content_type rq) then (Denied 415 ''text/csv required'', w)
      else case parse_csv_v1 pd limits (up_body rq) of
        Inl CsvReaderError \<Rightarrow> (Crashed (PythonFailure (ValueError ''csv.Error'')), w)
      | Inl (CsvValueError m) \<Rightarrow> (Denied 422 m, w)
      | Inr es \<Rightarrow>
          (case import_by_key t (up_key rq) (fst w) of
             Some old \<Rightarrow> (if im_request_digest old \<noteq> digest
                then (Denied 409 ''idempotency key conflicts with prior request'', w)
                else (Answered 202 \<lparr>ua_import_id = im_id old, ua_duplicate = True\<rparr>, w))
           | None \<Rightarrow> store_new S t (import_key (ud_import_id d)) (up_body rq) digest 202 (write_import sha t rq d) w))"

definition import_status :: "principal \<Rightarrow> uuid \<Rightarrow> pipeline \<Rightarrow> import_row reply \<times> pipeline" where
  "import_status actor i = respond 200 (expect 404 ''CSV import not found''
     (\<lambda>db. find_row im_tenant_id im_id (pr_tenant_id actor) i (imports_table db)))"

end
