(* ===== verification/Operations.thy ===== *)
theory Operations
  imports JobQueue Ingestion CsvApi
begin

text \<open>
  The operator's requests of \<open>events/operations.py\<close>: the replay of a stored event and the start
  of a reconciliation run, each idempotent by its key, and the status of a run.  The caller's
  authentication is an argument.
\<close>

section \<open>Replays\<close>

record replay_draw =
  dr_now :: int
  dr_replay_id :: uuid
  dr_lineage_id :: uuid
  dr_job_id :: uuid

definition replay_of :: "uuid \<Rightarrow> string \<Rightarrow> pipeline \<Rightarrow> replay_row option" where
  "replay_of t key db = find (\<lambda>r. rp_tenant_id r = t \<and> rp_idempotency_key r = key) (replays db)"

definition replay_digest :: "hash \<Rightarrow> uuid \<Rightarrow> string \<Rightarrow> string" where
  "replay_digest sha event_id reason = sha (utf8 (uuid_str event_id @ '':'' @ reason))"

definition replay_text :: "uuid \<Rightarrow> (string \<times> pyval) list \<Rightarrow> string" where
  "replay_text event_id payload =
     dumps True (PDict (dict_set ''replay_source_event_id'' (PStr (uuid_str event_id)) payload))"

definition write_replay :: "hash \<Rightarrow> string \<Rightarrow> principal \<Rightarrow> replay_draw \<Rightarrow> uuid \<Rightarrow> string \<Rightarrow> string \<Rightarrow> event_row \<Rightarrow>
    (string \<times> pyval) list \<Rightarrow> (uuid \<times> bool) op" where
  "write_replay sha job_kind actor d event_id reason key source payload =
     (let t = pr_tenant_id actor; encoded = replay_text event_id payload in
      bind (lift SqlFailure (jsonb encoded)) (\<lambda>document.
      andthen (sqls (insert_event ((event_of (dr_replay_id d) t None (ev_event_type source) (ev_occurred_at source)
        document (sha encoded))\<lparr>ev_event_version := ev_event_version source\<rparr>)))
      (andthen (sqls (insert_replay \<lparr>rp_id = dr_lineage_id d, rp_tenant_id = t, rp_source_event_id = event_id,
        rp_replay_event_id = dr_replay_id d, rp_requested_by = pr_user_id actor, rp_reason = reason,
        rp_idempotency_key = key, rp_request_digest = replay_digest sha event_id reason\<rparr>))
      (andthen (sqls (insert_job (new_job (dr_job_id d) t (dr_replay_id d) job_kind (dr_now d))))
      (andthen (sqls (insert_audit \<lparr>ad_tenant_id = t, ad_actor_user_id = pr_user_id actor, ad_action = ''event.replay'',
        ad_resource_type = ''canonical_event'', ad_resource_id = dr_replay_id d, ad_correlation_id = key\<rparr>))
      (ret (dr_replay_id d, False)))))))"

definition replay :: "hash \<Rightarrow> string \<Rightarrow> principal \<Rightarrow> replay_draw \<Rightarrow> uuid \<Rightarrow> string \<Rightarrow> string \<Rightarrow> pipeline \<Rightarrow>
    (uuid \<times> bool) reply \<times> pipeline" where
  "replay sha job_kind actor d event_id reason key db =
     (if \<not> (3 \<le> length reason \<and> length reason \<le> 500 \<and> valid_key key) then (Denied 422 ''validation'', db)
      else respond 201
        (bind (query (replay_of (pr_tenant_id actor) key)) (\<lambda>existing. case existing of
           Some r \<Rightarrow> andthen (need (rp_request_digest r = replay_digest sha event_id reason)
               (HttpException 409 ''idempotency key conflicts with prior request''))
             (ret (rp_replay_event_id r, True))
         | None \<Rightarrow>
             bind (expect 404 ''event not found'' (\<lambda>db. find_row ev_tenant_id ev_id (pr_tenant_id actor) event_id (events db)))
               (\<lambda>source. case as_dict (ev_payload source) of
                  None \<Rightarrow> raise (PythonFailure TypeError)
                | Some payload \<Rightarrow> write_replay sha job_kind actor d event_id reason key source payload))) db)"

section \<open>Reconciliation runs\<close>

record run_draw =
  dc_now :: int
  dc_run_id :: uuid
  dc_event_id :: uuid
  dc_job_id :: uuid

definition run_of :: "uuid \<Rightarrow> string \<Rightarrow> pipeline \<Rightarrow> run_row option" where
  "run_of t key db = find (\<lambda>r. rn_tenant_id r = t \<and> rn_idempotency_key r = key) (runs db)"

text \<open>\<open>json.dumps\<close> of the control document, whose keys are not sorted.\<close>

definition run_control :: "uuid \<Rightarrow> string \<Rightarrow> string" where
  "run_control run_id kind = ''{'' @ quote True ''run_id'' @ '':'' @ quote True (uuid_str run_id) @ '','' @
     quote True ''kind'' @ '':'' @ quote True kind @ ''}''"

definition write_run :: "hash \<Rightarrow> uuid \<Rightarrow> run_draw \<Rightarrow> string \<Rightarrow> string \<Rightarrow> (uuid \<times> bool) op" where
  "write_run sha t d kind key =
     (let payload = run_control (dc_run_id d) kind in
      andthen (sqls (insert_run \<lparr>rn_id = dc_run_id d, rn_tenant_id = t, rn_kind = kind, rn_state = ''running'',
        rn_started_at = dc_now d, rn_finished_at = None, rn_summary = PDict [], rn_idempotency_key = key,
        rn_request_digest = sha kind\<rparr>))
      (bind (lift SqlFailure (jsonb payload)) (\<lambda>document.
       andthen (sqls (insert_event (event_of (dc_event_id d) t None ''outcomeos.reconciliation.requested'' (dc_now d)
         document (sha payload))))
       (andthen (sqls (insert_job (new_job (dc_job_id d) t (dc_event_id d) ''reconcile.tenant.v1'' (dc_now d))))
       (ret (dc_run_id d, False))))))"

definition start_reconciliation :: "hash \<Rightarrow> principal \<Rightarrow> run_draw \<Rightarrow> string \<Rightarrow> string \<Rightarrow> pipeline \<Rightarrow>
    (uuid \<times> bool) reply \<times> pipeline" where
  "start_reconciliation sha actor d kind key db =
     (if \<not> (safe_code kind \<and> valid_key key) then (Denied 422 ''validation'', db)
      else respond 202
        (bind (query (run_of (pr_tenant_id actor) key)) (\<lambda>old. case old of
           Some r \<Rightarrow> andthen (need (rn_request_digest r = sha kind)
               (HttpException 409 ''idempotency key conflicts with prior request''))
             (ret (rn_id r, True))
         | None \<Rightarrow> write_run sha (pr_tenant_id actor) d kind key)) db)"

definition get_reconciliation :: "principal \<Rightarrow> uuid \<Rightarrow> pipeline \<Rightarrow> run_row reply \<times> pipeline" where
  "get_reconciliation actor run_id = respond 200 (expect 404 ''reconciliation run not found''
     (\<lambda>db. find_row rn_tenant_id rn_id (pr_tenant_id actor) run_id (runs db)))"

end
