(* ===== verification/PipelineFacts.thy ===== *)
theory PipelineFacts
  imports Handlers Operations
begin

text \<open>
  The pipeline as a whole: every request, every handler and every queue function as one step of
  the system, the links between receipts, events and jobs that every step keeps, and what
  follows for reconciliation.
\<close>

section \<open>What the statements write\<close>

lemma insert_receipt_Inr:
  "insert_receipt r db = Inr db' \<Longrightarrow> db' = db\<lparr>receipts := receipts db @ [r]\<rparr> \<and>
     (\<forall>x \<in> set (receipts db). rc_id x \<noteq> rc_id r \<and> \<not> (rc_tenant_id x = rc_tenant_id r \<and>
        rc_endpoint_id x = rc_endpoint_id r \<and> rc_provider_event_id x = rc_provider_event_id r))"
  by (auto simp: insert_receipt_def ebind_eq_Inr)

lemma insert_event_Inr:
  "insert_event e db = Inr db' \<Longrightarrow> db' = db\<lparr>events := events db @ [e]\<rparr> \<and>
     (\<forall>x \<in> set (events db). \<not> event_clash e x) \<and> event_key_known e db"
  by (auto simp: insert_event_def ebind_eq_Inr)

lemma insert_job_known:
  "insert_job j db = Inr db' \<Longrightarrow> db' = db\<lparr>jobs := jobs db @ [j]\<rparr> \<and>
     (\<exists>e \<in> set (events db). ev_tenant_id e = jb_tenant_id j \<and> ev_id e = jb_event_id j)"
  by (auto simp: insert_job_def ebind_eq_Inr has_row_def list_ex_iff)

text \<open>The tables the links and the queue are about.\<close>

definition core :: "pipeline \<Rightarrow> receipt_row list \<times> event_row list \<times> job_row list \<times> attempt_row list" where
  "core db = (receipts db, events db, jobs db, attempts db)"

lemma core_frame:
  "insert_endpoint a db = Inr db' \<Longrightarrow> core db' = core db"
  "insert_secret_version b db = Inr db' \<Longrightarrow> core db' = core db"
  "insert_import c db = Inr db' \<Longrightarrow> core db' = core db"
  "update_imports p f db = Inr db' \<Longrightarrow> core db' = core db"
  "insert_import_error d db = Inr db' \<Longrightarrow> core db' = core db"
  "insert_replay e db = Inr db' \<Longrightarrow> core db' = core db"
  "insert_run g db = Inr db' \<Longrightarrow> core db' = core db"
  "insert_anomaly h db = Inr db' \<Longrightarrow> core db' = core db"
  "insert_audit i db = Inr db' \<Longrightarrow> core db' = core db"
  "shorten_previous_version t ep v x db = Inr db' \<Longrightarrow> core db' = core db"
  "complete_run t u now s db = Inr db' \<Longrightarrow> core db' = core db"
  by (auto simp: core_def pipeline_inserts shorten_previous_version_def complete_run_def ebind_eq_Inr)

section \<open>Links\<close>

text \<open>
  Every receipt has its event, every event a job, and every job is for an event of its tenant.
\<close>

definition linked_core :: "receipt_row list \<times> event_row list \<times> job_row list \<times> attempt_row list \<Rightarrow> bool" where
  "linked_core = (\<lambda>(rs, es, js, as).
     (\<forall>r \<in> set rs. \<exists>e \<in> set es. ev_tenant_id e = rc_tenant_id r \<and> ev_receipt_id e = Some (rc_id r)) \<and>
     (\<forall>e \<in> set es. \<exists>j \<in> set js. jb_tenant_id j = ev_tenant_id e \<and> jb_event_id j = ev_id e) \<and>
     (\<forall>j \<in> set js. \<exists>e \<in> set es. ev_tenant_id e = jb_tenant_id j \<and> ev_id e = jb_event_id j))"

abbreviation linked :: "pipeline \<Rightarrow> bool" where
  "linked db \<equiv> linked_core (core db)"

text \<open>A state of the pipeline is sound if its links and its queue are.\<close>

definition sound :: "pipeline \<Rightarrow> bool" where
  "sound db \<longleftrightarrow> linked db \<and> queue_inv db"

lemma sound_cong: "core db' = core db \<Longrightarrow> sound db' \<longleftrightarrow> sound db"
  by (auto simp: sound_def core_def)

lemma sound_empty: "sound empty_pipeline"
  by (simp add: sound_def core_def linked_core_def empty_pipeline_def queue_ok_empty)

lemma new_job_simps [simp]:
  "jb_id (new_job i t e kind now) = i" "jb_tenant_id (new_job i t e kind now) = t"
  "jb_event_id (new_job i t e kind now) = e" "jb_kind (new_job i t e kind now) = kind"
  "jb_state (new_job i t e kind now) = JobPending" "jb_attempt_count (new_job i t e kind now) = 0"
  by (simp_all add: new_job_def)

lemma event_of_simps [simp]:
  "ev_id (event_of i t r typ occ p d) = i" "ev_tenant_id (event_of i t r typ occ p d) = t"
  "ev_receipt_id (event_of i t r typ occ p d) = r" "ev_payload (event_of i t r typ occ p d) = p"
  "ev_payload_digest (event_of i t r typ occ p d) = d" "ev_event_type (event_of i t r typ occ p d) = typ"
  "ev_event_version (event_of i t r typ occ p d) = 1" "ev_occurred_at (event_of i t r typ occ p d) = occ"
  by (simp_all add: event_of_def)

text \<open>What an event and its job, with or without a receipt, do to the links.\<close>

lemma linked_append:
  assumes "linked_core (rs, es, js, as)" "ev_tenant_id e = t" "jb_tenant_id j = t" "jb_event_id j = ev_id e"
    and "rs' = rs \<or> (\<exists>r. rs' = rs @ [r] \<and> rc_tenant_id r = t \<and> ev_receipt_id e = Some (rc_id r))"
  shows "linked_core (rs', es @ [e], js @ [j], as)"
  using assms unfolding linked_core_def by fastforce

lemma queue_append:
  assumes "queue_inv db" "insert_job (new_job i t e kind now) db' = Inr db''" "jobs db' = jobs db"
    "attempts db' = attempts db"
  shows "queue_inv db''"
proof -
  have "queue_inv db'" using assms by simp
  from insert_keeps_queue [OF this assms(2)] show ?thesis .
qed

lemma sound_append:
  assumes s: "sound db" and ev: "insert_event e db1 = Inr db2" and job: "insert_job (new_job i t (ev_id e) kind now) db3 = Inr db4"
    and t: "ev_tenant_id e = t" and keep: "core db3 = core db2"
    and rs: "core db1 = core db \<or> (\<exists>r. receipts db1 = receipts db @ [r] \<and> rc_tenant_id r = t \<and> ev_receipt_id e = Some (rc_id r) \<and>
        events db1 = events db \<and> jobs db1 = jobs db \<and> attempts db1 = attempts db)"
  shows "sound db4"
proof -
  have e: "db2 = db1\<lparr>events := events db1 @ [e]\<rparr>" using insert_event_Inr [OF ev] by simp
  have j: "db4 = db3\<lparr>jobs := jobs db3 @ [new_job i t (ev_id e) kind now]\<rparr>" using insert_job_known [OF job] by simp
  have old: "events db1 = events db" "jobs db1 = jobs db" "attempts db1 = attempts db"
    using rs by (auto simp: core_def)
  have "queue_inv db4"
    by (rule queue_append [OF _ job]) (use s keep e old in \<open>auto simp: sound_def core_def\<close>)
  moreover have "core db4 = (receipts db1, events db @ [e], jobs db @ [new_job i t (ev_id e) kind now], attempts db)"
    using keep e j old by (simp add: core_def)
  moreover have "linked_core (receipts db1, events db @ [e], jobs db @ [new_job i t (ev_id e) kind now], attempts db)"
    by (rule linked_append [where t = t and rs = "receipts db"])
      (use s rs t in \<open>auto simp: sound_def core_def\<close>)
  ultimately show ?thesis by (simp add: sound_def)
qed

section \<open>Every operation keeps the pipeline sound\<close>

lemma preserves_statement:
  "(\<And>s s'. f s = Inr s' \<Longrightarrow> I s \<Longrightarrow> I s') \<Longrightarrow> preserves I (change g f)"
  by (rule preservesI) auto

lemma preserves_frame:
  "(\<And>s s'. f s = Inr s' \<Longrightarrow> core s' = core s) \<Longrightarrow> preserves sound (change g f)"
  by (rule preserves_statement) (blast dest: sound_cong [THEN iffD2])

lemma preserves_need_row [intro, simp]: "preserves I (need_row e f)"
  by (auto simp: preserves_def need_row_def bind_Inr split: option.splits)

lemma preserves_expect [intro, simp]: "preserves I (expect n d f)"
  by (auto simp: preserves_def)

lemma preserves_case:
  "preserves I (a ()) \<Longrightarrow> (\<And>x. preserves I (b x)) \<Longrightarrow> preserves I (case x of None \<Rightarrow> a () | Some y \<Rightarrow> b y)"
  by (cases x) auto

lemma in_session_keeps: "in_session m w = (r, w') \<Longrightarrow> preserves I m \<Longrightarrow> I (fst w) \<Longrightarrow> I (fst w')"
  by (auto simp: in_session_def transaction_def preserves_def split: prod.splits sum.splits)

lemma respond_keeps: "respond n m db = (r, db') \<Longrightarrow> preserves I m \<Longrightarrow> I db \<Longrightarrow> I db'"
  by (auto simp: respond_def transaction_def preserves_def split: prod.splits sum.splits)

lemma store_new_keeps:
  "store_new S t key body digest n m w = (r, w') \<Longrightarrow> preserves I m \<Longrightarrow> I (fst w) \<Longrightarrow> I (fst w')"
  by (auto simp: store_new_def transaction_def preserves_def split: prod.splits sum.splits)

text \<open>Requests.\<close>

lemma write_delivery_Inr:
  assumes "write_delivery I d body sender incoming data db = Inr (a, db')"
  shows "\<exists>r db1 payload db2. insert_receipt r db = Inr db1 \<and> rc_id r = wd_receipt_id d \<and>
    rc_tenant_id r = rs_tenant_id sender \<and> rc_endpoint_id r = rs_endpoint_id sender \<and>
    rc_provider_event_id r = pe_provider_event_id incoming \<and> rc_payload_digest r = ig_sha I body \<and>
    jsonb (dumps True (PDict data)) = Inr payload \<and>
    insert_event (event_of (wd_event_id d) (rs_tenant_id sender) (Some (wd_receipt_id d)) (pe_event_type incoming)
      (dt_instant (st_time (pe_occurred_at incoming))) payload (sealed_digest data)) db1 = Inr db2 \<and>
    insert_job (new_job (wd_job_id d) (rs_tenant_id sender) (wd_event_id d) (ig_job_kind I)
      (dt_instant (st_time (wd_now d)))) db2 = Inr db' \<and>
    a = \<lparr>wa_receipt_id = wd_receipt_id d, wa_event_id = wd_event_id d, wa_job_id = wd_job_id d, wa_duplicate = False\<rparr>"
  using assms unfolding write_delivery_def Let_def by (fastforce simp: tx_simps simp del: dumps.simps)

lemma write_delivery_sound: "preserves sound (write_delivery I d body sender incoming data)"
proof (rule preservesI)
  fix db a db'
  assume s: "sound db" and w: "write_delivery I d body sender incoming data db = Inr (a, db')"
  let ?t = "rs_tenant_id sender"
  obtain r db1 e db2 where 1: "insert_receipt r db = Inr db1" "rc_id r = wd_receipt_id d" "rc_tenant_id r = ?t"
    and 2: "insert_event e db1 = Inr db2" "ev_receipt_id e = Some (wd_receipt_id d)" "ev_tenant_id e = ?t" "ev_id e = wd_event_id d"
    and 3: "insert_job (new_job (wd_job_id d) ?t (wd_event_id d) (ig_job_kind I) (dt_instant (st_time (wd_now d)))) db2 = Inr db'"
    using write_delivery_Inr [OF w] by fastforce
  have "db1 = db\<lparr>receipts := receipts db @ [r]\<rparr>" using insert_receipt_Inr [OF 1(1)] by simp
  then show "sound db'"
    using sound_append [OF s 2(1) 3 [folded 2(4)] 2(3) refl] 1 2 by auto
qed

lemma write_import_Inr:
  assumes "write_import sha t rq d db = Inr (a, db')"
  shows "\<exists>r db1 e db2. insert_import r db = Inr db1 \<and> insert_event e db1 = Inr db2 \<and> ev_tenant_id e = t \<and>
    ev_id e = ud_event_id d \<and> insert_job (new_job (ud_job_id d) t (ud_event_id d) ''ingest.csv.v1'' (ud_now d)) db2 = Inr db'"
  using assms unfolding write_import_def Let_def by (fastforce simp: tx_simps simp del: dumps.simps)

lemma write_import_sound: "preserves sound (write_import sha t rq d)"
proof (rule preservesI)
  fix db a db'
  assume s: "sound db" and "write_import sha t rq d db = Inr (a, db')"
  then obtain r db1 e db2 where 1: "insert_import r db = Inr db1"
    and 2: "insert_event e db1 = Inr db2" "ev_tenant_id e = t" "ev_id e = ud_event_id d"
    and 3: "insert_job (new_job (ud_job_id d) t (ud_event_id d) ''ingest.csv.v1'' (ud_now d)) db2 = Inr db'"
    using write_import_Inr by blast
  show "sound db'"
    using sound_append [OF s 2(1) 3 [folded 2(3)] 2(2) refl] core_frame(3) [OF 1] by simp
qed

lemma write_replay_Inr:
  assumes "write_replay sha kind actor d i reason key source payload db = Inr (a, db')"
  shows "\<exists>document e db1 r db2 db3 x. jsonb (replay_text i payload) = Inr document \<and> insert_event e db = Inr db1 \<and>
    e = (event_of (dr_replay_id d) (pr_tenant_id actor) None (ev_event_type source) (ev_occurred_at source)
      document (sha (replay_text i payload)))\<lparr>ev_event_version := ev_event_version source\<rparr> \<and>
    insert_replay r db1 = Inr db2 \<and>
    insert_job (new_job (dr_job_id d) (pr_tenant_id actor) (dr_replay_id d) kind (dr_now d)) db2 = Inr db3 \<and>
    insert_audit x db3 = Inr db' \<and> a = (dr_replay_id d, False)"
  using assms unfolding write_replay_def Let_def by (fastforce simp: tx_simps simp del: dumps.simps)

lemma write_replay_sound: "preserves sound (write_replay sha kind actor d i reason key source payload)"
proof (rule preservesI)
  fix db a db'
  assume s: "sound db" and w: "write_replay sha kind actor d i reason key source payload db = Inr (a, db')"
  let ?t = "pr_tenant_id actor"
  obtain e db1 r db2 db3 x where 1: "insert_event e db = Inr db1" "ev_tenant_id e = ?t" "ev_id e = dr_replay_id d"
    and 2: "insert_replay r db1 = Inr db2"
    and 3: "insert_job (new_job (dr_job_id d) ?t (dr_replay_id d) kind (dr_now d)) db2 = Inr db3"
    and 4: "insert_audit x db3 = Inr db'"
    using write_replay_Inr [OF w] by fastforce
  have "sound db3"
    using sound_append [OF s 1(1) 3 [folded 1(3)] 1(2) core_frame(6) [OF 2]] by simp
  then show "sound db'" using sound_cong [OF core_frame(9) [OF 4]] by blast
qed

lemma write_run_Inr:
  assumes "write_run sha t d kind key db = Inr (a, db')"
  shows "\<exists>r db1 e db2. insert_run r db = Inr db1 \<and> insert_event e db1 = Inr db2 \<and> ev_tenant_id e = t \<and>
    ev_id e = dc_event_id d \<and> insert_job (new_job (dc_job_id d) t (dc_event_id d) ''reconcile.tenant.v1'' (dc_now d)) db2 = Inr db'"
  using assms unfolding write_run_def Let_def by (fastforce simp: tx_simps simp del: dumps.simps)

lemma write_run_sound: "preserves sound (write_run sha t d kind key)"
proof (rule preservesI)
  fix db a db'
  assume s: "sound db" and "write_run sha t d kind key db = Inr (a, db')"
  then obtain r db1 e db2 where 1: "insert_run r db = Inr db1"
    and 2: "insert_event e db1 = Inr db2" "ev_tenant_id e = t" "ev_id e = dc_event_id d"
    and 3: "insert_job (new_job (dc_job_id d) t (dc_event_id d) ''reconcile.tenant.v1'' (dc_now d)) db2 = Inr db'"
    using write_run_Inr by blast
  show "sound db'"
    using sound_append [OF s 2(1) 3 [folded 2(3)] 2(2) refl] core_frame(7) [OF 1] by simp
qed

lemma receive_sound: "receive I rq d seen w = (r, w') \<Longrightarrow> sound (fst w) \<Longrightarrow> sound (fst w')"
  by (auto simp: receive_def deliver_def write_delivery_sound split: sum.splits list.splits prod.splits if_splits
      intro: store_new_keeps)

lemma upload_sound: "upload sha pd S limits actor rq d w = (r, w') \<Longrightarrow> sound (fst w) \<Longrightarrow> sound (fst w')"
  by (auto simp: upload_def Let_def write_import_sound split: sum.splits csv_failure.splits option.splits if_splits
      intro: store_new_keeps)

lemma replay_sound: "replay sha kind actor d i reason key db = (r, db') \<Longrightarrow> sound db \<Longrightarrow> sound db'"
  by (auto simp: replay_def write_replay_sound split: if_splits option.split
      elim!: respond_keeps intro!: preserves_bind preserves_andthen)

lemma start_reconciliation_sound:
  "start_reconciliation sha actor d kind key db = (r, db') \<Longrightarrow> sound db \<Longrightarrow> sound db'"
  by (auto simp: start_reconciliation_def write_run_sound split: if_splits option.split
      elim!: respond_keeps intro!: preserves_bind preserves_andthen)

text \<open>Handlers.\<close>

lemma preserves_stmt: "(\<And>s s'. f s = Inr s' \<Longrightarrow> core s' = core s) \<Longrightarrow> preserves sound (stmt f)"
  by (simp add: stmt_def preserves_frame)

lemma event_once_Inr:
  assumes "insert_event_once e db = Inr db'"
  shows "(db' = db \<and> (\<exists>x \<in> set (events db). ev_tenant_id x = ev_tenant_id e \<and> ev_id x = ev_id e)) \<or>
    insert_event e db = Inr db'"
  using assms by (auto simp: insert_event_once_def has_row_def list_ex_iff ebind_eq_Inr split: if_splits)

lemma job_once_Inr:
  assumes "insert_job_once j db = Inr db'"
  shows "(db' = db \<and> (\<exists>x \<in> set (jobs db). jb_tenant_id x = jb_tenant_id j \<and> jb_event_id x = jb_event_id j)) \<or>
    insert_job j db = Inr db'"
  using assms by (auto simp: insert_job_once_def same_job_def list_ex_iff ebind_eq_Inr split: if_splits)

lemma once_sound:
  assumes s: "sound db" and e: "insert_event_once e db = Inr db1" and "ev_tenant_id e = t"
    and j: "insert_job_once (new_job i t (ev_id e) kind now) db1 = Inr db2"
  shows "sound db2"
proof -
  have l: "linked db" and q: "queue_inv db" using s by (simp_all add: sound_def)
  consider (old) "db1 = db" | (new) "insert_event e db = Inr db1" using event_once_Inr [OF e] by blast
  then show ?thesis
  proof cases
    case old
    show ?thesis using job_once_Inr [OF j]
    proof
      assume j': "insert_job (new_job i t (ev_id e) kind now) db1 = Inr db2"
      have "linked db2" using insert_job_known [OF j'] l old by (auto simp: core_def linked_core_def)
      moreover have "queue_inv db2" using insert_keeps_queue [OF _ j'] q old by simp
      ultimately show ?thesis by (simp add: sound_def)
    qed (use s old in simp)
  next
    case new
    then have db1: "db1 = db\<lparr>events := events db @ [e]\<rparr>" using insert_event_Inr by blast
    show ?thesis using job_once_Inr [OF j]
    proof
      assume "db2 = db1 \<and> (\<exists>x \<in> set (jobs db1). jb_tenant_id x = jb_tenant_id (new_job i t (ev_id e) kind now) \<and>
        jb_event_id x = jb_event_id (new_job i t (ev_id e) kind now))"
      then show ?thesis using l q db1 assms(3) by (auto simp: sound_def core_def linked_core_def)
    next
      assume "insert_job (new_job i t (ev_id e) kind now) db1 = Inr db2"
      from sound_append [OF s new this assms(3) refl] show ?thesis by simp
    qed
  qed
qed

lemma import_line_sound: "preserves sound (import_line H j i head n line)"
proof (cases "csv_event H j i head n line")
  case (Inl e)
  then show ?thesis
    by (cases e) (auto simp: import_line_def core_frame intro!: preserves_andthen preserves_stmt)
next
  case (Inr x)
  obtain event_id incoming data where x: "x = (event_id, incoming, data)" by (cases x)
  show ?thesis
  proof (rule preservesI)
    fix db a db'
    assume s: "sound db" and w: "import_line H j i head n line db = Inr (a, db')"
    obtain e db1 where "insert_event_once e db = Inr db1" "ev_tenant_id e = jo_tenant_id j" "ev_id e = event_id"
      "insert_job_once (new_job (he_uuid5 H (row_name ''outcomeos:csv-job:'' i n)) (jo_tenant_id j) event_id
         ''ingest.canonical_event.v1'' (instant_of H j)) db1 = Inr db'"
      using w Inr x by (auto simp: import_line_def Let_def tx_simps stmt_def)
    then show "sound db'" using once_sound [OF s] by blast
  qed
qed

lemma import_lines_sound: "preserves sound (import_lines H j i head n ls)"
proof (induction ls arbitrary: n)
  case (Cons l ls)
  then show ?case by (auto intro!: preserves_bind import_line_sound)
qed simp

lemma run_import_sound: "preserves sound (run_import H j i r o1)"
  unfolding run_import_def Let_def
  by (intro preserves_andthen preserves_bind preserves_stmt core_frame(4)) 
    (auto split: list.split intro!: preserves_bind import_lines_sound preserves_stmt core_frame(4))

lemma csv_import_handler_sound: "csv_import_handler H j w = (r, w') \<Longrightarrow> sound (fst w) \<Longrightarrow> sound (fst w')"
  unfolding csv_import_handler_def Let_def
  by (erule in_session_keeps) (auto intro!: preserves_bind run_import_sound)

text \<open>Operations that leave the pipeline's rows alone.\<close>

lemma insert_material_frame: "insert_material t p n now i m db = Inr db' \<Longrightarrow> core db' = core db"
  by (auto simp: insert_material_def ebind_eq_Inr dest!: core_frame(1,2))

text \<open>
  The statements on other tables keep any property of the pipeline's rows that looks at
  nothing else.
\<close>

definition core_only :: "(pipeline \<Rightarrow> bool) \<Rightarrow> bool" where
  "core_only P \<longleftrightarrow> (\<forall>db db'. core db' = core db \<longrightarrow> P db' = P db)"

lemma core_only_sound: "core_only sound"
  unfolding core_only_def by (intro allI impI) (rule sound_cong)

lemma core_only_change: "core_only P \<Longrightarrow> (\<And>s s'. f s = Inr s' \<Longrightarrow> core s' = core s) \<Longrightarrow> preserves P (change g f)"
  unfolding core_only_def by (rule preserves_statement) blast

lemma core_only_requests:
  assumes "core_only P"
  shows "create_endpoint sha G cfg c actor now rnd p n db = (r1, db') \<Longrightarrow> P db \<Longrightarrow> P db'"
    and "rotate_secret G cfg c actor now secret nonce row ep db = (r2, db') \<Longrightarrow> P db \<Longrightarrow> P db'"
    and "set_endpoint_status actor now revoke ep db = (r3, db') \<Longrightarrow> P db \<Longrightarrow> P db'"
    and "canonical_event_handler sha j w = (r, w') \<Longrightarrow> P (fst w) \<Longrightarrow> P (fst w')"
    and "reconciliation_handler H j w = (r, w') \<Longrightarrow> P (fst w) \<Longrightarrow> P (fst w')"
proof -
  note frame = core_only_change [OF assms]
  show "create_endpoint sha G cfg c actor now rnd p n db = (r1, db') \<Longrightarrow> P db \<Longrightarrow> P db'"
    by (auto simp: create_endpoint_def insert_material_frame sqls_def split: if_splits sum.splits
        elim!: respond_keeps intro!: preserves_andthen frame)
  show "rotate_secret G cfg c actor now secret nonce row ep db = (r2, db') \<Longrightarrow> P db \<Longrightarrow> P db'"
    unfolding rotate_secret_def Let_def sqls_def
    by (erule respond_keeps) (auto simp: core_frame intro!: preserves_bind preserves_andthen frame)
  have "preserves P (\<lambda>db. Inr (disable_endpoint t ep revoke now db))" for t
  proof (rule preservesI)
    fix s x s'
    assume p: "P s" and d: "Inr (disable_endpoint t ep revoke now s) = Inr (x, s')"
    from d have "core s' = core s" by (auto simp: disable_endpoint_def core_def Let_def)
    with assms p show "P s'" unfolding core_only_def by blast
  qed
  then show "set_endpoint_status actor now revoke ep db = (r3, db') \<Longrightarrow> P db \<Longrightarrow> P db'"
    unfolding set_endpoint_status_def Let_def
    by (auto elim!: respond_keeps intro!: preserves_bind preserves_andthen)
  show "canonical_event_handler sha j w = (r, w') \<Longrightarrow> P (fst w) \<Longrightarrow> P (fst w')"
    unfolding canonical_event_handler_def
    by (erule in_session_keeps) (auto intro!: preserves_bind split: option.split)
  have n: "preserves P (note_anomaly H j i c t r d k)" for i c t r d k
    unfolding note_anomaly_def stmt_def by (rule frame) (rule core_frame(8))
  have na: "(\<And>k x. preserves P (f k x)) \<Longrightarrow> preserves P (note_all f xs k)" for f and xs :: "'z list" and k
    by (induction xs arbitrary: k) (auto intro!: preserves_andthen)
  have nb: "preserves P (note_all (\<lambda>k i'. note_anomaly H j i c rt (r i') (d i') k) xs k)" for i c rt r d k and xs :: "'z list"
    by (induction xs arbitrary: k) (auto intro!: preserves_andthen n)
  have rc: "preserves P (run_checks H j i cs k counts)" for i cs k counts
    by (induction cs arbitrary: k counts) (auto intro!: preserves_bind nb)
  have ce: "preserves P (check_evidence H j i o1 rs k counts)" for i o1 rs k counts
    by (induction rs arbitrary: k counts) (auto split: option.split intro!: preserves_andthen n)
  have "preserves P (reconcile H j i o1)" for i o1
    unfolding reconcile_def Let_def stmt_def
    by (auto intro!: preserves_bind preserves_andthen rc ce nb frame core_frame(11))
  then show "reconciliation_handler H j w = (r, w') \<Longrightarrow> P (fst w) \<Longrightarrow> P (fst w')"
    unfolding reconciliation_handler_def
    by (erule_tac in_session_keeps) (auto intro!: preserves_bind)
qed

section \<open>The pipeline as a transition system\<close>

text \<open>
  The identifiers the import of a CSV computes are of another version than the random ones of
  a delivery, so that they never coincide.
\<close>

definition apart :: "'o handler_env \<Rightarrow> pipeline \<Rightarrow> bool" where
  "apart H db \<longleftrightarrow> (\<forall>e \<in> set (events db). ev_receipt_id e \<noteq> None \<longrightarrow> ev_id e \<notin> range (he_uuid5 H))"

text \<open>
  One step: a request, one run of a handler, or a transaction of the queue, with any
  configuration, clock and identifiers; the tokens of a claim are fresh.
\<close>

inductive pipeline_step :: "'o world \<Rightarrow> 'o world \<Rightarrow> bool" where
  step_create: "create_endpoint sha G cfg c actor now rnd p n db = (r1, db') \<Longrightarrow> pipeline_step (db, o1) (db', o1)"
| step_rotate: "rotate_secret G cfg c actor now secret nonce row ep db = (r2, db') \<Longrightarrow> pipeline_step (db, o1) (db', o1)"
| step_status: "set_endpoint_status actor now revoke ep db = (r3, db') \<Longrightarrow> pipeline_step (db, o1) (db', o1)"
| step_receive: "receive I rq d seen w = (r4, w') \<Longrightarrow> pipeline_step w w'"
| step_upload: "upload sha pd S limits actor urq ud w = (r5, w') \<Longrightarrow> pipeline_step w w'"
| step_replay: "replay sha kind actor rd i reason key db = (r6, db') \<Longrightarrow> pipeline_step (db, o1) (db', o1)"
| step_run: "start_reconciliation sha actor cd kind key db = (r6, db') \<Longrightarrow> pipeline_step (db, o1) (db', o1)"
| step_canonical: "canonical_event_handler sha j w = (r7, w') \<Longrightarrow> pipeline_step w w'"
| step_csv: "apart H (fst w) \<Longrightarrow> csv_import_handler H j w = (r7, w') \<Longrightarrow> pipeline_step w w'"
| step_reconcile: "reconciliation_handler H j w = (r7, w') \<Longrightarrow> pipeline_step w w'"
| step_queue_claim: "fresh_tokens token db \<Longrightarrow> claim_jobs batch lease now locked token attempt_id db = Inr (js, db') \<Longrightarrow>
    pipeline_step (db, o1) (db', o1)"
| step_queue_finish: "finish_job job lease_token outcome error delay now db = Inr (b, db') \<Longrightarrow> pipeline_step (db, o1) (db', o1)"
| step_queue_lost: "lease_lost job lease_token now db = Inr (b, db') \<Longrightarrow> pipeline_step (db, o1) (db', o1)"
| step_beat: "worker_heartbeat worker status now db = Inr db' \<Longrightarrow> pipeline_step (db, o1) (db', o1)"

definition pipeline_reachable :: "'o world \<Rightarrow> bool" where
  "pipeline_reachable w \<longleftrightarrow> (\<exists>o1. pipeline_step\<^sup>*\<^sup>* (empty_pipeline, o1) w)"

text \<open>The queue's own transactions change jobs in place.\<close>

lemma linked_jobs:
  assumes "linked db" "receipts db' = receipts db" "events db' = events db"
    and "map (\<lambda>j. (jb_tenant_id j, jb_event_id j)) (jobs db') = map (\<lambda>j. (jb_tenant_id j, jb_event_id j)) (jobs db)"
  shows "linked db'"
proof -
  let ?f = "\<lambda>j. (jb_tenant_id j, jb_event_id j)"
  have im: "?f ` set (jobs db') = ?f ` set (jobs db)"
    using assms(4) by (metis set_map)
  have a: "\<exists>j' \<in> set (jobs db'). ?f j' = ?f j" if "j \<in> set (jobs db)" for j
    using im that by (metis (no_types, lifting) image_iff)
  have b: "\<exists>j' \<in> set (jobs db). ?f j' = ?f j" if "j \<in> set (jobs db')" for j
    using im that by (metis (no_types, lifting) image_iff)
  show ?thesis
    using assms(1) a b unfolding core_def linked_core_def assms(2,3) by (simp split: prod.splits) metis
qed

lemma claim_sound:
  assumes "fresh_tokens token db" "claim_jobs batch lease now locked token attempt_id db = Inr (js, db')" "sound db"
  shows "sound db'"
proof -
  have "linked db'"
    by (rule linked_jobs [of db]) (use assms(3) in \<open>auto simp: sound_def claim_jobs_Inr(2) [OF assms(2)]\<close>)
  moreover have "queue_inv db'" using claim_keeps_queue assms by (auto simp: sound_def)
  ultimately show ?thesis by (simp add: sound_def)
qed

lemma finish_sound:
  assumes "finish_job job lease_token outcome error delay now db = Inr (b, db')" "sound db"
  shows "sound db'"
proof -
  have q: "queue_inv db" and l: "linked db" using assms(2) by (simp_all add: sound_def)
  then have "distinct (map jb_id (jobs db))" by (simp add: queue_ok_def)
  from finish_job_Inr [OF this assms(1)]
  have "linked db'"
    by (cases b) (auto intro!: linked_jobs [OF l] simp: finish_row_def l)
  moreover have "queue_inv db'" using finish_keeps_queue assms(1) q by blast
  ultimately show ?thesis by (simp add: sound_def)
qed

lemma lost_sound:
  assumes "lease_lost job lease_token now db = Inr (b, db')" "sound db"
  shows "sound db'"
proof -
  have "linked db'"
    by (rule linked_jobs [of db]) (use assms(2) in \<open>auto simp: sound_def lease_lost_eq [OF assms(1)]\<close>)
  moreover have "queue_inv db'" using lost_keeps_queue assms by (auto simp: sound_def)
  ultimately show ?thesis by (simp add: sound_def)
qed

lemmas operation_sound = core_only_requests [OF core_only_sound] receive_sound upload_sound replay_sound
  start_reconciliation_sound finish_sound lost_sound

lemma step_sound: "pipeline_step w w' \<Longrightarrow> sound (fst w) \<Longrightarrow> sound (fst w')"
proof (induction rule: pipeline_step.induct)
  case (step_beat worker status now db db' o1)
  then have "core db' = core db" by (auto simp: worker_heartbeat_def core_def split: if_splits)
  from sound_cong [OF this] step_beat(2) show ?case by simp
next
  case (step_csv H w j r7 w')
  then show ?case using csv_import_handler_sound by blast
next
  case (step_queue_claim token db batch lease now locked attempt_id js db' o1)
  then show ?case using claim_sound by simp
qed ((simp only: fst_conv)?, erule (1) operation_sound)+

lemma reachable_sound: "pipeline_reachable w \<Longrightarrow> sound (fst w)"
  unfolding pipeline_reachable_def
  by (elim exE, erule rtranclp_induct) (auto simp: sound_empty intro: step_sound)

lemma reachable_pipeline_step: "pipeline_reachable w \<Longrightarrow> pipeline_step w w' \<Longrightarrow> pipeline_reachable w'"
  unfolding pipeline_reachable_def by (meson rtranclp.rtrancl_into_rtrancl)

section \<open>What reconciliation reports\<close>

definition brief :: "anomaly_row \<Rightarrow> string \<times> uuid option" where
  "brief a = (an_code a, an_resource_id a)"

text \<open>The anomalies \<open>xs\<close> are appended, and nothing else changes.\<close>

definition reports :: "(string \<times> uuid option) list \<Rightarrow> pipeline \<Rightarrow> pipeline \<Rightarrow> bool" where
  "reports xs db db' \<longleftrightarrow> (\<exists>new. db' = db\<lparr>anomalies := anomalies db @ new\<rparr> \<and> map brief new = xs)"

lemma bindE:
  assumes "bind m f s = Inr (y, s2)"
  obtains x s1 where "m s = Inr (x, s1)" "f x s1 = Inr (y, s2)"
  using assms by (auto simp: bind_Inr)

lemma andthenE:
  assumes "andthen m n s = Inr (y, s2)"
  obtains x s1 where "m s = Inr (x, s1)" "n s1 = Inr (y, s2)"
  using assms by (auto simp: andthen_Inr)

lemma in_session_Inr: "in_session m w = (Inr x, w') \<Longrightarrow> m (fst w) = Inr (x, fst w') \<and> snd w' = snd w"
  by (auto simp: in_session_def transaction_def split: prod.splits sum.splits)

lemma need_row_Inr: "need_row e f db = Inr (x, db') \<longleftrightarrow> f db = Some x \<and> db' = db"
  by (auto simp: need_row_def bind_Inr split: option.splits)

lemma reports_Nil [simp]: "reports [] db db' \<longleftrightarrow> db' = db"
  by (auto simp: reports_def)

lemma reports_append: "reports xs db1 db2 \<Longrightarrow> reports ys db2 db3 \<Longrightarrow> reports (xs @ ys) db1 db3"
  unfolding reports_def
proof (elim exE conjE)
  fix a b
  assume "db2 = db1\<lparr>anomalies := anomalies db1 @ a\<rparr>" "map brief a = xs"
    "db3 = db2\<lparr>anomalies := anomalies db2 @ b\<rparr>" "map brief b = ys"
  then show "\<exists>new. db3 = db1\<lparr>anomalies := anomalies db1 @ new\<rparr> \<and> map brief new = xs @ ys"
    by (intro exI [of _ "a @ b"]) simp
qed

lemma note_anomaly_Inr:
  "note_anomaly H j i c rt r d k db = Inr (u, db') \<Longrightarrow> reports [(c, r)] db db'"
  unfolding reports_def note_anomaly_def stmt_def
  by (auto simp: insert_anomaly_def ebind_eq_Inr brief_def)

lemma note_all_Inr:
  "note_all (\<lambda>k x. note_anomaly H j i c rt (r x) (d x) k) xs k db = Inr (k', db') \<Longrightarrow>
     reports (map (\<lambda>x. (c, r x)) xs) db db'"
proof (induction xs arbitrary: k db)
  case (Cons x xs)
  then show ?case using reports_append [OF note_anomaly_Inr] by (fastforce simp: andthen_Inr)
qed auto

definition check_findings :: "(string \<times> (pipeline \<Rightarrow> uuid list)) list \<Rightarrow> pipeline \<Rightarrow> (string \<times> uuid option) list" where
  "check_findings cs db = concat (map (\<lambda>(c, q). map (\<lambda>i. (c, Some i)) (q db)) cs)"

lemma run_checks_Inr:
  assumes "run_checks H j i cs k counts db = Inr ((counts', k'), db')"
    and "\<And>c q a. (c, q) \<in> set cs \<Longrightarrow> q (db\<lparr>anomalies := a\<rparr>) = q db"
  shows "reports (check_findings cs db) db db'"
  using assms
proof (induction cs arbitrary: k counts db)
  case (Cons cq cs)
  obtain c q where cq: "cq = (c, q)" by (cases cq)
  obtain k1 db1 where 1: "note_all (\<lambda>k i'. note_anomaly H j i c ''pipeline_record'' (Some i') (PDict []) k) (q db) k db =
      Inr (k1, db1)" "run_checks H j i cs k1 (dict_set c (length (q db)) counts) db1 = Inr ((counts', k'), db')"
    using Cons.prems(1) by (auto simp: cq bind_Inr)
  have n: "reports (map (\<lambda>x. (c, Some x)) (q db)) db db1" by (rule note_all_Inr [OF 1(1)])
  then obtain new where db1: "db1 = db\<lparr>anomalies := anomalies db @ new\<rparr>" by (auto simp: reports_def)
  have tail: "reports (check_findings cs db1) db1 db'"
    using Cons.IH [OF 1(2)] Cons.prems(2) by (simp add: db1) (metis pipeline.update_convs(12))
  have same: "q' db1 = q' db" if "(c', q') \<in> set cs" for c' q'
    using Cons.prems(2) [of c' q'] that by (simp add: db1)
  have "(\<lambda>(c, q). map (\<lambda>i. (c, Some i)) (q db1)) x = (\<lambda>(c, q). map (\<lambda>i. (c, Some i)) (q db)) x" if "x \<in> set cs" for x
    using same [of "fst x" "snd x"] that by (simp add: case_prod_beta)
  then have "check_findings cs db1 = check_findings cs db"
    unfolding check_findings_def by (intro arg_cong [where f = concat] map_cong refl)
  with tail show ?case using reports_append [OF n] by (simp add: check_findings_def cq)
qed (auto simp: check_findings_def)

definition evidence_findings :: "'o handler_env \<Rightarrow> job \<Rightarrow> 'o \<Rightarrow> receipt_row list \<Rightarrow> (string \<times> uuid option) list" where
  "evidence_findings H j o1 rs = concat (map (\<lambda>r. case evidence_code H j o1 r of None \<Rightarrow> []
     | Some c \<Rightarrow> [(c, Some (rc_id r))]) rs)"

lemma check_evidence_Inr:
  "check_evidence H j i o1 rs k counts db = Inr ((counts', k'), db') \<Longrightarrow>
     reports (evidence_findings H j o1 rs) db db'"
proof (induction rs arbitrary: k counts db)
  case (Cons r rs)
  then show ?case using reports_append [OF note_anomaly_Inr]
    by (fastforce simp: andthen_Inr evidence_findings_def split: option.splits)
qed (auto simp: evidence_findings_def)

lemma sound_no_findings:
  assumes "sound db"
  shows "receipt_missing_event t db = []" "event_missing_job t db = []" "inconsistent_attempt t db = []"
proof -
  have l: "linked db" and q: "queue_inv db" using assms by (simp_all add: sound_def)
  show "receipt_missing_event t db = []" "event_missing_job t db = []"
    using l unfolding receipt_missing_event_def event_missing_job_def core_def linked_core_def
    by (auto simp: filter_empty_conv list_ex_iff)
  have "\<not> (jb_id j = at_job_id a \<and> jb_state j \<noteq> JobLeased)"
    if a: "a \<in> set (attempts db)" "at_finished_at a = None" and j: "j \<in> set (jobs db)" for a j
  proof
    assume c: "jb_id j = at_job_id a \<and> jb_state j \<noteq> JobLeased"
    from q a obtain r where "r \<in> set (jobs db)" "attempt_fits a r" by (auto simp: queue_ok_def attempt_ok_def)
    with a c j q have "r = j" by (auto simp: queue_ok_def attempt_fits_def dest: distinct_map_unique)
    with \<open>attempt_fits a r\<close> a c show False by (simp add: attempt_fits_def)
  qed
  then show "inconsistent_attempt t db = []"
    unfolding inconsistent_attempt_def by (fastforce simp: filter_empty_conv)
qed

lemma reconcile_Inr:
  assumes "reconcile H j run_id o1 db = Inr ((), db')"
  shows "\<exists>counts k db1 counts' k' db2 orphans k'' db3 summary.
    run_checks H j run_id (checks (instant_of H j) (jo_tenant_id j)) 0 [] db = Inr ((counts, k), db1) \<and>
    check_evidence H j run_id o1 (filter (\<lambda>r. rc_tenant_id r = jo_tenant_id j) (receipts db1)) k counts db1 =
      Inr ((counts', k'), db2) \<and>
    orphans_of H j o1 (known_keys (jo_tenant_id j) db2) = Inr orphans \<and>
    note_all (\<lambda>k key. note_anomaly H j run_id ''orphan_evidence'' ''object'' None
      (PDict [(''key_digest'', PStr (he_sha H (utf8 key)))]) k) orphans k' db2 = Inr (k'', db3) \<and>
    complete_run (jo_tenant_id j) run_id (instant_of H j) summary db3 = Inr db'"
  using assms unfolding reconcile_def Let_def
  by (elim bindE andthenE, simp only: split: prod.splits, elim bindE andthenE, simp add: stmt_def split: prod.splits,
    elim bindE andthenE, simp add: stmt_def split: prod.splits, blast)

text \<open>
  C13. Reconciliation reports exactly what is wrong, and in a database that the program itself
  produced, by whatever requests, imports, replays, worker rounds and lost leases, that is never
  an inconsistency of the pipeline: no receipt without its event, no event without a job, no open
  attempt of a job that is not leased.  A run appends one anomaly for every lease that has run
  out, every receipt whose evidence is missing or differs, and every listed object that no
  receipt and no import owns, in this order, and it changes neither the pipeline's rows nor the
  object store.
\<close>

theorem reconciliation_reports:
  assumes "pipeline_reachable (db, o1)" "reconciliation_handler H j (db, o1) = (Inr (), (db', o2))"
  shows "receipt_missing_event t db = [] \<and> event_missing_job t db = [] \<and> inconsistent_attempt t db = [] \<and>
    o2 = o1 \<and> core db' = core db \<and>
    (\<exists>new page. anomalies db' = anomalies db @ new \<and> os_list_page (he_storage H) (jo_tenant_id j) None 100 o1 = Inr page \<and>
       map brief new = map (\<lambda>i. (''stale_lease'', Some i)) (stale_lease (instant_of H j) (jo_tenant_id j) db) @
         evidence_findings H j o1 (filter (\<lambda>r. rc_tenant_id r = jo_tenant_id j) (receipts db)) @
         map (\<lambda>key. (''orphan_evidence'', None))
           (filter (\<lambda>key. key \<notin> set (known_keys (jo_tenant_id j) db)) (op_keys page)))"
proof -
  let ?t = "jo_tenant_id j"
  have s: "sound db" using reachable_sound [OF assms(1)] by simp
  obtain run_id where rec: "reconcile H j run_id o1 db = Inr ((), db')" and o2: "o2 = o1"
    using in_session_Inr [OF assms(2) [unfolded reconciliation_handler_def]]
    by (auto elim!: bindE simp: need_row_Inr)
  obtain counts k db1 counts' k' db2 orphans k'' db3 summary where
    1: "run_checks H j run_id (checks (instant_of H j) ?t) 0 [] db = Inr ((counts, k), db1)" and
    2: "check_evidence H j run_id o1 (filter (\<lambda>r. rc_tenant_id r = ?t) (receipts db1)) k counts db1 = Inr ((counts', k'), db2)" and
    3: "orphans_of H j o1 (known_keys ?t db2) = Inr orphans" and
    4: "note_all (\<lambda>k key. note_anomaly H j run_id ''orphan_evidence'' ''object'' None
          (PDict [(''key_digest'', PStr (he_sha H (utf8 key)))]) k) orphans k' db2 = Inr (k'', db3)" and
    5: "complete_run ?t run_id (instant_of H j) summary db3 = Inr db'"
    using reconcile_Inr [OF rec] by blast
  have "reports (check_findings (checks (instant_of H j) ?t) db) db db1"
    by (rule run_checks_Inr [OF 1]) (auto simp: checks_def receipt_missing_event_def event_missing_job_def
        stale_lease_def inconsistent_attempt_def)
  moreover have "check_findings (checks (instant_of H j) ?t) db =
      map (\<lambda>i. (''stale_lease'', Some i)) (stale_lease (instant_of H j) ?t db)"
    by (simp add: check_findings_def checks_def sound_no_findings [OF s])
  ultimately have r1: "reports (map (\<lambda>i. (''stale_lease'', Some i)) (stale_lease (instant_of H j) ?t db)) db db1" by simp
  then have "receipts db1 = receipts db" by (auto simp: reports_def)
  with check_evidence_Inr [OF 2]
  have r2: "reports (evidence_findings H j o1 (filter (\<lambda>r. rc_tenant_id r = ?t) (receipts db))) db1 db2" by simp
  from note_all_Inr [OF 4] have r3: "reports (map (\<lambda>key. (''orphan_evidence'', None)) orphans) db2 db3" .
  note all = reports_append [OF r1 reports_append [OF r2 r3]]
  have "known_keys ?t db2 = known_keys ?t db"
    using reports_append [OF r1 r2] by (auto simp: reports_def known_keys_def)
  then obtain page where page: "os_list_page (he_storage H) ?t None 100 o1 = Inr page"
    "orphans = filter (\<lambda>key. key \<notin> set (known_keys ?t db)) (op_keys page)"
    using 3 by (auto simp: orphans_of_def split: sum.splits)
  obtain new where new: "db3 = db\<lparr>anomalies := anomalies db @ new\<rparr>" "map brief new =
      map (\<lambda>i. (''stale_lease'', Some i)) (stale_lease (instant_of H j) ?t db) @
      evidence_findings H j o1 (filter (\<lambda>r. rc_tenant_id r = ?t) (receipts db)) @
      map (\<lambda>key. (''orphan_evidence'', None)) orphans"
    using all by (auto simp: reports_def)
  have "anomalies db' = anomalies db @ new" "core db' = core db"
    using 5 new(1) by (auto simp: complete_run_def core_def)
  with new(2) page o2 sound_no_findings [OF s] show ?thesis by blast
qed

definition quiet_storage :: "unit object_storage" where
  "quiet_storage = \<lparr>os_put_if_absent = (\<lambda>t k b d s. (Inr \<lparr>oh_length = length b, oh_sha256 = d\<rparr>, s)),
     os_read = (\<lambda>t k s. Inr ''''), os_head = (\<lambda>t k s. Inl OtherStorageError), os_delete = (\<lambda>t k s. (Inr (), s)),
     os_list_page = (\<lambda>t c n s. Inr \<lparr>op_keys = [''stray''], op_cursor = None\<rparr>)\<rparr>"

definition plain_pydantic :: pydantic where
  "plain_pydantic = \<lparr>pd_str = (\<lambda>v. case v of PStr s \<Rightarrow> Some s | _ \<Rightarrow> None),
     pd_int = (\<lambda>v. case v of PInt i \<Rightarrow> Some i | _ \<Rightarrow> None),
     pd_bool = (\<lambda>v. case v of PBool b \<Rightarrow> Some b | _ \<Rightarrow> None),
     pd_datetime = (\<lambda>v. case v of PStr s \<Rightarrow> Some \<lparr>st_time = Aware 0, st_text = s\<rparr> | _ \<Rightarrow> None),
     pd_any = (\<lambda>v. v), pd_float = PFloat\<rparr>"

definition sample_handlers :: "unit handler_env" where
  "sample_handlers = \<lparr>he_sha = (\<lambda>s. ''00''), he_uuid5 = length, he_pydantic = plain_pydantic, he_storage = quiet_storage,
     he_limits = \<lparr>cl_bytes = 1000, cl_rows = 10, cl_columns = 20, cl_field_length = 100\<rparr>,
     he_now = (\<lambda>j. \<lparr>st_time = Aware 9, st_text = ''t''\<rparr>), he_fresh = (\<lambda>j k. 100 + k)\<rparr>"

definition sample_operator :: principal where
  "sample_operator = \<lparr>pr_user_id = 1, pr_tenant_id = 2, pr_membership_id = 3\<rparr>"

definition sample_started :: pipeline where
  "sample_started = snd (start_reconciliation (\<lambda>s. ''00'') sample_operator
     \<lparr>dc_now = 0, dc_run_id = 5, dc_event_id = 6, dc_job_id = 7\<rparr> ''durable_pipeline.v1'' ''k'' empty_pipeline)"

definition sample_reconcile_job :: job where
  "sample_reconcile_job = \<lparr>jo_id = 7, jo_tenant_id = 2, jo_event_id = 6, jo_kind = ''reconcile.tenant.v1'',
     jo_lease_token = 8, jo_attempt_count = 1\<rparr>"

lemma sample_started_reachable: "pipeline_reachable (sample_started, o1)"
proof -
  have "pipeline_step (empty_pipeline, o1) (sample_started, o1)"
    unfolding sample_started_def by (rule step_run) (rule surjective_pairing)
  then show ?thesis unfolding pipeline_reachable_def by blast
qed

lemma sample_reconciled:
  "fst (reconciliation_handler sample_handlers sample_reconcile_job (sample_started, ())) = Inr ()"
  "anomalies sample_started = []" "receipts sample_started = []" "known_keys 2 sample_started = []"
  "stale_lease 9 2 sample_started = []"
  by code_simp+

theorem reconciliation_reports_witness:
  "\<exists>db db'. pipeline_reachable (db, ()) \<and>
     reconciliation_handler sample_handlers sample_reconcile_job (db, ()) = (Inr (), (db', ())) \<and>
     map brief (anomalies db') = [(''orphan_evidence'', None)] \<and> event_missing_job 2 db = []"
proof -
  obtain db' where h: "reconciliation_handler sample_handlers sample_reconcile_job (sample_started, ()) = (Inr (), (db', ()))"
    using sample_reconciled(1) by (metis old.unit.exhaust prod.collapse)
  have job: "instant_of sample_handlers sample_reconcile_job = 9" "jo_tenant_id sample_reconcile_job = 2"
    "os_list_page (he_storage sample_handlers) 2 None 100 () = Inr \<lparr>op_keys = [''stray''], op_cursor = None\<rparr>"
    by (simp_all add: instant_of_def sample_handlers_def sample_reconcile_job_def quiet_storage_def)
  note r = reconciliation_reports [OF sample_started_reachable h, unfolded job sample_reconciled, of 2]
  then have "map brief (anomalies db') = [(''orphan_evidence'', None)]"
    by (auto simp: evidence_findings_def)
  with h sample_started_reachable r show ?thesis
    by (intro exI [of _ sample_started] exI [of _ db'] conjI) simp_all
qed

end
