(* ===== verification/EventFacts.thy ===== *)
theory EventFacts
  imports Events
begin

text \<open>
  The digest of an envelope survives the database: the \<open>jsonb\<close> column forgets the order of keys,
  which the digest does not depend on, and keeps everything else of a document without floats.
  A document read from JSON has distinct keys at every level.
\<close>

section \<open>Documents read from JSON\<close>

lemma set_dict_set: "(k, v) \<in> set (dict_set a b d) \<Longrightarrow> (k, v) \<in> set d \<or> v = b"
  by (induction d) (auto split: if_splits)

lemma foldl_dict_set:
  "distinct (map fst d) \<Longrightarrow> distinct (map fst (foldl (\<lambda>d (k, v). dict_set k v d) d kvs))"
  by (induction kvs arbitrary: d) auto

lemma foldl_dict_values:
  "(k, v) \<in> set (foldl (\<lambda>d (k, v). dict_set k v d) d kvs) \<Longrightarrow> v \<in> snd ` set d \<union> snd ` set kvs"
proof (induction kvs arbitrary: d)
  case (Cons p kvs)
  obtain a b where p: "p = (a, b)" by (cases p)
  have "v \<in> snd ` set (dict_set a b d) \<union> snd ` set kvs" using Cons by (simp add: p)
  then show ?case using set_dict_set by (fastforce simp: p)
qed force

lemma py_dict_wf: "distinct (map fst (py_dict kvs))" "(k, v) \<in> set (py_dict kvs) \<Longrightarrow> v \<in> snd ` set kvs"
  using foldl_dict_set [of "[]"] foldl_dict_values [of k v "[]"] by (auto simp: py_dict_def)

definition good_floats :: "(string \<Rightarrow> pyval) \<Rightarrow> bool" where
  "good_floats fl \<longleftrightarrow> (\<forall>r. wf_doc (fl r))"

lemma with_floats_dict:
  assumes "\<And>v. v \<in> snd ` set kvs \<Longrightarrow> wf_doc (with_floats fl v)"
  shows "wf_doc (with_floats fl (PDict (py_dict kvs)))"
  using assms py_dict_wf by (force simp: list_all_iff comp_def case_prod_beta)

lemma parse_wf:
  assumes "good_floats fl"
  shows "(\<forall>s v r. parse_value f s = Some (v, r) \<longrightarrow> wf_doc (with_floats fl v)) \<and>
    (\<forall>s vs r. parse_elems f s = Some (vs, r) \<longrightarrow> (\<forall>v \<in> set vs. wf_doc (with_floats fl v))) \<and>
    (\<forall>s kvs r. parse_members f s = Some (kvs, r) \<longrightarrow> (\<forall>v \<in> snd ` set kvs. wf_doc (with_floats fl v)))"
proof (induction f)
  case (Suc f)
  then have v: "\<And>s v r. parse_value f s = Some (v, r) \<Longrightarrow> wf_doc (with_floats fl v)"
    and e: "\<And>s vs r v. parse_elems f s = Some (vs, r) \<Longrightarrow> v \<in> set vs \<Longrightarrow> wf_doc (with_floats fl v)"
    and m: "\<And>s kvs r v. parse_members f s = Some (kvs, r) \<Longrightarrow> v \<in> snd ` set kvs \<Longrightarrow> wf_doc (with_floats fl v)"
    by blast+
  have num: "read_num s = Some (v, r) \<Longrightarrow> wf_doc (with_floats fl v)" for s v r
    using assms by (auto simp: read_num_def Let_def good_floats_def split: option.splits prod.splits if_splits)
  have "wf_doc (with_floats fl v)" if "parse_value (Suc f) s = Some (v, r)" for s v r
  proof -
    have "wf_doc (with_floats fl (PList vs))" if "parse_elems f s = Some (vs, r)" for s vs r
      using e [OF that] by (simp add: list_all_iff)
    moreover have "wf_doc (with_floats fl (PDict (py_dict kvs)))" if "parse_members f s = Some (kvs, r)" for s kvs r
      using m [OF that] by (rule with_floats_dict)
    ultimately show ?thesis using that num unfolding parse_value.simps(2)
      by (auto simp del: with_floats.simps(7,9) wf_doc.simps(7,9) split: list.splits if_splits)
        (auto split: if_splits)
  qed
  moreover have "\<forall>v \<in> set vs. wf_doc (with_floats fl v)" if "parse_elems (Suc f) s = Some (vs, r)" for s vs r
    using that unfolding parse_elems.simps(2)
    by (auto split: option.splits list.splits if_splits) (erule v | erule (1) e)+
  moreover have "\<forall>v \<in> snd ` set kvs. wf_doc (with_floats fl v)" if "parse_members (Suc f) s = Some (kvs, r)" for s kvs r
    using that unfolding parse_members.simps(2)
    by (auto split: option.splits list.splits if_splits) (erule v | erule m, force)+
  ultimately show ?case by blast
qed simp

lemma json_loads_wf: "good_floats (pd_float pd) \<Longrightarrow> json_loads pd s = Inr v \<Longrightarrow> wf_doc v"
  using parse_wf [of "pd_float pd"] by (fastforce simp: json_loads_def loads_def ebind_eq_Inr split: option.splits prod.splits if_splits)

section \<open>What the database keeps\<close>

lemma sort_key_idem: "sort_key f (sort_key f xs) = sort_key f xs"
proof -
  have "sorted (map f ys) \<Longrightarrow> sort_key f ys = ys" for ys
    by (induction ys) (simp_all add: insort_is_Cons)
  then show ?thesis by simp
qed

lemma dumps_normal: "dumps ea (normal v) = dumps ea v"
proof (induction v)
  case (PDict kvs)
  then have "map (map_prod (\<lambda>k. k) (\<lambda>v. dumps ea (normal v))) kvs = map (map_prod (\<lambda>k. k) (dumps ea)) kvs"
    by auto
  moreover have "sort_key fst (map (map_prod (\<lambda>k. k) (dumps ea)) (sort_key fst (map (map_prod (\<lambda>k. k) normal) kvs))) =
      sort_key fst (map (map_prod (\<lambda>k. k) (\<lambda>v. dumps ea (normal v))) kvs)"
    by (simp add: sort_key_map_prod prod.map_comp comp_def sort_key_idem)
  ultimately show ?case by (simp only: normal.simps dumps.simps)
qed (auto cong: map_cong)

lemma map_of_sorted:
  assumes "distinct (map fst d)"
  shows "map_of (sort_key fst (map (map_prod (\<lambda>k. k) f) d)) k = map_option f (map_of d k)"
proof -
  let ?s = "sort_key fst (map (map_prod (\<lambda>k. k) f) d)"
  have "distinct (map fst (map (map_prod (\<lambda>k. k) f) d))" using assms by (simp add: comp_def)
  moreover from this have "distinct (map fst ?s)"
    by (metis distinct_map distinct_sort set_sort)
  ultimately have "map_of ?s k = map_of (map (map_prod (\<lambda>k. k) f) d) k"
    by (metis map_of_eq_Some_iff not_Some_eq set_sort)
  then show ?thesis by (simp add: map_of_map_restrict map_prod_def map_of_map)
qed

lemma envelope_of_sorted:
  "envelope_of (sort_key fst (map (map_prod (\<lambda>k. k) normal) d)) = normal (envelope_of d)"
  by (simp add: envelope_of_def filter_sort filter_map comp_def case_prod_beta')

lemma envelope_digest_sorted:
  "envelope_digest sha (sort_key fst (map (map_prod (\<lambda>k. k) normal) d)) = envelope_digest sha d"
  by (simp only: envelope_digest_def envelope_of_sorted dumps_normal)

lemma jsonb_document:
  assumes "wf_doc (PDict d)" "float_free (PDict d)" "jsonb (dumps ea (PDict d)) = Inr v"
  shows "v = PDict (sort_key fst (map (map_prod (\<lambda>k. k) normal) d))"
proof -
  have ok: "jsonb_ok (PDict d)"
    using assms(3) unfolding jsonb_dumps [OF assms(1)] by (metis Inl_Inr_False)
  show ?thesis
    using assms(3) unfolding jsonb_plain [OF assms(1,2) ok] by simp
qed

end
