(* ===== verification/DeliveryFacts.thy ===== *)
theory DeliveryFacts
  imports PipelineFacts EventFacts
begin

text \<open>
  Webhook deliveries: a provider's event is stored once and for good, whatever the pipeline does
  afterwards; what was accepted passes the worker's digest check; and a replay never does.
\<close>

section \<open>A delivery is permanent\<close>

definition same_identity :: "uuid \<Rightarrow> uuid \<Rightarrow> string \<Rightarrow> receipt_row \<Rightarrow> bool" where
  "same_identity t ep pid r \<longleftrightarrow> rc_tenant_id r = t \<and> rc_endpoint_id r = ep \<and> rc_provider_event_id r = pid"

text \<open>The one receipt, event and job of a provider identity, with the digest of the body.\<close>

definition delivered :: "uuid \<Rightarrow> uuid \<Rightarrow> string \<Rightarrow> webhook_answer \<Rightarrow> string \<Rightarrow> pipeline \<Rightarrow> bool" where
  "delivered t ep pid a digest db \<longleftrightarrow>
     map (\<lambda>r. (rc_id r, rc_payload_digest r)) (filter (same_identity t ep pid) (receipts db)) = [(wa_receipt_id a, digest)] \<and>
     map ev_id (filter (\<lambda>e. ev_tenant_id e = t \<and> ev_receipt_id e = Some (wa_receipt_id a)) (events db)) = [wa_event_id a] \<and>
     map jb_id (filter (\<lambda>j. jb_tenant_id j = t \<and> jb_event_id j = wa_event_id a) (jobs db)) = [wa_job_id a]"

lemma delivered_cong: "core db' = core db \<Longrightarrow> delivered t ep pid a x db' = delivered t ep pid a x db"
  by (simp add: delivered_def core_def)

lemma map_single: "map f xs = [y] \<longleftrightarrow> (\<exists>x. xs = [x] \<and> f x = y)"
  by (cases xs) auto

lemma delivered_existing:
  assumes "delivered t ep pid a x db"
  shows "\<exists>r e j. existing_delivery t ep pid db = [(r, e, j)] \<and> rc_id r = wa_receipt_id a \<and> rc_payload_digest r = x \<and>
    ev_id e = wa_event_id a \<and> jb_id j = wa_job_id a"
proof -
  obtain r e j where r: "filter (same_identity t ep pid) (receipts db) = [r]" "rc_id r = wa_receipt_id a" "rc_payload_digest r = x"
    and e: "filter (\<lambda>e. ev_tenant_id e = t \<and> ev_receipt_id e = Some (wa_receipt_id a)) (events db) = [e]" "ev_id e = wa_event_id a"
    and j: "filter (\<lambda>j. jb_tenant_id j = t \<and> jb_event_id j = wa_event_id a) (jobs db) = [j]" "jb_id j = wa_job_id a"
    using assms unfolding delivered_def map_single by auto
  have "same_identity t ep pid r" "ev_tenant_id e = t"
    using r(1) e(1) by (metis (mono_tags, lifting) filter_eq_Cons_iff)+
  then have "existing_delivery t ep pid db = [(r, e, j)]"
    using r e j unfolding existing_delivery_def same_identity_def by simp
  with r e j show ?thesis by simp
qed

lemma delivered_rows:
  assumes "delivered t ep pid a x db"
  shows "\<exists>r \<in> set (receipts db). same_identity t ep pid r"
    and "\<exists>e \<in> set (events db). ev_tenant_id e = t \<and> ev_receipt_id e = Some (wa_receipt_id a) \<and> ev_id e = wa_event_id a"
proof -
  obtain r e where "filter (same_identity t ep pid) (receipts db) = [r]"
    "filter (\<lambda>e. ev_tenant_id e = t \<and> ev_receipt_id e = Some (wa_receipt_id a)) (events db) = [e]" "ev_id e = wa_event_id a"
    using assms unfolding delivered_def map_single by auto
  then have "r \<in> set (filter (same_identity t ep pid) (receipts db))"
    "e \<in> set (filter (\<lambda>e. ev_tenant_id e = t \<and> ev_receipt_id e = Some (wa_receipt_id a)) (events db))" by simp_all
  with \<open>ev_id e = wa_event_id a\<close>
  show "\<exists>r \<in> set (receipts db). same_identity t ep pid r"
    "\<exists>e \<in> set (events db). ev_tenant_id e = t \<and> ev_receipt_id e = Some (wa_receipt_id a) \<and> ev_id e = wa_event_id a"
    by auto
qed

text \<open>The statements that write to the three tables.\<close>

lemma delivered_receipt:
  assumes "delivered t ep pid a x db" "insert_receipt r db = Inr db'"
  shows "delivered t ep pid a x db'"
proof -
  have db': "db' = db\<lparr>receipts := receipts db @ [r]\<rparr>" using insert_receipt_Inr [OF assms(2)] by simp
  have "\<not> same_identity t ep pid r"
    using delivered_rows(1) [OF assms(1)] insert_receipt_Inr [OF assms(2)] by (auto simp: same_identity_def)
  with assms(1) show ?thesis by (simp add: delivered_def db')
qed

lemma delivered_event:
  assumes "delivered t ep pid a x db" "insert_event e db = Inr db'"
  shows "delivered t ep pid a x db' \<and> ev_id e \<noteq> wa_event_id a"
proof -
  have db': "db' = db\<lparr>events := events db @ [e]\<rparr>" using insert_event_Inr [OF assms(2)] by simp
  have "ev_id e \<noteq> wa_event_id a \<and> \<not> (ev_tenant_id e = t \<and> ev_receipt_id e = Some (wa_receipt_id a))"
    using delivered_rows(2) [OF assms(1)] insert_event_Inr [OF assms(2)] unfolding event_clash_def by force
  with assms(1) show ?thesis by (auto simp: delivered_def db')
qed

lemma delivered_job:
  assumes "delivered t ep pid a x db" "insert_job j db = Inr db'" "jb_event_id j \<noteq> wa_event_id a"
  shows "delivered t ep pid a x db'"
proof -
  have "db' = db\<lparr>jobs := jobs db @ [j]\<rparr>" using insert_job_known [OF assms(2)] by simp
  with assms(1,3) show ?thesis by (simp add: delivered_def)
qed

lemma delivered_append:
  assumes "delivered t ep pid a x db" "insert_event e db = Inr db1" "core db2 = core db1"
    "insert_job j db2 = Inr db3" "jb_event_id j = ev_id e"
  shows "delivered t ep pid a x db3"
  using delivered_event [OF assms(1,2)] delivered_job [OF _ assms(4)] delivered_cong [OF assms(3)] assms(5) by simp

section \<open>Every operation keeps a delivery\<close>

lemma core_only_delivered: "core_only (delivered t ep pid a x)"
  unfolding core_only_def by (intro allI impI) (rule delivered_cong)

lemma write_delivery_keeps: "preserves (delivered t ep pid a x) (write_delivery I d body sender incoming data)"
proof (rule preservesI)
  fix db y db'
  assume p: "delivered t ep pid a x db" and w: "write_delivery I d body sender incoming data db = Inr (y, db')"
  obtain r db1 e db2 where 1: "insert_receipt r db = Inr db1" "insert_event e db1 = Inr db2" "ev_id e = wd_event_id d"
    "insert_job (new_job (wd_job_id d) (rs_tenant_id sender) (wd_event_id d) (ig_job_kind I) (dt_instant (st_time (wd_now d)))) db2 = Inr db'"
    using write_delivery_Inr [OF w] by fastforce
  show "delivered t ep pid a x db'"
    by (rule delivered_append [OF delivered_receipt [OF p 1(1)] 1(2) refl 1(4)]) (simp add: 1(3))
qed

lemma write_import_keeps: "preserves (delivered t ep pid a x) (write_import sha t' rq d)"
proof (rule preservesI)
  fix db y db'
  assume p: "delivered t ep pid a x db" and w: "write_import sha t' rq d db = Inr (y, db')"
  obtain r db1 e db2 where 1: "insert_import r db = Inr db1" "insert_event e db1 = Inr db2" "ev_id e = ud_event_id d"
    "insert_job (new_job (ud_job_id d) t' (ud_event_id d) ''ingest.csv.v1'' (ud_now d)) db2 = Inr db'"
    using write_import_Inr [OF w] by blast
  have "delivered t ep pid a x db1" using delivered_cong [OF core_frame(3) [OF 1(1)]] p by blast
  from delivered_append [OF this 1(2) refl 1(4)] show "delivered t ep pid a x db'" by (simp add: 1(3))
qed

lemma write_replay_keeps: "preserves (delivered t ep pid a x) (write_replay sha kind actor d i reason key source payload)"
proof (rule preservesI)
  fix db y db'
  assume p: "delivered t ep pid a x db" and w: "write_replay sha kind actor d i reason key source payload db = Inr (y, db')"
  obtain e db1 r db2 db3 z where 1: "insert_event e db = Inr db1" "ev_id e = dr_replay_id d" "insert_replay r db1 = Inr db2"
    "insert_job (new_job (dr_job_id d) (pr_tenant_id actor) (dr_replay_id d) kind (dr_now d)) db2 = Inr db3"
    "insert_audit z db3 = Inr db'"
    using write_replay_Inr [OF w] by fastforce
  from delivered_append [OF p 1(1) core_frame(6) [OF 1(3)] 1(4)] have "delivered t ep pid a x db3" by (simp add: 1(2))
  then show "delivered t ep pid a x db'" using delivered_cong [OF core_frame(9) [OF 1(5)]] by blast
qed

lemma write_run_keeps: "preserves (delivered t ep pid a x) (write_run sha t' d kind key)"
proof (rule preservesI)
  fix db y db'
  assume p: "delivered t ep pid a x db" and w: "write_run sha t' d kind key db = Inr (y, db')"
  obtain r db1 e db2 where 1: "insert_run r db = Inr db1" "insert_event e db1 = Inr db2" "ev_id e = dc_event_id d"
    "insert_job (new_job (dc_job_id d) t' (dc_event_id d) ''reconcile.tenant.v1'' (dc_now d)) db2 = Inr db'"
    using write_run_Inr [OF w] by blast
  have "delivered t ep pid a x db1" using delivered_cong [OF core_frame(7) [OF 1(1)]] p by blast
  from delivered_append [OF this 1(2) refl 1(4)] show "delivered t ep pid a x db'" by (simp add: 1(3))
qed

lemma requests_keep:
  "receive I rq d seen w = (r, w') \<Longrightarrow> delivered t ep pid a x (fst w) \<Longrightarrow> delivered t ep pid a x (fst w')"
  "upload sha pd S limits actor urq ud w = (r2, w') \<Longrightarrow> delivered t ep pid a x (fst w) \<Longrightarrow> delivered t ep pid a x (fst w')"
  "replay sha kind actor rd i reason key db = (r3, db') \<Longrightarrow> delivered t ep pid a x db \<Longrightarrow> delivered t ep pid a x db'"
  "start_reconciliation sha actor cd kind key db = (r3, db') \<Longrightarrow> delivered t ep pid a x db \<Longrightarrow> delivered t ep pid a x db'"
proof -
  show "receive I rq d seen w = (r, w') \<Longrightarrow> delivered t ep pid a x (fst w) \<Longrightarrow> delivered t ep pid a x (fst w')"
    by (auto simp: receive_def deliver_def write_delivery_keeps split: sum.splits list.splits prod.splits if_splits
        intro: store_new_keeps)
  show "upload sha pd S limits actor urq ud w = (r2, w') \<Longrightarrow> delivered t ep pid a x (fst w) \<Longrightarrow> delivered t ep pid a x (fst w')"
    by (auto simp: upload_def Let_def write_import_keeps split: sum.splits csv_failure.splits option.splits if_splits
        intro: store_new_keeps)
  show "replay sha kind actor rd i reason key db = (r3, db') \<Longrightarrow> delivered t ep pid a x db \<Longrightarrow> delivered t ep pid a x db'"
    by (auto simp: replay_def write_replay_keeps split: if_splits option.split
        elim!: respond_keeps intro!: preserves_bind preserves_andthen)
  show "start_reconciliation sha actor cd kind key db = (r3, db') \<Longrightarrow> delivered t ep pid a x db \<Longrightarrow> delivered t ep pid a x db'"
    by (auto simp: start_reconciliation_def write_run_keeps split: if_splits option.split
        elim!: respond_keeps intro!: preserves_bind preserves_andthen)
qed

lemma csv_event_id:
  assumes "csv_event H j i head n line = Inr (event_id, incoming, data)"
  shows "event_id = he_uuid5 H (row_name ''outcomeos:'' i n)"
proof -
  obtain es where "parse_csv_v1 (he_pydantic H) (he_limits H) (head @ line) = Inr es"
    using assms by (auto simp: csv_event_def ebind_eq_Inr)
  with assms show ?thesis
    by (cases es) (auto simp: csv_event_def csv_value_def Let_def ebind_eq_Inr)
qed

lemma import_line_keeps:
  assumes "wa_event_id a \<notin> range (he_uuid5 H)"
  shows "preserves (delivered t ep pid a x) (import_line H j i head n line)"
proof (cases "csv_event H j i head n line")
  case (Inl e)
  then show ?thesis
    by (cases e) (auto simp: import_line_def stmt_def core_frame intro!: preserves_andthen core_only_change core_only_delivered)
next
  case (Inr y)
  obtain event_id incoming data where y: "y = (event_id, incoming, data)" by (cases y)
  have id: "event_id \<in> range (he_uuid5 H)" using csv_event_id Inr y by blast
  show ?thesis
  proof (rule preservesI)
    fix db b db'
    assume p: "delivered t ep pid a x db" and w: "import_line H j i head n line db = Inr (b, db')"
    obtain e db1 where 1: "insert_event_once e db = Inr db1" "ev_id e = event_id"
      "insert_job_once (new_job (he_uuid5 H (row_name ''outcomeos:csv-job:'' i n)) (jo_tenant_id j) event_id
         ''ingest.canonical_event.v1'' (instant_of H j)) db1 = Inr db'"
      using w Inr y by (auto simp: import_line_def Let_def tx_simps stmt_def)
    have "delivered t ep pid a x db1"
      using event_once_Inr [OF 1(1)] delivered_event [OF p] p by blast
    moreover have "event_id \<noteq> wa_event_id a" using id assms by metis
    ultimately show "delivered t ep pid a x db'"
      using job_once_Inr [OF 1(3)] delivered_job [of t ep pid a x db1] by auto
  qed
qed

lemma csv_import_handler_keeps:
  assumes "apart H (fst w)" "csv_import_handler H j w = (r, w')" "delivered t ep pid a x (fst w)"
  shows "delivered t ep pid a x (fst w')"
proof -
  have out: "wa_event_id a \<notin> range (he_uuid5 H)"
    using delivered_rows(2) [OF assms(3)] assms(1) by (force simp: apart_def)
  have lines: "preserves (delivered t ep pid a x) (import_lines H j i head n ls)" for i head n ls
    by (induction ls arbitrary: n) (auto intro!: preserves_bind import_line_keeps out)
  have st: "preserves (delivered t ep pid a x) (stmt (update_imports p f))" for p f
    unfolding stmt_def by (rule core_only_change [OF core_only_delivered core_frame(4)])
  have "preserves (delivered t ep pid a x) (run_import H j i r o1)" for i r o1
    unfolding run_import_def Let_def
    by (intro preserves_andthen preserves_bind st) (auto split: list.split intro!: preserves_bind lines st)
  then show ?thesis
    using assms(2,3) unfolding csv_import_handler_def Let_def
    by (auto elim!: in_session_keeps intro!: preserves_bind)
qed

lemma delivered_jobs:
  assumes "delivered t ep pid a x db" "receipts db' = receipts db" "events db' = events db"
    and "jobs db' = map f (jobs db)" "\<And>j. jb_id (f j) = jb_id j \<and> jb_tenant_id (f j) = jb_tenant_id j \<and> jb_event_id (f j) = jb_event_id j"
  shows "delivered t ep pid a x db'"
  using assms by (simp add: delivered_def filter_map comp_def)

lemma step_keeps_delivery:
  "pipeline_step w w' \<Longrightarrow> sound (fst w) \<Longrightarrow> delivered t ep pid a x (fst w) \<Longrightarrow> delivered t ep pid a x (fst w')"
proof (induction rule: pipeline_step.induct)
  case (step_csv H w j r7 w')
  then show ?case using csv_import_handler_keeps by blast
next
  case (step_queue_claim token db batch lease now locked attempt_id js db' o1)
  note c = claim_jobs_Inr(2) [OF step_queue_claim(2)]
  show ?case unfolding fst_conv
    by (rule delivered_jobs [of t ep pid a x db db' "\<lambda>r. if jb_id r \<in> jb_id ` set (candidates batch now locked (jobs db))
        then leased token now lease r else r"]) (use step_queue_claim c in simp_all)
next
  case (step_queue_finish job lease_token outcome error delay now db b db' o1)
  then have "distinct (map jb_id (jobs db))" by (simp add: sound_def queue_ok_def)
  note f = finish_job_Inr [OF this step_queue_finish(1)]
  show ?case
  proof (cases b)
    case True
    show ?thesis unfolding fst_conv
      by (rule delivered_jobs [of t ep pid a x db db' "finish_row job lease_token outcome error delay now"])
        (use step_queue_finish(3) f(3) [OF True] in \<open>simp_all add: finish_row_def\<close>)
  qed (use f(2) step_queue_finish(3) in simp)
next
  case (step_queue_lost job lease_token now db b db' o1)
  then show ?case using lease_lost_eq [OF step_queue_lost(1)] by (simp add: delivered_def)
next
  case (step_beat worker status now db db' o1)
  then have "core db' = core db" by (auto simp: worker_heartbeat_def core_def split: if_splits)
  from delivered_cong [OF this] step_beat(3) show ?case by simp
qed ((simp only: fst_conv)?, erule (1) core_only_requests [OF core_only_delivered] requests_keep)+

lemma steps_keep_delivery:
  "pipeline_step\<^sup>*\<^sup>* w w' \<Longrightarrow> sound (fst w) \<Longrightarrow> delivered t ep pid a x (fst w) \<Longrightarrow>
     sound (fst w') \<and> delivered t ep pid a x (fst w')"
  by (induction rule: rtranclp_induct) (auto intro: step_keeps_delivery step_sound)

section \<open>Exactly once\<close>

lemma receive_admitted:
  assumes "admit I rq d seen = Inr (body, sender, incoming)"
  shows "receive I rq d seen w = deliver I d body sender incoming w"
  using assms by (simp add: receive_def)

lemma store_new_Answered:
  "store_new S t key body digest n m w = (Answered k x, w') \<Longrightarrow> m (fst w) = Inr (x, fst w') \<and>
     (\<exists>h. os_put_if_absent S t key body digest (snd w) = (Inr h, snd w'))"
  by (auto simp: store_new_def transaction_def reply_Answered split: prod.splits sum.splits)

lemma deliver_new:
  assumes "deliver I d body sender incoming w = (Answered n a, w')" "\<not> wa_duplicate a"
  shows "\<exists>data h. canonical_data I d body sender incoming = Inr data \<and>
    write_delivery I d body sender incoming data (fst w) = Inr (a, fst w') \<and>
    os_put_if_absent (ig_storage I) (rs_tenant_id sender)
      (evidence_key (ig_sha I) (rs_endpoint_id sender) (pe_provider_event_id incoming)) body (ig_sha I body) (snd w) = (Inr h, snd w')"
proof -
  obtain data where data: "canonical_data I d body sender incoming = Inr data"
    using assms(1) by (auto simp: deliver_def split: sum.splits)
  show ?thesis
  proof (cases "existing_delivery (rs_tenant_id sender) (rs_endpoint_id sender) (pe_provider_event_id incoming) (fst w)")
    case Nil
    with assms(1) data store_new_Answered show ?thesis by (fastforce simp: deliver_def)
  next
    case (Cons x xs)
    with assms data show ?thesis by (cases x; cases xs) (auto simp: deliver_def split: if_splits)
  qed
qed

lemma new_delivery:
  assumes "sound db" "write_delivery I d body sender incoming data db = Inr (a, db')"
  shows "delivered (rs_tenant_id sender) (rs_endpoint_id sender) (pe_provider_event_id incoming) a (ig_sha I body) db'"
proof -
  let ?t = "rs_tenant_id sender"
  obtain r db1 payload e db2 where 1: "insert_receipt r db = Inr db1" "rc_id r = wd_receipt_id d" "rc_tenant_id r = ?t"
      "rc_endpoint_id r = rs_endpoint_id sender" "rc_provider_event_id r = pe_provider_event_id incoming"
      "rc_payload_digest r = ig_sha I body"
    and 2: "insert_event e db1 = Inr db2" "ev_receipt_id e = Some (wd_receipt_id d)" "ev_tenant_id e = ?t" "ev_id e = wd_event_id d"
    and 3: "insert_job (new_job (wd_job_id d) ?t (wd_event_id d) (ig_job_kind I) (dt_instant (st_time (wd_now d)))) db2 = Inr db'"
    and a: "a = \<lparr>wa_receipt_id = wd_receipt_id d, wa_event_id = wd_event_id d, wa_job_id = wd_job_id d, wa_duplicate = False\<rparr>"
    using write_delivery_Inr [OF assms(2)] by fastforce
  have r: "db1 = db\<lparr>receipts := receipts db @ [r]\<rparr>" "\<forall>x \<in> set (receipts db). \<not> same_identity ?t (rs_endpoint_id sender) (pe_provider_event_id incoming) x"
    using insert_receipt_Inr [OF 1(1)] 1 by (auto simp: same_identity_def)
  have e: "db2 = db1\<lparr>events := events db1 @ [e]\<rparr>" "\<forall>x \<in> set (events db). ev_id x \<noteq> wd_event_id d \<and> \<not> (ev_tenant_id x = ?t \<and> ev_receipt_id x = Some (wd_receipt_id d))"
    using insert_event_Inr [OF 2(1)] 2 r(1) by (auto simp: event_clash_def)
  have j: "db' = db2\<lparr>jobs := jobs db2 @ [new_job (wd_job_id d) ?t (wd_event_id d) (ig_job_kind I) (dt_instant (st_time (wd_now d)))]\<rparr>"
    using insert_job_known [OF 3] by simp
  have "jb_event_id x \<noteq> wd_event_id d" if "x \<in> set (jobs db)" for x
    using assms(1) that e(2) unfolding sound_def core_def linked_core_def by fastforce
  then show ?thesis
    using r e j 1 2 by (auto simp: delivered_def a same_identity_def filter_empty_conv)
qed

text \<open>
  C1. A provider's event is ingested exactly once, and for good.  Once a webhook has been
  accepted, then after any further activity of the pipeline (deliveries, imports, replays,
  reconciliations, worker rounds, lost leases) a webhook with the same identity is answered with
  the identifiers of the first one if its body has the same digest, and refused with 409 if it
  has not; in both cases it changes neither the database nor the object store.
\<close>

theorem webhook_exactly_once:
  assumes "pipeline_reachable w" "admit I rq d seen = Inr (body, sender, incoming)"
    and "receive I rq d seen w = (Answered n a, w1)" "\<not> wa_duplicate a" "pipeline_step\<^sup>*\<^sup>* w1 w2"
    and again: "admit J rq' d' seen' = Inr (body', sender', incoming')"
      "rs_tenant_id sender' = rs_tenant_id sender" "rs_endpoint_id sender' = rs_endpoint_id sender"
      "pe_provider_event_id incoming' = pe_provider_event_id incoming"
    and data: "canonical_data J d' body' sender' incoming' = Inr data'"
  shows "receive J rq' d' seen' w2 =
    (if ig_sha J body' = ig_sha I body then (Answered 202 (a\<lparr>wa_duplicate := True\<rparr>), w2)
     else (Denied 409 ''provider event identity conflicts with prior payload'', w2))"
proof -
  let ?D = "delivered (rs_tenant_id sender) (rs_endpoint_id sender) (pe_provider_event_id incoming) a (ig_sha I body)"
  have s: "sound (fst w)" by (rule reachable_sound [OF assms(1)])
  obtain data1 where "write_delivery I d body sender incoming data1 (fst w) = Inr (a, fst w1)"
    using deliver_new assms(3,4) by (fastforce simp: receive_admitted [OF assms(2)])
  from new_delivery [OF s this] have "?D (fst w1)" .
  moreover have "sound (fst w1)" by (rule receive_sound [OF assms(3) s])
  ultimately have "?D (fst w2)" using steps_keep_delivery [OF assms(5)] by blast
  then obtain r e j where ex: "existing_delivery (rs_tenant_id sender) (rs_endpoint_id sender) (pe_provider_event_id incoming) (fst w2) =
      [(r, e, j)]" "rc_id r = wa_receipt_id a" "rc_payload_digest r = ig_sha I body" "ev_id e = wa_event_id a" "jb_id j = wa_job_id a"
    using delivered_existing by blast
  then show ?thesis
    using data by (auto simp: receive_admitted [OF again(1)] deliver_def again)
qed

end
