(* ===== verification/EventLife.thy ===== *)
theory EventLife
  imports DeliveryFacts
begin

text \<open>
  What becomes of a stored event: no step of the pipeline changes or loses it, an accepted
  webhook passes the worker's digest check for ever after, and a replay never does.
\<close>

section \<open>Events are never lost\<close>

text \<open>Properties of the database that no insertion and no change of the queue invalidates.\<close>

definition stable :: "(pipeline \<Rightarrow> bool) \<Rightarrow> bool" where
  "stable P \<longleftrightarrow> core_only P \<and> (\<forall>r db db'. insert_receipt r db = Inr db' \<longrightarrow> P db \<longrightarrow> P db') \<and>
     (\<forall>e db db'. insert_event e db = Inr db' \<longrightarrow> P db \<longrightarrow> P db') \<and>
     (\<forall>db js as. P db \<longrightarrow> P (db\<lparr>jobs := js, attempts := as\<rparr>))"

lemma stableD:
  assumes "stable P"
  shows "core_only P"
    and "insert_receipt r db = Inr db' \<Longrightarrow> P db \<Longrightarrow> P db'"
    and "insert_event e db = Inr db' \<Longrightarrow> P db \<Longrightarrow> P db'"
    and "receipts db' = receipts db \<Longrightarrow> events db' = events db \<Longrightarrow> P db \<Longrightarrow> P db'"
    and "insert_job j db = Inr db' \<Longrightarrow> P db \<Longrightarrow> P db'"
    and "core db' = core db \<Longrightarrow> P db \<Longrightarrow> P db'"
proof -
  show c: "core_only P"
    and "insert_receipt r db = Inr db' \<Longrightarrow> P db \<Longrightarrow> P db'"
    and "insert_event e db = Inr db' \<Longrightarrow> P db \<Longrightarrow> P db'"
    using assms unfolding stable_def by blast+
  show j: "receipts db' = receipts db \<Longrightarrow> events db' = events db \<Longrightarrow> P db \<Longrightarrow> P db'" for db'
  proof -
    assume eq: "receipts db' = receipts db" "events db' = events db" and "P db"
    then have "P (db\<lparr>jobs := jobs db', attempts := attempts db'\<rparr>)" using assms unfolding stable_def by blast
    moreover have "core db' = core (db\<lparr>jobs := jobs db', attempts := attempts db'\<rparr>)" using eq by (simp add: core_def)
    ultimately show "P db'" using c unfolding core_only_def by blast
  qed
  show "insert_job j db = Inr db' \<Longrightarrow> P db \<Longrightarrow> P db'"
    using j [of db'] insert_job_known [of j db db'] by auto
  show "core db' = core db \<Longrightarrow> P db \<Longrightarrow> P db'"
    using c unfolding core_only_def by blast
qed

lemma stable_writes:
  assumes "stable P"
  shows "preserves P (write_delivery I d body sender incoming data)"
    and "preserves P (write_import sha t rq ud)"
    and "preserves P (write_replay sha kind actor rd i reason key source payload)"
    and "preserves P (write_run sha t cd kind' key)"
proof -
  note st = stableD [OF assms]
  show "preserves P (write_delivery I d body sender incoming data)"
    by (rule preservesI) (drule write_delivery_Inr, elim exE conjE, blast intro: st)
  show "preserves P (write_import sha t rq ud)"
    by (rule preservesI) (drule write_import_Inr, elim exE conjE, blast intro: st core_frame)
  show "preserves P (write_replay sha kind actor rd i reason key source payload)"
    by (rule preservesI) (drule write_replay_Inr, elim exE conjE, blast intro: st core_frame)
  show "preserves P (write_run sha t cd kind' key)"
    by (rule preservesI) (drule write_run_Inr, elim exE conjE, blast intro: st core_frame)
qed

lemma stable_csv:
  assumes "stable P" "csv_import_handler H j w = (r, w')" "P (fst w)"
  shows "P (fst w')"
proof -
  note st = stableD [OF assms(1)]
  have cell: "preserves P (stmt f)" if "\<And>db db'. f db = Inr db' \<Longrightarrow> P db \<Longrightarrow> P db'" for f
    unfolding stmt_def by (rule preserves_statement) (rule that)
  have err: "preserves P (stmt (insert_import_error e))" for e
    by (rule cell) (blast intro: st core_frame)
  have evs: "preserves P (stmt (insert_event_once e))" for e
    by (rule cell) (use event_once_Inr st(3) in blast)
  have jbs: "preserves P (stmt (insert_job_once e))" for e
    by (rule cell) (use job_once_Inr st(5) in blast)
  have upd: "preserves P (stmt (update_imports p f))" for p f
    by (rule cell) (blast intro: st core_frame)
  have line: "preserves P (import_line H j i head n l)" for i head n l
    unfolding import_line_def Let_def
    by (auto split: sum.split csv_failure.split intro!: preserves_andthen preserves_bind err evs jbs)
  have lines: "preserves P (import_lines H j i head n ls)" for i head n ls
    by (induction ls arbitrary: n) (auto intro!: preserves_bind line)
  have "preserves P (run_import H j i r o1)" for i r o1
    unfolding run_import_def Let_def
    by (intro preserves_andthen preserves_bind upd) (auto split: list.split intro!: preserves_bind lines upd)
  then show ?thesis
    using assms(2,3) unfolding csv_import_handler_def Let_def
    by (auto elim!: in_session_keeps intro!: preserves_bind)
qed

lemma stable_requests:
  assumes "stable P"
  shows "receive I rq d seen w = (r, w') \<Longrightarrow> P (fst w) \<Longrightarrow> P (fst w')"
    and "upload sha pd S limits actor urq ud w = (r2, w') \<Longrightarrow> P (fst w) \<Longrightarrow> P (fst w')"
    and "replay sha kind actor rd i reason key db = (r3, db') \<Longrightarrow> P db \<Longrightarrow> P db'"
    and "start_reconciliation sha actor cd kind key db = (r3, db') \<Longrightarrow> P db \<Longrightarrow> P db'"
proof -
  note wr = stable_writes [OF assms]
  show "receive I rq d seen w = (r, w') \<Longrightarrow> P (fst w) \<Longrightarrow> P (fst w')"
    by (auto simp: receive_def deliver_def wr split: sum.splits list.splits prod.splits if_splits intro: store_new_keeps)
  show "upload sha pd S limits actor urq ud w = (r2, w') \<Longrightarrow> P (fst w) \<Longrightarrow> P (fst w')"
    by (auto simp: upload_def Let_def wr split: sum.splits csv_failure.splits option.splits if_splits intro: store_new_keeps)
  show "replay sha kind actor rd i reason key db = (r3, db') \<Longrightarrow> P db \<Longrightarrow> P db'"
    by (auto simp: replay_def wr split: if_splits option.split
        elim!: respond_keeps intro!: preserves_bind preserves_andthen)
  show "start_reconciliation sha actor cd kind key db = (r3, db') \<Longrightarrow> P db \<Longrightarrow> P db'"
    by (auto simp: start_reconciliation_def wr split: if_splits option.split
        elim!: respond_keeps intro!: preserves_bind preserves_andthen)
qed

lemma step_stable: "pipeline_step w w' \<Longrightarrow> stable P \<Longrightarrow> sound (fst w) \<Longrightarrow> P (fst w) \<Longrightarrow> P (fst w')"
proof (induction rule: pipeline_step.induct)
  case (step_csv H w j r7 w')
  then show ?case using stable_csv by blast
next
  case (step_queue_claim token db batch lease now locked attempt_id js db' o1)
  show ?case unfolding fst_conv
    by (rule stableD(4) [OF step_queue_claim(3)]) (use claim_jobs_Inr(2) [OF step_queue_claim(2)] step_queue_claim in simp_all)
next
  case (step_queue_finish job lease_token outcome error delay now db b db' o1)
  then have "distinct (map jb_id (jobs db))" by (simp add: sound_def queue_ok_def)
  note f = finish_job_Inr [OF this step_queue_finish(1)]
  have "receipts db' = receipts db" "events db' = events db" using f by (cases b; simp)+
  from stableD(4) [OF step_queue_finish(2) this] step_queue_finish(4) show ?case by simp
next
  case (step_queue_lost job lease_token now db b db' o1)
  have "receipts db' = receipts db" "events db' = events db" using lease_lost_eq [OF step_queue_lost(1)] by simp_all
  from stableD(4) [OF step_queue_lost(2) this] step_queue_lost(4) show ?case by simp
next
  case (step_beat worker status now db db' o1)
  then have "core db' = core db" by (auto simp: worker_heartbeat_def core_def split: if_splits)
  from stableD(6) [OF step_beat(2) this] step_beat(4) show ?case by simp
qed ((simp only: fst_conv)?, erule (1) core_only_requests [OF stableD(1)] stable_requests, assumption?)+

lemma steps_stable:
  "pipeline_step\<^sup>*\<^sup>* w w' \<Longrightarrow> stable P \<Longrightarrow> sound (fst w) \<Longrightarrow> P (fst w) \<Longrightarrow> sound (fst w') \<and> P (fst w')"
  by (induction rule: rtranclp_induct) (auto intro: step_stable step_sound)

lemma event_stable: "stable (\<lambda>db. event_by_id t i db = Some e)"
  unfolding stable_def
proof (intro conjI allI impI)
  show "core_only (\<lambda>db. event_by_id t i db = Some e)"
    unfolding core_only_def by (auto simp: core_def event_by_id_def)
  show "event_by_id t i db' = Some e" if "insert_receipt r db = Inr db'" "event_by_id t i db = Some e" for r db db'
    using insert_receipt_Inr [OF that(1)] that(2) by (auto simp: event_by_id_def)
  show "event_by_id t i db' = Some e" if "insert_event x db = Inr db'" "event_by_id t i db = Some e" for x db db'
    using insert_event_Inr [OF that(1)] that(2) by (auto simp: event_by_id_def find_row_def find_append_Some)
qed (simp add: event_by_id_def)

section \<open>Accepted events pass the digest check\<close>

text \<open>
  What pydantic documents of \<open>dict[str, Any]\<close>: documents without floats are dumped as they are;
  floats are read as JSON numbers.
\<close>

definition faithful :: "pydantic \<Rightarrow> bool" where
  "faithful pd \<longleftrightarrow> good_floats (pd_float pd) \<and> (\<forall>v. wf_doc v \<longrightarrow> float_free v \<longrightarrow> pd_any pd v = v)"

lemma text_items_keys: "text_items pd kvs = Some r \<Longrightarrow> map fst r = map fst kvs"
  by (induction pd kvs arbitrary: r rule: text_items.induct) (auto split: option.splits)

lemma field_Inr: "field conv d k = Inr x \<longleftrightarrow> (\<exists>v. map_of d k = Some v \<and> conv v = Some x)"
  by (auto simp: field_def split: option.splits)

lemma wf_doc_value: "wf_doc (PDict d) \<Longrightarrow> map_of d k = Some v \<Longrightarrow> wf_doc v"
  by (auto simp: list_all_iff dest!: map_of_SomeD)

lemma text_dict_keys:
  assumes "wf_doc (PDict d)" "field_or (as_text_dict pd) d k [] = Inr r"
  shows "distinct (map fst r)"
proof (cases "map_of d k")
  case (Some v)
  then obtain kvs where "v = PDict kvs" "text_items pd kvs = Some r"
    using assms(2) by (cases v) (auto simp: field_or_def field_Inr as_text_dict_def)
  then show ?thesis using wf_doc_value [OF assms(1) Some] text_items_keys by fastforce
qed (use assms in \<open>simp add: field_or_def\<close>)

lemma public_event_input_wf:
  assumes "wf_doc v" "public_event_input pd v = Inr e"
  shows "wf_doc (PDict (pe_payload e)) \<and> distinct (map fst (pe_references e)) \<and> distinct (map fst (pe_attribution e))"
proof -
  obtain d refs attr payload where d: "v = PDict d" "field_or (as_text_dict pd) d ''references'' [] = Inr refs"
    "field_or (as_text_dict pd) d ''attribution'' [] = Inr attr" "field as_dict d ''payload'' = Inr payload"
    "pe_references e = refs" "pe_attribution e = attr" "pe_payload e = payload"
    using assms(2) by (cases v) (auto simp: public_event_input_def ebind_eq_Inr Let_def)
  obtain x where x: "map_of d ''payload'' = Some x" "as_dict x = Some payload" using d(4) by (auto simp: field_Inr)
  then have "x = PDict payload" by (cases x) auto
  then have "wf_doc (PDict payload)" using wf_doc_value assms(1) x(1) d(1) by blast
  with text_dict_keys d assms(1) show ?thesis by auto
qed

lemma parse_event_wf:
  assumes "good_floats (pd_float pd)" "parse_event pd body = Inr e"
  shows "wf_doc (PDict (pe_payload e)) \<and> distinct (map fst (pe_references e)) \<and> distinct (map fst (pe_attribution e))"
proof -
  obtain s v where "json_loads pd s = Inr v" "public_event_input pd v = Inr e"
    using assms(2) by (auto simp: parse_event_def json_loads_bytes_def ebind_eq_Inr split: option.splits)
  then show ?thesis using json_loads_wf [OF assms(1)] public_event_input_wf by blast
qed

lemma map_error_Inr [simp]: "map_error f r = Inr x \<longleftrightarrow> r = Inr x"
  by (cases r) auto

lemma admit_parsed: "admit I rq d seen = Inr (body, sender, incoming) \<Longrightarrow> parse_event (ig_pydantic I) body = Inr incoming"
proof (cases "wq_timestamps rq")
  case (Cons t ts)
  then show "admit I rq d seen = Inr (body, sender, incoming) \<Longrightarrow> ?thesis"
    by (cases ts) (auto simp: admit_def ebind_eq_Inr)
qed (auto simp: admit_def ebind_eq_Inr)

lemma text_dict_wf: "wf_doc (text_dict kvs) \<longleftrightarrow> distinct (map fst kvs)" "float_free (text_dict kvs)"
  by (auto simp: text_dict_def comp_def list_all_iff)

lemma wf_dict_set:
  assumes "wf_doc (PDict d)" "wf_doc v"
  shows "wf_doc (PDict (dict_set k v d))"
  using assms set_dict_set by (force simp: list_all_iff)

lemma float_free_dict_set:
  assumes "float_free (PDict d)" "float_free v"
  shows "float_free (PDict (dict_set k v d))"
  using assms set_dict_set by (force simp: list_all_iff)

lemma envelope_dict_set:
  "k \<in> set delivery_keys \<Longrightarrow> envelope_of (dict_set k v d) = envelope_of d"
  unfolding envelope_of_def pyval.inject
proof (induction d)
  case (Cons p d)
  then show ?case by (cases p) auto
qed simp

lemma envelope_digest_dict_set:
  "k \<in> set delivery_keys \<Longrightarrow> envelope_digest sha (dict_set k v d) = envelope_digest sha d"
  by (simp add: envelope_digest_def envelope_dict_set)

text \<open>The envelope of a provider event is a document.\<close>

lemma canonical_document_wf:
  assumes "faithful pd" "canonical_of i t provider source now raw incoming = Inr c"
    and "wf_doc (PDict (pe_payload incoming))" "distinct (map fst (pe_references incoming))"
      "distinct (map fst (pe_attribution incoming))" "float_free (PDict (pe_payload incoming))"
  shows "wf_doc (PDict (model_dump pd c)) \<and> float_free (PDict (model_dump pd c))"
proof -
  have c: "ce_references c = pe_references incoming" "ce_attribution c = pe_attribution incoming"
    "ce_payload c = pe_payload incoming"
    using assms(2) by (auto simp: canonical_of_def Let_def ebind_eq_Inr)
  have "pd_any pd (PDict (ce_payload c)) = PDict (pe_payload incoming)"
    using assms by (simp add: faithful_def c)
  moreover have "wf_doc (money_dump m) \<and> float_free (money_dump m)" for m
    by (auto simp: money_dump_def split: option.split)
  moreover have "wf_doc (opt_text_value m) \<and> float_free (opt_text_value m)" for m
    by (auto simp: opt_text_value_def split: option.split)
  ultimately show ?thesis
    using assms(3-6) by (simp add: model_dump_def c text_dict_wf consent_dump_def del: wf_doc.simps(9) float_free.simps(9))
      (simp add: text_dict_wf)
qed

lemma sealed_Inr:
  "sealed sha d = Inr d' \<Longrightarrow> d' = dict_set ''payload_digest'' (PStr (envelope_digest sha d)) d"
  by (auto simp: sealed_def ebind_eq_Inr)

lemma wf_doc_normal [simp]: "wf_doc (normal v) = wf_doc v"
proof (induction v)
  case (PDict kvs)
  let ?n = "map (map_prod (\<lambda>k. k) normal) kvs"
  have "list_all snd (map (map_prod (\<lambda>k. k) wf_doc) (sort_key fst ?n)) = list_all snd (map (map_prod (\<lambda>k. k) wf_doc) kvs)"
  proof -
    have "list_all snd (map (map_prod (\<lambda>k. k) wf_doc) (sort_key fst ?n)) = list_all snd (map (map_prod (\<lambda>k. k) wf_doc) ?n)"
      by (simp only: list_all_iff set_map set_sort)
    also have "\<dots> = list_all snd (map (map_prod (\<lambda>k. k) wf_doc) kvs)" using PDict by (force simp: list_all_iff)
    finally show ?thesis .
  qed
  moreover have "distinct (map fst (sort_key fst ?n)) = distinct (map fst kvs)"
  proof -
    have "map fst ?n = map fst kvs" by simp
    moreover have "distinct (map fst (sort_key fst ?n)) = distinct (map fst ?n)"
      by (simp only: distinct_map distinct_sort set_sort)
    ultimately show ?thesis by (simp only:)
  qed
  ultimately show ?case by (simp only: normal.simps wf_doc.simps)
qed (auto simp: list_all_iff)

text \<open>A stored envelope is valid if the digest in it and beside it are the digest of it.\<close>

lemma stored_envelope_valid:
  assumes "wf_doc (PDict d)" "float_free (PDict d)" "jsonb (dumps ea (PDict d)) = Inr v"
    and "map_of d ''payload_digest'' = Some (PStr (envelope_digest sha d))"
  shows "\<exists>d'. v = PDict d' \<and> wf_doc v \<and> float_free v \<and> map_of d' ''replay_source_event_id'' = map_option normal (map_of d ''replay_source_event_id'') \<and>
    (ev_payload_digest row = sealed_digest d \<longrightarrow> envelope_valid sha row d')"
proof -
  let ?d' = "sort_key fst (map (map_prod (\<lambda>k. k) normal) d)"
  have v: "v = PDict ?d'" by (rule jsonb_document [OF assms(1-3)])
  have dist: "distinct (map fst d)" using assms(1) by simp
  have "map_of ?d' ''payload_digest'' = Some (PStr (envelope_digest sha ?d'))"
    by (simp only: map_of_sorted [OF dist] assms(4) envelope_digest_sorted option.map normal.simps)
  moreover have "sealed_digest d = envelope_digest sha ?d'"
    by (simp only: sealed_digest_def assms(4) option.case pyval.case envelope_digest_sorted)
  moreover have "v = normal (PDict d)" by (simp add: v)
  ultimately show ?thesis using assms(1,2)
    by (intro exI [of _ ?d']) (auto simp: v envelope_valid_def map_of_sorted [OF dist] simp del: normal.simps wf_doc.simps float_free.simps)
qed

lemma write_delivery_event:
  assumes "sound db" "write_delivery I d body sender incoming data db = Inr (a, db')"
  shows "\<exists>e payload. event_by_id (rs_tenant_id sender) (wa_event_id a) db' = Some e \<and> ev_payload e = payload \<and>
    jsonb (dumps True (PDict data)) = Inr payload \<and> ev_payload_digest e = sealed_digest data"
proof -
  let ?t = "rs_tenant_id sender"
  obtain r db1 payload db2 where 1: "insert_receipt r db = Inr db1"
    and p: "jsonb (dumps True (PDict data)) = Inr payload"
    and 2: "insert_event (event_of (wd_event_id d) ?t (Some (wd_receipt_id d)) (pe_event_type incoming)
      (dt_instant (st_time (pe_occurred_at incoming))) payload (sealed_digest data)) db1 = Inr db2"
    and 3: "insert_job (new_job (wd_job_id d) ?t (wd_event_id d) (ig_job_kind I) (dt_instant (st_time (wd_now d)))) db2 = Inr db'"
    and a: "wa_event_id a = wd_event_id d"
    using write_delivery_Inr [OF assms(2)] by fastforce
  note e = insert_event_Inr [OF 2]
  have "\<forall>x \<in> set (events db1). ev_id x \<noteq> wd_event_id d" using e by (auto simp: event_clash_def)
  then have "event_by_id ?t (wd_event_id d) db2 = Some (event_of (wd_event_id d) ?t (Some (wd_receipt_id d)) (pe_event_type incoming)
      (dt_instant (st_time (pe_occurred_at incoming))) payload (sealed_digest data))"
    using e by (auto simp: event_by_id_def find_row_def find_append_new)
  moreover have "events db' = events db2" using insert_job_known [OF 3] by simp
  ultimately show ?thesis using p a by (auto simp: event_by_id_def)
qed

lemma canonical_handler_valid:
  assumes "event_by_id (jo_tenant_id j) (jo_event_id j) (fst w) = Some e" "ev_payload e = PDict d"
  shows "canonical_event_handler sha j w =
    (if envelope_valid sha e d then Inr () else Inl (PermanentJobError ''canonical_digest_invalid''), w)"
  using assms by (cases w) (simp add: canonical_event_handler_def in_session_def transaction_def need_row_def tx_eval)

text \<open>The event of an accepted webhook, as it is stored.\<close>

definition accepted_document :: "'o ingress \<Rightarrow> webhook_answer \<Rightarrow> uuid \<Rightarrow> event_row \<Rightarrow> pipeline \<Rightarrow> bool" where
  "accepted_document I a t e db \<longleftrightarrow> event_by_id t (wa_event_id a) db = Some e \<and>
     (\<exists>d. ev_payload e = PDict d \<and> wf_doc (PDict d) \<and> float_free (PDict d) \<and>
        map_of d ''replay_source_event_id'' = None \<and> envelope_valid (ig_sha I) e d)"

lemma accepted_stable: "stable (accepted_document I a t e)"
  using event_stable [of t "wa_event_id a" e] unfolding stable_def core_only_def accepted_document_def by blast

lemma accepted_stored:
  assumes "pipeline_reachable w" "admit I rq d seen = Inr (body, sender, incoming)"
    and "receive I rq d seen w = (Answered n a, w1)" "\<not> wa_duplicate a"
    and pd: "faithful (ig_pydantic I)" and ff: "float_free (PDict (pe_payload incoming))"
  shows "sound (fst w1) \<and> (\<exists>e. accepted_document I a (rs_tenant_id sender) e (fst w1))"
proof -
  have s: "sound (fst w)" by (rule reachable_sound [OF assms(1)])
  obtain data where data: "canonical_data I d body sender incoming = Inr data"
    and w: "write_delivery I d body sender incoming data (fst w) = Inr (a, fst w1)"
    using deliver_new assms(3,4) by (fastforce simp: receive_admitted [OF assms(2)])
  have "good_floats (pd_float (ig_pydantic I))" using pd by (simp add: faithful_def)
  note wf = parse_event_wf [OF this admit_parsed [OF assms(2)]]
  obtain c d1 where c: "canonical_of (wd_event_id d) (rs_tenant_id sender) (rs_provider sender) ''public_webhook'' (wd_now d)
        (Some (ig_sha I body)) incoming = Inr c"
    and d1: "sealed (ig_sha I) (model_dump (ig_pydantic I) c) = Inr d1"
    and data': "data = dict_set ''raw_object_key'' (PStr (evidence_key (ig_sha I) (rs_endpoint_id sender)
       (pe_provider_event_id incoming))) d1"
    using data by (auto simp: canonical_data_def ebind_eq_Inr)
  have m: "wf_doc (PDict (model_dump (ig_pydantic I) c)) \<and> float_free (PDict (model_dump (ig_pydantic I) c))"
    by (rule canonical_document_wf [OF pd c]) (use wf ff in auto)
  note d1' = sealed_Inr [OF d1]
  have dwf: "wf_doc (PDict data)" "float_free (PDict data)"
    unfolding data' d1' using m by (intro wf_dict_set float_free_dict_set; simp)+
  have dig: "map_of data ''payload_digest'' = Some (PStr (envelope_digest (ig_sha I) data))"
    unfolding data' d1' by (simp add: envelope_digest_dict_set delivery_keys_def)
  have new: "map_of data ''replay_source_event_id'' = None"
    unfolding data' d1' by (simp add: model_dump_def)
  obtain e payload where e: "event_by_id (rs_tenant_id sender) (wa_event_id a) (fst w1) = Some e" "ev_payload e = payload"
    "jsonb (dumps True (PDict data)) = Inr payload" "ev_payload_digest e = sealed_digest data"
    using write_delivery_event [OF s w] by blast
  have "accepted_document I a (rs_tenant_id sender) e (fst w1)"
    using stored_envelope_valid [OF dwf e(3) dig, of e] e new unfolding accepted_document_def by auto
  then show ?thesis using receive_sound [OF assms(3) s] by blast
qed


section \<open>A replay is never processed\<close>

lemma replay_Answered:
  assumes "replay sha kind actor rd i reason key db = (Answered n (rid, False), db')"
  shows "\<exists>source d. event_by_id (pr_tenant_id actor) i db = Some source \<and> ev_payload source = PDict d \<and>
    write_replay sha kind actor rd i reason key source d db = Inr ((rid, False), db')"
proof -
  have as: "as_dict v = Some d \<longleftrightarrow> v = PDict d" for v d by (cases v) auto
  show ?thesis using assms unfolding replay_def
    by (auto simp: respond_Answered tx_simps expect_Inr event_by_id_def as split: if_splits option.splits)
qed

lemma write_replay_event:
  assumes "write_replay sha kind actor rd i reason key source d db = Inr ((rid, b), db')"
  shows "\<exists>e. event_by_id (pr_tenant_id actor) rid db' = Some e \<and> jsonb (replay_text i d) = Inr (ev_payload e)"
proof -
  let ?t = "pr_tenant_id actor"
  obtain document e db1 r db2 db3 x where w: "jsonb (replay_text i d) = Inr document" "insert_event e db = Inr db1"
    "e = (event_of (dr_replay_id rd) ?t None (ev_event_type source) (ev_occurred_at source) document
      (sha (replay_text i d)))\<lparr>ev_event_version := ev_event_version source\<rparr>"
    "insert_replay r db1 = Inr db2" "insert_job (new_job (dr_job_id rd) ?t (dr_replay_id rd) kind (dr_now rd)) db2 = Inr db3"
    "insert_audit x db3 = Inr db'" "rid = dr_replay_id rd"
    using write_replay_Inr [OF assms] by blast
  have e: "ev_id e = rid" "ev_tenant_id e = ?t" "ev_payload e = document" by (simp_all add: w(3,7))
  have "events db1 = events db @ [e]" "\<forall>y \<in> set (events db). ev_id y \<noteq> rid"
    using insert_event_Inr [OF w(2)] e by (auto simp: event_clash_def)
  moreover have "events db' = events db1"
    using core_frame(6) [OF w(4)] insert_job_known [OF w(5)] core_frame(9) [OF w(6)] by (simp add: core_def)
  ultimately have "event_by_id ?t rid db' = Some e"
    using e by (auto simp: event_by_id_def find_row_def intro!: find_append_new)
  then show ?thesis using w(1) e(3) by blast
qed

text \<open>The text a digest covers determines the envelope up to the order of its keys.\<close>

definition envelope_text :: "(string \<times> pyval) list \<Rightarrow> string" where
  "envelope_text d = utf8 (dumps False (envelope_of d))"

lemma wf_envelope: "wf_doc (PDict d) \<Longrightarrow> wf_doc (envelope_of d)"
  by (auto simp: envelope_of_def list_all_iff distinct_map_filter)

lemma envelope_text_eq:
  assumes "wf_doc (PDict d)" "wf_doc (PDict d')" "envelope_text d = envelope_text d'"
  shows "normal (envelope_of d) = normal (envelope_of d')"
proof -
  have "dumps False (envelope_of d) = dumps False (envelope_of d')"
    using assms(3) by (simp add: envelope_text_def utf8_inject)
  then show ?thesis
    using loads_dumps_normal [OF wf_envelope [OF assms(1)], of False] loads_dumps_normal [OF wf_envelope [OF assms(2)], of False]
    by simp
qed

lemma normal_envelope_keys:
  assumes "normal (envelope_of d) = normal (envelope_of d')" "k \<notin> set delivery_keys"
  shows "k \<in> fst ` set d \<longleftrightarrow> k \<in> fst ` set d'"
proof -
  have "k \<in> fst ` set d \<longleftrightarrow> k \<in> fst ` set (map (map_prod (\<lambda>k. k) normal) (filter (\<lambda>(k, v). k \<notin> set delivery_keys) d))" for d
    using assms(2) by force
  moreover have "set (map (map_prod (\<lambda>k. k) normal) (filter (\<lambda>(k, v). k \<notin> set delivery_keys) d)) =
      set (map (map_prod (\<lambda>k. k) normal) (filter (\<lambda>(k, v). k \<notin> set delivery_keys) d'))"
    using assms(1) unfolding envelope_of_def normal.simps pyval.inject by (metis set_sort)
  ultimately show ?thesis by metis
qed

lemma replayed_invalid:
  assumes wf: "wf_doc (PDict d)" "float_free (PDict d)" and valid: "map_of d ''payload_digest'' = Some (PStr (envelope_digest sha d))"
    and new: "map_of d ''replay_source_event_id'' = None"
    and inj: "inj_on sha {envelope_text d, envelope_text (dict_set ''replay_source_event_id'' (PStr (uuid_str i)) d)}"
    and e: "jsonb (replay_text i d) = Inr (ev_payload e)"
  shows "\<exists>d'. ev_payload e = PDict d' \<and> \<not> envelope_valid sha e d'"
proof -
  let ?r = "dict_set ''replay_source_event_id'' (PStr (uuid_str i)) d"
  let ?d' = "sort_key fst (map (map_prod (\<lambda>k. k) normal) ?r)"
  have r: "wf_doc (PDict ?r)" "float_free (PDict ?r)"
    using wf by (intro wf_dict_set float_free_dict_set; simp)+
  have d': "ev_payload e = PDict ?d'"
    using jsonb_document [OF r] e by (simp only: replay_text_def)
  have "envelope_text d \<noteq> envelope_text ?r"
  proof
    assume "envelope_text d = envelope_text ?r"
    from envelope_text_eq [OF wf(1) r(1) this] have "''replay_source_event_id'' \<in> fst ` set d"
      using normal_envelope_keys [of d ?r "''replay_source_event_id''"] by (simp add: delivery_keys_def)
    with new show False by (simp add: map_of_eq_None_iff)
  qed
  with inj have "envelope_digest sha d \<noteq> envelope_digest sha ?r"
    by (auto simp: envelope_digest_def envelope_text_def dest: inj_onD)
  moreover have "distinct (map fst ?r)" using r(1) by simp
  then have "map_of ?d' ''payload_digest'' = Some (PStr (envelope_digest sha d))"
    by (simp only: map_of_sorted map_of_dict_set) (simp add: valid)
  ultimately have "\<not> envelope_valid sha e ?d'"
    by (simp only: envelope_valid_def envelope_digest_sorted option.inject pyval.inject) blast
  with d' show ?thesis by blast
qed


end
