(* ===== verification/IntegrationFacts.thy ===== *)
theory IntegrationFacts
  imports Integrations "HOL-Library.Multiset"
begin

text \<open>
  What endpoint secrets guarantee: a ciphertext opens only for the endpoint and version it was
  made for, and a rotation hands over from the old secret to the new one with the overlap the
  configuration asks for.
\<close>

section \<open>A secret is bound to its endpoint\<close>

lemma length_uuid_str [simp]: "length (uuid_str u) = 36"
  by (simp add: uuid_str_def Let_def)

lemma int_str_inject: "int_str i = int_str j \<Longrightarrow> i = j"
  by (metis read_num_int_str option.inject prod.inject pyval.inject(2))

lemma authenticated_context_inject:
  assumes "authenticated_context t e v = Inr c" "authenticated_context t' e' v' = Inr c"
    and "valid_uuid t" "valid_uuid e" "valid_uuid t'" "valid_uuid e'"
  shows "t = t' \<and> e = e' \<and> v = v'"
proof -
  have eq: "uuid_str t @ '':'' @ uuid_str e @ '':'' @ int_str v = uuid_str t' @ '':'' @ uuid_str e' @ '':'' @ int_str v'"
    using assms(1,2) by (auto simp: authenticated_context_def ebind_eq_Inr)
  then have "uuid_str t = uuid_str t'" and "uuid_str e @ '':'' @ int_str v = uuid_str e' @ '':'' @ int_str v'"
    by (simp_all add: append_eq_append_conv)
  moreover from this have "uuid_str e = uuid_str e'" "int_str v = int_str v'"
    by (simp_all add: append_eq_append_conv)
  ultimately show ?thesis using assms(3-) uuid_str_inject int_str_inject by blast
qed

text \<open>What AES-GCM is documented to do: it opens what it sealed, under the same associated data only.\<close>

definition aead :: "gcm \<Rightarrow> bool" where
  "aead G \<longleftrightarrow> (\<forall>k n p a. gcm_decrypt G k n (gcm_encrypt G k n p a) a = Some p) \<and>
     (\<forall>k n p a a'. a \<noteq> a' \<longrightarrow> gcm_decrypt G k n (gcm_encrypt G k n p a) a' = None)"

text \<open>
  C27. A signing secret that was encrypted for a tenant, an endpoint and a version decrypts to
  itself there, and nowhere else: a ciphertext moved to another row does not open.
\<close>

theorem secret_round_trip:
  assumes "aead G" "encrypt_secret G c nonce p t e v = Inr s"
    and "valid_uuid t" "valid_uuid e" "valid_uuid t'" "valid_uuid e'"
  shows "decrypt_secret G c s t e v = Inr p \<and>
    (is_ok (decrypt_secret G c s t' e' v') \<longrightarrow> t' = t \<and> e' = e \<and> v' = v)"
proof -
  from assms(2) obtain ctx key where c: "authenticated_context t e v = Inr ctx"
    and k: "map_of (ci_keys c) (ci_active_key_id c) = Some key"
    and s: "s = \<lparr>es_key_id = ci_active_key_id c, es_nonce = nonce, es_ciphertext = gcm_encrypt G key nonce p ctx\<rparr>"
    by (auto simp: encrypt_secret_def ebind_eq_Inr split: option.splits)
  have "decrypt_secret G c s t e v = Inr p"
    using assms(1) by (simp add: decrypt_secret_def s k c aead_def)
  moreover have "t' = t \<and> e' = e \<and> v' = v" if ok: "is_ok (decrypt_secret G c s t' e' v')"
  proof -
    from ok obtain ctx' where c': "authenticated_context t' e' v' = Inr ctx'"
      and "gcm_decrypt G key nonce (gcm_encrypt G key nonce p ctx) ctx' \<noteq> None"
      by (auto simp: decrypt_secret_def s k is_ok_iff ebind_eq_Inr split: option.splits)
    then have "ctx' = ctx" using assms(1) unfolding aead_def by metis
    then show ?thesis using authenticated_context_inject [OF c' _ assms(5,6,3,4)] c by simp
  qed
  ultimately show ?thesis by blast
qed

definition toy_header :: "string \<Rightarrow> string" where
  "toy_header a = nat_str (length a) @ ''|'' @ a"

definition toy_gcm :: gcm where
  "toy_gcm = \<lparr>gcm_encrypt = (\<lambda>k n p a. toy_header a @ p),
     gcm_decrypt = (\<lambda>k n c a. if starts_with (toy_header a) c then Some (drop (length (toy_header a)) c) else None)\<rparr>"

lemma toy_header_prefix: "starts_with (toy_header a') (toy_header a @ p) \<Longrightarrow> a' = a"
proof -
  assume "starts_with (toy_header a') (toy_header a @ p)"
  then obtain t where t: "nat_str (length a) @ CHR ''|'' # a @ p = nat_str (length a') @ CHR ''|'' # a' @ t"
    by (auto simp: starts_with_iff toy_header_def)
  have "CHR ''|'' \<notin> set (nat_str n)" for n
    using nat_str_digits [of n] by (auto simp: is_digit_def code_def)
  then have "takeWhile (\<lambda>c. c \<noteq> CHR ''|'') (nat_str n @ CHR ''|'' # u) = nat_str n" for n u
    by (auto simp: takeWhile_append)
  then have "nat_str (length a) = nat_str (length a')" using t by metis
  with t show "a' = a" by simp
qed

lemma toy_gcm_aead: "aead toy_gcm"
  by (auto simp: aead_def toy_gcm_def dest: toy_header_prefix)

theorem secret_round_trip_witness:
  "\<exists>s. encrypt_secret toy_gcm \<lparr>ci_keys = [(''k1'', replicate 32 CHR ''a'')], ci_active_key_id = ''k1''\<rparr> ''n'' ''secret'' 1 2 3 = Inr s \<and>
     decrypt_secret toy_gcm \<lparr>ci_keys = [(''k1'', replicate 32 CHR ''a'')], ci_active_key_id = ''k1''\<rparr> s 1 2 3 = Inr ''secret'' \<and>
     \<not> is_ok (decrypt_secret toy_gcm \<lparr>ci_keys = [(''k1'', replicate 32 CHR ''a'')], ci_active_key_id = ''k1''\<rparr> s 1 7 3)"
proof -
  let ?c = "\<lparr>ci_keys = [(''k1'', replicate 32 CHR ''a'')], ci_active_key_id = ''k1''\<rparr>"
  obtain s where s: "encrypt_secret toy_gcm ?c ''n'' ''secret'' 1 2 3 = Inr s"
    by (simp add: encrypt_secret_def authenticated_context_def)
  have "valid_uuid 1" "valid_uuid 2" "valid_uuid 7" by (simp_all add: valid_uuid_def)
  then show ?thesis using secret_round_trip [OF toy_gcm_aead s, of 1 7 3] s by auto
qed

section \<open>The newest two\<close>

lemma take_decreasing:
  "sorted_wrt (\<lambda>a b. f b < (f a :: int)) zs \<Longrightarrow>
     x \<in> set (take n zs) \<longleftrightarrow> x \<in> set zs \<and> length (filter (\<lambda>y. f x < f y) zs) < n"
proof (induction zs arbitrary: n)
  case (Cons z zs)
  have rest: "filter (\<lambda>y. f z < f y) zs = []" using Cons.prems by (auto simp: filter_empty_conv)
  show ?case
  proof (cases n)
    case (Suc m)
    show ?thesis
    proof (cases "x = z")
      case True
      then show ?thesis using rest Suc by simp
    next
      case False
      then show ?thesis using Cons Suc by auto
    qed
  qed simp
qed simp

lemma take_newest:
  fixes f :: "'a \<Rightarrow> int"
  assumes "distinct (map f xs)"
  shows "x \<in> set (take n (rev (sort_key f xs))) \<longleftrightarrow> x \<in> set xs \<and> length (filter (\<lambda>y. f x < f y) xs) < n"
proof -
  have "distinct (map f (sort_key f xs))"
    using assms by (auto simp: distinct_map)
  then have "sorted_wrt (<) (map f (sort_key f xs))"
    by (simp add: strict_sorted_iff)
  then have "sorted_wrt (\<lambda>a b. f a < f b) (sort_key f xs)" by (simp add: sorted_wrt_map)
  then have "sorted_wrt (\<lambda>a b. f b < f a) (rev (sort_key f xs))" by (simp add: sorted_wrt_rev)
  moreover have "length (filter P (sort_key f xs)) = length (filter P xs)" for P
    by (metis mset_filter mset_sort size_mset)
  ultimately show ?thesis by (simp add: take_decreasing rev_filter [symmetric])
qed

section \<open>Rotation\<close>

text \<open>The unique keys of the two tables.\<close>

definition integration_ok :: "pipeline \<Rightarrow> bool" where
  "integration_ok db \<longleftrightarrow> distinct (map ep_id (endpoints db)) \<and> distinct (map ep_public_token_digest (endpoints db)) \<and>
     distinct (map (\<lambda>s. (sc_tenant_id s, sc_endpoint_id s, sc_version s)) (secrets db))"

definition shortened :: "uuid \<Rightarrow> uuid \<Rightarrow> int \<Rightarrow> int \<Rightarrow> secret_row \<Rightarrow> secret_row" where
  "shortened tenant endpoint version expires s = (if secret_of tenant endpoint s \<and> sc_version s = version
     then s\<lparr>sc_expires_at := min (sc_expires_at s) expires\<rparr> else s)"

lemma shortened_simps [simp]:
  "sc_tenant_id (shortened t e v x s) = sc_tenant_id s" "sc_endpoint_id (shortened t e v x s) = sc_endpoint_id s"
  "sc_version (shortened t e v x s) = sc_version s" "secret_of t' e' (shortened t e v x s) = secret_of t' e' s"
  by (simp_all add: shortened_def secret_of_def)

lemma shorten_Inr: "shorten_previous_version t e v x db = Inr db' \<Longrightarrow>
    db' = db\<lparr>secrets := map (shortened t e v x) (secrets db)\<rparr>"
  by (auto simp: shorten_previous_version_def ebind_eq_Inr update_rows_Inr shortened_def)

lemma insert_secret_Inr: "insert_secret_version r db = Inr db' \<Longrightarrow> db' = db\<lparr>secrets := secrets db @ [r]\<rparr> \<and>
    (\<forall>s \<in> set (secrets db). (sc_tenant_id r, sc_endpoint_id r, sc_version r) \<noteq> (sc_tenant_id s, sc_endpoint_id s, sc_version s))"
  by (auto simp: insert_secret_version_def ebind_eq_Inr)

definition versions :: "int \<Rightarrow> string \<Rightarrow> pipeline \<Rightarrow> int set" where
  "versions now digest db = rs_version ` set (resolve_endpoint now digest db)"

definition usable_versions :: "uuid \<Rightarrow> uuid \<Rightarrow> int \<Rightarrow> pipeline \<Rightarrow> int list" where
  "usable_versions tenant endpoint now db =
     map sc_version (filter (\<lambda>s. secret_of tenant endpoint s \<and> usable_secret now s) (secrets db))"

lemma versions_iff:
  assumes ok: "integration_ok db" and e: "e \<in> set (endpoints db)" "ep_status e = ''active''" "ep_revoked_at e = None"
  shows "q \<in> versions now (ep_public_token_digest e) db \<longleftrightarrow>
    q \<in> set (usable_versions (ep_tenant_id e) (ep_id e) now db) \<and>
    length (filter (\<lambda>v. q < v) (usable_versions (ep_tenant_id e) (ep_id e) now db)) < 2"
proof -
  define f where "f s = \<lparr>rs_tenant_id = ep_tenant_id e, rs_endpoint_id = ep_id e, rs_provider = ep_provider e,
         rs_version = sc_version s, rs_secret = \<lparr>es_key_id = sc_key_id s, es_nonce = sc_nonce s,
           es_ciphertext = sc_ciphertext s\<rparr>\<rparr>" for s :: secret_row
  define us where "us = filter (\<lambda>s. secret_of (ep_tenant_id e) (ep_id e) s \<and> usable_secret now s) (secrets db)"
  have "filter (\<lambda>x. ep_public_token_digest x = ep_public_token_digest e \<and> ep_status x = ''active'' \<and> ep_revoked_at x = None)
      (endpoints db) = [e]"
    using ok e by (intro filter_eq_single) (auto simp: integration_ok_def distinct_map dest: inj_onD)
  then have r: "resolve_endpoint now (ep_public_token_digest e) db = take 2 (rev (sort_key rs_version (map f us)))"
    by (simp add: resolve_endpoint_def f_def [abs_def] us_def)
  have "distinct (map (\<lambda>s. (sc_tenant_id s, sc_endpoint_id s, sc_version s)) us)"
    using ok by (simp add: us_def integration_ok_def distinct_map_filter)
  then have d: "distinct (map rs_version (map f us))"
    by (auto simp: distinct_map inj_on_def f_def us_def secret_of_def)
  have uv: "usable_versions (ep_tenant_id e) (ep_id e) now db = map rs_version (map f us)"
    by (simp add: usable_versions_def us_def f_def)
  have "length (filter (\<lambda>v. q < v) (map rs_version (map f us))) = length (filter (\<lambda>y. q < rs_version y) (map f us))"
    by (simp add: filter_map comp_def)
  then show ?thesis
    unfolding versions_def r uv using take_newest [OF d] by (auto simp: image_iff)
qed

lemma latest_version_max:
  assumes "latest_version tenant endpoint db = Some p"
  shows "s \<in> set (secrets db) \<Longrightarrow> secret_of tenant endpoint s \<Longrightarrow> sc_version s \<le> p"
proof -
  let ?vs = "sort (map sc_version (filter (secret_of tenant endpoint) (secrets db)))"
  from assms obtain vs where vs: "rev ?vs = p # vs" by (auto simp: latest_version_def split: list.splits)
  have "sorted_wrt (\<ge>) (rev ?vs)" by (simp add: sorted_wrt_rev)
  then have "\<forall>v \<in> set (rev ?vs). v \<le> p" unfolding vs by auto
  then show "s \<in> set (secrets db) \<Longrightarrow> secret_of tenant endpoint s \<Longrightarrow> sc_version s \<le> p" by simp
qed

lemma later_by_Inr: "later_by t s = Inr u \<Longrightarrow> u = t + s * micros"
  by (auto simp: later_by_def dt_plus_def split: option.splits if_splits)

lemma rotate_Answered:
  assumes "rotate_secret G cfg cipher actor now plaintext nonce row_id endpoint db = (Answered 200 (key, v, nb, ex), db')"
  obtains p r where "latest_version (pr_tenant_id actor) endpoint db = Some p" "v = p + 1" "nb = now"
    "ex = now + is_lifetime_seconds cfg * micros"
    "sc_tenant_id r = pr_tenant_id actor" "sc_endpoint_id r = endpoint" "sc_version r = p + 1"
    "sc_not_before r = now" "sc_expires_at r = now + is_lifetime_seconds cfg * micros" "sc_retired_at r = None"
    "secrets db' = map (shortened (pr_tenant_id actor) endpoint p (now + is_overlap_seconds cfg * micros)) (secrets db) @ [r]"
    "endpoints db' = endpoints db"
    "\<forall>s \<in> set (secrets db). (sc_tenant_id r, sc_endpoint_id r, sc_version r) \<noteq> (sc_tenant_id s, sc_endpoint_id s, sc_version s)"
proof -
  from assms obtain p overlap_end db1 and encrypted :: encrypted_secret where
    p: "latest_version (pr_tenant_id actor) endpoint db = Some p" "v = p + 1"
    and w: "rotation_windows now (is_lifetime_seconds cfg) (is_overlap_seconds cfg) = Inr (nb, ex, overlap_end)"
    and s: "shorten_previous_version (pr_tenant_id actor) endpoint p overlap_end db = Inr db1"
    and i: "insert_secret_version \<lparr>sc_id = row_id, sc_tenant_id = pr_tenant_id actor, sc_endpoint_id = endpoint,
         sc_version = p + 1, sc_key_id = es_key_id encrypted, sc_nonce = es_nonce encrypted,
         sc_ciphertext = es_ciphertext encrypted, sc_not_before = nb, sc_expires_at = ex,
         sc_retired_at = None\<rparr> db1 = Inr db'"
    by (auto simp: rotate_secret_def Let_def respond_Answered tx_simps)
  from w have win: "nb = now" "ex = now + is_lifetime_seconds cfg * micros"
    "overlap_end = now + is_overlap_seconds cfg * micros"
    by (auto simp: rotation_windows_def ebind_eq_Inr dest: later_by_Inr)
  note db1 = shorten_Inr [OF s] and db' = insert_secret_Inr [OF i]
  show thesis
    by (rule that [OF p win(1,2)]; (use db' db1 win in \<open>simp\<close>)?) (use db' db1 win in auto)
qed

lemma rotate_keeps_keys:
  assumes "integration_ok db"
    and "rotate_secret G cfg cipher actor now plaintext nonce row_id endpoint db = (Answered 200 (key, v, nb, ex), db')"
  shows "integration_ok db'"
proof -
  from assms(2) show ?thesis
  proof (rule rotate_Answered, goal_cases)
    case (1 p r)
    then show ?thesis using assms(1) by (auto simp: integration_ok_def comp_def image_iff)
  qed
qed

lemma usable_after_rotation:
  assumes "secrets db' = map (shortened t e p x) (secrets db) @ [r]" "secret_of t e r"
  shows "usable_versions t e now db' = usable_versions t e now (db\<lparr>secrets := map (shortened t e p x) (secrets db)\<rparr>) @
    (if usable_secret now r then [sc_version r] else [])"
  using assms by (simp add: usable_versions_def)

text \<open>
  C22. A rotation hands over: the new version is accepted from the moment of the rotation until
  its lifetime ends, the previous one stays accepted as long as it was going to be, but not
  beyond the configured overlap, and the answer names the new version and its window.
\<close>

theorem rotation_hands_over:
  assumes ok: "integration_ok db"
    and e: "e \<in> set (endpoints db)" "ep_tenant_id e = pr_tenant_id actor" "ep_id e = endpoint"
      "ep_status e = ''active''" "ep_revoked_at e = None"
    and rot: "rotate_secret G cfg cipher actor now plaintext nonce row_id endpoint db = (Answered 200 (key, v, nb, ex), db')"
    and s: "s \<in> set (secrets db)" "secret_of (pr_tenant_id actor) endpoint s" "latest_version (pr_tenant_id actor) endpoint db = Some (sc_version s)"
  shows "v = sc_version s + 1 \<and>
    (v \<in> versions t (ep_public_token_digest e) db' \<longleftrightarrow> now \<le> t \<and> t < now + is_lifetime_seconds cfg * micros) \<and>
    (sc_version s \<in> versions t (ep_public_token_digest e) db' \<longleftrightarrow>
       usable_secret t s \<and> t < now + is_overlap_seconds cfg * micros)"
proof -
  let ?t = "pr_tenant_id actor"
  from rot obtain r where v: "v = sc_version s + 1" "nb = now" "ex = now + is_lifetime_seconds cfg * micros"
    and r: "sc_tenant_id r = ?t" "sc_endpoint_id r = endpoint" "sc_version r = v" "sc_not_before r = now"
      "sc_expires_at r = now + is_lifetime_seconds cfg * micros" "sc_retired_at r = None"
    and db': "secrets db' = map (shortened ?t endpoint (sc_version s) (now + is_overlap_seconds cfg * micros)) (secrets db) @ [r]"
      "endpoints db' = endpoints db"
    by (rule rotate_Answered) (use s(3) in auto)
  let ?sh = "shortened ?t endpoint (sc_version s) (now + is_overlap_seconds cfg * micros)"
  have ok': "integration_ok db'" by (rule rotate_keeps_keys [OF ok rot])
  have e': "e \<in> set (endpoints db')" using e(1) db'(2) by simp
  have of_r: "secret_of ?t endpoint r" using r by (simp add: secret_of_def)
  define old where "old = usable_versions ?t endpoint t (db\<lparr>secrets := map ?sh (secrets db)\<rparr>)"
  have use: "usable_versions ?t endpoint t db' = old @ (if usable_secret t r then [v] else [])"
    using usable_after_rotation [OF db'(1) of_r] r(3) by (simp add: old_def)
  have low: "q \<le> sc_version s" if "q \<in> set old" for q
    using that latest_version_max [OF s(3)] by (auto simp: old_def usable_versions_def)
  then have none: "filter (\<lambda>q. v < q) old = []" "filter (\<lambda>q. sc_version s < q) old = []" "v \<notin> set old"
    using v(1) by (fastforce simp: filter_empty_conv)+
  have only: "x = s" if "x \<in> set (secrets db)" "secret_of ?t endpoint x" "sc_version x = sc_version s" for x
    using ok that s(1,2) unfolding integration_ok_def secret_of_def
    by (auto intro: distinct_map_unique [of "\<lambda>s. (sc_tenant_id s, sc_endpoint_id s, sc_version s)" "secrets db"])
  have "sc_version s \<in> set old \<longleftrightarrow> usable_secret t (?sh s)"
  proof
    assume "sc_version s \<in> set old"
    then obtain x where x: "x \<in> set (secrets db)" "secret_of ?t endpoint x" "usable_secret t (?sh x)" "sc_version x = sc_version s"
      by (auto simp: old_def usable_versions_def)
    then show "usable_secret t (?sh s)" using only by blast
  next
    assume "usable_secret t (?sh s)"
    then have "?sh s \<in> set (filter (\<lambda>s. secret_of ?t endpoint s \<and> usable_secret t s) (map ?sh (secrets db)))"
      using s(1,2) by simp
    then have "sc_version (?sh s) \<in> set old" unfolding old_def usable_versions_def set_map
      by (intro imageI) simp
    then show "sc_version s \<in> set old" by simp
  qed
  also have "\<dots> \<longleftrightarrow> usable_secret t s \<and> t < now + is_overlap_seconds cfg * micros"
    using s(2) by (auto simp: shortened_def usable_secret_def)
  finally have prev: "sc_version s \<in> set old \<longleftrightarrow> usable_secret t s \<and> t < now + is_overlap_seconds cfg * micros" .
  have new: "usable_secret t r \<longleftrightarrow> now \<le> t \<and> t < now + is_lifetime_seconds cfg * micros"
    using r by (auto simp: usable_secret_def)
  note vi = versions_iff [OF ok' e' e(4,5), unfolded e(2,3)]
  have "v \<in> versions t (ep_public_token_digest e) db' \<longleftrightarrow> now \<le> t \<and> t < now + is_lifetime_seconds cfg * micros"
    unfolding vi use new [symmetric] using none by simp
  moreover have "sc_version s \<in> versions t (ep_public_token_digest e) db' \<longleftrightarrow>
       usable_secret t s \<and> t < now + is_overlap_seconds cfg * micros"
    unfolding vi use prev [symmetric] using none v(1) by auto
  ultimately show ?thesis using v(1) by blast
qed

section \<open>A sample endpoint\<close>

definition sample_actor :: principal where
  "sample_actor = \<lparr>pr_user_id = 5, pr_tenant_id = 1, pr_membership_id = 6\<rparr>"

definition sample_settings :: integration_settings where
  "sample_settings = \<lparr>is_token_bytes = 32, is_lifetime_seconds = 1000, is_overlap_seconds = 300\<rparr>"

definition sample_cipher :: secret_cipher where
  "sample_cipher = \<lparr>ci_keys = [(''k1'', replicate 32 CHR ''a'')], ci_active_key_id = ''k1''\<rparr>"

definition sample_random :: material_random where
  "sample_random = \<lparr>mr_endpoint_id = 20, mr_public_token = ''token'', mr_signing_secret = ''secret'',
     mr_nonce = ''n1'', mr_secret_row_id = 21\<rparr>"

definition sample_p0 :: pipeline where
  "sample_p0 = snd (create_endpoint (\<lambda>s. s) toy_gcm sample_settings sample_cipher sample_actor 0 sample_random
     ''shopify'' ''main'' (empty_pipeline\<lparr>tenants := [1]\<rparr>))"

definition sample_p1 :: pipeline where
  "sample_p1 = snd (rotate_secret toy_gcm sample_settings sample_cipher sample_actor (100 * micros) ''second'' ''n2'' 22 20 sample_p0)"

lemma sample_rotation:
  "rotate_secret toy_gcm sample_settings sample_cipher sample_actor (100 * micros) ''second'' ''n2'' 22 20 sample_p0 =
     (Answered 200 (''second'', 2, 100 * micros, 1100 * micros), sample_p1)"
  by code_simp

theorem rotation_hands_over_witness:
  "\<exists>e. e \<in> set (endpoints sample_p0) \<and> 2 \<in> versions (200 * micros) (ep_public_token_digest e) sample_p1 \<and>
     1 \<in> versions (200 * micros) (ep_public_token_digest e) sample_p1 \<and>
     1 \<notin> versions (400 * micros) (ep_public_token_digest e) sample_p1"
proof -
  have ok: "integration_ok sample_p0" unfolding integration_ok_def by code_simp
  have "\<exists>e \<in> set (endpoints sample_p0). ep_tenant_id e = 1 \<and> ep_id e = 20 \<and> ep_status e = ''active'' \<and> ep_revoked_at e = None"
    by code_simp
  then obtain e where e: "e \<in> set (endpoints sample_p0)" "ep_tenant_id e = pr_tenant_id sample_actor" "ep_id e = 20"
    "ep_status e = ''active''" "ep_revoked_at e = None" by (auto simp: sample_actor_def)
  have "\<exists>s \<in> set (secrets sample_p0). secret_of (pr_tenant_id sample_actor) 20 s \<and> sc_version s = 1 \<and>
      usable_secret (200 * micros) s" by code_simp
  then obtain s where s: "s \<in> set (secrets sample_p0)" "secret_of (pr_tenant_id sample_actor) 20 s" "sc_version s = 1"
    "usable_secret (200 * micros) s" by blast
  have latest: "latest_version (pr_tenant_id sample_actor) 20 sample_p0 = Some 1" by code_simp
  note hand = rotation_hands_over [OF ok e sample_rotation s(1,2) latest [folded s(3)]]
  have "2 \<in> versions (200 * micros) (ep_public_token_digest e) sample_p1"
    using hand [of "200 * micros"] by (simp add: sample_settings_def micros_def)
  moreover have "1 \<in> versions (200 * micros) (ep_public_token_digest e) sample_p1"
    using hand [of "200 * micros"] s(3,4) by (simp add: sample_settings_def micros_def)
  moreover have "1 \<notin> versions (400 * micros) (ep_public_token_digest e) sample_p1"
    using hand [of "400 * micros"] s(3) by (simp add: sample_settings_def micros_def)
  ultimately show ?thesis using e(1) by blast
qed

end
