(* ===== verification/DeliverySamples.thy ===== *)
theory DeliverySamples
  imports EventLife IntegrationFacts
begin

text \<open>
  One run of the pipeline from nothing: an endpoint is created, a webhook is signed, accepted and
  stored, its event is replayed.  It shows that the hypotheses of the theorems on deliveries can
  hold together.
\<close>

section \<open>The environment\<close>

text \<open>A hash that gives 64 hexadecimal digits: the last ones of the text.\<close>

definition last_digits :: hash where
  "last_digits s = take 64 (rev (filter (\<lambda>c. c \<in> set ''0123456789abcdef'') s) @ replicate 64 CHR ''0'')"

definition faithful_pydantic :: pydantic where
  "faithful_pydantic = plain_pydantic\<lparr>pd_float := (\<lambda>r. PFloat ''0.5'')\<rparr>"

lemma faithful_pydantic: "faithful faithful_pydantic"
  by (simp add: faithful_def faithful_pydantic_def plain_pydantic_def good_floats_def) code_simp

definition sample_ingress :: "unit ingress" where
  "sample_ingress = \<lparr>ig_sha = last_digits, ig_hmac = (\<lambda>k m. last_digits (k @ m)), ig_gcm = toy_gcm,
     ig_pydantic = faithful_pydantic, ig_cipher = sample_cipher, ig_storage = quiet_storage, ig_max_body = 4096,
     ig_window = 300, ig_job_kind = ''ingest.canonical_event.v1''\<rparr>"

definition sample_body :: string where
  "sample_body = dumps True (PDict [(''provider_event_id'', PStr ''evt-1''), (''event_type'', PStr ''order.paid''),
     (''occurred_at'', PStr ''2026-08-15T00:00:00Z''), (''subject_type'', PStr ''order''), (''subject_id'', PStr ''o-1''),
     (''consent'', PDict [(''processing_permitted'', PBool True), (''purpose'', PStr ''billing'')]),
     (''references'', PDict []), (''payload'', PDict [(''total'', PInt 5)])])"

definition sample_webhook :: webhook_request where
  "sample_webhook = \<lparr>wq_token = ''token'', wq_chunks = [take 9 sample_body, drop 9 sample_body], wq_timestamps = [''10''],
     wq_signatures = [''v1='' @ sign (ig_hmac sample_ingress) ''secret'' ''10'' sample_body]\<rparr>"

definition sample_draw :: webhook_draw where
  "sample_draw = \<lparr>wd_resolved_at = 10 * micros, wd_checked_at = 11 * micros, wd_now = \<lparr>st_time = Aware (12 * micros), st_text = ''now''\<rparr>,
     wd_event_id = 31, wd_receipt_id = 32, wd_job_id = 33\<rparr>"

definition sample_endpoint :: pipeline where
  "sample_endpoint = snd (create_endpoint last_digits toy_gcm sample_settings sample_cipher sample_actor 0 sample_random
     ''shopify'' ''main'' empty_pipeline)"

definition sample_sender :: resolved_secret where
  "sample_sender = hd (resolve_endpoint (10 * micros) (last_digits ''token'') sample_endpoint)"

definition sample_incoming :: public_event where
  "sample_incoming = \<lparr>pe_provider_event_id = ''evt-1'', pe_event_type = ''order.paid'',
     pe_occurred_at = \<lparr>st_time = Aware 0, st_text = ''2026-08-15T00:00:00Z''\<rparr>, pe_subject_type = ''order'', pe_subject_id = ''o-1'',
     pe_consent = \<lparr>cf_processing_permitted = True, cf_advertising_permitted = False, cf_purpose = ''billing''\<rparr>,
     pe_references = [], pe_attribution = [], pe_money = None, pe_payload = [(''total'', PInt 5)]\<rparr>"

definition sample_answer :: webhook_answer where
  "sample_answer = \<lparr>wa_receipt_id = 32, wa_event_id = 31, wa_job_id = 33, wa_duplicate = False\<rparr>"

lemma sample_admitted:
  "admit sample_ingress sample_webhook sample_draw sample_endpoint = Inr (sample_body, sample_sender, sample_incoming)"
  by code_simp

definition sample_canonical :: canonical_event where
  "sample_canonical = \<lparr>ce_event_id = 31, ce_tenant_id = 1, ce_provider = ''shopify'', ce_source_type = ''public_webhook'',
     ce_provider_event_id = Some ''evt-1'', ce_payload_digest = replicate 64 CHR ''0'', ce_event_type = ''order.paid'',
     ce_schema_version = 1, ce_occurred_at = pe_occurred_at sample_incoming, ce_received_at = wd_now sample_draw,
     ce_subject_type = ''order'', ce_subject_id = ''o-1'', ce_references = [], ce_attribution = [], ce_money = None,
     ce_consent = pe_consent sample_incoming, ce_payload = [(''total'', PInt 5)], ce_raw_object_key = None,
     ce_raw_payload_digest = Some (last_digits sample_body), ce_processing_status = Received, ce_error_code = None\<rparr>"

definition sample_envelope :: "(string \<times> pyval) list" where
  "sample_envelope = model_dump faithful_pydantic sample_canonical"

definition sample_data :: "(string \<times> pyval) list" where
  "sample_data = dict_set ''raw_object_key'' (PStr (evidence_key last_digits 20 ''evt-1''))
     (dict_set ''payload_digest'' (PStr (envelope_digest last_digits sample_envelope)) sample_envelope)"

lemma sample_parts:
  "rs_tenant_id sample_sender = 1" "rs_provider sample_sender = ''shopify''" "rs_endpoint_id sample_sender = 20"
  "canonical_event_ok sample_canonical" "json_ok True (envelope_of sample_envelope)"
  "jsonb_ok (PDict sample_envelope)"
  "wf_doc (PDict sample_envelope)" "float_free (PDict sample_envelope)"
  by code_simp+

lemma sample_canonical_data: "canonical_data sample_ingress sample_draw sample_body sample_sender sample_incoming = Inr sample_data"
proof -
  have "canonical_of 31 1 ''shopify'' ''public_webhook'' (wd_now sample_draw) (Some (last_digits sample_body)) sample_incoming =
      Inr sample_canonical"
    using sample_parts(4) by (simp add: canonical_of_def sample_incoming_def sample_canonical_def)
  then show ?thesis
    using sample_parts(5) by (simp add: canonical_data_def sample_parts(1-3) sample_ingress_def sample_draw_def sealed_def
        sample_envelope_def sample_data_def sample_incoming_def)
qed

lemma keys_dict_set_mem: "(a, b) \<in> set (dict_set k v d) \<Longrightarrow> (a, b) \<in> set d \<or> a = k \<and> b = v"
  by (induction d) (auto split: if_splits)

lemma jsonb_ok_dict_set:
  "jsonb_ok (PDict d) \<Longrightarrow> no_nul k \<Longrightarrow> jsonb_ok v \<Longrightarrow> jsonb_ok (PDict (dict_set k v d))"
  using set_dict_set [of _ _ k v d] by (fastforce simp: list_all_iff dest: keys_dict_set_mem)

lemma no_nul_append [simp]: "no_nul (s @ t) \<longleftrightarrow> no_nul s \<and> no_nul t"
  by (auto simp: no_nul_def)

lemma no_nul_last_digits [simp]: "no_nul (last_digits s)"
  by (auto simp: no_nul_def last_digits_def dest!: in_set_takeD)

lemma sample_data_ok: "wf_doc (PDict sample_data)" "float_free (PDict sample_data)" "jsonb_ok (PDict sample_data)"
proof -
  note p = sample_parts(6-8)
  show "wf_doc (PDict sample_data)" "float_free (PDict sample_data)"
    unfolding sample_data_def using p by (intro wf_dict_set float_free_dict_set; simp)+
  show "jsonb_ok (PDict sample_data)"
    unfolding sample_data_def using p(1)
    by (intro jsonb_ok_dict_set) (simp_all add: evidence_key_def envelope_digest_def)
qed

lemma sample_jsonb: "jsonb (dumps True (PDict sample_data)) = Inr (normal (PDict sample_data))"
  by (rule jsonb_plain [OF sample_data_ok])

lemma sample_written:
  "is_ok (write_delivery sample_ingress sample_draw sample_body sample_sender sample_incoming sample_data sample_endpoint)"
  unfolding write_delivery_def Let_def sample_jsonb by code_simp

section \<open>The delivery\<close>

text \<open>What the delivery leaves, with the document the \<open>jsonb\<close> column gives back.\<close>

definition sample_received :: pipeline where
  "sample_received = (case write_delivery sample_ingress sample_draw sample_body sample_sender sample_incoming sample_data
     sample_endpoint of Inr (a, db) \<Rightarrow> db | Inl e \<Rightarrow> sample_endpoint)"

lemma sample_write:
  "write_delivery sample_ingress sample_draw sample_body sample_sender sample_incoming sample_data sample_endpoint =
     Inr (sample_answer, sample_received)"
proof -
  obtain a where "write_delivery sample_ingress sample_draw sample_body sample_sender sample_incoming sample_data sample_endpoint =
      Inr (a, sample_received)"
    using sample_written unfolding sample_received_def
    by (cases "write_delivery sample_ingress sample_draw sample_body sample_sender sample_incoming sample_data sample_endpoint") auto
  then show ?thesis using write_delivery_Inr by (fastforce simp: sample_answer_def sample_draw_def)
qed

lemma sample_pipeline_reachable: "pipeline_reachable (sample_endpoint, ())"
proof -
  have "pipeline_step (empty_pipeline, ()) (sample_endpoint, ())"
    unfolding sample_endpoint_def by (rule step_create) (rule surjective_pairing)
  then show ?thesis unfolding pipeline_reachable_def by blast
qed

lemma sample_storage:
  "ig_storage sample_ingress = quiet_storage"
  "os_put_if_absent quiet_storage t k b x s = (Inr \<lparr>oh_length = length b, oh_sha256 = x\<rparr>, s)"
  by (simp_all add: sample_ingress_def quiet_storage_def)

lemma sample_receive:
  "receive sample_ingress sample_webhook sample_draw sample_endpoint (sample_endpoint, ()) =
     (Answered 202 sample_answer, (sample_received, ()))"
proof -
  have "existing_delivery (rs_tenant_id sample_sender) (rs_endpoint_id sample_sender) (pe_provider_event_id sample_incoming)
      sample_endpoint = []" by code_simp
  then show ?thesis
    by (simp add: receive_def sample_admitted deliver_def sample_canonical_data store_new_def transaction_def sample_write
        sample_storage)
qed

theorem webhook_exactly_once_witness:
  "pipeline_reachable (sample_endpoint, ()) \<and>
   receive sample_ingress sample_webhook sample_draw sample_endpoint (sample_endpoint, ()) =
     (Answered 202 sample_answer, (sample_received, ())) \<and>
   receive sample_ingress sample_webhook sample_draw sample_endpoint (sample_received, ()) =
     (Answered 202 (sample_answer\<lparr>wa_duplicate := True\<rparr>), (sample_received, ()))"
  using webhook_exactly_once [OF sample_pipeline_reachable sample_admitted sample_receive _ rtranclp.rtrancl_refl sample_admitted
      refl refl refl sample_canonical_data] sample_pipeline_reachable sample_receive
  by (simp add: sample_answer_def)

definition sample_event_job :: job where
  "sample_event_job = \<lparr>jo_id = 33, jo_tenant_id = 1, jo_event_id = 31, jo_kind = ''ingest.canonical_event.v1'',
     jo_lease_token = 8, jo_attempt_count = 1\<rparr>"


section \<open>The replay\<close>

definition sample_doc :: "(string \<times> pyval) list" where
  "sample_doc = sort_key fst (map (map_prod (\<lambda>k. k) normal) sample_data)"

definition sample_replayed :: "(string \<times> pyval) list" where
  "sample_replayed = dict_set ''replay_source_event_id'' (PStr (uuid_str 31)) sample_doc"

lemma sample_doc_ok: "wf_doc (PDict sample_doc)" "float_free (PDict sample_doc)" "jsonb_ok (PDict sample_doc)"
proof -
  have "PDict sample_doc = normal (PDict sample_data)" by (simp add: sample_doc_def)
  with sample_data_ok show "wf_doc (PDict sample_doc)" "float_free (PDict sample_doc)" "jsonb_ok (PDict sample_doc)"
    by (simp_all only: wf_doc_normal float_free_normal jsonb_ok_normal)
qed

lemma sample_replay_jsonb: "jsonb (replay_text 31 sample_doc) = Inr (normal (PDict sample_replayed))"
proof -
  have "wf_doc (PDict sample_replayed)" "float_free (PDict sample_replayed)" "jsonb_ok (PDict sample_replayed)"
    unfolding sample_replayed_def using sample_doc_ok
    by (intro wf_dict_set float_free_dict_set jsonb_ok_dict_set; simp)+
  then show ?thesis unfolding replay_text_def sample_replayed_def [symmetric] by (rule jsonb_plain)
qed

definition sample_event :: event_row where
  "sample_event = event_of 31 1 (Some 32) ''order.paid'' 0 (PDict sample_doc) (sealed_digest sample_data)"

definition sample_job_row :: job_row where
  "sample_job_row = new_job 33 1 31 ''ingest.canonical_event.v1'' (12 * micros)"

lemma sample_empty:
  "events sample_endpoint = []" "jobs sample_endpoint = []" "receipts sample_endpoint = []" "replays sample_endpoint = []"
  by code_simp+

lemma sample_tables:
  "\<exists>r. sample_received = sample_endpoint\<lparr>receipts := [r], events := [sample_event], jobs := [sample_job_row]\<rparr>"
proof -
  obtain r db1 db2 where 1: "insert_receipt r sample_endpoint = Inr db1" and 2: "insert_event sample_event db1 = Inr db2"
    and 3: "insert_job sample_job_row db2 = Inr sample_received"
    using write_delivery_Inr [OF sample_write] unfolding sample_jsonb
    by (auto simp: sample_event_def sample_job_row_def sample_doc_def sample_draw_def sample_parts sample_incoming_def
        sample_ingress_def)
  show ?thesis
    using insert_receipt_Inr [OF 1] insert_event_Inr [OF 2] insert_job_known [OF 3] by (auto simp: sample_empty)
qed

definition sample_replayer :: principal where
  "sample_replayer = \<lparr>pr_user_id = 5, pr_tenant_id = 1, pr_membership_id = 6\<rparr>"

definition sample_replay_draw :: replay_draw where
  "sample_replay_draw = \<lparr>dr_now = 20, dr_replay_id = 41, dr_lineage_id = 42, dr_job_id = 43\<rparr>"

lemma sample_replay:
  "\<exists>db. replay (\<lambda>s. ''00'') ''ingest.canonical_event.v1'' sample_replayer sample_replay_draw 31 ''again'' ''key'' sample_received =
     (Answered 201 (41, False), db)"
proof -
  obtain r where db: "sample_received = sample_endpoint\<lparr>receipts := [r], events := [sample_event], jobs := [sample_job_row]\<rparr>"
    using sample_tables by blast
  note defs = sample_event_def event_of_def sample_job_row_def new_job_def sample_replayer_def sample_replay_draw_def
  have "\<exists>db. write_replay (\<lambda>s. ''00'') ''ingest.canonical_event.v1'' sample_replayer sample_replay_draw 31 ''again'' ''key''
      sample_event sample_doc sample_received = Inr ((41, False), db)"
    unfolding write_replay_def Let_def sample_replay_jsonb db
    by (simp add: tx_eval sqls_def insert_event_def event_fits_def insert_row_def event_clash_def event_key_known_def
        insert_replay_def insert_job_def job_fits_def job_clash_def insert_audit_def fits_def require_def int4_def
        has_row_def valid_key_def defs sample_empty)
  then show ?thesis
    by (auto simp: replay_def respond_def transaction_def valid_key_def tx_eval replay_of_def db sample_empty expect_def
        find_row_def defs simp del: write_replay_def)
qed

text \<open>The digest of the replayed document, on the document as it was before it was stored.\<close>

lemma dict_set_new: "k \<notin> fst ` set d \<Longrightarrow> dict_set k v d = d @ [(k, v)]"
  by (induction d) auto

lemma dumps_same_items:
  assumes "distinct (map fst d)" "distinct (map fst d')" "set d = set d'"
  shows "dumps ea (PDict d) = dumps ea (PDict d')"
proof -
  have "sort_key fst (map (map_prod (\<lambda>k. k) (dumps ea)) d) = sort_key fst (map (map_prod (\<lambda>k. k) (dumps ea)) d')"
    by (rule sort_key_unique) (use assms in \<open>auto simp: comp_def\<close>)
  then show ?thesis by (simp only: dumps.simps)
qed

lemma distinct_sort_keys: "distinct (map f (sort_key g xs)) = distinct (map f xs)"
  by (simp only: distinct_map distinct_sort set_sort)

lemma envelope_keep: "r \<notin> set delivery_keys \<Longrightarrow>
    envelope_of (dict_set r v d) = PDict (dict_set r v (filter (\<lambda>(k, v). k \<notin> set delivery_keys) d))"
  unfolding envelope_of_def pyval.inject
proof (induction d)
  case (Cons p d)
  then show ?case by (cases p) auto
qed simp

lemma envelope_keep_drop:
  assumes "k \<in> set delivery_keys" "r \<notin> set delivery_keys"
  shows "envelope_of (dict_set r v (dict_set k w d)) = envelope_of (dict_set r v d)"
  using envelope_dict_set [OF assms(1), of w d] unfolding envelope_keep [OF assms(2)] by (simp add: envelope_of_def)

lemma replayed_digest:
  assumes "distinct (map fst d)" "k \<notin> fst ` set d" "k \<notin> set delivery_keys"
  shows "envelope_digest sha (dict_set k (PStr s) (sort_key fst (map (map_prod (\<lambda>k. k) normal) d))) =
    envelope_digest sha (dict_set k (PStr s) d)"
proof -
  let ?n = "map (map_prod (\<lambda>k. k) normal)" and ?f = "filter (\<lambda>(k, v). k \<notin> set delivery_keys)"
  have key: "k \<notin> fst ` set (sort_key fst (?n d))" using assms(2) by force
  have d: "distinct (map fst (sort_key fst (?n d)))" using assms(1) by (simp add: distinct_sort_keys comp_def)
  have "dumps False (envelope_of (dict_set k (PStr s) (sort_key fst (?n d)))) = dumps False (PDict (?n (?f (dict_set k (PStr s) d))))"
    unfolding envelope_of_def
    by (rule dumps_same_items) (use assms d key in \<open>auto simp: dict_set_new distinct_map_filter comp_def filter_map case_prod_beta\<close>)
  also have "\<dots> = dumps False (normal (envelope_of (dict_set k (PStr s) d)))"
    unfolding envelope_of_def normal.simps
    by (rule dumps_same_items) (use assms d in \<open>auto simp: distinct_map_filter comp_def distinct_sort_keys\<close>)
  finally show ?thesis by (simp only: envelope_digest_def dumps_normal)
qed

lemma sample_digests: "envelope_digest last_digits sample_doc \<noteq> envelope_digest last_digits sample_replayed"
proof -
  have "envelope_digest last_digits sample_envelope \<noteq>
      envelope_digest last_digits (dict_set ''replay_source_event_id'' (PStr (uuid_str 31)) sample_envelope)"
    by code_simp
  moreover have "envelope_digest last_digits sample_doc = envelope_digest last_digits sample_envelope"
    unfolding sample_doc_def envelope_digest_sorted sample_data_def by (simp add: envelope_digest_dict_set delivery_keys_def)
  moreover have "envelope_digest last_digits sample_replayed =
      envelope_digest last_digits (dict_set ''replay_source_event_id'' (PStr (uuid_str 31)) sample_envelope)"
  proof -
    have "distinct (map fst sample_data)" using sample_data_ok(1) by simp
    moreover have "''replay_source_event_id'' \<notin> fst ` set sample_data"
      by (simp add: sample_data_def sample_envelope_def model_dump_def)
    moreover have keys: "''replay_source_event_id'' \<notin> set delivery_keys" "''raw_object_key'' \<in> set delivery_keys"
      "''payload_digest'' \<in> set delivery_keys" by (simp_all add: delivery_keys_def)
    ultimately have "envelope_digest last_digits sample_replayed =
        envelope_digest last_digits (dict_set ''replay_source_event_id'' (PStr (uuid_str 31)) sample_data)"
      unfolding sample_replayed_def sample_doc_def by (intro replayed_digest)
    then show ?thesis
      unfolding sample_data_def envelope_digest_def envelope_keep_drop [OF keys(2,1)] envelope_keep_drop [OF keys(3,1)] .
  qed
  ultimately show ?thesis by simp
qed


end
