(* ===== verification/ImportFacts.thy ===== *)
theory ImportFacts
  imports EventLife
begin

text \<open>
  The CSV import job: it accounts for every line of the uploaded file, once, and running it
  again changes nothing.
\<close>

section \<open>What a run leaves behind\<close>

text \<open>Rows are only added; the imports themselves are not touched by a line.\<close>

definition grows :: "pipeline \<Rightarrow> pipeline \<Rightarrow> bool" where
  "grows db db' \<longleftrightarrow> set (events db) \<subseteq> set (events db') \<and> set (jobs db) \<subseteq> set (jobs db') \<and>
     set (import_errors db) \<subseteq> set (import_errors db') \<and> imports_table db' = imports_table db"

lemma grows_refl [simp]: "grows db db"
  by (simp add: grows_def)

lemma grows_trans: "grows a b \<Longrightarrow> grows b c \<Longrightarrow> grows a c"
  by (auto simp: grows_def)

text \<open>The line is accounted for: an event with its job, or an error row.\<close>

definition accounted :: "'o handler_env \<Rightarrow> job \<Rightarrow> uuid \<Rightarrow> string \<Rightarrow> nat \<Rightarrow> string \<Rightarrow> pipeline \<Rightarrow> bool" where
  "accounted H j i head n line db \<longleftrightarrow>
     (if is_ok (csv_event H j i head n line) then
        (\<exists>e \<in> set (events db). ev_tenant_id e = jo_tenant_id j \<and> ev_id e = he_uuid5 H (row_name ''outcomeos:'' i n)) \<and>
        (\<exists>x \<in> set (jobs db). jb_tenant_id x = jo_tenant_id j \<and> jb_kind x = ''ingest.canonical_event.v1'' \<and>
           jb_event_id x = he_uuid5 H (row_name ''outcomeos:'' i n))
      else \<exists>x \<in> set (import_errors db). ie_tenant_id x = jo_tenant_id j \<and> ie_import_id x = i \<and> ie_row_number x = int n)"

lemma accounted_grows: "accounted H j i head n line db \<Longrightarrow> grows db db' \<Longrightarrow> accounted H j i head n line db'"
  unfolding accounted_def grows_def by (auto split: if_splits)

lemma event_once_written:
  assumes "insert_event_once e db = Inr db'"
  shows "grows db db' \<and> (\<exists>x \<in> set (events db'). ev_tenant_id x = ev_tenant_id e \<and> ev_id x = ev_id e)"
  using event_once_Inr [OF assms] by (auto simp: grows_def dest!: insert_event_Inr)

lemma job_once_written:
  assumes "insert_job_once j db = Inr db'"
  shows "grows db db' \<and> (\<exists>x \<in> set (jobs db'). jb_tenant_id x = jb_tenant_id j \<and> jb_event_id x = jb_event_id j \<and> jb_kind x = jb_kind j)"
  using assms by (auto simp: insert_job_once_def same_job_def list_ex_iff ebind_eq_Inr grows_def split: if_splits
      dest!: insert_job_known)

lemma error_written:
  assumes "insert_import_error e db = Inr db'"
  shows "grows db db' \<and> (\<exists>x \<in> set (import_errors db'). ie_tenant_id x = ie_tenant_id e \<and> ie_import_id x = ie_import_id e \<and>
    ie_row_number x = ie_row_number e)"
  using assms by (auto simp: insert_import_error_def ebind_eq_Inr insert_or_ignore_Inr same_import_error_def grows_def
      insert_row_def split: if_splits)

lemma import_line_accounts:
  assumes "import_line H j i head n line db = Inr (b, db')"
  shows "b = is_ok (csv_event H j i head n line) \<and> grows db db' \<and> accounted H j i head n line db'"
proof (cases "csv_event H j i head n line")
  case (Inl e)
  with assms have "\<exists>x. insert_import_error x db = Inr db' \<and> ie_tenant_id x = jo_tenant_id j \<and> ie_import_id x = i \<and>
      ie_row_number x = int n" "b = False"
    by (cases e; fastforce simp: import_line_def Let_def tx_simps stmt_def)+
  with Inl show ?thesis by (auto simp: accounted_def dest!: error_written)
next
  case (Inr y)
  obtain event_id incoming data where y: "y = (event_id, incoming, data)" by (cases y)
  have id: "event_id = he_uuid5 H (row_name ''outcomeos:'' i n)" using csv_event_id Inr y by blast
  obtain e db1 where 1: "insert_event_once e db = Inr db1" "ev_id e = event_id" "ev_tenant_id e = jo_tenant_id j"
    "insert_job_once (new_job (he_uuid5 H (row_name ''outcomeos:csv-job:'' i n)) (jo_tenant_id j) event_id
       ''ingest.canonical_event.v1'' (instant_of H j)) db1 = Inr db'" "b = True"
    using assms Inr y by (auto simp: import_line_def Let_def tx_simps stmt_def)
  note e = event_once_written [OF 1(1)] and x = job_once_written [OF 1(4)]
  have "grows db db'" using e x grows_trans by blast
  moreover have "accounted H j i head n line db'"
    using e x 1(2,3) Inr unfolding accounted_def grows_def id by auto
  ultimately show ?thesis using 1(5) Inr by simp
qed

definition accepted_lines :: "'o handler_env \<Rightarrow> job \<Rightarrow> uuid \<Rightarrow> string \<Rightarrow> nat \<Rightarrow> string list \<Rightarrow> nat" where
  "accepted_lines H j i head n ls = length (filter (\<lambda>(k, l). is_ok (csv_event H j i head k l)) (zip [n..<n + length ls] ls))"

lemma accepted_lines_Cons:
  "accepted_lines H j i head n (l # ls) =
     (if is_ok (csv_event H j i head n l) then 1 else 0) + accepted_lines H j i head (Suc n) ls"
  by (simp add: accepted_lines_def upt_conv_Cons del: upt_Suc)

lemma import_lines_account:
  assumes "import_lines H j i head n ls db = Inr ((a, r), db')"
  shows "a = accepted_lines H j i head n ls \<and> a + r = length ls \<and> grows db db' \<and>
    (\<forall>k < length ls. accounted H j i head (n + k) (ls ! k) db')"
  using assms
proof (induction ls arbitrary: n db a r)
  case Nil
  then show ?case by (auto simp: accepted_lines_def)
next
  case (Cons l ls)
  obtain b db1 a' r' where 1: "import_line H j i head n l db = Inr (b, db1)"
    "import_lines H j i head (Suc n) ls db1 = Inr ((a', r'), db')"
    "(a, r) = (if b then (Suc a', r') else (a', Suc r'))"
    using Cons.prems by (auto simp: tx_simps split: prod.splits)
  note line = import_line_accounts [OF 1(1)] and rest = Cons.IH [OF 1(2)]
  have "accounted H j i head (n + k) ((l # ls) ! k) db'" if "k < length (l # ls)" for k
    using that rest accounted_grows line by (cases k) auto
  then show ?case using line rest grows_trans 1(3) by (auto simp: accepted_lines_Cons split: if_splits)
qed

lemma update_imports_Inr:
  "update_imports p f db = Inr db' \<Longrightarrow>
     db' = db\<lparr>imports_table := map (\<lambda>r. if p r then f r else r) (imports_table db)\<rparr>"
  by (auto simp: update_imports_def ebind_eq_Inr update_rows_Inr)

lemma run_import_Inr:
  assumes "run_import H j i record o1 db = Inr ((), db')"
  shows "\<exists>body head ls a r db1 db2. import_body H j i record o1 = Inr body \<and> split_lines body = head # ls \<and>
    update_imports (this_import (jo_tenant_id j) i) (\<lambda>r. r\<lparr>im_state := ''processing''\<rparr>) db = Inr db1 \<and>
    import_lines H j i head 2 ls db1 = Inr ((a, r), db2) \<and>
    update_imports (this_import (jo_tenant_id j) i) (\<lambda>x. x\<lparr>im_state := ''completed'', im_total_rows := int (a + r),
      im_accepted_rows := int a, im_rejected_rows := int r\<rparr>) db2 = Inr db'"
  using assms unfolding run_import_def Let_def
  by (elim bindE andthenE) (auto simp: stmt_def split: list.splits elim!: bindE)

lemma find_map_same: "(\<And>x. P (f x) = P x) \<Longrightarrow> find P (map f xs) = map_option f (find P xs)"
  by (induction xs) auto

lemma csv_handler_Inr:
  assumes "csv_import_handler H j w = (Inr (), w')"
  shows "\<exists>e i record. event_by_id (jo_tenant_id j) (jo_event_id j) (fst w) = Some e \<and> as_dict (ev_payload e) \<noteq> None \<and>
    uuid_field ''import_id'' (ev_payload e) = Some i \<and>
    find_row im_tenant_id im_id (jo_tenant_id j) i (imports_table (fst w)) = Some record \<and> snd w' = snd w \<and>
    (if im_state record = ''completed'' then fst w' = fst w
     else run_import H j i record (snd w) (fst w) = Inr ((), fst w'))"
  using in_session_Inr [OF assms [unfolded csv_import_handler_def Let_def]]
  by (auto elim!: bindE simp: need_row_Inr split: option.splits if_splits)

lemma csv_handler_completed:
  assumes "event_by_id (jo_tenant_id j) (jo_event_id j) db = Some e" "as_dict (ev_payload e) \<noteq> None"
    "uuid_field ''import_id'' (ev_payload e) = Some i"
    "find_row im_tenant_id im_id (jo_tenant_id j) i (imports_table db) = Some record" "im_state record = ''completed''"
  shows "csv_import_handler H j (db, o1) = (Inr (), (db, o1))"
  using assms by (simp add: csv_import_handler_def in_session_def transaction_def need_row_def tx_eval Let_def)

text \<open>
  C15. A CSV import accounts for every line, once.  A run that completes an import has read the
  object whose digest the upload recorded; it records one accepted or rejected row for every
  line after the header, and the accepted ones are those that parse as events; every accepted
  line has its event and that event's job in the database, every rejected one an error row, and
  other imports are not touched.  Running the job again, even against another object store,
  changes nothing.
\<close>

theorem csv_import_accounts:
  assumes run: "csv_import_handler H j (db, o1) = (Inr (), (db', o2))"
    and control: "event_by_id (jo_tenant_id j) (jo_event_id j) db = Some e" "uuid_field ''import_id'' (ev_payload e) = Some i"
    and todo: "find_row im_tenant_id im_id (jo_tenant_id j) i (imports_table db) = Some record" "im_state record \<noteq> ''completed''"
  shows "\<exists>body head ls. os_read (he_storage H) (jo_tenant_id j) (im_object_key record) o1 = Inr body \<and>
    he_sha H body = im_object_digest record \<and> split_lines body = head # ls \<and>
    (\<forall>k < length ls. accounted H j i head (k + 2) (ls ! k) db') \<and>
    imports_table db' = map (\<lambda>r. if this_import (jo_tenant_id j) i r then r\<lparr>im_state := ''completed'',
      im_total_rows := int (length ls), im_accepted_rows := int (accepted_lines H j i head 2 ls),
      im_rejected_rows := int (length ls) - int (accepted_lines H j i head 2 ls)\<rparr> else r) (imports_table db) \<and>
    o2 = o1 \<and> csv_import_handler H j (db', o3) = (Inr (), (db', o3))"
proof -
  let ?t = "jo_tenant_id j"
  let ?hit = "this_import ?t i"
  have ri: "run_import H j i record o1 db = Inr ((), db')" and o2: "o2 = o1" and dict: "as_dict (ev_payload e) \<noteq> None"
    using csv_handler_Inr [OF run] control todo by auto
  obtain body head ls a r db1 db2 where 1: "import_body H j i record o1 = Inr body" "split_lines body = head # ls"
      "update_imports ?hit (\<lambda>r. r\<lparr>im_state := ''processing''\<rparr>) db = Inr db1"
    and 2: "import_lines H j i head 2 ls db1 = Inr ((a, r), db2)"
    and 3: "update_imports ?hit (\<lambda>x. x\<lparr>im_state := ''completed'', im_total_rows := int (a + r),
      im_accepted_rows := int a, im_rejected_rows := int r\<rparr>) db2 = Inr db'"
    using run_import_Inr [OF ri] by blast
  note acc = import_lines_account [OF 2] and db1 = update_imports_Inr [OF 1(3)] and db' = update_imports_Inr [OF 3]
  have rows: "imports_table db' = map (\<lambda>r. if ?hit r then r\<lparr>im_state := ''completed'',
      im_total_rows := int (length ls), im_accepted_rows := int (accepted_lines H j i head 2 ls),
      im_rejected_rows := int (length ls) - int (accepted_lines H j i head 2 ls)\<rparr> else r) (imports_table db)"
    using acc unfolding db' by (auto simp: grows_def db1 this_import_def)
  have "accounted H j i head n l db' = accounted H j i head n l db2" for n l
    by (simp add: accounted_def db')
  then have all: "\<forall>k < length ls. accounted H j i head (k + 2) (ls ! k) db'"
    using acc by (simp only: add.commute [of _ 2]) simp
  have "event_by_id ?t (jo_event_id j) db' = Some e"
    using stable_csv [OF event_stable run] control(1) by simp
  moreover have "\<exists>x. find_row im_tenant_id im_id ?t i (imports_table db') = Some x \<and> im_state x = ''completed''"
  proof -
    have "?hit record" using todo(1) by (auto simp: find_row_def find_Some_iff this_import_def)
    then show ?thesis
      using todo(1) unfolding rows find_row_def by (subst find_map_same) (auto simp: this_import_def)
  qed
  ultimately have "csv_import_handler H j (db', o3) = (Inr (), (db', o3))"
    using csv_handler_completed [OF _ dict control(2)] by fastforce
  with 1 rows all o2 show ?thesis
    by (auto simp: import_body_def split: sum.splits if_splits)
qed

definition sample_head :: string where
  "sample_head = ''provider_event_id,event_type,occurred_at,subject_type,subject_id,processing_permitted,'' @
     ''advertising_permitted,consent_purpose,references_json,attribution_json,money_minor_units,money_currency,payload_json'' @ [lf]"

definition sample_line :: string where
  "sample_line = ''not,an,event'' @ [lf]"

definition sample_import_handlers :: "unit handler_env" where
  "sample_import_handlers = sample_handlers\<lparr>he_storage := quiet_storage\<lparr>os_read := (\<lambda>t k s. Inr (sample_head @ sample_line))\<rparr>\<rparr>"

definition sample_import_job :: job where
  "sample_import_job = \<lparr>jo_id = 7, jo_tenant_id = 2, jo_event_id = 6, jo_kind = ''ingest.csv.v1'',
     jo_lease_token = 8, jo_attempt_count = 1\<rparr>"

definition sample_import :: import_row where
  "sample_import = \<lparr>im_id = 5, im_tenant_id = 2, im_idempotency_key = ''k'', im_object_key = ''o'', im_object_digest = ''00'',
     im_request_digest = ''00'', im_state = ''uploaded'', im_total_rows = 0, im_accepted_rows = 0, im_rejected_rows = 0\<rparr>"

definition sample_control :: pyval where
  "sample_control = PDict [(''import_id'', PStr (uuid_str 5))]"

definition sample_uploaded :: pipeline where
  "sample_uploaded = empty_pipeline\<lparr>events := [event_of 6 2 None ''outcomeos.csv.uploaded'' 0 sample_control ''00''],
     imports_table := [sample_import]\<rparr>"

lemma sample_import_env:
  "he_pydantic sample_import_handlers = plain_pydantic" "he_limits sample_import_handlers = he_limits sample_handlers"
  "he_sha sample_import_handlers x = ''00''" "os_read (he_storage sample_import_handlers) t k u = Inr (sample_head @ sample_line)"
  "jo_tenant_id sample_import_job = 2" "jo_event_id sample_import_job = 6"
  by (simp_all add: sample_import_handlers_def sample_handlers_def sample_import_job_def)

lemma sample_reads:
  "split_lines (sample_head @ sample_line) = [sample_head, sample_line]"
  "utf8_decode (sample_head @ sample_line) = Some (sample_head @ sample_line)"
  "length (sample_head @ sample_line) < 1000" "nat_str 2 = ''2''" "distinct csv_v1_headers" "length csv_v1_headers = 13"
  "uuid_field ''import_id'' sample_control = Some 5"
  by code_simp+

lemmas csv_machine = csv_char_def start_field_def save_field_def add_char_def after_row_def is_eol_def csv_reset_def
  lf_def cr_def dquote_def

lemma sample_records:
  "csv_line sample_head csv_reset = Inr \<lparr>cp_state = StartRecord, cp_field = [], cp_fields = csv_v1_headers\<rparr>"
  "csv_line sample_line csv_reset = Inr \<lparr>cp_state = StartRecord, cp_field = [], cp_fields = [''not'', ''an'', ''event'']\<rparr>"
  by (simp_all add: sample_head_def sample_line_def csv_machine csv_v1_headers_def)

lemma sample_rejected:
  "csv_event sample_import_handlers sample_import_job 5 sample_head 2 sample_line = Inl (CsvValueError ''csv_row_invalid:2'')"
proof -
  have parsed: "csv_events plain_pydantic (he_limits sample_handlers) csv_v1_headers 2 [sample_line] = Inl (CsvValueError ''csv_row_invalid:2'')"
    by (subst csv_events.simps) (simp add: sample_reads sample_records sample_handlers_def)
  have "parse_csv_v1 plain_pydantic (he_limits sample_handlers) (sample_head @ sample_line) = Inl (CsvValueError ''csv_row_invalid:2'')"
  proof -
    have "\<not> 1000 < int (length sample_head) + int (length sample_line)"
      using sample_reads(3) unfolding length_append by linarith
    moreover have "cl_bytes (he_limits sample_handlers) = 1000" "cl_columns (he_limits sample_handlers) = 20"
      by (simp_all add: sample_handlers_def)
    ultimately show ?thesis using parsed
      by (simp add: parse_csv_v1_def csv_header_def sample_reads sample_records)
  qed
  then show ?thesis by (simp add: csv_event_def sample_import_env)
qed

lemma sample_import_run:
  "\<exists>db. csv_import_handler sample_import_handlers sample_import_job (sample_uploaded, ()) = (Inr (), (db, ()))"
proof -
  have "\<exists>db. run_import sample_import_handlers sample_import_job 5 sample_import () sample_uploaded = Inr ((), db)"
    by (simp add: run_import_def Let_def tx_eval stmt_def update_imports_def update_rows_def import_body_def import_line_def
        insert_import_error_def insert_or_ignore_def insert_row_def require_def int4_def import_check_def has_row_def
        this_import_def sample_import_def sample_import_env sample_reads sample_rejected sample_uploaded_def empty_pipeline_def)
  then show ?thesis
    by (auto simp: csv_import_handler_def in_session_def transaction_def need_row_def tx_eval Let_def sample_import_env
        sample_import_def event_by_id_def find_row_def sample_uploaded_def sample_reads) (simp add: sample_control_def)?
qed

theorem csv_import_accounts_witness:
  "\<exists>db. csv_import_handler sample_import_handlers sample_import_job (sample_uploaded, ()) = (Inr (), (db, ())) \<and>
     accounted sample_import_handlers sample_import_job 5 sample_head 2 sample_line db \<and>
     map im_rejected_rows (imports_table db) = [1] \<and>
     csv_import_handler sample_import_handlers sample_import_job (db, ()) = (Inr (), (db, ()))"
proof -
  obtain db where run: "csv_import_handler sample_import_handlers sample_import_job (sample_uploaded, ()) = (Inr (), (db, ()))"
    using sample_import_run by blast
  obtain body head ls where 1: "os_read (he_storage sample_import_handlers) 2 ''o'' () = Inr body" "split_lines body = head # ls"
      "\<forall>k < length ls. accounted sample_import_handlers sample_import_job 5 head (k + 2) (ls ! k) db"
      "map im_rejected_rows (imports_table db) = [int (length ls) - int (accepted_lines sample_import_handlers sample_import_job 5 head 2 ls)]"
      "csv_import_handler sample_import_handlers sample_import_job (db, ()) = (Inr (), (db, ()))"
    using csv_import_accounts [OF run, of "event_of 6 2 None ''outcomeos.csv.uploaded'' 0 sample_control ''00''" 5 sample_import "()"]
    by (auto simp: sample_import_env sample_uploaded_def event_by_id_def find_row_def sample_reads sample_import_def this_import_def)
  have "head = sample_head" "ls = [sample_line]" using 1(1,2) by (auto simp: sample_import_env sample_reads)
  moreover from this have "accounted sample_import_handlers sample_import_job 5 sample_head 2 sample_line db"
    using 1(3) [rule_format, of 0] by (simp add: numeral_2_eq_2)
  moreover have "accepted_lines sample_import_handlers sample_import_job 5 sample_head 2 [sample_line] = 0"
    by (simp add: accepted_lines_def sample_rejected)
  ultimately show ?thesis using 1(4,5) run by auto
qed

end
