(* ===== verification/Sandbox.thy ===== *)
theory Sandbox
  imports Json
begin

text \<open>
  The JSON sandbox of \<open>mvp.py\<close>: the seeded tenants, the operations of \<open>MVPStore\<close>, the profit
  statement, and the file the store is saved to.  The clock and the random identifiers a call
  reads are arguments, numbered in the order of the readings; \<open>uuid5\<close> is a parameter.  The one
  object the code shares and mutates, a lead, which the answer kept for an idempotency key refers
  to, lives in a heap of its own, and reading the file back ends the sharing.  The two Bengali
  texts of the seed are parameters.
\<close>

section \<open>Data\<close>

definition fee_minor :: int where
  "fee_minor = 15000"

record sandbox_env =
  se_sha :: "string \<Rightarrow> string"
  se_stable :: "string \<Rightarrow> string"
  se_greeting :: string
  se_answer :: string

text \<open>The readings of one call: \<open>dr_at k\<close> is the \<open>k\<close>th time, \<open>dr_uuid k\<close> the \<open>k\<close>th random identifier.\<close>

record readings =
  rd_at :: "nat \<Rightarrow> string"
  rd_uuid :: "nat \<Rightarrow> string"

definition after_readings :: "nat \<Rightarrow> nat \<Rightarrow> readings \<Rightarrow> readings" where
  "after_readings m n r = \<lparr>rd_at = (\<lambda>k. rd_at r (k + m)), rd_uuid = (\<lambda>k. rd_uuid r (k + n))\<rparr>"

record sandbox_ids =
  si_contact :: string
  si_conversation :: string
  si_touchpoint :: string
  si_lead :: string
  si_order :: string
  si_attribution :: string
  si_outcome :: string
  si_contract_version :: string
  si_billable :: string
  si_ledger :: string
  si_dispute :: string
  si_credit :: string

record message =
  mg_direction :: string
  mg_text :: string
  mg_created_at :: "string option"

record conversation =
  cv_id :: string
  cv_tenant_id :: string
  cv_contact_id :: string
  cv_provider :: string
  cv_messages :: "message list"

record lead =
  ld_id :: string
  ld_tenant_id :: string
  ld_stage :: string
  ld_contact_id :: string
  ld_created_at :: string

record order_item =
  it_sku :: string
  it_quantity :: int
  it_unit_price_minor :: int
  it_currency :: string

record sandbox_order =
  od_id :: string
  od_tenant_id :: string
  od_lead_id :: string
  od_status :: string
  od_currency :: string
  od_collected_revenue_minor :: int
  od_product_cost_minor :: int
  od_discount_minor :: int
  od_allocated_ad_spend_minor :: int
  od_courier_charge_minor :: int
  od_payment_fee_minor :: int
  od_return_cost_minor :: int
  od_version :: int
  od_items :: "order_item list"
  od_created_at :: string

record attribution_result =
  ar_id :: string
  ar_tenant_id :: string
  ar_order_id :: string
  ar_selected_touchpoint_id :: string
  ar_rule_version :: string
  ar_confidence :: string
  ar_reason :: string
  ar_created_at :: string

record verification_check =
  vc_id :: string
  vc_tenant_id :: string
  vc_kind :: string
  vc_result :: string
  vc_reason :: string
  vc_input_digest :: string
  vc_version :: string
  vc_created_at :: string

record evidence_record =
  er_id :: string
  er_tenant_id :: string
  er_order_id :: string
  er_provider :: string
  er_external_id :: string
  er_created_at :: string

record sandbox_receipt =
  sr_tenant_id :: string
  sr_provider :: string
  sr_external_id :: string
  sr_kind :: string
  sr_received_at :: string

record sandbox_outcome =
  oc_id :: string
  oc_tenant_id :: string
  oc_order_id :: string
  oc_state :: string
  oc_readiness :: "(string \<times> bool) list"
  oc_missing_reasons :: "string list"
  oc_contract_version_id :: string
  oc_version :: nat
  oc_created_at :: string

record billable_result =
  bl_id :: string
  bl_tenant_id :: string
  bl_outcome_id :: string
  bl_amount_minor :: int
  bl_currency :: string
  bl_contract_version_id :: string
  bl_created_at :: string

text \<open>\<open>billable_result_id\<close> of a debit, \<open>linked_ledger_entry_id\<close> of a credit.\<close>

record ledger_entry =
  le_id :: string
  le_tenant_id :: string
  le_linked_id :: string
  le_amount_minor :: int
  le_currency :: string
  le_direction :: string
  le_type :: string
  le_created_at :: string

record sandbox_dispute =
  dp_id :: string
  dp_tenant_id :: string
  dp_outcome_id :: string
  dp_status :: string
  dp_reason :: string
  dp_evidence_timeline :: "(string \<times> string) list"
  dp_created_at :: string
  dp_resolved_at :: string

record audit_entry =
  ae_id :: string
  ae_type :: string
  ae_target_id :: string
  ae_created_at :: string
  ae_actor :: string

record sandbox_contract =
  cx_id :: string
  cx_tenant_id :: string
  cx_fee_minor :: int
  cx_currency :: string
  cx_result_type :: string
  cx_attribution_window_days :: int
  cx_status :: string

text \<open>The answers kept under idempotency keys; the lead of an approval is an address.\<close>

datatype kept_answer =
    KeptApproval nat sandbox_order sandbox_outcome
  | KeptEvidence string sandbox_outcome

text \<open>
  A tenant.  What no operation reads or writes (campaigns, ads, touchpoints, contacts, knowledge,
  AI runs, the empty outbox and heartbeats) is one document.
\<close>

record sandbox_tenant =
  tn_id :: string
  tn_name :: string
  tn_ids :: sandbox_ids
  tn_static :: pyval
  tn_heap :: "lead list"
  tn_idempotency :: "(string \<times> kept_answer) list"
  tn_conversations :: "conversation list"
  tn_leads :: "nat list"
  tn_orders :: "sandbox_order list"
  tn_checks :: "verification_check list"
  tn_attribution_results :: "attribution_result list"
  tn_outcomes :: "sandbox_outcome list"
  tn_billable_results :: "billable_result list"
  tn_ledger_entries :: "ledger_entry list"
  tn_shipments :: "evidence_record list"
  tn_settlement_events :: "evidence_record list"
  tn_receipts :: "sandbox_receipt list"
  tn_disputes :: "sandbox_dispute list"
  tn_audit_events :: "audit_entry list"
  tn_contract_versions :: "sandbox_contract list"

text \<open>The store: the live data and the file.  The users are a constant of the seed.\<close>

record sandbox =
  sb_data :: "(string \<times> sandbox_tenant) list"
  sb_file :: "(string \<times> sandbox_tenant) list option"

section \<open>Small helpers\<close>

definition audit_of :: "readings \<Rightarrow> nat \<Rightarrow> nat \<Rightarrow> string \<Rightarrow> string \<Rightarrow> audit_entry" where
  "audit_of r k u kind target = \<lparr>ae_id = rd_uuid r u, ae_type = kind, ae_target_id = target,
     ae_created_at = rd_at r k, ae_actor = ''system/demo''\<rparr>"

text \<open>\<open>json.dumps({"kind": kind}, sort_keys=True)\<close>, whose separators have spaces.\<close>

definition kind_text :: "string \<Rightarrow> string" where
  "kind_text kind = ''{'' @ quote True ''kind'' @ '': '' @ quote True kind @ ''}''"

definition check_of :: "sandbox_env \<Rightarrow> string \<Rightarrow> string \<Rightarrow> string \<Rightarrow> string \<Rightarrow> string \<Rightarrow> verification_check" where
  "check_of E tenant at kind result reason = \<lparr>vc_id = se_stable E (tenant @ '':'' @ kind), vc_tenant_id = tenant,
     vc_kind = kind, vc_result = result, vc_reason = reason, vc_input_digest = se_sha E (kind_text kind),
     vc_version = ''sandbox:v1'', vc_created_at = at\<rparr>"

definition sandbox_sign :: "(string \<Rightarrow> string \<Rightarrow> string) \<Rightarrow> string \<Rightarrow> string \<Rightarrow> int \<Rightarrow> string" where
  "sandbox_sign hmac secret body ts = hmac (utf8 secret) (int_str ts @ ''.'' @ body)"

section \<open>The seed\<close>

definition demo_tenant :: string where
  "demo_tenant = ''11111111-1111-4111-8111-111111111111''"

definition other_tenant :: string where
  "other_tenant = ''22222222-2222-4222-8222-222222222222''"

definition demo_user :: string where
  "demo_user = ''demo-user''"

definition ids_of :: "sandbox_env \<Rightarrow> string \<Rightarrow> sandbox_ids" where
  "ids_of E tenant = (let i = (\<lambda>k. se_stable E (tenant @ '':'' @ k)) in
     \<lparr>si_contact = i ''contact'', si_conversation = i ''conversation'', si_touchpoint = i ''touchpoint'',
      si_lead = i ''lead'', si_order = i ''order'', si_attribution = i ''attribution'', si_outcome = i ''outcome'',
      si_contract_version = i ''contract_version'', si_billable = i ''billable'', si_ledger = i ''ledger'',
      si_dispute = i ''dispute'', si_credit = i ''credit''\<rparr>)"

definition knowledge_of :: "string \<Rightarrow> string \<Rightarrow> string \<Rightarrow> string \<Rightarrow> pyval" where
  "knowledge_of i tenant title chunk = PList [PDict [(''id'', PStr i), (''tenant_id'', PStr tenant), (''title'', PStr title),
     (''chunks'', PList [PStr chunk])]]"

definition static_seed :: "sandbox_env \<Rightarrow> string \<Rightarrow> sandbox_ids \<Rightarrow> pyval \<Rightarrow> pyval" where
  "static_seed E tenant ids knowledge = PDict [
     (''campaigns'', PList [PDict [(''id'', PStr ''camp-sandbox-1''), (''name'', PStr ''SANDBOX Facebook commerce campaign''),
        (''spend_minor'', PInt 20000), (''currency'', PStr ''BDT'')]]),
     (''ads'', PList [PDict [(''id'', PStr ''ad-sandbox-1''), (''campaign_id'', PStr ''camp-sandbox-1''),
        (''creative_id'', PStr ''creative-sage''), (''label'', PStr ''SANDBOX / NOT CONNECTED'')]]),
     (''touchpoints'', PList [PDict [(''id'', PStr (si_touchpoint ids)), (''tenant_id'', PStr tenant),
        (''campaign_id'', PStr ''camp-sandbox-1''), (''ad_id'', PStr ''ad-sandbox-1''), (''source'', PStr ''facebook''),
        (''medium'', PStr ''paid_social''), (''conversation_id'', PStr (si_conversation ids)), (''confidence'', PStr ''exact'')]]),
     (''contacts'', PList [PDict [(''id'', PStr (si_contact ids)), (''tenant_id'', PStr tenant),
        (''display_name'', PStr ''Maya Akter'')]]),
     (''knowledge_documents'', knowledge),
     (''ai_runs'', PList [PDict [(''id'', PStr ''ai-1''), (''tenant_id'', PStr tenant), (''answer'', PStr (se_answer E)),
        (''evidence'', PList [PStr ''kd-1'']), (''tool_proposals'', PList [PDict [(''tool'', PStr ''create_lead'')],
           PDict [(''tool'', PStr ''create_order''), (''requires_human_approval'', PBool True)]]),
        (''validation_status'', PStr ''valid''), (''prompt_version'', PStr ''sandbox-bn-v1'')]]),
     (''outbox_messages'', PList []), (''worker_heartbeats'', PList [])]"

definition tenant_seed :: "sandbox_env \<Rightarrow> readings \<Rightarrow> string \<Rightarrow> string \<Rightarrow> pyval \<Rightarrow> sandbox_tenant" where
  "tenant_seed E r tenant name knowledge = (let ids = ids_of E tenant in
     \<lparr>tn_id = tenant, tn_name = name, tn_ids = ids, tn_static = static_seed E tenant ids knowledge, tn_heap = [],
      tn_idempotency = [],
      tn_conversations = [\<lparr>cv_id = si_conversation ids, cv_tenant_id = tenant, cv_contact_id = si_contact ids,
        cv_provider = ''SANDBOX Messenger'', cv_messages = [\<lparr>mg_direction = ''inbound'', mg_text = se_greeting E,
          mg_created_at = None\<rparr>]\<rparr>],
      tn_leads = [], tn_orders = [], tn_checks = [], tn_attribution_results = [], tn_outcomes = [],
      tn_billable_results = [], tn_ledger_entries = [], tn_shipments = [], tn_settlement_events = [], tn_receipts = [],
      tn_disputes = [], tn_audit_events = [audit_of r 0 0 ''demo.seeded'' ''tenant''],
      tn_contract_versions = [\<lparr>cx_id = si_contract_version ids, cx_tenant_id = tenant, cx_fee_minor = fee_minor,
        cx_currency = ''BDT'', cx_result_type = ''delivered_order_cod_settled'', cx_attribution_window_days = 30,
        cx_status = ''active''\<rparr>]\<rparr>)"

definition seed_data :: "sandbox_env \<Rightarrow> readings \<Rightarrow> (string \<times> sandbox_tenant) list" where
  "seed_data E r =
     [(demo_tenant, tenant_seed E r demo_tenant ''Dhaka Demo Commerce'' (knowledge_of ''kd-1'' demo_tenant
        ''Product, price, stock and policy''
        ''Sage green linen set price BDT 1500; stock 8; Dhaka delivery BDT 80; COD accepted; returns within 7 days.'')),
      (other_tenant, tenant_seed E (after_readings 1 1 r) other_tenant ''Other Tenant'' (knowledge_of ''other-kd'' other_tenant
        ''Private other tenant stock'' ''Other tenant secret product.''))]"

section \<open>Evaluation\<close>

definition checklist :: "sandbox_tenant \<Rightarrow> (string \<times> bool) list" where
  "checklist t = [
     (''customer_verified'', tn_checks t \<noteq> [] \<and> list_all (\<lambda>c. vc_result c = ''passed'') (tn_checks t)),
     (''attribution_eligible'', tn_attribution_results t \<noteq> []),
     (''order_confirmed'', tn_orders t \<noteq> [] \<and> od_status (hd (tn_orders t)) = ''confirmed''),
     (''delivery_received'', tn_shipments t \<noteq> []),
     (''cod_settled'', tn_settlement_events t \<noteq> []),
     (''contract_eligible'', cx_status (hd (tn_contract_versions t)) = ''active'')]"

definition reason_labels :: "(string \<times> string) list" where
  "reason_labels = [
     (''customer_verified'', ''Customer verification missing''),
     (''attribution_eligible'', ''Attribution missing''),
     (''order_confirmed'', ''Order confirmation missing''),
     (''delivery_received'', ''Delivery evidence missing''),
     (''cod_settled'', ''COD settlement missing''),
     (''contract_eligible'', ''Contract inactive'')]"

definition missing_reasons :: "(string \<times> bool) list \<Rightarrow> string list" where
  "missing_reasons readiness = [label. (k, label) \<leftarrow> reason_labels, map_of readiness k \<noteq> Some True]"

definition outcome_of :: "string \<Rightarrow> readings \<Rightarrow> nat \<Rightarrow> sandbox_tenant \<Rightarrow> sandbox_outcome" where
  "outcome_of tenant r k t = (let missing = missing_reasons (checklist t) in
     \<lparr>oc_id = si_outcome (tn_ids t), oc_tenant_id = tenant, oc_order_id = si_order (tn_ids t),
      oc_state = (if missing = [] then ''billable'' else ''pending_evidence''), oc_readiness = checklist t,
      oc_missing_reasons = missing, oc_contract_version_id = si_contract_version (tn_ids t),
      oc_version = length (tn_audit_events t), oc_created_at = rd_at r k\<rparr>)"

definition bill_of :: "string \<Rightarrow> readings \<Rightarrow> nat \<Rightarrow> sandbox_tenant \<Rightarrow> billable_result" where
  "bill_of tenant r k t = \<lparr>bl_id = si_billable (tn_ids t), bl_tenant_id = tenant, bl_outcome_id = si_outcome (tn_ids t),
     bl_amount_minor = fee_minor, bl_currency = ''BDT'', bl_contract_version_id = si_contract_version (tn_ids t),
     bl_created_at = rd_at r k\<rparr>"

definition debit_of :: "string \<Rightarrow> readings \<Rightarrow> nat \<Rightarrow> sandbox_tenant \<Rightarrow> ledger_entry" where
  "debit_of tenant r k t = \<lparr>le_id = si_ledger (tn_ids t), le_tenant_id = tenant, le_linked_id = si_billable (tn_ids t),
     le_amount_minor = fee_minor, le_currency = ''BDT'', le_direction = ''debit'', le_type = ''performance_fee'',
     le_created_at = rd_at r k\<rparr>"

text \<open>\<open>MVPStore.evaluate\<close> on the tenant's data.\<close>

definition sandbox_evaluate :: "string \<Rightarrow> readings \<Rightarrow> sandbox_tenant \<Rightarrow> sandbox_outcome \<times> sandbox_tenant" where
  "sandbox_evaluate tenant r t =
     (let outcome = outcome_of tenant r 0 t; t1 = t\<lparr>tn_outcomes := [outcome]\<rparr> in
      (outcome,
       if oc_state outcome = ''billable'' \<and> tn_billable_results t = []
       then t1\<lparr>tn_billable_results := [bill_of tenant r 1 t],
               tn_ledger_entries := tn_ledger_entries t @ [debit_of tenant r 2 t],
               tn_audit_events := tn_audit_events t @ [audit_of r 3 0 ''outcome.billable_fee_created'' (oc_id outcome)]\<rparr>
       else t1))"

section \<open>Operations\<close>

text \<open>
  An operation answers and either leaves the tenant alone or changes and saves it.
\<close>

type_synonym 'a tenant_op = "sandbox_tenant \<Rightarrow> 'a \<times> sandbox_tenant option"

definition receive_message :: "readings \<Rightarrow> string \<Rightarrow> conversation tenant_op" where
  "receive_message r msg t =
     (let c = (hd (tn_conversations t))\<lparr>cv_messages := cv_messages (hd (tn_conversations t)) @
            [\<lparr>mg_direction = ''inbound'', mg_text = msg, mg_created_at = Some (rd_at r 0)\<rparr>]\<rparr> in
      (c, Some (t\<lparr>tn_conversations := c # tl (tn_conversations t),
         tn_audit_events := tn_audit_events t @ [audit_of r 1 0 ''message.received'' (cv_id c)]\<rparr>)))"

definition order_of :: "string \<Rightarrow> readings \<Rightarrow> sandbox_ids \<Rightarrow> sandbox_order" where
  "order_of tenant r ids = \<lparr>od_id = si_order ids, od_tenant_id = tenant, od_lead_id = si_lead ids,
     od_status = ''confirmed'', od_currency = ''BDT'', od_collected_revenue_minor = 150000, od_product_cost_minor = 70000,
     od_discount_minor = 0, od_allocated_ad_spend_minor = 20000, od_courier_charge_minor = 8000,
     od_payment_fee_minor = 3000, od_return_cost_minor = 0, od_version = 1,
     od_items = [\<lparr>it_sku = ''LINEN-SAGE'', it_quantity = 1, it_unit_price_minor = 150000, it_currency = ''BDT''\<rparr>],
     od_created_at = rd_at r 1\<rparr>"

definition attribution_of :: "string \<Rightarrow> readings \<Rightarrow> sandbox_ids \<Rightarrow> attribution_result" where
  "attribution_of tenant r ids = \<lparr>ar_id = si_attribution ids, ar_tenant_id = tenant, ar_order_id = si_order ids,
     ar_selected_touchpoint_id = si_touchpoint ids, ar_rule_version = ''last_eligible_touch:v1'', ar_confidence = ''exact'',
     ar_reason = ''conversation referral matched seeded sandbox ad within 30 days'', ar_created_at = rd_at r 2\<rparr>"

definition approve_key :: "string \<Rightarrow> string" where
  "approve_key idem = ''approve:'' @ idem"

text \<open>The answer names the lead by its address in the heap.\<close>

definition approve_proposal :: "string \<Rightarrow> readings \<Rightarrow> string \<Rightarrow> kept_answer tenant_op" where
  "approve_proposal tenant r idem t =
     (case map_of (tn_idempotency t) (approve_key idem) of
        Some kept \<Rightarrow> (kept, None)
      | None \<Rightarrow>
          (let ids = tn_ids t;
               lead = \<lparr>ld_id = si_lead ids, ld_tenant_id = tenant, ld_stage = ''pending_verification'',
                 ld_contact_id = si_contact ids, ld_created_at = rd_at r 0\<rparr>;
               address = length (tn_heap t);
               order = order_of tenant r ids;
               t1 = t\<lparr>tn_heap := tn_heap t @ [lead], tn_leads := [address], tn_orders := [order],
                 tn_attribution_results := [attribution_of tenant r ids],
                 tn_audit_events := tn_audit_events t @ [audit_of r 3 0 ''tool_proposal.approved'' (od_id order)]\<rparr>;
               (outcome, t2) = sandbox_evaluate tenant (after_readings 4 1 r) t1;
               res = KeptApproval address order outcome
           in (res, Some (t2\<lparr>tn_idempotency := dict_set (approve_key idem) res (tn_idempotency t2)\<rparr>))))"

definition checks_of :: "sandbox_env \<Rightarrow> string \<Rightarrow> readings \<Rightarrow> verification_check list" where
  "checks_of E tenant r = [
     check_of E tenant (rd_at r 0) ''otp'' ''passed'' ''sandbox OTP 123456 matched'',
     check_of E tenant (rd_at r 1) ''duplicate_contact'' ''passed'' ''no existing verified lead'',
     check_of E tenant (rd_at r 2) ''customer_intent'' ''passed'' ''explicit order intent'',
     check_of E tenant (rd_at r 3) ''suspicious_address'' ''passed'' ''address accepted by deterministic rule'',
     check_of E tenant (rd_at r 4) ''prior_return'' ''passed'' ''no prior return warning'']"

text \<open>Verifying the lead changes the shared object in place.\<close>

definition mark_verified :: "sandbox_tenant \<Rightarrow> sandbox_tenant" where
  "mark_verified t = (case tn_leads t of [] \<Rightarrow> t
     | a # as \<Rightarrow> t\<lparr>tn_heap := (tn_heap t)[a := (tn_heap t ! a)\<lparr>ld_stage := ''verified''\<rparr>]\<rparr>)"

definition complete_verification :: "sandbox_env \<Rightarrow> string \<Rightarrow> readings \<Rightarrow>
    (verification_check list \<times> sandbox_outcome) tenant_op" where
  "complete_verification E tenant r t =
     (let t1 = mark_verified (t\<lparr>tn_checks := checks_of E tenant r\<rparr>);
          t2 = t1\<lparr>tn_audit_events := tn_audit_events t1 @ [audit_of r 5 0 ''lead.verification_completed'' (si_lead (tn_ids t1))]\<rparr>;
          (outcome, t3) = sandbox_evaluate tenant (after_readings 6 1 r) t2
      in ((tn_checks t3, outcome), Some t3))"

definition receipt_key :: "string \<Rightarrow> string \<Rightarrow> string" where
  "receipt_key kind event_id = ''webhook:'' @ kind @ '':'' @ event_id"

definition record_evidence :: "sandbox_env \<Rightarrow> string \<Rightarrow> readings \<Rightarrow> string \<Rightarrow> string \<Rightarrow> kept_answer tenant_op" where
  "record_evidence E tenant r kind event_id t =
     (case map_of (tn_idempotency t) (receipt_key kind event_id) of
        Some kept \<Rightarrow> (kept, None)
      | None \<Rightarrow>
          (let rec = \<lparr>er_id = se_stable E (tenant @ '':'' @ kind @ '':'' @ event_id), er_tenant_id = tenant,
                 er_order_id = si_order (tn_ids t), er_provider = ''sandbox'', er_external_id = event_id,
                 er_created_at = rd_at r 0\<rparr>;
               t1 = (if kind = ''delivery'' then t\<lparr>tn_shipments := [rec]\<rparr> else t\<lparr>tn_settlement_events := [rec]\<rparr>);
               t2 = t1\<lparr>tn_receipts := tn_receipts t1 @ [\<lparr>sr_tenant_id = tenant, sr_provider = ''sandbox'',
                 sr_external_id = event_id, sr_kind = kind, sr_received_at = rd_at r 1\<rparr>],
                 tn_audit_events := tn_audit_events t1 @ [audit_of r 2 0
                   (if kind = ''delivery'' then ''shipment.delivered'' else ''payment.cod_settled'') (er_id rec)]\<rparr>;
               (outcome, t3) = sandbox_evaluate tenant (after_readings 3 1 r) t2;
               res = KeptEvidence kind outcome
           in (res, Some (t3\<lparr>tn_idempotency := dict_set (receipt_key kind event_id) res (tn_idempotency t3)\<rparr>))))"

definition timeline_steps :: "string list" where
  "timeline_steps = [''campaign/ad/touchpoint'', ''customer conversation'', ''AI proposal approved'', ''lead verified'',
     ''order confirmed'', ''delivery evidence'', ''COD settlement'', ''outcome rule v1'', ''contract v1'', ''BDT 150 fee'',
     ''ledger debit'', ''audit'']"

definition timeline :: "readings \<Rightarrow> (string \<times> string) list" where
  "timeline r = map (\<lambda>(k, x). (x, rd_at r k)) (enumerate 0 timeline_steps)"

definition credit_of :: "string \<Rightarrow> readings \<Rightarrow> nat \<Rightarrow> sandbox_tenant \<Rightarrow> ledger_entry" where
  "credit_of tenant r k t = \<lparr>le_id = si_credit (tn_ids t), le_tenant_id = tenant, le_linked_id = si_ledger (tn_ids t),
     le_amount_minor = fee_minor, le_currency = ''BDT'', le_direction = ''credit'', le_type = ''performance_fee_credit'',
     le_created_at = rd_at r k\<rparr>"

definition reverse_new :: "string \<Rightarrow> readings \<Rightarrow> sandbox_dispute tenant_op" where
  "reverse_new tenant r t =
     (let d = \<lparr>dp_id = si_dispute (tn_ids t), dp_tenant_id = tenant, dp_outcome_id = si_outcome (tn_ids t),
            dp_status = ''reversed'', dp_reason = ''merchant disputed delivered evidence in demo'',
            dp_evidence_timeline = timeline r, dp_created_at = rd_at r 12, dp_resolved_at = rd_at r 13\<rparr>;
          credit = credit_of tenant r 14 t in
      (d, Some (t\<lparr>tn_disputes := [d],
         tn_ledger_entries := (if list_ex (\<lambda>e. le_id e = le_id credit) (tn_ledger_entries t) then tn_ledger_entries t
           else tn_ledger_entries t @ [credit]),
         tn_audit_events := tn_audit_events t @ [audit_of r 15 0 ''dispute.reversed'' (dp_id d)]\<rparr>)))"

definition dispute_reverse :: "string \<Rightarrow> readings \<Rightarrow> sandbox_dispute tenant_op" where
  "dispute_reverse tenant r t =
     (case tn_disputes t of
        old # ds \<Rightarrow> (if dp_status old = ''reversed'' then (old, None) else reverse_new tenant r t)
      | [] \<Rightarrow> reverse_new tenant r t)"

section \<open>The statement\<close>

definition order_values :: "sandbox_order \<Rightarrow> int" where
  "order_values order = od_collected_revenue_minor order - od_product_cost_minor order - od_discount_minor order -
     od_allocated_ad_spend_minor order - od_payment_fee_minor order - od_courier_charge_minor order -
     od_return_cost_minor order"

definition performance_fee :: "sandbox_tenant \<Rightarrow> int" where
  "performance_fee t = sum_list (map (\<lambda>e. if le_direction e = ''debit'' then le_amount_minor e else - le_amount_minor e)
     (tn_ledger_entries t))"

record profit_statement =
  pf_currency :: string
  pf_contribution_profit_minor :: int
  pf_performance_fee_minor :: int
  pf_expected_acceptance_profit_minor :: int

definition profit :: "sandbox_tenant \<Rightarrow> profit_statement" where
  "profit t = \<lparr>pf_currency = ''BDT'',
     pf_contribution_profit_minor = (case tn_orders t of [] \<Rightarrow> 0 | order # _ \<Rightarrow> order_values order) - performance_fee t,
     pf_performance_fee_minor = performance_fee t, pf_expected_acceptance_profit_minor = 34000\<rparr>"

section \<open>The store\<close>

text \<open>
  The file holds every object by value: a lead that a tenant's list and a kept answer share is
  written twice, and reading the file makes two leads of it.
\<close>

fun unshare_kept :: "lead list \<Rightarrow> nat \<Rightarrow> (string \<times> kept_answer) list \<Rightarrow> (string \<times> kept_answer) list \<times> lead list" where
  "unshare_kept heap n [] = ([], [])"
| "unshare_kept heap n ((k, KeptApproval a order outcome) # kept) =
     (case unshare_kept heap (Suc n) kept of (kept', leads) \<Rightarrow> ((k, KeptApproval n order outcome) # kept', (heap ! a) # leads))"
| "unshare_kept heap n ((k, KeptEvidence kind outcome) # kept) =
     (case unshare_kept heap n kept of (kept', leads) \<Rightarrow> ((k, KeptEvidence kind outcome) # kept', leads))"

definition by_value :: "sandbox_tenant \<Rightarrow> sandbox_tenant" where
  "by_value t =
     (case unshare_kept (tn_heap t) (length (tn_leads t)) (tn_idempotency t) of (kept, leads) \<Rightarrow>
       t\<lparr>tn_heap := map (\<lambda>a. tn_heap t ! a) (tn_leads t) @ leads, tn_leads := [0..<length (tn_leads t)],
         tn_idempotency := kept\<rparr>)"

definition written :: "(string \<times> sandbox_tenant) list \<Rightarrow> (string \<times> sandbox_tenant) list" where
  "written d = map (map_prod (\<lambda>k. k) by_value) d"

definition save :: "(string \<times> sandbox_tenant) list \<Rightarrow> sandbox" where
  "save d = \<lparr>sb_data = d, sb_file = Some (written d)\<rparr>"

definition reset_store :: "sandbox_env \<Rightarrow> readings \<Rightarrow> sandbox" where
  "reset_store E r = save (seed_data E r)"

text \<open>A process starts: the file if there is one, the seed otherwise.\<close>

definition load_store :: "sandbox_env \<Rightarrow> readings \<Rightarrow> (string \<times> sandbox_tenant) list option \<Rightarrow> sandbox" where
  "load_store E r file = (case file of None \<Rightarrow> reset_store E r | Some d \<Rightarrow> \<lparr>sb_data = d, sb_file = Some d\<rparr>)"

definition find_tenant :: "string \<Rightarrow> sandbox \<Rightarrow> exn + sandbox_tenant" where
  "find_tenant tenant s = (case map_of (sb_data s) tenant of
     None \<Rightarrow> Inl (KeyError ''tenant not found'') | Some t \<Rightarrow> Inr t)"

definition on_tenant :: "string \<Rightarrow> 'a tenant_op \<Rightarrow> sandbox \<Rightarrow> (exn + 'a) \<times> sandbox" where
  "on_tenant tenant f s =
     (case find_tenant tenant s of
        Inl e \<Rightarrow> (Inl e, s)
      | Inr t \<Rightarrow> (case f t of (x, None) \<Rightarrow> (Inr x, s) | (x, Some t') \<Rightarrow> (Inr x, save (dict_set tenant t' (sb_data s)))))"

text \<open>\<open>workflow\<close>: four operations, each with its own readings.\<close>

definition workflow :: "sandbox_env \<Rightarrow> string \<Rightarrow> (nat \<Rightarrow> readings) \<Rightarrow> string \<Rightarrow> sandbox \<Rightarrow> (exn + kept_answer) \<times> sandbox" where
  "workflow E tenant r idem s0 =
     (case on_tenant tenant (approve_proposal tenant (r 0) idem) s0 of
        (Inl e, s1) \<Rightarrow> (Inl e, s1)
      | (Inr _, s1) \<Rightarrow>
          (case on_tenant tenant (complete_verification E tenant (r 1)) s1 of
             (Inl e, s2) \<Rightarrow> (Inl e, s2)
           | (Inr _, s2) \<Rightarrow>
               (case on_tenant tenant (record_evidence E tenant (r 2) ''delivery'' ''legacy-delivery'') s2 of
                  (Inl e, s3) \<Rightarrow> (Inl e, s3)
                | (Inr _, s3) \<Rightarrow> on_tenant tenant (record_evidence E tenant (r 3) ''cod'' ''legacy-cod'') s3)))"

section \<open>The store as a transition system\<close>

text \<open>
  Any operation on any tenant, or a restart of the process; the two kinds of evidence are the
  ones its callers pass.
\<close>

inductive sandbox_use :: "sandbox_env \<Rightarrow> sandbox \<Rightarrow> sandbox \<Rightarrow> bool" for E where
  sandbox_message: "on_tenant tenant (receive_message r msg) s = (x, s') \<Longrightarrow> sandbox_use E s s'"
| sandbox_approve: "on_tenant tenant (approve_proposal tenant r idem) s = (y, s') \<Longrightarrow> sandbox_use E s s'"
| sandbox_verify: "on_tenant tenant (complete_verification E tenant r) s = (z, s') \<Longrightarrow> sandbox_use E s s'"
| sandbox_evidence: "kind \<in> {''delivery'', ''cod''} \<Longrightarrow> on_tenant tenant (record_evidence E tenant r kind event_id) s = (y, s') \<Longrightarrow>
    sandbox_use E s s'"
| sandbox_dispute: "on_tenant tenant (dispute_reverse tenant r) s = (v, s') \<Longrightarrow> sandbox_use E s s'"
| sandbox_restart: "sandbox_use E s (load_store E r (sb_file s))"

text \<open>A reset starts over.\<close>

definition sandbox_step :: "sandbox_env \<Rightarrow> sandbox \<Rightarrow> sandbox \<Rightarrow> bool" where
  "sandbox_step E s s' \<longleftrightarrow> sandbox_use E s s' \<or> (\<exists>r. s' = reset_store E r)"

definition sandbox_reachable :: "sandbox_env \<Rightarrow> sandbox \<Rightarrow> bool" where
  "sandbox_reachable E s \<longleftrightarrow> (\<exists>r. (sandbox_step E)\<^sup>*\<^sup>* (reset_store E r) s)"

end
