(* ===== verification/SandboxFacts.thy ===== *)
theory SandboxFacts
  imports Sandbox
begin

text \<open>
  The sandbox store: what every operation keeps of a tenant, that the fee is charged at most
  once, that the workflow always ends billable, and that tenants do not touch each other.
\<close>

section \<open>Readiness\<close>

lemma checklist_values:
  "map_of (checklist t) ''customer_verified'' = Some (tn_checks t \<noteq> [] \<and> list_all (\<lambda>c. vc_result c = ''passed'') (tn_checks t))"
  "map_of (checklist t) ''attribution_eligible'' = Some (tn_attribution_results t \<noteq> [])"
  "map_of (checklist t) ''order_confirmed'' = Some (tn_orders t \<noteq> [] \<and> od_status (hd (tn_orders t)) = ''confirmed'')"
  "map_of (checklist t) ''delivery_received'' = Some (tn_shipments t \<noteq> [])"
  "map_of (checklist t) ''cod_settled'' = Some (tn_settlement_events t \<noteq> [])"
  "map_of (checklist t) ''contract_eligible'' = Some (cx_status (hd (tn_contract_versions t)) = ''active'')"
  by (simp_all add: checklist_def)

definition evidenced :: "sandbox_tenant \<Rightarrow> bool" where
  "evidenced t \<longleftrightarrow> tn_checks t \<noteq> [] \<and> list_all (\<lambda>c. vc_result c = ''passed'') (tn_checks t) \<and> tn_attribution_results t \<noteq> [] \<and>
     tn_orders t \<noteq> [] \<and> od_status (hd (tn_orders t)) = ''confirmed'' \<and> tn_shipments t \<noteq> [] \<and> tn_settlement_events t \<noteq> [] \<and>
     cx_status (hd (tn_contract_versions t)) = ''active''"

lemma missing_reasons_checklist: "missing_reasons (checklist t) = [] \<longleftrightarrow> evidenced t"
  by (auto simp: missing_reasons_def reason_labels_def checklist_values evidenced_def)

lemma outcome_billable: "oc_state (outcome_of tenant r k t) = ''billable'' \<longleftrightarrow> evidenced t"
  by (simp add: outcome_of_def Let_def missing_reasons_checklist)

section \<open>The invariant of a tenant\<close>

definition is_debit :: "ledger_entry \<Rightarrow> bool" where
  "is_debit e \<longleftrightarrow> le_direction e = ''debit''"

text \<open>The ledger has one debit for the bill and one credit for the dispute, if there are any.\<close>

definition settled :: "sandbox_tenant \<Rightarrow> bool" where
  "settled t \<longleftrightarrow> length (tn_billable_results t) \<le> 1 \<and> length (tn_disputes t) \<le> 1 \<and>
     length (filter is_debit (tn_ledger_entries t)) = length (tn_billable_results t) \<and>
     length (filter (\<lambda>e. \<not> is_debit e) (tn_ledger_entries t)) = length (tn_disputes t) \<and>
     (\<forall>e \<in> set (tn_ledger_entries t). le_amount_minor e = fee_minor \<and> le_id e = (if is_debit e then si_ledger (tn_ids t) else si_credit (tn_ids t))) \<and>
     (\<forall>d \<in> set (tn_disputes t). dp_status d = ''reversed'')"

definition backed :: "sandbox_tenant \<Rightarrow> bool" where
  "backed t \<longleftrightarrow> (\<forall>k \<in> fst ` set (tn_idempotency t).
     (\<forall>idem. k = approve_key idem \<longrightarrow> tn_orders t \<noteq> [] \<and> tn_attribution_results t \<noteq> []) \<and>
     (\<forall>i. k = receipt_key ''delivery'' i \<longrightarrow> tn_shipments t \<noteq> []) \<and>
     (\<forall>i. k = receipt_key ''cod'' i \<longrightarrow> tn_settlement_events t \<noteq> []))"

definition based :: "sandbox_env \<Rightarrow> string \<Rightarrow> sandbox_tenant \<Rightarrow> bool" where
  "based E tenant t \<longleftrightarrow> tn_ids t = ids_of E tenant \<and> tn_conversations t \<noteq> [] \<and>
     tn_contract_versions t \<noteq> [] \<and> cx_status (hd (tn_contract_versions t)) = ''active'' \<and>
     (\<forall>x \<in> set (tn_orders t). od_status x = ''confirmed'') \<and>
     (\<forall>c \<in> set (tn_checks t). vc_result c = ''passed'')"

text \<open>Once evaluated, the latest outcome tells whether the fee was charged.\<close>

definition judged :: "sandbox_tenant \<Rightarrow> bool" where
  "judged t \<longleftrightarrow> (\<forall>x \<in> set (tn_outcomes t). oc_state x = ''billable'' \<longrightarrow> tn_billable_results t \<noteq> []) \<and>
     (tn_billable_results t \<noteq> [] \<longrightarrow> evidenced t)"

definition tenant_ok :: "sandbox_env \<Rightarrow> string \<Rightarrow> sandbox_tenant \<Rightarrow> bool" where
  "tenant_ok E tenant t \<longleftrightarrow> settled t \<and> backed t \<and> based E tenant t \<and> judged t"

lemma key_shapes [simp]:
  "approve_key a \<noteq> receipt_key k i" "receipt_key k i \<noteq> approve_key a"
  "receipt_key ''delivery'' i \<noteq> receipt_key ''cod'' j" "receipt_key ''cod'' i \<noteq> receipt_key ''delivery'' j"
  by (simp_all add: approve_key_def receipt_key_def)

text \<open>The evaluation of a tenant whose ledger agrees with its bill.\<close>

lemma evaluate_keeps:
  assumes "sandbox_evaluate tenant r t = (x, t')" "settled t"
    and "tn_billable_results t \<noteq> [] \<Longrightarrow> evidenced t"
  shows "settled t' \<and> judged t' \<and> tn_outcomes t' = [x] \<and> (oc_state x = ''billable'' \<longleftrightarrow> evidenced t) \<and>
    (oc_state x = ''billable'' \<longrightarrow> tn_billable_results t' \<noteq> []) \<and> tn_idempotency t' = tn_idempotency t \<and> tn_ids t' = tn_ids t \<and>
    tn_conversations t' = tn_conversations t \<and> tn_contract_versions t' = tn_contract_versions t \<and> tn_orders t' = tn_orders t \<and>
    tn_checks t' = tn_checks t \<and> tn_attribution_results t' = tn_attribution_results t \<and> tn_shipments t' = tn_shipments t \<and>
    tn_settlement_events t' = tn_settlement_events t \<and> tn_disputes t' = tn_disputes t \<and> tn_leads t' = tn_leads t \<and>
    tn_heap t' = tn_heap t"
proof -
  have x: "x = outcome_of tenant r 0 t" using assms(1) by (auto simp: sandbox_evaluate_def Let_def)
  have ev: "evidenced (t\<lparr>tn_outcomes := a, tn_billable_results := b, tn_ledger_entries := c, tn_audit_events := d\<rparr>) = evidenced t"
    "evidenced (t\<lparr>tn_outcomes := a\<rparr>) = evidenced t" for a b c d
    by (simp_all add: evidenced_def)
  show ?thesis
  proof (cases "evidenced t \<and> tn_billable_results t = []")
    case True
    then show ?thesis using assms x outcome_billable [of tenant r 0 t]
      by (auto simp: sandbox_evaluate_def Let_def settled_def judged_def ev debit_of_def is_debit_def)
  next
    case False
    then show ?thesis using assms x outcome_billable [of tenant r 0 t]
      by (auto simp: sandbox_evaluate_def Let_def settled_def judged_def ev)
  qed
qed

section \<open>Every operation keeps it\<close>

definition op_keeps :: "(sandbox_tenant \<Rightarrow> bool) \<Rightarrow> 'a tenant_op \<Rightarrow> bool" where
  "op_keeps P f \<longleftrightarrow> (\<forall>t x t'. f t = (x, Some t') \<longrightarrow> P t \<longrightarrow> P t')"

lemma op_keepsI: "(\<And>t x t'. f t = (x, Some t') \<Longrightarrow> P t \<Longrightarrow> P t') \<Longrightarrow> op_keeps P f"
  by (simp add: op_keeps_def)

lemma receive_message_keeps: "op_keeps (tenant_ok E tenant) (receive_message r msg)"
  by (rule op_keepsI) (auto simp: receive_message_def Let_def tenant_ok_def settled_def backed_def based_def judged_def evidenced_def)

lemma approve_keeps: "op_keeps (tenant_ok E tenant) (approve_proposal tenant r idem)"
proof (rule op_keepsI)
  fix t x t'
  assume a: "approve_proposal tenant r idem t = (x, Some t')" and ok: "tenant_ok E tenant t"
  define t1 where "t1 = t\<lparr>tn_heap := tn_heap t @ [\<lparr>ld_id = si_lead (tn_ids t), ld_tenant_id = tenant,
      ld_stage = ''pending_verification'', ld_contact_id = si_contact (tn_ids t), ld_created_at = rd_at r 0\<rparr>],
    tn_leads := [length (tn_heap t)], tn_orders := [order_of tenant r (tn_ids t)],
    tn_attribution_results := [attribution_of tenant r (tn_ids t)],
    tn_audit_events := tn_audit_events t @ [audit_of r 3 0 ''tool_proposal.approved'' (od_id (order_of tenant r (tn_ids t)))]\<rparr>"
  obtain y t2 where e: "sandbox_evaluate tenant (after_readings 4 1 r) t1 = (y, t2)" by fastforce
  obtain res where t': "t' = t2\<lparr>tn_idempotency := dict_set (approve_key idem) res (tn_idempotency t2)\<rparr>"
    using a e by (auto simp: approve_proposal_def Let_def t1_def split: option.splits)
  have t1: "settled t1 = settled t" "evidenced t \<longrightarrow> evidenced t1" "tn_billable_results t1 = tn_billable_results t"
    "tn_idempotency t1 = tn_idempotency t" "tn_orders t1 \<noteq> []" "tn_attribution_results t1 \<noteq> []"
    "\<forall>x \<in> set (tn_orders t1). od_status x = ''confirmed''" "tn_shipments t1 = tn_shipments t"
    "tn_settlement_events t1 = tn_settlement_events t" "tn_ids t1 = tn_ids t" "tn_conversations t1 = tn_conversations t"
    "tn_contract_versions t1 = tn_contract_versions t" "tn_checks t1 = tn_checks t"
    by (simp_all add: t1_def settled_def evidenced_def order_of_def)
  have st: "settled t1" "tn_billable_results t1 \<noteq> [] \<Longrightarrow> evidenced t1"
    using ok t1 by (auto simp: tenant_ok_def judged_def)
  note ev = evaluate_keeps [OF e st]
  have j: "judged t'" using ev by (auto simp: judged_def evidenced_def t')
  have s: "settled t'" using ev by (auto simp: settled_def t')
  have b: "backed t'" using ev ok t1 unfolding backed_def t' by (auto simp: tenant_ok_def backed_def)
  show "tenant_ok E tenant t'" using ev ok t1 j s b by (auto simp: tenant_ok_def based_def t')
qed

lemma mark_verified_same:
  "tn_ids (mark_verified t) = tn_ids t" "tn_conversations (mark_verified t) = tn_conversations t"
  "tn_contract_versions (mark_verified t) = tn_contract_versions t" "tn_orders (mark_verified t) = tn_orders t"
  "tn_checks (mark_verified t) = tn_checks t" "tn_attribution_results (mark_verified t) = tn_attribution_results t"
  "tn_shipments (mark_verified t) = tn_shipments t" "tn_settlement_events (mark_verified t) = tn_settlement_events t"
  "tn_disputes (mark_verified t) = tn_disputes t" "tn_billable_results (mark_verified t) = tn_billable_results t"
  "tn_ledger_entries (mark_verified t) = tn_ledger_entries t" "tn_idempotency (mark_verified t) = tn_idempotency t"
  "tn_outcomes (mark_verified t) = tn_outcomes t" "tn_audit_events (mark_verified t) = tn_audit_events t"
  "tn_leads (mark_verified t) = tn_leads t" "length (tn_heap (mark_verified t)) = length (tn_heap t)"
  by (simp_all add: mark_verified_def split: list.split)

lemma checks_passed: "\<forall>c \<in> set (checks_of E tenant r). vc_result c = ''passed''" "checks_of E tenant r \<noteq> []"
  by (simp_all add: checks_of_def check_of_def)

lemma verification_keeps: "op_keeps (tenant_ok E tenant) (complete_verification E tenant r)"
proof (rule op_keepsI)
  fix t x t'
  assume a: "complete_verification E tenant r t = (x, Some t')" and ok: "tenant_ok E tenant t"
  define t2 where "t2 = (mark_verified (t\<lparr>tn_checks := checks_of E tenant r\<rparr>))\<lparr>tn_audit_events := tn_audit_events
    (mark_verified (t\<lparr>tn_checks := checks_of E tenant r\<rparr>)) @ [audit_of r 5 0 ''lead.verification_completed'' (si_lead (tn_ids
      (mark_verified (t\<lparr>tn_checks := checks_of E tenant r\<rparr>))))]\<rparr>"
  obtain y where e: "sandbox_evaluate tenant (after_readings 6 1 r) t2 = (y, t')"
    using a by (auto simp: complete_verification_def Let_def t2_def split: prod.splits)
  have "settled t2" "tn_billable_results t2 \<noteq> [] \<Longrightarrow> evidenced t2"
    using ok checks_passed [of E tenant r]
    by (auto simp: tenant_ok_def settled_def judged_def evidenced_def based_def t2_def mark_verified_same list_all_iff)
  note ev = evaluate_keeps [OF e this]
  show "tenant_ok E tenant t'"
    using ev ok checks_passed [of E tenant r]
    by (auto simp: tenant_ok_def based_def backed_def t2_def mark_verified_same)
qed

lemma evidence_keeps:
  assumes "kind \<in> {''delivery'', ''cod''}"
  shows "op_keeps (tenant_ok E tenant) (record_evidence E tenant r kind i)"
proof (rule op_keepsI)
  fix t x t'
  assume a: "record_evidence E tenant r kind i t = (x, Some t')" and ok: "tenant_ok E tenant t"
  obtain t2 y t3 where e: "sandbox_evaluate tenant (after_readings 3 1 r) t2 = (y, t3)"
    and t2: "tn_ids t2 = tn_ids t" "tn_conversations t2 = tn_conversations t" "tn_contract_versions t2 = tn_contract_versions t"
      "tn_orders t2 = tn_orders t" "tn_checks t2 = tn_checks t" "tn_attribution_results t2 = tn_attribution_results t"
      "tn_disputes t2 = tn_disputes t" "tn_billable_results t2 = tn_billable_results t" "tn_idempotency t2 = tn_idempotency t"
      "tn_ledger_entries t2 = tn_ledger_entries t" "tn_shipments t \<noteq> [] \<longrightarrow> tn_shipments t2 \<noteq> []"
      "tn_settlement_events t \<noteq> [] \<longrightarrow> tn_settlement_events t2 \<noteq> []" "kind = ''delivery'' \<longrightarrow> tn_shipments t2 \<noteq> []"
      "kind \<noteq> ''delivery'' \<longrightarrow> tn_settlement_events t2 \<noteq> []"
    and t': "t' = t3\<lparr>tn_idempotency := dict_set (receipt_key kind i) (KeptEvidence kind y) (tn_idempotency t3)\<rparr>"
    using a by (auto simp: record_evidence_def Let_def split: option.splits prod.splits if_splits)
  have "settled t2" "tn_billable_results t2 \<noteq> [] \<Longrightarrow> evidenced t2"
    using ok t2 by (auto simp: tenant_ok_def settled_def judged_def evidenced_def based_def)
  note ev = evaluate_keeps [OF e this]
  have j: "judged t'" using ev by (auto simp: judged_def evidenced_def t')
  have s: "settled t'" using ev by (auto simp: settled_def t')
  have b: "backed t'" using ev ok t2 assms unfolding backed_def t' by (auto simp: tenant_ok_def backed_def)
  show "tenant_ok E tenant t'" using ev ok t2 j s b by (auto simp: tenant_ok_def based_def t')
qed

lemma dispute_keeps:
  assumes "si_ledger (ids_of E tenant) \<noteq> si_credit (ids_of E tenant)"
  shows "op_keeps (tenant_ok E tenant) (dispute_reverse tenant r)"
proof (rule op_keepsI)
  fix t x t'
  assume a: "dispute_reverse tenant r t = (x, Some t')" and ok: "tenant_ok E tenant t"
  have d: "tn_disputes t = []"
    using a ok by (cases "tn_disputes t") (auto simp: dispute_reverse_def tenant_ok_def settled_def split: if_splits)
  have no: "\<not> list_ex (\<lambda>e. le_id e = si_credit (tn_ids t)) (tn_ledger_entries t)"
    using ok assms d by (auto simp: tenant_ok_def settled_def based_def list_ex_iff filter_empty_conv split: if_splits)
  obtain x' xs where t': "t' = t\<lparr>tn_disputes := [x'], tn_ledger_entries := tn_ledger_entries t @ [credit_of tenant r 14 t],
      tn_audit_events := xs\<rparr>" "dp_status x' = ''reversed''"
    using a d no by (auto simp: dispute_reverse_def reverse_new_def Let_def credit_of_def)
  have parts: "settled t" "backed t" "based E tenant t" "judged t" using ok by (simp_all add: tenant_ok_def)
  have "settled t'" using parts(1) d by (auto simp: settled_def t' credit_of_def is_debit_def)
  moreover have "backed t'" using parts(2) by (simp add: backed_def t')
  moreover have "based E tenant t'" using parts(3) by (simp add: based_def t')
  moreover have "judged t'" using parts(4) by (simp add: judged_def evidenced_def t')
  ultimately show "tenant_ok E tenant t'" by (simp add: tenant_ok_def)
qed

section \<open>The file\<close>

lemma unshare_kept_keys: "unshare_kept heap n kept = (kept', leads) \<Longrightarrow> map fst kept' = map fst kept"
  by (induction heap n kept arbitrary: kept' leads rule: unshare_kept.induct) (auto split: prod.splits)

lemma by_value_ok: "tenant_ok E tenant (by_value t) = tenant_ok E tenant t"
proof -
  obtain kept leads where u: "unshare_kept (tn_heap t) (length (tn_leads t)) (tn_idempotency t) = (kept, leads)" by fastforce
  have "fst ` set kept = fst ` set (tn_idempotency t)" using unshare_kept_keys [OF u] by (metis set_map)
  then show ?thesis
    by (simp add: by_value_def u tenant_ok_def settled_def backed_def based_def judged_def evidenced_def)
qed

definition data_ok :: "sandbox_env \<Rightarrow> (string \<times> sandbox_tenant) list \<Rightarrow> bool" where
  "data_ok E d \<longleftrightarrow> distinct (map fst d) \<and> fst ` set d = {demo_tenant, other_tenant} \<and> (\<forall>(k, t) \<in> set d. tenant_ok E k t)"

definition store_ok :: "sandbox_env \<Rightarrow> sandbox \<Rightarrow> bool" where
  "store_ok E s \<longleftrightarrow> data_ok E (sb_data s) \<and> (\<exists>d. sb_file s = Some d \<and> data_ok E d)"

lemma data_ok_written: "data_ok E (written d) = data_ok E d"
  by (auto simp: data_ok_def written_def comp_def image_image case_prod_beta by_value_ok)

lemma store_ok_save: "data_ok E d \<Longrightarrow> store_ok E (save d)"
  by (simp add: store_ok_def save_def data_ok_written)

lemma tenants_differ: "demo_tenant \<noteq> other_tenant"
  by (simp add: demo_tenant_def other_tenant_def)

lemma seed_ok: "tenant_ok E tenant (tenant_seed E r tenant name k)"
  by (simp add: tenant_seed_def Let_def tenant_ok_def settled_def backed_def based_def judged_def)

lemma reset_ok: "store_ok E (reset_store E r)"
  unfolding reset_store_def
  by (rule store_ok_save) (auto simp: data_ok_def seed_data_def seed_ok tenants_differ)

lemma data_ok_set:
  assumes "data_ok E d" "map_of d tenant = Some t" "tenant_ok E tenant t'"
  shows "data_ok E (dict_set tenant t' d)"
proof -
  have "tenant_ok E k x" if "(k, x) \<in> set (dict_set tenant t' d)" for k x
  proof -
    have "(k, x) \<in> set d \<or> k = tenant \<and> x = t'" using that by (induction d) (auto split: if_splits)
    then show ?thesis using assms(1,3) by (auto simp: data_ok_def)
  qed
  moreover have "tenant \<in> fst ` set d" using assms(2) by (metis map_of_eq_None_iff option.distinct(1))
  ultimately show ?thesis using assms(1) unfolding data_ok_def by (simp add: insert_absorb) blast
qed

lemma on_tenant_keeps:
  assumes "on_tenant tenant f s = (x, s')" "op_keeps (tenant_ok E tenant) f" "store_ok E s"
  shows "store_ok E s'"
proof (cases "map_of (sb_data s) tenant")
  case (Some t)
  have ok: "tenant_ok E tenant t" using assms(3) Some by (auto simp: store_ok_def data_ok_def dest: map_of_SomeD)
  obtain y u where f: "f t = (y, u)" by fastforce
  show ?thesis
  proof (cases u)
    case None
    with assms Some f show ?thesis by (auto simp: on_tenant_def find_tenant_def)
  next
    case (Some t')
    have "tenant_ok E tenant t'" using assms(2) f Some ok unfolding op_keeps_def by blast
    then have "data_ok E (dict_set tenant t' (sb_data s))"
      using assms(3) \<open>map_of (sb_data s) tenant = Some t\<close> data_ok_set by (auto simp: store_ok_def)
    with assms(1) \<open>map_of (sb_data s) tenant = Some t\<close> f Some show ?thesis
      by (auto simp: on_tenant_def find_tenant_def intro: store_ok_save)
  qed
qed (use assms in \<open>auto simp: on_tenant_def find_tenant_def\<close>)

text \<open>What \<open>uuid5\<close> is relied on for: a debit and a credit have different identifiers.\<close>

definition distinct_ids :: "sandbox_env \<Rightarrow> bool" where
  "distinct_ids E \<longleftrightarrow> (\<forall>tenant. si_ledger (ids_of E tenant) \<noteq> si_credit (ids_of E tenant))"

lemma use_keeps: "sandbox_use E s s' \<Longrightarrow> distinct_ids E \<Longrightarrow> store_ok E s \<Longrightarrow> store_ok E s'"
proof (induction rule: sandbox_use.induct)
  case (sandbox_restart s r)
  then show ?case by (auto simp: load_store_def store_ok_def)
next
  case (sandbox_dispute tenant r s v s')
  then show ?case using on_tenant_keeps dispute_keeps unfolding distinct_ids_def by blast
qed (blast intro: on_tenant_keeps receive_message_keeps approve_keeps verification_keeps evidence_keeps)+

lemma reachable_store_ok:
  assumes "sandbox_reachable E s" "distinct_ids E"
  shows "store_ok E s"
proof -
  obtain r where "(sandbox_step E)\<^sup>*\<^sup>* (reset_store E r) s" using assms(1) unfolding sandbox_reachable_def by blast
  then show ?thesis
    by (induction rule: rtranclp_induct) (auto simp: reset_ok sandbox_step_def intro: use_keeps assms(2))
qed

lemma store_lookup: "store_ok E s \<Longrightarrow> map_of (sb_data s) tenant = Some t \<Longrightarrow> tenant_ok E tenant t"
  by (auto simp: store_ok_def data_ok_def dest: map_of_SomeD)

lemma reachable_tenant_ok:
  assumes "sandbox_reachable E s" "distinct_ids E" "map_of (sb_data s) tenant = Some t"
  shows "tenant_ok E tenant t"
  using store_lookup [OF reachable_store_ok [OF assms(1,2)] assms(3)] .

section \<open>The fee\<close>

lemma settled_fee:
  assumes "settled t"
  shows "performance_fee t = fee_minor * (int (length (tn_billable_results t)) - int (length (tn_disputes t)))"
proof -
  have "sum_list (map (\<lambda>e. if le_direction e = ''debit'' then le_amount_minor e else - le_amount_minor e) es) =
      fee_minor * (int (length (filter is_debit es)) - int (length (filter (\<lambda>e. \<not> is_debit e) es)))"
    if "\<forall>e \<in> set es. le_amount_minor e = fee_minor" for es
    using that by (induction es) (auto simp: is_debit_def algebra_simps)
  then show ?thesis using assms by (simp add: settled_def performance_fee_def)
qed

text \<open>
  C24. A tenant is charged the fee at most once and credited at most once.  In every state the
  sandbox reaches, through any operations, resets and restarts, the performance fee of a tenant
  is 150 BDT for its bill, if there is one, less 150 BDT for its dispute, if there is one; there
  is a bill only if all the evidence is there, and whenever an outcome says billable.
\<close>

theorem sandbox_fee_once:
  assumes "sandbox_reachable E s" "distinct_ids E" "map_of (sb_data s) tenant = Some t"
  shows "length (tn_billable_results t) \<le> 1 \<and> length (tn_disputes t) \<le> 1 \<and>
    pf_performance_fee_minor (profit t) = fee_minor * (int (length (tn_billable_results t)) - int (length (tn_disputes t))) \<and>
    (tn_billable_results t \<noteq> [] \<longrightarrow> evidenced t) \<and>
    (\<forall>x \<in> set (tn_outcomes t). oc_state x = ''billable'' \<longrightarrow> tn_billable_results t \<noteq> [])"
  using reachable_tenant_ok [OF assms] settled_fee [of t]
  by (simp add: tenant_ok_def settled_def judged_def profit_def)

section \<open>The workflow\<close>

definition evaluated :: "sandbox_tenant \<Rightarrow> bool" where
  "evaluated t \<longleftrightarrow> (\<exists>x. tn_outcomes t = [x] \<and> (oc_state x = ''billable'' \<longleftrightarrow> evidenced t))"

definition applied :: "sandbox_tenant option \<Rightarrow> sandbox_tenant \<Rightarrow> sandbox_tenant" where
  "applied u t = (case u of None \<Rightarrow> t | Some t' \<Rightarrow> t')"

lemma applied_simps [simp]: "applied None t = t" "applied (Some t') t = t'"
  by (simp_all add: applied_def)

lemma on_tenant_eq:
  assumes "map_of (sb_data s) tenant = Some t" "f t = (x, u)"
  shows "\<exists>s'. on_tenant tenant f s = (Inr x, s') \<and> map_of (sb_data s') tenant = Some (applied u t)"
  using assms by (cases u) (simp_all add: on_tenant_def find_tenant_def save_def)

lemma evaluate_evaluated:
  assumes "sandbox_evaluate tenant r t = (x, t')"
  shows "tn_outcomes t' = [x] \<and> evidenced t' = evidenced t \<and> (oc_state x = ''billable'' \<longleftrightarrow> evidenced t) \<and>
    tn_orders t' = tn_orders t \<and> tn_attribution_results t' = tn_attribution_results t \<and> tn_checks t' = tn_checks t \<and>
    tn_shipments t' = tn_shipments t \<and> tn_settlement_events t' = tn_settlement_events t"
proof -
  have x: "x = outcome_of tenant r 0 t" using assms by (simp add: sandbox_evaluate_def Let_def)
  have "\<exists>b l a. t' = t\<lparr>tn_outcomes := [x], tn_billable_results := b, tn_ledger_entries := l, tn_audit_events := a\<rparr>"
  proof (cases "evidenced t \<and> tn_billable_results t = []")
    case True
    then show ?thesis using assms x outcome_billable [of tenant r 0 t] by (simp add: sandbox_evaluate_def Let_def) blast
  next
    case False
    then have "t' = t\<lparr>tn_outcomes := [x]\<rparr>" using assms x outcome_billable [of tenant r 0 t]
      by (auto simp: sandbox_evaluate_def Let_def)
    then show ?thesis
      by (intro exI [of _ "tn_billable_results t"] exI [of _ "tn_ledger_entries t"] exI [of _ "tn_audit_events t"]) simp
  qed
  then obtain b l a where t': "t' = t\<lparr>tn_outcomes := [x], tn_billable_results := b, tn_ledger_entries := l, tn_audit_events := a\<rparr>"
    by blast
  have "evidenced t' = evidenced t" by (simp add: t' evidenced_def)
  moreover have "oc_state x = ''billable'' \<longleftrightarrow> evidenced t" unfolding x by (rule outcome_billable)
  ultimately show ?thesis by (simp add: t')
qed

lemma backedD:
  assumes "backed t" "map_of (tn_idempotency t) k = Some kept"
  shows "k = approve_key idem \<Longrightarrow> tn_orders t \<noteq> [] \<and> tn_attribution_results t \<noteq> []"
    and "k = receipt_key ''delivery'' i \<Longrightarrow> tn_shipments t \<noteq> []"
    and "k = receipt_key ''cod'' i \<Longrightarrow> tn_settlement_events t \<noteq> []"
proof -
  have "k \<in> fst ` set (tn_idempotency t)" using assms(2) by (metis map_of_eq_None_iff option.distinct(1))
  then show "k = approve_key idem \<Longrightarrow> tn_orders t \<noteq> [] \<and> tn_attribution_results t \<noteq> []"
    "k = receipt_key ''delivery'' i \<Longrightarrow> tn_shipments t \<noteq> []" "k = receipt_key ''cod'' i \<Longrightarrow> tn_settlement_events t \<noteq> []"
    using assms(1) unfolding backed_def by blast+
qed

lemma approve_result:
  assumes "approve_proposal tenant r idem t = (x, u)" "backed t"
  shows "tn_orders (applied u t) \<noteq> [] \<and> tn_attribution_results (applied u t) \<noteq> []"
proof (cases "map_of (tn_idempotency t) (approve_key idem)")
  case None
  then show ?thesis using assms(1)
    by (auto simp: approve_proposal_def Let_def dest!: evaluate_evaluated split: prod.splits)
next
  case (Some kept)
  then show ?thesis using assms(1) backedD(1) [OF assms(2) Some refl] by (simp add: approve_proposal_def)
qed

lemma verification_result:
  assumes "complete_verification E tenant r t = (x, u)"
  shows "evaluated (applied u t) \<and> tn_orders (applied u t) = tn_orders t \<and>
    tn_attribution_results (applied u t) = tn_attribution_results t \<and> tn_checks (applied u t) \<noteq> []"
  using assms by (auto simp: complete_verification_def Let_def evaluated_def mark_verified_same checks_passed
      dest!: evaluate_evaluated split: prod.splits)

lemma evidence_result:
  assumes "record_evidence E tenant r kind i t = (x, u)" "backed t" "kind \<in> {''delivery'', ''cod''}" "evaluated t"
  shows "evaluated (applied u t) \<and> tn_orders (applied u t) = tn_orders t \<and>
    tn_attribution_results (applied u t) = tn_attribution_results t \<and> tn_checks (applied u t) = tn_checks t \<and>
    (tn_shipments t \<noteq> [] \<or> kind = ''delivery'' \<longrightarrow> tn_shipments (applied u t) \<noteq> []) \<and>
    (tn_settlement_events t \<noteq> [] \<or> kind = ''cod'' \<longrightarrow> tn_settlement_events (applied u t) \<noteq> [])"
proof (cases "map_of (tn_idempotency t) (receipt_key kind i)")
  case None
  obtain t2 y t3 where e: "sandbox_evaluate tenant (after_readings 3 1 r) t2 = (y, t3)"
    and t2: "tn_orders t2 = tn_orders t" "tn_attribution_results t2 = tn_attribution_results t" "tn_checks t2 = tn_checks t"
      "tn_shipments t \<noteq> [] \<or> kind = ''delivery'' \<longrightarrow> tn_shipments t2 \<noteq> []"
      "tn_settlement_events t \<noteq> [] \<or> kind \<noteq> ''delivery'' \<longrightarrow> tn_settlement_events t2 \<noteq> []"
    and u: "u = Some (t3\<lparr>tn_idempotency := dict_set (receipt_key kind i) (KeptEvidence kind y) (tn_idempotency t3)\<rparr>)"
    using assms(1) None by (auto simp: record_evidence_def Let_def split: prod.splits if_splits)
  have "evidenced (applied u t) = evidenced t3" "tn_outcomes (applied u t) = tn_outcomes t3"
    by (simp_all add: u evidenced_def)
  then show ?thesis using evaluate_evaluated [OF e] t2 u assms(3) by (auto simp: evaluated_def)
next
  case (Some kept)
  then have "u = None" using assms(1) by (simp add: record_evidence_def)
  then show ?thesis using assms(3,4) backedD(2,3) [OF assms(2) Some] by auto
qed

lemma tenant_step:
  assumes p: "store_ok E p" "map_of (sb_data p) tenant = Some a" "op_keeps (tenant_ok E tenant) f"
  shows "\<exists>x u s'. f a = (x, u) \<and> on_tenant tenant f p = (Inr x, s') \<and> map_of (sb_data s') tenant = Some (applied u a) \<and>
    store_ok E s' \<and> tenant_ok E tenant (applied u a)"
proof -
  obtain x u where f: "f a = (x, u)" by fastforce
  obtain s' where s': "on_tenant tenant f p = (Inr x, s')" "map_of (sb_data s') tenant = Some (applied u a)"
    using on_tenant_eq [of p tenant a f x u] p(2) f by blast
  have so: "store_ok E s'" by (rule on_tenant_keeps [where f = f, OF s'(1) p(3,1)])
  show ?thesis
    by (intro exI conjI) (rule f, rule s'(1), rule s'(2), rule so, rule store_lookup [OF so s'(2)])
qed

text \<open>
  C35. The demo workflow always succeeds.  In every state the sandbox reaches, running it for a
  tenant, with whatever idempotency key and however often evidence has been recorded before, answers,
  and afterwards the tenant's outcome is billable and its fee is charged exactly once.
\<close>

theorem workflow_billable:
  assumes reach: "sandbox_reachable E s" and ids: "distinct_ids E" and t: "map_of (sb_data s) tenant = Some t"
  shows "\<exists>x s' t' y. workflow E tenant r idem s = (Inr x, s') \<and> map_of (sb_data s') tenant = Some t' \<and>
    tn_outcomes t' = [y] \<and> oc_state y = ''billable'' \<and> length (tn_billable_results t') = 1"
proof -
  have ok: "store_ok E s" by (rule reachable_store_ok [OF reach ids])
  have ok0: "backed t" using reachable_tenant_ok [OF reach ids t] by (simp add: tenant_ok_def)
  obtain x1 u1 s1 where 1: "approve_proposal tenant (r 0) idem t = (x1, u1)"
      "on_tenant tenant (approve_proposal tenant (r 0) idem) s = (Inr x1, s1)"
      "map_of (sb_data s1) tenant = Some (applied u1 t)" "store_ok E s1"
    using tenant_step [OF ok t approve_keeps] by blast
  let ?t1 = "applied u1 t"
  obtain x2 u2 s2 where 2: "complete_verification E tenant (r 1) ?t1 = (x2, u2)"
      "on_tenant tenant (complete_verification E tenant (r 1)) s1 = (Inr x2, s2)"
      "map_of (sb_data s2) tenant = Some (applied u2 ?t1)" "store_ok E s2" "tenant_ok E tenant (applied u2 ?t1)"
    using tenant_step [OF 1(4,3) verification_keeps] by blast
  let ?t2 = "applied u2 ?t1"
  obtain x3 u3 s3 where 3: "record_evidence E tenant (r 2) ''delivery'' ''legacy-delivery'' ?t2 = (x3, u3)"
      "on_tenant tenant (record_evidence E tenant (r 2) ''delivery'' ''legacy-delivery'') s2 = (Inr x3, s3)"
      "map_of (sb_data s3) tenant = Some (applied u3 ?t2)" "store_ok E s3" "tenant_ok E tenant (applied u3 ?t2)"
    using tenant_step [OF 2(4,3) evidence_keeps [of "''delivery''"]] by blast
  let ?t3 = "applied u3 ?t2"
  obtain x4 u4 s4 where 4: "record_evidence E tenant (r 3) ''cod'' ''legacy-cod'' ?t3 = (x4, u4)"
      "on_tenant tenant (record_evidence E tenant (r 3) ''cod'' ''legacy-cod'') s3 = (Inr x4, s4)"
      "map_of (sb_data s4) tenant = Some (applied u4 ?t3)" "tenant_ok E tenant (applied u4 ?t3)"
    using tenant_step [OF 3(4,3) evidence_keeps [of "''cod''"]] by blast
  let ?t4 = "applied u4 ?t3"
  have orders: "tn_orders ?t1 \<noteq> []" "tn_attribution_results ?t1 \<noteq> []" using approve_result [OF 1(1) ok0] by auto
  note v = verification_result [OF 2(1)]
  have b: "backed ?t2" "backed ?t3" using 2(5) 3(5) by (simp_all add: tenant_ok_def)
  have d: "evaluated ?t3" "tn_orders ?t3 = tn_orders ?t2" "tn_attribution_results ?t3 = tn_attribution_results ?t2"
    "tn_checks ?t3 = tn_checks ?t2" "tn_shipments ?t3 \<noteq> []"
    using evidence_result [OF 3(1) b(1)] v by auto
  have c: "evaluated ?t4" "tn_orders ?t4 = tn_orders ?t3" "tn_attribution_results ?t4 = tn_attribution_results ?t3"
    "tn_checks ?t4 = tn_checks ?t3" "tn_shipments ?t4 \<noteq> []" "tn_settlement_events ?t4 \<noteq> []"
    using evidence_result [OF 4(1) b(2) _ d(1)] d(5) by auto
  have parts: "based E tenant ?t4" "judged ?t4" "settled ?t4" using 4(4) by (simp_all add: tenant_ok_def)
  have "tn_orders ?t4 \<noteq> []" "tn_attribution_results ?t4 \<noteq> []" "tn_checks ?t4 \<noteq> []"
    using orders v d c by simp_all
  then have "evidenced ?t4" using parts(1) c(5,6) by (auto simp: evidenced_def based_def list_all_iff)
  then obtain y where y: "tn_outcomes ?t4 = [y]" "oc_state y = ''billable''" using c(1) by (auto simp: evaluated_def)
  have "length (tn_billable_results ?t4) \<le> 1" using parts(3) by (simp add: settled_def)
  moreover have "tn_billable_results ?t4 \<noteq> []" using parts(2) y by (auto simp: judged_def)
  ultimately have "length (tn_billable_results ?t4) = 1" by (cases "tn_billable_results ?t4") auto
  moreover have "workflow E tenant r idem s = (Inr x4, s4)" by (simp only: workflow_def 1(2) 2(2) 3(2) 4(2) prod.case sum.case)
  ultimately show ?thesis using 4(3) y by blast
qed

section \<open>Approvals\<close>

lemma evaluate_rest:
  "tn_heap (snd (sandbox_evaluate tenant r t)) = tn_heap t" "tn_leads (snd (sandbox_evaluate tenant r t)) = tn_leads t"
  "tn_idempotency (snd (sandbox_evaluate tenant r t)) = tn_idempotency t"
  by (simp_all add: sandbox_evaluate_def Let_def)

lemma approve_new:
  assumes "map_of (tn_idempotency t) (approve_key idem) = None" "approve_proposal tenant r idem t = (x, Some t1)"
  shows "\<exists>order outcome. x = KeptApproval (length (tn_heap t)) order outcome \<and> tn_leads t1 = [length (tn_heap t)] \<and>
    length (tn_heap t1) = Suc (length (tn_heap t)) \<and> ld_stage (tn_heap t1 ! length (tn_heap t)) = ''pending_verification'' \<and>
    tn_idempotency t1 = dict_set (approve_key idem) x (tn_idempotency t)"
  using assms by (auto simp: approve_proposal_def Let_def evaluate_rest case_prod_beta nth_append)

lemma verification_heap:
  assumes "complete_verification E tenant r t = (c, Some t')" "tn_leads t = [a]"
  shows "tn_idempotency t' = tn_idempotency t \<and> tn_heap t' = (tn_heap t)[a := (tn_heap t ! a)\<lparr>ld_stage := ''verified''\<rparr>]"
  using assms by (auto simp: complete_verification_def Let_def evaluate_rest case_prod_beta mark_verified_def)

lemma unshare_kept_lookup:
  assumes "unshare_kept heap n kept = (kept', leads)" "map_of kept k = Some (KeptApproval a order outcome)"
  shows "\<exists>b. map_of kept' k = Some (KeptApproval b order outcome) \<and> n \<le> b \<and> b < n + length leads \<and> leads ! (b - n) = heap ! a"
  using assms
proof (induction heap n kept arbitrary: kept' leads rule: unshare_kept.induct)
  case (2 heap n j x o1 c kept)
  obtain kept1 leads1 where u: "unshare_kept heap (Suc n) kept = (kept1, leads1)" by fastforce
  show ?case
  proof (cases "j = k")
    case True
    then show ?thesis using 2 u by auto
  next
    case False
    then obtain b where b: "map_of kept1 k = Some (KeptApproval b order outcome)" "Suc n \<le> b" "b < Suc n + length leads1"
      "leads1 ! (b - Suc n) = heap ! a"
      using 2 u by auto
    moreover have "(heap ! x # leads1) ! (b - n) = leads1 ! (b - Suc n)" using b(2) by (simp add: nth_Cons')
    ultimately show ?thesis using False 2(2) u by auto
  qed
next
  case (3 heap n j kind c kept)
  obtain kept1 leads1 where u: "unshare_kept heap n kept = (kept1, leads1)" by fastforce
  then show ?case using 3 by (auto split: if_splits)
qed simp

lemma by_value_kept:
  assumes "map_of (tn_idempotency t) k = Some (KeptApproval a order outcome)" "tn_leads t = [c]"
  shows "\<exists>b. map_of (tn_idempotency (by_value t)) k = Some (KeptApproval b order outcome) \<and> tn_leads (by_value t) = [0] \<and>
    0 < b \<and> b < length (tn_heap (by_value t)) \<and> tn_heap (by_value t) ! b = tn_heap t ! a"
proof -
  obtain kept leads where u: "unshare_kept (tn_heap t) 1 (tn_idempotency t) = (kept, leads)" by fastforce
  from unshare_kept_lookup [OF u assms(1)] obtain b where
    "map_of kept k = Some (KeptApproval b order outcome)" "1 \<le> b" "b < 1 + length leads" "leads ! (b - 1) = tn_heap t ! a" by blast
  then show ?thesis using u assms(2) by (auto simp: by_value_def nth_Cons')
qed

text \<open>The lead an answer shows when it is given out.\<close>

fun answered_lead :: "sandbox_tenant \<Rightarrow> kept_answer \<Rightarrow> lead option" where
  "answered_lead t (KeptApproval a order outcome) = Some (tn_heap t ! a)"
| "answered_lead t (KeptEvidence kind outcome) = None"

text \<open>
  An approval is given once, but its answer is alive.  Repeating an approval with its key
  changes nothing and returns the order and the outcome of the first time.  The lead in the answer,
  though, is the object the tenant's data uses: after the verification has been completed in the
  same process the repeated answer shows a verified lead, while after a restart, which reads the
  data back by value, it still shows a pending one.
\<close>

theorem approval_answer_shared:
  assumes new: "map_of (tn_idempotency t) (approve_key idem) = None"
    and approve: "approve_proposal tenant r idem t = (x, Some t1)"
    and verify: "complete_verification E tenant r' t1 = (c, Some t2)" "complete_verification E tenant r' (by_value t1) = (c', Some t3)"
  shows "approve_proposal tenant r'' idem t2 = (x, None) \<and>
    (\<exists>y order outcome a b. x = KeptApproval a order outcome \<and> approve_proposal tenant r'' idem t3 = (y, None) \<and>
       y = KeptApproval b order outcome \<and>
       map_option ld_stage (answered_lead t1 x) = Some ''pending_verification'' \<and>
       map_option ld_stage (answered_lead t2 x) = Some ''verified'' \<and>
       map_option ld_stage (answered_lead t3 y) = Some ''pending_verification'')"
proof -
  obtain order outcome where x: "x = KeptApproval (length (tn_heap t)) order outcome"
    and t1: "tn_leads t1 = [length (tn_heap t)]" "length (tn_heap t1) = Suc (length (tn_heap t))"
      "ld_stage (tn_heap t1 ! length (tn_heap t)) = ''pending_verification''"
      "tn_idempotency t1 = dict_set (approve_key idem) x (tn_idempotency t)"
    using approve_new [OF new approve] by blast
  have t2: "tn_idempotency t2 = tn_idempotency t1" "tn_heap t2 = (tn_heap t1)[length (tn_heap t) :=
      (tn_heap t1 ! length (tn_heap t))\<lparr>ld_stage := ''verified''\<rparr>]"
    using verification_heap [OF verify(1) t1(1)] by auto
  obtain b where b: "map_of (tn_idempotency (by_value t1)) (approve_key idem) = Some (KeptApproval b order outcome)"
    "tn_leads (by_value t1) = [0]" "0 < b" "b < length (tn_heap (by_value t1))"
    "tn_heap (by_value t1) ! b = tn_heap t1 ! length (tn_heap t)"
    using by_value_kept [of t1 "approve_key idem" "length (tn_heap t)" order outcome] t1 x by auto
  have t3: "tn_idempotency t3 = tn_idempotency (by_value t1)" "tn_heap t3 = (tn_heap (by_value t1))[0 :=
      (tn_heap (by_value t1) ! 0)\<lparr>ld_stage := ''verified''\<rparr>]"
    using verification_heap [OF verify(2) b(2)] by auto
  show ?thesis
    using t1 t2 t3 b x by (auto simp: approve_proposal_def)
qed

section \<open>Sample runs\<close>

definition sample_sandbox :: sandbox_env where
  "sample_sandbox = \<lparr>se_sha = (\<lambda>s. s), se_stable = (\<lambda>s. s), se_greeting = ''?'', se_answer = ''!''\<rparr>"

definition sample_readings :: readings where
  "sample_readings = \<lparr>rd_at = (\<lambda>k. ''t''), rd_uuid = (\<lambda>k. ''u'')\<rparr>"

definition seeded_sandbox :: sandbox where
  "seeded_sandbox = reset_store sample_sandbox sample_readings"

definition seeded_tenant :: sandbox_tenant where
  "seeded_tenant = the (map_of (sb_data seeded_sandbox) demo_tenant)"

lemma sample_distinct: "distinct_ids sample_sandbox"
  by (simp add: distinct_ids_def sample_sandbox_def ids_of_def Let_def)

lemma seeded_reachable: "sandbox_reachable sample_sandbox seeded_sandbox"
  unfolding sandbox_reachable_def seeded_sandbox_def by blast

lemma seeded_lookup: "map_of (sb_data seeded_sandbox) demo_tenant = Some seeded_tenant"
  by (simp add: seeded_tenant_def seeded_sandbox_def reset_store_def save_def seed_data_def)

lemma seeded_values:
  "tn_disputes seeded_tenant = []" "tn_billable_results seeded_tenant = []" "tn_idempotency seeded_tenant = []"
  by (simp_all add: seeded_tenant_def seeded_sandbox_def reset_store_def save_def seed_data_def tenant_seed_def Let_def)

theorem workflow_billable_witness:
  "\<exists>x s' t'. workflow sample_sandbox demo_tenant (\<lambda>k. sample_readings) ''demo-approval'' seeded_sandbox = (Inr x, s') \<and>
     map_of (sb_data s') demo_tenant = Some t' \<and> map oc_state (tn_outcomes t') = [''billable''] \<and>
     length (tn_billable_results t') = 1"
  using workflow_billable [OF seeded_reachable sample_distinct seeded_lookup, of "\<lambda>k. sample_readings" "''demo-approval''"]
  by fastforce

text \<open>A dispute that is reversed before anything was billed leaves the merchant with a credit.\<close>

lemma reversal_without_fee:
  "\<exists>d t. dispute_reverse demo_tenant sample_readings seeded_tenant = (d, Some t) \<and> tn_billable_results t = [] \<and>
     length (tn_disputes t) = 1"
  by (simp add: dispute_reverse_def seeded_values reverse_new_def Let_def)

theorem sandbox_fee_once_witness:
  "\<exists>s t. sandbox_reachable sample_sandbox s \<and> map_of (sb_data s) demo_tenant = Some t \<and> tn_billable_results t = [] \<and>
     pf_performance_fee_minor (profit t) = - 15000"
proof -
  obtain d t where r: "dispute_reverse demo_tenant sample_readings seeded_tenant = (d, Some t)" "tn_billable_results t = []"
    "length (tn_disputes t) = 1" using reversal_without_fee by blast
  obtain s where s: "on_tenant demo_tenant (dispute_reverse demo_tenant sample_readings) seeded_sandbox = (Inr d, s)"
    "map_of (sb_data s) demo_tenant = Some t"
    using on_tenant_eq [of seeded_sandbox demo_tenant seeded_tenant "dispute_reverse demo_tenant sample_readings" d "Some t"]
      seeded_lookup r(1) by auto
  have "sandbox_step sample_sandbox seeded_sandbox s"
    unfolding sandbox_step_def using sandbox_dispute [OF s(1)] by blast
  then have "sandbox_reachable sample_sandbox s"
    using seeded_reachable unfolding sandbox_reachable_def by (meson rtranclp.rtrancl_into_rtrancl)
  with sandbox_fee_once [OF this sample_distinct s(2)] s(2) r(2,3) show ?thesis by (auto simp: fee_minor_def)
qed

theorem approval_answer_shared_witness:
  "\<exists>x t1 c t2. approve_proposal demo_tenant sample_readings ''k'' seeded_tenant = (x, Some t1) \<and>
     complete_verification sample_sandbox demo_tenant sample_readings t1 = (c, Some t2) \<and>
     approve_proposal demo_tenant sample_readings ''k'' t2 = (x, None) \<and>
     map_option ld_stage (answered_lead t1 x) = Some ''pending_verification'' \<and>
     map_option ld_stage (answered_lead t2 x) = Some ''verified''"
proof -
  have new: "map_of (tn_idempotency seeded_tenant) (approve_key ''k'') = None" by (simp add: seeded_values)
  obtain x t1 where a: "approve_proposal demo_tenant sample_readings ''k'' seeded_tenant = (x, Some t1)"
    using new by (auto simp: approve_proposal_def Let_def case_prod_beta)
  have v: "\<exists>c t'. complete_verification sample_sandbox demo_tenant sample_readings t = (c, Some t')" for t
    by (auto simp: complete_verification_def Let_def case_prod_beta)
  obtain c t2 where c: "complete_verification sample_sandbox demo_tenant sample_readings t1 = (c, Some t2)" using v by blast
  obtain c' t3 where c': "complete_verification sample_sandbox demo_tenant sample_readings (by_value t1) = (c', Some t3)" using v by blast
  note r = approval_answer_shared [OF new a c c', of sample_readings]
  then have "map_option ld_stage (answered_lead t1 x) = Some ''pending_verification''"
    "map_option ld_stage (answered_lead t2 x) = Some ''verified''" by auto
  with r a c show ?thesis by (intro exI conjI) auto
qed

end
