(* ===== verification/CoreSchema.thy ===== *)
theory CoreSchema
  imports PipelineDb
begin

text \<open>
  The core tables of \<open>models.py\<close> as the first two migrations create them: tenants, users and
  their identities, memberships, invitations, API keys and grants, and the tenant's contacts,
  conversations, knowledge, orders, outcomes, evidence, billable results and ledger.  Every
  insertion goes through the column widths, the checks, the unique keys, the composite foreign
  keys (which imply the single-column ones of the first migration) and, for the tables a tenant
  owns, the row-level security policy; a deletion is refused while a row refers to the one
  deleted.  \<open>TenantRepository\<close> of \<open>repositories.py\<close> is a locale over what it needs of a table,
  interpreted on each of the thirteen.  A point in time is in microseconds, a vector a list of
  numbers in the smallest unit of a 32-bit float.
\<close>

section \<open>Rows\<close>

record tenant_row =
  tt_id :: uuid
  tt_created_at :: int
  tt_name :: string
  tt_country_code :: string
  tt_currency :: string
  tt_locale :: string
  tt_timezone :: string
  tt_business_type :: string
  tt_version :: int

record user_row =
  us_id :: uuid
  us_created_at :: int
  us_email :: string

record identity_row =
  oi_id :: uuid
  oi_created_at :: int
  oi_user_id :: uuid
  oi_issuer :: string
  oi_subject :: string

record membership_row =
  mb_id :: uuid
  mb_created_at :: int
  mb_tenant_id :: uuid
  mb_user_id :: uuid
  mb_role :: string
  mb_status :: string

record invitation_row =
  iv_id :: uuid
  iv_created_at :: int
  iv_tenant_id :: uuid
  iv_email :: string
  iv_role :: string
  iv_token_digest :: string
  iv_invited_by_user_id :: uuid
  iv_expires_at :: int
  iv_accepted_at :: "int option"
  iv_revoked_at :: "int option"

record api_key_row =
  ak_id :: uuid
  ak_created_at :: int
  ak_tenant_id :: uuid
  ak_name :: string
  ak_prefix :: string
  ak_key_digest :: string
  ak_scopes :: "string list"
  ak_expires_at :: "int option"
  ak_revoked_at :: "int option"
  ak_last_used_at :: "int option"

record grant_row =
  xg_id :: uuid
  xg_created_at :: int
  xg_tenant_id :: uuid
  xg_membership_id :: uuid
  xg_resource_type :: string
  xg_resource_id :: uuid
  xg_permissions :: "string list"

record contact_row =
  ct_id :: uuid
  ct_created_at :: int
  ct_tenant_id :: uuid
  ct_provider :: string
  ct_external_id :: string
  ct_display_name :: string
  ct_email :: "string option"

record conversation_row =
  cn_id :: uuid
  cn_created_at :: int
  cn_tenant_id :: uuid
  cn_provider :: string
  cn_external_id :: string
  cn_contact_id :: "uuid option"
  cn_subject :: "string option"

record document_row =
  kd_id :: uuid
  kd_created_at :: int
  kd_tenant_id :: uuid
  kd_provider :: string
  kd_external_id :: string
  kd_title :: string

record chunk_row =
  kc_id :: uuid
  kc_created_at :: int
  kc_tenant_id :: uuid
  kc_document_id :: uuid
  kc_chunk_index :: int
  kc_content :: string
  kc_embedding :: "int list option"

record order_row =
  od_id :: uuid
  od_created_at :: int
  od_tenant_id :: uuid
  od_provider :: string
  od_external_id :: string
  od_amount_minor :: int
  od_currency :: string
  od_contact_id :: "uuid option"
  od_status :: string

record outcome_row =
  ou_id :: uuid
  ou_created_at :: int
  ou_tenant_id :: uuid
  ou_provider :: string
  ou_external_id :: string
  ou_order_id :: "uuid option"
  ou_kind :: string

record dispute_evidence_row =
  de_id :: uuid
  de_created_at :: int
  de_tenant_id :: uuid
  de_provider :: string
  de_external_id :: string
  de_order_id :: uuid
  de_object_key :: string

record billable_result_row =
  bi_id :: uuid
  bi_created_at :: int
  bi_tenant_id :: uuid
  bi_provider :: string
  bi_external_id :: string
  bi_amount_minor :: int
  bi_currency :: string
  bi_outcome_id :: uuid

record ledger_entry_row =
  lg_id :: uuid
  lg_created_at :: int
  lg_tenant_id :: uuid
  lg_provider :: string
  lg_external_id :: string
  lg_amount_minor :: int
  lg_currency :: string
  lg_billable_result_id :: "uuid option"
  lg_direction :: string

record core =
  core_tenants :: "tenant_row list"
  core_users :: "user_row list"
  core_identities :: "identity_row list"
  core_memberships :: "membership_row list"
  core_invitations :: "invitation_row list"
  core_api_keys :: "api_key_row list"
  core_grants :: "grant_row list"
  core_contacts :: "contact_row list"
  core_conversations :: "conversation_row list"
  core_documents :: "document_row list"
  core_chunks :: "chunk_row list"
  core_orders :: "order_row list"
  core_outcomes :: "outcome_row list"
  core_dispute_evidence :: "dispute_evidence_row list"
  core_billable_results :: "billable_result_row list"
  core_ledger_entries :: "ledger_entry_row list"

section \<open>Statements\<close>

definition core_roles :: "string list" where
  "core_roles = [''owner'', ''administrator'', ''operator'', ''marketer'', ''analyst'', ''finance'', ''dispute_reviewer'',
     ''external_partner'', ''read_only'']"

text \<open>The pattern \<open>^[A-Z]{n}$\<close>.\<close>

definition capitals :: "nat \<Rightarrow> string \<Rightarrow> bool" where
  "capitals n s \<longleftrightarrow> length s = n \<and> list_all is_upper s"

text \<open>A foreign key with the tenant: no reference, or to a row of the same tenant.\<close>

definition refers :: "('r \<Rightarrow> uuid) \<Rightarrow> ('r \<Rightarrow> uuid) \<Rightarrow> uuid \<Rightarrow> uuid option \<Rightarrow> 'r list \<Rightarrow> bool" where
  "refers tenant ident t i rows = (case i of None \<Rightarrow> True | Some x \<Rightarrow> has_row tenant ident t x rows)"

fun all_checks :: "(db_error + unit) list \<Rightarrow> db_error + unit" where
  "all_checks [] = Inr ()"
| "all_checks (c # cs) = ebind c (\<lambda>_. all_checks cs)"

text \<open>An insertion: widths and checks first, then the keys, then the references.\<close>

definition stored :: "(db_error + unit) list \<Rightarrow> db_error + 'r list \<Rightarrow> ('r list \<Rightarrow> core) \<Rightarrow> bool \<Rightarrow> db_error + core" where
  "stored checks rows upd refs = ebind (all_checks checks) (\<lambda>_. ebind rows (\<lambda>rs.
     ebind (require refs ForeignKeyViolation) (\<lambda>_. Inr (upd rs))))"

definition removed :: "bool \<Rightarrow> core \<Rightarrow> db_error + core" where
  "removed free db = ebind (require free ForeignKeyViolation) (\<lambda>_. Inr db)"

definition tenant_clash :: "tenant_row \<Rightarrow> tenant_row \<Rightarrow> bool" where
  "tenant_clash a b \<longleftrightarrow> tt_id a = tt_id b"

definition insert_tenant :: "tenant_row \<Rightarrow> core \<Rightarrow> db_error + core" where
  "insert_tenant r db =
     stored [fits 200 (tt_name r),
       fits 2 (tt_country_code r),
       fits 3 (tt_currency r),
       fits 35 (tt_locale r),
       fits 64 (tt_timezone r),
       fits 32 (tt_business_type r),
       require (int4 (tt_version r)) OutOfRange,
       require (capitals 2 (tt_country_code r) \<and> capitals 3 (tt_currency r) \<and> 0 < tt_version r) CheckViolation]
       (insert_row UniqueViolation tenant_clash r (core_tenants db)) (\<lambda>rows. db\<lparr>core_tenants := rows\<rparr>) True"

definition user_clash :: "user_row \<Rightarrow> user_row \<Rightarrow> bool" where
  "user_clash a b \<longleftrightarrow> us_id a = us_id b \<or>
      us_email a = us_email b"

definition insert_user :: "user_row \<Rightarrow> core \<Rightarrow> db_error + core" where
  "insert_user r db =
     stored [fits 320 (us_email r)]
       (insert_row UniqueViolation user_clash r (core_users db)) (\<lambda>rows. db\<lparr>core_users := rows\<rparr>) True"

definition identity_refs :: "identity_row \<Rightarrow> core \<Rightarrow> bool" where
  "identity_refs r db \<longleftrightarrow> list_ex (\<lambda>u. us_id u = oi_user_id r) (core_users db)"

definition identity_clash :: "identity_row \<Rightarrow> identity_row \<Rightarrow> bool" where
  "identity_clash a b \<longleftrightarrow> oi_id a = oi_id b \<or>
      (oi_issuer a = oi_issuer b \<and> oi_subject a = oi_subject b)"

definition insert_identity :: "identity_row \<Rightarrow> core \<Rightarrow> db_error + core" where
  "insert_identity r db =
     stored [fits 512 (oi_issuer r),
       fits 255 (oi_subject r)]
       (insert_row UniqueViolation identity_clash r (core_identities db)) (\<lambda>rows. db\<lparr>core_identities := rows\<rparr>) (identity_refs r db)"

definition membership_refs :: "membership_row \<Rightarrow> core \<Rightarrow> bool" where
  "membership_refs r db \<longleftrightarrow> list_ex (\<lambda>t. tt_id t = mb_tenant_id r) (core_tenants db) \<and>
     list_ex (\<lambda>u. us_id u = mb_user_id r) (core_users db)"

definition membership_clash :: "membership_row \<Rightarrow> membership_row \<Rightarrow> bool" where
  "membership_clash a b \<longleftrightarrow> mb_id a = mb_id b \<or>
      (mb_tenant_id a = mb_tenant_id b \<and> mb_user_id a = mb_user_id b)"

definition insert_membership :: "membership_row \<Rightarrow> core \<Rightarrow> db_error + core" where
  "insert_membership r db =
     stored [fits 32 (mb_role r),
       fits 16 (mb_status r),
       require (mb_role r \<in> set core_roles) CheckViolation]
       (insert_row UniqueViolation membership_clash r (core_memberships db)) (\<lambda>rows. db\<lparr>core_memberships := rows\<rparr>) (membership_refs r db)"

definition delete_membership :: "uuid \<Rightarrow> uuid \<Rightarrow> core \<Rightarrow> db_error + core" where
  "delete_membership t i db = removed (\<not> list_ex (\<lambda>c. xg_tenant_id c = t \<and> xg_membership_id c = i) (core_grants db))
     (db\<lparr>core_memberships := filter (\<lambda>r. \<not> (mb_tenant_id r = t \<and> mb_id r = i)) (core_memberships db)\<rparr>)"

definition invitation_refs :: "invitation_row \<Rightarrow> core \<Rightarrow> bool" where
  "invitation_refs r db \<longleftrightarrow> list_ex (\<lambda>t. tt_id t = iv_tenant_id r) (core_tenants db) \<and>
     list_ex (\<lambda>u. us_id u = iv_invited_by_user_id r) (core_users db)"

definition invitation_clash :: "invitation_row \<Rightarrow> invitation_row \<Rightarrow> bool" where
  "invitation_clash a b \<longleftrightarrow> iv_id a = iv_id b \<or>
      (iv_tenant_id a = iv_tenant_id b \<and> iv_token_digest a = iv_token_digest b)"

definition insert_invitation :: "invitation_row \<Rightarrow> core \<Rightarrow> db_error + core" where
  "insert_invitation r db =
     stored [fits 320 (iv_email r),
       fits 32 (iv_role r),
       fits 64 (iv_token_digest r),
       require (iv_role r \<in> set core_roles) CheckViolation]
       (insert_row UniqueViolation invitation_clash r (core_invitations db)) (\<lambda>rows. db\<lparr>core_invitations := rows\<rparr>) (invitation_refs r db)"

definition delete_invitation :: "uuid \<Rightarrow> uuid \<Rightarrow> core \<Rightarrow> db_error + core" where
  "delete_invitation t i db = removed (True)
     (db\<lparr>core_invitations := filter (\<lambda>r. \<not> (iv_tenant_id r = t \<and> iv_id r = i)) (core_invitations db)\<rparr>)"

definition api_key_refs :: "api_key_row \<Rightarrow> core \<Rightarrow> bool" where
  "api_key_refs r db \<longleftrightarrow> list_ex (\<lambda>t. tt_id t = ak_tenant_id r) (core_tenants db)"

definition api_key_clash :: "api_key_row \<Rightarrow> api_key_row \<Rightarrow> bool" where
  "api_key_clash a b \<longleftrightarrow> ak_id a = ak_id b \<or>
      (ak_tenant_id a = ak_tenant_id b \<and> ak_prefix a = ak_prefix b)"

definition insert_api_key :: "api_key_row \<Rightarrow> core \<Rightarrow> db_error + core" where
  "insert_api_key r db =
     stored [fits 120 (ak_name r),
       fits 21 (ak_prefix r),
       fits 64 (ak_key_digest r)]
       (insert_row UniqueViolation api_key_clash r (core_api_keys db)) (\<lambda>rows. db\<lparr>core_api_keys := rows\<rparr>) (api_key_refs r db)"

definition delete_api_key :: "uuid \<Rightarrow> uuid \<Rightarrow> core \<Rightarrow> db_error + core" where
  "delete_api_key t i db = removed (True)
     (db\<lparr>core_api_keys := filter (\<lambda>r. \<not> (ak_tenant_id r = t \<and> ak_id r = i)) (core_api_keys db)\<rparr>)"

definition grant_refs :: "grant_row \<Rightarrow> core \<Rightarrow> bool" where
  "grant_refs r db \<longleftrightarrow> list_ex (\<lambda>t. tt_id t = xg_tenant_id r) (core_tenants db) \<and>
     refers mb_tenant_id mb_id (xg_tenant_id r) (Some (xg_membership_id r)) (core_memberships db)"

definition grant_clash :: "grant_row \<Rightarrow> grant_row \<Rightarrow> bool" where
  "grant_clash a b \<longleftrightarrow> xg_id a = xg_id b \<or>
      (xg_tenant_id a = xg_tenant_id b \<and> xg_membership_id a = xg_membership_id b \<and>
       xg_resource_type a = xg_resource_type b \<and> xg_resource_id a = xg_resource_id b)"

definition insert_grant :: "grant_row \<Rightarrow> core \<Rightarrow> db_error + core" where
  "insert_grant r db =
     stored [fits 32 (xg_resource_type r)]
       (insert_row UniqueViolation grant_clash r (core_grants db)) (\<lambda>rows. db\<lparr>core_grants := rows\<rparr>) (grant_refs r db)"

definition delete_grant :: "uuid \<Rightarrow> uuid \<Rightarrow> core \<Rightarrow> db_error + core" where
  "delete_grant t i db = removed (True)
     (db\<lparr>core_grants := filter (\<lambda>r. \<not> (xg_tenant_id r = t \<and> xg_id r = i)) (core_grants db)\<rparr>)"

definition contact_refs :: "contact_row \<Rightarrow> core \<Rightarrow> bool" where
  "contact_refs r db \<longleftrightarrow> list_ex (\<lambda>t. tt_id t = ct_tenant_id r) (core_tenants db)"

definition contact_clash :: "contact_row \<Rightarrow> contact_row \<Rightarrow> bool" where
  "contact_clash a b \<longleftrightarrow> ct_id a = ct_id b \<or>
      (ct_tenant_id a = ct_tenant_id b \<and> ct_provider a = ct_provider b \<and> ct_external_id a = ct_external_id b)"

definition insert_contact :: "contact_row \<Rightarrow> core \<Rightarrow> db_error + core" where
  "insert_contact r db =
     stored [fits 64 (ct_provider r),
       fits 255 (ct_external_id r),
       fits 200 (ct_display_name r),
       fits 320 (case ct_email r of None \<Rightarrow> [] | Some s \<Rightarrow> s)]
       (insert_row UniqueViolation contact_clash r (core_contacts db)) (\<lambda>rows. db\<lparr>core_contacts := rows\<rparr>) (contact_refs r db)"

definition delete_contact :: "uuid \<Rightarrow> uuid \<Rightarrow> core \<Rightarrow> db_error + core" where
  "delete_contact t i db = removed (\<not> list_ex (\<lambda>c. cn_tenant_id c = t \<and> cn_contact_id c = Some i) (core_conversations db) \<and>
     \<not> list_ex (\<lambda>c. od_tenant_id c = t \<and> od_contact_id c = Some i) (core_orders db))
     (db\<lparr>core_contacts := filter (\<lambda>r. \<not> (ct_tenant_id r = t \<and> ct_id r = i)) (core_contacts db)\<rparr>)"

definition conversation_refs :: "conversation_row \<Rightarrow> core \<Rightarrow> bool" where
  "conversation_refs r db \<longleftrightarrow> list_ex (\<lambda>t. tt_id t = cn_tenant_id r) (core_tenants db) \<and>
     refers ct_tenant_id ct_id (cn_tenant_id r) (cn_contact_id r) (core_contacts db)"

definition conversation_clash :: "conversation_row \<Rightarrow> conversation_row \<Rightarrow> bool" where
  "conversation_clash a b \<longleftrightarrow> cn_id a = cn_id b \<or>
      (cn_tenant_id a = cn_tenant_id b \<and> cn_provider a = cn_provider b \<and> cn_external_id a = cn_external_id b)"

definition insert_conversation :: "conversation_row \<Rightarrow> core \<Rightarrow> db_error + core" where
  "insert_conversation r db =
     stored [fits 64 (cn_provider r),
       fits 255 (cn_external_id r),
       fits 500 (case cn_subject r of None \<Rightarrow> [] | Some s \<Rightarrow> s)]
       (insert_row UniqueViolation conversation_clash r (core_conversations db)) (\<lambda>rows. db\<lparr>core_conversations := rows\<rparr>) (conversation_refs r db)"

definition delete_conversation :: "uuid \<Rightarrow> uuid \<Rightarrow> core \<Rightarrow> db_error + core" where
  "delete_conversation t i db = removed (True)
     (db\<lparr>core_conversations := filter (\<lambda>r. \<not> (cn_tenant_id r = t \<and> cn_id r = i)) (core_conversations db)\<rparr>)"

definition document_refs :: "document_row \<Rightarrow> core \<Rightarrow> bool" where
  "document_refs r db \<longleftrightarrow> list_ex (\<lambda>t. tt_id t = kd_tenant_id r) (core_tenants db)"

definition document_clash :: "document_row \<Rightarrow> document_row \<Rightarrow> bool" where
  "document_clash a b \<longleftrightarrow> kd_id a = kd_id b \<or>
      (kd_tenant_id a = kd_tenant_id b \<and> kd_provider a = kd_provider b \<and> kd_external_id a = kd_external_id b)"

definition insert_document :: "document_row \<Rightarrow> core \<Rightarrow> db_error + core" where
  "insert_document r db =
     stored [fits 64 (kd_provider r),
       fits 255 (kd_external_id r),
       fits 500 (kd_title r)]
       (insert_row UniqueViolation document_clash r (core_documents db)) (\<lambda>rows. db\<lparr>core_documents := rows\<rparr>) (document_refs r db)"

definition delete_document :: "uuid \<Rightarrow> uuid \<Rightarrow> core \<Rightarrow> db_error + core" where
  "delete_document t i db = removed (\<not> list_ex (\<lambda>c. kc_tenant_id c = t \<and> kc_document_id c = i) (core_chunks db))
     (db\<lparr>core_documents := filter (\<lambda>r. \<not> (kd_tenant_id r = t \<and> kd_id r = i)) (core_documents db)\<rparr>)"

definition chunk_refs :: "chunk_row \<Rightarrow> core \<Rightarrow> bool" where
  "chunk_refs r db \<longleftrightarrow> list_ex (\<lambda>t. tt_id t = kc_tenant_id r) (core_tenants db) \<and>
     refers kd_tenant_id kd_id (kc_tenant_id r) (Some (kc_document_id r)) (core_documents db)"

definition chunk_clash :: "chunk_row \<Rightarrow> chunk_row \<Rightarrow> bool" where
  "chunk_clash a b \<longleftrightarrow> kc_id a = kc_id b \<or>
      (kc_tenant_id a = kc_tenant_id b \<and> kc_document_id a = kc_document_id b \<and> kc_chunk_index a = kc_chunk_index b)"

definition insert_chunk :: "chunk_row \<Rightarrow> core \<Rightarrow> db_error + core" where
  "insert_chunk r db =
     stored [require (int4 (kc_chunk_index r)) OutOfRange,
       require (case kc_embedding r of None \<Rightarrow> True | Some v \<Rightarrow> length v = 1536) OutOfRange]
       (insert_row UniqueViolation chunk_clash r (core_chunks db)) (\<lambda>rows. db\<lparr>core_chunks := rows\<rparr>) (chunk_refs r db)"

definition delete_chunk :: "uuid \<Rightarrow> uuid \<Rightarrow> core \<Rightarrow> db_error + core" where
  "delete_chunk t i db = removed (True)
     (db\<lparr>core_chunks := filter (\<lambda>r. \<not> (kc_tenant_id r = t \<and> kc_id r = i)) (core_chunks db)\<rparr>)"

definition order_refs :: "order_row \<Rightarrow> core \<Rightarrow> bool" where
  "order_refs r db \<longleftrightarrow> list_ex (\<lambda>t. tt_id t = od_tenant_id r) (core_tenants db) \<and>
     refers ct_tenant_id ct_id (od_tenant_id r) (od_contact_id r) (core_contacts db)"

definition order_clash :: "order_row \<Rightarrow> order_row \<Rightarrow> bool" where
  "order_clash a b \<longleftrightarrow> od_id a = od_id b \<or>
      (od_tenant_id a = od_tenant_id b \<and> od_provider a = od_provider b \<and> od_external_id a = od_external_id b)"

definition insert_order :: "order_row \<Rightarrow> core \<Rightarrow> db_error + core" where
  "insert_order r db =
     stored [fits 64 (od_provider r),
       fits 255 (od_external_id r),
       fits 32 (od_status r),
       require (int8 (od_amount_minor r)) OutOfRange,
       fits 3 (od_currency r)]
       (insert_row UniqueViolation order_clash r (core_orders db)) (\<lambda>rows. db\<lparr>core_orders := rows\<rparr>) (order_refs r db)"

definition delete_order :: "uuid \<Rightarrow> uuid \<Rightarrow> core \<Rightarrow> db_error + core" where
  "delete_order t i db = removed (\<not> list_ex (\<lambda>c. ou_tenant_id c = t \<and> ou_order_id c = Some i) (core_outcomes db) \<and>
     \<not> list_ex (\<lambda>c. de_tenant_id c = t \<and> de_order_id c = i) (core_dispute_evidence db))
     (db\<lparr>core_orders := filter (\<lambda>r. \<not> (od_tenant_id r = t \<and> od_id r = i)) (core_orders db)\<rparr>)"

definition outcome_refs :: "outcome_row \<Rightarrow> core \<Rightarrow> bool" where
  "outcome_refs r db \<longleftrightarrow> list_ex (\<lambda>t. tt_id t = ou_tenant_id r) (core_tenants db) \<and>
     refers od_tenant_id od_id (ou_tenant_id r) (ou_order_id r) (core_orders db)"

definition outcome_clash :: "outcome_row \<Rightarrow> outcome_row \<Rightarrow> bool" where
  "outcome_clash a b \<longleftrightarrow> ou_id a = ou_id b \<or>
      (ou_tenant_id a = ou_tenant_id b \<and> ou_provider a = ou_provider b \<and> ou_external_id a = ou_external_id b)"

definition insert_outcome :: "outcome_row \<Rightarrow> core \<Rightarrow> db_error + core" where
  "insert_outcome r db =
     stored [fits 64 (ou_provider r),
       fits 255 (ou_external_id r),
       fits 64 (ou_kind r)]
       (insert_row UniqueViolation outcome_clash r (core_outcomes db)) (\<lambda>rows. db\<lparr>core_outcomes := rows\<rparr>) (outcome_refs r db)"

definition delete_outcome :: "uuid \<Rightarrow> uuid \<Rightarrow> core \<Rightarrow> db_error + core" where
  "delete_outcome t i db = removed (\<not> list_ex (\<lambda>c. bi_tenant_id c = t \<and> bi_outcome_id c = i) (core_billable_results db))
     (db\<lparr>core_outcomes := filter (\<lambda>r. \<not> (ou_tenant_id r = t \<and> ou_id r = i)) (core_outcomes db)\<rparr>)"

definition dispute_evidence_refs :: "dispute_evidence_row \<Rightarrow> core \<Rightarrow> bool" where
  "dispute_evidence_refs r db \<longleftrightarrow> list_ex (\<lambda>t. tt_id t = de_tenant_id r) (core_tenants db) \<and>
     refers od_tenant_id od_id (de_tenant_id r) (Some (de_order_id r)) (core_orders db)"

definition dispute_evidence_clash :: "dispute_evidence_row \<Rightarrow> dispute_evidence_row \<Rightarrow> bool" where
  "dispute_evidence_clash a b \<longleftrightarrow> de_id a = de_id b \<or>
      (de_tenant_id a = de_tenant_id b \<and> de_provider a = de_provider b \<and> de_external_id a = de_external_id b)"

definition insert_dispute_evidence :: "dispute_evidence_row \<Rightarrow> core \<Rightarrow> db_error + core" where
  "insert_dispute_evidence r db =
     stored [fits 64 (de_provider r),
       fits 255 (de_external_id r),
       fits 1024 (de_object_key r)]
       (insert_row UniqueViolation dispute_evidence_clash r (core_dispute_evidence db)) (\<lambda>rows. db\<lparr>core_dispute_evidence := rows\<rparr>) (dispute_evidence_refs r db)"

definition delete_dispute_evidence :: "uuid \<Rightarrow> uuid \<Rightarrow> core \<Rightarrow> db_error + core" where
  "delete_dispute_evidence t i db = removed (True)
     (db\<lparr>core_dispute_evidence := filter (\<lambda>r. \<not> (de_tenant_id r = t \<and> de_id r = i)) (core_dispute_evidence db)\<rparr>)"

definition billable_result_refs :: "billable_result_row \<Rightarrow> core \<Rightarrow> bool" where
  "billable_result_refs r db \<longleftrightarrow> list_ex (\<lambda>t. tt_id t = bi_tenant_id r) (core_tenants db) \<and>
     refers ou_tenant_id ou_id (bi_tenant_id r) (Some (bi_outcome_id r)) (core_outcomes db)"

definition billable_result_clash :: "billable_result_row \<Rightarrow> billable_result_row \<Rightarrow> bool" where
  "billable_result_clash a b \<longleftrightarrow> bi_id a = bi_id b \<or>
      (bi_tenant_id a = bi_tenant_id b \<and> bi_provider a = bi_provider b \<and> bi_external_id a = bi_external_id b)"

definition insert_billable_result :: "billable_result_row \<Rightarrow> core \<Rightarrow> db_error + core" where
  "insert_billable_result r db =
     stored [fits 64 (bi_provider r),
       fits 255 (bi_external_id r),
       require (int8 (bi_amount_minor r)) OutOfRange,
       fits 3 (bi_currency r)]
       (insert_row UniqueViolation billable_result_clash r (core_billable_results db)) (\<lambda>rows. db\<lparr>core_billable_results := rows\<rparr>) (billable_result_refs r db)"

definition delete_billable_result :: "uuid \<Rightarrow> uuid \<Rightarrow> core \<Rightarrow> db_error + core" where
  "delete_billable_result t i db = removed (\<not> list_ex (\<lambda>c. lg_tenant_id c = t \<and> lg_billable_result_id c = Some i) (core_ledger_entries db))
     (db\<lparr>core_billable_results := filter (\<lambda>r. \<not> (bi_tenant_id r = t \<and> bi_id r = i)) (core_billable_results db)\<rparr>)"

definition ledger_entry_refs :: "ledger_entry_row \<Rightarrow> core \<Rightarrow> bool" where
  "ledger_entry_refs r db \<longleftrightarrow> list_ex (\<lambda>t. tt_id t = lg_tenant_id r) (core_tenants db) \<and>
     refers bi_tenant_id bi_id (lg_tenant_id r) (lg_billable_result_id r) (core_billable_results db)"

definition ledger_entry_clash :: "ledger_entry_row \<Rightarrow> ledger_entry_row \<Rightarrow> bool" where
  "ledger_entry_clash a b \<longleftrightarrow> lg_id a = lg_id b \<or>
      (lg_tenant_id a = lg_tenant_id b \<and> lg_provider a = lg_provider b \<and> lg_external_id a = lg_external_id b)"

definition insert_ledger_entry :: "ledger_entry_row \<Rightarrow> core \<Rightarrow> db_error + core" where
  "insert_ledger_entry r db =
     stored [fits 64 (lg_provider r),
       fits 255 (lg_external_id r),
       fits 8 (lg_direction r),
       require (int8 (lg_amount_minor r)) OutOfRange,
       fits 3 (lg_currency r)]
       (insert_row UniqueViolation ledger_entry_clash r (core_ledger_entries db)) (\<lambda>rows. db\<lparr>core_ledger_entries := rows\<rparr>) (ledger_entry_refs r db)"

definition delete_ledger_entry :: "uuid \<Rightarrow> uuid \<Rightarrow> core \<Rightarrow> db_error + core" where
  "delete_ledger_entry t i db = removed (True)
     (db\<lparr>core_ledger_entries := filter (\<lambda>r. \<not> (lg_tenant_id r = t \<and> lg_id r = i)) (core_ledger_entries db)\<rparr>)"

section \<open>Row-level security\<close>

text \<open>
  The policy \<open>tenant_isolation\<close>: a statement sees and writes the rows of the tenant in the
  setting \<open>app.tenant_id\<close>, and none without it.
\<close>

definition visible :: "uuid option \<Rightarrow> ('r \<Rightarrow> uuid) \<Rightarrow> 'r list \<Rightarrow> 'r list" where
  "visible app owner rows = filter (\<lambda>r. app = Some (owner r)) rows"

definition with_check :: "uuid option \<Rightarrow> uuid \<Rightarrow> db_error + core \<Rightarrow> db_error + core" where
  "with_check app owner m = ebind (require (app = Some owner) (RaisedException ''row-level security policy'')) (\<lambda>_. m)"

section \<open>The tenant repository\<close>

text \<open>The session: the database setting and the tenant in \<open>session.info\<close>.\<close>

record scope =
  sn_app :: "uuid option"
  sn_info :: "uuid option"

datatype access_error = TenantAccessError string | AccessSql db_error

definition tenant_scope :: "principal \<Rightarrow> scope" where
  "tenant_scope p = \<lparr>sn_app = Some (pr_tenant_id p), sn_info = Some (pr_tenant_id p)\<rparr>"

definition scope_tenant :: "scope \<Rightarrow> access_error + uuid" where
  "scope_tenant s = (case sn_info s of None \<Rightarrow> Inl (TenantAccessError ''tenant transaction is required'') | Some t \<Rightarrow> Inr t)"

definition repository_rows :: "('r \<Rightarrow> uuid) \<Rightarrow> (core \<Rightarrow> 'r list) \<Rightarrow> scope \<Rightarrow> core \<Rightarrow> access_error + 'r list" where
  "repository_rows owner rows s db =
     ebind (scope_tenant s) (\<lambda>t. Inr (filter (\<lambda>r. owner r = t) (visible (sn_app s) owner (rows db))))"

definition repository_get :: "('r \<Rightarrow> uuid) \<Rightarrow> ('r \<Rightarrow> uuid) \<Rightarrow> (core \<Rightarrow> 'r list) \<Rightarrow> scope \<Rightarrow> uuid \<Rightarrow> core \<Rightarrow>
    access_error + 'r option" where
  "repository_get owner ident rows s i db =
     ebind (repository_rows owner rows s db) (\<lambda>rs. Inr (find (\<lambda>r. ident r = i) rs))"

definition repository_add :: "('r \<Rightarrow> uuid) \<Rightarrow> ('r \<Rightarrow> core \<Rightarrow> db_error + core) \<Rightarrow> scope \<Rightarrow> 'r \<Rightarrow> core \<Rightarrow> access_error + core" where
  "repository_add owner ins s r db =
     ebind (scope_tenant s) (\<lambda>t.
     ebind (check (owner r = t) (TenantAccessError ''record belongs to another tenant'')) (\<lambda>_.
     map_error AccessSql (with_check (sn_app s) (owner r) (ins r db))))"

definition repository_delete :: "('r \<Rightarrow> uuid) \<Rightarrow> ('r \<Rightarrow> uuid) \<Rightarrow> (core \<Rightarrow> 'r list) \<Rightarrow> (uuid \<Rightarrow> uuid \<Rightarrow> core \<Rightarrow> db_error + core) \<Rightarrow>
    scope \<Rightarrow> uuid \<Rightarrow> core \<Rightarrow> access_error + bool \<times> core" where
  "repository_delete owner ident rows del s i db =
     ebind (repository_get owner ident rows s i db) (\<lambda>found.
     case found of None \<Rightarrow> Inr (False, db)
     | Some r \<Rightarrow> ebind (map_error AccessSql (del (owner r) i db)) (\<lambda>db'. Inr (True, db')))"

text \<open>\<open>KnowledgeRepository.nearest\<close>; \<open>dist\<close> is the distance of the vector extension.\<close>

definition nearest :: "(int list \<Rightarrow> int list \<Rightarrow> int) \<Rightarrow> scope \<Rightarrow> int list \<Rightarrow> nat \<Rightarrow> core \<Rightarrow> access_error + chunk_row list" where
  "nearest dist s q limit db =
     ebind (repository_rows kc_tenant_id core_chunks s db) (\<lambda>rs.
     Inr (take limit (sort_key (\<lambda>r. dist (the (kc_embedding r)) q) (filter (\<lambda>r. kc_embedding r \<noteq> None) rs))))"

end
