(* ===== verification/Base64.thy ===== *)
theory Base64
  imports OutcomePrelude
begin

text \<open>
  The base-64 codec of the standard library, as the configuration and the job context use it:
  the encoder with either alphabet, and the decoder \<open>binascii.a2b_base64\<close> in its lenient and its
  strict form.  Texts and bytes are lists of characters below 256.  The round trip holds for
  every byte string and both alphabets.
\<close>

section \<open>Splitting\<close>

text \<open>\<open>s.split(c, n)\<close>.\<close>

fun split_max :: "nat \<Rightarrow> char \<Rightarrow> string \<Rightarrow> string list" where
  "split_max 0 c s = [s]"
| "split_max (Suc n) c s = (case dropWhile (\<lambda>x. x \<noteq> c) s of
     [] \<Rightarrow> [s] | _ # t \<Rightarrow> takeWhile (\<lambda>x. x \<noteq> c) s # split_max n c t)"

text \<open>\<open>s.split(c)\<close>.\<close>

fun split_all :: "char \<Rightarrow> string \<Rightarrow> string list" where
  "split_all c [] = [[]]"
| "split_all c (x # s) = (if x = c then [] # split_all c s
     else (x # hd (split_all c s)) # tl (split_all c s))"

lemma split_all_not_Nil [simp]: "split_all c s \<noteq> []"
  by (cases s) auto

lemma split_all_append: "split_all c (s @ c # t) = split_all c s @ split_all c t"
  by (induction s) auto

lemma split_all_plain: "c \<notin> set s \<Longrightarrow> split_all c s = [s]"
  by (induction s) auto

lemma split_all_parts: "p \<in> set (split_all c s) \<Longrightarrow> c \<notin> set p"
proof (induction s arbitrary: p)
  case (Cons x s)
  then show ?case by (cases "split_all c s") (auto split: if_splits)
qed simp

lemma dropWhile_absent: "c \<notin> set s \<Longrightarrow> dropWhile (\<lambda>x. x \<noteq> c) (s @ c # t) = c # t"
  by (induction s) auto

lemma takeWhile_absent: "c \<notin> set s \<Longrightarrow> takeWhile (\<lambda>x. x \<noteq> c) (s @ c # t) = s"
  by (induction s) auto

lemma split_max_part: "c \<notin> set s \<Longrightarrow> split_max (Suc n) c (s @ c # t) = s # split_max n c t"
  by (simp add: dropWhile_absent takeWhile_absent)

lemma split_max_last: "c \<notin> set s \<Longrightarrow> split_max n c s = [s]"
  by (cases n) (auto split: list.split dest: arg_cong [where f = set] set_dropWhileD,
      metis (mono_tags, lifting) dropWhile_eq_Nil_conv list.distinct(1))

section \<open>The alphabets\<close>

definition b64_char :: "nat \<Rightarrow> char" where
  "b64_char v = (if v < 26 then char_of (65 + v) else if v < 52 then char_of (71 + v)
     else if v < 62 then char_of (v - 4) else if v = 62 then CHR ''+'' else CHR ''/'')"

definition b64_value :: "char \<Rightarrow> nat option" where
  "b64_value c = (if is_upper c then Some (code c - 65) else if is_lower c then Some (code c - 71)
     else if is_digit c then Some (code c + 4) else if c = CHR ''+'' then Some 62
     else if c = CHR ''/'' then Some 63 else None)"

text \<open>The URL-safe alphabet, as the translation \<open>+/\<close> to \<open>-_\<close> and back.\<close>

definition to_url :: "char \<Rightarrow> char" where
  "to_url c = (if c = CHR ''+'' then CHR ''-'' else if c = CHR ''/'' then CHR ''_'' else c)"

definition from_url :: "char \<Rightarrow> char" where
  "from_url c = (if c = CHR ''-'' then CHR ''+'' else if c = CHR ''_'' then CHR ''/'' else c)"

lemma b64_value_char: "v < 64 \<Longrightarrow> b64_value (b64_char v) = Some v"
  by (auto simp: b64_char_def b64_value_def is_upper_def is_lower_def is_digit_def code_char_of
      code_def [of "CHR ''+''"] code_def [of "CHR ''/''"])

lemma b64_char_plain: "b64_char v \<noteq> CHR ''=''" "b64_char v \<noteq> CHR ''-''" "b64_char v \<noteq> CHR ''_''" "b64_char v \<noteq> CHR ''.''"
proof -
  have c: "code CHR ''='' = 61" "code CHR ''-'' = 45" "code CHR ''_'' = 95" "code CHR ''.'' = 46"
    "code CHR ''+'' = 43" "code CHR ''/'' = 47" by (simp_all add: code_def)
  show "b64_char v \<noteq> CHR ''=''" "b64_char v \<noteq> CHR ''-''" "b64_char v \<noteq> CHR ''_''" "b64_char v \<noteq> CHR ''.''"
    unfolding code_inject [symmetric] c by (auto simp: b64_char_def code_char_of c)
qed

lemma from_to_url: "from_url (to_url (b64_char v)) = b64_char v"
  using b64_char_plain [of v] by (simp add: to_url_def from_url_def)

lemma url_char_plain: "to_url (b64_char v) \<noteq> CHR ''=''" "to_url (b64_char v) \<noteq> CHR ''.''"
  using b64_char_plain [of v] by (auto simp: to_url_def)

section \<open>Encoding\<close>

fun sextets :: "nat list \<Rightarrow> nat list" where
  "sextets [] = []"
| "sextets [a] = [a div 4, a mod 4 * 16]"
| "sextets [a, b] = [a div 4, a mod 4 * 16 + b div 16, b mod 16 * 4]"
| "sextets (a # b # c # bs) = a div 4 # (a mod 4 * 16 + b div 16) # (b mod 16 * 4 + c div 64) # c mod 64 # sextets bs"

definition b64encode :: "string \<Rightarrow> string" where
  "b64encode bs = map b64_char (sextets (map code bs)) @ replicate ((3 - length bs mod 3) mod 3) CHR ''=''"

definition urlsafe_b64encode :: "string \<Rightarrow> string" where
  "urlsafe_b64encode bs = map to_url (b64encode bs)"

definition rstrip :: "char \<Rightarrow> string \<Rightarrow> string" where
  "rstrip c s = rev (dropWhile (\<lambda>x. x = c) (rev s))"

section \<open>Decoding\<close>

text \<open>
  The state of the scan: the position in the group of four, the bits left over, the pads seen
  and whether padding has started.
\<close>

function a2b :: "bool \<Rightarrow> nat \<Rightarrow> nat \<Rightarrow> nat \<Rightarrow> bool \<Rightarrow> string \<Rightarrow> exn + string" where
  "a2b strict q left pads started [] =
     (if q = 0 then Inr [] else Inl (ValueError ''incorrect padding''))"
| "a2b strict q left pads started (c # s) =
     (if c = CHR ''='' then
        (if 2 \<le> q \<and> 4 \<le> q + pads + 1
         then (if strict \<and> s \<noteq> [] then Inl (ValueError ''excess data after padding'') else Inr [])
         else a2b strict q left (if 2 \<le> q then pads + 1 else pads) True s)
      else case b64_value c of
          None \<Rightarrow> (if strict then Inl (ValueError ''only base64 data is allowed'') else a2b strict q left pads started s)
        | Some v \<Rightarrow>
            (if strict \<and> started then Inl (ValueError ''discontinuous padding not allowed'')
             else if q = 0 then a2b strict 1 v 0 started s
             else ebind (a2b strict (if q = 3 then 0 else q + 1)
                   (if q = 1 then v mod 16 else if q = 2 then v mod 4 else 0) 0 started s) (\<lambda>r.
               Inr (char_of (if q = 1 then left * 4 + v div 16 else if q = 2 then left * 16 + v div 4
                  else left * 64 + v) # r))))"
  by pat_completeness auto
termination by (relation "measure (\<lambda>(strict, q, left, pads, started, s). length s)") auto

definition b64decode :: "bool \<Rightarrow> string \<Rightarrow> exn + string" where
  "b64decode strict s = (if strict \<and> take 1 s = ''='' then Inl (ValueError ''leading padding not allowed'')
     else a2b strict 0 0 0 False s)"

definition urlsafe_b64decode :: "string \<Rightarrow> exn + string" where
  "urlsafe_b64decode s = b64decode False (map from_url s)"

section \<open>The round trip\<close>

lemma sextets_bound: "\<forall>b \<in> set bs. b < 256 \<Longrightarrow> \<forall>v \<in> set (sextets bs). v < 64"
  by (induction bs rule: sextets.induct) auto

lemma a2b_char: "v < 64 \<Longrightarrow> a2b strict q left pads False (b64_char v # s) =
    (if q = 0 then a2b strict 1 v 0 False s
     else ebind (a2b strict (if q = 3 then 0 else q + 1)
           (if q = 1 then v mod 16 else if q = 2 then v mod 4 else 0) 0 False s) (\<lambda>r.
       Inr (char_of (if q = 1 then left * 4 + v div 16 else if q = 2 then left * 16 + v div 4
          else left * 64 + v) # r)))"
  by (simp add: b64_char_plain b64_value_char)

lemma code_list: "\<exists>b. c = char_of b \<and> b < (256 :: nat)"
  by (rule exI [of _ "code c"]) simp

lemma a2b_encoded:
  "a2b strict 0 left pads False (map b64_char (sextets (map code bs)) @ replicate ((3 - length bs mod 3) mod 3) CHR ''='') = Inr bs"
proof (induction "map code bs" arbitrary: bs left pads rule: sextets.induct)
  case 1
  then show ?case by simp
next
  case (2 a)
  then obtain c where bs: "bs = [c]" "a = code c" by (cases bs) auto
  have "a < 256" by (simp add: bs)
  then have "a div 4 < 64" "a mod 4 * 16 < 64" "a div 4 * 4 + a mod 4 * 16 div 16 = a" by auto
  then show ?case by (simp add: bs(1) bs(2) [symmetric] a2b_char del: a2b.simps(2))
      (simp add: bs(2) numeral_2_eq_2)
next
  case (3 a b)
  then obtain c d where bs: "bs = [c, d]" "a = code c" "b = code d"
    by (cases bs; cases "tl bs") auto
  have "a < 256" "b < 256" by (simp_all add: bs)
  then have "a div 4 < 64" "a mod 4 * 16 + b div 16 < 64" "b mod 16 * 4 < 64"
    "a div 4 * 4 + (a mod 4 * 16 + b div 16) div 16 = a"
    "(a mod 4 * 16 + b div 16) mod 16 * 16 + b mod 16 * 4 div 4 = b" by auto
  then show ?case by (simp add: bs(1) bs(2,3) [symmetric] a2b_char del: a2b.simps(2)) (simp add: bs(2,3))
next
  case (4 a b c r)
  then obtain x y z rs where bs: "bs = x # y # z # rs" "a = code x" "b = code y" "c = code z" "r = map code rs"
    by (cases bs; cases "tl bs"; cases "tl (tl bs)") auto
  have "a < 256" "b < 256" "c < 256" by (simp_all add: bs)
  then have "a div 4 < 64" "a mod 4 * 16 + b div 16 < 64" "b mod 16 * 4 + c div 64 < 64" "c mod 64 < 64"
    "a div 4 * 4 + (a mod 4 * 16 + b div 16) div 16 = a"
    "(a mod 4 * 16 + b div 16) mod 16 * 16 + (b mod 16 * 4 + c div 64) div 4 = b"
    "(b mod 16 * 4 + c div 64) mod 4 * 64 + c mod 64 = c" by auto
  moreover have "length bs mod 3 = length rs mod 3" unfolding bs(1) list.size by presburger
  moreover have "a2b strict 0 0 0 False (map b64_char (sextets (map code rs)) @
      replicate ((3 - length rs mod 3) mod 3) CHR ''='') = Inr rs"
    by (rule "4.hyps"(1)) (rule bs(5))
  ultimately show ?case
    by (simp add: bs(1) bs(2-4) [symmetric] a2b_char del: a2b.simps(2)) (simp add: bs(2-4))
qed

lemma b64decode_encode: "b64decode strict (b64encode bs) = Inr bs"
proof -
  have "take 1 (b64encode bs) \<noteq> ''=''"
    by (cases "map code bs" rule: sextets.cases) (auto simp: b64encode_def b64_char_plain)
  then show ?thesis by (simp add: b64decode_def b64encode_def a2b_encoded)
qed

lemma urlsafe_round_trip: "urlsafe_b64decode (urlsafe_b64encode bs) = Inr bs"
proof -
  have "map from_url (urlsafe_b64encode bs) = b64encode bs"
    by (simp add: urlsafe_b64encode_def b64encode_def comp_def from_to_url) (simp add: to_url_def from_url_def)
  then show ?thesis by (simp add: urlsafe_b64decode_def b64decode_encode)
qed

text \<open>The padding can be dropped and put back, and the text has no dot.\<close>

definition repad :: "string \<Rightarrow> string" where
  "repad s = s @ replicate (nat (- int (length s) mod 4)) CHR ''=''"

lemma length_sextets: "length (sextets bs) = 4 * (length bs div 3) + (if length bs mod 3 = 0 then 0 else length bs mod 3 + 1)"
proof (induction bs rule: sextets.induct)
  case (4 a b c bs)
  have "length (a # b # c # bs) div 3 = length bs div 3 + 1" "length (a # b # c # bs) mod 3 = length bs mod 3"
    unfolding list.size by presburger+
  with 4 show ?case by simp
qed simp_all

lemma rstrip_pads: "(\<And>c. c \<in> set s \<Longrightarrow> c \<noteq> x) \<Longrightarrow> rstrip x (s @ replicate n x) = s"
proof -
  assume a: "\<And>c. c \<in> set s \<Longrightarrow> c \<noteq> x"
  have "dropWhile (\<lambda>y. y = x) (replicate n x @ rev s) = rev s"
    using a by (induction n) (cases "rev s", auto)
  then show ?thesis by (simp add: rstrip_def)
qed

lemma unpadded: "rstrip CHR ''='' (urlsafe_b64encode bs) = map to_url (map b64_char (sextets (map code bs)))"
  unfolding urlsafe_b64encode_def b64encode_def map_append map_replicate
  by (simp add: to_url_def [of "CHR ''=''"], rule rstrip_pads) (auto simp: url_char_plain)

lemma repad_rstrip: "repad (rstrip CHR ''='' (urlsafe_b64encode bs)) = urlsafe_b64encode bs"
proof -
  have l: "length (sextets (map code bs)) =
      4 * (length bs div 3) + (if length bs mod 3 = 0 then 0 else length bs mod 3 + 1)"
    by (simp add: length_sextets)
  have "length bs mod 3 < 3" by simp
  then have "length bs mod 3 = 0 \<or> length bs mod 3 = 1 \<or> length bs mod 3 = 2" by arith
  then have "nat (- int (length (sextets (map code bs))) mod 4) = (3 - length bs mod 3) mod 3"
  proof (elim disjE)
    have m: "- int (4 * k + r) mod 4 = - int r mod 4" for k r by presburger
    show ?thesis if "length bs mod 3 = 0" using m [of _ 0] by (simp only: l that) simp
    show ?thesis if "length bs mod 3 = 1" using m [of _ 2] by (simp only: l that) simp
    show ?thesis if "length bs mod 3 = 2" using m [of _ 3] by (simp only: l that) simp
  qed
  then show ?thesis
    by (simp add: repad_def unpadded) (simp add: urlsafe_b64encode_def b64encode_def to_url_def [of "CHR ''=''"])
qed

lemma unpadded_no_dot: "CHR ''.'' \<notin> set (rstrip CHR ''='' (urlsafe_b64encode bs))"
  by (auto simp: unpadded url_char_plain dest: sym)

end
