(* ===== verification/Tenancy.thy ===== *)
theory Tenancy
  imports Base64 Events
begin

text \<open>
  Tenant scoping outside the database, of \<open>tenancy.py\<close>: the keys of the object store and of the
  cache, and the signed token that carries the tenant of a job.  The digest of
  \<open>hmac.new(secret, payload, sha256)\<close>, as bytes, is a parameter.
\<close>

section \<open>Object and cache keys\<close>

text \<open>
  \<open>PurePosixPath(s)\<close>: its root and its parts, which have no empty one and no single dot.
\<close>

definition posix_root :: "string \<Rightarrow> string" where
  "posix_root s = (if take 2 s = ''//'' \<and> take 3 s \<noteq> ''///'' then ''//'' else if take 1 s = ''/'' then ''/'' else [])"

definition posix_parts :: "string \<Rightarrow> string list" where
  "posix_parts s = filter (\<lambda>p. p \<noteq> [] \<and> p \<noteq> ''.'') (split_all CHR ''/'' s)"

definition posix_str :: "string \<Rightarrow> string" where
  "posix_str s = (if posix_root s = [] \<and> posix_parts s = [] then ''.'' else posix_root s @ join ''/'' (posix_parts s))"

definition object_key :: "uuid \<Rightarrow> string list \<Rightarrow> exn + string" where
  "object_key tenant parts =
     (let clean = map posix_str parts in
      if list_ex (\<lambda>p. take 1 p = ''/'' \<or> ''..'' \<in> set (posix_parts p)) clean
      then Inl (ValueError ''unsafe object key component'')
      else Inr (join ''/'' (''tenants'' # uuid_str tenant # clean)))"

definition cache_key :: "uuid \<Rightarrow> string \<Rightarrow> string \<Rightarrow> string" where
  "cache_key tenant namespace name = ''tenant:'' @ uuid_str tenant @ '':'' @ namespace @ '':'' @ name"

section \<open>Job contexts\<close>

record job_context =
  jc_tenant_id :: uuid
  jc_membership_id :: uuid
  jc_expires_at :: int

definition context_payload :: "job_context \<Rightarrow> string" where
  "context_payload c = utf8 (dumps True (PDict [(''tenant_id'', PStr (uuid_str (jc_tenant_id c))),
     (''membership_id'', PStr (uuid_str (jc_membership_id c))), (''exp'', PInt (jc_expires_at c))]))"

text \<open>The token's two parts, without their padding.\<close>

definition token_part :: "string \<Rightarrow> string" where
  "token_part bs = rstrip CHR ''='' (urlsafe_b64encode bs)"

definition sign_job_context :: "(string \<Rightarrow> string \<Rightarrow> string) \<Rightarrow> job_context \<Rightarrow> string \<Rightarrow> string" where
  "sign_job_context hmac c secret =
     token_part (context_payload c) @ ''.'' @ token_part (hmac secret (context_payload c))"

text \<open>
  What verification raises: the two \<open>ValueError\<close>s of the code, or an exception it does not
  catch.
\<close>

datatype token_failure = InvalidContext | ExpiredContext | Uncaught string

definition invalid :: "exn + 'a \<Rightarrow> token_failure + 'a" where
  "invalid r = map_error (\<lambda>_. InvalidContext) r"

text \<open>\<open>data[key]\<close>, \<open>UUID(x)\<close> and \<open>int(x)\<close> for any JSON value; \<open>truncated\<close> gives the integer part of a float.\<close>

fun item :: "string \<Rightarrow> pyval \<Rightarrow> token_failure + pyval" where
  "item key (PDict d) = (case map_of d key of Some x \<Rightarrow> Inr x | None \<Rightarrow> Inl InvalidContext)"
| "item key v = Inl InvalidContext"

fun uuid_arg :: "pyval \<Rightarrow> token_failure + uuid" where
  "uuid_arg (PStr s) = invalid (uuid_of_str s)"
| "uuid_arg PNone = Inl InvalidContext"
| "uuid_arg v = Inl (Uncaught ''AttributeError'')"

fun int_arg :: "(string \<Rightarrow> int) \<Rightarrow> pyval \<Rightarrow> token_failure + int" where
  "int_arg truncated (PInt i) = Inr i"
| "int_arg truncated (PBool b) = Inr (if b then 1 else 0)"
| "int_arg truncated (PFloat r) = Inr (truncated r)"
| "int_arg truncated (PStr s) = invalid (py_int s)"
| "int_arg truncated (PNonFinite r) = (if r = ''NaN'' then Inl InvalidContext else Inl (Uncaught ''OverflowError''))"
| "int_arg truncated v = Inl InvalidContext"

definition context_of :: "(string \<Rightarrow> int) \<Rightarrow> pyval \<Rightarrow> token_failure + job_context" where
  "context_of truncated data =
     ebind (item ''tenant_id'' data) (\<lambda>a. ebind (uuid_arg a) (\<lambda>tenant.
     ebind (item ''membership_id'' data) (\<lambda>b. ebind (uuid_arg b) (\<lambda>membership.
     ebind (item ''exp'' data) (\<lambda>c. ebind (int_arg truncated c) (\<lambda>expires.
     Inr \<lparr>jc_tenant_id = tenant, jc_membership_id = membership, jc_expires_at = expires\<rparr>))))))"

definition verify_job_context :: "(string \<Rightarrow> string \<Rightarrow> string) \<Rightarrow> pydantic \<Rightarrow> (string \<Rightarrow> int) \<Rightarrow> string \<Rightarrow> string \<Rightarrow> int \<Rightarrow>
    token_failure + job_context" where
  "verify_job_context hmac pd truncated token secret now =
     (case split_max 1 CHR ''.'' (utf8 token) of
        [encoded_payload, encoded_signature] \<Rightarrow>
          ebind (invalid (urlsafe_b64decode (repad encoded_payload))) (\<lambda>payload.
          ebind (invalid (urlsafe_b64decode (repad encoded_signature))) (\<lambda>signature.
          ebind (check (signature = hmac secret payload) InvalidContext) (\<lambda>_.
          ebind (invalid (json_loads_bytes pd payload)) (\<lambda>data.
          ebind (context_of truncated data) (\<lambda>c.
          ebind (check (\<not> jc_expires_at c < now) ExpiredContext) (\<lambda>_. Inr c))))))
      | _ \<Rightarrow> Inl InvalidContext)"

section \<open>Lemmas\<close>

lemma utf8_round_trip: "utf8_decode (utf8 s) = Some s"
proof (induction s)
  case Nil
  then show ?case by (simp add: utf8_def)
next
  case (Cons c s)
  have "code c < 256" by simp
  then have "code c < 4 * 64" by simp
  then have "code c div 64 < 4" by (rule less_mult_imp_div_less)
  moreover have "code c div 64 * 64 + code c mod 64 = code c" "code c mod 64 < 64" by simp_all
  ultimately
  show ?case using Cons by (auto simp: utf8_def code_char_of)
qed

lemma utf8_ascii: "(\<And>c. c \<in> set s \<Longrightarrow> code c < 128) \<Longrightarrow> utf8 s = s"
  by (induction s) (auto simp: utf8_def)

lemma sextets_code: "\<forall>v \<in> set (sextets (map code bs)). v < 64"
  by (rule sextets_bound) auto

lemma code_b64: "v < 64 \<Longrightarrow> code (to_url (b64_char v)) < 128"
  by (auto simp: to_url_def b64_char_def code_char_of) (simp_all add: code_def)

lemma token_part_ascii: "c \<in> set (token_part bs) \<Longrightarrow> code c < 128"
  using sextets_code [of bs] by (auto simp: token_part_def unpadded code_b64)

lemma token_part_no_dot: "CHR ''.'' \<notin> set (token_part bs)"
  by (simp add: token_part_def unpadded_no_dot)

lemma decode_token_part: "urlsafe_b64decode (repad (token_part bs)) = Inr bs"
  by (simp add: token_part_def repad_rstrip urlsafe_round_trip)

lemma signed_token_parts:
  "split_max 1 CHR ''.'' (utf8 (sign_job_context hmac c secret)) =
     [token_part (context_payload c), token_part (hmac secret (context_payload c))]"
proof -
  have "utf8 (sign_job_context hmac c secret) = sign_job_context hmac c secret"
    by (rule utf8_ascii) (auto simp: sign_job_context_def token_part_ascii code_def [of "CHR ''.''"])
  then show ?thesis
    unfolding sign_job_context_def One_nat_def append_Cons append_Nil
    by (simp only: split_max_part [OF token_part_no_dot] split_max.simps(1))
qed

lemma loads_bytes_dumps:
  "wf_doc v \<Longrightarrow> json_loads_bytes pd (utf8 (dumps ea v)) = Inr (with_floats (pd_float pd) (normal v))"
  by (simp add: json_loads_bytes_def utf8_round_trip json_loads_def loads_dumps_normal del: dumps.simps)

lemma payload_reads_back:
  assumes "valid_uuid (jc_tenant_id c)" "valid_uuid (jc_membership_id c)"
  shows "ebind (invalid (json_loads_bytes pd (context_payload c))) (context_of truncated) = Inr c"
proof -
  have order: "\<not> ''membership_id'' \<le> ''exp''" "\<not> ''tenant_id'' \<le> ''membership_id''" "\<not> ''tenant_id'' \<le> ''exp''"
    by code_simp+
  then have n: "normal (PDict [(''tenant_id'', PStr t), (''membership_id'', PStr m), (''exp'', PInt e)]) =
      PDict [(''exp'', PInt e), (''membership_id'', PStr m), (''tenant_id'', PStr t)]" for t m e
    using order by simp
  have "json_loads_bytes pd (context_payload c) = Inr (PDict [(''exp'', PInt (jc_expires_at c)),
      (''membership_id'', PStr (uuid_str (jc_membership_id c))), (''tenant_id'', PStr (uuid_str (jc_tenant_id c)))])"
    unfolding context_payload_def by (subst loads_bytes_dumps) (simp_all only: n, simp_all)
  then show ?thesis using assms by (simp add: invalid_def context_of_def)
qed

text \<open>
  C29. A signed job context reads back.  Verifying the token of a context gives exactly this
  context until it expires and an error afterwards, and a secret whose digest of the payload is
  another is refused, whatever the secrets, the identifiers and the deadline.
\<close>

theorem job_context_round_trip:
  assumes "valid_uuid (jc_tenant_id c)" "valid_uuid (jc_membership_id c)"
  shows "verify_job_context hmac pd truncated (sign_job_context hmac c secret) secret' now =
    (if hmac secret' (context_payload c) \<noteq> hmac secret (context_payload c) then Inl InvalidContext
     else if jc_expires_at c < now then Inl ExpiredContext else Inr c)"
proof -
  have "\<exists>d. json_loads_bytes pd (context_payload c) = Inr d \<and> context_of truncated d = Inr c"
    using payload_reads_back [OF assms, of pd truncated]
    by (cases "json_loads_bytes pd (context_payload c)") (auto simp: invalid_def)
  then obtain d where "json_loads_bytes pd (context_payload c) = Inr d" "context_of truncated d = Inr c" by blast
  then show ?thesis
    unfolding verify_job_context_def signed_token_parts
    by (simp add: decode_token_part invalid_def check_def)
qed

definition sample_context :: job_context where
  "sample_context = \<lparr>jc_tenant_id = 17, jc_membership_id = 18, jc_expires_at = 100\<rparr>"

theorem job_context_round_trip_witness:
  "\<forall>pd truncated. verify_job_context (\<lambda>s p. s @ p) pd truncated
     (sign_job_context (\<lambda>s p. s @ p) sample_context ''key'') ''key'' 99 = Inr sample_context"
proof (intro allI)
  fix pd truncated
  show "verify_job_context (\<lambda>s p. s @ p) pd truncated
     (sign_job_context (\<lambda>s p. s @ p) sample_context ''key'') ''key'' 99 = Inr sample_context"
    using job_context_round_trip [of sample_context "\<lambda>s p. s @ p" pd truncated "''key''" "''key''" 99]
    by (simp add: sample_context_def valid_uuid_def)
qed

section \<open>Keys of different tenants\<close>

lemma uuid_str_prefix:
  assumes "valid_uuid t" "valid_uuid u" "uuid_str t @ x = uuid_str u @ y"
  shows "t = u"
proof -
  have "length (uuid_str t) = length (uuid_str u)" by (simp add: uuid_str_def Let_def)
  with assms(3) have "uuid_str t = uuid_str u" by simp
  with assms(1,2) show ?thesis by (rule uuid_str_inject)
qed

lemma join_Cons: "ys \<noteq> [] \<Longrightarrow> join sep (x # ys) = x @ sep @ join sep ys"
  by (cases ys) auto

lemma object_key_prefix:
  "object_key t ps = Inr k \<Longrightarrow> \<exists>x. k = ''tenants/'' @ uuid_str t @ x"
  by (cases ps) (auto simp: object_key_def Let_def split: if_splits)

lemma posix_parts_plain: "p \<in> set (posix_parts s) \<Longrightarrow> CHR ''/'' \<notin> set p \<and> p \<noteq> [] \<and> p \<noteq> ''.''"
  by (auto simp: posix_parts_def dest: split_all_parts)

lemma posix_parts_single: "CHR ''/'' \<notin> set p \<Longrightarrow> p \<noteq> [] \<Longrightarrow> p \<noteq> ''.'' \<Longrightarrow> posix_parts p = [p]"
  by (simp add: posix_parts_def split_all_plain)

lemma posix_parts_append: "posix_parts (s @ CHR ''/'' # t) = posix_parts s @ posix_parts t"
  by (simp add: posix_parts_def split_all_append)

lemma posix_parts_join: "posix_parts (join ''/'' xs) = concat (map posix_parts xs)"
proof (induction "''/''" xs rule: join.induct)
  case (3 x y ys)
  then show ?case by (simp add: posix_parts_append del: join.simps(2))
qed (simp_all add: posix_parts_def)

lemma posix_parts_root: "posix_parts (posix_root s @ t) = posix_parts t"
  by (simp add: posix_root_def posix_parts_def)

lemma posix_parts_str: "posix_parts (posix_str s) = posix_parts s"
proof -
  have "posix_parts (join ''/'' (posix_parts s)) = posix_parts s"
    unfolding posix_parts_join
    by (rule trans [OF arg_cong [where f = concat, OF map_cong [OF refl posix_parts_single]]])
      (auto dest: posix_parts_plain)
  then show ?thesis by (auto simp: posix_str_def posix_parts_root) (simp add: posix_parts_def)
qed

lemma uuid_path: "posix_parts (uuid_str t) = [uuid_str t]"
proof (rule posix_parts_single)
  show "CHR ''/'' \<notin> set (uuid_str t)" using uuid_str_chars [of "CHR ''/''" t] by (auto simp: is_hex_def)
  show "uuid_str t \<noteq> []" "uuid_str t \<noteq> ''.''"
    using length_uuid_hex [of t] by (auto simp: uuid_str_def Let_def dest: arg_cong [where f = length])
qed

text \<open>
  The keys of a tenant stay in its own namespace.  The path of an object key is the tenant's
  prefix followed by the parts of its components, none of which leads upwards, so no object key
  and no cache key of one tenant is a prefix of a key of another tenant.
\<close>

theorem tenant_keys_confined:
  assumes "valid_uuid t" "valid_uuid u" "object_key t ps = Inr k"
  shows "posix_parts k = ''tenants'' # uuid_str t # concat (map posix_parts ps) \<and> ''..'' \<notin> set (posix_parts k) \<and>
    (object_key u qs = Inr k' \<longrightarrow> starts_with k k' \<longrightarrow> t = u) \<and>
    (starts_with (cache_key t a x) (cache_key u b y) \<longrightarrow> t = u)"
proof (intro conjI impI)
  have k: "k = join ''/'' (''tenants'' # uuid_str t # map posix_str ps)"
    and up: "\<And>p. p \<in> set ps \<Longrightarrow> ''..'' \<notin> set (posix_parts p)"
    using assms(3) by (auto simp: object_key_def Let_def list_ex_iff posix_parts_str split: if_splits)
  have "posix_parts ''tenants'' = [''tenants'']" by code_simp
  then show path: "posix_parts k = ''tenants'' # uuid_str t # concat (map posix_parts ps)"
    by (simp only: k posix_parts_join list.map concat.simps uuid_path map_map comp_def posix_parts_str append_Cons append_Nil)
  have "uuid_str t \<noteq> ''..''"
    using length_uuid_hex [of t] by (auto simp: uuid_str_def Let_def dest: arg_cong [where f = length])
  then show "''..'' \<notin> set (posix_parts k)" using up by (auto simp: path)
  show "t = u" if "object_key u qs = Inr k'" "starts_with k k'"
  proof -
    note h = that
    obtain x y z where "k = ''tenants/'' @ uuid_str t @ x" "k' = ''tenants/'' @ uuid_str u @ y" "k' = k @ z"
      using object_key_prefix [OF assms(3)] object_key_prefix [OF h(1)] h(2) unfolding starts_with_iff by blast
    then have "uuid_str t @ x @ z = uuid_str u @ y" by simp
    then show ?thesis by (rule uuid_str_prefix [OF assms(1,2)])
  qed
  show "t = u" if "starts_with (cache_key t a x) (cache_key u b y)"
  proof -
    note h = that
    obtain z where "cache_key u b y = cache_key t a x @ z" using h by (auto simp: starts_with_iff)
    then have "uuid_str t @ ('':'' @ a @ '':'' @ x @ z) = uuid_str u @ ('':'' @ b @ '':'' @ y)"
      by (simp add: cache_key_def)
    then show ?thesis by (rule uuid_str_prefix [OF assms(1,2)])
  qed
qed

theorem tenant_keys_confined_witness:
  "object_key 5 [''evidence/./2026'', ''a.json''] = Inr (''tenants/00000000-0000-0000-0000-000000000005/evidence/2026/a.json'') \<and>
   ''..'' \<notin> set (posix_parts ''tenants/00000000-0000-0000-0000-000000000005/evidence/2026/a.json'')"
proof -
  have "object_key 5 [''evidence/./2026'', ''a.json''] = Inr (''tenants/00000000-0000-0000-0000-000000000005/evidence/2026/a.json'')"
    by code_simp
  moreover have "valid_uuid 5" by (simp add: valid_uuid_def)
  ultimately show ?thesis using tenant_keys_confined [of 5 5 "[''evidence/./2026'', ''a.json'']"] by blast
qed

end
