(* ===== verification/Access.thy ===== *)
theory Access
  imports CoreSchema Tenancy
begin

text \<open>
  Who may do what: the role policy (\<open>auth/policy.py\<close>), API keys and invitation tokens
  (\<open>auth/api_keys.py\<close>, \<open>auth/invitations.py\<close>), OIDC tokens and the key sets they are checked
  against (\<open>auth/jwt.py\<close>), the principals both establish (\<open>auth/service.py\<close>, \<open>db.py\<close>), and the
  guards of the four management interfaces.  HMAC-SHA256, as hexadecimal text, the JWT library,
  the URL parser, the network and the random draws are parameters.  The database speaks
  PostgreSQL, so that every lookup runs under the tenant setting.
\<close>

section \<open>The role policy\<close>

datatype role = Owner | Administrator | Operator | Marketer | Analyst | Finance | DisputeReviewer
  | ExternalPartner | ReadOnly

datatype permission = WorkspaceManage | MembershipManage | ApiKeyManage | DataRead | DataWrite | FinanceRead
  | FinanceWrite | DisputeReview | IntegrationManage

fun role_value :: "role \<Rightarrow> string" where
  "role_value Owner = ''owner''"
| "role_value Administrator = ''administrator''"
| "role_value Operator = ''operator''"
| "role_value Marketer = ''marketer''"
| "role_value Analyst = ''analyst''"
| "role_value Finance = ''finance''"
| "role_value DisputeReviewer = ''dispute_reviewer''"
| "role_value ExternalPartner = ''external_partner''"
| "role_value ReadOnly = ''read_only''"

fun permission_value :: "permission \<Rightarrow> string" where
  "permission_value WorkspaceManage = ''workspace:manage''"
| "permission_value MembershipManage = ''membership:manage''"
| "permission_value ApiKeyManage = ''api_key:manage''"
| "permission_value DataRead = ''data:read''"
| "permission_value DataWrite = ''data:write''"
| "permission_value FinanceRead = ''finance:read''"
| "permission_value FinanceWrite = ''finance:write''"
| "permission_value DisputeReview = ''dispute:review''"
| "permission_value IntegrationManage = ''integration:manage''"

definition all_permissions :: "permission list" where
  "all_permissions = [WorkspaceManage, MembershipManage, ApiKeyManage, DataRead, DataWrite, FinanceRead, FinanceWrite,
     DisputeReview, IntegrationManage]"

fun policy :: "role \<Rightarrow> permission list" where
  "policy Owner = all_permissions"
| "policy Administrator = all_permissions"
| "policy Operator = [DataRead, DataWrite]"
| "policy Marketer = [DataRead, DataWrite]"
| "policy Analyst = [DataRead, FinanceRead]"
| "policy Finance = [DataRead, FinanceRead, FinanceWrite]"
| "policy DisputeReviewer = [DataRead, FinanceRead, DisputeReview]"
| "policy ExternalPartner = [DataRead]"
| "policy ReadOnly = [DataRead]"

definition authorize :: "role \<Rightarrow> permission \<Rightarrow> bool" where
  "authorize r p \<longleftrightarrow> p \<in> set (policy r)"

section \<open>Failures\<close>

text \<open>
  \<open>TenantAccessError\<close>; a \<open>ValueError\<close>, of which \<open>TokenVerificationError\<close> is one; any other
  exception.
\<close>

datatype auth_failure = NoAccess string | Rejected string | Fault string

section \<open>Keyed digests\<close>

text \<open>A hasher is its encoded pepper.\<close>

definition mk_key_hasher :: "string \<Rightarrow> auth_failure + string" where
  "mk_key_hasher pepper = ebind (check (\<not> length pepper < 16) (Rejected ''API-key pepper must be at least 16 characters''))
     (\<lambda>_. Inr (utf8 pepper))"

definition key_digest :: "(string \<Rightarrow> string \<Rightarrow> string) \<Rightarrow> string \<Rightarrow> string \<Rightarrow> string" where
  "key_digest hmac pepper plaintext = hmac pepper (utf8 plaintext)"

text \<open>\<open>hmac.compare_digest\<close> refuses a text outside ASCII.\<close>

definition compare_digest :: "string \<Rightarrow> string \<Rightarrow> auth_failure + bool" where
  "compare_digest a b = (if list_all (\<lambda>c. code c < 128) a \<and> list_all (\<lambda>c. code c < 128) b then Inr (a = b)
     else Inl (Fault ''TypeError''))"

definition verify_key :: "(string \<Rightarrow> string \<Rightarrow> string) \<Rightarrow> string \<Rightarrow> string \<Rightarrow> string \<Rightarrow> auth_failure + bool" where
  "verify_key hmac pepper plaintext expected = compare_digest (key_digest hmac pepper plaintext) expected"

record generated_key =
  gk_plaintext :: string
  gk_prefix :: string
  gk_digest :: string

text \<open>\<open>random\<close> and \<open>secret\<close> are the draws \<open>token_hex(6)\<close> and \<open>token_urlsafe(32)\<close>.\<close>

definition generate_key :: "(string \<Rightarrow> string \<Rightarrow> string) \<Rightarrow> string \<Rightarrow> string \<Rightarrow> string \<Rightarrow> uuid \<Rightarrow> generated_key" where
  "generate_key hmac pepper random secret tenant =
     (let prefix = ''oos_live_'' @ random; plaintext = prefix @ ''_'' @ uuid_hex tenant @ ''_'' @ secret
      in \<lparr>gk_plaintext = plaintext, gk_prefix = prefix, gk_digest = key_digest hmac pepper plaintext\<rparr>)"

definition mk_invitation_hasher :: "string \<Rightarrow> auth_failure + string" where
  "mk_invitation_hasher pepper =
     ebind (check (\<not> length pepper < 16) (Rejected ''invitation pepper must be at least 16 characters'')) (\<lambda>_. Inr (utf8 pepper))"

definition invitation_digest :: "(string \<Rightarrow> string \<Rightarrow> string) \<Rightarrow> string \<Rightarrow> string \<Rightarrow> string" where
  "invitation_digest hmac pepper token = hmac pepper (utf8 token)"

definition generate_invitation :: "(string \<Rightarrow> string \<Rightarrow> string) \<Rightarrow> string \<Rightarrow> string \<Rightarrow> string \<times> string" where
  "generate_invitation hmac pepper token = (token, invitation_digest hmac pepper token)"

definition verify_invitation :: "(string \<Rightarrow> string \<Rightarrow> string) \<Rightarrow> string \<Rightarrow> string \<Rightarrow> string \<Rightarrow> auth_failure + bool" where
  "verify_invitation hmac pepper token digest = compare_digest (invitation_digest hmac pepper token) digest"

section \<open>OIDC tokens\<close>

record oidc_claims =
  ic_issuer :: string
  ic_subject :: string
  ic_audience :: pyval
  ic_expires_at :: int
  ic_email :: "string option"

text \<open>
  The JWT library: the unverified header and the verified claims of a token, or a
  \<open>PyJWTError\<close>; the key of a JWK; and \<open>str\<close> of a JSON value.
\<close>

record 'k jwt_lib =
  jl_header :: "string \<Rightarrow> (string \<times> pyval) list option"
  jl_decode :: "string \<Rightarrow> 'k \<Rightarrow> string \<Rightarrow> string \<Rightarrow> string \<Rightarrow> (string \<times> pyval) list option"
  jl_key :: "(string \<times> pyval) list \<Rightarrow> auth_failure + 'k"
  jl_str :: "pyval \<Rightarrow> string"
  jl_truncated :: "string \<Rightarrow> int"

record 'k verifier =
  jv_issuer :: string
  jv_audience :: string
  jv_keys :: "(string \<times> 'k) list"

fun jwks_keys :: "'k jwt_lib \<Rightarrow> pyval list \<Rightarrow> (string \<times> 'k) list \<Rightarrow> auth_failure + (string \<times> 'k) list" where
  "jwks_keys J [] ks = Inr ks"
| "jwks_keys J (PDict jwk # xs) ks = (case map_of jwk ''kid'' of
     None \<Rightarrow> jwks_keys J xs ks
   | Some kid \<Rightarrow> ebind (jl_key J jwk) (\<lambda>k. jwks_keys J xs (dict_set (jl_str J kid) k ks)))"
| "jwks_keys J (x # xs) ks = jwks_keys J xs ks"

definition mk_verifier :: "'k jwt_lib \<Rightarrow> string \<Rightarrow> string \<Rightarrow> (string \<times> pyval) list \<Rightarrow> auth_failure + 'k verifier" where
  "mk_verifier J issuer audience jwks =
     (case map_of jwks ''keys'' of
        Some (PList (x # xs)) \<Rightarrow> ebind (jwks_keys J (x # xs) []) (\<lambda>ks.
          Inr \<lparr>jv_issuer = rstrip CHR ''/'' issuer, jv_audience = audience, jv_keys = ks\<rparr>)
      | _ \<Rightarrow> Inl (Rejected ''JWKS must contain at least one key''))"

fun hashable :: "pyval \<Rightarrow> bool" where
  "hashable (PList xs) = False"
| "hashable (PDict xs) = False"
| "hashable v = True"

definition algorithm_of :: "pyval option \<Rightarrow> auth_failure + string" where
  "algorithm_of alg = (case alg of
     Some (PStr a) \<Rightarrow> (if a \<in> {''RS256'', ''ES256''} then Inr a else Inl (Rejected ''unsupported token algorithm''))
   | Some v \<Rightarrow> (if hashable v then Inl (Rejected ''unsupported token algorithm'') else Inl (Fault ''TypeError''))
   | None \<Rightarrow> Inl (Rejected ''unsupported token algorithm''))"

fun int_claim :: "(string \<Rightarrow> int) \<Rightarrow> pyval \<Rightarrow> auth_failure + int" where
  "int_claim truncated (PInt i) = Inr i"
| "int_claim truncated (PBool b) = Inr (if b then 1 else 0)"
| "int_claim truncated (PFloat r) = Inr (truncated r)"
| "int_claim truncated (PStr s) = map_error (\<lambda>_. Rejected ''invalid literal for int()'') (py_int s)"
| "int_claim truncated (PNonFinite r) =
     Inl (if r = ''NaN'' then Rejected ''cannot convert float NaN to integer'' else Fault ''OverflowError'')"
| "int_claim truncated v = Inl (Fault ''TypeError'')"

definition claim :: "(string \<times> pyval) list \<Rightarrow> string \<Rightarrow> auth_failure + pyval" where
  "claim claims key = (case map_of claims key of None \<Rightarrow> Inl (Fault ''KeyError'') | Some v \<Rightarrow> Inr v)"

fun is_audience :: "pyval \<Rightarrow> bool" where
  "is_audience (PStr s) = True"
| "is_audience (PList xs) = True"
| "is_audience v = False"

definition claims_of :: "'k jwt_lib \<Rightarrow> (string \<times> pyval) list \<Rightarrow> auth_failure + oidc_claims" where
  "claims_of J claims =
     (case map_of claims ''sub'' of
        Some (PStr (c # s)) \<Rightarrow>
          ebind (claim claims ''aud'') (\<lambda>audience.
          ebind (check (is_audience audience) (Rejected ''invalid audience'')) (\<lambda>_.
          ebind (claim claims ''iss'') (\<lambda>issuer.
          ebind (ebind (claim claims ''exp'') (int_claim (jl_truncated J))) (\<lambda>expires.
          Inr \<lparr>ic_issuer = jl_str J issuer, ic_subject = c # s, ic_audience = audience, ic_expires_at = expires,
            ic_email = (case map_of claims ''email'' of Some (PStr e) \<Rightarrow> Some e | _ \<Rightarrow> None)\<rparr>))))
      | _ \<Rightarrow> Inl (Rejected ''invalid subject''))"

definition verify_token :: "'k jwt_lib \<Rightarrow> 'k verifier \<Rightarrow> string \<Rightarrow> auth_failure + oidc_claims" where
  "verify_token J V token =
     (case jl_header J token of
        None \<Rightarrow> Inl (Rejected ''token verification failed'')
      | Some header \<Rightarrow>
          ebind (algorithm_of (map_of header ''alg'')) (\<lambda>algorithm.
          case map_of (jv_keys V) (jl_str J (case map_of header ''kid'' of None \<Rightarrow> PNone | Some k \<Rightarrow> k)) of
            None \<Rightarrow> Inl (Rejected ''unknown signing key'')
          | Some key \<Rightarrow>
              (case jl_decode J token key algorithm (jv_audience V) (jv_issuer V) of
                 None \<Rightarrow> Inl (Rejected ''token verification failed'')
               | Some claims \<Rightarrow> claims_of J claims)))"

section \<open>Key sets\<close>

record parsed_url =
  pu_scheme :: string
  pu_host :: "string option"
  pu_user :: "string option"

record http_response =
  hr_status :: int
  hr_length :: "int option"
  hr_value :: "auth_failure + pyval"

text \<open>Whether an endpoint is the issuer's: HTTPS, its host, and no credentials in the URL.\<close>

definition truthy :: "string option \<Rightarrow> bool" where
  "truthy s \<longleftrightarrow> s \<noteq> None \<and> s \<noteq> Some []"

definition issuer_url :: "string \<Rightarrow> parsed_url \<Rightarrow> bool" where
  "issuer_url host u \<longleftrightarrow> pu_scheme u = ''https'' \<and> pu_host u = Some host \<and> \<not> truthy (pu_user u)"

definition read_oidc_json :: "(string \<Rightarrow> auth_failure + parsed_url) \<Rightarrow> (string \<Rightarrow> auth_failure + http_response) \<Rightarrow>
    string \<Rightarrow> string \<Rightarrow> auth_failure + (string \<times> pyval) list" where
  "read_oidc_json parse fetch url host =
     ebind (parse url) (\<lambda>u.
     ebind (check (issuer_url host u) (Rejected ''OIDC endpoint must be HTTPS and use the issuer host'')) (\<lambda>_.
     ebind (fetch url) (\<lambda>r.
     ebind (check (hr_status r = 200 \<and> (case hr_length r of None \<Rightarrow> True | Some n \<Rightarrow> n \<le> 1000000))
       (Rejected ''OIDC endpoint returned an invalid response'')) (\<lambda>_.
     ebind (hr_value r) (\<lambda>v. case v of PDict d \<Rightarrow> Inr d | _ \<Rightarrow> Inl (Rejected ''OIDC response must be an object''))))))"

definition load_oidc_jwks :: "(string \<Rightarrow> auth_failure + parsed_url) \<Rightarrow> (string \<Rightarrow> auth_failure + http_response) \<Rightarrow>
    string \<Rightarrow> string option \<Rightarrow> string option \<Rightarrow> auth_failure + (string \<times> pyval) list" where
  "load_oidc_jwks parse fetch issuer jwks_url discovery_url =
     ebind (parse issuer) (\<lambda>i.
     ebind (check (pu_scheme i = ''https'' \<and> truthy (pu_host i)) (Rejected ''OIDC issuer must be HTTPS'')) (\<lambda>_.
     let host = the (pu_host i) in
     ebind (case jwks_url of
         Some u \<Rightarrow> Inr u
       | None \<Rightarrow>
           ebind (read_oidc_json parse fetch (if truthy discovery_url then the discovery_url
               else rstrip CHR ''/'' issuer @ ''/.well-known/openid-configuration'') host) (\<lambda>metadata.
           case map_of metadata ''jwks_uri'' of
             Some (PStr u) \<Rightarrow> Inr u | _ \<Rightarrow> Inl (Rejected ''OIDC discovery did not provide jwks_uri''))) (\<lambda>selected.
     read_oidc_json parse fetch selected host)))"

section \<open>Principals\<close>

text \<open>\<open>principal_from_membership\<close>, under the tenant setting \<open>app\<close>.\<close>

definition principal_from_membership :: "uuid option \<Rightarrow> core \<Rightarrow> uuid \<Rightarrow> uuid \<Rightarrow> auth_failure + principal" where
  "principal_from_membership app db user tenant =
     (case filter (\<lambda>m. mb_user_id m = user \<and> mb_tenant_id m = tenant \<and> mb_status m = ''active'')
         (visible app mb_tenant_id (core_memberships db)) of
        [] \<Rightarrow> Inl (NoAccess ''no active membership for tenant'')
      | [m] \<Rightarrow> Inr \<lparr>pr_user_id = user, pr_tenant_id = mb_tenant_id m, pr_membership_id = mb_id m\<rparr>
      | _ \<Rightarrow> Inl (Fault ''MultipleResultsFound''))"

text \<open>What the body of \<open>authenticated_tenant_transaction\<close> runs under.\<close>

definition authenticated_scope :: "bool \<Rightarrow> core \<Rightarrow> uuid \<Rightarrow> uuid \<Rightarrow> auth_failure + scope" where
  "authenticated_scope in_transaction db user tenant =
     ebind (check (\<not> in_transaction) (Fault ''RuntimeError'')) (\<lambda>_.
     ebind (principal_from_membership (Some tenant) db user tenant) (\<lambda>p.
     Inr \<lparr>sn_app = Some tenant, sn_info = Some (pr_tenant_id p)\<rparr>))"

definition principal_for_claims :: "core \<Rightarrow> oidc_claims \<Rightarrow> uuid \<Rightarrow> auth_failure + principal" where
  "principal_for_claims db claims tenant =
     (case find (\<lambda>i. oi_issuer i = ic_issuer claims \<and> oi_subject i = ic_subject claims) (core_identities db) of
        None \<Rightarrow> Inl (NoAccess ''identity is not provisioned'')
      | Some i \<Rightarrow>
          (case find (\<lambda>m. mb_user_id m = oi_user_id i \<and> mb_tenant_id m = tenant \<and> mb_status m = ''active'')
             (visible (Some tenant) mb_tenant_id (core_memberships db)) of
             None \<Rightarrow> Inl (NoAccess ''active membership is required'')
           | Some m \<Rightarrow> Inr \<lparr>pr_user_id = oi_user_id i, pr_tenant_id = mb_tenant_id m, pr_membership_id = mb_id m\<rparr>))"

definition parse_key :: "string \<Rightarrow> auth_failure + (uuid \<times> string)" where
  "parse_key plaintext =
     (case split_max 4 CHR ''_'' plaintext of
        [marker, environment, random, tenant_hex, secret] \<Rightarrow>
          (if (marker, environment) \<noteq> (''oos'', ''live'') then Inl (NoAccess ''invalid API key or scope'')
           else case uuid_of_str tenant_hex of
               Inl e \<Rightarrow> Inl (NoAccess ''invalid API key or scope'')
             | Inr t \<Rightarrow> Inr (t, marker @ ''_'' @ environment @ ''_'' @ random))
      | _ \<Rightarrow> Inl (NoAccess ''invalid API key or scope''))"

definition administrator_of :: "uuid \<Rightarrow> core \<Rightarrow> membership_row option" where
  "administrator_of tenant db = find (\<lambda>m. mb_tenant_id m = tenant \<and> mb_role m \<in> {''owner'', ''administrator''} \<and>
     mb_status m = ''active'') (visible (Some tenant) mb_tenant_id (core_memberships db))"

definition key_usable :: "int \<Rightarrow> string \<Rightarrow> api_key_row \<Rightarrow> bool" where
  "key_usable now scope k \<longleftrightarrow> ak_revoked_at k = None \<and> (case ak_expires_at k of None \<Rightarrow> True | Some e \<Rightarrow> \<not> e \<le> now) \<and>
     scope \<in> set (ak_scopes k)"

fun try_keys :: "(string \<Rightarrow> string \<Rightarrow> string) \<Rightarrow> string \<Rightarrow> int \<Rightarrow> core \<Rightarrow> string \<Rightarrow> string \<Rightarrow> api_key_row list \<Rightarrow>
    auth_failure + principal" where
  "try_keys hmac pepper now db plaintext scope [] = Inl (NoAccess ''invalid API key or scope'')"
| "try_keys hmac pepper now db plaintext scope (k # ks) =
     (if key_usable now scope k then
        ebind (verify_key hmac pepper plaintext (ak_key_digest k)) (\<lambda>matches.
        if matches then
          (case administrator_of (ak_tenant_id k) db of
             None \<Rightarrow> Inl (NoAccess ''API key tenant has no active administrator'')
           | Some m \<Rightarrow> Inr \<lparr>pr_user_id = mb_user_id m, pr_tenant_id = ak_tenant_id k, pr_membership_id = mb_id m\<rparr>)
        else try_keys hmac pepper now db plaintext scope ks)
      else try_keys hmac pepper now db plaintext scope ks)"

definition principal_for_key :: "(string \<Rightarrow> string \<Rightarrow> string) \<Rightarrow> string \<Rightarrow> int \<Rightarrow> core \<Rightarrow> string \<Rightarrow> string \<Rightarrow>
    auth_failure + principal" where
  "principal_for_key hmac pepper now db plaintext scope =
     ebind (parse_key plaintext) (\<lambda>(tenant, prefix).
     try_keys hmac pepper now db plaintext scope
       (filter (\<lambda>k. ak_tenant_id k = tenant \<and> ak_prefix k = prefix) (visible (Some tenant) ak_tenant_id (core_api_keys db))))"

section \<open>Guards\<close>

text \<open>What a guard decides: the caller, the answer 403, or an exception it lets through.\<close>

datatype 'a guarded = Admitted 'a | Forbidden string | Failing auth_failure

definition bearer :: "string option \<Rightarrow> string option" where
  "bearer header = (case header of None \<Rightarrow> None | Some h \<Rightarrow> if starts_with ''Bearer '' h then Some (drop 7 h) else None)"

text \<open>The guard of the management, operations and import interfaces, by their scope and message.\<close>

definition key_guard :: "string \<Rightarrow> string \<Rightarrow> (string \<Rightarrow> string \<Rightarrow> string) \<Rightarrow> string \<Rightarrow> int \<Rightarrow> core \<Rightarrow> string option \<Rightarrow>
    principal guarded" where
  "key_guard scope message hmac pepper now db header =
     (case bearer header of
        None \<Rightarrow> Forbidden message
      | Some key \<Rightarrow>
          (case ebind (mk_key_hasher pepper) (\<lambda>p. principal_for_key hmac p now db key scope) of
             Inr p \<Rightarrow> Admitted p
           | Inl (NoAccess m) \<Rightarrow> Forbidden message
           | Inl e \<Rightarrow> Failing e))"

definition management_guard :: "(string \<Rightarrow> string \<Rightarrow> string) \<Rightarrow> string \<Rightarrow> int \<Rightarrow> core \<Rightarrow> string option \<Rightarrow> principal guarded" where
  "management_guard = key_guard ''integration:manage'' ''integration management permission required''"

definition operations_guard :: "string \<Rightarrow> (string \<Rightarrow> string \<Rightarrow> string) \<Rightarrow> string \<Rightarrow> int \<Rightarrow> core \<Rightarrow> string option \<Rightarrow>
    principal guarded" where
  "operations_guard scope = key_guard scope ''operation permission required''"

definition replay_guard :: "(string \<Rightarrow> string \<Rightarrow> string) \<Rightarrow> string \<Rightarrow> int \<Rightarrow> core \<Rightarrow> string option \<Rightarrow> principal guarded" where
  "replay_guard = operations_guard ''events:replay''"

definition reconciliation_guard :: "(string \<Rightarrow> string \<Rightarrow> string) \<Rightarrow> string \<Rightarrow> int \<Rightarrow> core \<Rightarrow> string option \<Rightarrow> principal guarded" where
  "reconciliation_guard = operations_guard ''reconciliation:write''"

definition import_guard :: "(string \<Rightarrow> string \<Rightarrow> string) \<Rightarrow> string \<Rightarrow> int \<Rightarrow> core \<Rightarrow> string option \<Rightarrow> principal guarded" where
  "import_guard = key_guard ''imports:write'' ''imports:write permission required''"

text \<open>The guard of the contract interface admits people too; \<open>verify\<close> is its verifier, if any.\<close>

definition human_principal :: "(string \<Rightarrow> auth_failure + oidc_claims) option \<Rightarrow> core \<Rightarrow> string \<Rightarrow> uuid option \<Rightarrow>
    auth_failure + principal" where
  "human_principal verify db token selected =
     (case (verify, selected) of
        (Some v, Some tenant) \<Rightarrow>
          ebind (v token) (\<lambda>claims.
          ebind (principal_for_claims db claims tenant) (\<lambda>p.
          case find (\<lambda>m. mb_tenant_id m = pr_tenant_id p \<and> mb_id m = pr_membership_id p)
              (visible (Some tenant) mb_tenant_id (core_memberships db)) of
            None \<Rightarrow> Inl (Fault ''NoResultFound'')
          | Some m \<Rightarrow> (if mb_role m \<in> {''owner'', ''administrator''} then Inr p
               else Inl (NoAccess ''data write permission required''))))
      | _ \<Rightarrow> Inl (NoAccess ''verified human identity required''))"

definition contract_guard :: "(string \<Rightarrow> auth_failure + oidc_claims) option \<Rightarrow> (string \<Rightarrow> string \<Rightarrow> string) \<Rightarrow> string \<Rightarrow>
    int \<Rightarrow> core \<Rightarrow> string option \<Rightarrow> uuid option \<Rightarrow> (principal \<times> bool) guarded" where
  "contract_guard verify hmac pepper now db header selected =
     (case bearer header of
        None \<Rightarrow> Forbidden ''contract management permission required''
      | Some token \<Rightarrow>
          (let human = (\<not> starts_with ''oos_live_'' token) in
           case (if human then human_principal verify db token selected
                 else ebind (mk_key_hasher pepper) (\<lambda>p. principal_for_key hmac p now db token ''data:write'')) of
             Inr p \<Rightarrow> Admitted (p, human)
           | Inl (Fault e) \<Rightarrow> Failing (Fault e)
           | Inl _ \<Rightarrow> Forbidden ''contract management permission required''))"

text \<open>The verifier of the contract interface.\<close>

definition contract_verifier :: "'k jwt_lib \<Rightarrow> (string \<Rightarrow> auth_failure + parsed_url) \<Rightarrow> (string \<Rightarrow> auth_failure + http_response) \<Rightarrow>
    string option \<Rightarrow> string option \<Rightarrow> string option \<Rightarrow> string option \<Rightarrow> auth_failure + 'k verifier option" where
  "contract_verifier J parse fetch issuer audience jwks_url discovery_url =
     (if truthy issuer \<and> truthy audience
      then ebind (load_oidc_jwks parse fetch (the issuer) jwks_url discovery_url) (\<lambda>jwks.
           ebind (mk_verifier J (the issuer) (the audience) jwks) (\<lambda>v. Inr (Some v)))
      else Inr None)"

end
