(* ===== verification/SandboxApi.thy ===== *)
theory SandboxApi
  imports SandboxFacts Access
begin

text \<open>
  The HTTP interface of the sandbox, \<open>_mount_sandbox\<close> of \<open>main.py\<close>: the demo session, the routes over
  the store, and the signed webhook.  A request has passed FastAPI's parsing of its parameters;
  every request acts for the demo tenant.
\<close>

section \<open>Requests and answers\<close>

datatype sandbox_request =
    Reset
  | SignIn
  | Me
  | Dashboard
  | Conversations
  | Approve string string
  | Evidence
  | Webhook string "(string \<times> pyval) list" int string
  | VerifyLead
  | ReverseDispute

record funnel =
  fn_conversations :: nat
  fn_leads :: nat
  fn_orders :: nat
  fn_outcomes :: nat
  fn_disputes :: nat

record dashboard_page =
  db_tenant :: string
  db_campaigns :: pyval
  db_ads :: pyval
  db_profit :: profit_statement
  db_funnel :: funnel

record evidence_page =
  eg_touchpoints :: pyval
  eg_ai_runs :: pyval
  eg_verification_checks :: "verification_check list"
  eg_orders :: "sandbox_order list"
  eg_attribution_results :: "attribution_result list"
  eg_outcomes :: "sandbox_outcome list"
  eg_contract_versions :: "sandbox_contract list"
  eg_billable_results :: "billable_result list"
  eg_ledger_entries :: "ledger_entry list"
  eg_audit_events :: "audit_entry list"
  eg_disputes :: "sandbox_dispute list"
  eg_shipments :: "evidence_record list"
  eg_settlement_events :: "evidence_record list"
  eg_webhook_receipts :: "sandbox_receipt list"

datatype sandbox_answer =
    Refused nat string
  | Broken auth_failure
  | Seeded string
  | SignedIn string
  | Myself string string string
  | DashboardPage dashboard_page
  | ConversationList "conversation list"
  | Kept kept_answer
  | EvidencePage evidence_page
  | Verified "verification_check list" sandbox_outcome
  | Reversed sandbox_dispute

text \<open>The settings the routes read, and what they take from the library.\<close>

record sandbox_http =
  sh_demo_auth_enabled :: bool
  sh_secret :: string
  sh_hmac :: "string \<Rightarrow> string \<Rightarrow> string"
  sh_str :: "pyval \<Rightarrow> string"
  sh_env :: sandbox_env

section \<open>Routes\<close>

definition signed_in :: "sandbox_http \<Rightarrow> string option \<Rightarrow> bool" where
  "signed_in W session \<longleftrightarrow> sh_demo_auth_enabled W \<and> session = Some demo_user"

definition broken :: "exn \<Rightarrow> sandbox_answer" where
  "broken e = Broken (Fault (case e of KeyError k \<Rightarrow> ''KeyError'' | _ \<Rightarrow> ''exception''))"

text \<open>A route that reads the tenant, and one that runs an operation of the store.\<close>

definition page :: "(sandbox_tenant \<Rightarrow> exn + sandbox_answer) \<Rightarrow> sandbox \<Rightarrow> sandbox_answer" where
  "page f s = (case ebind (find_tenant demo_tenant s) f of Inl e \<Rightarrow> broken e | Inr a \<Rightarrow> a)"

definition answered :: "('a \<Rightarrow> sandbox_answer) \<Rightarrow> (exn + 'a) \<times> sandbox \<Rightarrow> sandbox_answer \<times> sandbox" where
  "answered f = (\<lambda>(res, s). (case res of Inl e \<Rightarrow> broken e | Inr x \<Rightarrow> f x, s))"

definition static_item :: "string \<Rightarrow> sandbox_tenant \<Rightarrow> exn + pyval" where
  "static_item key t = (case tn_static t of
     PDict d \<Rightarrow> (case map_of d key of None \<Rightarrow> Inl (KeyError key) | Some v \<Rightarrow> Inr v) | _ \<Rightarrow> Inl TypeError)"

definition dashboard :: "sandbox_tenant \<Rightarrow> exn + sandbox_answer" where
  "dashboard t =
     ebind (static_item ''campaigns'' t) (\<lambda>campaigns. ebind (static_item ''ads'' t) (\<lambda>ads.
     Inr (DashboardPage \<lparr>db_tenant = tn_name t, db_campaigns = campaigns, db_ads = ads, db_profit = profit t,
       db_funnel = \<lparr>fn_conversations = length (tn_conversations t), fn_leads = length (tn_leads t),
         fn_orders = length (tn_orders t), fn_outcomes = length (tn_outcomes t), fn_disputes = length (tn_disputes t)\<rparr>\<rparr>)))"

definition evidence :: "sandbox_tenant \<Rightarrow> exn + sandbox_answer" where
  "evidence t =
     ebind (static_item ''touchpoints'' t) (\<lambda>touchpoints. ebind (static_item ''ai_runs'' t) (\<lambda>ai_runs.
     Inr (EvidencePage \<lparr>eg_touchpoints = touchpoints, eg_ai_runs = ai_runs, eg_verification_checks = tn_checks t,
       eg_orders = tn_orders t, eg_attribution_results = tn_attribution_results t, eg_outcomes = tn_outcomes t,
       eg_contract_versions = tn_contract_versions t, eg_billable_results = tn_billable_results t,
       eg_ledger_entries = tn_ledger_entries t, eg_audit_events = tn_audit_events t, eg_disputes = tn_disputes t,
       eg_shipments = tn_shipments t, eg_settlement_events = tn_settlement_events t,
       eg_webhook_receipts = tn_receipts t\<rparr>)))"

definition approve_route :: "readings \<Rightarrow> string \<Rightarrow> string \<Rightarrow> sandbox \<Rightarrow> sandbox_answer \<times> sandbox" where
  "approve_route r conversation_id idempotency_key s =
     (case find_tenant demo_tenant s of
        Inl e \<Rightarrow> (broken e, s)
      | Inr t \<Rightarrow>
          if conversation_id \<notin> cv_id ` set (tn_conversations t) then (Refused 404 ''conversation not found'', s)
          else answered Kept (on_tenant demo_tenant (approve_proposal demo_tenant r idempotency_key) s))"

text \<open>
  The webhook.  The clock reads microseconds; subtracting an integer beyond the doubles from it
  overflows.
\<close>

definition webhook_authentic_now :: "sandbox_http \<Rightarrow> int \<Rightarrow> (string \<times> pyval) list \<Rightarrow> int \<Rightarrow> string \<Rightarrow> auth_failure + bool" where
  "webhook_authentic_now W now payload timestamp signature =
     (if \<bar>timestamp\<bar> \<ge> 2 ^ 1024 - 2 ^ 970 then Inl (Fault ''OverflowError'')
      else if 300 * micros < \<bar>now - timestamp * micros\<bar> then Inr False
      else compare_digest (sandbox_sign (sh_hmac W) (sh_secret W) (utf8 (dumps True (PDict payload))) timestamp) signature)"

definition mapped_kind :: "string \<Rightarrow> string" where
  "mapped_kind kind = (if kind \<in> {''delivery'', ''shipment.delivered''} then ''delivery'' else ''cod'')"

definition event_id_of :: "sandbox_http \<Rightarrow> (string \<times> pyval) list \<Rightarrow> string \<Rightarrow> string" where
  "event_id_of W payload kind = sh_str W (case map_of payload ''event_id'' of None \<Rightarrow> PStr kind | Some v \<Rightarrow> v)"

definition webhook_route :: "sandbox_http \<Rightarrow> int \<Rightarrow> readings \<Rightarrow> string \<Rightarrow> (string \<times> pyval) list \<Rightarrow> int \<Rightarrow> string \<Rightarrow> sandbox \<Rightarrow>
    sandbox_answer \<times> sandbox" where
  "webhook_route W now r kind payload timestamp signature s =
     (case webhook_authentic_now W now payload timestamp signature of
        Inl e \<Rightarrow> (Broken e, s)
      | Inr False \<Rightarrow> (Refused 401 ''invalid sandbox webhook signature'', s)
      | Inr True \<Rightarrow> answered Kept (on_tenant demo_tenant
          (record_evidence (sh_env W) demo_tenant r (mapped_kind kind) (event_id_of W payload kind)) s))"

text \<open>Reset and sign-in need no session; the session of the others is checked first.\<close>

fun sandbox_route :: "sandbox_http \<Rightarrow> int \<Rightarrow> readings \<Rightarrow> sandbox_request \<Rightarrow> sandbox \<Rightarrow> sandbox_answer \<times> sandbox" where
  "sandbox_route W now r Reset s = (Seeded demo_tenant, reset_store (sh_env W) r)"
| "sandbox_route W now r SignIn s = (SignedIn demo_user, s)"
| "sandbox_route W now r Me s = (Myself demo_user demo_tenant ''administrator'', s)"
| "sandbox_route W now r Dashboard s = (page dashboard s, s)"
| "sandbox_route W now r Conversations s = (page (\<lambda>t. Inr (ConversationList (tn_conversations t))) s, s)"
| "sandbox_route W now r (Approve conversation_id key) s = approve_route r conversation_id key s"
| "sandbox_route W now r Evidence s = (page evidence s, s)"
| "sandbox_route W now r (Webhook kind payload timestamp signature) s = webhook_route W now r kind payload timestamp signature s"
| "sandbox_route W now r VerifyLead s =
     answered (\<lambda>(cs, outcome). Verified cs outcome) (on_tenant demo_tenant (complete_verification (sh_env W) demo_tenant r) s)"
| "sandbox_route W now r ReverseDispute s = answered Reversed (on_tenant demo_tenant (dispute_reverse demo_tenant r) s)"

definition handle_sandbox :: "sandbox_http \<Rightarrow> int \<Rightarrow> readings \<Rightarrow> string option \<Rightarrow> sandbox_request \<Rightarrow> sandbox \<Rightarrow> sandbox_answer \<times> sandbox" where
  "handle_sandbox W now r session req s =
     (if req \<in> {Reset, SignIn} then
        (if \<not> sh_demo_auth_enabled W then (Refused 404 ''not found'', s) else sandbox_route W now r req s)
      else if \<not> signed_in W session then (Refused 401 ''sandbox sign-in required'', s)
      else sandbox_route W now r req s)"

section \<open>Who changes the store\<close>

lemma answered_state: "snd (answered f (on_tenant tenant g s)) = snd (on_tenant tenant g s)"
  by (simp add: answered_def split: prod.split)

lemma reachable_use: "sandbox_reachable E s \<Longrightarrow> sandbox_use E s s' \<Longrightarrow> sandbox_reachable E s'"
  unfolding sandbox_reachable_def by (blast intro: rtranclp.rtrancl_into_rtrancl sandbox_step_def [THEN iffD2])

lemma reachable_self: "sandbox_reachable E (reset_store E r)"
  unfolding sandbox_reachable_def by blast

lemma mapped_kinds: "mapped_kind kind \<in> {''delivery'', ''cod''}"
  by (simp add: mapped_kind_def)

lemma webhook_route_state:
  "snd (webhook_route W now r kind payload timestamp signature s) =
     (if webhook_authentic_now W now payload timestamp signature = Inr True
      then snd (on_tenant demo_tenant (record_evidence (sh_env W) demo_tenant r (mapped_kind kind) (event_id_of W payload kind)) s)
      else s)"
  by (auto simp: webhook_route_def answered_state split: sum.split bool.split)

lemma approve_route_state:
  "snd (approve_route r conversation_id key s) \<in>
     {s, snd (on_tenant demo_tenant (approve_proposal demo_tenant r key) s)}"
  by (auto simp: approve_route_def answered_state split: sum.split)

lemma route_reachable:
  assumes "sandbox_reachable (sh_env W) s"
  shows "sandbox_reachable (sh_env W) (snd (sandbox_route W now r req s))"
proof (cases req)
  case (Approve c k)
  have "sandbox_reachable (sh_env W) (snd (on_tenant demo_tenant (approve_proposal demo_tenant r k) s))"
    by (rule reachable_use [OF assms sandbox_approve]) (rule prod.collapse [symmetric])
  then show ?thesis using approve_route_state [of r c k s] assms Approve by auto
next
  case (Webhook kind payload timestamp signature)
  have "sandbox_reachable (sh_env W) (snd (on_tenant demo_tenant
      (record_evidence (sh_env W) demo_tenant r (mapped_kind kind) (event_id_of W payload kind)) s))"
    by (rule reachable_use [OF assms sandbox_evidence [OF mapped_kinds]]) (rule prod.collapse [symmetric])
  then show ?thesis using assms by (simp add: Webhook webhook_route_state)
next
  case VerifyLead
  show ?thesis unfolding VerifyLead sandbox_route.simps answered_state
    by (rule reachable_use [OF assms sandbox_verify]) (rule prod.collapse [symmetric])
next
  case ReverseDispute
  show ?thesis unfolding ReverseDispute sandbox_route.simps answered_state
    by (rule reachable_use [OF assms sandbox_dispute]) (rule prod.collapse [symmetric])
qed (simp_all add: assms reachable_self)

lemma authentic_signature:
  assumes "webhook_authentic_now W now payload timestamp signature = Inr True"
  shows "\<bar>now - timestamp * micros\<bar> \<le> 300 * micros"
    "signature = sandbox_sign (sh_hmac W) (sh_secret W) (utf8 (dumps True (PDict payload))) timestamp"
  using assms by (auto simp: webhook_authentic_now_def compare_digest_def split: if_splits)


text \<open>
  The signature covers the payload and not the kind, which is in the path, and every kind but the
  two of a delivery is a settlement: a signed delivery is also a valid settlement.
\<close>

lemma delivery_signature_settles:
  assumes "webhook_authentic_now W now payload timestamp signature = Inr True"
    and "map_of (sb_data s) demo_tenant = Some t" "kind \<notin> {''delivery'', ''shipment.delivered''}"
    and "map_of (tn_idempotency t) (receipt_key ''cod'' (event_id_of W payload kind)) = None"
  shows "\<exists>x s' t'. webhook_route W now r kind payload timestamp signature s = (Kept x, s') \<and>
    map_of (sb_data s') demo_tenant = Some t' \<and> length (tn_settlement_events t') = 1"
proof -
  have k: "mapped_kind kind = ''cod''" using assms(3) by (simp add: mapped_kind_def)
  let ?op = "record_evidence (sh_env W) demo_tenant r ''cod'' (event_id_of W payload kind)"
  obtain x u where op: "?op t = (x, u)" by fastforce
  obtain t2 y t3 where e: "sandbox_evaluate demo_tenant (after_readings 3 1 r) t2 = (y, t3)"
    and t2: "length (tn_settlement_events t2) = 1" "x = KeptEvidence ''cod'' y"
      "u = Some (t3\<lparr>tn_idempotency := dict_set (receipt_key ''cod'' (event_id_of W payload kind)) (KeptEvidence ''cod'' y)
        (tn_idempotency t3)\<rparr>)"
    using op assms(4) by (auto simp: record_evidence_def Let_def split: prod.splits if_splits)
  from e have "tn_settlement_events t3 = tn_settlement_events t2" by (auto dest: evaluate_evaluated)
  then show ?thesis
    using assms(1,2) op t2 by (simp add: webhook_route_def k on_tenant_def find_tenant_def answered_def save_def)
qed

definition sample_http :: sandbox_http where
  "sample_http = \<lparr>sh_demo_auth_enabled = True, sh_secret = ''k'', sh_hmac = (\<lambda>k m. ''5''), sh_str = (\<lambda>v. case v of PStr s \<Rightarrow> s | _ \<Rightarrow> ''?''),
     sh_env = sample_sandbox\<rparr>"


end
