(* ===== verification/CoreFacts.thy ===== *)
theory CoreFacts
  imports CoreSchema
begin

text \<open>
  Facts about the core schema: the laws of a table behind the tenant repository and their
  interpretation on the thirteen tables, the steps principals take through their repositories,
  the invariant that keys are unique and references stay within a tenant, and the isolation of
  the other tenants.
\<close>

named_theorems core_defs \<open>the statements of the core schema\<close>


lemmas core_statements [core_defs] = stored_def removed_def

declare insert_tenant_def [core_defs] tenant_clash_def [core_defs]
declare insert_user_def [core_defs] user_clash_def [core_defs]
declare insert_identity_def [core_defs] identity_clash_def [core_defs]
declare insert_membership_def [core_defs] membership_clash_def [core_defs] delete_membership_def [core_defs]
declare insert_invitation_def [core_defs] invitation_clash_def [core_defs] delete_invitation_def [core_defs]
declare insert_api_key_def [core_defs] api_key_clash_def [core_defs] delete_api_key_def [core_defs]
declare insert_grant_def [core_defs] grant_clash_def [core_defs] delete_grant_def [core_defs]
declare insert_contact_def [core_defs] contact_clash_def [core_defs] delete_contact_def [core_defs]
declare insert_conversation_def [core_defs] conversation_clash_def [core_defs] delete_conversation_def [core_defs]
declare insert_document_def [core_defs] document_clash_def [core_defs] delete_document_def [core_defs]
declare insert_chunk_def [core_defs] chunk_clash_def [core_defs] delete_chunk_def [core_defs]
declare insert_order_def [core_defs] order_clash_def [core_defs] delete_order_def [core_defs]
declare insert_outcome_def [core_defs] outcome_clash_def [core_defs] delete_outcome_def [core_defs]
declare insert_dispute_evidence_def [core_defs] dispute_evidence_clash_def [core_defs]
  delete_dispute_evidence_def [core_defs]
declare insert_billable_result_def [core_defs] billable_result_clash_def [core_defs] delete_billable_result_def
  [core_defs]
declare insert_ledger_entry_def [core_defs] ledger_entry_clash_def [core_defs] delete_ledger_entry_def [core_defs]

section \<open>Statements\<close>

lemma all_checks_Inr [simp]: "all_checks cs = Inr u \<longleftrightarrow> (\<forall>c \<in> set cs. c = Inr ())"
  by (induction cs) (auto simp: ebind_eq_Inr)

lemma stored_Inr: "stored cs rows upd refs = Inr db' \<longleftrightarrow>
    (\<forall>c \<in> set cs. c = Inr ()) \<and> refs \<and> (\<exists>rs. rows = Inr rs \<and> db' = upd rs)"
  by (auto simp: stored_def ebind_eq_Inr)

lemma removed_Inr: "removed free db = Inr db' \<longleftrightarrow> free \<and> db' = db"
  by (auto simp: removed_def ebind_eq_Inr)

lemma with_check_Inr: "with_check app t m = Inr db' \<longleftrightarrow> app = Some t \<and> m = Inr db'"
  by (auto simp: with_check_def ebind_eq_Inr)

section \<open>Tables behind the repository\<close>

locale tenant_table =
  fixes rows :: "core \<Rightarrow> 'r list"
    and owner :: "'r \<Rightarrow> uuid"
    and ident :: "'r \<Rightarrow> uuid"
    and ins :: "'r \<Rightarrow> core \<Rightarrow> db_error + core"
    and del :: "uuid \<Rightarrow> uuid \<Rightarrow> core \<Rightarrow> db_error + core"
  assumes ins_rows: "ins r db = Inr db' \<Longrightarrow> rows db' = rows db @ [r] \<and> (\<forall>x \<in> set (rows db). ident x \<noteq> ident r)"
    and del_rows: "del t i db = Inr db' \<Longrightarrow> rows db' = filter (\<lambda>r. \<not> (owner r = t \<and> ident r = i)) (rows db)"
begin

lemma rows_own: "repository_rows owner rows s db = Inr rs \<Longrightarrow>
    \<exists>t. sn_info s = Some t \<and> rs = filter (\<lambda>r. owner r = t \<and> sn_app s = Some t) (rows db)"
  by (auto simp: repository_rows_def scope_tenant_def visible_def split: option.splits intro!: filter_cong)

lemma get_own: "repository_get owner ident rows s i db = Inr (Some r) \<Longrightarrow>
    r \<in> set (rows db) \<and> ident r = i \<and> sn_info s = Some (owner r) \<and> sn_app s = Some (owner r)"
  by (auto simp: repository_get_def ebind_eq_Inr find_Some_iff dest!: rows_own)
    (metis (mono_tags, lifting) mem_Collect_eq nth_mem set_filter)+

lemma add_Inr: "repository_add owner ins s r db = Inr db' \<longleftrightarrow>
    sn_info s = Some (owner r) \<and> sn_app s = Some (owner r) \<and> ins r db = Inr db'"
   by (auto simp: repository_add_def scope_tenant_def ebind_eq_Inr check_def map_error_eq_Inr with_check_Inr
    split: option.splits)

lemma delete_Inr: "repository_delete owner ident rows del s i db = Inr (b, db') \<longleftrightarrow>
    (\<exists>f. repository_get owner ident rows s i db = Inr f \<and>
      (case f of None \<Rightarrow> \<not> b \<and> db' = db | Some r \<Rightarrow> b \<and> del (owner r) i db = Inr db'))"
  by (auto simp: repository_delete_def ebind_eq_Inr map_error_eq_Inr split: option.splits)

lemma add_then_get:
  assumes "repository_add owner ins s r db = Inr db'"
  shows "repository_get owner ident rows s (ident r) db' = Inr (Some r)"
proof -
  have a: "sn_info s = Some (owner r)" "sn_app s = Some (owner r)" "rows db' = rows db @ [r]"
    "\<forall>x \<in> set (rows db). ident x \<noteq> ident r"
    using assms ins_rows [of r db db'] by (auto simp: add_Inr)
  have v: "filter (\<lambda>x. owner x = owner r) (visible (Some (owner r)) owner xs) = filter (\<lambda>x. owner x = owner r) xs" for xs
    by (auto simp: visible_def intro!: filter_cong)
  have "find (\<lambda>x. ident x = ident r) (filter (\<lambda>x. owner x = owner r) (rows db) @ [r]) = Some r"
    by (rule find_append_new) (use a in auto)
  then show ?thesis by (simp add: repository_get_def repository_rows_def scope_tenant_def a v)
qed

lemma others_untouched:
  "repository_add owner ins s r db = Inr db' \<Longrightarrow> sn_app s = Some t \<Longrightarrow>
     filter (\<lambda>r. owner r \<noteq> t) (rows db') = filter (\<lambda>r. owner r \<noteq> t) (rows db)"
  "repository_delete owner ident rows del s i db = Inr (b, db') \<Longrightarrow> sn_app s = Some t \<Longrightarrow>
     filter (\<lambda>r. owner r \<noteq> t) (rows db') = filter (\<lambda>r. owner r \<noteq> t) (rows db)"
proof -
  show "repository_add owner ins s r db = Inr db' \<Longrightarrow> sn_app s = Some t \<Longrightarrow>
     filter (\<lambda>r. owner r \<noteq> t) (rows db') = filter (\<lambda>r. owner r \<noteq> t) (rows db)"
    using ins_rows [of r db db'] by (auto simp: add_Inr)
  show "repository_delete owner ident rows del s i db = Inr (b, db') \<Longrightarrow> sn_app s = Some t \<Longrightarrow>
     filter (\<lambda>r. owner r \<noteq> t) (rows db') = filter (\<lambda>r. owner r \<noteq> t) (rows db)"
    using del_rows [of t i db db']
    by (auto simp: delete_Inr split: option.splits dest!: get_own) (rule filter_cong, auto)
qed

lemma repository_ops:
  "repository_add owner ins (tenant_scope p) r db = Inr db' \<Longrightarrow> owner r = pr_tenant_id p \<and> ins r db = Inr db'"
  "repository_delete owner ident rows del (tenant_scope p) i db = Inr (b, db') \<Longrightarrow>
     db' = db \<or> del (pr_tenant_id p) i db = Inr db'"
  by (auto simp: add_Inr delete_Inr tenant_scope_def split: option.splits dest!: get_own)

end

interpretation memberships: tenant_table core_memberships mb_tenant_id mb_id insert_membership delete_membership
  by unfold_locales (auto simp: core_defs ebind_eq_Inr)

interpretation invitations: tenant_table core_invitations iv_tenant_id iv_id insert_invitation delete_invitation
  by unfold_locales (auto simp: core_defs ebind_eq_Inr)

interpretation api_keys: tenant_table core_api_keys ak_tenant_id ak_id insert_api_key delete_api_key
  by unfold_locales (auto simp: core_defs ebind_eq_Inr)

interpretation grants: tenant_table core_grants xg_tenant_id xg_id insert_grant delete_grant
  by unfold_locales (auto simp: core_defs ebind_eq_Inr)

interpretation contacts: tenant_table core_contacts ct_tenant_id ct_id insert_contact delete_contact
  by unfold_locales (auto simp: core_defs ebind_eq_Inr)

interpretation conversations: tenant_table core_conversations cn_tenant_id cn_id insert_conversation
  delete_conversation
  by unfold_locales (auto simp: core_defs ebind_eq_Inr)

interpretation documents: tenant_table core_documents kd_tenant_id kd_id insert_document delete_document
  by unfold_locales (auto simp: core_defs ebind_eq_Inr)

interpretation chunks: tenant_table core_chunks kc_tenant_id kc_id insert_chunk delete_chunk
  by unfold_locales (auto simp: core_defs ebind_eq_Inr)

interpretation orders: tenant_table core_orders od_tenant_id od_id insert_order delete_order
  by unfold_locales (auto simp: core_defs ebind_eq_Inr)

interpretation outcomes: tenant_table core_outcomes ou_tenant_id ou_id insert_outcome delete_outcome
  by unfold_locales (auto simp: core_defs ebind_eq_Inr)

interpretation evidence: tenant_table core_dispute_evidence de_tenant_id de_id insert_dispute_evidence
  delete_dispute_evidence
  by unfold_locales (auto simp: core_defs ebind_eq_Inr)

interpretation billable_results: tenant_table core_billable_results bi_tenant_id bi_id insert_billable_result
  delete_billable_result
  by unfold_locales (auto simp: core_defs ebind_eq_Inr)

interpretation ledger_entries: tenant_table core_ledger_entries lg_tenant_id lg_id insert_ledger_entry
  delete_ledger_entry
  by unfold_locales (auto simp: core_defs ebind_eq_Inr)

section \<open>Steps\<close>

text \<open>Tenants, users and identities have no policy; everything else goes through a repository.\<close>

definition empty_core :: core where
  "empty_core = \<lparr>core_tenants = [], core_users = [], core_identities = [], core_memberships = [], core_invitations = [], core_api_keys = [], core_grants = [], core_contacts = [], core_conversations = [], core_documents = [], core_chunks = [], core_orders = [], core_outcomes = [], core_dispute_evidence = [], core_billable_results = [], core_ledger_entries = []\<rparr>"

inductive core_step :: "principal \<Rightarrow> core \<Rightarrow> core \<Rightarrow> bool" for p where
  new_tenant: "insert_tenant t db = Inr db' \<Longrightarrow> core_step p db db'"
| new_user: "insert_user u db = Inr db' \<Longrightarrow> core_step p db db'"
| new_identity: "insert_identity i db = Inr db' \<Longrightarrow> core_step p db db'"
| add_membership: "repository_add mb_tenant_id insert_membership (tenant_scope p) r db = Inr db' \<Longrightarrow> core_step p db db'"
| remove_membership: "repository_delete mb_tenant_id mb_id core_memberships delete_membership (tenant_scope p) i db = Inr (b, db') \<Longrightarrow>
    core_step p db db'"
| add_invitation: "repository_add iv_tenant_id insert_invitation (tenant_scope p) r db = Inr db' \<Longrightarrow> core_step p db db'"
| remove_invitation: "repository_delete iv_tenant_id iv_id core_invitations delete_invitation (tenant_scope p) i db = Inr (b, db') \<Longrightarrow>
    core_step p db db'"
| add_api_key: "repository_add ak_tenant_id insert_api_key (tenant_scope p) r db = Inr db' \<Longrightarrow> core_step p db db'"
| remove_api_key: "repository_delete ak_tenant_id ak_id core_api_keys delete_api_key (tenant_scope p) i db = Inr (b, db') \<Longrightarrow>
    core_step p db db'"
| add_grant: "repository_add xg_tenant_id insert_grant (tenant_scope p) r db = Inr db' \<Longrightarrow> core_step p db db'"
| remove_grant: "repository_delete xg_tenant_id xg_id core_grants delete_grant (tenant_scope p) i db = Inr (b, db') \<Longrightarrow>
    core_step p db db'"
| add_contact: "repository_add ct_tenant_id insert_contact (tenant_scope p) r db = Inr db' \<Longrightarrow> core_step p db db'"
| remove_contact: "repository_delete ct_tenant_id ct_id core_contacts delete_contact (tenant_scope p) i db = Inr (b, db') \<Longrightarrow>
    core_step p db db'"
| add_conversation: "repository_add cn_tenant_id insert_conversation (tenant_scope p) r db = Inr db' \<Longrightarrow> core_step p db db'"
| remove_conversation: "repository_delete cn_tenant_id cn_id core_conversations delete_conversation (tenant_scope p) i db = Inr (b, db') \<Longrightarrow>
    core_step p db db'"
| add_document: "repository_add kd_tenant_id insert_document (tenant_scope p) r db = Inr db' \<Longrightarrow> core_step p db db'"
| remove_document: "repository_delete kd_tenant_id kd_id core_documents delete_document (tenant_scope p) i db = Inr (b, db') \<Longrightarrow>
    core_step p db db'"
| add_chunk: "repository_add kc_tenant_id insert_chunk (tenant_scope p) r db = Inr db' \<Longrightarrow> core_step p db db'"
| remove_chunk: "repository_delete kc_tenant_id kc_id core_chunks delete_chunk (tenant_scope p) i db = Inr (b, db') \<Longrightarrow>
    core_step p db db'"
| add_order: "repository_add od_tenant_id insert_order (tenant_scope p) r db = Inr db' \<Longrightarrow> core_step p db db'"
| remove_order: "repository_delete od_tenant_id od_id core_orders delete_order (tenant_scope p) i db = Inr (b, db') \<Longrightarrow>
    core_step p db db'"
| add_outcome: "repository_add ou_tenant_id insert_outcome (tenant_scope p) r db = Inr db' \<Longrightarrow> core_step p db db'"
| remove_outcome: "repository_delete ou_tenant_id ou_id core_outcomes delete_outcome (tenant_scope p) i db = Inr (b, db') \<Longrightarrow>
    core_step p db db'"
| add_dispute_evidence: "repository_add de_tenant_id insert_dispute_evidence (tenant_scope p) r db = Inr db' \<Longrightarrow> core_step p db db'"
| remove_dispute_evidence: "repository_delete de_tenant_id de_id core_dispute_evidence delete_dispute_evidence (tenant_scope p) i db = Inr (b, db') \<Longrightarrow>
    core_step p db db'"
| add_billable_result: "repository_add bi_tenant_id insert_billable_result (tenant_scope p) r db = Inr db' \<Longrightarrow> core_step p db db'"
| remove_billable_result: "repository_delete bi_tenant_id bi_id core_billable_results delete_billable_result (tenant_scope p) i db = Inr (b, db') \<Longrightarrow>
    core_step p db db'"
| add_ledger_entry: "repository_add lg_tenant_id insert_ledger_entry (tenant_scope p) r db = Inr db' \<Longrightarrow> core_step p db db'"
| remove_ledger_entry: "repository_delete lg_tenant_id lg_id core_ledger_entries delete_ledger_entry (tenant_scope p) i db = Inr (b, db') \<Longrightarrow>
    core_step p db db'"

text \<open>A statement on one tenant.\<close>

inductive core_statement :: "uuid \<Rightarrow> core \<Rightarrow> core \<Rightarrow> bool" for t where
  "core_statement t db db"
| "insert_tenant x db = Inr db' \<Longrightarrow> core_statement t db db'"
| "insert_user u db = Inr db' \<Longrightarrow> core_statement t db db'"
| "insert_identity y db = Inr db' \<Longrightarrow> core_statement t db db'"
| "insert_membership r db = Inr db' \<Longrightarrow> mb_tenant_id r = t \<Longrightarrow> core_statement t db db'"
| "delete_membership t i db = Inr db' \<Longrightarrow> core_statement t db db'"
| "insert_invitation r db = Inr db' \<Longrightarrow> iv_tenant_id r = t \<Longrightarrow> core_statement t db db'"
| "delete_invitation t i db = Inr db' \<Longrightarrow> core_statement t db db'"
| "insert_api_key r db = Inr db' \<Longrightarrow> ak_tenant_id r = t \<Longrightarrow> core_statement t db db'"
| "delete_api_key t i db = Inr db' \<Longrightarrow> core_statement t db db'"
| "insert_grant r db = Inr db' \<Longrightarrow> xg_tenant_id r = t \<Longrightarrow> core_statement t db db'"
| "delete_grant t i db = Inr db' \<Longrightarrow> core_statement t db db'"
| "insert_contact r db = Inr db' \<Longrightarrow> ct_tenant_id r = t \<Longrightarrow> core_statement t db db'"
| "delete_contact t i db = Inr db' \<Longrightarrow> core_statement t db db'"
| "insert_conversation r db = Inr db' \<Longrightarrow> cn_tenant_id r = t \<Longrightarrow> core_statement t db db'"
| "delete_conversation t i db = Inr db' \<Longrightarrow> core_statement t db db'"
| "insert_document r db = Inr db' \<Longrightarrow> kd_tenant_id r = t \<Longrightarrow> core_statement t db db'"
| "delete_document t i db = Inr db' \<Longrightarrow> core_statement t db db'"
| "insert_chunk r db = Inr db' \<Longrightarrow> kc_tenant_id r = t \<Longrightarrow> core_statement t db db'"
| "delete_chunk t i db = Inr db' \<Longrightarrow> core_statement t db db'"
| "insert_order r db = Inr db' \<Longrightarrow> od_tenant_id r = t \<Longrightarrow> core_statement t db db'"
| "delete_order t i db = Inr db' \<Longrightarrow> core_statement t db db'"
| "insert_outcome r db = Inr db' \<Longrightarrow> ou_tenant_id r = t \<Longrightarrow> core_statement t db db'"
| "delete_outcome t i db = Inr db' \<Longrightarrow> core_statement t db db'"
| "insert_dispute_evidence r db = Inr db' \<Longrightarrow> de_tenant_id r = t \<Longrightarrow> core_statement t db db'"
| "delete_dispute_evidence t i db = Inr db' \<Longrightarrow> core_statement t db db'"
| "insert_billable_result r db = Inr db' \<Longrightarrow> bi_tenant_id r = t \<Longrightarrow> core_statement t db db'"
| "delete_billable_result t i db = Inr db' \<Longrightarrow> core_statement t db db'"
| "insert_ledger_entry r db = Inr db' \<Longrightarrow> lg_tenant_id r = t \<Longrightarrow> core_statement t db db'"
| "delete_ledger_entry t i db = Inr db' \<Longrightarrow> core_statement t db db'"

lemmas repository_ops = memberships.repository_ops
  invitations.repository_ops
  api_keys.repository_ops
  grants.repository_ops
  contacts.repository_ops
  conversations.repository_ops
  documents.repository_ops
  chunks.repository_ops
  orders.repository_ops
  outcomes.repository_ops
  evidence.repository_ops
  billable_results.repository_ops
  ledger_entries.repository_ops

lemma step_statement: "core_step p db db' \<Longrightarrow> core_statement (pr_tenant_id p) db db'"
  by (induction rule: core_step.induct) (auto dest!: repository_ops intro: core_statement.intros)

section \<open>The invariant\<close>

definition unique_rows :: "('r \<Rightarrow> 'r \<Rightarrow> bool) \<Rightarrow> 'r list \<Rightarrow> bool" where
  "unique_rows clash rows \<longleftrightarrow> sorted_wrt (\<lambda>a b. \<not> clash b a) rows"

definition core_keys :: "core \<Rightarrow> bool" where
  "core_keys db \<longleftrightarrow> unique_rows tenant_clash (core_tenants db) \<and>
     unique_rows user_clash (core_users db) \<and>
     unique_rows identity_clash (core_identities db) \<and>
     unique_rows membership_clash (core_memberships db) \<and>
     unique_rows invitation_clash (core_invitations db) \<and>
     unique_rows api_key_clash (core_api_keys db) \<and>
     unique_rows grant_clash (core_grants db) \<and>
     unique_rows contact_clash (core_contacts db) \<and>
     unique_rows conversation_clash (core_conversations db) \<and>
     unique_rows document_clash (core_documents db) \<and>
     unique_rows chunk_clash (core_chunks db) \<and>
     unique_rows order_clash (core_orders db) \<and>
     unique_rows outcome_clash (core_outcomes db) \<and>
     unique_rows dispute_evidence_clash (core_dispute_evidence db) \<and>
     unique_rows billable_result_clash (core_billable_results db) \<and>
     unique_rows ledger_entry_clash (core_ledger_entries db)"

definition core_refs :: "core \<Rightarrow> bool" where
  "core_refs db \<longleftrightarrow> (\<forall>r \<in> set (core_identities db). identity_refs r db) \<and>
     (\<forall>r \<in> set (core_memberships db). membership_refs r db) \<and>
     (\<forall>r \<in> set (core_invitations db). invitation_refs r db) \<and>
     (\<forall>r \<in> set (core_api_keys db). api_key_refs r db) \<and>
     (\<forall>r \<in> set (core_grants db). grant_refs r db) \<and>
     (\<forall>r \<in> set (core_contacts db). contact_refs r db) \<and>
     (\<forall>r \<in> set (core_conversations db). conversation_refs r db) \<and>
     (\<forall>r \<in> set (core_documents db). document_refs r db) \<and>
     (\<forall>r \<in> set (core_chunks db). chunk_refs r db) \<and>
     (\<forall>r \<in> set (core_orders db). order_refs r db) \<and>
     (\<forall>r \<in> set (core_outcomes db). outcome_refs r db) \<and>
     (\<forall>r \<in> set (core_dispute_evidence db). dispute_evidence_refs r db) \<and>
     (\<forall>r \<in> set (core_billable_results db). billable_result_refs r db) \<and>
     (\<forall>r \<in> set (core_ledger_entries db). ledger_entry_refs r db)"

definition core_extends :: "core \<Rightarrow> core \<Rightarrow> bool" where
  "core_extends db db' \<longleftrightarrow> set (core_tenants db) \<subseteq> set (core_tenants db') \<and>
     set (core_users db) \<subseteq> set (core_users db') \<and>
     set (core_identities db) \<subseteq> set (core_identities db') \<and>
     set (core_memberships db) \<subseteq> set (core_memberships db') \<and>
     set (core_invitations db) \<subseteq> set (core_invitations db') \<and>
     set (core_api_keys db) \<subseteq> set (core_api_keys db') \<and>
     set (core_grants db) \<subseteq> set (core_grants db') \<and>
     set (core_contacts db) \<subseteq> set (core_contacts db') \<and>
     set (core_conversations db) \<subseteq> set (core_conversations db') \<and>
     set (core_documents db) \<subseteq> set (core_documents db') \<and>
     set (core_chunks db) \<subseteq> set (core_chunks db') \<and>
     set (core_orders db) \<subseteq> set (core_orders db') \<and>
     set (core_outcomes db) \<subseteq> set (core_outcomes db') \<and>
     set (core_dispute_evidence db) \<subseteq> set (core_dispute_evidence db') \<and>
     set (core_billable_results db) \<subseteq> set (core_billable_results db') \<and>
     set (core_ledger_entries db) \<subseteq> set (core_ledger_entries db')"

lemmas refs_defs = identity_refs_def membership_refs_def invitation_refs_def api_key_refs_def grant_refs_def
  contact_refs_def conversation_refs_def document_refs_def chunk_refs_def order_refs_def outcome_refs_def
  dispute_evidence_refs_def billable_result_refs_def ledger_entry_refs_def

lemma unique_rows_Nil [simp]: "unique_rows clash []"
  by (simp add: unique_rows_def)

lemma unique_rows_append: "unique_rows clash rows \<Longrightarrow> \<forall>x \<in> set rows. \<not> clash r x \<Longrightarrow> unique_rows clash (rows @ [r])"
  by (simp add: unique_rows_def sorted_wrt_append)

lemma unique_rows_filter: "unique_rows clash rows \<Longrightarrow> unique_rows clash (filter p rows)"
  by (simp add: unique_rows_def sorted_wrt_filter)

lemma unique_rowsD: "unique_rows clash rows \<Longrightarrow> a \<in> set rows \<Longrightarrow> b \<in> set rows \<Longrightarrow> clash a b \<Longrightarrow> clash b a \<Longrightarrow> a = b"
  unfolding unique_rows_def
  by (induction rows) auto

lemma refers_mono: "set rows \<subseteq> set rows' \<Longrightarrow> refers tenant ident t i rows \<Longrightarrow> refers tenant ident t i rows'"
  by (auto simp: refers_def has_row_def list_ex_iff split: option.splits)

lemma refers_filter: "refers tenant ident t i rows \<Longrightarrow> \<not> (t = u \<and> i = Some j) \<Longrightarrow>
    refers tenant ident t i (filter (\<lambda>r. tenant r = u \<longrightarrow> ident r \<noteq> j) rows)"
  by (auto simp: refers_def has_row_def list_ex_iff split: option.splits)

lemma list_ex_mono: "set xs \<subseteq> set ys \<Longrightarrow> list_ex p xs \<Longrightarrow> list_ex p ys"
  by (auto simp: list_ex_iff)

lemma refs_mono:
  "core_extends db db' \<Longrightarrow> identity_refs roi db \<Longrightarrow> identity_refs roi db'"
  "core_extends db db' \<Longrightarrow> membership_refs rmb db \<Longrightarrow> membership_refs rmb db'"
  "core_extends db db' \<Longrightarrow> invitation_refs riv db \<Longrightarrow> invitation_refs riv db'"
  "core_extends db db' \<Longrightarrow> api_key_refs rak db \<Longrightarrow> api_key_refs rak db'"
  "core_extends db db' \<Longrightarrow> grant_refs rxg db \<Longrightarrow> grant_refs rxg db'"
  "core_extends db db' \<Longrightarrow> contact_refs rct db \<Longrightarrow> contact_refs rct db'"
  "core_extends db db' \<Longrightarrow> conversation_refs rcn db \<Longrightarrow> conversation_refs rcn db'"
  "core_extends db db' \<Longrightarrow> document_refs rkd db \<Longrightarrow> document_refs rkd db'"
  "core_extends db db' \<Longrightarrow> chunk_refs rkc db \<Longrightarrow> chunk_refs rkc db'"
  "core_extends db db' \<Longrightarrow> order_refs rod db \<Longrightarrow> order_refs rod db'"
  "core_extends db db' \<Longrightarrow> outcome_refs rou db \<Longrightarrow> outcome_refs rou db'"
  "core_extends db db' \<Longrightarrow> dispute_evidence_refs rde db \<Longrightarrow> dispute_evidence_refs rde db'"
  "core_extends db db' \<Longrightarrow> billable_result_refs rbi db \<Longrightarrow> billable_result_refs rbi db'"
  "core_extends db db' \<Longrightarrow> ledger_entry_refs rlg db \<Longrightarrow> ledger_entry_refs rlg db'"
  by (auto simp: core_extends_def refs_defs intro: refers_mono elim: list_ex_mono)

lemma insert_tenant_Inr: "insert_tenant r db = Inr db' \<Longrightarrow> db' = db\<lparr>core_tenants := core_tenants db @ [r]\<rparr> \<and>
    (\<forall>x \<in> set (core_tenants db). \<not> tenant_clash r x)"
  by (auto simp: insert_tenant_def stored_Inr)

lemma insert_user_Inr: "insert_user r db = Inr db' \<Longrightarrow> db' = db\<lparr>core_users := core_users db @ [r]\<rparr> \<and>
    (\<forall>x \<in> set (core_users db). \<not> user_clash r x)"
  by (auto simp: insert_user_def stored_Inr)

lemma insert_identity_Inr: "insert_identity r db = Inr db' \<Longrightarrow> db' = db\<lparr>core_identities := core_identities db @ [r]\<rparr> \<and>
    (\<forall>x \<in> set (core_identities db). \<not> identity_clash r x) \<and> identity_refs r db"
  by (auto simp: insert_identity_def stored_Inr)

lemma insert_membership_Inr: "insert_membership r db = Inr db' \<Longrightarrow> db' = db\<lparr>core_memberships := core_memberships db @ [r]\<rparr> \<and>
    (\<forall>x \<in> set (core_memberships db). \<not> membership_clash r x) \<and> membership_refs r db"
  by (auto simp: insert_membership_def stored_Inr)

lemma insert_invitation_Inr: "insert_invitation r db = Inr db' \<Longrightarrow> db' = db\<lparr>core_invitations := core_invitations db @ [r]\<rparr> \<and>
    (\<forall>x \<in> set (core_invitations db). \<not> invitation_clash r x) \<and> invitation_refs r db"
  by (auto simp: insert_invitation_def stored_Inr)

lemma insert_api_key_Inr: "insert_api_key r db = Inr db' \<Longrightarrow> db' = db\<lparr>core_api_keys := core_api_keys db @ [r]\<rparr> \<and>
    (\<forall>x \<in> set (core_api_keys db). \<not> api_key_clash r x) \<and> api_key_refs r db"
  by (auto simp: insert_api_key_def stored_Inr)

lemma insert_grant_Inr: "insert_grant r db = Inr db' \<Longrightarrow> db' = db\<lparr>core_grants := core_grants db @ [r]\<rparr> \<and>
    (\<forall>x \<in> set (core_grants db). \<not> grant_clash r x) \<and> grant_refs r db"
  by (auto simp: insert_grant_def stored_Inr)

lemma insert_contact_Inr: "insert_contact r db = Inr db' \<Longrightarrow> db' = db\<lparr>core_contacts := core_contacts db @ [r]\<rparr> \<and>
    (\<forall>x \<in> set (core_contacts db). \<not> contact_clash r x) \<and> contact_refs r db"
  by (auto simp: insert_contact_def stored_Inr)

lemma insert_conversation_Inr: "insert_conversation r db = Inr db' \<Longrightarrow> db' = db\<lparr>core_conversations := core_conversations db @ [r]\<rparr> \<and>
    (\<forall>x \<in> set (core_conversations db). \<not> conversation_clash r x) \<and> conversation_refs r db"
  by (auto simp: insert_conversation_def stored_Inr)

lemma insert_document_Inr: "insert_document r db = Inr db' \<Longrightarrow> db' = db\<lparr>core_documents := core_documents db @ [r]\<rparr> \<and>
    (\<forall>x \<in> set (core_documents db). \<not> document_clash r x) \<and> document_refs r db"
  by (auto simp: insert_document_def stored_Inr)

lemma insert_chunk_Inr: "insert_chunk r db = Inr db' \<Longrightarrow> db' = db\<lparr>core_chunks := core_chunks db @ [r]\<rparr> \<and>
    (\<forall>x \<in> set (core_chunks db). \<not> chunk_clash r x) \<and> chunk_refs r db"
  by (auto simp: insert_chunk_def stored_Inr)

lemma insert_order_Inr: "insert_order r db = Inr db' \<Longrightarrow> db' = db\<lparr>core_orders := core_orders db @ [r]\<rparr> \<and>
    (\<forall>x \<in> set (core_orders db). \<not> order_clash r x) \<and> order_refs r db"
  by (auto simp: insert_order_def stored_Inr)

lemma insert_outcome_Inr: "insert_outcome r db = Inr db' \<Longrightarrow> db' = db\<lparr>core_outcomes := core_outcomes db @ [r]\<rparr> \<and>
    (\<forall>x \<in> set (core_outcomes db). \<not> outcome_clash r x) \<and> outcome_refs r db"
  by (auto simp: insert_outcome_def stored_Inr)

lemma insert_dispute_evidence_Inr: "insert_dispute_evidence r db = Inr db' \<Longrightarrow> db' = db\<lparr>core_dispute_evidence := core_dispute_evidence db @ [r]\<rparr> \<and>
    (\<forall>x \<in> set (core_dispute_evidence db). \<not> dispute_evidence_clash r x) \<and> dispute_evidence_refs r db"
  by (auto simp: insert_dispute_evidence_def stored_Inr)

lemma insert_billable_result_Inr: "insert_billable_result r db = Inr db' \<Longrightarrow> db' = db\<lparr>core_billable_results := core_billable_results db @ [r]\<rparr> \<and>
    (\<forall>x \<in> set (core_billable_results db). \<not> billable_result_clash r x) \<and> billable_result_refs r db"
  by (auto simp: insert_billable_result_def stored_Inr)

lemma insert_ledger_entry_Inr: "insert_ledger_entry r db = Inr db' \<Longrightarrow> db' = db\<lparr>core_ledger_entries := core_ledger_entries db @ [r]\<rparr> \<and>
    (\<forall>x \<in> set (core_ledger_entries db). \<not> ledger_entry_clash r x) \<and> ledger_entry_refs r db"
  by (auto simp: insert_ledger_entry_def stored_Inr)

lemmas insert_Inr = insert_tenant_Inr insert_user_Inr insert_identity_Inr insert_membership_Inr
  insert_invitation_Inr insert_api_key_Inr insert_grant_Inr insert_contact_Inr insert_conversation_Inr
  insert_document_Inr insert_chunk_Inr insert_order_Inr insert_outcome_Inr insert_dispute_evidence_Inr
  insert_billable_result_Inr insert_ledger_entry_Inr

lemmas delete_defs = delete_membership_def delete_invitation_def delete_api_key_def delete_grant_def
  delete_contact_def delete_conversation_def delete_document_def delete_chunk_def delete_order_def
  delete_outcome_def delete_dispute_evidence_def delete_billable_result_def delete_ledger_entry_def

lemma empty_core_ok: "core_keys empty_core \<and> core_refs empty_core"
  by (simp add: empty_core_def core_keys_def core_refs_def)

lemma statement_keys: "core_statement t db db' \<Longrightarrow> core_keys db \<Longrightarrow> core_keys db'"
  by (induction rule: core_statement.induct)
    (auto simp: core_keys_def removed_Inr delete_defs dest!: insert_Inr intro: unique_rows_append unique_rows_filter)

definition core_new :: "core \<Rightarrow> core \<Rightarrow> bool" where
  "core_new db db' \<longleftrightarrow> (\<forall>r \<in> set (core_identities db'). r \<in> set (core_identities db) \<or> identity_refs r db) \<and>
      (\<forall>r \<in> set (core_memberships db'). r \<in> set (core_memberships db) \<or> membership_refs r db)
    \<and>
      (\<forall>r \<in> set (core_invitations db'). r \<in> set (core_invitations db) \<or> invitation_refs r db)
    \<and>
     (\<forall>r \<in> set (core_api_keys db'). r \<in> set (core_api_keys db) \<or> api_key_refs r db) \<and>
     (\<forall>r \<in> set (core_grants db'). r \<in> set (core_grants db) \<or> grant_refs r db) \<and>
     (\<forall>r \<in> set (core_contacts db'). r \<in> set (core_contacts db) \<or> contact_refs r db) \<and>
      (\<forall>r \<in> set (core_conversations db'). r \<in> set (core_conversations db) \<or> conversation_refs
    r db) \<and>
     (\<forall>r \<in> set (core_documents db'). r \<in> set (core_documents db) \<or> document_refs r db) \<and>
     (\<forall>r \<in> set (core_chunks db'). r \<in> set (core_chunks db) \<or> chunk_refs r db) \<and>
     (\<forall>r \<in> set (core_orders db'). r \<in> set (core_orders db) \<or> order_refs r db) \<and>
     (\<forall>r \<in> set (core_outcomes db'). r \<in> set (core_outcomes db) \<or> outcome_refs r db) \<and>
      (\<forall>r \<in> set (core_dispute_evidence db'). r \<in> set (core_dispute_evidence db) \<or>
    dispute_evidence_refs r db) \<and>
      (\<forall>r \<in> set (core_billable_results db'). r \<in> set (core_billable_results db) \<or>
    billable_result_refs r db) \<and>
     (\<forall>r \<in> set (core_ledger_entries db'). r \<in> set (core_ledger_entries db) \<or> ledger_entry_refs r db)"

lemma new_rows: "\<forall>r \<in> B. r \<in> A \<or> P r \<Longrightarrow> \<forall>r \<in> A. P r \<Longrightarrow> (\<And>r. P r \<Longrightarrow> Q r) \<Longrightarrow> \<forall>r \<in> B. Q r"
  by blast

lemma core_new_refs:
  assumes "core_extends db db'" "core_refs db" "core_new db db'"
  shows "core_refs db'"
  unfolding core_refs_def
proof (intro conjI)
  note facts = assms(2,3) [unfolded core_refs_def core_new_def]
  show "\<forall>r \<in> set (core_identities db'). identity_refs r db'"
    using facts by (elim conjE) (rule new_rows [OF _ _ refs_mono(1) [OF assms(1)]], assumption+)
  show "\<forall>r \<in> set (core_memberships db'). membership_refs r db'"
    using facts by (elim conjE) (rule new_rows [OF _ _ refs_mono(2) [OF assms(1)]], assumption+)
  show "\<forall>r \<in> set (core_invitations db'). invitation_refs r db'"
    using facts by (elim conjE) (rule new_rows [OF _ _ refs_mono(3) [OF assms(1)]], assumption+)
  show "\<forall>r \<in> set (core_api_keys db'). api_key_refs r db'"
    using facts by (elim conjE) (rule new_rows [OF _ _ refs_mono(4) [OF assms(1)]], assumption+)
  show "\<forall>r \<in> set (core_grants db'). grant_refs r db'"
    using facts by (elim conjE) (rule new_rows [OF _ _ refs_mono(5) [OF assms(1)]], assumption+)
  show "\<forall>r \<in> set (core_contacts db'). contact_refs r db'"
    using facts by (elim conjE) (rule new_rows [OF _ _ refs_mono(6) [OF assms(1)]], assumption+)
  show "\<forall>r \<in> set (core_conversations db'). conversation_refs r db'"
    using facts by (elim conjE) (rule new_rows [OF _ _ refs_mono(7) [OF assms(1)]], assumption+)
  show "\<forall>r \<in> set (core_documents db'). document_refs r db'"
    using facts by (elim conjE) (rule new_rows [OF _ _ refs_mono(8) [OF assms(1)]], assumption+)
  show "\<forall>r \<in> set (core_chunks db'). chunk_refs r db'"
    using facts by (elim conjE) (rule new_rows [OF _ _ refs_mono(9) [OF assms(1)]], assumption+)
  show "\<forall>r \<in> set (core_orders db'). order_refs r db'"
    using facts by (elim conjE) (rule new_rows [OF _ _ refs_mono(10) [OF assms(1)]], assumption+)
  show "\<forall>r \<in> set (core_outcomes db'). outcome_refs r db'"
    using facts by (elim conjE) (rule new_rows [OF _ _ refs_mono(11) [OF assms(1)]], assumption+)
  show "\<forall>r \<in> set (core_dispute_evidence db'). dispute_evidence_refs r db'"
    using facts by (elim conjE) (rule new_rows [OF _ _ refs_mono(12) [OF assms(1)]], assumption+)
  show "\<forall>r \<in> set (core_billable_results db'). billable_result_refs r db'"
    using facts by (elim conjE) (rule new_rows [OF _ _ refs_mono(13) [OF assms(1)]], assumption+)
  show "\<forall>r \<in> set (core_ledger_entries db'). ledger_entry_refs r db'"
    using facts by (elim conjE) (rule new_rows [OF _ _ refs_mono(14) [OF assms(1)]], assumption+)
qed

lemma insert_refs:

  "insert_tenant rtt db = Inr db' \<Longrightarrow> core_refs db \<Longrightarrow> core_refs db'"
  "insert_user rus db = Inr db' \<Longrightarrow> core_refs db \<Longrightarrow> core_refs db'"
  "insert_identity roi db = Inr db' \<Longrightarrow> core_refs db \<Longrightarrow> core_refs db'"
  "insert_membership rmb db = Inr db' \<Longrightarrow> core_refs db \<Longrightarrow> core_refs db'"
  "insert_invitation riv db = Inr db' \<Longrightarrow> core_refs db \<Longrightarrow> core_refs db'"
  "insert_api_key rak db = Inr db' \<Longrightarrow> core_refs db \<Longrightarrow> core_refs db'"
  "insert_grant rxg db = Inr db' \<Longrightarrow> core_refs db \<Longrightarrow> core_refs db'"
  "insert_contact rct db = Inr db' \<Longrightarrow> core_refs db \<Longrightarrow> core_refs db'"
  "insert_conversation rcn db = Inr db' \<Longrightarrow> core_refs db \<Longrightarrow> core_refs db'"
  "insert_document rkd db = Inr db' \<Longrightarrow> core_refs db \<Longrightarrow> core_refs db'"
  "insert_chunk rkc db = Inr db' \<Longrightarrow> core_refs db \<Longrightarrow> core_refs db'"
  "insert_order rod db = Inr db' \<Longrightarrow> core_refs db \<Longrightarrow> core_refs db'"
  "insert_outcome rou db = Inr db' \<Longrightarrow> core_refs db \<Longrightarrow> core_refs db'"
  "insert_dispute_evidence rde db = Inr db' \<Longrightarrow> core_refs db \<Longrightarrow> core_refs db'"
  "insert_billable_result rbi db = Inr db' \<Longrightarrow> core_refs db \<Longrightarrow> core_refs db'"
  "insert_ledger_entry rlg db = Inr db' \<Longrightarrow> core_refs db \<Longrightarrow> core_refs db'"
  by (rule core_new_refs; force simp: core_extends_def core_new_def dest!: insert_Inr)+

lemma delete_membership_refs: "delete_membership t i db = Inr db' \<Longrightarrow> core_refs db \<Longrightarrow> core_refs db'"
  by (auto simp: core_refs_def delete_membership_def removed_Inr refs_defs list_ex_iff intro!: refers_filter)

lemma delete_invitation_refs: "delete_invitation t i db = Inr db' \<Longrightarrow> core_refs db \<Longrightarrow> core_refs db'"
  by (auto simp: core_refs_def delete_invitation_def removed_Inr refs_defs list_ex_iff intro!: refers_filter)

lemma delete_api_key_refs: "delete_api_key t i db = Inr db' \<Longrightarrow> core_refs db \<Longrightarrow> core_refs db'"
  by (auto simp: core_refs_def delete_api_key_def removed_Inr refs_defs list_ex_iff intro!: refers_filter)

lemma delete_grant_refs: "delete_grant t i db = Inr db' \<Longrightarrow> core_refs db \<Longrightarrow> core_refs db'"
  by (auto simp: core_refs_def delete_grant_def removed_Inr refs_defs list_ex_iff intro!: refers_filter)

lemma delete_contact_refs: "delete_contact t i db = Inr db' \<Longrightarrow> core_refs db \<Longrightarrow> core_refs db'"
  by (auto simp: core_refs_def delete_contact_def removed_Inr refs_defs list_ex_iff intro!: refers_filter)

lemma delete_conversation_refs: "delete_conversation t i db = Inr db' \<Longrightarrow> core_refs db \<Longrightarrow> core_refs db'"
  by (auto simp: core_refs_def delete_conversation_def removed_Inr refs_defs list_ex_iff intro!: refers_filter)

lemma delete_document_refs: "delete_document t i db = Inr db' \<Longrightarrow> core_refs db \<Longrightarrow> core_refs db'"
  by (auto simp: core_refs_def delete_document_def removed_Inr refs_defs list_ex_iff intro!: refers_filter)

lemma delete_chunk_refs: "delete_chunk t i db = Inr db' \<Longrightarrow> core_refs db \<Longrightarrow> core_refs db'"
  by (auto simp: core_refs_def delete_chunk_def removed_Inr refs_defs list_ex_iff intro!: refers_filter)

lemma delete_order_refs: "delete_order t i db = Inr db' \<Longrightarrow> core_refs db \<Longrightarrow> core_refs db'"
  by (auto simp: core_refs_def delete_order_def removed_Inr refs_defs list_ex_iff intro!: refers_filter)

lemma delete_outcome_refs: "delete_outcome t i db = Inr db' \<Longrightarrow> core_refs db \<Longrightarrow> core_refs db'"
  by (auto simp: core_refs_def delete_outcome_def removed_Inr refs_defs list_ex_iff intro!: refers_filter)

lemma delete_dispute_evidence_refs: "delete_dispute_evidence t i db = Inr db' \<Longrightarrow> core_refs db \<Longrightarrow> core_refs db'"
  by (auto simp: core_refs_def delete_dispute_evidence_def removed_Inr refs_defs list_ex_iff intro!: refers_filter)

lemma delete_billable_result_refs: "delete_billable_result t i db = Inr db' \<Longrightarrow> core_refs db \<Longrightarrow> core_refs db'"
  by (auto simp: core_refs_def delete_billable_result_def removed_Inr refs_defs list_ex_iff intro!: refers_filter)

lemma delete_ledger_entry_refs: "delete_ledger_entry t i db = Inr db' \<Longrightarrow> core_refs db \<Longrightarrow> core_refs db'"
  by (auto simp: core_refs_def delete_ledger_entry_def removed_Inr refs_defs list_ex_iff intro!: refers_filter)

lemmas delete_refs = delete_membership_refs delete_invitation_refs delete_api_key_refs delete_grant_refs
  delete_contact_refs delete_conversation_refs delete_document_refs delete_chunk_refs delete_order_refs
  delete_outcome_refs delete_dispute_evidence_refs delete_billable_result_refs delete_ledger_entry_refs

lemma statement_refs: "core_statement t db db' \<Longrightarrow> core_refs db \<Longrightarrow> core_refs db'"
  by (induction rule: core_statement.induct) (auto dest: insert_refs delete_refs)

section \<open>Isolation\<close>

text \<open>What the other tenants own.\<close>

definition foreign_rows :: "uuid \<Rightarrow> core \<Rightarrow> core" where
  "foreign_rows t db = \<lparr>core_tenants = [], core_users = [], core_identities = [],
     core_memberships = filter (\<lambda>r. mb_tenant_id r \<noteq> t) (core_memberships db),
     core_invitations = filter (\<lambda>r. iv_tenant_id r \<noteq> t) (core_invitations db),
     core_api_keys = filter (\<lambda>r. ak_tenant_id r \<noteq> t) (core_api_keys db),
     core_grants = filter (\<lambda>r. xg_tenant_id r \<noteq> t) (core_grants db),
     core_contacts = filter (\<lambda>r. ct_tenant_id r \<noteq> t) (core_contacts db),
     core_conversations = filter (\<lambda>r. cn_tenant_id r \<noteq> t) (core_conversations db),
     core_documents = filter (\<lambda>r. kd_tenant_id r \<noteq> t) (core_documents db),
     core_chunks = filter (\<lambda>r. kc_tenant_id r \<noteq> t) (core_chunks db),
     core_orders = filter (\<lambda>r. od_tenant_id r \<noteq> t) (core_orders db),
     core_outcomes = filter (\<lambda>r. ou_tenant_id r \<noteq> t) (core_outcomes db),
     core_dispute_evidence = filter (\<lambda>r. de_tenant_id r \<noteq> t) (core_dispute_evidence db),
     core_billable_results = filter (\<lambda>r. bi_tenant_id r \<noteq> t) (core_billable_results db),
     core_ledger_entries = filter (\<lambda>r. lg_tenant_id r \<noteq> t) (core_ledger_entries db)\<rparr>"

lemma own_or_not: "(a = t \<longrightarrow> P) \<and> a \<noteq> t \<longleftrightarrow> a \<noteq> t" "a \<noteq> t \<and> (a = t \<longrightarrow> P) \<longleftrightarrow> a \<noteq> t"
  by blast+

lemma statement_foreign: "core_statement t db db' \<Longrightarrow> foreign_rows t db' = foreign_rows t db"
  by (induction rule: core_statement.induct)
    (auto simp: foreign_rows_def removed_Inr own_or_not delete_defs dest!: insert_Inr)

definition core_reachable :: "core \<Rightarrow> bool" where
  "core_reachable db \<longleftrightarrow> (\<lambda>a b. \<exists>p. core_step p a b)\<^sup>*\<^sup>* empty_core db"

lemma reachable_core_ok: "core_reachable db \<Longrightarrow> core_keys db \<and> core_refs db"
  unfolding core_reachable_def
   by (induction rule: rtranclp_induct) (auto simp: empty_core_ok dest!: step_statement intro: statement_keys
    statement_refs)

text \<open>
  C4. The data of tenants never mixes.  Whatever principals do through their repositories, every
  key stays unique and every reference of a row resolves to a row of the same tenant; and a step
  of one principal leaves every row of every other tenant as it is.
\<close>

theorem core_tenants_separate:
  assumes "core_reachable db" "core_step p db db'"
  shows "foreign_rows (pr_tenant_id p) db' = foreign_rows (pr_tenant_id p) db \<and> core_keys db' \<and> core_refs db'"
   using reachable_core_ok [OF assms(1)] step_statement [OF assms(2)] statement_foreign statement_keys
    statement_refs by blast

definition sample_principal :: principal where
  "sample_principal = \<lparr>pr_user_id = 2, pr_tenant_id = 1, pr_membership_id = 3\<rparr>"

definition sample_tenant :: tenant_row where
  "sample_tenant = \<lparr>tt_id = 1, tt_created_at = 0, tt_name = ''Shop'', tt_country_code = ''US'', tt_currency = ''USD'',
     tt_locale = ''en-US'', tt_timezone = ''UTC'', tt_business_type = ''other'', tt_version = 1\<rparr>"

definition sample_contact :: contact_row where
  "sample_contact = \<lparr>ct_id = 4, ct_created_at = 0, ct_tenant_id = 1, ct_provider = ''shop'', ct_external_id = ''c-1'',
     ct_display_name = ''Ada'', ct_email = None\<rparr>"

definition sample_core :: core where
  "sample_core = empty_core\<lparr>core_tenants := [sample_tenant]\<rparr>"

theorem core_tenants_separate_witness:
  "core_refs (sample_core\<lparr>core_contacts := [sample_contact]\<rparr>)"
proof -
  have "insert_tenant sample_tenant empty_core = Inr sample_core"
    by (simp add: insert_tenant_def stored_def sample_tenant_def sample_core_def empty_core_def fits_def require_def
        int4_def capitals_def is_upper_def code_def tenant_clash_def insert_row_def)
  then have r: "core_reachable sample_core"
    unfolding core_reachable_def by (blast intro: r_into_rtranclp core_step.new_tenant)
  have "repository_add ct_tenant_id insert_contact (tenant_scope sample_principal) sample_contact sample_core =
      Inr (sample_core\<lparr>core_contacts := [sample_contact]\<rparr>)"
     by (simp add: repository_add_def tenant_scope_def scope_tenant_def sample_principal_def sample_contact_def
    check_def
        with_check_def require_def insert_contact_def stored_def fits_def insert_row_def contact_refs_def
        sample_core_def sample_tenant_def empty_core_def)
  then show ?thesis using core_tenants_separate [OF r core_step.add_contact] by blast
qed

text \<open>
  The nearest knowledge is one's own.  The search of a tenant transaction answers with chunks
  of its tenant that have a vector, nearest first and no more than asked for; a chunk of the
  tenant is left out only if as many as asked for, none of them further away, are in the answer.
\<close>

theorem nearest_own_knowledge:
  "\<exists>xs. nearest dist (tenant_scope p) q n db = Inr xs \<and>
     set xs \<subseteq> {r \<in> set (core_chunks db). kc_tenant_id r = pr_tenant_id p \<and> kc_embedding r
    \<noteq> None} \<and>
    sorted (map (\<lambda>r. dist (the (kc_embedding r)) q) xs) \<and> length xs \<le> n \<and>
     (\<forall>r \<in> set (core_chunks db). kc_tenant_id r = pr_tenant_id p \<and> kc_embedding r \<noteq> None
    \<and> r \<notin> set xs \<longrightarrow>
       length xs = n \<and> (\<forall>x \<in> set xs. dist (the (kc_embedding x)) q \<le> dist (the (kc_embedding r)) q))"
proof -
  define f where "f = (\<lambda>r :: chunk_row. dist (the (kc_embedding r)) q)"
  define own where "own = filter (\<lambda>r. kc_embedding r \<noteq> None) (filter (\<lambda>r. kc_tenant_id r = pr_tenant_id p)
     (visible (Some (pr_tenant_id p)) kc_tenant_id (core_chunks db)))"
  define L where "L = sort_key f own"
  have n: "nearest dist (tenant_scope p) q n db = Inr (take n L)"
    by (simp add: nearest_def repository_rows_def tenant_scope_def scope_tenant_def L_def own_def f_def)
  have set_L: "set L = {r \<in> set (core_chunks db). kc_tenant_id r = pr_tenant_id p \<and> kc_embedding r \<noteq> None}"
    by (auto simp: L_def own_def visible_def)
  have s: "sorted (map f (take n L @ drop n L))" by (simp add: L_def)
  have rest: "r \<in> set (drop n L) \<and> length (take n L) = n" if "r \<in> set L" "r \<notin> set (take n L)" for r
     using that by (metis Un_iff append_take_drop_id drop_all empty_iff empty_set length_take min.absorb2
    nat_le_linear set_append)
  have "\<forall>r \<in> set L. r \<notin> set (take n L) \<longrightarrow> length (take n L) = n \<and> (\<forall>x \<in> set (take n L). f x \<le> f r)"
  proof (intro ballI impI conjI)
    fix r x assume r: "r \<in> set L" "r \<notin> set (take n L)" and x: "x \<in> set (take n L)"
    then have "f r \<in> set (map f (drop n L))" "f x \<in> set (map f (take n L))" using rest by auto
    then show "f x \<le> f r" using s unfolding map_append sorted_append by blast
  qed (use rest in blast)
  moreover have "sorted (map f (take n L))" using s unfolding map_append sorted_append by blast
  moreover have "set (take n L) \<subseteq> set L" by (rule set_take_subset)
  ultimately show ?thesis using n set_L by (fastforce simp: f_def)
qed

end
