(* ===== verification/AccessFacts.thy ===== *)
theory AccessFacts
  imports Access CoreFacts
begin

text \<open>
  What the guards admit: an issued API key while it is usable, and only active owners and
  administrators of the tenant the credential names; key sets are fetched from the issuer's
  host only; the policy table by permission.
\<close>

section \<open>Keys\<close>

lemma unique_rows_distinct: "unique_rows clash rows \<Longrightarrow> (\<And>x. clash x x) \<Longrightarrow> distinct rows"
  unfolding unique_rows_def by (induction rows) auto

lemma no_underscore: "CHR ''_'' \<notin> set (uuid_hex t)"
  using uuid_hex_is_hex not_hex(5) by blast

lemma parse_generated:
  assumes "CHR ''_'' \<notin> set random" "valid_uuid t"
  shows "parse_key (gk_plaintext (generate_key hmac pepper random secret t)) = Inr (t, ''oos_live_'' @ random)"
proof -
  have n: "4 = Suc (Suc (Suc (Suc 0)))" by simp
  have "gk_plaintext (generate_key hmac pepper random secret t) =
      ''oos'' @ CHR ''_'' # ''live'' @ CHR ''_'' # random @ CHR ''_'' # uuid_hex t @ CHR ''_'' # secret"
    by (simp add: generate_key_def Let_def)
  moreover have "split_max 4 CHR ''_'' \<dots> = [''oos'', ''live'', random, uuid_hex t, secret]"
    unfolding n using assms(1) no_underscore [of t]
    by (subst split_max_part, simp, subst split_max_part, simp, subst split_max_part, simp, subst split_max_part, simp)
      simp
  ultimately show ?thesis by (simp add: parse_key_def uuid_of_str_hex [OF assms(2)])
qed

lemma administrator_Some: "administrator_of t db = Some m \<Longrightarrow>
    m \<in> set (core_memberships db) \<and> mb_tenant_id m = t \<and> mb_role m \<in> {''owner'', ''administrator''} \<and> mb_status m = ''active''"
  unfolding administrator_of_def visible_def find_Some_iff by (metis (mono_tags, lifting) mem_Collect_eq nth_mem set_filter)

definition is_administrator :: "core \<Rightarrow> principal \<Rightarrow> bool" where
  "is_administrator db p \<longleftrightarrow> (\<exists>m \<in> set (core_memberships db). mb_id m = pr_membership_id p \<and>
     mb_tenant_id m = pr_tenant_id p \<and> mb_user_id m = pr_user_id p \<and> mb_role m \<in> {''owner'', ''administrator''} \<and>
     mb_status m = ''active'')"

definition holds_key :: "(string \<Rightarrow> string \<Rightarrow> string) \<Rightarrow> string \<Rightarrow> int \<Rightarrow> core \<Rightarrow> string \<Rightarrow> string \<Rightarrow> principal \<Rightarrow> bool" where
  "holds_key hmac pepper now db scope plaintext p \<longleftrightarrow> (\<exists>k \<in> set (core_api_keys db). ak_tenant_id k = pr_tenant_id p \<and>
     parse_key plaintext = Inr (pr_tenant_id p, ak_prefix k) \<and> key_usable now scope k \<and>
     ak_key_digest k = key_digest hmac (utf8 pepper) plaintext)"

lemma try_keys_Inr:
  "try_keys hmac pepper now db plaintext scope ks = Inr p \<Longrightarrow>
    \<exists>k \<in> set ks. \<exists>m. key_usable now scope k \<and> ak_key_digest k = key_digest hmac pepper plaintext \<and>
      administrator_of (ak_tenant_id k) db = Some m \<and>
      p = \<lparr>pr_user_id = mb_user_id m, pr_tenant_id = ak_tenant_id k, pr_membership_id = mb_id m\<rparr>"
  by (induction ks) (auto simp: ebind_eq_Inr verify_key_def compare_digest_def split: if_splits option.splits)

lemma visible_mem: "r \<in> set (visible (Some t) owner rows) \<longleftrightarrow> r \<in> set rows \<and> owner r = t"
  by (auto simp: visible_def)

lemma key_hasher_Inr: "mk_key_hasher pepper = Inr q \<Longrightarrow> q = utf8 pepper"
  unfolding mk_key_hasher_def ebind_eq_Inr by simp

lemma principal_for_key_Inr: "principal_for_key hmac q now db plaintext scope = Inr p \<Longrightarrow>
    \<exists>x. parse_key plaintext = Inr x \<and> try_keys hmac q now db plaintext scope
      (filter (\<lambda>k. ak_tenant_id k = fst x \<and> ak_prefix k = snd x) (visible (Some (fst x)) ak_tenant_id (core_api_keys db))) = Inr p"
  unfolding principal_for_key_def ebind_eq_Inr by (auto simp: case_prod_unfold)

lemma admitted_key:
  assumes "principal_for_key hmac q now db plaintext scope = Inr p"
  shows "\<exists>k m. k \<in> set (core_api_keys db) \<and> parse_key plaintext = Inr (ak_tenant_id k, ak_prefix k) \<and>
    key_usable now scope k \<and> ak_key_digest k = key_digest hmac q plaintext \<and>
    administrator_of (ak_tenant_id k) db = Some m \<and>
    p = \<lparr>pr_user_id = mb_user_id m, pr_tenant_id = ak_tenant_id k, pr_membership_id = mb_id m\<rparr>"
proof -
  obtain x where x: "parse_key plaintext = Inr x" and run: "try_keys hmac q now db plaintext scope
      (filter (\<lambda>k. ak_tenant_id k = fst x \<and> ak_prefix k = snd x) (visible (Some (fst x)) ak_tenant_id (core_api_keys db))) = Inr p"
    using principal_for_key_Inr [OF assms] by blast
  from try_keys_Inr [OF run] obtain k where "k \<in> set (filter (\<lambda>k. ak_tenant_id k = fst x \<and> ak_prefix k = snd x)
      (visible (Some (fst x)) ak_tenant_id (core_api_keys db)))"
    and ex: "\<exists>m. key_usable now scope k \<and> ak_key_digest k = key_digest hmac q plaintext \<and>
      administrator_of (ak_tenant_id k) db = Some m \<and>
      p = \<lparr>pr_user_id = mb_user_id m, pr_tenant_id = ak_tenant_id k, pr_membership_id = mb_id m\<rparr>"
    by (rule bexE)
  then have k: "k \<in> set (core_api_keys db)" "fst x = ak_tenant_id k" "snd x = ak_prefix k"
    by (simp_all add: visible_mem)
  from ex obtain m where u: "key_usable now scope k" "ak_key_digest k = key_digest hmac q plaintext"
      "administrator_of (ak_tenant_id k) db = Some m"
      "p = \<lparr>pr_user_id = mb_user_id m, pr_tenant_id = ak_tenant_id k, pr_membership_id = mb_id m\<rparr>"
    by (elim exE conjE)
  have "x = (ak_tenant_id k, ak_prefix k)" by (rule prod_eqI) (simp_all add: k)
  then have "parse_key plaintext = Inr (ak_tenant_id k, ak_prefix k)" using x by (simp only:)
  then show ?thesis by (intro exI [of _ k] exI [of _ m] conjI) (rule k(1) u | assumption)+
qed

lemma key_principal_sound:
  assumes "ebind (mk_key_hasher pepper) (\<lambda>q. principal_for_key hmac q now db plaintext scope) = Inr p"
  shows "is_administrator db p \<and> holds_key hmac pepper now db scope plaintext p"
proof -
  from assms have "principal_for_key hmac (utf8 pepper) now db plaintext scope = Inr p"
    unfolding ebind_eq_Inr using key_hasher_Inr by blast
  from admitted_key [OF this] obtain k m where k: "k \<in> set (core_api_keys db)"
      "parse_key plaintext = Inr (ak_tenant_id k, ak_prefix k)" "key_usable now scope k"
      "ak_key_digest k = key_digest hmac (utf8 pepper) plaintext"
    and m: "administrator_of (ak_tenant_id k) db = Some m"
    and p: "p = \<lparr>pr_user_id = mb_user_id m, pr_tenant_id = ak_tenant_id k, pr_membership_id = mb_id m\<rparr>"
    by (elim exE conjE)
  have "is_administrator db p" unfolding is_administrator_def
    by (rule bexI [of _ m]) (use administrator_Some [OF m] in \<open>simp_all add: p\<close>)
  moreover have "holds_key hmac pepper now db scope plaintext p" unfolding holds_key_def
    by (rule bexI [of _ k]) (simp_all add: k p)
  ultimately show ?thesis by (rule conjI)
qed

lemma key_rows_unique:
  assumes "core_keys db" "k \<in> set (core_api_keys db)"
  shows "filter (\<lambda>x. ak_tenant_id x = ak_tenant_id k \<and> ak_prefix x = ak_prefix k)
    (visible (Some (ak_tenant_id k)) ak_tenant_id (core_api_keys db)) = [k]"
proof -
  have u: "unique_rows api_key_clash (core_api_keys db)" using assms(1) by (simp add: core_keys_def)
  have "distinct (core_api_keys db)" by (rule unique_rows_distinct [OF u]) (simp add: api_key_clash_def)
  moreover have "x = k" if "x \<in> set (core_api_keys db)" "ak_tenant_id x = ak_tenant_id k" "ak_prefix x = ak_prefix k" for x
    using that by (intro unique_rowsD [OF u that(1) assms(2)]) (simp_all add: api_key_clash_def)
  ultimately have "filter (\<lambda>x. ak_tenant_id x = ak_tenant_id k \<and> ak_prefix x = ak_prefix k) (core_api_keys db) = [k]"
    using assms(2) by (intro filter_eq_single) auto
  moreover have "filter (\<lambda>x. ak_tenant_id x = ak_tenant_id k \<and> ak_prefix x = ak_prefix k)
    (visible (Some (ak_tenant_id k)) ak_tenant_id (core_api_keys db)) =
    filter (\<lambda>x. ak_tenant_id x = ak_tenant_id k \<and> ak_prefix x = ak_prefix k) (core_api_keys db)"
    by (auto simp: visible_def intro!: filter_cong)
  ultimately show ?thesis by simp
qed

lemma verify_ascii:
  "list_all (\<lambda>c. code c < 128) (key_digest hmac pepper plaintext) \<Longrightarrow>
     verify_key hmac pepper plaintext (key_digest hmac pepper plaintext) = Inr True"
  by (simp add: verify_key_def compare_digest_def)

lemma issued_key_principal:
  assumes "core_reachable db" "k \<in> set (core_api_keys db)" "valid_uuid (ak_tenant_id k)" "CHR ''_'' \<notin> set random"
    and key: "g = generate_key hmac pepper random secret (ak_tenant_id k)"
      "ak_prefix k = gk_prefix g" "ak_key_digest k = gk_digest g"
    and hex: "\<And>p m. list_all (\<lambda>c. code c < 128) (hmac p m)"
  shows "principal_for_key hmac pepper now db (gk_plaintext g) scope =
    (if \<not> key_usable now scope k then Inl (NoAccess ''invalid API key or scope'')
     else case administrator_of (ak_tenant_id k) db of
         None \<Rightarrow> Inl (NoAccess ''API key tenant has no active administrator'')
       | Some m \<Rightarrow> Inr \<lparr>pr_user_id = mb_user_id m, pr_tenant_id = ak_tenant_id k, pr_membership_id = mb_id m\<rparr>)"
proof -
  have prefix: "ak_prefix k = ''oos_live_'' @ random" by (simp add: key(2) key(1) generate_key_def Let_def)
  have digest: "ak_key_digest k = key_digest hmac pepper (gk_plaintext g)"
    by (simp add: key(3) key(1) generate_key_def Let_def)
  have "verify_key hmac pepper (gk_plaintext g) (ak_key_digest k) = Inr True"
    unfolding digest by (rule verify_ascii) (simp add: key_digest_def hex)
  moreover have "principal_for_key hmac pepper now db (gk_plaintext g) scope =
      try_keys hmac pepper now db (gk_plaintext g) scope [k]"
    using key_rows_unique [OF conjunct1 [OF reachable_core_ok [OF assms(1)]] assms(2)]
    by (simp add: principal_for_key_def key(1) parse_generated [OF assms(4,3)] prefix)
  ultimately show ?thesis by (simp split: option.split)
qed

text \<open>
  C20. An issued API key opens its tenant, and only while it may.  For the key of any row of a
  reachable database that was generated for the row's tenant, authentication succeeds exactly if
  the row is not revoked, has not expired, lists the required scope, and the tenant has an active
  owner or administrator, as whom the caller then acts.
\<close>

theorem issued_key_admitted:
  assumes "core_reachable db" "k \<in> set (core_api_keys db)" "valid_uuid (ak_tenant_id k)" "CHR ''_'' \<notin> set random"
    and key: "g = generate_key hmac pepper random secret (ak_tenant_id k)"
      "ak_prefix k = gk_prefix g" "ak_key_digest k = gk_digest g"
    and hex: "\<And>p m. list_all (\<lambda>c. code c < 128) (hmac p m)"
  shows "principal_for_key hmac pepper now db (gk_plaintext g) scope =
    (if \<not> key_usable now scope k then Inl (NoAccess ''invalid API key or scope'')
     else case administrator_of (ak_tenant_id k) db of
         None \<Rightarrow> Inl (NoAccess ''API key tenant has no active administrator'')
       | Some m \<Rightarrow> Inr \<lparr>pr_user_id = mb_user_id m, pr_tenant_id = ak_tenant_id k, pr_membership_id = mb_id m\<rparr>)"
  using assms by (rule issued_key_principal)

section \<open>Guards\<close>

lemma bearer_Some: "bearer header = Some t \<Longrightarrow> header = Some (''Bearer '' @ t)"
  by (auto simp: bearer_def starts_with_iff split: option.splits if_splits)

lemma key_guard_Admitted:
  "key_guard scope message hmac pepper now db header = Admitted p \<Longrightarrow>
    \<exists>key. header = Some (''Bearer '' @ key) \<and> ebind (mk_key_hasher pepper) (\<lambda>q. principal_for_key hmac q now db key scope) = Inr p"
  by (auto simp: key_guard_def split: option.splits sum.splits auth_failure.splits dest!: bearer_Some)

lemma contract_guard_Admitted:
  "contract_guard verify hmac pepper now db header selected = Admitted (p, human) \<Longrightarrow>
    \<exists>token. header = Some (''Bearer '' @ token) \<and> human = (\<not> starts_with ''oos_live_'' token) \<and>
      (if human then human_principal verify db token selected
       else ebind (mk_key_hasher pepper) (\<lambda>q. principal_for_key hmac q now db token ''data:write'')) = Inr p"
  by (auto simp: contract_guard_def Let_def split: option.splits sum.splits auth_failure.splits if_splits dest!: bearer_Some)

definition is_person :: "(string \<Rightarrow> auth_failure + oidc_claims) option \<Rightarrow> core \<Rightarrow> string \<Rightarrow> principal \<Rightarrow> bool" where
  "is_person verify db token p \<longleftrightarrow> (\<exists>v claims i. verify = Some v \<and> v token = Inr claims \<and> i \<in> set (core_identities db) \<and>
     oi_issuer i = ic_issuer claims \<and> oi_subject i = ic_subject claims \<and> oi_user_id i = pr_user_id p)"

lemma find_SomeD: "find P xs = Some x \<Longrightarrow> x \<in> set xs \<and> P x"
  by (auto simp: find_Some_iff)

lemma human_principal_sound:
  assumes "core_keys db" "human_principal verify db token selected = Inr p"
  shows "is_administrator db p \<and> is_person verify db token p \<and> selected = Some (pr_tenant_id p)"
proof -
  obtain v tenant claims m where v: "verify = Some v" "selected = Some tenant" "v token = Inr claims"
    and p: "principal_for_claims db claims tenant = Inr p"
    and m: "find (\<lambda>m. mb_tenant_id m = pr_tenant_id p \<and> mb_id m = pr_membership_id p)
        (visible (Some tenant) mb_tenant_id (core_memberships db)) = Some m" "mb_role m \<in> {''owner'', ''administrator''}"
    using assms(2) by (auto simp: human_principal_def ebind_eq_Inr split: option.splits if_splits)
  obtain i n where i: "i \<in> set (core_identities db)" "oi_issuer i = ic_issuer claims" "oi_subject i = ic_subject claims"
    and n: "n \<in> set (core_memberships db)" "mb_user_id n = oi_user_id i" "mb_tenant_id n = tenant" "mb_status n = ''active''"
    and pn: "p = \<lparr>pr_user_id = oi_user_id i, pr_tenant_id = mb_tenant_id n, pr_membership_id = mb_id n\<rparr>"
    using p by (auto simp: principal_for_claims_def visible_def split: option.splits dest!: find_SomeD)
  have u: "unique_rows membership_clash (core_memberships db)" using assms(1) by (simp add: core_keys_def)
  have "m \<in> set (core_memberships db)" "mb_id m = mb_id n" using find_SomeD [OF m(1)] by (auto simp: visible_def pn)
  then have "m = n" by (intro unique_rowsD [OF u _ n(1)]) (simp_all add: membership_clash_def)
  then have "is_administrator db p" using n m(2) unfolding is_administrator_def by (intro bexI [of _ n]) (auto simp: pn)
  then show ?thesis using v i n(3) by (auto simp: is_person_def pn)
qed

text \<open>
  C5. Every management interface acts only for administrators.  Whatever the header, a caller one
  of the guards admits is an active owner or administrator of the tenant it acts for, established
  by a usable API key of that tenant with the scope the interface requires or, on the contract
  interface, by a verified token of a provisioned identity and the selected tenant.
\<close>

theorem guards_admit_administrators:
  assumes "core_reachable db"
  shows "(key_guard scope message hmac pepper now db header = Admitted p \<longrightarrow> is_administrator db p \<and>
      (\<exists>key. header = Some (''Bearer '' @ key) \<and> holds_key hmac pepper now db scope key p)) \<and>
    (contract_guard verify hmac pepper now db header selected = Admitted (q, human) \<longrightarrow> is_administrator db q \<and>
      (\<exists>token. header = Some (''Bearer '' @ token) \<and>
        (if human then is_person verify db token q \<and> selected = Some (pr_tenant_id q)
         else holds_key hmac pepper now db ''data:write'' token q)))"
proof (intro conjI impI)
  assume "key_guard scope message hmac pepper now db header = Admitted p"
  from key_guard_Admitted [OF this] key_principal_sound
  show "is_administrator db p" "\<exists>key. header = Some (''Bearer '' @ key) \<and> holds_key hmac pepper now db scope key p" by blast+
next
  assume "contract_guard verify hmac pepper now db header selected = Admitted (q, human)"
  from contract_guard_Admitted [OF this] obtain token where t: "header = Some (''Bearer '' @ token)"
    "(if human then human_principal verify db token selected
      else ebind (mk_key_hasher pepper) (\<lambda>q. principal_for_key hmac q now db token ''data:write'')) = Inr q" by blast
  have keys: "core_keys db" using reachable_core_ok [OF assms] by blast
  have "is_administrator db q \<and> (if human then is_person verify db token q \<and> selected = Some (pr_tenant_id q)
      else holds_key hmac pepper now db ''data:write'' token q)"
    using human_principal_sound [OF keys] key_principal_sound t(2) by (auto split: if_splits)
  with t(1) show "is_administrator db q" "\<exists>token. header = Some (''Bearer '' @ token) \<and>
      (if human then is_person verify db token q \<and> selected = Some (pr_tenant_id q)
       else holds_key hmac pepper now db ''data:write'' token q)" by blast+
qed

section \<open>Key sets\<close>

definition agree :: "(string \<Rightarrow> auth_failure + parsed_url) \<Rightarrow> string \<Rightarrow> (string \<Rightarrow> 'r) \<Rightarrow> (string \<Rightarrow> 'r) \<Rightarrow> bool" where
  "agree parse issuer fetch fetch' \<longleftrightarrow> (\<forall>url u i host. parse issuer = Inr i \<and> pu_host i = Some host \<and> parse url = Inr u \<and>
     issuer_url host u \<longrightarrow> fetch url = fetch' url)"

lemma read_oidc_agree:
  assumes "agree parse issuer fetch fetch'" "parse issuer = Inr i" "truthy (pu_host i)"
  shows "read_oidc_json parse fetch url (the (pu_host i)) = read_oidc_json parse fetch' url (the (pu_host i))"
proof (cases "parse url")
  case (Inr u)
  then show ?thesis using assms by (auto simp: read_oidc_json_def check_def agree_def truthy_def)
qed (simp add: read_oidc_json_def)

text \<open>
  Signing keys come from the issuer alone.  Loading the key set does not depend on what any
  URL gives that is not an HTTPS URL of the issuer's own host, without credentials: networks that
  agree on those give the same result.
\<close>

theorem jwks_from_issuer_only:
  assumes "\<And>url u i host. parse issuer = Inr i \<Longrightarrow> pu_host i = Some host \<Longrightarrow> parse url = Inr u \<Longrightarrow>
    pu_scheme u = ''https'' \<and> pu_host u = Some host \<and> \<not> truthy (pu_user u) \<Longrightarrow> fetch url = fetch' url"
  shows "load_oidc_jwks parse fetch issuer jwks_url discovery_url = load_oidc_jwks parse fetch' issuer jwks_url discovery_url"
proof (cases "parse issuer")
  case (Inr i)
  have a: "agree parse issuer fetch fetch'" using assms by (auto simp: agree_def issuer_url_def)
  show ?thesis
  proof (cases "truthy (pu_host i)")
    case True
    then show ?thesis
      by (cases jwks_url) (simp_all add: load_oidc_jwks_def Inr Let_def read_oidc_agree [OF a Inr True])
  qed (simp add: load_oidc_jwks_def Inr check_def)
qed (simp add: load_oidc_jwks_def)

section \<open>A concrete tenant\<close>

definition sample_hmac :: "string \<Rightarrow> string \<Rightarrow> string" where
  "sample_hmac pepper m = hex_pad 64 (length m)"

definition sample_pepper :: string where
  "sample_pepper = ''0123456789abcdef''"

definition sample_key :: generated_key where
  "sample_key = generate_key sample_hmac (utf8 sample_pepper) ''0123456789ab'' ''once'' 1"

definition sample_key_row :: api_key_row where
  "sample_key_row = \<lparr>ak_id = 5, ak_created_at = 0, ak_tenant_id = 1, ak_name = ''import'', ak_prefix = gk_prefix sample_key,
     ak_key_digest = gk_digest sample_key, ak_scopes = [''imports:write''], ak_expires_at = Some 100, ak_revoked_at = None,
     ak_last_used_at = None\<rparr>"

definition sample_user :: user_row where
  "sample_user = \<lparr>us_id = 2, us_created_at = 0, us_email = ''ada@shop''\<rparr>"

definition sample_membership :: membership_row where
  "sample_membership = \<lparr>mb_id = 3, mb_created_at = 0, mb_tenant_id = 1, mb_user_id = 2, mb_role = ''owner'', mb_status = ''active''\<rparr>"

definition sample_access :: core where
  "sample_access = sample_core\<lparr>core_users := [sample_user], core_memberships := [sample_membership],
     core_api_keys := [sample_key_row]\<rparr>"

lemma sample_key_fields: "gk_prefix sample_key = ''oos_live_0123456789ab''" "length (gk_digest sample_key) = 64"
  by (simp_all add: sample_key_def generate_key_def Let_def key_digest_def sample_hmac_def)

lemma sample_access_reachable: "core_reachable sample_access"
proof -
  let ?R = "\<lambda>a b. \<exists>p. core_step p a b"
  have 1: "?R empty_core sample_core"
    by (rule exI [of _ sample_principal], rule core_step.new_tenant [where t = sample_tenant])
      (simp add: insert_tenant_def stored_def sample_tenant_def sample_core_def empty_core_def fits_def require_def
        int4_def capitals_def is_upper_def code_def tenant_clash_def insert_row_def)
  have 2: "?R sample_core (sample_core\<lparr>core_users := [sample_user]\<rparr>)"
    by (rule exI [of _ sample_principal], rule core_step.new_user [where u = sample_user])
      (simp add: insert_user_def stored_def fits_def require_def insert_row_def sample_user_def sample_core_def empty_core_def)
  have 3: "?R (sample_core\<lparr>core_users := [sample_user]\<rparr>)
      (sample_core\<lparr>core_users := [sample_user], core_memberships := [sample_membership]\<rparr>)"
    by (rule exI [of _ sample_principal], rule core_step.add_membership [where r = sample_membership])
      (simp add: repository_add_def tenant_scope_def scope_tenant_def sample_principal_def check_def with_check_def require_def
        insert_membership_def stored_def fits_def insert_row_def membership_refs_def sample_membership_def
        sample_core_def sample_tenant_def sample_user_def empty_core_def core_roles_def)
  have 4: "?R (sample_core\<lparr>core_users := [sample_user], core_memberships := [sample_membership]\<rparr>) sample_access"
    by (rule exI [of _ sample_principal], rule core_step.add_api_key [where r = sample_key_row])
      (simp add: repository_add_def tenant_scope_def scope_tenant_def sample_principal_def check_def with_check_def require_def
        insert_api_key_def stored_def fits_def insert_row_def api_key_refs_def sample_key_row_def sample_access_def
        sample_core_def sample_tenant_def empty_core_def sample_key_fields)
  show ?thesis unfolding core_reachable_def
    by (rule rtranclp.rtrancl_into_rtrancl, rule rtranclp.rtrancl_into_rtrancl, rule rtranclp.rtrancl_into_rtrancl,
      rule rtranclp.rtrancl_into_rtrancl, rule rtranclp.rtrancl_refl) (rule 1 2 3 4)+
qed

lemma hex_ascii: "list_all (\<lambda>c. code c < 128) (sample_hmac p m)"
proof -
  have "code c < 128" if "is_hex c" for c using that by (auto simp: is_hex_def code_def)
  then show ?thesis using hex_pad_is_hex [of 64 "length m"] by (simp add: sample_hmac_def list_all_iff)
qed

lemma sample_key_hypotheses:
  "sample_key_row \<in> set (core_api_keys sample_access)" "valid_uuid (ak_tenant_id sample_key_row)"
  "CHR ''_'' \<notin> set ''0123456789ab''"
  "sample_key = generate_key sample_hmac (utf8 sample_pepper) ''0123456789ab'' ''once'' (ak_tenant_id sample_key_row)"
  "ak_prefix sample_key_row = gk_prefix sample_key" "ak_key_digest sample_key_row = gk_digest sample_key"
  by (simp_all add: sample_access_def sample_key_row_def sample_key_def valid_uuid_def)

lemma sample_key_usable:
  "key_usable 50 ''imports:write'' sample_key_row" "administrator_of (ak_tenant_id sample_key_row) sample_access = Some sample_membership"
  by (simp_all add: key_usable_def sample_key_row_def administrator_of_def visible_def sample_access_def sample_membership_def)

lemma sample_row_fields: "ak_tenant_id sample_key_row = 1" "mb_user_id sample_membership = 2" "mb_id sample_membership = 3"
  by (simp_all add: sample_key_row_def sample_membership_def)

lemmas sample_lookups = sample_key_usable [unfolded sample_row_fields] sample_row_fields sample_principal_def

theorem issued_key_admitted_witness:
  "principal_for_key sample_hmac (utf8 sample_pepper) 50 sample_access (gk_plaintext sample_key) ''imports:write'' =
     Inr sample_principal"
  using issued_key_admitted [OF sample_access_reachable sample_key_hypotheses hex_ascii, of 50 "''imports:write''"]
  by (simp only: sample_lookups option.case if_False simp_thms)

theorem guards_admit_administrators_witness:
  "is_administrator sample_access sample_principal"
proof -
  have "principal_for_key sample_hmac (utf8 sample_pepper) 50 sample_access (gk_plaintext sample_key) ''imports:write'' =
      Inr sample_principal"
    using issued_key_principal [OF sample_access_reachable sample_key_hypotheses hex_ascii, of 50 "''imports:write''"]
    by (simp only: sample_lookups option.case if_False simp_thms)
  moreover have "mk_key_hasher sample_pepper = Inr (utf8 sample_pepper)"
    by (simp add: mk_key_hasher_def sample_pepper_def)
  ultimately have "key_guard ''imports:write'' ''no'' sample_hmac sample_pepper 50 sample_access
      (Some (''Bearer '' @ gk_plaintext sample_key)) = Admitted sample_principal"
    by (simp add: key_guard_def bearer_def starts_with_def)
  then show ?thesis using guards_admit_administrators [OF sample_access_reachable] by blast
qed

theorem jwks_from_issuer_only_witness:
  "load_oidc_jwks (\<lambda>u. Inr \<lparr>pu_scheme = ''https'', pu_host = Some u, pu_user = None\<rparr>)
     (\<lambda>u. if u = ''id.example'' then Inr \<lparr>hr_status = 200, hr_length = None, hr_value = Inr (PDict [])\<rparr> else Inl (Fault ''OSError''))
     ''id.example'' (Some ''evil.example'') None =
   load_oidc_jwks (\<lambda>u. Inr \<lparr>pu_scheme = ''https'', pu_host = Some u, pu_user = None\<rparr>)
     (\<lambda>u. Inr \<lparr>hr_status = 200, hr_length = None, hr_value = Inr (PDict [])\<rparr>) ''id.example'' (Some ''evil.example'') None"
  by (rule jwks_from_issuer_only) auto

end
