(* ===== verification/SettingsFacts.thy ===== *)
theory SettingsFacts
  imports Settings PipelineFacts JobRunnerFacts
begin

text \<open>
  What accepted settings guarantee: a deployed application never runs a demo feature, the worker
  and the routers are built within the limits their operations assume, and the worker's own
  handlers never touch what the queue relies on, so that its retries are bounded.  Last, what the
  worker's health answers under the policy of its table.
\<close>

section \<open>Accepted settings\<close>

lemma accepted_settings:
  assumes "validate_settings s = Inr s'"
  shows "s' = s" "\<not> limits_invalid s" "deployed s \<Longrightarrow> \<not> demo_features s" "deployed s \<Longrightarrow> oidc_configured s"
    "deployed s \<Longrightarrow> \<not> credentials_unmanaged s"
  using assms by (auto simp: validate_settings_def check_def ebind_eq_Inr split: if_splits)

lemma raised_Inr [simp]: "raised m = Inr x \<longleftrightarrow> m = Inr x"
  by (cases m) (simp_all add: raised_def)

lemma raised_simps [simp]: "raised (Inr x) = Inr x" "raised (Inl (ValueError m)) = Inl (Rejected m)"
  by (simp_all add: raised_def)

lemma mk_verifier_audience: "mk_verifier J issuer audience jwks = Inr v \<Longrightarrow> jv_audience v = audience"
  by (auto simp: mk_verifier_def ebind_eq_Inr split: option.splits pyval.splits list.splits)

lemma contract_verifier_present:
  assumes "contract_verifier J parse fetch issuer audience jwks_url discovery_url = Inr verifier" "truthy issuer" "truthy audience"
  obtains v where "verifier = Some v" "jv_audience v = the audience"
proof -
  from assms obtain jwks v where "mk_verifier J (the issuer) (the audience) jwks = Inr v" "verifier = Some v"
    unfolding contract_verifier_def by (simp only: simp_thms if_True ebind_eq_Inr) (elim exE conjE, simp)
  with mk_verifier_audience that show thesis by blast
qed

lemma keyring_entry_wide:
  "keyring_entry entry keys = Inr keys' \<Longrightarrow> list_all (\<lambda>(i, key). length key = 32) keys \<Longrightarrow>
    list_all (\<lambda>(i, key). length key = 32) keys'"
  by (auto simp: keyring_entry_def ebind_eq_Inr check_def split: list.splits if_splits)

lemma keyring_entries_wide:
  "keyring_entries es keys = Inr keys' \<Longrightarrow> list_all (\<lambda>(i, key). length key = 32) keys \<Longrightarrow>
    list_all (\<lambda>(i, key). length key = 32) keys'"
  by (induction es arbitrary: keys) (auto simp: ebind_eq_Inr dest: keyring_entry_wide)

lemma parsed_keyring_makes_cipher:
  assumes "parsed_integration_keyring s = Inr keys"
  shows "mk_secret_cipher keys (the (st_integration_active_key_id s)) =
      Inr \<lparr>ci_keys = keys, ci_active_key_id = the (st_integration_active_key_id s)\<rparr>"
    "map_of keys (the (st_integration_active_key_id s)) \<noteq> None" "list_all (\<lambda>(i, key). length key = 32) keys"
proof -
  obtain k where k: "map_error (\<lambda>_. ValueError ''invalid integration keyring'')
       (keyring_entries (split_all CHR '','' (the (st_integration_keyring s))) []) = Inr k"
    "keys = k" "map_of keys (the (st_integration_active_key_id s)) \<noteq> None"
    using assms by (auto simp: parsed_integration_keyring_def ebind_eq_Inr check_def split: if_splits)
  then have "keyring_entries (split_all CHR '','' (the (st_integration_keyring s))) [] = Inr keys"
    by (cases "keyring_entries (split_all CHR '','' (the (st_integration_keyring s))) []") simp_all
  from keyring_entries_wide [OF this] show w: "list_all (\<lambda>(i, key). length key = 32) keys" by simp
  show "map_of keys (the (st_integration_active_key_id s)) \<noteq> None" by (rule k(3))
  with w show "mk_secret_cipher keys (the (st_integration_active_key_id s)) =
      Inr \<lparr>ci_keys = keys, ci_active_key_id = the (st_integration_active_key_id s)\<rparr>"
    by (simp add: mk_secret_cipher_def check_def)
qed

text \<open>The text of a key ring, as an operator writes it.\<close>

definition keyring_text :: "(string \<times> string) list \<Rightarrow> string" where
  "keyring_text keys = join '','' (map (\<lambda>(i, key). i @ '':'' @ b64encode key) keys)"

lemma b64encode_no_comma: "CHR '','' \<notin> set (b64encode bs)"
proof -
  have c: "code CHR '','' = 44" "code CHR ''+'' = 43" "code CHR ''/'' = 47" by (simp_all add: code_def)
  have "b64_char v \<noteq> CHR '',''" for v unfolding code_inject [symmetric] c by (auto simp: b64_char_def code_char_of c)
  then have "CHR '','' \<notin> b64_char ` A" for A by (metis imageE)
  then show ?thesis by (simp add: b64encode_def)
qed

lemma keyring_entry_written:
  assumes "i \<noteq> []" "CHR '':'' \<notin> set i" "map_of keys i = None" "length key = 32"
  shows "keyring_entry (i @ '':'' @ b64encode key) keys = Inr (keys @ [(i, key)])"
  using assms split_max_part [of "CHR '':''" i 0] by (simp add: keyring_entry_def b64decode_encode check_def)

lemma keyring_entries_written:
  assumes "\<forall>(i, key) \<in> set ks. i \<noteq> [] \<and> CHR '':'' \<notin> set i \<and> length key = 32" "distinct (map fst (keys @ ks))"
  shows "keyring_entries (map (\<lambda>(i, key). i @ '':'' @ b64encode key) ks) keys = Inr (keys @ ks)"
  using assms
proof (induction ks arbitrary: keys)
  case (Cons k ks)
  obtain i key where k: "k = (i, key)" by (cases k)
  have "map_of keys i = None" using Cons.prems(2) by (auto simp: k map_of_eq_None_iff)
  then have "keyring_entry (i @ '':'' @ b64encode key) keys = Inr (keys @ [(i, key)])"
    using keyring_entry_written Cons.prems(1) by (simp add: k)
  then show ?case using Cons.IH [of "keys @ [k]"] Cons.prems by (simp add: k)
qed simp

lemma split_all_join:
  "xs \<noteq> [] \<Longrightarrow> \<forall>x \<in> set xs. c \<notin> set x \<Longrightarrow> split_all c (join [c] xs) = xs"
proof (induction xs rule: induct_list012)
  case (3 x y zs)
  then show ?case by (simp add: split_all_append split_all_plain)
qed (simp_all add: split_all_plain)

lemma keyring_text_parses:
  assumes "\<forall>(i, key) \<in> set keys. i \<noteq> [] \<and> CHR '':'' \<notin> set i \<and> CHR '','' \<notin> set i \<and> length key = 32"
    and "distinct (map fst keys)" "active \<in> fst ` set keys" "active \<noteq> []"
    and "st_integration_keyring s = Some (keyring_text keys)" "st_integration_active_key_id s = Some active"
  shows "parsed_integration_keyring s = Inr keys"
proof -
  let ?f = "\<lambda>(i, key). i @ '':'' @ b64encode key"
  have ne: "keys \<noteq> []" using assms(3) by auto
  have split: "split_all CHR '','' (keyring_text keys) = map ?f keys"
    unfolding keyring_text_def using assms(1) ne b64encode_no_comma
    by (intro split_all_join) auto
  have "keyring_text keys \<noteq> []"
    using ne assms(1) by (auto simp: keyring_text_def neq_Nil_conv) (case_tac ys, auto)
  then have "truthy (st_integration_keyring s)" "truthy (st_integration_active_key_id s)"
    using assms(4-6) by (simp_all add: truthy_def)
  moreover have "keyring_entries (split_all CHR '','' (the (st_integration_keyring s))) [] = Inr keys"
    using keyring_entries_written [of keys "[]"] assms(1,2,5) by (auto simp: split)
  moreover have "map_of keys active \<noteq> None" using assms(3) by (simp add: map_of_eq_None_iff)
  ultimately show ?thesis using assms(6) by (simp add: parsed_integration_keyring_def check_def)
qed

lemma accepted_limits:
  assumes "\<not> limits_invalid s"
  shows "1 \<le> st_worker_lease_seconds s" "1 \<le> st_worker_batch_size s" "1 \<le> st_worker_max_attempts s"
    "1 \<le> st_worker_backoff_base_seconds s" "st_worker_backoff_base_seconds s \<le> st_worker_backoff_max_seconds s"
    "1 \<le> st_csv_max_bytes s" "1 \<le> st_csv_max_rows s" "1 \<le> st_csv_max_columns s" "1 \<le> st_csv_max_field_length s"
    "1 \<le> st_s3_max_object_bytes s" "st_ingestion_job_kind s \<noteq> []" "1 \<le> st_worker_health_freshness_seconds s"
    "1 \<le> st_integration_secret_lifetime_seconds s" "0 \<le> st_integration_secret_overlap_seconds s"
    "st_integration_secret_overlap_seconds s < st_integration_secret_lifetime_seconds s"
proof -
  let ?S = "{st_worker_lease_seconds s, st_worker_batch_size s, st_worker_max_attempts s,
       st_worker_backoff_base_seconds s, st_worker_backoff_max_seconds s, st_worker_health_freshness_seconds s,
       st_csv_max_bytes s, st_csv_max_rows s, st_csv_max_columns s, st_csv_max_field_length s}"
  have "\<not> Min ?S < 1" using assms unfolding limits_invalid_def by blast
  moreover have "Min ?S \<le> x" if "x \<in> ?S" for x by (rule Min_le [OF _ that]) simp
  ultimately have "1 \<le> x" if "x \<in> ?S" for x using that by (meson le_less_linear less_le_trans not_le order_trans)
  then show "1 \<le> st_worker_lease_seconds s" "1 \<le> st_worker_batch_size s" "1 \<le> st_worker_max_attempts s"
    "1 \<le> st_worker_backoff_base_seconds s" "1 \<le> st_csv_max_bytes s" "1 \<le> st_csv_max_rows s"
    "1 \<le> st_csv_max_columns s" "1 \<le> st_csv_max_field_length s" "1 \<le> st_worker_health_freshness_seconds s"
    by blast+
  show "st_worker_backoff_base_seconds s \<le> st_worker_backoff_max_seconds s" "1 \<le> st_s3_max_object_bytes s"
    "st_ingestion_job_kind s \<noteq> []" "1 \<le> st_integration_secret_lifetime_seconds s"
    "0 \<le> st_integration_secret_overlap_seconds s"
    "st_integration_secret_overlap_seconds s < st_integration_secret_lifetime_seconds s"
    using assms unfolding limits_invalid_def by linarith+
qed

section \<open>The worker\<close>

lemma runner_of_Inr:
  assumes "runner_of P H s = Inr R"
  obtains storage where "s3_of P (he_sha H) s = Inr storage"
    "R = (bare_runner s)\<lparr>handlers := [(st_ingestion_job_kind s, canonical_event_handler (he_sha H)),
       (''ingest.csv.v1'', csv_import_handler (H\<lparr>he_storage := storage, he_limits := csv_limits_of s\<rparr>)),
       (''reconcile.tenant.v1'', reconciliation_handler (H\<lparr>he_storage := storage, he_limits := csv_limits_of s\<rparr>))]\<rparr>"
  using assms by (auto simp: runner_of_def build_runner_def register_def bare_runner_def ebind_eq_Inr split: if_splits)

text \<open>What a handler adds to the queue, as an invariant of its transactions.\<close>

definition adds :: "pipeline \<Rightarrow> pipeline \<Rightarrow> bool" where
  "adds db0 db \<longleftrightarrow> attempts db = attempts db0 \<and> queue_inv db \<and>
     (\<exists>new. jobs db = jobs db0 @ new \<and> (\<forall>r \<in> set new. jb_state r = JobPending \<and> jb_attempt_count r = 0))"

lemma core_only_adds: "core_only (adds db0)"
  by (auto simp: core_only_def adds_def PipelineFacts.core_def)

lemma adds_refl: "queue_inv db \<Longrightarrow> adds db db"
  by (simp add: adds_def)

lemma event_once_keeps: "insert_event_once e db = Inr db' \<Longrightarrow> jobs db' = jobs db \<and> attempts db' = attempts db"
  by (auto simp: insert_event_once_def insert_event_def ebind_eq_Inr split: if_splits)

lemma job_once_adds:
  assumes "insert_job_once (new_job i t e kind now) db = Inr db'" "adds db0 db"
  shows "adds db0 db'"
proof (cases "db' = db")
  case False
  then have job: "insert_job (new_job i t e kind now) db = Inr db'"
    using assms(1) by (auto simp: insert_job_once_def ebind_eq_Inr split: if_splits)
  have "queue_inv db'" by (rule queue_append [where db = db, OF _ job]) (use assms(2) in \<open>auto simp: adds_def\<close>)
  then show ?thesis using insert_job_known [OF job] assms(2) by (auto simp: adds_def)
qed (use assms in simp)

lemma import_line_adds: "preserves (adds db0) (import_line H j i head n line)"
proof (cases "csv_event H j i head n line")
  case (Inl e)
  have "preserves (adds db0) (stmt (insert_import_error d))" "preserves (adds db0) (stmt (update_imports p f))" for d p f
    unfolding stmt_def by (intro core_only_change [OF core_only_adds]; erule core_frame)+
  then show ?thesis using Inl by (cases e) (auto simp: import_line_def intro!: preserves_andthen)
next
  case (Inr x)
  obtain event_id incoming data where x: "x = (event_id, incoming, data)" by (cases x)
  show ?thesis
  proof (rule preservesI)
    fix db a db'
    assume s: "adds db0 db" and w: "import_line H j i head n line db = Inr (a, db')"
    obtain e db1 where "insert_event_once e db = Inr db1"
      "insert_job_once (new_job (he_uuid5 H (row_name ''outcomeos:csv-job:'' i n)) (jo_tenant_id j) event_id
         ''ingest.canonical_event.v1'' (instant_of H j)) db1 = Inr db'"
      using w Inr x by (auto simp: import_line_def Let_def tx_simps stmt_def)
    moreover from this(1) s have "adds db0 db1" using event_once_keeps by (auto simp: adds_def)
    ultimately show "adds db0 db'" using job_once_adds by blast
  qed
qed

lemma import_lines_adds: "preserves (adds db0) (import_lines H j i head n ls)"
proof (induction ls arbitrary: n)
  case (Cons l ls)
  then show ?case by (auto intro!: preserves_bind import_line_adds)
qed simp

lemma csv_handler_adds: "csv_import_handler H j w = (r, w') \<Longrightarrow> adds db0 (fst w) \<Longrightarrow> adds db0 (fst w')"
proof -
  have u: "preserves (adds db0) (stmt (update_imports p f))" for p f
    unfolding stmt_def by (intro core_only_change [OF core_only_adds] core_frame(4))
  have "preserves (adds db0) (run_import H j i r o1)" for i r o1
    unfolding run_import_def Let_def
    by (intro preserves_andthen preserves_bind u) (auto split: list.split intro!: preserves_bind import_lines_adds u)
  then show "csv_import_handler H j w = (r, w') \<Longrightarrow> adds db0 (fst w) \<Longrightarrow> adds db0 (fst w')"
    unfolding csv_import_handler_def Let_def by (erule_tac in_session_keeps) (auto intro!: preserves_bind)
qed

lemma adds_enqueues: "adds (fst w) (fst w') \<Longrightarrow> enqueues w w'"
  by (auto simp: adds_def enqueues_def)

lemma real_handlers_enqueue:
  assumes "queue_inv (fst w)"
  shows "enqueues w (snd (canonical_event_handler sha j w))" "enqueues w (snd (csv_import_handler H j w))"
    "enqueues w (snd (reconciliation_handler H j w))"
  using core_only_requests(4,5) [OF core_only_adds] csv_handler_adds adds_refl [OF assms]
  by (metis adds_enqueues prod.collapse)+


text \<open>
  C28. Accepted settings fit what is built from them.  They come back unchanged; the worker they
  configure has positive limits, a base delay up to its maximal delay and exactly the three
  handlers, and it is built unless the kind of the ingestion jobs is one of the other two; no
  rotation window is refused, the CSV limits are positive, and a key ring that parses makes a
  cipher.
\<close>

theorem accepted_settings_fit:
  assumes "validate_settings s = Inr s'"
  shows "s' = s \<and>
    (\<forall>R. runner_of P H s = Inr R \<longrightarrow> valid_runner R \<and>
       map fst (handlers R) = [st_ingestion_job_kind s, ''ingest.csv.v1'', ''reconcile.tenant.v1'']) \<and>
    (pf_engine P (st_database_url s) = Inr () \<and> s3_of P (he_sha H) s = Inr storage \<longrightarrow>
       (\<exists>R. runner_of P H s = Inr R) = (st_ingestion_job_kind s \<notin> {''ingest.csv.v1'', ''reconcile.tenant.v1''})) \<and>
    rotation_windows now (is_lifetime_seconds (integration_settings_of s)) (is_overlap_seconds (integration_settings_of s)) \<noteq>
      Inl (ValueError ''invalid rotation window'') \<and>
    0 < cl_bytes (csv_limits_of s) \<and> 0 < cl_rows (csv_limits_of s) \<and> 0 < cl_columns (csv_limits_of s) \<and>
    0 < cl_field_length (csv_limits_of s) \<and>
    (\<forall>keys. parsed_integration_keyring s = Inr keys \<longrightarrow>
       (\<exists>c. mk_secret_cipher keys (the (st_integration_active_key_id s)) = Inr c))"
proof -
  note accepted = accepted_settings [OF assms]
  note limits = accepted_limits [OF accepted(2)]
  have runner: "valid_runner R \<and> map fst (handlers R) = [st_ingestion_job_kind s, ''ingest.csv.v1'', ''reconcile.tenant.v1'']"
    if "runner_of P H s = Inr R" for R
    by (rule runner_of_Inr [OF that]) (use limits(1-5) in \<open>simp add: valid_runner_def bare_runner_def\<close>)
  have built: "(\<exists>R. runner_of P H s = Inr R) = (st_ingestion_job_kind s \<notin> {''ingest.csv.v1'', ''reconcile.tenant.v1''})"
    if "pf_engine P (st_database_url s) = Inr ()" "s3_of P (he_sha H) s = Inr storage"
    using that limits(11) by (auto simp: runner_of_def build_runner_def register_def bare_runner_def)
  have rotation: "rotation_windows now (is_lifetime_seconds (integration_settings_of s)) (is_overlap_seconds (integration_settings_of s)) \<noteq>
      Inl (ValueError ''invalid rotation window'')"
    using limits(13-15) by (auto simp: rotation_windows_def integration_settings_of_def check_def later_by_def split: option.split)
  show ?thesis
    using accepted(1) runner built rotation limits parsed_keyring_makes_cipher(1) by (auto simp: csv_limits_of_def)
qed


section \<open>Worker health\<close>

text \<open>
  C31. Worker health is blind.  Under a role that row-level security binds, the endpoint answers
  503 and that no heartbeat is there, whatever workers have reported; it answers 200 only for a
  role that bypasses the policy, when the latest heartbeat of all is healthy and fresh.
\<close>

theorem worker_health_blind:
  assumes "st_persistence_backend s = Postgresql"
  shows "worker_health False s now (Inr db) = Inr (503, [(''status'', ''missing''), (''worker'', ''unavailable'')]) \<and>
    (worker_health bypass s now probe = Inr (200, body) \<longrightarrow> bypass \<and>
      (\<exists>db' h. probe = Inr db' \<and> h \<in> set (heartbeats db') \<and> hb_status h = ''healthy'' \<and>
        now - st_worker_health_freshness_seconds s * micros \<le> hb_observed_at h \<and>
        (\<forall>x \<in> set (heartbeats db'). hb_observed_at x \<le> hb_observed_at h)))"
proof -
  have latest: "h \<in> set rows \<and> (\<forall>x \<in> set rows. hb_observed_at x \<le> hb_observed_at h)"
    if "latest_heartbeat rows = Some h" for rows h
  proof -
    from that obtain hs where "rev (sort_key hb_observed_at rows) = h # hs"
      by (cases "rev (sort_key hb_observed_at rows)") (auto simp: latest_heartbeat_def)
    then have s: "sort_key hb_observed_at rows = rev hs @ [h]" by (simp add: rev_swap)
    have "sorted (map hb_observed_at (rev hs @ [h]))" unfolding s [symmetric] by simp
    moreover have "set rows = set (rev hs @ [h])" unfolding s [symmetric] by simp
    ultimately show ?thesis by (auto simp: sorted_append)
  qed
  have blind: "seen_heartbeats False None db = []" for db by (simp add: seen_heartbeats_def visible_def)
  have "worker_health False s now (Inr db) = Inr (503, [(''status'', ''missing''), (''worker'', ''unavailable'')])" for db
    using assms by (simp add: worker_health_def blind latest_heartbeat_def)
  moreover have "bypass \<and> (\<exists>db' h. probe = Inr db' \<and> h \<in> set (heartbeats db') \<and> hb_status h = ''healthy'' \<and>
        now - st_worker_health_freshness_seconds s * micros \<le> hb_observed_at h \<and>
        (\<forall>x \<in> set (heartbeats db'). hb_observed_at x \<le> hb_observed_at h))"
    if ok: "worker_health bypass s now probe = Inr (200, body)"
  proof (cases probe)
    case (Inr db')
    have b: "bypass" using ok calculation [of db'] by (cases bypass) (auto simp: Inr)
    then have all: "seen_heartbeats bypass None db' = heartbeats db'" by (simp add: seen_heartbeats_def)
    obtain h where h: "latest_heartbeat (heartbeats db') = Some h" "fresh_heartbeat s now h = Inr True" "hb_status h = ''healthy''"
      using ok assms by (auto simp: worker_health_def Inr all ebind_eq_Inr Let_def split: option.splits if_splits)
    from h(2) have "now - st_worker_health_freshness_seconds s * micros \<le> hb_observed_at h"
      by (auto simp: fresh_heartbeat_def Let_def split: if_splits)
    with b h(3) latest [OF h(1)] Inr show ?thesis by blast
  qed (use ok assms in \<open>simp add: worker_health_def\<close>)
  ultimately show ?thesis by blast
qed

section \<open>Concrete settings\<close>

definition sample_client :: "unit s3_client" where
  "sample_client = \<lparr>s3_put = (\<lambda>b k x d s. (Inr (), s)), s3_get = (\<lambda>b k s. Inl OtherStorageError),
     s3_head = (\<lambda>b k s. Inl OtherStorageError), s3_delete = (\<lambda>b k s. (Inr (), s)),
     s3_list = (\<lambda>b p n c s. Inr \<lparr>sl_keys = [], sl_next = None\<rparr>)\<rparr>"

definition sample_platform :: "(unit, unit) platform" where
  "sample_platform = \<lparr>pf_engine = (\<lambda>u. Inr ()), pf_client = (\<lambda>e a k. Inr sample_client),
     pf_jwt = \<lparr>jl_header = (\<lambda>t. None), jl_decode = (\<lambda>t k a d i. None), jl_key = (\<lambda>d. Inr ()), jl_str = (\<lambda>v. ''k''),
       jl_truncated = (\<lambda>r. 0)\<rparr>,
     pf_parse = (\<lambda>u. Inr \<lparr>pu_scheme = ''https'', pu_host = Some ''id.example'', pu_user = None\<rparr>),
     pf_fetch = (\<lambda>u. Inr \<lparr>hr_status = 200, hr_length = None,
       hr_value = Inr (PDict [(''keys'', PList [PDict [(''kid'', PStr ''k'')]])])\<rparr>)\<rparr>"

definition sample_keyring :: string where
  "sample_keyring = keyring_text [(''k1'', replicate 32 CHR ''k'')]"

definition sample_deployment :: settings where
  "sample_deployment = default_settings\<lparr>st_app_env := Production, st_ai_provider := ''openai'',
     st_webhook_sandbox_secret := ''w'', st_session_secret := ''s'', st_api_key_pepper := ''0123456789abcdef'',
     st_oidc_issuer := Some ''https://id.example/'', st_oidc_audience := Some ''api'',
     st_oidc_jwks_url := Some ''https://id.example/keys'', st_integration_keyring := Some sample_keyring,
     st_integration_active_key_id := Some ''k1'', st_s3_access_key_id := ''key'', st_s3_secret_access_key := ''secret'',
     st_s3_endpoint_url := ''https://s3.example''\<rparr>"

lemma sample_deployment_checks:
  "\<not> demo_features sample_deployment" "oidc_configured sample_deployment" "\<not> limits_invalid sample_deployment"
  "\<not> credentials_unmanaged sample_deployment" "\<not> limits_invalid default_settings" "\<not> deployed default_settings"
  by code_simp+

lemma sample_deployment_accepted: "validate_settings sample_deployment = Inr sample_deployment"
  by (simp add: validate_settings_def sample_deployment_checks check_def)

lemma default_settings_accepted: "validate_settings default_settings = Inr default_settings"
  by (simp add: validate_settings_def sample_deployment_checks check_def)

lemma sample_keyring_parsed: "parsed_integration_keyring sample_deployment = Inr [(''k1'', replicate 32 CHR ''k'')]"
  by (rule keyring_text_parses) (simp_all add: sample_deployment_def sample_keyring_def)

lemma sample_s3: "\<exists>storage. s3_of sample_platform sha s = Inr storage" if "1 \<le> st_s3_max_object_bytes s"
  using that by (simp add: s3_of_def sample_platform_def mk_s3_config_def check_def)

lemma sample_app_built: "\<exists>A. create_app sample_platform sha sample_deployment = Inr (PipelineMounted A)"
proof -
  obtain storage where s: "s3_of sample_platform sha sample_deployment = Inr storage"
    using sample_s3 [of sample_deployment] by (auto simp: sample_deployment_def default_settings_def)
  have p: "st_persistence_backend sample_deployment = Postgresql" "truthy (st_integration_keyring sample_deployment)"
    "truthy (st_integration_active_key_id sample_deployment)" "truthy (st_oidc_issuer sample_deployment)"
    "truthy (st_oidc_audience sample_deployment)" "st_oidc_jwks_url sample_deployment = Some ''https://id.example/keys''"
    "pf_engine sample_platform u = Inr ()" for u
    by (simp_all add: sample_deployment_def default_settings_def truthy_def sample_keyring_def keyring_text_def sample_platform_def)
  have v: "\<exists>v. contract_verifier (pf_jwt sample_platform) (pf_parse sample_platform) (pf_fetch sample_platform)
      (st_oidc_issuer sample_deployment) (st_oidc_audience sample_deployment)
      (st_oidc_jwks_url sample_deployment) (st_oidc_discovery_url sample_deployment) = Inr v"
    unfolding contract_verifier_def p(6)
    by (simp add: p load_oidc_jwks_def read_oidc_json_def issuer_url_def sample_platform_def check_def truthy_def mk_verifier_def)
  with s p show ?thesis
    by (auto simp: create_app_def sample_keyring_parsed parsed_keyring_makes_cipher(1) [OF sample_keyring_parsed])
qed


theorem accepted_settings_fit_witness:
  "\<exists>R. runner_of sample_platform sample_handlers default_settings = Inr R \<and> valid_runner R \<and>
     map fst (handlers R) = [''ingest.canonical_event.v1'', ''ingest.csv.v1'', ''reconcile.tenant.v1'']"
proof -
  obtain storage where s: "s3_of sample_platform (he_sha sample_handlers) default_settings = Inr storage"
    using sample_s3 [of default_settings] by (auto simp: default_settings_def)
  have "pf_engine sample_platform (st_database_url default_settings) = Inr ()" by (simp add: sample_platform_def)
  moreover have "st_ingestion_job_kind default_settings = ''ingest.canonical_event.v1''" by (simp add: default_settings_def)
  ultimately show ?thesis
    using accepted_settings_fit [OF default_settings_accepted, of sample_platform sample_handlers storage 0] s by auto
qed

definition sample_beats :: pipeline where
  "sample_beats = empty_pipeline\<lparr>tenants := [1],
     heartbeats := [\<lparr>hb_tenant_id = 1, hb_worker_id = 9, hb_observed_at = 5, hb_status = ''healthy''\<rparr>]\<rparr>"

theorem worker_health_blind_witness:
  "worker_heartbeat 9 ''healthy'' 5 (empty_pipeline\<lparr>tenants := [1]\<rparr>) = Inr sample_beats \<and>
   worker_health False default_settings 6 (Inr sample_beats) =
     Inr (503, [(''status'', ''missing''), (''worker'', ''unavailable'')]) \<and>
   worker_health True default_settings 6 (Inr sample_beats) =
     Inr (200, [(''status'', ''healthy''), (''worker'', ''available'')])"
proof -
  have "st_persistence_backend default_settings = Postgresql" by (simp add: default_settings_def)
  moreover have "worker_heartbeat 9 ''healthy'' 5 (empty_pipeline\<lparr>tenants := [1]\<rparr>) = Inr sample_beats" by code_simp
  moreover have "worker_health True default_settings 6 (Inr sample_beats) =
     Inr (200, [(''status'', ''healthy''), (''worker'', ''available'')])" by code_simp
  ultimately show ?thesis using worker_health_blind by blast
qed

definition sample_worker :: "unit world runner" where
  "sample_worker = (bare_runner default_settings)\<lparr>handlers :=
     (let storage = s3_storage (he_sha sample_handlers) sample_client
          \<lparr>s3_bucket = ''outcomeos-evidence'', s3_max_bytes = 10000000\<rparr>;
          H = sample_handlers\<lparr>he_storage := storage, he_limits := csv_limits_of default_settings\<rparr>
      in [(''ingest.canonical_event.v1'', canonical_event_handler (he_sha sample_handlers)),
        (''ingest.csv.v1'', csv_import_handler H), (''reconcile.tenant.v1'', reconciliation_handler H)])\<rparr>"

lemma sample_worker_built: "runner_of sample_platform sample_handlers default_settings = Inr sample_worker"
  by (simp add: runner_of_def s3_of_def sample_platform_def mk_s3_config_def check_def build_runner_def register_def
      bare_runner_def default_settings_def sample_worker_def Let_def)

text \<open>A round depends on the handlers of the kinds it claims only.\<close>

lemma disposition_handlers: "disposition (R\<lparr>handlers := hs\<rparr>) j res = disposition R j res"
proof (cases res)
  case (Inl e)
  then show ?thesis by (cases e) (simp_all add: or_dead_def backoff_def)
qed simp

lemma run_jobs_handlers:
  assumes "\<forall>j \<in> set js. map_of hs (jo_kind j) = map_of (handlers R) (jo_kind j)"
  shows "run_jobs (R\<lparr>handlers := hs\<rparr>) finish js s = run_jobs R finish js s"
  using assms
proof (induction js arbitrary: s)
  case (Cons j js)
  then show ?case by (simp add: handle_job_def disposition_handlers split: prod.split sum.split)
qed simp

definition sample_light :: "unit world runner" where
  "sample_light = (bare_runner default_settings)\<lparr>handlers :=
     [(''ingest.canonical_event.v1'', canonical_event_handler (he_sha sample_handlers))]\<rparr>"

lemma sample_light_round:
  "(case fst (sql_claim sample_round sample_light (sample_q1, ())) of Inl e \<Rightarrow> False
     | Inr js \<Rightarrow> map jo_kind js = [''ingest.canonical_event.v1''])"
  "fst (worker_round sample_round sample_light (sample_q1, ())) = Inr 1"
  "map (\<lambda>r. (jb_state r, jb_attempt_count r)) (jobs (fst (snd (worker_round sample_round sample_light (sample_q1, ()))))) =
     [(JobDead, 1)]"
  by code_simp+

lemma sample_worker_light:
  "worker_round sample_round sample_worker (sample_q1, ()) = worker_round sample_round sample_light (sample_q1, ())"
proof -
  have light: "sample_light = sample_worker\<lparr>handlers := handlers sample_light\<rparr>"
    by (simp add: sample_light_def sample_worker_def)
  have claim: "sql_claim sample_round sample_worker = sql_claim sample_round sample_light"
    by (rule ext) (simp add: sql_claim_def sample_light_def sample_worker_def)
  obtain js w where c: "sql_claim sample_round sample_light (sample_q1, ()) = (Inr js, w)"
    "map jo_kind js = [''ingest.canonical_event.v1'']"
    using sample_light_round(1) by (cases "sql_claim sample_round sample_light (sample_q1, ())") (auto split: sum.splits)
  have "map_of (handlers sample_light) ''ingest.canonical_event.v1'' = map_of (handlers sample_worker) ''ingest.canonical_event.v1''"
    by (simp add: sample_light_def sample_worker_def Let_def)
  then have "\<forall>j \<in> set js. map_of (handlers sample_light) (jo_kind j) = map_of (handlers sample_worker) (jo_kind j)"
    using c(2) by auto
  then have "run_jobs sample_light (sql_finish sample_round) js w = run_jobs sample_worker (sql_finish sample_round) js w"
    by (subst light) (rule run_jobs_handlers)
  then show ?thesis by (simp add: worker_round_def run_once_def claim c)
qed

lemmas sample_worker_round = sample_light_round(2,3) [folded sample_worker_light]


end
