(* ===== verification/DemoDomain.thy ===== *)
theory DemoDomain
  imports Json
begin

text \<open>
  \<open>domain.py\<close>: the small transactional store with its outbox, the webhook check, the last-touch
  attribution and the contract negotiation, and the constructor \<open>Decimal(text)\<close> they use.  The lock
  makes the operations on orders and events atomic; credits and disputes do not take it, so that
  their steps are those of one thread.  Texts are Latin-1; the two letters whose
  capitals are not (the micro sign and y with diaeresis) keep their form under \<open>upper\<close>.
\<close>

section \<open>Decimals\<close>

text \<open>A sign with a coefficient and an exponent, an infinity, or a NaN.\<close>

datatype decimal = Number bool nat int | InfiniteDecimal bool | NotANumber

definition digits_only :: "string \<Rightarrow> bool" where
  "digits_only s \<longleftrightarrow> s \<noteq> [] \<and> list_all is_digit s"

text \<open>The exponent part: \<open>e\<close> or \<open>E\<close>, a sign, digits.\<close>

definition exponent_of :: "string \<Rightarrow> int option" where
  "exponent_of s = (case s of
     [] \<Rightarrow> Some 0
   | e # t \<Rightarrow>
       let neg = (take 1 t = ''-''); ds = (if neg \<or> take 1 t = ''+'' then drop 1 t else t)
       in if digits_only ds then Some ((if neg then - 1 else 1) * int (str_nat ds)) else None)"

text \<open>The exponents of an exact conversion are bounded.\<close>

definition representable :: "nat \<Rightarrow> int \<Rightarrow> bool" where
  "representable width e \<longleftrightarrow> e + int width - 1 \<le> 999999999999999999 \<and> - 1999999999999999997 \<le> e"

definition number_of_text :: "bool \<Rightarrow> string \<Rightarrow> decimal option" where
  "number_of_text neg s =
     (let mantissa = takeWhile (\<lambda>c. c \<notin> set ''eE'') s; whole = takeWhile (\<lambda>c. c \<noteq> CHR ''.'') mantissa;
          fraction = drop 1 (dropWhile (\<lambda>c. c \<noteq> CHR ''.'') mantissa); ds = whole @ fraction
      in if \<not> digits_only ds then None
         else case exponent_of (dropWhile (\<lambda>c. c \<notin> set ''eE'') s) of
             None \<Rightarrow> None
           | Some x \<Rightarrow>
               (let e = x - int (length fraction); n = str_nat ds
                in if representable (if n = 0 then 1 else length (nat_str n)) e then Some (Number neg n e) else None))"

definition decimal_of :: "string \<Rightarrow> exn + decimal" where
  "decimal_of s =
     (let t = filter (\<lambda>c. c \<noteq> CHR ''_'') (strip s); neg = (take 1 t = ''-'');
          u = (if neg \<or> take 1 t = ''+'' then drop 1 t else t); l = map lower_char u
      in if l \<in> {''inf'', ''infinity''} then Inr (InfiniteDecimal neg)
         else if (take 3 l = ''nan'' \<and> list_all is_digit (drop 3 l)) \<or> (take 4 l = ''snan'' \<and> list_all is_digit (drop 4 l))
         then Inr NotANumber
         else case number_of_text neg u of None \<Rightarrow> Inl DecimalError | Some d \<Rightarrow> Inr d)"

text \<open>\<open>x <= 0\<close>, which a NaN refuses.\<close>

fun not_above_zero :: "decimal \<Rightarrow> exn + bool" where
  "not_above_zero (Number neg n e) = Inr (neg \<or> n = 0)"
| "not_above_zero (InfiniteDecimal neg) = Inr neg"
| "not_above_zero NotANumber = Inl DecimalError"

section \<open>Texts\<close>

text \<open>\<open>str\<close> of a value; \<open>repr\<close> gives it for containers and other objects.\<close>

fun value_text :: "(pyval \<Rightarrow> string) \<Rightarrow> pyval \<Rightarrow> exn + string" where
  "value_text repr PNone = Inr ''None''"
| "value_text repr (PBool b) = Inr (if b then ''True'' else ''False'')"
| "value_text repr (PInt i) = (if length (nat_str (nat \<bar>i\<bar>)) \<le> 4300 then Inr (int_str i)
     else Inl (ValueError ''Exceeds the limit for integer string conversion''))"
| "value_text repr (PFloat r) = Inr r"
| "value_text repr (PStr s) = Inr s"
| "value_text repr v = Inr (repr v)"

definition capital_of :: "char \<Rightarrow> string" where
  "capital_of c = (if is_lower c \<or> (224 \<le> code c \<and> code c \<le> 254 \<and> code c \<noteq> 247) then [char_of (code c - 32)]
     else if code c = 223 then ''SS'' else [c])"

definition in_capitals :: "string \<Rightarrow> string" where
  "in_capitals s = concat (map capital_of s)"

section \<open>The store\<close>

datatype shop_role = Admin | Agent | Viewer

record actor =
  ac_tenant_id :: string
  ac_user_id :: string
  ac_role :: shop_role

record shop_order =
  so_id :: string
  so_tenant_id :: string
  so_customer_id :: string
  so_total :: decimal
  so_currency :: string
  so_status :: string
  so_version :: int

record outbox_message =
  om_topic :: string
  om_tenant_id :: string
  om_aggregate_id :: string

record credit_entry =
  cr_tenant :: string
  cr_account :: string
  cr_amount :: decimal
  cr_reference :: string

record demo_store =
  ds_orders :: "((string \<times> string) \<times> shop_order) list"
  ds_events :: "(string \<times> string) list"
  ds_outbox :: "outbox_message list"
  ds_ledger :: "credit_entry list"
  ds_disputes :: "((string \<times> string) \<times> string) list"

definition empty_store :: demo_store where
  "empty_store = \<lparr>ds_orders = [], ds_events = [], ds_outbox = [], ds_ledger = [], ds_disputes = []\<rparr>"

definition require_role :: "actor \<Rightarrow> shop_role list \<Rightarrow> exn + unit" where
  "require_role a roles = check (ac_role a \<in> set roles) (PermissionError ''role is not authorized'')"

definition required_fields :: "string list" where
  "required_fields = [''currency'', ''customer_id'', ''id'', ''total'']"

definition item_text :: "(pyval \<Rightarrow> string) \<Rightarrow> (string \<times> pyval) list \<Rightarrow> string \<Rightarrow> exn + string" where
  "item_text repr data k = (case map_of data k of None \<Rightarrow> Inl (KeyError k) | Some v \<Rightarrow> value_text repr v)"

definition new_order :: "(pyval \<Rightarrow> string) \<Rightarrow> actor \<Rightarrow> (string \<times> pyval) list \<Rightarrow> demo_store \<Rightarrow> exn + shop_order" where
  "new_order repr a data s =
     ebind (require_role a [Admin, Agent]) (\<lambda>_.
     let missing = filter (\<lambda>k. map_of data k = None) required_fields in
     ebind (check (missing = []) (DomainError (''missing order fields: '' @ join '', '' missing))) (\<lambda>_.
     ebind (ebind (item_text repr data ''total'') decimal_of) (\<lambda>total.
     ebind (not_above_zero total) (\<lambda>bad.
     ebind (if bad then Inr True else ebind (item_text repr data ''currency'') (\<lambda>c. Inr (length c \<noteq> 3))) (\<lambda>bad.
     ebind (check (\<not> bad) (DomainError ''total must be positive and currency must be ISO-4217'')) (\<lambda>_.
     ebind (item_text repr data ''id'') (\<lambda>i.
     ebind (check (map_of (ds_orders s) (ac_tenant_id a, i) = None) (DomainError ''order already exists'')) (\<lambda>_.
     ebind (item_text repr data ''customer_id'') (\<lambda>customer.
     ebind (item_text repr data ''currency'') (\<lambda>currency.
     Inr \<lparr>so_id = i, so_tenant_id = ac_tenant_id a, so_customer_id = customer, so_total = total,
       so_currency = in_capitals currency, so_status = ''pending'', so_version = 0\<rparr>))))))))))"

definition message :: "string \<Rightarrow> string \<Rightarrow> string \<Rightarrow> outbox_message" where
  "message topic tenant i = \<lparr>om_topic = topic, om_tenant_id = tenant, om_aggregate_id = i\<rparr>"

definition put_order :: "string \<Rightarrow> string \<Rightarrow> string \<Rightarrow> shop_order \<Rightarrow> demo_store \<Rightarrow> demo_store" where
  "put_order topic tenant i order s = s\<lparr>ds_orders := dict_set (tenant, i) order (ds_orders s),
     ds_outbox := ds_outbox s @ [message topic tenant i]\<rparr>"

definition create_order :: "(pyval \<Rightarrow> string) \<Rightarrow> actor \<Rightarrow> (string \<times> pyval) list \<Rightarrow> demo_store \<Rightarrow> (exn + shop_order) \<times> demo_store" where
  "create_order repr a data s = (case new_order repr a data s of
     Inl e \<Rightarrow> (Inl e, s)
   | Inr order \<Rightarrow> (Inr order, put_order ''order.created'' (ac_tenant_id a) (so_id order) order s))"

definition get_order :: "actor \<Rightarrow> string \<Rightarrow> demo_store \<Rightarrow> exn + shop_order" where
  "get_order a i s = (case map_of (ds_orders s) (ac_tenant_id a, i) of
     None \<Rightarrow> Inl (DomainError ''order not found'') | Some order \<Rightarrow> Inr order)"

fun allowed_next :: "string \<Rightarrow> string list" where
  "allowed_next status = (if status = ''pending'' then [''confirmed'', ''cancelled'']
     else if status = ''confirmed'' then [''fulfilled''] else [])"

definition moved_order :: "actor \<Rightarrow> string \<Rightarrow> string \<Rightarrow> int \<Rightarrow> demo_store \<Rightarrow> exn + shop_order" where
  "moved_order a i status version s =
     ebind (require_role a [Admin, Agent]) (\<lambda>_.
     ebind (get_order a i s) (\<lambda>old.
     ebind (check (so_version old = version) (DomainError ''concurrent update'')) (\<lambda>_.
     ebind (check (status \<in> set (allowed_next (so_status old))) (DomainError ''invalid outcome transition'')) (\<lambda>_.
     Inr (old\<lparr>so_status := status, so_version := version + 1\<rparr>)))))"

definition order_transition :: "actor \<Rightarrow> string \<Rightarrow> string \<Rightarrow> int \<Rightarrow> demo_store \<Rightarrow> (exn + shop_order) \<times> demo_store" where
  "order_transition a i status version s = (case moved_order a i status version s of
     Inl e \<Rightarrow> (Inl e, s)
   | Inr order \<Rightarrow> (Inr order, put_order ''order.transitioned'' (ac_tenant_id a) i order s))"

definition ingest_event :: "hash \<Rightarrow> string \<Rightarrow> string \<Rightarrow> (string \<times> pyval) list \<Rightarrow> demo_store \<Rightarrow> (exn + bool) \<times> demo_store" where
  "ingest_event sha tenant event_id payload s =
     (if \<not> json_ok True (PDict payload) then (Inl TypeError, s)
      else let i = (if event_id \<noteq> [] then event_id else sha (utf8 (dumps True (PDict payload))))
           in if (tenant, i) \<in> set (ds_events s) then (Inr False, s)
              else (Inr True, s\<lparr>ds_events := ds_events s @ [(tenant, i)],
                ds_outbox := ds_outbox s @ [message ''event.received'' tenant i]\<rparr>))"

text \<open>The check of a credit and its entry, which no lock joins.\<close>

definition credit_allowed :: "actor \<Rightarrow> decimal \<Rightarrow> string \<Rightarrow> demo_store \<Rightarrow> exn + unit" where
  "credit_allowed a amount reference s =
     ebind (require_role a [Admin]) (\<lambda>_. ebind (not_above_zero amount) (\<lambda>bad.
     check (\<not> (bad \<or> list_ex (\<lambda>x. cr_reference x = reference) (ds_ledger s))) (DomainError ''invalid or duplicate credit'')))"

definition credit_append :: "actor \<Rightarrow> string \<Rightarrow> decimal \<Rightarrow> string \<Rightarrow> demo_store \<Rightarrow> demo_store" where
  "credit_append a account amount reference s = s\<lparr>ds_ledger := ds_ledger s @ [\<lparr>cr_tenant = ac_tenant_id a,
     cr_account = account, cr_amount = amount, cr_reference = reference\<rparr>]\<rparr>"

definition credit :: "actor \<Rightarrow> string \<Rightarrow> decimal \<Rightarrow> string \<Rightarrow> demo_store \<Rightarrow> (exn + unit) \<times> demo_store" where
  "credit a account amount reference s = (case credit_allowed a amount reference s of
     Inl e \<Rightarrow> (Inl e, s) | Inr u \<Rightarrow> (Inr (), credit_append a account amount reference s))"

definition resolve_dispute :: "actor \<Rightarrow> string \<Rightarrow> string \<Rightarrow> demo_store \<Rightarrow> (exn + unit) \<times> demo_store" where
  "resolve_dispute a dispute_id resolution s =
     (case ebind (require_role a [Admin]) (\<lambda>_.
        ebind (check (resolution \<in> {''upheld'', ''reversed''}) (DomainError ''invalid resolution'')) (\<lambda>_.
        check (map_of (ds_disputes s) (ac_tenant_id a, dispute_id) = None) (DomainError ''dispute already resolved''))) of
        Inl e \<Rightarrow> (Inl e, s)
      | Inr u \<Rightarrow> (Inr (), s\<lparr>ds_disputes := dict_set (ac_tenant_id a, dispute_id) resolution (ds_disputes s)\<rparr>))"

section \<open>Webhooks, attribution, negotiation\<close>

text \<open>\<open>now\<close> in microseconds; HMAC-SHA256 gives hexadecimal text.\<close>

definition verify_webhook :: "(string \<Rightarrow> string \<Rightarrow> string) \<Rightarrow> string \<Rightarrow> string \<Rightarrow> string \<Rightarrow> int \<Rightarrow> int \<Rightarrow> exn + bool" where
  "verify_webhook hmac secret body signature timestamp now =
     (if 2 ^ 1024 - 2 ^ 970 \<le> \<bar>timestamp\<bar> then Inl OverflowError
      else if 300 * micros < \<bar>now - timestamp * micros\<bar> then Inr False
      else if \<not> list_all (\<lambda>c. code c < 128) signature then Inl TypeError
      else Inr (hmac (utf8 secret) (int_str timestamp @ ''.'' @ body) = signature))"

record touch =
  tc_at :: datetime
  tc_id :: string

fun dt_minus :: "datetime \<Rightarrow> int \<Rightarrow> exn + datetime" where
  "dt_minus (Aware t) s = (if t - s * micros < - 62135596800 * micros then Inl OverflowError else Inr (Aware (t - s * micros)))"
| "dt_minus (Naive t) s = (if t - s * micros < - 62135596800 * micros then Inl OverflowError else Inr (Naive (t - s * micros)))"

fun eligible_touches :: "datetime \<Rightarrow> touch list \<Rightarrow> exn + touch list" where
  "eligible_touches conversion [] = Inr []"
| "eligible_touches conversion (t # ts) =
     ebind (dt_minus conversion (30 * 86400)) (\<lambda>start.
     ebind (dt_le start (tc_at t)) (\<lambda>a.
     ebind (if a then dt_le (tc_at t) conversion else Inr False) (\<lambda>b.
     ebind (eligible_touches conversion ts) (\<lambda>rest. Inr (if b then t # rest else rest)))))"

text \<open>\<open>max\<close> by the pair of time and identifier keeps the first of equal ones.\<close>

definition later_touch :: "touch \<Rightarrow> touch \<Rightarrow> bool" where
  "later_touch x y \<longleftrightarrow> dt_instant (tc_at y) < dt_instant (tc_at x) \<or>
     (dt_instant (tc_at x) = dt_instant (tc_at y) \<and> tc_id y < tc_id x)"

fun last_touch :: "touch \<Rightarrow> touch list \<Rightarrow> touch" where
  "last_touch best [] = best"
| "last_touch best (t # ts) = last_touch (if later_touch t best then t else best) ts"

definition attribute :: "touch list \<Rightarrow> datetime \<Rightarrow> exn + touch option" where
  "attribute touches conversion =
     ebind (eligible_touches conversion touches) (\<lambda>ts. Inr (case ts of [] \<Rightarrow> None | t # rest \<Rightarrow> Some (last_touch t rest)))"

definition negotiate_contract :: "string \<Rightarrow> exn + string" where
  "negotiate_contract version = ebind (check (version \<in> {''2025-01'', ''2026-01''}) (DomainError ''unsupported contract version''))
     (\<lambda>_. Inr version)"

section \<open>The store as a transition system\<close>

inductive demo_step :: "demo_store \<Rightarrow> demo_store \<Rightarrow> bool" where
  demo_create: "create_order repr a data s = (x, s') \<Longrightarrow> demo_step s s'"
| demo_transition: "order_transition a i status version s = (x, s') \<Longrightarrow> demo_step s s'"
| demo_ingest: "ingest_event sha tenant event_id payload s = (y, s') \<Longrightarrow> demo_step s s'"
| demo_credit: "credit a account amount reference s = (z, s') \<Longrightarrow> demo_step s s'"
| demo_resolve: "resolve_dispute a dispute_id resolution s = (z, s') \<Longrightarrow> demo_step s s'"

definition demo_reachable :: "demo_store \<Rightarrow> bool" where
  "demo_reachable s \<longleftrightarrow> demo_step\<^sup>*\<^sup>* empty_store s"

end
