(* ===== verification/DemoFacts.thy ===== *)
theory DemoFacts
  imports DemoDomain
begin

text \<open>
  The transactional store of \<open>domain.py\<close>: its orders, events and credits agree with its outbox
  in every state its operations reach, and the attributed touch is the last eligible one.
\<close>

section \<open>Store and outbox\<close>

definition sent :: "string \<Rightarrow> string \<Rightarrow> string \<Rightarrow> demo_store \<Rightarrow> nat" where
  "sent topic t i s = length (filter (\<lambda>m. m = message topic t i) (ds_outbox s))"

definition order_ok :: "string \<Rightarrow> string \<Rightarrow> shop_order \<Rightarrow> bool" where
  "order_ok t i order \<longleftrightarrow> so_tenant_id order = t \<and> so_id order = i \<and> not_above_zero (so_total order) = Inr False \<and>
     (so_status order, so_version order) \<in> {(''pending'', 0), (''confirmed'', 1), (''cancelled'', 1), (''fulfilled'', 2)}"

fun entry_ok :: "string \<Rightarrow> string \<Rightarrow> shop_order option \<Rightarrow> nat \<Rightarrow> nat \<Rightarrow> bool" where
  "entry_ok t i None created moved = (created = 0 \<and> moved = 0)"
| "entry_ok t i (Some order) created moved = (order_ok t i order \<and> created = 1 \<and> int moved = so_version order)"

definition orders_ok :: "demo_store \<Rightarrow> bool" where
  "orders_ok s \<longleftrightarrow> (\<forall>t i. entry_ok t i (map_of (ds_orders s) (t, i)) (sent ''order.created'' t i s) (sent ''order.transitioned'' t i s))"

definition events_ok :: "demo_store \<Rightarrow> bool" where
  "events_ok s \<longleftrightarrow> distinct (ds_events s) \<and>
     (\<forall>t i. sent ''event.received'' t i s = (if (t, i) \<in> set (ds_events s) then 1 else 0))"

definition ledger_ok :: "demo_store \<Rightarrow> bool" where
  "ledger_ok s \<longleftrightarrow> distinct (map cr_reference (ds_ledger s)) \<and>
     (\<forall>x \<in> set (ds_ledger s). not_above_zero (cr_amount x) = Inr False)"

lemma message_eq [simp]: "message topic t i = message topic' t' i' \<longleftrightarrow> topic = topic' \<and> t = t' \<and> i = i'"
  by (simp add: message_def)

lemma sent_put [simp]:
  "sent topic t i (put_order topic' t' i' order s) = sent topic t i s + (if topic = topic' \<and> t = t' \<and> i = i' then 1 else 0)"
  by (simp add: sent_def put_order_def)

lemma orders_put [simp]: "map_of (ds_orders (put_order topic t i order s)) = (map_of (ds_orders s))((t, i) \<mapsto> order)"
  "ds_events (put_order topic t i order s) = ds_events s" "ds_ledger (put_order topic t i order s) = ds_ledger s"
  by (simp_all add: put_order_def)

lemma new_order_Inr:
  assumes "new_order repr a data s = Inr order"
  shows "map_of (ds_orders s) (ac_tenant_id a, so_id order) = None" "order_ok (ac_tenant_id a) (so_id order) order"
    "so_version order = 0"
  using assms
  by (auto simp: new_order_def Let_def ebind_eq_Inr order_ok_def check_def split: if_splits)

lemma moved_order_Inr:
  assumes "moved_order a i status version s = Inr order"
  obtains old where "map_of (ds_orders s) (ac_tenant_id a, i) = Some old" "so_version old = version"
    "order = old\<lparr>so_status := status, so_version := version + 1\<rparr>" "status \<in> set (allowed_next (so_status old))"
  using assms by (auto simp: moved_order_def get_order_def ebind_eq_Inr check_def split: if_splits option.splits)

lemma orders_okD: "orders_ok s \<Longrightarrow> entry_ok t i (map_of (ds_orders s) (t, i)) (sent ''order.created'' t i s) (sent ''order.transitioned'' t i s)"
  by (simp add: orders_ok_def)

lemma rest_ok_cong:
  assumes "ds_outbox s' = ds_outbox s"
  shows "ds_orders s' = ds_orders s \<Longrightarrow> orders_ok s' = orders_ok s" "ds_events s' = ds_events s \<Longrightarrow> events_ok s' = events_ok s"
  by (simp_all add: orders_ok_def events_ok_def sent_def assms)

lemma put_keeps:
  assumes "orders_ok s" "events_ok s" "ledger_ok s" "topic \<noteq> ''event.received''"
    and "entry_ok t i (Some order) (sent ''order.created'' t i s + (if topic = ''order.created'' then 1 else 0))
      (sent ''order.transitioned'' t i s + (if topic = ''order.transitioned'' then 1 else 0))"
  shows "orders_ok (put_order topic t i order s) \<and> events_ok (put_order topic t i order s) \<and> ledger_ok (put_order topic t i order s)"
proof -
  have "entry_ok u j (map_of (ds_orders (put_order topic t i order s)) (u, j)) (sent ''order.created'' u j (put_order topic t i order s))
      (sent ''order.transitioned'' u j (put_order topic t i order s))" for u j
    using orders_okD [OF assms(1), of u j] assms(5) by (cases "(u, j) = (t, i)") auto
  then show ?thesis using assms(2-4) by (simp add: orders_ok_def events_ok_def ledger_ok_def)
qed

lemma create_keeps:
  assumes "create_order repr a data s = (x, s')" "orders_ok s" "events_ok s" "ledger_ok s"
  shows "orders_ok s' \<and> events_ok s' \<and> ledger_ok s'"
proof (cases "new_order repr a data s")
  case (Inr order)
  then have s': "s' = put_order ''order.created'' (ac_tenant_id a) (so_id order) order s" using assms(1) by (simp add: create_order_def)
  show ?thesis unfolding s'
    by (rule put_keeps [OF assms(2-4)])
      (use orders_okD [OF assms(2), of "ac_tenant_id a" "so_id order"] new_order_Inr [OF Inr] in simp_all)
qed (use assms in \<open>simp add: create_order_def\<close>)

lemma transition_keeps:
  assumes "order_transition a i status version s = (x, s')" "orders_ok s" "events_ok s" "ledger_ok s"
  shows "orders_ok s' \<and> events_ok s' \<and> ledger_ok s'"
proof (cases "moved_order a i status version s")
  case (Inr order)
  then have s': "s' = put_order ''order.transitioned'' (ac_tenant_id a) i order s" using assms(1) by (simp add: order_transition_def)
  obtain old where old: "map_of (ds_orders s) (ac_tenant_id a, i) = Some old" "so_version old = version"
    "order = old\<lparr>so_status := status, so_version := version + 1\<rparr>" "status \<in> set (allowed_next (so_status old))"
    by (rule moved_order_Inr [OF Inr])
  have e: "order_ok (ac_tenant_id a) i old" "sent ''order.created'' (ac_tenant_id a) i s = 1"
    "int (sent ''order.transitioned'' (ac_tenant_id a) i s) = so_version old"
    using orders_okD [OF assms(2), of "ac_tenant_id a" i] by (simp_all add: old(1))
  have "order_ok (ac_tenant_id a) i order" "so_version order = so_version old + 1"
    using e(1) old(2-4) by (auto simp: order_ok_def split: if_splits)
  then show ?thesis unfolding s'
    by (intro put_keeps [OF assms(2-4)]) (use e in simp_all)
qed (use assms in \<open>simp add: order_transition_def\<close>)

lemma ingest_keeps:
  assumes "ingest_event sha tenant event_id payload s = (x, s')" "orders_ok s" "events_ok s" "ledger_ok s"
  shows "orders_ok s' \<and> events_ok s' \<and> ledger_ok s'"
proof (cases "s' = s")
  case False
  then obtain i where s': "s' = s\<lparr>ds_events := ds_events s @ [(tenant, i)], ds_outbox := ds_outbox s @ [message ''event.received'' tenant i]\<rparr>"
    and new: "(tenant, i) \<notin> set (ds_events s)"
    using assms(1) by (auto simp: ingest_event_def Let_def split: if_splits)
  have sent: "sent topic t j s' = sent topic t j s + (if topic = ''event.received'' \<and> tenant = t \<and> i = j then 1 else 0)" for topic t j
    by (simp add: s' sent_def)
  have "orders_ok s'" using orders_okD [OF assms(2)] by (simp add: orders_ok_def sent, simp add: s')
  moreover have "events_ok s'" using assms(3) new by (auto simp: events_ok_def sent, auto simp: s')
  ultimately show ?thesis using assms(4) by (simp add: ledger_ok_def s')
qed (use assms in simp)

lemma credit_keeps:
  assumes "credit a account amount reference s = (x, s')" "orders_ok s" "events_ok s" "ledger_ok s"
  shows "orders_ok s' \<and> events_ok s' \<and> ledger_ok s'"
proof (cases "credit_allowed a amount reference s")
  case (Inr u)
  then have s': "s' = credit_append a account amount reference s" using assms(1) by (simp add: credit_def)
  have "not_above_zero amount = Inr False" "reference \<notin> cr_reference ` set (ds_ledger s)"
    using Inr by (auto simp: credit_allowed_def ebind_eq_Inr check_def list_ex_iff split: if_splits)
  then have "ledger_ok s'" using assms(4) by (auto simp: ledger_ok_def s' credit_append_def)
  moreover have "orders_ok s'" "events_ok s'" using rest_ok_cong [of s' s] assms(2,3) by (simp_all add: s' credit_append_def)
  ultimately show ?thesis by blast
qed (use assms in \<open>simp add: credit_def\<close>)

lemma resolve_keeps:
  assumes "resolve_dispute a dispute_id resolution s = (x, s')" "orders_ok s" "events_ok s" "ledger_ok s"
  shows "orders_ok s' \<and> events_ok s' \<and> ledger_ok s'"
proof -
  have same: "ds_outbox s' = ds_outbox s" "ds_orders s' = ds_orders s" "ds_events s' = ds_events s" "ds_ledger s' = ds_ledger s"
    using arg_cong [OF assms(1), where f = snd] by (auto simp: resolve_dispute_def split: sum.splits)
  show ?thesis using rest_ok_cong [OF same(1)] same assms(2-4) by (simp add: ledger_ok_def)
qed

lemma demo_step_keeps: "demo_step s s' \<Longrightarrow> orders_ok s \<and> events_ok s \<and> ledger_ok s \<Longrightarrow> orders_ok s' \<and> events_ok s' \<and> ledger_ok s'"
  by (induction rule: demo_step.induct) (blast dest: create_keeps transition_keeps ingest_keeps credit_keeps resolve_keeps)+

lemma reachable_demo_ok: "demo_reachable s \<Longrightarrow> orders_ok s \<and> events_ok s \<and> ledger_ok s"
  unfolding demo_reachable_def
proof (induction rule: rtranclp_induct)
  case base
  show ?case by (simp add: empty_store_def orders_ok_def events_ok_def ledger_ok_def sent_def)
qed (rule demo_step_keeps)


text \<open>Without a lock, two credits that check before either writes leave a duplicate.\<close>

lemma credit_race:
  assumes "credit_allowed a amount reference s = Inr ()" "credit_allowed b amount' reference s = Inr ()"
  shows "\<not> distinct (map cr_reference (ds_ledger (credit_append b account' amount' reference (credit_append a account amount reference s))))"
  by (simp add: credit_append_def)

section \<open>Attribution\<close>

definition in_window :: "datetime \<Rightarrow> touch \<Rightarrow> bool" where
  "in_window conversion t \<longleftrightarrow> dt_instant conversion - 30 * 86400 * micros \<le> dt_instant (tc_at t) \<and>
     dt_instant (tc_at t) \<le> dt_instant conversion"

lemma dt_le_Inr: "dt_le a b = Inr c \<Longrightarrow> c = (dt_instant a \<le> dt_instant b)"
  by (cases a; cases b) auto

lemma dt_minus_Inr: "dt_minus a n = Inr b \<Longrightarrow> dt_instant b = dt_instant a - n * micros"
  by (cases a) (auto split: if_splits)

lemma eligible_Inr: "eligible_touches conversion ts = Inr xs \<Longrightarrow> xs = filter (in_window conversion) ts"
proof (induction ts arbitrary: xs)
  case (Cons t ts)
  then obtain start a b rest where "dt_minus conversion (30 * 86400) = Inr start" "dt_le start (tc_at t) = Inr a"
    "(if a then dt_le (tc_at t) conversion else Inr False) = Inr b" "eligible_touches conversion ts = Inr rest"
    "xs = (if b then t # rest else rest)" by (auto simp: ebind_eq_Inr)
  then show ?case using Cons.IH
    by (auto simp: in_window_def dest!: dt_le_Inr dt_minus_Inr split: if_splits)
qed simp

lemma not_later_trans:
  assumes "\<not> later_touch x y" "\<not> later_touch y z"
  shows "\<not> later_touch x z"
proof -
  have not_later: "\<not> later_touch x y \<longleftrightarrow> dt_instant (tc_at x) < dt_instant (tc_at y) \<or>
      (dt_instant (tc_at x) = dt_instant (tc_at y) \<and> tc_id x \<le> tc_id y)" for x y
    by (auto simp: later_touch_def not_less)
  show ?thesis using assms order_trans unfolding not_later by fastforce
qed

lemma last_touch_max:
  "last_touch best ts \<in> insert best (set ts) \<and> (\<forall>u \<in> insert best (set ts). \<not> later_touch u (last_touch best ts))"
proof (induction ts arbitrary: best)
  case (Cons t ts)
  let ?b = "if later_touch t best then t else best"
  have b: "\<not> later_touch best ?b" "\<not> later_touch t ?b" "?b \<in> {best, t}" by (auto simp: later_touch_def)
  note IH = Cons.IH [of ?b]
  have "\<not> later_touch u (last_touch ?b ts)" if "u \<in> {best, t}" for u
    using that b(1,2) IH not_later_trans [of u ?b "last_touch ?b ts"] by blast
  then show ?case using IH b(3) by auto
qed (simp add: later_touch_def)

text \<open>
  The last eligible touch wins.  An attribution names a touch of the thirty days before the
  conversion such that no other of them is later, or as late with a greater identifier, and
  names none only if there is none.
\<close>

theorem attribute_last_touch:
  assumes "attribute touches conversion = Inr res"
  shows "case res of
      None \<Rightarrow> \<forall>t \<in> set touches. \<not> in_window conversion t
    | Some t \<Rightarrow> t \<in> set touches \<and> in_window conversion t \<and>
        (\<forall>u \<in> set touches. in_window conversion u \<longrightarrow> \<not> later_touch u t)"
proof -
  obtain xs where "eligible_touches conversion touches = Inr xs"
    and res: "res = (case xs of [] \<Rightarrow> None | t # rest \<Rightarrow> Some (last_touch t rest))"
    using assms by (auto simp: attribute_def ebind_eq_Inr)
  then have xs: "xs = filter (in_window conversion) touches" using eligible_Inr by blast
  show ?thesis
  proof (cases xs)
    case Nil
    then show ?thesis using xs res by (auto simp: filter_empty_conv)
  next
    case (Cons t rest)
    then have "set (t # rest) = {u \<in> set touches. in_window conversion u}" using xs by (metis set_filter)
    with last_touch_max [of t rest] Cons res show ?thesis by auto
  qed
qed

section \<open>Samples\<close>

definition sample_admin :: actor where
  "sample_admin = \<lparr>ac_tenant_id = ''t'', ac_user_id = ''u'', ac_role = Admin\<rparr>"

definition sample_ordered :: demo_store where
  "sample_ordered = snd (order_transition sample_admin ''1'' ''confirmed'' 0 (snd (create_order (\<lambda>v. ''?'') sample_admin
     [(''id'', PInt 1), (''customer_id'', PStr ''c''), (''total'', PStr ''1_0.50e0''), (''currency'', PStr ''usd'')] empty_store)))"

lemma sample_ordered_value:
  "ds_orders sample_ordered = [((''t'', ''1''), \<lparr>so_id = ''1'', so_tenant_id = ''t'', so_customer_id = ''c'',
     so_total = Number False 1050 (- 2), so_currency = ''USD'', so_status = ''confirmed'', so_version = 1\<rparr>)]"
  by code_simp


theorem attribute_last_touch_witness:
  "attribute [\<lparr>tc_at = Aware 5, tc_id = ''a''\<rparr>, \<lparr>tc_at = Aware 7, tc_id = ''b''\<rparr>, \<lparr>tc_at = Aware 9, tc_id = ''c''\<rparr>] (Aware 8) =
     Inr (Some \<lparr>tc_at = Aware 7, tc_id = ''b''\<rparr>) \<and> in_window (Aware 8) \<lparr>tc_at = Aware 7, tc_id = ''b''\<rparr>"
proof -
  have "attribute [\<lparr>tc_at = Aware 5, tc_id = ''a''\<rparr>, \<lparr>tc_at = Aware 7, tc_id = ''b''\<rparr>, \<lparr>tc_at = Aware 9, tc_id = ''c''\<rparr>] (Aware 8) =
     Inr (Some \<lparr>tc_at = Aware 7, tc_id = ''b''\<rparr>)" by code_simp
  from attribute_last_touch [OF this] this show ?thesis by simp
qed

end
