(* ===== verification/Grounding.thy ===== *)
theory Grounding
  imports EventFacts DemoDomain
begin

text \<open>
  The grounded answer of \<open>ai.py\<close>: what is refused before the language model is asked, what the
  model is shown, and when its reply is taken.  The model is a function of the prompt; \<open>repr\<close>
  gives Python's text of containers.
\<close>

section \<open>Answers\<close>

fun contains :: "string \<Rightarrow> string \<Rightarrow> bool" where
  "contains p [] = (p = [])"
| "contains p (c # s) = (starts_with p (c # s) \<or> contains p s)"

text \<open>\<open>str.lower\<close> on Latin-1.\<close>

definition lower_text :: "string \<Rightarrow> string" where
  "lower_text s = map (\<lambda>c. if is_upper c \<or> (192 \<le> code c \<and> code c \<le> 222 \<and> code c \<noteq> 215) then char_of (code c + 32) else c) s"

definition unknown_reply :: string where
  "unknown_reply = ''{'' @ quote True ''action'' @ '':'' @ quote True ''handoff'' @ '','' @ quote True ''reason'' @ '':'' @
     quote True ''unknown'' @ ''}''"

definition deterministic_llm :: "(string \<times> string) list \<Rightarrow> string \<Rightarrow> string" where
  "deterministic_llm responses prompt =
     (case find (\<lambda>(key, value). contains key prompt) responses of Some (key, value) \<Rightarrow> value | None \<Rightarrow> unknown_reply)"

definition handoff :: "string \<Rightarrow> (string \<times> string) list" where
  "handoff reason = [(''action'', ''handoff''), (''reason'', reason)]"

fun field :: "string \<Rightarrow> (string \<times> string) list \<Rightarrow> exn + string" where
  "field k d = (case map_of d k of None \<Rightarrow> Inl (KeyError k) | Some v \<Rightarrow> Inr v)"

fun safe_docs :: "string \<Rightarrow> (string \<times> string) list list \<Rightarrow> exn + string list" where
  "safe_docs tenant [] = Inr []"
| "safe_docs tenant (d # ds) =
     ebind (field ''tenant'' d) (\<lambda>t.
     ebind (if t = tenant then ebind (field ''text'' d) (\<lambda>x. Inr [x]) else Inr []) (\<lambda>own.
     ebind (safe_docs tenant ds) (\<lambda>rest. Inr (own @ rest))))"

definition prompt_of :: "(pyval \<Rightarrow> string) \<Rightarrow> string list \<Rightarrow> string \<Rightarrow> string" where
  "prompt_of repr docs question = ''CONTEXT='' @ repr (PList (map PStr docs)) @ [CHR 0x0A] @ ''QUESTION='' @ question"

fun is_text_of :: "string list \<Rightarrow> pyval option \<Rightarrow> bool" where
  "is_text_of docs (Some (PStr s)) = (s \<in> set docs)"
| "is_text_of docs v = False"

text \<open>\<open>{str(k): str(v) ...}\<close>; an attribute error of a reply that is no object goes by its name.\<close>

definition answer_fields :: "(pyval \<Rightarrow> string) \<Rightarrow> (string \<times> pyval) list \<Rightarrow> exn + (string \<times> string) list" where
  "answer_fields repr d = mapM (\<lambda>(k, v). ebind (value_text repr v) (\<lambda>x. Inr (k, x))) d"

datatype answer_error = AnswerError exn | AttributeError

definition take_reply :: "(pyval \<Rightarrow> string) \<Rightarrow> string list \<Rightarrow> pyval \<Rightarrow> answer_error + (string \<times> string) list" where
  "take_reply repr docs reply = (case reply of
     PDict d \<Rightarrow> (if map_of d ''action'' = Some (PStr ''answer'') \<and> \<not> is_text_of docs (map_of d ''evidence'')
       then Inr (handoff ''ungrounded'') else map_error AnswerError (answer_fields repr d))
   | _ \<Rightarrow> Inl AttributeError)"

definition answer :: "(pyval \<Rightarrow> string) \<Rightarrow> pydantic \<Rightarrow> string \<Rightarrow> string \<Rightarrow> (string \<times> string) list list \<Rightarrow> (string \<Rightarrow> string) \<Rightarrow>
    answer_error + (string \<times> string) list" where
  "answer repr pd question tenant documents llm =
     ebind (map_error AnswerError (safe_docs tenant documents)) (\<lambda>docs.
     let lowered = lower_text question in
     if contains ''ignore previous'' lowered \<or> contains ''system prompt'' lowered then Inr (handoff ''prompt_injection'')
     else if contains ''idiot'' lowered \<or> contains ''stupid'' lowered then Inr (handoff ''abusive_content'')
     else case json_loads pd (llm (prompt_of repr docs question)) of
         Inl e \<Rightarrow> Inr (handoff ''malformed_tool_output'')
       | Inr reply \<Rightarrow> take_reply repr docs reply)"

section \<open>Grounded and confined\<close>

lemma safe_docs_own:
  "safe_docs tenant ds = Inr docs \<Longrightarrow>
     set docs \<subseteq> {x. \<exists>d \<in> set ds. map_of d ''tenant'' = Some tenant \<and> map_of d ''text'' = Some x}"
proof (induction ds arbitrary: docs)
  case (Cons d ds)
  then obtain t own rest where "map_of d ''tenant'' = Some t" "safe_docs tenant ds = Inr rest" "docs = own @ rest"
    "(if t = tenant then ebind (field ''text'' d) (\<lambda>x. Inr [x]) else Inr []) = Inr own"
    by (auto simp: ebind_eq_Inr split: option.splits)
  with Cons.IH [of rest] show ?case by (fastforce simp: ebind_eq_Inr split: option.splits if_splits)
qed simp

lemma ebind_ret: "ebind m (\<lambda>x. Inr x) = m"
  by (cases m) simp_all

lemma safe_docs_others:
  assumes "\<forall>d \<in> set ds. map_of d ''tenant'' \<noteq> None"
  shows "safe_docs tenant ds = safe_docs tenant (filter (\<lambda>d. map_of d ''tenant'' = Some tenant) ds)"
  using assms
proof (induction ds)
  case (Cons d ds)
  then obtain t where t: "map_of d ''tenant'' = Some t" by auto
  have IH: "safe_docs tenant ds = safe_docs tenant (filter (\<lambda>d. map_of d ''tenant'' = Some tenant) ds)"
    using Cons by simp
  show ?case by (cases "t = tenant") (simp_all add: t IH [symmetric] ebind_ret)
qed simp

lemma mapM_lookup:
  "mapM (\<lambda>(k, v). ebind (value_text repr v) (\<lambda>x. Inr (k, x))) d = Inr out \<Longrightarrow> map_of out key = Some x \<Longrightarrow>
     \<exists>v. map_of d key = Some v \<and> value_text repr v = Inr x"
  by (induction d arbitrary: out) (auto simp: ebind_eq_Inr split: if_splits)

lemma mapM_kept:
  "mapM (\<lambda>(k, v). ebind (value_text repr v) (\<lambda>x. Inr (k, x))) d = Inr out \<Longrightarrow> map_of d key = Some v \<Longrightarrow>
     \<exists>x. value_text repr v = Inr x \<and> map_of out key = Some x"
  by (induction d arbitrary: out) (auto simp: ebind_eq_Inr split: if_splits)

lemma value_text_answer:
  assumes "value_text repr v = Inr ''answer''" "\<And>w. repr w \<noteq> ''answer''" "wf_doc v"
  shows "v = PStr ''answer''"
proof (cases v)
  case (PInt i)
  then have "int_str i = ''answer''" using assms(1) by (simp split: if_splits)
  moreover have "\<forall>c \<in> set (int_str i). c = CHR ''-'' \<or> is_digit c"
    using nat_str_digits by (auto simp: int_str_def list_all_iff)
  ultimately show ?thesis by (simp add: is_digit_def code_def)
next
  case (PFloat r)
  moreover have "\<not> float_text ''answer''" by code_simp
  ultimately show ?thesis using assms(1,3) by auto
qed (use assms in \<open>auto split: if_splits\<close>)

text \<open>
  C34. Answers are grounded and confined to the tenant.  Whatever the language model replies, an
  answer names as its evidence the text of one of the tenant's own documents; and documents of
  other tenants change nothing, neither the prompt nor what is taken of the reply.
\<close>

theorem answer_grounded:
  assumes "good_floats (pd_float pd)" "\<And>w. repr w \<noteq> ''answer''"
  shows "(answer repr pd question tenant documents llm = Inr out \<longrightarrow> map_of out ''action'' = Some ''answer'' \<longrightarrow>
      (\<exists>d \<in> set documents. \<exists>x. map_of d ''tenant'' = Some tenant \<and> map_of d ''text'' = Some x \<and>
        map_of out ''evidence'' = Some x)) \<and>
    ((\<forall>d \<in> set documents. map_of d ''tenant'' \<noteq> None) \<longrightarrow>
      answer repr pd question tenant documents llm =
      answer repr pd question tenant (filter (\<lambda>d. map_of d ''tenant'' = Some tenant) documents) llm)"
proof (intro conjI impI)
  assume a: "answer repr pd question tenant documents llm = Inr out" and act: "map_of out ''action'' = Some ''answer''"
  obtain docs where docs: "safe_docs tenant documents = Inr docs"
    using a by (auto simp: answer_def ebind_eq_Inr)
  have "out \<noteq> handoff reason" for reason using act by (auto simp: handoff_def)
  then obtain reply where reply: "json_loads pd (llm (prompt_of repr docs question)) = Inr reply"
    "take_reply repr docs reply = Inr out"
    using a by (auto simp: answer_def docs Let_def split: if_splits sum.splits)
  have wf: "wf_doc reply" by (rule json_loads_wf [OF assms(1) reply(1)])
  obtain d where d: "reply = PDict d" "answer_fields repr d = Inr out"
    "map_of d ''action'' = Some (PStr ''answer'') \<longrightarrow> is_text_of docs (map_of d ''evidence'')"
    using reply(2) \<open>\<And>reason. out \<noteq> handoff reason\<close> by (auto simp: take_reply_def split: pyval.splits if_splits)
  note field = mapM_lookup [OF d(2) [unfolded answer_fields_def]]
  obtain v where v: "map_of d ''action'' = Some v" "value_text repr v = Inr ''answer''" using field [OF act] by blast
  have "wf_doc v" using wf map_of_SomeD [OF v(1)] by (auto simp: d(1) list_all_iff)
  then have "v = PStr ''answer''" by (rule value_text_answer [OF v(2) assms(2)])
  then obtain x where x: "map_of d ''evidence'' = Some (PStr x)" "x \<in> set docs"
    using v(1) d(3) by (cases "map_of d ''evidence''"; cases "the (map_of d ''evidence'')") auto
  have "map_of out ''evidence'' = Some x"
    using mapM_kept [OF d(2) [unfolded answer_fields_def] x(1)] by simp
  with safe_docs_own [OF docs] x(2)
  show "\<exists>d \<in> set documents. \<exists>x. map_of d ''tenant'' = Some tenant \<and> map_of d ''text'' = Some x \<and>
        map_of out ''evidence'' = Some x" by blast
next
  assume "\<forall>d \<in> set documents. map_of d ''tenant'' \<noteq> None"
  from safe_docs_others [OF this]
  show "answer repr pd question tenant documents llm =
      answer repr pd question tenant (filter (\<lambda>d. map_of d ''tenant'' = Some tenant) documents) llm"
    by (simp add: answer_def)
qed

definition sample_repr :: "pyval \<Rightarrow> string" where
  "sample_repr v = ''[...]''"

definition sample_documents :: "(string \<times> string) list list" where
  "sample_documents = [[(''tenant'', ''a''), (''text'', ''Rice'')], [(''tenant'', ''b''), (''text'', ''Price'')]]"

definition sample_reply :: "string \<Rightarrow> string" where
  "sample_reply x = dumps False (PDict [(''action'', PStr ''answer''), (''evidence'', PStr x)])"

definition sample_reader :: pydantic where
  "sample_reader = \<lparr>pd_str = (\<lambda>v. None), pd_int = (\<lambda>v. None), pd_bool = (\<lambda>v. None), pd_datetime = (\<lambda>v. None), pd_any = (\<lambda>v. v),
     pd_float = (\<lambda>r. PNonFinite ''NaN'')\<rparr>"

lemma sample_answers:
  "answer sample_repr sample_reader ''rice?'' ''a'' sample_documents (\<lambda>p. sample_reply ''Rice'') =
     Inr [(''action'', ''answer''), (''evidence'', ''Rice'')]"
  "answer sample_repr sample_reader ''rice?'' ''a'' sample_documents (\<lambda>p. sample_reply ''Price'') =
     Inr (handoff ''ungrounded'')"
  by code_simp+

theorem answer_grounded_witness:
  "answer sample_repr sample_reader ''rice?'' ''a'' sample_documents (\<lambda>p. sample_reply ''Rice'') =
     Inr [(''action'', ''answer''), (''evidence'', ''Rice'')] \<and>
   (\<exists>d \<in> set sample_documents. map_of d ''tenant'' = Some ''a'' \<and> map_of d ''text'' = Some ''Rice'')"
proof -
  have "good_floats (pd_float sample_reader)" by (simp add: good_floats_def sample_reader_def)
  moreover have "sample_repr w \<noteq> ''answer''" for w by (simp add: sample_repr_def)
  ultimately have "\<exists>d \<in> set sample_documents. \<exists>x. map_of d ''tenant'' = Some ''a'' \<and> map_of d ''text'' = Some x \<and>
      map_of [(''action'', ''answer''), (''evidence'', ''Rice'')] ''evidence'' = Some x"
    using answer_grounded [of sample_reader sample_repr] sample_answers(1) by fastforce
  with sample_answers(1) show ?thesis by auto
qed

end
