(* ===== verification/Catalog.thy ===== *)
theory Catalog
  imports OutcomePrelude
begin

text \<open>
  The schema of the database as the migrations see it: the catalog of tables, functions, roles and
  extensions, and the data-definition statements of PostgreSQL that the migrations of
  \<open>apps/api/migrations/versions\<close> execute.  A statement fails when the object it creates exists, when
  the object it needs is missing, and when the object it drops is still needed.  Rows are not part of
  the catalog: a statement that validates existing rows can fail for them as well.
\<close>

section \<open>Names\<close>

text \<open>
  The identifiers of the schema, one constructor each, spelt as in the SQL: tables, columns (those that
  end in \<open>_id\<close>, points in time and zones, numbers and digests, tags, and the others), and the names of
  constraints, indexes and triggers, of which the migrations build some from a table's name.
\<close>

datatype table_name =
    Tenants | Users | Memberships | Contacts | Conversations | Knowledge_documents | Knowledge_chunks
  | Orders | Outcomes | Dispute_evidence | Billable_results | Ledger_entries | Oidc_identities
  | Invitations | Api_keys | External_grants | Audit_events | Integration_endpoints
  | Integration_secret_versions | Webhook_receipts | Canonical_events | Outbox_jobs | Job_attempts
  | Csv_imports | Csv_import_errors | Event_replays | Reconciliation_runs | Reconciliation_anomalies
  | Worker_heartbeats | Performance_contracts | Outcome_rules | Outcome_rule_versions
  | Performance_contract_versions | Contract_party_acceptances | Contract_source_bindings
  | Contract_command_results | Contract_domain_outbox | Contract_party_authorities

datatype ref_column =
    Actor_id | Actor_user_id | Aggregate_id | Billable_result_id | Contact_id | Contract_id
  | Contract_version_id | Correlation_id | Document_id | Endpoint_id | Event_id | External_id
  | Import_id | Invited_by_user_id | Job_id | Key_id | Membership_id | Order_id | Outcome_id
  | Principal_id | Provider_event_id | Receipt_id | Replay_event_id | Requested_by_user_id | Resource_id
  | Rule_id | Rule_version_id | Run_id | Source_event_id | Source_id | Template_id | User_id | Worker_id

datatype time_column =
    Accepted_at | Attribution_window_seconds | Available_at | Completed_at | Contract_timezone
  | Created_at | Effective_end | Effective_start | Evaluation_window_seconds | Expires_at
  | Finalization_window_seconds | Finished_at | Last_used_at | Lease_expires_at | Not_before
  | Observed_at | Occurred_at | Published_at | Received_at | Retired_at | Revoked_at | Started_at
  | Timezone

datatype number_column =
    Accepted_rows | Amount_minor | Attempt_count | Attempt_number | Cap_minor | Chunk_index | Ciphertext
  | Digest | Event_version | Fixed_fee_minor | Floor_minor | Key_digest | Lock_version | Nonce
  | Object_digest | Payload_digest | Public_token_digest | Rate_basis_points | Rejected_rows
  | Request_digest | Row_number | Schema_version | Token_digest | Total_rows | Version

datatype tag_column =
    Actor_type | Aggregate_type | Anchor_event_type | Business_type | Code | Country_code | Currency
  | Direction | Error_code | Event_type | Kind | Last_error_code | Locale | Outcome | Party_role
  | Pricing_model | Resource_type | Role | Source_type | State | Status

datatype item_column =
    Action | Canonical_document | Content | Created_by | Definition | Description | Details
  | Display_name | Email | Embedding | Idempotency_key | Issuer | Lease_token | Metadata | Name
  | Object_key | Payload | Permissions | Prefix | Provider | Published_by | Reason
  | Required_party_roles | Response | Safe_details | Safe_message | Scopes | Subject | Summary | Terms
  | Title

datatype column_name =
    Id | Tenant_id | Ref ref_column | At time_column | Num number_column | Tag tag_column | Item item_column

datatype unique_name =
    No_overlapping_source_bindings | Uq_api_keys_tenant_prefix | Uq_csv_error
  | Uq_csv_import_idempotency | Uq_endpoints_tenant_name | Uq_event_replay_source | Uq_events_receipt
  | Uq_external_grants_resource | Uq_integration_endpoints_token_digest | Uq_invitations_tenant_token
  | Uq_job_attempt_number | Uq_jobs_event_kind | Uq_knowledge_chunks_position
  | Uq_memberships_tenant_user | Uq_oidc_identity_subject | Uq_receipts_provider_event
  | Uq_secret_versions | Uq_worker_heartbeat

datatype check_name =
    Ck_attempt_number_positive | Ck_attempt_outcome | Ck_csv_error_row | Ck_csv_import_counts
  | Ck_csv_import_state | Ck_endpoints_status | Ck_event_version_positive | Ck_invitations_role
  | Ck_jobs_attempt_count | Ck_jobs_state | Ck_memberships_role | Ck_reconciliation_state
  | Ck_secret_version_positive | Ck_secret_version_window | Ck_tenants_country_code
  | Ck_tenants_currency | Ck_tenants_version | Ck_worker_status

datatype foreign_name =
    Fk_anomalies_tenant_run | Fk_attempts_tenant_job | Fk_chunks_tenant_document
  | Fk_conversations_tenant_contact | Fk_csv_errors_tenant_import | Fk_events_tenant_receipt
  | Fk_evidence_tenant_order | Fk_grants_tenant_membership | Fk_jobs_tenant_event
  | Fk_ledger_tenant_result | Fk_orders_tenant_contact | Fk_outcomes_tenant_order
  | Fk_receipts_tenant_endpoint | Fk_replays_tenant_replay | Fk_replays_tenant_source
  | Fk_results_tenant_outcome | Fk_secrets_tenant_endpoint

datatype index_name =
    Contract_list_idx | Contract_selection_idx | Ix_outbox_jobs_claim | One_active_contract_version
  | Rule_list_idx | Uq_reconciliation_idempotency | Uq_replay_idempotency

datatype trigger_name =
    Contract_lifecycle | Immutable_acceptances | Immutable_contract_versions | Immutable_rule_versions
  | Trg_job_attempts_delete | Trg_job_attempts_finalize

datatype object_name =
    Uq unique_name | Ck check_name | Fk foreign_name | Ix index_name | Trg trigger_name
  | Uq_external table_name | Uq_tenant_id_id table_name | Ix_tenant_id table_name | Ix_tenant_created table_name
  | Trg_tenant_immutable table_name | Trg_append_only table_name

datatype function_name =
    Reject_tenant_change_fn | Reject_audit_mutation_fn | Resolve_integration_endpoint
  | Outcomeos_claim_jobs | Outcomeos_finish_job | Outcomeos_lease_lost | Outcomeos_worker_heartbeat
  | Finalize_attempt_only_fn | Protect_contract_history_fn

datatype role_name = Outcomeos_ingress | Outcomeos_worker

datatype grantee = Public | Role_named role_name | Current_user

datatype extension_name = Vector_extension | Btree_gist

datatype policy_name = Tenant_isolation

datatype trigger_event = Before_update_of_tenant_id | Before_update_or_delete | Before_update | Before_delete

section \<open>The catalog\<close>

datatype sql_type =
    Uuid | Timestamptz | Varchar nat | Char_of nat | Text | Integer | BigInteger | Bytea | Jsonb | Vector nat

datatype default_value = Generated_uuid | Clock_timestamp | Literal_value string

record column =
  co_name :: column_name
  co_type :: sql_type
  co_null :: bool
  co_default :: "default_value option"

text \<open>
  Conditions of constraints, indexes and policies.  \<open>Is_tenant_setting\<close> compares a column with the
  setting \<open>app.tenant_id\<close> of the session, whose empty text is read as NULL, and \<open>Pricing_terms\<close> is the
  check of the two pricing models.
\<close>

datatype condition =
    Positive column_name
  | Not_negative "column_name list"
  | Later column_name column_name
  | One_of column_name "string list"
  | Matches column_name string
  | Null_or column_name condition
  | Is_tenant_setting column_name
  | Pricing_terms

text \<open>An exclusion constraint has columns that are equal and a range of times that overlaps.\<close>

datatype constraint_def =
    Primary_key "column_name list"
  | Unique_key "column_name list"
  | Check_that "column_name list" condition
  | Foreign_key "column_name list" table_name "column_name list"
  | Exclusion "column_name list" "column_name \<times> column_name"

datatype element = Col column | Con "object_name option" constraint_def

record index_def =
  ix_name :: object_name
  ix_columns :: "column_name list"
  ix_unique :: bool
  ix_where :: "condition option"

record trigger_def =
  tg_name :: object_name
  tg_events :: trigger_event
  tg_function :: function_name

record table_def =
  tb_columns :: "column list"
  tb_constraints :: "(object_name option \<times> constraint_def) set"
  tb_indexes :: "index_def list"
  tb_triggers :: "trigger_def set"
  tb_policies :: "(policy_name \<times> condition) list"
  tb_rls :: bool
  tb_forced :: bool

type_synonym table_list = "(table_name \<times> table_def) list"

text \<open>What the functions of the migrations do, one constructor for each body.\<close>

datatype routine =
    Reject_tenant_change
  | Reject_audit_mutation
  | Resolve_owner
  | Resolve_secrets
  | Finalize_attempt_only
  | Claim_jobs
  | Claim_jobs_closing_lost
  | Finish_job
  | Lease_lost
  | Worker_heartbeat
  | Protect_contract_history

record function_def =
  fd_body :: routine
  fd_rows_of :: "table_name option"
  fd_definer :: bool

record catalog =
  ct_tables :: table_list
  ct_functions :: "(function_name \<times> function_def) list"
  ct_roles :: "role_name set"
  ct_executes :: "(function_name \<times> grantee) set"
  ct_members :: "(role_name \<times> grantee) set"
  ct_extensions :: "extension_name set"

definition empty_catalog :: catalog where
  "empty_catalog = \<lparr>ct_tables = [], ct_functions = [], ct_roles = {}, ct_executes = {}, ct_members = {},
     ct_extensions = {}\<rparr>"

section \<open>Statements\<close>

datatype ddl =
    Create_extension extension_name
  | Drop_extension extension_name
  | Create_table table_name "element list"
  | Drop_tables "table_name list"
  | Add_column table_name column
  | Drop_column table_name column_name
  | Add_constraint object_name table_name constraint_def
  | Drop_constraint object_name table_name
  | Create_index table_name index_def
  | Drop_index object_name
  | Enable_rls table_name
  | Disable_rls table_name
  | Force_rls table_name
  | Create_policy table_name policy_name condition
  | Drop_policy_if_exists table_name policy_name
  | Create_trigger table_name trigger_def
  | Drop_trigger bool object_name table_name
  | Create_function bool function_name function_def
  | Drop_function bool function_name
  | Revoke_public function_name
  | Grant_execute function_name role_name
  | Create_role role_name
  | Drop_role bool role_name
  | Grant_role role_name
  | Revoke_role role_name

text \<open>
  The boolean of \<open>Create_function\<close> is \<open>OR REPLACE\<close>, that of the others \<open>IF EXISTS\<close>.
\<close>

datatype ddl_error =
    Duplicate_table table_name | Duplicate_column column_name | Duplicate_object object_name
  | Duplicate_policy policy_name | Duplicate_function function_name | Duplicate_role role_name
  | Undefined_table table_name | Undefined_column column_name | Undefined_object object_name
  | Undefined_function function_name | Undefined_role role_name | Unready_table table_name
  | Table_needed table_name | Column_needed column_name | Object_needed object_name
  | Function_needed function_name | Role_needed role_name | Extension_needed extension_name

definition columns_of :: "element list \<Rightarrow> column list" where
  "columns_of es = concat (map (\<lambda>e. case e of Col c \<Rightarrow> [c] | Con n k \<Rightarrow> []) es)"

definition constraints_of :: "element list \<Rightarrow> (object_name option \<times> constraint_def) list" where
  "constraints_of es = concat (map (\<lambda>e. case e of Col c \<Rightarrow> [] | Con n k \<Rightarrow> [(n, k)]) es)"

definition column_names :: "table_def \<Rightarrow> column_name list" where
  "column_names td = map co_name (tb_columns td)"

text \<open>
  The operations inspect the catalog by functions that recurse over its lists and decide on evaluated
  arguments, so that a run of the migrations can be computed.  \<open>refuse\<close> is a check before a result.
\<close>

fun refuse :: "bool \<Rightarrow> 'e \<Rightarrow> 'e + 'a \<Rightarrow> 'e + 'a" where
  "refuse True e r = Inl e"
| "refuse False e r = r"

fun keep_front :: "'a \<Rightarrow> 'e + 'a list \<Rightarrow> 'e + 'a list" where
  "keep_front x (Inl e) = Inl e"
| "keep_front x (Inr xs) = Inr (x # xs)"

text \<open>Indexes and the indexes of unique constraints share their names.\<close>

fun index_of :: "constraint_def \<Rightarrow> object_name option \<Rightarrow> object_name option" where
  "index_of (Primary_key cs) n = n"
| "index_of (Unique_key cs) n = n"
| "index_of (Exclusion cs e) n = n"
| "index_of (Check_that cs e) n = None"
| "index_of (Foreign_key cs p ps) n = None"

fun index_among :: "object_name \<Rightarrow> index_def list \<Rightarrow> bool" where
  "index_among r [] = False"
| "index_among r (i # is) = (ix_name i = r \<or> index_among r is)"

fun makes_index :: "constraint_def \<Rightarrow> bool" where
  "makes_index (Primary_key cs) = True"
| "makes_index (Unique_key cs) = True"
| "makes_index (Exclusion cs e) = True"
| "makes_index (Check_that cs e) = False"
| "makes_index (Foreign_key cs p ps) = False"

definition indexed_by :: "object_name \<Rightarrow> (object_name option \<times> constraint_def) set \<Rightarrow> bool" where
  "indexed_by r ks \<longleftrightarrow> (\<exists>k \<in> ks. fst k = Some r \<and> makes_index (snd k))"

fun indexed_among :: "object_name \<Rightarrow> (object_name option \<times> constraint_def) list \<Rightarrow> bool" where
  "indexed_among r [] = False"
| "indexed_among r ((None, k) # ks) = indexed_among r ks"
| "indexed_among r ((Some n, k) # ks) = (n = r \<and> makes_index k \<or> indexed_among r ks)"

lemma indexed_by_code [code]: "indexed_by r (set ks) = indexed_among r ks"
  by (induction r ks rule: indexed_among.induct) (auto simp: indexed_by_def)

fun relation_exists :: "object_name \<Rightarrow> table_list \<Rightarrow> bool" where
  "relation_exists r [] = False"
| "relation_exists r ((t, td) # ts) =
     (index_among r (tb_indexes td) \<or> indexed_by r (tb_constraints td) \<or> relation_exists r ts)"

fun table_exists :: "table_name \<Rightarrow> table_list \<Rightarrow> bool" where
  "table_exists t [] = False"
| "table_exists t ((n, td) # ts) = (n = t \<or> table_exists t ts)"

fun constraint_columns :: "constraint_def \<Rightarrow> column_name list" where
  "constraint_columns (Primary_key cs) = cs"
| "constraint_columns (Unique_key cs) = cs"
| "constraint_columns (Check_that cs e) = cs"
| "constraint_columns (Foreign_key cs p ps) = cs"
| "constraint_columns (Exclusion cs e) = cs"

fun is_key :: "column_name list \<Rightarrow> constraint_def \<Rightarrow> bool" where
  "is_key cs (Primary_key ks) = (set ks = set cs)"
| "is_key cs (Unique_key ks) = (set ks = set cs)"
| "is_key cs _ = False"

fun refers_to :: "table_name list \<Rightarrow> constraint_def \<Rightarrow> bool" where
  "refers_to ts (Foreign_key cs p ps) = (p \<in> set ts)"
| "refers_to ts _ = False"

fun key_referred :: "table_name \<Rightarrow> constraint_def \<Rightarrow> constraint_def \<Rightarrow> bool" where
  "key_referred t k (Foreign_key cs p ps) = (p = t \<and> is_key ps k)"
| "key_referred t k _ = False"

text \<open>What a constraint needs: a foreign key a key of its parent, \<open>gist\<close> over scalars its extension.\<close>

fun has_key :: "table_name \<Rightarrow> column_name list \<Rightarrow> table_list \<Rightarrow> bool"
  and key_here :: "bool \<Rightarrow> table_def \<Rightarrow> table_name \<Rightarrow> column_name list \<Rightarrow> table_list \<Rightarrow> bool" where
  "has_key p ps [] = False"
| "has_key p ps ((t, td) # ts) = key_here (t = p) td p ps ts"
| "key_here True td p ps ts = (\<exists>k \<in> tb_constraints td. is_key ps (snd k))"
| "key_here False td p ps ts = has_key p ps ts"

fun extension_of_type :: "sql_type \<Rightarrow> extension_name option" where
  "extension_of_type (Vector n) = Some Vector_extension"
| "extension_of_type _ = None"

fun extension_of_constraint :: "constraint_def \<Rightarrow> extension_name option" where
  "extension_of_constraint (Exclusion cs e) = Some Btree_gist"
| "extension_of_constraint _ = None"

fun provides :: "extension_name set \<Rightarrow> extension_name option \<Rightarrow> bool" where
  "provides es None = True"
| "provides es (Some e) = (e \<in> es)"

fun parent_ready :: "table_list \<Rightarrow> constraint_def \<Rightarrow> bool" where
  "parent_ready ts (Foreign_key cs p ps) = has_key p ps ts"
| "parent_ready ts _ = True"

fun name_taken :: "table_list \<Rightarrow> object_name option \<Rightarrow> bool" where
  "name_taken ts None = False"
| "name_taken ts (Some n) = relation_exists n ts"

fun elements_ready :: "extension_name set \<Rightarrow> table_list \<Rightarrow> element list \<Rightarrow> bool" where
  "elements_ready es ts [] = True"
| "elements_ready es ts (Col co # xs) = (provides es (extension_of_type (co_type co)) \<and> elements_ready es ts xs)"
| "elements_ready es ts (Con n k # xs) = (provides es (extension_of_constraint k) \<and> parent_ready ts k \<and>
     \<not> name_taken ts (index_of k n) \<and> elements_ready es ts xs)"

definition uses_extension :: "extension_name \<Rightarrow> table_def \<Rightarrow> bool" where
  "uses_extension e td \<longleftrightarrow> (\<exists>co \<in> set (tb_columns td). extension_of_type (co_type co) = Some e) \<or>
     (\<exists>k \<in> tb_constraints td. extension_of_constraint (snd k) = Some e)"

fun extension_used :: "extension_name \<Rightarrow> table_list \<Rightarrow> bool" where
  "extension_used e [] = False"
| "extension_used e ((t, td) # ts) = (uses_extension e td \<or> extension_used e ts)"

text \<open>A statement about one table.\<close>

fun stored_at :: "table_name \<Rightarrow> ddl_error + table_def \<Rightarrow> table_list \<Rightarrow> ddl_error + table_list" where
  "stored_at t (Inl e) ts = Inl e"
| "stored_at t (Inr td) ts = Inr ((t, td) # ts)"

fun update_table :: "table_name \<Rightarrow> (table_def \<Rightarrow> ddl_error + table_def) \<Rightarrow> table_list \<Rightarrow>
    ddl_error + table_list"
  and update_here :: "bool \<Rightarrow> table_name \<Rightarrow> table_def \<Rightarrow> table_name \<Rightarrow> (table_def \<Rightarrow> ddl_error + table_def) \<Rightarrow>
    table_list \<Rightarrow> ddl_error + table_list" where
  "update_table t f [] = Inl (Undefined_table t)"
| "update_table t f ((n, td) # ts) = update_here (n = t) n td t f ts"
| "update_here True n td t f ts = stored_at n (f td) ts"
| "update_here False n td t f ts = keep_front (n, td) (update_table t f ts)"

definition set_tables :: "table_list \<Rightarrow> catalog \<Rightarrow> catalog" where
  "set_tables ts c = c\<lparr>ct_tables := ts\<rparr>"

lemma set_tables_code [code]:
  "set_tables ts c = \<lparr>ct_tables = ts, ct_functions = ct_functions c, ct_roles = ct_roles c,
     ct_executes = ct_executes c, ct_members = ct_members c, ct_extensions = ct_extensions c\<rparr>"
  by (simp add: set_tables_def)

fun with_tables :: "catalog \<Rightarrow> ddl_error + table_list \<Rightarrow> ddl_error + catalog" where
  "with_tables c (Inl e) = Inl e"
| "with_tables c (Inr ts) = Inr (set_tables ts c)"

definition on_table :: "table_name \<Rightarrow> (table_def \<Rightarrow> ddl_error + table_def) \<Rightarrow> catalog \<Rightarrow> ddl_error + catalog" where
  "on_table t f c = with_tables c (update_table t f (ct_tables c))"

definition create_table :: "table_name \<Rightarrow> element list \<Rightarrow> catalog \<Rightarrow> ddl_error + catalog" where
  "create_table t es c =
     refuse (table_exists t (ct_tables c)) (Duplicate_table t)
       (refuse (\<not> distinct (map co_name (columns_of es))) (Duplicate_table t)
         (refuse (\<not> elements_ready (ct_extensions c) (ct_tables c) es) (Unready_table t)
           (Inr (set_tables ((t, \<lparr>tb_columns = columns_of es, tb_constraints = set (constraints_of es), tb_indexes = [],
              tb_triggers = {}, tb_policies = [], tb_rls = False, tb_forced = False\<rparr>) # ct_tables c) c))))"

text \<open>
  A table goes with its indexes, triggers, policies and constraints.  Foreign keys of other tables and
  functions that return its rows keep it.
\<close>

fun without_tables :: "table_name list \<Rightarrow> table_list \<Rightarrow> table_list"
  and without_here :: "bool \<Rightarrow> table_name \<times> table_def \<Rightarrow> table_name list \<Rightarrow> table_list \<Rightarrow> table_list" where
  "without_tables ts [] = []"
| "without_tables ts ((n, td) # xs) = without_here (n \<in> set ts) (n, td) ts xs"
| "without_here True x ts xs = without_tables ts xs"
| "without_here False x ts xs = x # without_tables ts xs"

definition refers_into :: "table_name list \<Rightarrow> (object_name option \<times> constraint_def) set \<Rightarrow> bool" where
  "refers_into ts ks \<longleftrightarrow> (\<exists>k \<in> ks. refers_to ts (snd k))"

fun refers_among :: "table_name list \<Rightarrow> (object_name option \<times> constraint_def) list \<Rightarrow> bool" where
  "refers_among ts [] = False"
| "refers_among ts ((n, k) # ks) = (refers_to ts k \<or> refers_among ts ks)"

lemma refers_into_code [code]: "refers_into ts (set ks) = refers_among ts ks"
  by (induction ts ks rule: refers_among.induct) (auto simp: refers_into_def)

fun referred_by :: "table_name list \<Rightarrow> table_list \<Rightarrow> bool" where
  "referred_by ts [] = False"
| "referred_by ts ((n, td) # xs) = (refers_into ts (tb_constraints td) \<or> referred_by ts xs)"

fun rows_returned :: "table_name list \<Rightarrow> table_name option \<Rightarrow> bool" where
  "rows_returned ts None = False"
| "rows_returned ts (Some t) = (t \<in> set ts)"

definition drop_tables :: "table_name list \<Rightarrow> catalog \<Rightarrow> ddl_error + catalog" where
  "drop_tables ts c =
     refuse (\<not> set ts \<subseteq> set (map fst (ct_tables c))) (Undefined_table (hd ts))
       (refuse (referred_by ts (without_tables ts (ct_tables c))) (Table_needed (hd ts))
         (refuse (list_ex (\<lambda>f. rows_returned ts (fd_rows_of (snd f))) (ct_functions c)) (Table_needed (hd ts))
           (Inr (set_tables (without_tables ts (ct_tables c)) c))))"

definition add_column :: "column \<Rightarrow> table_def \<Rightarrow> ddl_error + table_def" where
  "add_column co td = refuse (co_name co \<in> set (column_names td)) (Duplicate_column (co_name co))
     (Inr (td\<lparr>tb_columns := tb_columns td @ [co]\<rparr>))"

text \<open>
  A column goes with the constraints and indexes over it, and a constraint goes, unless a foreign key
  refers to one of the keys.
\<close>

definition refers_keys :: "table_name \<Rightarrow> constraint_def set \<Rightarrow> (object_name option \<times> constraint_def) set \<Rightarrow> bool" where
  "refers_keys t ks rs \<longleftrightarrow> (\<exists>r \<in> rs. \<exists>k \<in> ks. key_referred t k (snd r))"

fun refers_keys_among :: "table_name \<Rightarrow> constraint_def set \<Rightarrow> (object_name option \<times> constraint_def) list \<Rightarrow> bool" where
  "refers_keys_among t ks [] = False"
| "refers_keys_among t ks ((n, Foreign_key cs p ps) # rs) =
     ((p = t \<and> (\<exists>k \<in> ks. is_key ps k)) \<or> refers_keys_among t ks rs)"
| "refers_keys_among t ks ((n, k) # rs) = refers_keys_among t ks rs"

lemma refers_keys_code [code]: "refers_keys t ks (set rs) = refers_keys_among t ks rs"
proof (induction t ks rs rule: refers_keys_among.induct)
  case (2 t ks n cs p ps rs)
  then show ?case by (cases "p = t") (auto simp: refers_keys_def)
qed (auto simp: refers_keys_def)

fun keys_referred :: "table_name \<Rightarrow> constraint_def set \<Rightarrow> table_list \<Rightarrow> bool" where
  "keys_referred t ks [] = False"
| "keys_referred t ks ((n, td) # xs) = (refers_keys t ks (tb_constraints td) \<or> keys_referred t ks xs)"

fun constraints_here :: "bool \<Rightarrow> table_def \<Rightarrow> (object_name option \<times> constraint_def) set" where
  "constraints_here True td = tb_constraints td"
| "constraints_here False td = {}"

fun constraints_at :: "table_name \<Rightarrow> table_list \<Rightarrow> (object_name option \<times> constraint_def) set" where
  "constraints_at t [] = {}"
| "constraints_at t ((n, td) # xs) = constraints_here (n = t) td \<union> constraints_at t xs"

definition remove_column :: "column_name \<Rightarrow> table_def \<Rightarrow> ddl_error + table_def" where
  "remove_column n td = refuse (n \<notin> set (column_names td)) (Undefined_column n)
     (Inr (td\<lparr>tb_columns := filter (\<lambda>co. co_name co \<noteq> n) (tb_columns td),
        tb_constraints := Set.filter (\<lambda>k. n \<notin> set (constraint_columns (snd k))) (tb_constraints td),
        tb_indexes := filter (\<lambda>i. n \<notin> set (ix_columns i)) (tb_indexes td)\<rparr>))"

definition drop_column :: "table_name \<Rightarrow> column_name \<Rightarrow> catalog \<Rightarrow> ddl_error + catalog" where
  "drop_column t n c =
     refuse (keys_referred t (snd ` Set.filter (\<lambda>k. n \<in> set (constraint_columns (snd k))) (constraints_at t (ct_tables c)))
         (ct_tables c)) (Column_needed n)
       (on_table t (remove_column n) c)"

definition insert_constraint :: "object_name \<Rightarrow> constraint_def \<Rightarrow> table_def \<Rightarrow> ddl_error + table_def" where
  "insert_constraint n k td = refuse (Some n \<in> fst ` tb_constraints td) (Duplicate_object n)
     (refuse (\<not> set (constraint_columns k) \<subseteq> set (column_names td)) (Undefined_object n)
       (Inr (td\<lparr>tb_constraints := insert (Some n, k) (tb_constraints td)\<rparr>)))"

definition add_constraint :: "table_name \<Rightarrow> object_name \<Rightarrow> constraint_def \<Rightarrow> catalog \<Rightarrow> ddl_error + catalog" where
  "add_constraint t n k c = refuse (\<not> elements_ready (ct_extensions c) (ct_tables c) [Con (Some n) k]) (Unready_table t)
     (on_table t (insert_constraint n k) c)"

definition remove_constraint :: "object_name \<Rightarrow> table_def \<Rightarrow> ddl_error + table_def" where
  "remove_constraint n td = refuse (Some n \<notin> fst ` tb_constraints td) (Undefined_object n)
     (Inr (td\<lparr>tb_constraints := Set.filter (\<lambda>x. fst x \<noteq> Some n) (tb_constraints td)\<rparr>))"

definition drop_constraint :: "object_name \<Rightarrow> table_name \<Rightarrow> catalog \<Rightarrow> ddl_error + catalog" where
  "drop_constraint n t c =
     refuse (keys_referred t (snd ` Set.filter (\<lambda>k. fst k = Some n) (constraints_at t (ct_tables c))) (ct_tables c))
       (Object_needed n) (on_table t (remove_constraint n) c)"

definition insert_index :: "index_def \<Rightarrow> table_def \<Rightarrow> ddl_error + table_def" where
  "insert_index i td = refuse (\<not> set (ix_columns i) \<subseteq> set (column_names td)) (Undefined_object (ix_name i))
     (Inr (td\<lparr>tb_indexes := tb_indexes td @ [i]\<rparr>))"

definition create_index :: "table_name \<Rightarrow> index_def \<Rightarrow> catalog \<Rightarrow> ddl_error + catalog" where
  "create_index t i c = refuse (relation_exists (ix_name i) (ct_tables c)) (Duplicate_object (ix_name i))
     (on_table t (insert_index i) c)"

definition remove_index :: "object_name \<Rightarrow> table_def \<Rightarrow> table_def" where
  "remove_index n td = td\<lparr>tb_indexes := filter (\<lambda>i. ix_name i \<noteq> n) (tb_indexes td)\<rparr>"

fun index_exists :: "object_name \<Rightarrow> table_list \<Rightarrow> bool" where
  "index_exists n [] = False"
| "index_exists n ((t, td) # ts) = (index_among n (tb_indexes td) \<or> index_exists n ts)"

fun without_index :: "object_name \<Rightarrow> table_list \<Rightarrow> table_list" where
  "without_index n [] = []"
| "without_index n ((t, td) # ts) = (t, remove_index n td) # without_index n ts"

definition drop_index :: "object_name \<Rightarrow> catalog \<Rightarrow> ddl_error + catalog" where
  "drop_index n c = refuse (\<not> index_exists n (ct_tables c)) (Undefined_object n)
     (Inr (set_tables (without_index n (ct_tables c)) c))"

definition create_policy :: "policy_name \<Rightarrow> condition \<Rightarrow> table_def \<Rightarrow> ddl_error + table_def" where
  "create_policy n e td = refuse (n \<in> set (map fst (tb_policies td))) (Duplicate_policy n)
     (Inr (td\<lparr>tb_policies := tb_policies td @ [(n, e)]\<rparr>))"

definition insert_trigger :: "trigger_def \<Rightarrow> table_def \<Rightarrow> ddl_error + table_def" where
  "insert_trigger g td = refuse (tg_name g \<in> tg_name ` tb_triggers td) (Duplicate_object (tg_name g))
     (Inr (td\<lparr>tb_triggers := insert g (tb_triggers td)\<rparr>))"

definition create_trigger :: "table_name \<Rightarrow> trigger_def \<Rightarrow> catalog \<Rightarrow> ddl_error + catalog" where
  "create_trigger t g c = refuse (tg_function g \<notin> set (map fst (ct_functions c))) (Undefined_function (tg_function g))
     (on_table t (insert_trigger g) c)"

definition drop_trigger :: "bool \<Rightarrow> object_name \<Rightarrow> table_def \<Rightarrow> ddl_error + table_def" where
  "drop_trigger if_exists n td = refuse (n \<notin> tg_name ` tb_triggers td \<and> \<not> if_exists) (Undefined_object n)
     (Inr (td\<lparr>tb_triggers := Set.filter (\<lambda>x. tg_name x \<noteq> n) (tb_triggers td)\<rparr>))"

text \<open>A new function may be executed by all; a replaced one keeps its privileges.\<close>

fun define_function :: "bool \<Rightarrow> function_name \<Rightarrow> function_def \<Rightarrow> catalog \<Rightarrow> catalog" where
  "define_function True f d c = c\<lparr>ct_functions := map (\<lambda>x. if fst x = f then (f, d) else x) (ct_functions c)\<rparr>"
| "define_function False f d c =
     c\<lparr>ct_functions := ct_functions c @ [(f, d)], ct_executes := insert (f, Public) (ct_executes c)\<rparr>"

fun rows_known :: "table_name list \<Rightarrow> table_name option \<Rightarrow> bool" where
  "rows_known ts None = True"
| "rows_known ts (Some t) = (t \<in> set ts)"

definition create_function :: "bool \<Rightarrow> function_name \<Rightarrow> function_def \<Rightarrow> catalog \<Rightarrow> ddl_error + catalog" where
  "create_function replace f d c =
     refuse (f \<in> set (map fst (ct_functions c)) \<and> \<not> replace) (Duplicate_function f)
       (refuse (\<not> rows_known (map fst (ct_tables c)) (fd_rows_of d)) (Undefined_function f)
         (Inr (define_function (f \<in> set (map fst (ct_functions c))) f d c)))"

fun trigger_runs :: "function_name \<Rightarrow> table_list \<Rightarrow> bool" where
  "trigger_runs f [] = False"
| "trigger_runs f ((t, td) # ts) = (f \<in> tg_function ` tb_triggers td \<or> trigger_runs f ts)"

definition drop_function :: "bool \<Rightarrow> function_name \<Rightarrow> catalog \<Rightarrow> ddl_error + catalog" where
  "drop_function if_exists f c =
     refuse (f \<notin> set (map fst (ct_functions c)) \<and> \<not> if_exists) (Undefined_function f)
       (refuse (trigger_runs f (ct_tables c)) (Function_needed f)
         (Inr (c\<lparr>ct_functions := filter (\<lambda>x. fst x \<noteq> f) (ct_functions c),
            ct_executes := Set.filter (\<lambda>x. fst x \<noteq> f) (ct_executes c)\<rparr>)))"

definition drop_role :: "bool \<Rightarrow> role_name \<Rightarrow> catalog \<Rightarrow> ddl_error + catalog" where
  "drop_role if_exists r c = refuse (r \<notin> ct_roles c \<and> \<not> if_exists) (Undefined_role r)
     (refuse (r \<in> ct_roles c \<and> Role_named r \<in> snd ` ct_executes c) (Role_needed r)
       (Inr (c\<lparr>ct_roles := Set.remove r (ct_roles c), ct_members := Set.filter (\<lambda>x. fst x \<noteq> r) (ct_members c)\<rparr>)))"

fun run_ddl :: "ddl \<Rightarrow> catalog \<Rightarrow> ddl_error + catalog" where
  "run_ddl (Create_extension e) c = Inr (c\<lparr>ct_extensions := insert e (ct_extensions c)\<rparr>)"
| "run_ddl (Drop_extension e) c = refuse (extension_used e (ct_tables c)) (Extension_needed e)
     (Inr (c\<lparr>ct_extensions := Set.remove e (ct_extensions c)\<rparr>))"
| "run_ddl (Create_table t es) c = create_table t es c"
| "run_ddl (Drop_tables ts) c = drop_tables ts c"
| "run_ddl (Add_column t co) c = on_table t (add_column co) c"
| "run_ddl (Drop_column t n) c = drop_column t n c"
| "run_ddl (Add_constraint n t k) c = add_constraint t n k c"
| "run_ddl (Drop_constraint n t) c = drop_constraint n t c"
| "run_ddl (Create_index t i) c = create_index t i c"
| "run_ddl (Drop_index n) c = drop_index n c"
| "run_ddl (Enable_rls t) c = on_table t (\<lambda>td. Inr (td\<lparr>tb_rls := True\<rparr>)) c"
| "run_ddl (Disable_rls t) c = on_table t (\<lambda>td. Inr (td\<lparr>tb_rls := False\<rparr>)) c"
| "run_ddl (Force_rls t) c = on_table t (\<lambda>td. Inr (td\<lparr>tb_forced := True\<rparr>)) c"
| "run_ddl (Create_policy t n e) c = on_table t (create_policy n e) c"
| "run_ddl (Drop_policy_if_exists t n) c =
     on_table t (\<lambda>td. Inr (td\<lparr>tb_policies := filter (\<lambda>x. fst x \<noteq> n) (tb_policies td)\<rparr>)) c"
| "run_ddl (Create_trigger t g) c = create_trigger t g c"
| "run_ddl (Drop_trigger if_exists n t) c = on_table t (drop_trigger if_exists n) c"
| "run_ddl (Create_function replace f d) c = create_function replace f d c"
| "run_ddl (Drop_function if_exists f) c = drop_function if_exists f c"
| "run_ddl (Revoke_public f) c = refuse (f \<notin> set (map fst (ct_functions c))) (Undefined_function f)
     (Inr (c\<lparr>ct_executes := Set.remove (f, Public) (ct_executes c)\<rparr>))"
| "run_ddl (Grant_execute f r) c = refuse (f \<notin> set (map fst (ct_functions c))) (Undefined_function f)
     (refuse (r \<notin> ct_roles c) (Undefined_role r) (Inr (c\<lparr>ct_executes := insert (f, Role_named r) (ct_executes c)\<rparr>)))"
| "run_ddl (Create_role r) c = refuse (r \<in> ct_roles c) (Duplicate_role r) (Inr (c\<lparr>ct_roles := insert r (ct_roles c)\<rparr>))"
| "run_ddl (Drop_role if_exists r) c = drop_role if_exists r c"
| "run_ddl (Grant_role r) c = refuse (r \<notin> ct_roles c) (Undefined_role r)
     (Inr (c\<lparr>ct_members := insert (r, Current_user) (ct_members c)\<rparr>))"
| "run_ddl (Revoke_role r) c = refuse (r \<notin> ct_roles c) (Undefined_role r)
     (Inr (c\<lparr>ct_members := Set.remove (r, Current_user) (ct_members c)\<rparr>))"

fun execute_all :: "ddl list \<Rightarrow> catalog \<Rightarrow> ddl_error + catalog"
  and execute_rest :: "ddl_error + catalog \<Rightarrow> ddl list \<Rightarrow> ddl_error + catalog" where
  "execute_all [] c = Inr c"
| "execute_all (d # ds) c = execute_rest (run_ddl d c) ds"
| "execute_rest (Inl e) ds = Inl e"
| "execute_rest (Inr c) ds = execute_all ds c"

section \<open>An extension that stays\<close>

text \<open>
  A database with \<open>btree_gist\<close> runs the statements that are not about it as one without.
\<close>

definition with_gist :: "catalog \<Rightarrow> catalog" where
  "with_gist c = c\<lparr>ct_extensions := insert Btree_gist (ct_extensions c)\<rparr>"

fun about_gist :: "ddl \<Rightarrow> bool" where
  "about_gist (Create_table t es) = list_ex (\<lambda>k. extension_of_constraint (snd k) \<noteq> None) (constraints_of es)"
| "about_gist (Add_constraint n t k) = (extension_of_constraint k \<noteq> None)"
| "about_gist (Create_extension e) = (e = Btree_gist)"
| "about_gist (Drop_extension e) = (e = Btree_gist)"
| "about_gist _ = False"

fun through :: "('a \<Rightarrow> 'b) \<Rightarrow> 'e + 'a \<Rightarrow> 'e + 'b" where
  "through f (Inl e) = Inl e"
| "through f (Inr x) = Inr (f x)"

lemma with_gist_simps [simp]:
  "ct_tables (with_gist c) = ct_tables c" "ct_functions (with_gist c) = ct_functions c"
  "ct_roles (with_gist c) = ct_roles c" "ct_executes (with_gist c) = ct_executes c"
  "ct_members (with_gist c) = ct_members c"
  "ct_extensions (with_gist c) = insert Btree_gist (ct_extensions c)"
  "with_gist (with_gist c) = with_gist c"
  by (simp_all add: with_gist_def)

lemma with_gist_updates [simp]:
  "(with_gist c)\<lparr>ct_tables := ts\<rparr> = with_gist (c\<lparr>ct_tables := ts\<rparr>)"
  "(with_gist c)\<lparr>ct_functions := fs\<rparr> = with_gist (c\<lparr>ct_functions := fs\<rparr>)"
  "(with_gist c)\<lparr>ct_roles := rs\<rparr> = with_gist (c\<lparr>ct_roles := rs\<rparr>)"
  "(with_gist c)\<lparr>ct_executes := es\<rparr> = with_gist (c\<lparr>ct_executes := es\<rparr>)"
  "(with_gist c)\<lparr>ct_members := ms\<rparr> = with_gist (c\<lparr>ct_members := ms\<rparr>)"
  "(with_gist c)\<lparr>ct_extensions := xs\<rparr> = c\<lparr>ct_extensions := xs\<rparr>"
  "with_gist (c\<lparr>ct_extensions := xs\<rparr>) = c\<lparr>ct_extensions := insert Btree_gist xs\<rparr>"
  by (cases c; simp add: with_gist_def)+

lemma set_tables_gist [simp]: "set_tables ts (with_gist c) = with_gist (set_tables ts c)"
  by (simp add: set_tables_def)

lemma with_gist_id: "Btree_gist \<in> ct_extensions c \<Longrightarrow> with_gist c = c"
  by (simp add: with_gist_def insert_absorb)

lemma refuse_through [simp]: "through f (refuse b e r) = refuse b e (through f r)"
  by (cases b) simp_all

lemma provides_type [simp]: "provides (insert Btree_gist es) (extension_of_type t) = provides es (extension_of_type t)"
  by (cases t) simp_all

lemma elements_ready_gist:
  "list_all (\<lambda>k. extension_of_constraint (snd k) = None) (constraints_of xs) \<Longrightarrow>
   elements_ready (insert Btree_gist es) ts xs = elements_ready es ts xs"
  by (induction es ts xs rule: elements_ready.induct) (auto simp: constraints_of_def)

lemma on_table_gist: "on_table t f (with_gist c) = through with_gist (on_table t f c)"
  by (cases "update_table t f (ct_tables c)") (simp_all add: on_table_def)

lemma run_ddl_gist: "\<not> about_gist d \<Longrightarrow> run_ddl d (with_gist c) = through with_gist (run_ddl d c)"
proof (induction d c rule: run_ddl.induct)
  case (3 t es c)
  then have "elements_ready (insert Btree_gist (ct_extensions c)) (ct_tables c) es =
      elements_ready (ct_extensions c) (ct_tables c) es"
    by (intro elements_ready_gist) (auto simp: list_all_iff list_ex_iff)
  then show ?case by (simp add: create_table_def)
next
  case (7 n t k c)
  then have "elements_ready (insert Btree_gist (ct_extensions c)) (ct_tables c) [Con (Some n) k] =
      elements_ready (ct_extensions c) (ct_tables c) [Con (Some n) k]"
    by (intro elements_ready_gist) (simp add: constraints_of_def)
  then show ?case by (simp add: add_constraint_def on_table_gist del: elements_ready.simps)
next
  case (18 r f d c)
  show ?case by (cases "f \<in> set (map fst (ct_functions c))") (simp_all add: create_function_def)
qed (auto simp: drop_tables_def drop_column_def drop_constraint_def create_index_def drop_index_def
    create_trigger_def drop_function_def drop_role_def on_table_gist insert_commute insert_Diff_if)

lemma execute_all_gist:
  "list_all (\<lambda>d. \<not> about_gist d) ds \<Longrightarrow> execute_all ds (with_gist c) = through with_gist (execute_all ds c)"
proof (induction ds arbitrary: c)
  case (Cons d ds)
  then show ?case by (cases "run_ddl d c") (simp_all add: run_ddl_gist)
qed simp

end
