(* ===== verification/Migrations.thy ===== *)
theory Migrations
  imports Catalog
begin

text \<open>
  The migrations 0001 to 0009 of \<open>apps/api/migrations/versions\<close> as statements on the catalog, in the
  order the code executes them, and the commands that run them (\<open>apps/api/migrations/env.py\<close>,
  \<open>scripts/validate_migrations.py\<close>).
\<close>

section \<open>Columns and shared statements\<close>

definition column_of :: "column_name \<Rightarrow> sql_type \<Rightarrow> element" where
  "column_of n t = Col \<lparr>co_name = n, co_type = t, co_null = False, co_default = None\<rparr>"

definition nullable :: "column_name \<Rightarrow> sql_type \<Rightarrow> element" where
  "nullable n t = Col \<lparr>co_name = n, co_type = t, co_null = True, co_default = None\<rparr>"

definition defaulted :: "column_name \<Rightarrow> sql_type \<Rightarrow> default_value \<Rightarrow> element" where
  "defaulted n t d = Col \<lparr>co_name = n, co_type = t, co_null = False, co_default = Some d\<rparr>"

definition refers_id :: "column_name \<Rightarrow> table_name \<Rightarrow> element" where
  "refers_id n parent = Con None (Foreign_key [n] parent [Id])"

definition unique_named :: "object_name \<Rightarrow> column_name list \<Rightarrow> element" where
  "unique_named n cs = Con (Some n) (Unique_key cs)"

definition check_named :: "object_name \<Rightarrow> column_name list \<Rightarrow> condition \<Rightarrow> element" where
  "check_named n cs e = Con (Some n) (Check_that cs e)"

definition refers_tenant :: "object_name \<Rightarrow> column_name \<Rightarrow> table_name \<Rightarrow> element" where
  "refers_tenant n child parent = Con (Some n) (Foreign_key [Tenant_id, child] parent [Tenant_id, Id])"

definition id_columns :: "element list" where
  "id_columns = [column_of Id Uuid, Con None (Primary_key [Id]), column_of (At Created_at) Timestamptz]"

definition tenant_column :: "element list" where
  "tenant_column = [column_of Tenant_id Uuid, refers_id Tenant_id Tenants]"

definition external_columns :: "element list" where
  "external_columns = [column_of (Item Provider) (Varchar 64), column_of (Ref External_id) (Varchar 255)]"

definition money_columns :: "element list" where
  "money_columns = [column_of (Num Amount_minor) BigInteger, column_of (Tag Currency) (Varchar 3)]"

definition external_unique :: "object_name \<Rightarrow> element" where
  "external_unique n = unique_named n [Tenant_id, Item Provider, Ref External_id]"

definition tenant_policy :: "table_name \<Rightarrow> ddl" where
  "tenant_policy t = Create_policy t Tenant_isolation (Is_tenant_setting Tenant_id)"

definition tenant_trigger :: "table_name \<Rightarrow> ddl" where
  "tenant_trigger t = Create_trigger t \<lparr>tg_name = Trg_tenant_immutable t,
     tg_events = Before_update_of_tenant_id, tg_function = Reject_tenant_change_fn\<rparr>"

definition plain_index :: "object_name \<Rightarrow> table_name \<Rightarrow> column_name list \<Rightarrow> ddl" where
  "plain_index n t cs = Create_index t \<lparr>ix_name = n, ix_columns = cs, ix_unique = False, ix_where = None\<rparr>"

definition trigger_routine :: "routine \<Rightarrow> function_def" where
  "trigger_routine r = \<lparr>fd_body = r, fd_rows_of = None, fd_definer = False\<rparr>"

section \<open>0001: the tenant-isolated schema\<close>

definition tables_0001 :: "ddl list" where
  "tables_0001 =
    [Create_table Tenants (id_columns @ [column_of (Item Name) (Varchar 200)]),
     Create_table Users (id_columns @ [column_of (Item Email) (Varchar 320), Con None (Unique_key [Item Email])]),
     Create_table Memberships (id_columns @ tenant_column @
       [column_of (Ref User_id) Uuid, refers_id (Ref User_id) Users, column_of (Tag Role) (Varchar 32),
        column_of (Tag Status) (Varchar 16), unique_named (Uq Uq_memberships_tenant_user) [Tenant_id, Ref User_id]]),
     Create_table Contacts (id_columns @ tenant_column @ external_columns @
       [column_of (Item Display_name) (Varchar 200), nullable (Item Email) (Varchar 320),
        external_unique (Uq_external Contacts)]),
     Create_table Conversations (id_columns @ tenant_column @ external_columns @
       [nullable (Ref Contact_id) Uuid, refers_id (Ref Contact_id) Contacts, nullable (Item Subject) (Varchar 500),
        external_unique (Uq_external Conversations)]),
     Create_table Knowledge_documents (id_columns @ tenant_column @ external_columns @
       [column_of (Item Title) (Varchar 500), external_unique (Uq_external Knowledge_documents)]),
     Create_table Knowledge_chunks (id_columns @ tenant_column @
       [column_of (Ref Document_id) Uuid, refers_id (Ref Document_id) Knowledge_documents,
        column_of (Num Chunk_index) Integer, column_of (Item Content) Text, nullable (Item Embedding) (Vector 1536),
        unique_named (Uq Uq_knowledge_chunks_position) [Tenant_id, Ref Document_id, Num Chunk_index]]),
     Create_table Orders (id_columns @ tenant_column @ external_columns @ money_columns @
       [nullable (Ref Contact_id) Uuid, refers_id (Ref Contact_id) Contacts, column_of (Tag Status) (Varchar 32),
        external_unique (Uq_external Orders)]),
     Create_table Outcomes (id_columns @ tenant_column @ external_columns @
       [nullable (Ref Order_id) Uuid, refers_id (Ref Order_id) Orders, column_of (Tag Kind) (Varchar 64),
        external_unique (Uq_external Outcomes)]),
     Create_table Dispute_evidence (id_columns @ tenant_column @ external_columns @
       [column_of (Ref Order_id) Uuid, refers_id (Ref Order_id) Orders, column_of (Item Object_key) (Varchar 1024),
        external_unique (Uq_external Dispute_evidence)]),
     Create_table Billable_results (id_columns @ tenant_column @ external_columns @ money_columns @
       [column_of (Ref Outcome_id) Uuid, refers_id (Ref Outcome_id) Outcomes,
        external_unique (Uq_external Billable_results)]),
     Create_table Ledger_entries (id_columns @ tenant_column @ external_columns @ money_columns @
       [nullable (Ref Billable_result_id) Uuid, refers_id (Ref Billable_result_id) Billable_results,
        column_of (Tag Direction) (Varchar 8), external_unique (Uq_external Ledger_entries)])]"

definition tenant_tables_0001 :: "table_name list" where
  "tenant_tables_0001 = [Memberships, Contacts, Conversations, Knowledge_documents,
     Knowledge_chunks, Orders, Outcomes, Dispute_evidence, Billable_results, Ledger_entries]"

definition high_risk :: "table_name list" where
  "high_risk = [Contacts, Conversations, Knowledge_chunks, Orders, Outcomes,
     Dispute_evidence, Billable_results, Ledger_entries]"

definition upgrade_0001 :: "ddl list" where
  "upgrade_0001 = [Create_extension Vector_extension] @ tables_0001 @
     map (\<lambda>t. plain_index (Ix_tenant_id t) t [Tenant_id]) tenant_tables_0001 @
     concat (map (\<lambda>t. [Enable_rls t, Force_rls t, tenant_policy t]) high_risk)"

definition downgrade_0001 :: "ddl list" where
  "downgrade_0001 = map (\<lambda>t. Drop_tables [t])
     [Ledger_entries, Billable_results, Dispute_evidence, Outcomes, Orders, Knowledge_chunks,
      Knowledge_documents, Conversations, Contacts, Memberships, Users, Tenants] @
     [Drop_extension Vector_extension]"

section \<open>0002: identities, authorization and audit\<close>

definition roles_0002 :: "string list" where
  "roles_0002 = [''owner'', ''administrator'', ''operator'', ''marketer'', ''analyst'', ''finance'',
     ''dispute_reviewer'', ''external_partner'', ''read_only'']"

definition tenant_tables_0002 :: "table_name list" where
  "tenant_tables_0002 = [Memberships, Contacts, Conversations, Knowledge_documents,
     Knowledge_chunks, Orders, Outcomes, Dispute_evidence, Billable_results, Ledger_entries,
     Invitations, Api_keys, External_grants, Audit_events]"

definition rls_0002 :: "table_name \<Rightarrow> ddl list" where
  "rls_0002 t = [Enable_rls t, Force_rls t, Drop_policy_if_exists t Tenant_isolation, tenant_policy t]"

definition tenant_default :: "column_name \<Rightarrow> sql_type \<Rightarrow> default_value \<Rightarrow> ddl" where
  "tenant_default n t d = Add_column Tenants \<lparr>co_name = n, co_type = t, co_null = False, co_default = Some d\<rparr>"

definition columns_0002 :: "ddl list" where
  "columns_0002 =
    [tenant_default (Tag Country_code) (Varchar 2) (Literal_value ''US''), tenant_default (Tag Currency) (Varchar 3) (Literal_value ''USD''),
     tenant_default (Tag Locale) (Varchar 35) (Literal_value ''en-US''), tenant_default (At Timezone) (Varchar 64) (Literal_value ''UTC''),
     tenant_default (Tag Business_type) (Varchar 32) (Literal_value ''other''), tenant_default (Num Version) Integer (Literal_value ''1''),
     Add_constraint (Ck Ck_tenants_country_code) Tenants (Check_that [Tag Country_code] (Matches (Tag Country_code) ''^[A-Z]{2}$'')),
     Add_constraint (Ck Ck_tenants_currency) Tenants (Check_that [Tag Currency] (Matches (Tag Currency) ''^[A-Z]{3}$'')),
     Add_constraint (Ck Ck_tenants_version) Tenants (Check_that [Num Version] (Positive (Num Version))),
     Add_constraint (Ck Ck_memberships_role) Memberships (Check_that [Tag Role] (One_of (Tag Role) roles_0002))]"

definition tables_0002 :: "ddl list" where
  "tables_0002 =
    [Create_table Oidc_identities (id_columns @
       [column_of (Ref User_id) Uuid, refers_id (Ref User_id) Users, column_of (Item Issuer) (Varchar 512),
        column_of (Item Subject) (Varchar 255), unique_named (Uq Uq_oidc_identity_subject) [Item Issuer, Item Subject]]),
     Create_table Invitations (id_columns @ tenant_column @
       [column_of (Item Email) (Varchar 320), column_of (Tag Role) (Varchar 32), column_of (Num Token_digest) (Varchar 64),
        column_of (Ref Invited_by_user_id) Uuid, refers_id (Ref Invited_by_user_id) Users,
        column_of (At Expires_at) Timestamptz, nullable (At Accepted_at) Timestamptz, nullable (At Revoked_at) Timestamptz,
        unique_named (Uq Uq_invitations_tenant_token) [Tenant_id, Num Token_digest],
        check_named (Ck Ck_invitations_role) [Tag Role] (One_of (Tag Role) roles_0002)]),
     Create_table Api_keys (id_columns @ tenant_column @
       [column_of (Item Name) (Varchar 120), column_of (Item Prefix) (Varchar 21), column_of (Num Key_digest) (Varchar 64),
        column_of (Item Scopes) Jsonb, nullable (At Expires_at) Timestamptz, nullable (At Revoked_at) Timestamptz,
        nullable (At Last_used_at) Timestamptz, unique_named (Uq Uq_api_keys_tenant_prefix) [Tenant_id, Item Prefix]]),
     Create_table External_grants (id_columns @ tenant_column @
       [column_of (Ref Membership_id) Uuid, column_of (Tag Resource_type) (Varchar 32), column_of (Ref Resource_id) Uuid,
        column_of (Item Permissions) Jsonb,
        unique_named (Uq Uq_external_grants_resource) [Tenant_id, Ref Membership_id, Tag Resource_type, Ref Resource_id]]),
     Create_table Audit_events (id_columns @ tenant_column @
       [nullable (Ref Actor_user_id) Uuid, refers_id (Ref Actor_user_id) Users, column_of (Item Action) (Varchar 100),
        column_of (Tag Resource_type) (Varchar 64), nullable (Ref Resource_id) Uuid, column_of (Ref Correlation_id) (Varchar 100),
        column_of (Item Details) Jsonb])]"

definition tenant_key :: "table_name \<Rightarrow> ddl list" where
  "tenant_key t = [Add_constraint (Uq_tenant_id_id t) t (Unique_key [Tenant_id, Id]),
     plain_index (Ix_tenant_created t) t [Tenant_id, At Created_at]]"

definition relationships_0002 :: "(table_name \<times> column_name \<times> table_name \<times> object_name) list" where
  "relationships_0002 =
    [(Conversations, Ref Contact_id, Contacts, Fk Fk_conversations_tenant_contact),
     (Knowledge_chunks, Ref Document_id, Knowledge_documents, Fk Fk_chunks_tenant_document),
     (Orders, Ref Contact_id, Contacts, Fk Fk_orders_tenant_contact),
     (Outcomes, Ref Order_id, Orders, Fk Fk_outcomes_tenant_order),
     (Dispute_evidence, Ref Order_id, Orders, Fk Fk_evidence_tenant_order),
     (Billable_results, Ref Outcome_id, Outcomes, Fk Fk_results_tenant_outcome),
     (Ledger_entries, Ref Billable_result_id, Billable_results, Fk Fk_ledger_tenant_result),
     (External_grants, Ref Membership_id, Memberships, Fk Fk_grants_tenant_membership)]"

definition upgrade_0002 :: "ddl list" where
  "upgrade_0002 = columns_0002 @ tables_0002 @ concat (map tenant_key tenant_tables_0002) @
     map (\<lambda>(child, child_id, parent, n).
       Add_constraint n child (Foreign_key [Tenant_id, child_id] parent [Tenant_id, Id])) relationships_0002 @
     [Create_function False Reject_tenant_change_fn (trigger_routine Reject_tenant_change)] @
     concat (map (\<lambda>t. tenant_trigger t # rls_0002 t) tenant_tables_0002) @
     [Create_function False Reject_audit_mutation_fn (trigger_routine Reject_audit_mutation),
      Create_trigger Audit_events \<lparr>tg_name = (Trg_append_only Audit_events),
        tg_events = Before_update_or_delete, tg_function = Reject_audit_mutation_fn\<rparr>]"

definition downgrade_0002 :: "ddl list" where
  "downgrade_0002 =
     [Drop_trigger True (Trg_append_only Audit_events) Audit_events,
      Drop_function True Reject_audit_mutation_fn] @
     map (\<lambda>(t, n). Drop_constraint n t)
       [(External_grants, Fk Fk_grants_tenant_membership), (Ledger_entries, Fk Fk_ledger_tenant_result),
        (Billable_results, Fk Fk_results_tenant_outcome), (Dispute_evidence, Fk Fk_evidence_tenant_order),
        (Outcomes, Fk Fk_outcomes_tenant_order), (Orders, Fk Fk_orders_tenant_contact),
        (Knowledge_chunks, Fk Fk_chunks_tenant_document), (Conversations, Fk Fk_conversations_tenant_contact)] @
     map (\<lambda>t. Drop_trigger True (Trg_tenant_immutable t) t) (rev tenant_tables_0002) @
     [Drop_function True Reject_tenant_change_fn] @
     concat (map (\<lambda>t. [Drop_index (Ix_tenant_created t), Drop_constraint (Uq_tenant_id_id t) t])
       (take 10 tenant_tables_0002)) @
     concat (map (\<lambda>t. [Drop_policy_if_exists t Tenant_isolation, Disable_rls t]) [Memberships, Knowledge_documents]) @
     map (\<lambda>t. Drop_tables [t]) [Audit_events, External_grants, Api_keys, Invitations] @
     [Drop_tables [Oidc_identities], Drop_constraint (Ck Ck_memberships_role) Memberships] @
     map (\<lambda>n. Drop_constraint n Tenants) [Ck Ck_tenants_version, Ck Ck_tenants_currency, Ck Ck_tenants_country_code] @
     map (Drop_column Tenants) [Num Version, Tag Business_type, At Timezone, Tag Locale, Tag Currency, Tag Country_code]"


section \<open>0003: the event pipeline\<close>

definition tables_list_0003 :: "table_name list" where
  "tables_list_0003 = [Integration_endpoints, Integration_secret_versions, Webhook_receipts,
     Canonical_events, Outbox_jobs, Job_attempts, Csv_imports, Csv_import_errors, Event_replays,
     Reconciliation_runs, Reconciliation_anomalies, Worker_heartbeats]"

definition base_columns :: "element list" where
  "base_columns = [column_of Id Uuid, Con None (Primary_key [Id]), column_of (At Created_at) Timestamptz,
     column_of Tenant_id Uuid, refers_id Tenant_id Tenants, Con None (Unique_key [Tenant_id, Id])]"

definition protect :: "table_name \<Rightarrow> bool \<Rightarrow> ddl list" where
  "protect t append_only =
    [Add_constraint (Uq_tenant_id_id t) t (Unique_key [Tenant_id, Id]),
     plain_index (Ix_tenant_created t) t [Tenant_id, At Created_at],
     Enable_rls t, Force_rls t, tenant_policy t, tenant_trigger t] @
    (if append_only then [Create_trigger t \<lparr>tg_name = Trg_append_only t,
       tg_events = Before_update_or_delete, tg_function = Reject_audit_mutation_fn\<rparr>] else [])"

definition ingress_tables :: "ddl list" where
  "ingress_tables =
    [Create_table Integration_endpoints (base_columns @
       [column_of (Item Provider) (Varchar 64), column_of (Item Name) (Varchar 120), column_of (Num Public_token_digest) Bytea,
        column_of (Tag Status) (Varchar 16), nullable (At Revoked_at) Timestamptz,
        unique_named (Uq Uq_integration_endpoints_token_digest) [Num Public_token_digest],
        unique_named (Uq Uq_endpoints_tenant_name) [Tenant_id, Item Provider, Item Name],
        check_named (Ck Ck_endpoints_status) [Tag Status] (One_of (Tag Status) [''active'', ''disabled'', ''revoked''])]),
     Create_table Integration_secret_versions (base_columns @
       [column_of (Ref Endpoint_id) Uuid, column_of (Num Version) Integer, column_of (Ref Key_id) (Varchar 128),
        column_of (Num Nonce) Bytea, column_of (Num Ciphertext) Bytea, column_of (At Not_before) Timestamptz,
        column_of (At Expires_at) Timestamptz, nullable (At Retired_at) Timestamptz,
        unique_named (Uq Uq_secret_versions) [Tenant_id, Ref Endpoint_id, Num Version],
        check_named (Ck Ck_secret_version_positive) [Num Version] (Positive (Num Version)),
        check_named (Ck Ck_secret_version_window) [At Expires_at, At Not_before] (Later (At Expires_at) (At Not_before)),
        refers_tenant (Fk Fk_secrets_tenant_endpoint) (Ref Endpoint_id) Integration_endpoints]),
     Create_table Webhook_receipts (base_columns @
       [column_of (Ref Endpoint_id) Uuid, column_of (Ref Provider_event_id) (Varchar 255), column_of (Num Payload_digest) Bytea,
        column_of (Item Object_key) (Varchar 1024), column_of (At Received_at) Timestamptz,
        unique_named (Uq Uq_receipts_provider_event) [Tenant_id, Ref Endpoint_id, Ref Provider_event_id],
        refers_tenant (Fk Fk_receipts_tenant_endpoint) (Ref Endpoint_id) Integration_endpoints]),
     Create_table Canonical_events (base_columns @
       [nullable (Ref Receipt_id) Uuid, column_of (Tag Event_type) (Varchar 120), column_of (Num Event_version) Integer,
        column_of (At Occurred_at) Timestamptz, column_of (Item Payload) Jsonb, column_of (Num Payload_digest) Bytea,
        unique_named (Uq Uq_events_receipt) [Tenant_id, Ref Receipt_id],
        refers_tenant (Fk Fk_events_tenant_receipt) (Ref Receipt_id) Webhook_receipts,
        check_named (Ck Ck_event_version_positive) [Num Event_version] (Positive (Num Event_version))])]"

definition job_tables :: "ddl list" where
  "job_tables =
    [Create_table Outbox_jobs (base_columns @
       [column_of (Ref Event_id) Uuid, column_of (Tag Kind) (Varchar 80), column_of (Tag State) (Varchar 16),
        column_of (At Available_at) Timestamptz, defaulted (Num Attempt_count) Integer (Literal_value ''0''), nullable (Item Lease_token) Uuid,
        nullable (At Lease_expires_at) Timestamptz, nullable (At Completed_at) Timestamptz,
        nullable (Tag Last_error_code) (Varchar 80),
        unique_named (Uq Uq_jobs_event_kind) [Tenant_id, Ref Event_id, Tag Kind],
        refers_tenant (Fk Fk_jobs_tenant_event) (Ref Event_id) Canonical_events,
        check_named (Ck Ck_jobs_state) [Tag State]
          (One_of (Tag State) [''pending'', ''leased'', ''retry'', ''completed'', ''dead'']),
        check_named (Ck Ck_jobs_attempt_count) [Num Attempt_count] (Not_negative [Num Attempt_count])]),
     plain_index (Ix Ix_outbox_jobs_claim) Outbox_jobs [Tag State, At Available_at],
     Create_table Job_attempts (base_columns @
       [column_of (Ref Job_id) Uuid, column_of (Num Attempt_number) Integer, column_of (Item Lease_token) Uuid,
        column_of (At Started_at) Timestamptz, nullable (At Finished_at) Timestamptz, nullable (Tag Outcome) (Varchar 16),
        nullable (Tag Error_code) (Varchar 80),
        unique_named (Uq Uq_job_attempt_number) [Tenant_id, Ref Job_id, Num Attempt_number],
        refers_tenant (Fk Fk_attempts_tenant_job) (Ref Job_id) Outbox_jobs,
        check_named (Ck Ck_attempt_number_positive) [Num Attempt_number] (Positive (Num Attempt_number)),
        check_named (Ck Ck_attempt_outcome) [Tag Outcome]
          (Null_or (Tag Outcome) (One_of (Tag Outcome) [''succeeded'', ''retry'', ''dead'', ''lease_lost'']))])]"

definition import_tables :: "ddl list" where
  "import_tables =
    [Create_table Csv_imports (base_columns @
       [column_of (Item Idempotency_key) (Varchar 255), column_of (Item Object_key) (Varchar 1024), column_of (Num Object_digest) Bytea,
        column_of (Tag State) (Varchar 16), defaulted (Num Total_rows) Integer (Literal_value ''0''), defaulted (Num Accepted_rows) Integer (Literal_value ''0''),
        defaulted (Num Rejected_rows) Integer (Literal_value ''0''),
        unique_named (Uq Uq_csv_import_idempotency) [Tenant_id, Item Idempotency_key],
        check_named (Ck Ck_csv_import_state) [Tag State]
          (One_of (Tag State) [''uploaded'', ''processing'', ''completed'', ''failed'']),
        check_named (Ck Ck_csv_import_counts) [Num Total_rows, Num Accepted_rows, Num Rejected_rows]
          (Not_negative [Num Total_rows, Num Accepted_rows, Num Rejected_rows])]),
     Create_table Csv_import_errors (base_columns @
       [column_of (Ref Import_id) Uuid, column_of (Num Row_number) Integer, column_of (Tag Code) (Varchar 80),
        column_of (Item Safe_message) (Varchar 500),
        unique_named (Uq Uq_csv_error) [Tenant_id, Ref Import_id, Num Row_number, Tag Code],
        refers_tenant (Fk Fk_csv_errors_tenant_import) (Ref Import_id) Csv_imports,
        check_named (Ck Ck_csv_error_row) [Num Row_number] (Positive (Num Row_number))])]"

definition operation_tables :: "ddl list" where
  "operation_tables =
    [Create_table Event_replays (base_columns @
       [column_of (Ref Source_event_id) Uuid, column_of (Ref Replay_event_id) Uuid, column_of (Ref Requested_by_user_id) Uuid,
        refers_id (Ref Requested_by_user_id) Users, column_of (Item Reason) (Varchar 500),
        unique_named (Uq Uq_event_replay_source) [Tenant_id, Ref Source_event_id],
        refers_tenant (Fk Fk_replays_tenant_source) (Ref Source_event_id) Canonical_events,
        refers_tenant (Fk Fk_replays_tenant_replay) (Ref Replay_event_id) Canonical_events]),
     Create_table Reconciliation_runs (base_columns @
       [column_of (Tag Kind) (Varchar 80), column_of (Tag State) (Varchar 16), column_of (At Started_at) Timestamptz,
        nullable (At Finished_at) Timestamptz, column_of (Item Summary) Jsonb,
        check_named (Ck Ck_reconciliation_state) [Tag State] (One_of (Tag State) [''running'', ''completed'', ''failed''])]),
     Create_table Reconciliation_anomalies (base_columns @
       [column_of (Ref Run_id) Uuid, column_of (Tag Code) (Varchar 80), column_of (Tag Resource_type) (Varchar 80),
        nullable (Ref Resource_id) Uuid, column_of (Item Safe_details) Jsonb,
        refers_tenant (Fk Fk_anomalies_tenant_run) (Ref Run_id) Reconciliation_runs]),
     Create_table Worker_heartbeats (base_columns @
       [column_of (Ref Worker_id) Uuid, column_of (At Observed_at) Timestamptz, column_of (Tag Status) (Varchar 16),
        unique_named (Uq Uq_worker_heartbeat) [Tenant_id, Ref Worker_id],
        check_named (Ck Ck_worker_status) [Tag Status] (One_of (Tag Status) [''starting'', ''healthy'', ''draining''])])]"

definition append_only_0003 :: "table_name list" where
  "append_only_0003 = [Webhook_receipts, Canonical_events, Job_attempts, Csv_import_errors,
     Event_replays, Reconciliation_anomalies]"

definition upgrade_0003 :: "ddl list" where
  "upgrade_0003 = ingress_tables @ job_tables @ import_tables @ operation_tables @
     concat (map (\<lambda>t. protect t (t \<in> set append_only_0003)) tables_list_0003)"

definition downgrade_0003 :: "ddl list" where
  "downgrade_0003 = map (\<lambda>t. Drop_tables [t]) (rev tables_list_0003)"

section \<open>0004 and 0005: the ingress resolver\<close>

definition resolver :: function_name where
  "resolver = Resolve_integration_endpoint"

definition resolver_as :: "routine \<Rightarrow> ddl list" where
  "resolver_as r = [Create_function False resolver \<lparr>fd_body = r, fd_rows_of = None, fd_definer = True\<rparr>,
     Revoke_public resolver, Grant_execute resolver Outcomeos_ingress]"

definition upgrade_0004 :: "ddl list" where
  "upgrade_0004 = Create_role Outcomeos_ingress # resolver_as Resolve_owner"

definition downgrade_0004 :: "ddl list" where
  "downgrade_0004 = [Drop_function True resolver, Drop_role True Outcomeos_ingress]"

definition upgrade_0005 :: "ddl list" where
  "upgrade_0005 = Drop_function False resolver # resolver_as Resolve_secrets"

definition downgrade_0005 :: "ddl list" where
  "downgrade_0005 = Drop_function False resolver # resolver_as Resolve_owner"

section \<open>0006 and 0007: the worker's functions\<close>

definition claim_function :: function_name where
  "claim_function = Outcomeos_claim_jobs"

definition finish_function :: function_name where
  "finish_function = Outcomeos_finish_job"

definition lost_function :: function_name where
  "lost_function = Outcomeos_lease_lost"

definition heartbeat_function :: function_name where
  "heartbeat_function = Outcomeos_worker_heartbeat"

definition worker_functions :: "function_name list" where
  "worker_functions = [claim_function, finish_function, lost_function, heartbeat_function]"

definition definer :: "routine \<Rightarrow> function_def" where
  "definer r = \<lparr>fd_body = r, fd_rows_of = None, fd_definer = True\<rparr>"

definition claim_as :: "routine \<Rightarrow> function_def" where
  "claim_as r = \<lparr>fd_body = r, fd_rows_of = Some Outbox_jobs, fd_definer = True\<rparr>"

definition text_column :: "table_name \<Rightarrow> column_name \<Rightarrow> sql_type \<Rightarrow> ddl" where
  "text_column t n ty = Add_column t \<lparr>co_name = n, co_type = ty, co_null = True, co_default = None\<rparr>"

definition unique_index :: "object_name \<Rightarrow> table_name \<Rightarrow> column_name list \<Rightarrow> ddl" where
  "unique_index n t cs = Create_index t \<lparr>ix_name = n, ix_columns = cs, ix_unique = True, ix_where = None\<rparr>"

definition upgrade_0006 :: "ddl list" where
  "upgrade_0006 =
    [Drop_constraint (Uq Uq_event_replay_source) Event_replays,
     Drop_trigger False (Trg_append_only Job_attempts) Job_attempts,
     Create_function False Finalize_attempt_only_fn (trigger_routine Finalize_attempt_only),
     Create_trigger Job_attempts \<lparr>tg_name = (Trg Trg_job_attempts_finalize), tg_events = Before_update,
       tg_function = Finalize_attempt_only_fn\<rparr>,
     Create_trigger Job_attempts \<lparr>tg_name = (Trg Trg_job_attempts_delete), tg_events = Before_delete,
       tg_function = Reject_audit_mutation_fn\<rparr>,
     text_column Event_replays (Item Idempotency_key) (Varchar 255), text_column Event_replays (Num Request_digest) Bytea,
     text_column Reconciliation_runs (Item Idempotency_key) (Varchar 255),
     text_column Reconciliation_runs (Num Request_digest) Bytea,
     unique_index (Ix Uq_replay_idempotency) Event_replays [Tenant_id, Item Idempotency_key],
     unique_index (Ix Uq_reconciliation_idempotency) Reconciliation_runs [Tenant_id, Item Idempotency_key],
     Create_role Outcomeos_worker,
     Create_function False claim_function (claim_as Claim_jobs),
     Create_function False finish_function (definer Finish_job),
     Create_function False lost_function (definer Lease_lost),
     Create_function False heartbeat_function (definer Worker_heartbeat)] @
    map Revoke_public worker_functions @ map (\<lambda>f. Grant_execute f Outcomeos_worker) worker_functions"

definition downgrade_0006 :: "ddl list" where
  "downgrade_0006 =
    [Drop_function False heartbeat_function, Drop_function False lost_function, Drop_function False finish_function,
     Drop_function False claim_function, Drop_role False Outcomeos_worker,
     Drop_index (Ix Uq_reconciliation_idempotency), Drop_index (Ix Uq_replay_idempotency),
     Drop_column Reconciliation_runs (Num Request_digest), Drop_column Reconciliation_runs (Item Idempotency_key),
     Drop_column Event_replays (Num Request_digest), Drop_column Event_replays (Item Idempotency_key),
     Drop_trigger False (Trg Trg_job_attempts_delete) Job_attempts,
     Drop_trigger False (Trg Trg_job_attempts_finalize) Job_attempts,
     Drop_function False Finalize_attempt_only_fn,
     Create_trigger Job_attempts \<lparr>tg_name = (Trg_append_only Job_attempts),
       tg_events = Before_update_or_delete, tg_function = Reject_audit_mutation_fn\<rparr>,
     Add_constraint (Uq Uq_event_replay_source) Event_replays (Unique_key [Tenant_id, Ref Source_event_id])]"

definition upgrade_0007 :: "ddl list" where
  "upgrade_0007 = [text_column Csv_imports (Num Request_digest) Bytea, Grant_role Outcomeos_worker,
     Create_function True claim_function (claim_as Claim_jobs_closing_lost)]"

definition downgrade_0007 :: "ddl list" where
  "downgrade_0007 = [Revoke_role Outcomeos_worker, Drop_column Csv_imports (Num Request_digest)]"


section \<open>0008 and 0009: contracts\<close>

definition generated_id :: "element list" where
  "generated_id = [defaulted Id Uuid Generated_uuid, Con None (Primary_key [Id])]"

definition created_now :: element where
  "created_now = defaulted (At Created_at) Timestamptz Clock_timestamp"

definition unique_of :: "column_name list \<Rightarrow> element" where
  "unique_of cs = Con None (Unique_key cs)"

definition column_check :: "column_name list \<Rightarrow> condition \<Rightarrow> element" where
  "column_check cs e = Con None (Check_that cs e)"

definition tenant_parent :: "column_name \<Rightarrow> table_name \<Rightarrow> element" where
  "tenant_parent child parent = Con None (Foreign_key [Tenant_id, child] parent [Tenant_id, Id])"

definition tables_list_0008 :: "table_name list" where
  "tables_list_0008 = [Performance_contracts, Outcome_rules, Outcome_rule_versions,
     Performance_contract_versions, Contract_party_acceptances, Contract_source_bindings]"

definition contract_tables :: "ddl list" where
  "contract_tables =
    [Create_table Performance_contracts (generated_id @ tenant_column @
       [defaulted (Tag State) Text (Literal_value ''draft''), column_check [Tag State] (One_of (Tag State) [''draft'', ''active'', ''suspended'', ''terminated'']),
        defaulted (Num Lock_version) Integer (Literal_value ''0''), column_check [Num Lock_version] (Not_negative [Num Lock_version]),
        column_of (Item Created_by) Uuid, created_now, unique_of [Tenant_id, Id]]),
     Create_table Outcome_rules (generated_id @ tenant_column @
       [column_of (Item Name) (Varchar 160), column_of (Item Created_by) Uuid, created_now,
        unique_of [Tenant_id, Id], unique_of [Tenant_id, Item Name]]),
     Create_table Outcome_rule_versions (generated_id @
       [column_of Tenant_id Uuid, column_of (Ref Rule_id) Uuid, column_of (Num Version) Integer,
        column_check [Num Version] (Positive (Num Version)), defaulted (Num Schema_version) Integer (Literal_value ''1''),
        column_check [Num Schema_version] (Positive (Num Schema_version)), column_of (Ref Template_id) Text,
        column_check [Ref Template_id] (One_of (Ref Template_id) [''delivered_paid_order'', ''attended_booking'',
          ''qualified_lead_accepted'', ''paid_activated_subscription'']),
        column_of (Item Definition) Jsonb, nullable (Item Canonical_document) Text, nullable (Num Digest) (Char_of 64),
        defaulted (Tag State) Text (Literal_value ''draft''), column_check [Tag State] (One_of (Tag State) [''draft'', ''published'', ''retired'']),
        column_of (Item Created_by) Uuid, nullable (Item Published_by) Uuid, created_now, nullable (At Published_at) Timestamptz,
        unique_of [Tenant_id, Id], unique_of [Tenant_id, Ref Rule_id, Num Version],
        tenant_parent (Ref Rule_id) Outcome_rules])]"

definition version_table :: ddl where
  "version_table = Create_table Performance_contract_versions (generated_id @
     [column_of Tenant_id Uuid, column_of (Ref Contract_id) Uuid, column_of (Num Version) Integer,
      column_check [Num Version] (Positive (Num Version)), defaulted (Num Schema_version) Integer (Literal_value ''1''),
      column_check [Num Schema_version] (Positive (Num Schema_version)), column_of (Item Display_name) (Varchar 160),
      nullable (Item Description) (Varchar 2000), column_of (Item Required_party_roles) Jsonb, column_of (Ref Rule_version_id) Uuid,
      column_of (At Contract_timezone) (Varchar 64), column_of (Tag Currency) (Char_of 3), column_of (Tag Pricing_model) Text,
      column_check [Tag Pricing_model] (One_of (Tag Pricing_model) [''fixed_fee'', ''basis_points'']),
      nullable (Num Fixed_fee_minor) BigInteger, nullable (Num Rate_basis_points) Integer, nullable (Num Floor_minor) BigInteger,
      nullable (Num Cap_minor) BigInteger, column_of (Tag Anchor_event_type) (Varchar 160),
      column_of (At Attribution_window_seconds) Integer,
      column_check [At Attribution_window_seconds] (Not_negative [At Attribution_window_seconds]),
      column_of (At Evaluation_window_seconds) Integer,
      column_check [At Evaluation_window_seconds] (Not_negative [At Evaluation_window_seconds]),
      column_of (At Finalization_window_seconds) Integer,
      column_check [At Finalization_window_seconds] (Not_negative [At Finalization_window_seconds]),
      column_of (At Effective_start) Timestamptz, nullable (At Effective_end) Timestamptz, column_of (Item Terms) Jsonb,
      nullable (Item Canonical_document) Text, nullable (Num Digest) (Char_of 64), defaulted (Tag State) Text (Literal_value ''draft''),
      column_check [Tag State] (One_of (Tag State) [''draft'', ''proposed'', ''active'', ''superseded'', ''withdrawn'']),
      column_of (Item Created_by) Uuid, created_now,
      column_check [At Effective_end, At Effective_start] (Null_or (At Effective_end) (Later (At Effective_end) (At Effective_start))),
      column_check [Tag Pricing_model, Num Fixed_fee_minor, Num Rate_basis_points, Num Floor_minor, Num Cap_minor] Pricing_terms,
      unique_of [Tenant_id, Id], unique_of [Tenant_id, Ref Contract_id, Num Version],
      tenant_parent (Ref Contract_id) Performance_contracts, tenant_parent (Ref Rule_version_id) Outcome_rule_versions])"

definition consent_tables :: "ddl list" where
  "consent_tables =
    [Create_index Performance_contract_versions \<lparr>ix_name = (Ix One_active_contract_version),
       ix_columns = [Tenant_id, Ref Contract_id], ix_unique = True, ix_where = Some (One_of (Tag State) [''active''])\<rparr>,
     Create_table Contract_party_acceptances (generated_id @
       [column_of Tenant_id Uuid, column_of (Ref Contract_version_id) Uuid, column_of (Num Digest) (Char_of 64),
        column_of (Tag Party_role) (Varchar 64), column_of (Ref Principal_id) Uuid, column_of (At Accepted_at) Timestamptz,
        unique_of [Tenant_id, Ref Contract_version_id, Num Digest, Tag Party_role],
        tenant_parent (Ref Contract_version_id) Performance_contract_versions]),
     Create_table Contract_source_bindings (generated_id @
       [column_of Tenant_id Uuid, column_of (Ref Contract_id) Uuid, column_of (Tag Source_type) (Varchar 64),
        column_of (Ref Source_id) (Varchar 255), column_of (At Effective_start) Timestamptz,
        nullable (At Effective_end) Timestamptz, column_of (Item Created_by) Uuid, created_now,
        column_check [At Effective_end, At Effective_start] (Null_or (At Effective_end) (Later (At Effective_end) (At Effective_start))),
        unique_of [Tenant_id, Id], tenant_parent (Ref Contract_id) Performance_contracts]),
     plain_index (Ix Contract_selection_idx) Contract_source_bindings
       [Tenant_id, Tag Source_type, Ref Source_id, At Effective_start, At Effective_end],
     plain_index (Ix Contract_list_idx) Performance_contracts [Tenant_id, At Created_at, Id],
     plain_index (Ix Rule_list_idx) Outcome_rules [Tenant_id, At Created_at, Id]]"

definition history_trigger :: "object_name \<Rightarrow> table_name \<Rightarrow> ddl" where
  "history_trigger n t = Create_trigger t \<lparr>tg_name = n, tg_events = Before_update_or_delete,
     tg_function = Protect_contract_history_fn\<rparr>"

definition upgrade_0008 :: "ddl list" where
  "upgrade_0008 = contract_tables @ [version_table] @ consent_tables @
    [Create_function False Protect_contract_history_fn (trigger_routine Protect_contract_history),
     history_trigger (Trg Immutable_rule_versions) Outcome_rule_versions,
     history_trigger (Trg Immutable_contract_versions) Performance_contract_versions,
     history_trigger (Trg Immutable_acceptances) Contract_party_acceptances,
     history_trigger (Trg Contract_lifecycle) Performance_contracts] @
    concat (map (\<lambda>t. [tenant_trigger t, Enable_rls t, Force_rls t, tenant_policy t]) tables_list_0008)"

definition downgrade_0008 :: "ddl list" where
  "downgrade_0008 = map (\<lambda>t. Drop_tables [t]) (rev tables_list_0008) @ [Drop_function False Protect_contract_history_fn]"

definition management_tables :: "ddl list" where
  "management_tables =
    [Create_table Contract_command_results (generated_id @ tenant_column @
       [column_of (Item Idempotency_key) (Varchar 200), column_of (Num Request_digest) (Char_of 64), column_of (Item Response) Jsonb,
        created_now, unique_of [Tenant_id, Id], unique_of [Tenant_id, Item Idempotency_key]]),
     Create_table Contract_domain_outbox (generated_id @ tenant_column @
       [column_of (Tag Event_type) (Varchar 100), column_of (Tag Aggregate_type) (Varchar 64), nullable (Ref Aggregate_id) Uuid,
        column_of (Ref Actor_id) Uuid, column_of (Tag Actor_type) (Varchar 16), column_of (Item Metadata) Jsonb, created_now,
        unique_of [Tenant_id, Id]]),
     Create_table Contract_party_authorities (generated_id @ tenant_column @
       [column_of (Ref Contract_id) Uuid, column_of (Tag Party_role) (Varchar 64), column_of (Ref Principal_id) Uuid, created_now,
        unique_of [Tenant_id, Id], unique_of [Tenant_id, Ref Contract_id, Tag Party_role, Ref Principal_id],
        tenant_parent (Ref Contract_id) Performance_contracts])]"

definition upgrade_0009 :: "ddl list" where
  "upgrade_0009 = [Create_extension Btree_gist] @ management_tables @
    [Add_constraint (Uq No_overlapping_source_bindings) Contract_source_bindings
       (Exclusion [Tenant_id, Tag Source_type, Ref Source_id] ((At Effective_start), At Effective_end))] @
    concat (map (\<lambda>t. [tenant_trigger t, Enable_rls t, Force_rls t, tenant_policy t])
      [Contract_command_results, Contract_domain_outbox, Contract_party_authorities])"

definition downgrade_0009 :: "ddl list" where
  "downgrade_0009 = [Drop_constraint (Uq No_overlapping_source_bindings) Contract_source_bindings,
     Drop_tables [Contract_party_authorities, Contract_domain_outbox, Contract_command_results]]"

section \<open>The chain and the commands\<close>

record migration =
  mg_revision :: string
  mg_down_revision :: "string option"
  mg_upgrade :: "ddl list"
  mg_downgrade :: "ddl list"

definition migration_chain :: "migration list" where
  "migration_chain =
    [\<lparr>mg_revision = ''20260804_0001'', mg_down_revision = None,
       mg_upgrade = upgrade_0001, mg_downgrade = downgrade_0001\<rparr>,
     \<lparr>mg_revision = ''20260808_0002'', mg_down_revision = Some ''20260804_0001'',
       mg_upgrade = upgrade_0002, mg_downgrade = downgrade_0002\<rparr>,
     \<lparr>mg_revision = ''20260814_0003'', mg_down_revision = Some ''20260808_0002'',
       mg_upgrade = upgrade_0003, mg_downgrade = downgrade_0003\<rparr>,
     \<lparr>mg_revision = ''20260814_0004'', mg_down_revision = Some ''20260814_0003'',
       mg_upgrade = upgrade_0004, mg_downgrade = downgrade_0004\<rparr>,
     \<lparr>mg_revision = ''20260814_0005'', mg_down_revision = Some ''20260814_0004'',
       mg_upgrade = upgrade_0005, mg_downgrade = downgrade_0005\<rparr>,
     \<lparr>mg_revision = ''20260815_0006'', mg_down_revision = Some ''20260814_0005'',
       mg_upgrade = upgrade_0006, mg_downgrade = downgrade_0006\<rparr>,
     \<lparr>mg_revision = ''20260815_0007'', mg_down_revision = Some ''20260815_0006'',
       mg_upgrade = upgrade_0007, mg_downgrade = downgrade_0007\<rparr>,
     \<lparr>mg_revision = ''20260815_0008'', mg_down_revision = Some ''20260815_0007'',
       mg_upgrade = upgrade_0008, mg_downgrade = downgrade_0008\<rparr>,
     \<lparr>mg_revision = ''20260815_0009'', mg_down_revision = Some ''20260815_0008'',
       mg_upgrade = upgrade_0009, mg_downgrade = downgrade_0009\<rparr>]"

text \<open>
  \<open>scripts/validate_migrations.py\<close>: at least one migration, and one revision that is nobody's
  predecessor.  The texts of the files are parsed already.
\<close>

definition validate_migrations :: "migration list \<Rightarrow> string option" where
  "validate_migrations ms =
     (case remdups (filter (\<lambda>r. Some r \<notin> set (map mg_down_revision ms)) (map mg_revision ms)) of
        [h] \<Rightarrow> Some h
      | _ \<Rightarrow> None)"

text \<open>
  A database is at a revision, or at none.  Alembic finds the migration to run by the links: up from
  the revision it is the predecessor of, down from the revision it has.  Without one it does nothing.
\<close>

record database =
  sd_revision :: "string option"
  sd_catalog :: catalog

definition fresh_database :: database where
  "fresh_database = \<lparr>sd_revision = None, sd_catalog = empty_catalog\<rparr>"

datatype move = Up | Down

fun migrate :: "move \<Rightarrow> database \<Rightarrow> ddl_error + database" where
  "migrate Up d = (case find (\<lambda>m. mg_down_revision m = sd_revision d) migration_chain of
     None \<Rightarrow> Inr d
   | Some m \<Rightarrow> ebind (execute_all (mg_upgrade m) (sd_catalog d)) (\<lambda>c.
       Inr \<lparr>sd_revision = Some (mg_revision m), sd_catalog = c\<rparr>))"
| "migrate Down d = (case find (\<lambda>m. Some (mg_revision m) = sd_revision d) migration_chain of
     None \<Rightarrow> Inr d
   | Some m \<Rightarrow> ebind (execute_all (mg_downgrade m) (sd_catalog d)) (\<lambda>c.
       Inr \<lparr>sd_revision = mg_down_revision m, sd_catalog = c\<rparr>))"

fun migrate_all :: "move list \<Rightarrow> database \<Rightarrow> ddl_error + database" where
  "migrate_all [] d = Inr d"
| "migrate_all (v # vs) d = ebind (migrate v d) (migrate_all vs)"

text \<open>One command runs its migrations in one transaction.\<close>

definition run_migrations_online :: "move list \<Rightarrow> database \<Rightarrow> (ddl_error + unit) \<times> database" where
  "run_migrations_online vs d = (case migrate_all vs d of Inl e \<Rightarrow> (Inl e, d) | Inr d' \<Rightarrow> (Inr (), d'))"

fun run_commands :: "move list list \<Rightarrow> database \<Rightarrow> (ddl_error + unit) list \<times> database" where
  "run_commands [] d = ([], d)"
| "run_commands (vs # vss) d = (case run_migrations_online vs d of (r, d') \<Rightarrow>
     (case run_commands vss d' of (rs, d'') \<Rightarrow> (r # rs, d'')))"

end
