(* ===== verification/MigrationRuns.thy ===== *)
theory MigrationRuns
  imports Migrations
begin

text \<open>
  The migrations computed on an empty catalog: the catalog at each revision, what a downgrade leaves
  behind, what it takes to isolate tenants, and the chain, evaluated once.
\<close>

section \<open>The catalog at each revision\<close>

primrec built :: "nat \<Rightarrow> catalog" where
  "built 0 = empty_catalog"
| "built (Suc k) = (case execute_all (mg_upgrade (migration_chain ! k)) (built k) of Inl e \<Rightarrow> built k | Inr c \<Rightarrow> c)"

definition revision_at :: "nat \<Rightarrow> string option" where
  "revision_at k = (if k = 0 then None else Some (mg_revision (migration_chain ! (k - 1))))"

text \<open>
  What a downgrade leaves behind: 0002 does not take back FORCE from the two tables it protected first,
  0007 leaves its version of the claim function, 0009 its extension.
\<close>

definition still_forced :: "catalog \<Rightarrow> catalog" where
  "still_forced c = set_tables (map (\<lambda>(t, td). (t, if t \<in> {Memberships, Knowledge_documents} then td\<lparr>tb_forced := True\<rparr> else td))
     (ct_tables c)) c"

definition still_closing :: "catalog \<Rightarrow> catalog" where
  "still_closing c = c\<lparr>ct_functions := map (\<lambda>(f, d). (f, if f = Outcomeos_claim_jobs then claim_as Claim_jobs_closing_lost else d))
     (ct_functions c)\<rparr>"

definition left_behind :: "migration \<Rightarrow> catalog \<Rightarrow> catalog" where
  "left_behind m c =
     (if mg_revision m = ''20260808_0002'' then still_forced c
      else if mg_revision m = ''20260815_0007'' then still_closing c
      else if mg_revision m = ''20260815_0009'' then with_gist c
      else c)"

definition leaves_more :: "migration \<Rightarrow> bool" where
  "leaves_more m \<longleftrightarrow> mg_revision m \<in> {''20260808_0002'', ''20260815_0007''}"

section \<open>What isolates tenants\<close>

definition tenant_owned :: "table_def \<Rightarrow> bool" where
  "tenant_owned td \<longleftrightarrow> Tenant_id \<in> set (column_names td)"

definition row_protected :: "table_name \<times> table_def \<Rightarrow> bool" where
  "row_protected x \<longleftrightarrow> tb_rls (snd x) \<and> tb_forced (snd x) \<and>
     tb_policies (snd x) = [(Tenant_isolation, Is_tenant_setting Tenant_id)] \<and>
     \<lparr>tg_name = Trg_tenant_immutable (fst x), tg_events = Before_update_of_tenant_id,
       tg_function = Reject_tenant_change_fn\<rparr> \<in> tb_triggers (snd x)"

fun tenant_paired :: "table_name \<Rightarrow> column_name \<Rightarrow> constraint_def \<Rightarrow> bool" where
  "tenant_paired t n (Foreign_key cs p ps) = (p = t \<and> cs = [Tenant_id, n] \<and> ps = [Tenant_id, Id])"
| "tenant_paired t n _ = False"

text \<open>A reference to a row of a tenant also refers to its tenant, in this or in another constraint.\<close>

fun reference_kept :: "table_list \<Rightarrow> (object_name option \<times> constraint_def) set \<Rightarrow> constraint_def \<Rightarrow> bool" where
  "reference_kept ts ks (Foreign_key cs p ps) =
     (list_all (\<lambda>x. fst x \<noteq> p \<or> \<not> tenant_owned (snd x)) ts \<or> (\<exists>k \<in> ks. tenant_paired p (last cs) (snd k)))"
| "reference_kept ts ks _ = True"

definition references_kept :: "table_list \<Rightarrow> table_def \<Rightarrow> bool" where
  "references_kept ts td \<longleftrightarrow> (\<forall>k \<in> tb_constraints td. reference_kept ts (tb_constraints td) (snd k))"

text \<open>Functions that run as their owner are executable by the roles they are for, and by nobody else.\<close>

definition meant_for :: "function_name \<Rightarrow> role_name" where
  "meant_for f = (if f = Resolve_integration_endpoint then Outcomeos_ingress else Outcomeos_worker)"

definition definers_granted :: "catalog \<Rightarrow> bool" where
  "definers_granted c \<longleftrightarrow> (\<forall>x \<in> set (ct_functions c). fd_definer (snd x) \<longrightarrow>
     (\<forall>g \<in> ct_executes c. fst g = fst x \<longrightarrow> snd g = Role_named (meant_for (fst x))))"

definition triggers_defined :: "catalog \<Rightarrow> bool" where
  "triggers_defined c \<longleftrightarrow> map_of (ct_functions c) Reject_tenant_change_fn = Some (trigger_routine Reject_tenant_change)"

definition isolates :: "catalog \<Rightarrow> bool" where
  "isolates c \<longleftrightarrow> triggers_defined c \<and> definers_granted c \<and>
     list_all (\<lambda>x. tenant_owned (snd x) \<longrightarrow> row_protected x \<and> references_kept (ct_tables c) (snd x)) (ct_tables c)"

section \<open>The computed run\<close>

text \<open>
  A segment of the chain, with the migration and the catalog before it: every upgrade succeeds, its
  downgrade restores what was there with its leftover, and where the leftover shows, the upgrade and
  the downgrade before it do not see it.
\<close>

definition returns :: "migration \<Rightarrow> catalog \<Rightarrow> migration \<Rightarrow> catalog \<Rightarrow> catalog \<Rightarrow> bool" where
  "returns p b m c c' \<longleftrightarrow> execute_all (mg_downgrade m) c' = Inr (left_behind m c) \<and>
     (if leaves_more m then execute_all (mg_upgrade m) (left_behind m c) = Inr c' \<and>
        execute_all (mg_downgrade p) (left_behind m c) = Inr (left_behind p b) else True)"

fun segment :: "(catalog \<Rightarrow> bool) \<Rightarrow> migration \<Rightarrow> catalog \<Rightarrow> migration list \<Rightarrow> catalog \<Rightarrow> bool"
  and segment_next :: "(catalog \<Rightarrow> bool) \<Rightarrow> migration \<Rightarrow> catalog \<Rightarrow> migration \<Rightarrow> migration list \<Rightarrow> catalog \<Rightarrow>
    ddl_error + catalog \<Rightarrow> bool" where
  "segment P p b [] c = P c"
| "segment P p b (m # ms) c = segment_next P p b m ms c (execute_all (mg_upgrade m) c)"
| "segment_next P p b m ms c (Inl e) = False"
| "segment_next P p b m ms c (Inr c') = (returns p b m c c' \<and> segment P m c ms c')"

definition at_head :: "catalog \<Rightarrow> bool" where
  "at_head c \<longleftrightarrow> Btree_gist \<in> ct_extensions c \<and> isolates c"

text \<open>The whole chain, evaluated once.\<close>

lemma chain: "segment at_head (migration_chain ! 0) empty_catalog migration_chain empty_catalog"
  by code_simp

end
