(* ===== verification/MigrationFacts.thy ===== *)
theory MigrationFacts
  imports MigrationRuns Settings
begin

text \<open>
  What the migrations do to the schema: every sequence of alembic commands succeeds on a database
  without rows, a downgrade restores the catalog up to three leftovers, and the catalog of the head
  isolates tenants.  By induction over the commands from the chain computed in \<open>MigrationRuns\<close>.
\<close>

section \<open>One step of the chain\<close>

definition linked :: "nat \<Rightarrow> bool" where
  "linked k \<longleftrightarrow> execute_all (mg_upgrade (migration_chain ! k)) (built k) = Inr (built (Suc k)) \<and>
     returns (migration_chain ! (k - 1)) (built (k - 1)) (migration_chain ! k) (built k) (built (Suc k))"

lemma segment_step:
  assumes "segment P p b (m # ms) (built k)" "m = migration_chain ! k"
  shows "execute_all (mg_upgrade m) (built k) = Inr (built (Suc k)) \<and>
    returns p b m (built k) (built (Suc k)) \<and> segment P m (built k) ms (built (Suc k))"
  using assms by (cases "execute_all (mg_upgrade m) (built k)") auto

lemma segment_linked:
  assumes "segment P (migration_chain ! (k - 1)) (built (k - 1)) (drop k migration_chain) (built k)" "k \<le> 9"
  shows "(\<forall>j. k \<le> j \<longrightarrow> j < 9 \<longrightarrow> linked j) \<and> P (built 9)"
  using assms(2,1)
proof (induction k rule: inc_induct)
  case base
  then show ?case by (simp add: migration_chain_def)
next
  case (step k)
  have len: "length migration_chain = 9" by (simp add: migration_chain_def)
  then have "drop k migration_chain = migration_chain ! k # drop (Suc k) migration_chain"
    using step.hyps by (simp add: Cons_nth_drop_Suc)
  with step.prems have s: "execute_all (mg_upgrade (migration_chain ! k)) (built k) = Inr (built (Suc k)) \<and>
      returns (migration_chain ! (k - 1)) (built (k - 1)) (migration_chain ! k) (built k) (built (Suc k)) \<and>
      segment P (migration_chain ! k) (built k) (drop (Suc k) migration_chain) (built (Suc k))"
    using segment_step by metis
  then have "linked k" by (simp add: linked_def)
  moreover have "(\<forall>j. Suc k \<le> j \<longrightarrow> j < 9 \<longrightarrow> linked j) \<and> P (built 9)"
    using step.IH s by (simp del: built.simps)
  ultimately show ?case using le_eq_less_or_eq Suc_le_eq by metis
qed

lemma all_linked: "k < 9 \<Longrightarrow> linked k" and head_built: "at_head (built 9)"
  using segment_linked [of at_head 0] chain by simp_all

lemma revisions:
  "mg_revision (migration_chain ! 0) = ''20260804_0001''" "mg_revision (migration_chain ! Suc 0) = ''20260808_0002''"
  "mg_revision (migration_chain ! 2) = ''20260814_0003''" "mg_revision (migration_chain ! 3) = ''20260814_0004''"
  "mg_revision (migration_chain ! 4) = ''20260814_0005''" "mg_revision (migration_chain ! 5) = ''20260815_0006''"
  "mg_revision (migration_chain ! 6) = ''20260815_0007''" "mg_revision (migration_chain ! 7) = ''20260815_0008''"
  "mg_revision (migration_chain ! 8) = ''20260815_0009''"
  by (simp_all add: migration_chain_def)

lemma versions_count: "length migration_chain = 9"
  by (simp add: migration_chain_def)

lemma below_9: "k < 9 \<longleftrightarrow> k = 0 \<or> k = 1 \<or> k = 2 \<or> k = 3 \<or> k = 4 \<or> k = 5 \<or> k = 6 \<or> k = 7 \<or> (k::nat) = 8"
  by arith

text \<open>The catalogs a revision can have: as built or with a leftover, with or without the extension.\<close>

definition variants :: "nat \<Rightarrow> catalog set" where
  "variants k = (if k < 9 \<and> leaves_more (migration_chain ! k) then {built k, left_behind (migration_chain ! k) (built k)} else {built k})"

lemma upgrade_variant:
  assumes "k < 9" "c \<in> variants k"
  shows "execute_all (mg_upgrade (migration_chain ! k)) c = Inr (built (Suc k))"
  using all_linked [OF assms(1)] assms by (auto simp: linked_def returns_def variants_def split: if_splits)

lemma downgrade_built:
  assumes "k < 9"
  shows "execute_all (mg_downgrade (migration_chain ! k)) (built (Suc k)) = Inr (left_behind (migration_chain ! k) (built k))"
  using all_linked [OF assms] by (simp add: linked_def returns_def)

lemma downgrade_variant:
  assumes "k < 9" "c \<in> variants (Suc k)"
  shows "execute_all (mg_downgrade (migration_chain ! k)) c = Inr (left_behind (migration_chain ! k) (built k))"
proof (cases "c = built (Suc k)")
  case False
  with assms have "Suc k < 9" "leaves_more (migration_chain ! Suc k)" "c = left_behind (migration_chain ! Suc k) (built (Suc k))"
    by (auto simp: variants_def split: if_splits)
  with all_linked [of "Suc k"] show ?thesis by (simp add: linked_def returns_def del: built.simps)
qed (use downgrade_built [OF assms(1)] in simp)

lemma left_behind_variant:
  "k < 9 \<Longrightarrow> left_behind (migration_chain ! k) (built k) \<in> variants k \<union> with_gist ` variants k"
proof (cases "k = 8")
  case False
  assume "k < 9"
  with False show ?thesis
    by (cases "leaves_more (migration_chain ! k)")
      (auto simp: variants_def left_behind_def leaves_more_def below_9 revisions)
qed (simp add: variants_def left_behind_def revisions leaves_more_def)

lemma gist_free_upgrades:
  assumes "k < 8"
  shows "list_all (\<lambda>d. \<not> about_gist d) (mg_upgrade (migration_chain ! k))"
proof -
  have "list_all (\<lambda>m. list_all (\<lambda>d. \<not> about_gist d) (mg_upgrade m)) (take 8 migration_chain)" by code_simp
  moreover have "migration_chain ! k \<in> set (take 8 migration_chain)"
    using assms nth_mem [of k "take 8 migration_chain"] by (simp add: versions_count)
  ultimately show ?thesis unfolding list_all_iff [where xs = "take 8 migration_chain"] by blast
qed

lemma gist_free_downgrades:
  assumes "k < 9"
  shows "list_all (\<lambda>d. \<not> about_gist d) (mg_downgrade (migration_chain ! k))"
proof -
  have "list_all (\<lambda>m. list_all (\<lambda>d. \<not> about_gist d) (mg_downgrade m)) migration_chain" by code_simp
  moreover have "migration_chain ! k \<in> set migration_chain" using assms by (simp add: versions_count)
  ultimately show ?thesis unfolding list_all_iff [where xs = migration_chain] by blast
qed

section \<open>Commands\<close>

text \<open>The databases the commands reach.\<close>

definition remains :: "database \<Rightarrow> bool" where
  "remains d \<longleftrightarrow> (\<exists>k \<le> 9. sd_revision d = revision_at k \<and> sd_catalog d \<in> variants k \<union> with_gist ` variants k)"

lemma links:
  assumes "k < 9"
  shows "find (\<lambda>m. mg_down_revision m = revision_at k) migration_chain = Some (migration_chain ! k)"
    and "find (\<lambda>m. Some (mg_revision m) = revision_at (Suc k)) migration_chain = Some (migration_chain ! k)"
    and "mg_down_revision (migration_chain ! k) = revision_at k"
  using assms unfolding below_9 by (elim disjE; simp add: revision_at_def migration_chain_def)+

lemma chain_ends:
  "find (\<lambda>m. mg_down_revision m = revision_at 9) migration_chain = None"
  "find (\<lambda>m. Some (mg_revision m) = revision_at 0) migration_chain = None"
  by (simp_all add: revision_at_def migration_chain_def)

lemma upgrade_kept:
  assumes "k < 9" "c \<in> variants k \<union> with_gist ` variants k"
  shows "\<exists>c'. execute_all (mg_upgrade (migration_chain ! k)) c = Inr c' \<and> c' \<in> variants (Suc k) \<union> with_gist ` variants (Suc k)"
proof -
  have built: "built (Suc k) \<in> variants (Suc k)" by (simp add: variants_def)
  from assms(2) consider (plain) "c \<in> variants k" | (gist) c0 where "c = with_gist c0" "c0 \<in> variants k" by blast
  then show ?thesis
  proof cases
    case plain
    with upgrade_variant [OF assms(1)] built show ?thesis by blast
  next
    case gist
    show ?thesis
    proof (cases "k = 8")
      case True
      have "execute_all upgrade_0009 (with_gist c0) = execute_all upgrade_0009 c0"
        by (simp add: upgrade_0009_def)
      with True gist upgrade_variant [OF assms(1) gist(2)] built show ?thesis
        by (auto simp: migration_chain_def)
    next
      case False
      with gist assms(1) upgrade_variant [OF assms(1) gist(2)] built show ?thesis
        by (auto simp: execute_all_gist [OF gist_free_upgrades] simp del: built.simps)
    qed
  qed
qed

lemma downgrade_kept:
  assumes "k < 9" "c \<in> variants (Suc k) \<union> with_gist ` variants (Suc k)"
  shows "\<exists>c'. execute_all (mg_downgrade (migration_chain ! k)) c = Inr c' \<and> c' \<in> variants k \<union> with_gist ` variants k"
proof -
  note left = left_behind_variant [OF assms(1)]
  from assms(2) consider (plain) "c \<in> variants (Suc k)" | (gist) c0 where "c = with_gist c0" "c0 \<in> variants (Suc k)" by blast
  then show ?thesis
  proof cases
    case plain
    with downgrade_variant [OF assms(1)] left show ?thesis by blast
  next
    case gist
    then have "execute_all (mg_downgrade (migration_chain ! k)) c = Inr (with_gist (left_behind (migration_chain ! k) (built k)))"
      by (simp add: execute_all_gist [OF gist_free_downgrades [OF assms(1)]] downgrade_variant [OF assms(1)])
    with left show ?thesis by auto
  qed
qed

lemma remainsI: "k \<le> 9 \<Longrightarrow> c \<in> variants k \<union> with_gist ` variants k \<Longrightarrow> remains \<lparr>sd_revision = revision_at k, sd_catalog = c\<rparr>"
  by (auto simp: remains_def)

lemma migrate_remains:
  assumes "remains d"
  shows "\<exists>d'. migrate v d = Inr d' \<and> remains d'"
proof -
  from assms obtain k where k: "k \<le> 9" "sd_revision d = revision_at k"
    "sd_catalog d \<in> variants k \<union> with_gist ` variants k"
    unfolding remains_def by blast
  show ?thesis
  proof (cases v)
    case Up
    show ?thesis
    proof (cases "k < 9")
      case True
      from upgrade_kept [OF True k(3)] obtain c' where "execute_all (mg_upgrade (migration_chain ! k)) (sd_catalog d) = Inr c'"
        "c' \<in> variants (Suc k) \<union> with_gist ` variants (Suc k)" by blast
      moreover have "Some (mg_revision (migration_chain ! k)) = revision_at (Suc k)" by (simp add: revision_at_def)
      ultimately show ?thesis using True Up k(2) remainsI [of "Suc k" c'] by (simp add: links)
    qed (use Up k assms in \<open>simp add: chain_ends\<close>)
  next
    case Down
    show ?thesis
    proof (cases k)
      case (Suc j)
      with k(1) have j: "j < 9" by simp
      from downgrade_kept [OF this] k(3) Suc obtain c' where
        "execute_all (mg_downgrade (migration_chain ! j)) (sd_catalog d) = Inr c'" "c' \<in> variants j \<union> with_gist ` variants j"
        by blast
      with j Down Suc k(2) remainsI [of j c'] show ?thesis by (simp add: links)
    qed (use Down k assms in \<open>simp add: chain_ends\<close>)
  qed
qed

lemma migrate_all_remains: "remains d \<Longrightarrow> \<exists>d'. migrate_all vs d = Inr d' \<and> remains d'"
proof (induction vs arbitrary: d)
  case (Cons v vs)
  then show ?case using migrate_remains [of d v] by fastforce
qed simp

lemma run_commands_remains:
  "remains d \<Longrightarrow> list_all is_ok (fst (run_commands vss d)) \<and> remains (snd (run_commands vss d))"
proof (induction vss arbitrary: d)
  case (Cons vs vss)
  from migrate_all_remains [OF Cons.prems, of vs] obtain d' where d: "migrate_all vs d = Inr d'" "remains d'" by blast
  from Cons.IH [OF d(2)] d(1) show ?case
    by (cases "run_commands vss d'") (simp add: run_migrations_online_def)
qed simp

lemma fresh_remains: "remains fresh_database"
  using remainsI [of 0 empty_catalog] by (simp add: fresh_database_def revision_at_def variants_def)


section \<open>The properties\<close>

lemma head_revision:
  assumes "k \<le> 9" "revision_at k = Some migration_head"
  shows "k = 9"
proof (rule ccontr)
  assume "k \<noteq> 9"
  with assms(1) have "k < 9" by simp
  then show False
    using assms(2) unfolding below_9 by (elim disjE) (simp_all add: revision_at_def migration_head_def migration_chain_def)
qed

lemma head_variants: "variants 9 \<union> with_gist ` variants 9 = {built 9}"
  using head_built with_gist_id [of "built 9"] by (auto simp: variants_def at_head_def)

lemma upgrades_to: "k \<le> 9 \<Longrightarrow> migrate_all (replicate k Up) fresh_database = Inr \<lparr>sd_revision = revision_at k, sd_catalog = built k\<rparr>"
proof -
  have run: "migrate_all (replicate j Up) \<lparr>sd_revision = revision_at k, sd_catalog = built k\<rparr> =
      Inr \<lparr>sd_revision = revision_at (k + j), sd_catalog = built (k + j)\<rparr>" if "k + j \<le> 9" for j k
    using that
  proof (induction j arbitrary: k)
    case (Suc j)
    then have k: "k < 9" by simp
    have "Some (mg_revision (migration_chain ! k)) = revision_at (Suc k)" by (simp add: revision_at_def)
    moreover have "execute_all (mg_upgrade (migration_chain ! k)) (built k) = Inr (built (Suc k))"
      using all_linked [OF k] by (simp add: linked_def)
    ultimately show ?case using Suc.IH [of "Suc k"] Suc.prems by (simp add: links [OF k] del: built.simps)
  qed simp
  assume "k \<le> 9"
  with run [of 0 k] show ?thesis by (simp add: fresh_database_def revision_at_def [of 0])
qed

text \<open>
  C25. On a database without rows every sequence of alembic commands, up and down in any order, succeeds;
  after it the schema is the one its revision has after upgrades alone, except for what three
  downgrades leave behind: FORCE on two tables at 0001, the later claim function at 0006, the extension
  \<open>btree_gist\<close> below 0009.  The chain has one head, the one that readiness expects.
\<close>

theorem migrations_reversible:
  "list_all is_ok (fst (run_commands vss fresh_database)) \<and>
   remains (snd (run_commands vss fresh_database)) \<and>
   validate_migrations migration_chain = Some migration_head"
proof -
  have "validate_migrations migration_chain = Some migration_head" by code_simp
  with run_commands_remains [OF fresh_remains, of vss] show ?thesis by simp
qed

text \<open>
  C12. Whatever commands led a database to the head: every table with a tenant has forced row-level
  security with the tenant policy and the trigger that keeps the tenant of a row, every reference from
  it to a row of a tenant is paired with the tenant, and the functions that run as their owner are
  executable by the roles they are meant for and by nobody else.
\<close>

theorem deployed_schema_isolates:
  assumes "sd_revision (snd (run_commands vss fresh_database)) = Some migration_head"
  shows "isolates (sd_catalog (snd (run_commands vss fresh_database)))"
proof -
  from run_commands_remains [OF fresh_remains, of vss] obtain k where k: "k \<le> 9"
    "sd_revision (snd (run_commands vss fresh_database)) = revision_at k"
    "sd_catalog (snd (run_commands vss fresh_database)) \<in> variants k \<union> with_gist ` variants k"
    unfolding remains_def by blast
  with head_revision assms have "k = 9" by simp
  with k(3) head_variants head_built show ?thesis by (simp add: at_head_def del: built.simps)
qed

theorem deployed_schema_isolates_witness:
  "sd_revision (snd (run_commands [replicate 9 Up] fresh_database)) = Some migration_head \<and>
   isolates (sd_catalog (snd (run_commands [replicate 9 Up] fresh_database)))"
proof -
  have "run_commands [replicate 9 Up] fresh_database =
      ([Inr ()], \<lparr>sd_revision = revision_at 9, sd_catalog = built 9\<rparr>)"
    using upgrades_to [of 9] by (simp add: run_migrations_online_def del: built.simps replicate.simps)
  then have "sd_revision (snd (run_commands [replicate 9 Up] fresh_database)) = Some migration_head"
    by (simp add: revision_at_def migration_head_def revisions)
  with deployed_schema_isolates [of "[replicate 9 Up]"] show ?thesis by blast
qed

end
