(* ===== verification/SecretScan.thy ===== *)
theory SecretScan
  imports OutcomePrelude "HOL-Library.Product_Lexorder"
begin

text \<open>
  The gate of continuous integration on committed secrets, \<open>scripts/check_secret_scan.py\<close>: a scan
  passes when a review of the baseline cleared every one of its findings.  The two files are given as
  the parsed documents of detect-secrets, whose findings may lack any of the keys.
\<close>

record scan_finding =
  sf_type :: "string option"
  sf_hashed_secret :: "string option"
  sf_line_number :: "int option"
  sf_is_secret :: "bool option"

type_synonym scan_results = "(string \<times> scan_finding list) list"

definition load_results :: "scan_results option \<Rightarrow> scan_results" where
  "load_results data = (case data of None \<Rightarrow> [] | Some r \<Rightarrow> r)"

definition key_of :: "string \<Rightarrow> 'a option \<Rightarrow> exn + 'a" where
  "key_of k v = (case v of None \<Rightarrow> Inl (KeyError k) | Some x \<Rightarrow> Inr x)"

definition identity :: "string \<Rightarrow> scan_finding \<Rightarrow> exn + string \<times> string \<times> string" where
  "identity filename f = ebind (key_of ''type'' (sf_type f)) (\<lambda>t.
     ebind (key_of ''hashed_secret'' (sf_hashed_secret f)) (\<lambda>h. Inr (filename, t, h)))"

definition flat_findings :: "scan_results \<Rightarrow> (string \<times> scan_finding) list" where
  "flat_findings r = concat (map (\<lambda>(filename, fs). map (Pair filename) fs) r)"

definition reviewed_of :: "scan_results \<Rightarrow> exn + (string \<times> string \<times> string) list" where
  "reviewed_of baseline = mapM (\<lambda>(filename, f). identity filename f)
     (filter (\<lambda>x. sf_is_secret (snd x) = Some False) (flat_findings baseline))"

definition unreviewed_of :: "(string \<times> string \<times> string) list \<Rightarrow> scan_results \<Rightarrow> exn + (string \<times> scan_finding) list" where
  "unreviewed_of reviewed scan = filterM (\<lambda>(filename, f).
     ebind (identity filename f) (\<lambda>i. Inr (i \<notin> set reviewed))) (flat_findings scan)"

definition report_key :: "string \<times> scan_finding \<Rightarrow> exn + string \<times> int \<times> string" where
  "report_key x = ebind (key_of ''line_number'' (sf_line_number (snd x))) (\<lambda>l.
     ebind (key_of ''type'' (sf_type (snd x))) (\<lambda>t. Inr (fst x, l, t)))"

definition report_line :: "string \<times> int \<times> string \<Rightarrow> string" where
  "report_line k = (case k of (filename, l, t) \<Rightarrow> filename @ '':'' @ int_str l @ '': '' @ t)"

text \<open>The exit status and the lines written, without the two headings.\<close>

definition secret_scan :: "scan_results option \<Rightarrow> scan_results option \<Rightarrow> exn + nat \<times> string list" where
  "secret_scan baseline scan =
     ebind (reviewed_of (load_results baseline)) (\<lambda>reviewed.
     ebind (unreviewed_of reviewed (load_results scan)) (\<lambda>unreviewed.
       if unreviewed = [] then Inr (0, [])
       else ebind (mapM report_key unreviewed) (\<lambda>ks. Inr (1, map report_line (sort ks)))))"

definition secret_scan_main :: "string list \<Rightarrow> (string \<Rightarrow> exn + scan_results option) \<Rightarrow> exn + nat \<times> string list" where
  "secret_scan_main argv read =
     (if length argv \<noteq> 3 then Inr (2, [''usage: check_secret_scan.py BASELINE SCAN''])
      else ebind (read (argv ! 1)) (\<lambda>baseline. ebind (read (argv ! 2)) (\<lambda>scan. secret_scan baseline scan)))"

lemma identity_Inr:
  "identity n f = Inr i \<longleftrightarrow> (\<exists>t h. sf_type f = Some t \<and> sf_hashed_secret f = Some h \<and> i = (n, t, h))"
  by (cases "sf_type f"; cases "sf_hashed_secret f") (auto simp: identity_def key_of_def)

text \<open>
  The scan passes exactly when every finding has a type and a hash that the baseline holds for the same
  file in a finding reviewed as no secret.
\<close>

definition cleared :: "scan_results \<Rightarrow> string \<times> scan_finding \<Rightarrow> bool" where
  "cleared baseline x \<longleftrightarrow> (\<exists>f t h. (fst x, f) \<in> set (flat_findings baseline) \<and> sf_is_secret f = Some False \<and>
     sf_type f = Some t \<and> sf_type (snd x) = Some t \<and>
     sf_hashed_secret f = Some h \<and> sf_hashed_secret (snd x) = Some h)"

lemma reviewed_of_set:
  assumes "reviewed_of b = Inr r"
  shows "(n, t, h) \<in> set r \<longleftrightarrow> (\<exists>f. (n, f) \<in> set (flat_findings b) \<and> sf_is_secret f = Some False \<and>
    sf_type f = Some t \<and> sf_hashed_secret f = Some h)"
proof -
  define xs where "xs = filter (\<lambda>x. sf_is_secret (snd x) = Some False) (flat_findings b)"
  have "list_all2 (\<lambda>x i. identity (fst x) (snd x) = Inr i) xs r"
    using assms by (simp add: reviewed_of_def mapM_Inr xs_def case_prod_unfold)
  then have "(n, t, h) \<in> set r \<longleftrightarrow> (\<exists>x \<in> set xs. identity (fst x) (snd x) = Inr (n, t, h))"
    by (induction xs r rule: list_all2_induct) auto
  then show ?thesis by (auto simp: xs_def identity_Inr)
qed

theorem secret_scan_passes:
  assumes "reviewed_of (load_results b) = Inr r"
  shows "secret_scan b s = Inr (0, []) \<longleftrightarrow> (\<forall>x \<in> set (flat_findings (load_results s)). cleared (load_results b) x)"
proof -
  have ok: "cleared (load_results b) x \<longleftrightarrow> (\<exists>i. identity (fst x) (snd x) = Inr i \<and> i \<in> set r)" for x
    by (auto simp: cleared_def identity_Inr reviewed_of_set [OF assms])
  define p where "p = (\<lambda>x. ebind (identity (fst x) (snd x)) (\<lambda>i. Inr (i \<notin> set r) :: exn + bool))"
  have un: "unreviewed_of r xs = filterM p (flat_findings xs)" for xs
    by (simp add: unreviewed_of_def p_def case_prod_unfold)
  have passes: "filterM p xs = Inr [] \<longleftrightarrow> (\<forall>x \<in> set xs. p x = Inr False)" for xs
    by (induction xs) (auto simp: ebind_eq_Inr split: if_splits)
  have "secret_scan b s = Inr (0, []) \<longleftrightarrow> filterM p (flat_findings (load_results s)) = Inr []"
    by (auto simp: secret_scan_def assms un ebind_eq_Inr split: if_splits)
  also have "\<dots> \<longleftrightarrow> (\<forall>x \<in> set (flat_findings (load_results s)). p x = Inr False)"
    by (rule passes)
  finally show ?thesis by (auto simp: ok p_def ebind_eq_Inr)
qed

text \<open>The report does not depend on the hashes of the findings it reports.\<close>

theorem secret_scan_redacted:
  assumes "mapM report_key xs = Inr ks"
  shows "mapM report_key (map (\<lambda>(n, f). (n, f\<lparr>sf_hashed_secret := h\<rparr>)) xs) = Inr ks"
proof -
  have "report_key (n, f\<lparr>sf_hashed_secret := h\<rparr>) = report_key (n, f)" for n f
    by (simp add: report_key_def)
  with assms show ?thesis
    by (induction xs arbitrary: ks) (auto simp: ebind_eq_Inr)
qed

end
