(* ===== verification/Spec2Isabelle.thy ===== *)
theory Spec2Isabelle
  imports Evaluator ContractRefinement JobRunnerFacts DeliverySamples ImportFacts SandboxApi SettingsFacts DemoFacts Grounding MigrationFacts
    SecretScan
begin

text \<open>
  A verification development of OutcomeOS, a multi-tenant platform that turns signed provider
  events into outcomes that are billed under performance contracts.  Paths are relative to
  \<open>apps/api/src/outcomeos_api\<close>, migrations are those of \<open>apps/api/migrations/versions\<close>.

  \<^bold>\<open>The program and the theories\<close>

  The program has six parts, which share a PostgreSQL database whose constraints and triggers
  carry much of its correctness.

  \<^item> \<^bold>\<open>Contracts.\<close>  A tenant publishes rule versions and proposes contract versions; the parties
    accept their digest; an accepted version is activated and supersedes its predecessor.
    \<open>Json\<close> has the documents, printer, reader and digests of \<open>contracts/domain.py\<close>, \<open>Money\<close> has
    \<open>common/money.py\<close> and \<open>common/regional.py\<close>, \<open>Contracts\<close> the domain objects of
    \<open>contracts/domain.py\<close>, \<open>ContractDb\<close> the tables and triggers of migrations 0008 and 0009 with the
    queries of \<open>contracts/repositories.py\<close>, \<open>ContractService\<close> the commands of
    \<open>contracts/service.py\<close>, \<open>ContractApi\<close> the routes of \<open>contracts/api.py\<close> and the relation
    \<open>served\<close> between databases.  \<open>ContractFacts\<close> proves the properties of the service and
    \<open>ContractRefinement\<close> relates it to the domain objects, which are its abstract specification.
  \<^item> \<^bold>\<open>Outcomes.\<close>  \<open>OutcomeStates\<close> has \<open>outcomes/state_machine.py\<close>, \<open>Evaluator\<close> has
    \<open>outcomes/templates.py\<close> and \<open>outcomes/evaluator.py\<close> with the meaning of a verdict.
  \<^item> \<^bold>\<open>The event pipeline.\<close>  A webhook or a CSV file becomes receipts, events and jobs, which a
    worker leases.  \<open>PipelineDb\<close> has the tables of migrations 0003 and 0006, \<open>JobQueue\<close> the SQL
    functions of migrations 0006 and 0007, \<open>JobRunner\<close> the worker's rounds (\<open>jobs/service.py\<close>,
    \<open>worker.py\<close>), \<open>Events\<close> the schemas of \<open>events/schemas.py\<close>, \<open>Signatures\<close> has
    \<open>ingestion/signatures.py\<close>, \<open>Integrations\<close> the package \<open>integrations\<close> and the resolver of migration
    0005, \<open>Storage\<close> has \<open>storage/objects.py\<close>, \<open>Ingestion\<close> has \<open>ingestion/api.py\<close>, \<open>Csv\<close> and \<open>CsvApi\<close> the
    package \<open>imports\<close>, \<open>Handlers\<close> the three job handlers, \<open>Operations\<close> has \<open>events/operations.py\<close>.
    \<open>JobQueueFacts\<close>, \<open>JobRunnerFacts\<close>, \<open>EventFacts\<close>, \<open>IntegrationFacts\<close>, \<open>PipelineFacts\<close>, \<open>EventLife\<close>,
    \<open>DeliveryFacts\<close> and \<open>ImportFacts\<close> prove its properties over the step relation \<open>pipeline_step\<close>,
    which interleaves all requests, handlers and queue functions; \<open>DeliverySamples\<close> runs it once.
  \<^item> \<^bold>\<open>Tenants and access.\<close>  \<open>Tenancy\<close> has \<open>tenancy.py\<close> over \<open>Base64\<close>, the codec of the standard
    library; \<open>CoreSchema\<close> the tables of \<open>models.py\<close> as migrations 0001 and 0002 create them, row-level
    security, and the repository of \<open>repositories.py\<close>; \<open>Access\<close> the package \<open>auth\<close>, the principals of
    \<open>db.py\<close> and the guards of the four routers; \<open>CoreFacts\<close> and \<open>AccessFacts\<close> their properties.
    \<open>Settings\<close> has \<open>config.py\<close>, \<open>build_runner\<close> of \<open>worker.py\<close> and \<open>create_app\<close> of \<open>main.py\<close> with
    readiness and worker health; \<open>SettingsFacts\<close> what accepted settings guarantee of all of these.
  \<^item> \<^bold>\<open>The demo.\<close>  \<open>Sandbox\<close> has \<open>mvp.py\<close>, with the objects its answers share on a small heap, \<open>SandboxApi\<close>
    the routes of \<open>main.py\<close> over it, \<open>SandboxFacts\<close> its properties.  \<open>DemoDomain\<close> has \<open>domain.py\<close>,
    \<open>DemoFacts\<close> its properties, \<open>Grounding\<close> has \<open>ai.py\<close>.

  \<^item> \<^bold>\<open>The schema.\<close>  \<open>Catalog\<close> has the catalog of the database and the statements that define it, \<open>Migrations\<close>
    the nine migrations as such statements with the commands that run them (\<open>migrations/env.py\<close>,
    \<open>scripts/validate_migrations.py\<close>), \<open>MigrationRuns\<close> their computed run and \<open>MigrationFacts\<close> its
    properties.  \<open>SecretScan\<close> has \<open>scripts/check_secret_scan.py\<close>.

  \<open>OutcomePrelude\<close> holds what they share (exceptions as sums, characters and numerals, identifiers,
  times, dictionaries), \<open>Transactions\<close> the transactions: state passing with errors that roll back,
  the invariants they preserve, rows with their constraints, the \<open>jsonb\<close> type.

  \<^bold>\<open>How the code is translated\<close>

  Dataclasses, rows and request bodies are records with the source's fields, enumerations are
  datatypes.  An operation returns a sum with the error on the left; \<open>exn\<close> has the exceptions of
  the domain, the adapters have their own error types.  A request is a function from the database
  to an answer and the next database, and a request that raises leaves the database as it was.
  Every SQL constraint and trigger is an error branch of the statement that may violate it; the
  identifiers of the schema are enumerations in \<open>Catalog\<close>.  A
  text is a list of characters below 256 and a byte string is one too; Python's integers are
  unbounded, the integers of the database are range-checked (\<open>int4\<close>, \<open>int8\<close>); times are
  microseconds since 1970, and adding to them overflows after the year 9999.  Clock readings and
  random identifiers are arguments.  Concurrency is interleaving of transactions; the rows that
  other transactions lock are an argument of the claim.

  \<^bold>\<open>Parameters and hypotheses\<close>

  SHA-256 and HMAC (\<open>hash\<close>, \<open>hmac\<close>; injectivity is never assumed, collisions are mentioned where
  they matter), AES-GCM (\<open>gcm\<close>, with \<open>aead\<close> where a proof needs its documented behaviour), the S3
  client (\<open>s3_client\<close> with \<open>s3_laws\<close>), pydantic's scalar conversions (\<open>pydantic\<close>, with \<open>good_floats\<close>
  and \<open>faithful\<close>), the time zone database, PyJWT, the URL parser and the network, SQLAlchemy's
  engines, uuid5 and the language model are arguments.  Every property with a hypothesis on them
  has a witness with a concrete function.  The functions of the database that are SECURITY DEFINER
  run as an owner that bypasses row-level security.

  \<^bold>\<open>Interfaces\<close>

  Three contracts are locales.  \<open>command_log\<close> (\<open>Transactions\<close>) is the idempotency log that the
  contract service's commands rely on, interpreted on the table of migration 0009.
  \<open>job_source\<close> (\<open>JobRunnerFacts\<close>) is the queue as the worker sees it (what a claim hands out, what a
  finish does), interpreted on the SQL functions; the worker's guarantees are proved inside it.
  \<open>tenant_table\<close> (\<open>CoreFacts\<close>) is a tenant-owned table behind the repository, interpreted on
  thirteen tables; isolation between tenants is proved inside it.

  \<^bold>\<open>What is proved\<close>

  \<^item> Contracts: idempotent commands, isolation of tenants, consent behind every active version,
    immutability of proposed terms, published rules and acceptances, optimistic locking, the
    refinement of the domain objects, the selection of the effective contract.
  \<^item> Outcomes: when the evaluator returns and what its verdict means, that it depends neither on the
    order nor on the repetition of deliveries, that a final verdict stays; every run of the outcome
    machine ends within six steps.
  \<^item> Pipeline: the invariant of the queue under every interleaving, that a lost lease is powerless,
    what a claim takes, that retries are bounded for the configured worker with its real handlers
    and that a backlog drains, exactly-once ingestion, the round trip of an accepted event to the
    worker's digest check, the account of every CSV line, the completeness of reconciliation, the
    signatures and the rotation of secrets.
  \<^item> Access: keys and references of the core schema and the separation of its tenants, who the guards
    admit, issued keys, signed job contexts, tenant-prefixed keys, what a deployed application never
    does, and that the settings fit what is built from them.
  \<^item> Demo: one fee per tenant, the workflow's end in a billable outcome, the guard of every route,
    the agreement of the store of \<open>domain.py\<close> with its outbox, grounded answers.

  \<^item> Schema: every sequence of migration commands succeeds and is reversible up to three leftovers, and
    the schema of the head isolates tenants table by table.

  Some properties state what the code does against its intention: a replay is always rejected by
  the worker, worker health is blind under row-level security, source bindings can never be
  created, a repeated approval answers with a changed lead.

  \<^bold>\<open>Termination and bounds\<close>

  All definitions are total.  The JSON reader takes as fuel one more than the length of the text,
  which is enough since every level consumes a character (\<open>reads_back\<close>);
  reconciliation reads one page of at most 100 objects of the store, as the handler does.  The
  worker's loop is over the number of its rounds.  A claim takes at most 100 jobs for at most an
  hour, as the SQL clamps it.

  \<^bold>\<open>Not modelled\<close>

  FastAPI's routing and the serialisation of its answers, the CORS settings, the argument parsing,
  signals and sleeping of the worker process, reading the environment and the file of the settings;
  in the migrations the rows that a new constraint would have to check, the cascade options, alembic
  itself and its offline mode; code points above 255; the rounding of binary floats beyond their text;
  the limit on digits in JSON integers.  Outside \<open>apps/api\<close> and \<open>scripts\<close>: the web frontend, the shared
  JSON contracts, the deployment files and the tests.
\<close>

end
